(* ===== verification/Prelude.thy ===== *)
theory Prelude
  imports Main "HOL-Library.Word"
begin

text \<open>
  Shared vocabulary of the development: the fixed-width integers of the C++ code, the exceptions
  the library throws, and the outcome of an operation. An outcome is either a returned value
  (\<open>Inr\<close>) or a fault (\<open>Inl\<close>): a C++ exception in flight (\<open>Throw\<close>), the end of the process because an
  assertion failed or an exception left a \<open>noexcept\<close> function (\<open>Terminate\<close>), or undefined behaviour
  (\<open>Undef\<close>, for instance a dereferenced null pointer). Only \<open>Throw\<close> can be caught.

  The collections \<open>outc\<close> (composing outcomes) and \<open>wrd\<close> (reading words as numbers) are extended by
  the component theories.
\<close>

unbundle bit_operations_syntax

named_theorems outc "equations about outcomes"
named_theorems wrd "equations that read words as numbers"

type_synonym u8 = "8 word"
type_synonym u16 = "16 word"
type_synonym u32 = "32 word"
type_synonym u64 = "64 word"

text \<open>The exceptions of \<open>exception.hpp\<close> and those of the standard library that the code can meet:
  \<open>StdException\<close> stands for any other exception derived from \<open>std::exception\<close> and
  \<open>ForeignException\<close> for an exception of an unrelated type.\<close>

datatype exn =
    BadStatus u32
  | BadDisconnect
  | TypeError string
  | BadAlloc
  | BadVariantAccess string
  | OutOfRange string
  | StdException string
  | ForeignException nat

datatype fault = Throw exn | Terminate | Undef

type_synonym 'a outc = "fault + 'a"

abbreviation Ret :: "'a \<Rightarrow> 'a outc" where "Ret \<equiv> Inr"
abbreviation throw :: "exn \<Rightarrow> 'a outc" where "throw e \<equiv> Inl (Throw e)"

definition outc_bind :: "'a outc \<Rightarrow> ('a \<Rightarrow> 'b outc) \<Rightarrow> 'b outc" where
  "outc_bind m f = (case m of Inl e \<Rightarrow> Inl e | Inr x \<Rightarrow> f x)"

definition outc_map :: "('a \<Rightarrow> 'b) \<Rightarrow> 'a outc \<Rightarrow> 'b outc" where
  "outc_map f m = outc_bind m (\<lambda>x. Ret (f x))"

definition returns :: "'a outc \<Rightarrow> bool" where
  "returns m = (case m of Inl _ \<Rightarrow> False | Inr _ \<Rightarrow> True)"

lemma outc_bind_simps [simp, outc]:
  "outc_bind (Inl e) f = Inl e" "outc_bind (Inr x) f = f x"
  by (simp_all add: outc_bind_def)

lemma outc_map_simps [simp, outc]:
  "outc_map f (Inl e) = Inl e" "outc_map f (Inr x) = Inr (f x)"
  by (simp_all add: outc_map_def)

lemma returns_simps [simp, outc]:
  "returns (Inl e) = False" "returns (Inr x) = True"
  by (simp_all add: returns_def)

lemma outc_bind_assoc [outc]:
  "outc_bind (outc_bind m f) g = outc_bind m (\<lambda>x. outc_bind (f x) g)"
  by (cases m) simp_all

lemma outc_bind_Ret [simp, outc]: "outc_bind m Ret = m"
  by (cases m) simp_all

lemma outc_bind_eq_Ret [outc]: "outc_bind m f = Inr y \<longleftrightarrow> (\<exists>x. m = Inr x \<and> f x = Inr y)"
  by (cases m) simp_all

lemma outc_bind_eq_Fault [outc]:
  "outc_bind m f = Inl e \<longleftrightarrow> m = Inl e \<or> (\<exists>x. m = Inr x \<and> f x = Inl e)"
  by (cases m) simp_all

lemma returns_iff: "returns m \<longleftrightarrow> (\<exists>x. m = Inr x)"
  by (cases m) simp_all

text \<open>Running an operation over a list, stopping at the first fault: the shape of the
  \<open>std::transform\<close> and range-for loops whose body may throw.\<close>

fun mapM :: "('a \<Rightarrow> 'b outc) \<Rightarrow> 'a list \<Rightarrow> 'b list outc" where
  "mapM f [] = Ret []"
| "mapM f (x # xs) = outc_bind (f x) (\<lambda>y. outc_bind (mapM f xs) (\<lambda>ys. Ret (y # ys)))"

lemma mapM_Ret [simp, outc]: "mapM (\<lambda>x. Ret (f x)) xs = Ret (map f xs)"
  by (induction xs) simp_all

lemma mapM_eq_Ret:
  "mapM f xs = Ret ys \<longleftrightarrow> length ys = length xs \<and> (\<forall>i < length xs. f (xs ! i) = Ret (ys ! i))"
proof (induction xs arbitrary: ys)
  case (Cons x xs)
  show ?case
    by (cases ys) (auto simp: outc_bind_eq_Ret Cons.IH nth_Cons split: nat.splits)
qed auto

lemma mapM_cong: "(\<And>x. x \<in> set xs \<Longrightarrow> f x = g x) \<Longrightarrow> mapM f xs = mapM g xs"
  by (induction xs) simp_all

text \<open>The last element with a property is unique.\<close>

lemma last_occurrence_unique:
  assumes "pre @ e # post = pre' @ e' # post'" "P e" "P e'" "\<forall>x \<in> set post. \<not> P x" "\<forall>x \<in> set post'. \<not> P x"
  shows "e = e'"
  using assms
proof (induction pre arbitrary: pre')
  case Nil
  then show ?case by (cases pre') auto
next
  case (Cons a pre)
  then show ?case by (cases pre') auto
qed

text \<open>Stateful operations: a function from the state to an outcome and the new state. A fault keeps the
  state reached so far, as C++ does.\<close>

type_synonym ('s, 'a) op = "'s \<Rightarrow> 'a outc \<times> 's"

definition op_ret :: "'a \<Rightarrow> ('s, 'a) op" where
  "op_ret x = (\<lambda>s. (Ret x, s))"

definition op_fail :: "fault \<Rightarrow> ('s, 'a) op" where
  "op_fail e = (\<lambda>s. (Inl e, s))"

definition op_bind :: "('s, 'a) op \<Rightarrow> ('a \<Rightarrow> ('s, 'b) op) \<Rightarrow> ('s, 'b) op" where
  "op_bind m f = (\<lambda>s. case m s of (Inl e, s') \<Rightarrow> (Inl e, s') | (Inr x, s') \<Rightarrow> f x s')"

definition op_lift :: "'a outc \<Rightarrow> ('s, 'a) op" where
  "op_lift m = (\<lambda>s. (m, s))"

text \<open>Running a destructor when an exception unwinds the stack. \<open>Terminate\<close> and \<open>Undef\<close> do not unwind; an
  exception that leaves the destructor itself ends the process.\<close>

definition op_on_throw :: "('s, 'a) op \<Rightarrow> ('s, unit) op \<Rightarrow> ('s, 'a) op" where
  "op_on_throw m cleanup = (\<lambda>s. case m s of
      (Inl (Throw e), s') \<Rightarrow> (case cleanup s' of
          (Inr _, s'') \<Rightarrow> (Inl (Throw e), s'')
        | (Inl (Throw _), s'') \<Rightarrow> (Inl Terminate, s'')
        | (Inl f, s'') \<Rightarrow> (Inl f, s''))
    | r \<Rightarrow> r)"

lemma op_simps [simp, outc]:
  "op_ret x s = (Ret x, s)" "op_fail e s = (Inl e, s)" "op_lift m s = (m, s)"
  by (simp_all add: op_ret_def op_fail_def op_lift_def)

lemma op_bind_apply [outc]:
  "m s = (Inl e, s') \<Longrightarrow> op_bind m f s = (Inl e, s')"
  "m s = (Inr x, s') \<Longrightarrow> op_bind m f s = f x s'"
  by (simp_all add: op_bind_def)

lemma op_bind_simps [simp, outc]:
  "op_bind (op_ret x) f = f x" "op_bind (op_fail e) f = op_fail e" "op_bind m op_ret = m"
  by (auto simp: op_bind_def op_ret_def op_fail_def fun_eq_iff split: sum.splits prod.splits)

lemma op_bind_assoc [outc]:
  "op_bind (op_bind m f) g = op_bind m (\<lambda>x. op_bind (f x) g)"
  by (auto simp: op_bind_def fun_eq_iff split: sum.splits prod.splits)

lemma op_on_throw_apply [outc]:
  "m s = (Inl (Throw e), s') \<Longrightarrow> c s' = (Inr u, s'') \<Longrightarrow> op_on_throw m c s = (Inl (Throw e), s'')"
  "m s = (Inr x, s') \<Longrightarrow> op_on_throw m c s = (Inr x, s')"
  by (simp_all add: op_on_throw_def)

text \<open>Words: a length that fits its width is read back unchanged.\<close>

lemma unat_of_nat_fit [wrd]: "n < 2 ^ LENGTH('a) \<Longrightarrow> unat (of_nat n :: 'a::len word) = n"
  by (simp add: unat_of_nat)

lemma word_add_no_wrap [wrd]:
  fixes a b :: "'a::len word"
  assumes "unat a + unat b < 2 ^ LENGTH('a)"
  shows "unat (a + b) = unat a + unat b"
  using assms by (simp add: unat_word_ariths)

lemma unat_bound: "unat (w :: 'a::len word) < 2 ^ LENGTH('a)"
  by (rule unsigned_less)

lemma unat_max: "unat (w :: u64) \<le> 2 ^ 64 - 1"
  using unat_bound[of w] by simp

lemma word_eq_iff_unat: "a = b \<longleftrightarrow> unat a = unat (b::'a::len word)"
  by (simp add: word_unat_eq_iff)

end
