(* ===== verification/Status.thy ===== *)
theory Status
  imports Prelude
begin

text \<open>
  Status codes: \<open>exception.hpp\<close>, the class \<open>StatusCode\<close> of \<open>types.hpp\<close>. A status code is a 32-bit
  word whose two top bits are its severity. The numeric values below are those the OPC UA
  specification (Part 6, annex A) assigns; \<open>open62541\<close> generates its \<open>UA_STATUSCODE_*\<close> macros from the same
  table.
\<close>

section \<open>The codes the library names\<close>

definition UA_STATUSCODE_GOOD :: u32 where "UA_STATUSCODE_GOOD = 0"
definition UA_STATUSCODE_BADUNEXPECTEDERROR :: u32 where "UA_STATUSCODE_BADUNEXPECTEDERROR = 0x80010000"
definition UA_STATUSCODE_BADINTERNALERROR :: u32 where "UA_STATUSCODE_BADINTERNALERROR = 0x80020000"
definition UA_STATUSCODE_BADOUTOFMEMORY :: u32 where "UA_STATUSCODE_BADOUTOFMEMORY = 0x80030000"
definition UA_STATUSCODE_BADIDENTITYTOKENINVALID :: u32 where
  "UA_STATUSCODE_BADIDENTITYTOKENINVALID = 0x80200000"
definition UA_STATUSCODE_BADUSERACCESSDENIED :: u32 where "UA_STATUSCODE_BADUSERACCESSDENIED = 0x801F0000"
definition UA_STATUSCODE_BADSUBSCRIPTIONIDINVALID :: u32 where
  "UA_STATUSCODE_BADSUBSCRIPTIONIDINVALID = 0x80280000"
definition UA_STATUSCODE_BADNODEIDUNKNOWN :: u32 where "UA_STATUSCODE_BADNODEIDUNKNOWN = 0x80340000"
definition UA_STATUSCODE_BADNOTFOUND :: u32 where "UA_STATUSCODE_BADNOTFOUND = 0x803E0000"
definition UA_STATUSCODE_BADMONITOREDITEMIDINVALID :: u32 where
  "UA_STATUSCODE_BADMONITOREDITEMIDINVALID = 0x80420000"
definition UA_STATUSCODE_BADNOMATCH :: u32 where "UA_STATUSCODE_BADNOMATCH = 0x806F0000"
definition UA_STATUSCODE_BADDISCONNECT :: u32 where "UA_STATUSCODE_BADDISCONNECT = 0x80AD0000"

lemmas status_codes =
  UA_STATUSCODE_GOOD_def UA_STATUSCODE_BADUNEXPECTEDERROR_def UA_STATUSCODE_BADINTERNALERROR_def
  UA_STATUSCODE_BADOUTOFMEMORY_def UA_STATUSCODE_BADIDENTITYTOKENINVALID_def
  UA_STATUSCODE_BADUSERACCESSDENIED_def UA_STATUSCODE_BADSUBSCRIPTIONIDINVALID_def
  UA_STATUSCODE_BADNODEIDUNKNOWN_def UA_STATUSCODE_BADNOTFOUND_def
  UA_STATUSCODE_BADMONITOREDITEMIDINVALID_def UA_STATUSCODE_BADNOMATCH_def
  UA_STATUSCODE_BADDISCONNECT_def

section \<open>Severity\<close>

definition isGood :: "u32 \<Rightarrow> bool" where
  "isGood code = (drop_bit 30 code = 0)"

definition isUncertain :: "u32 \<Rightarrow> bool" where
  "isUncertain code = (drop_bit 30 code = 1)"

definition isBad :: "u32 \<Rightarrow> bool" where
  "isBad code = (drop_bit 30 code \<ge> 2)"

lemma isGood_unat [wrd]: "isGood code \<longleftrightarrow> unat code < 2 ^ 30"
  unfolding isGood_def word_eq_iff_unat[of _ 0] unat_drop_bit_eq by (auto simp: drop_bit_eq_div)

lemma isUncertain_unat [wrd]: "isUncertain code \<longleftrightarrow> 2 ^ 30 \<le> unat code \<and> unat code < 2 ^ 31"
  unfolding isUncertain_def word_eq_iff_unat[of _ 1] unat_drop_bit_eq by (auto simp: drop_bit_eq_div)

lemma isBad_unat [wrd]: "isBad code \<longleftrightarrow> 2 ^ 31 \<le> unat code"
  unfolding isBad_def word_le_nat_alt unat_drop_bit_eq by (auto simp: drop_bit_eq_div)

lemma not_isBad_iff: "\<not> isBad code \<longleftrightarrow> isGood code \<or> isUncertain code"
  by (auto simp: wrd)

lemma isGood_GOOD [simp]: "isGood UA_STATUSCODE_GOOD" "\<not> isBad UA_STATUSCODE_GOOD"
  by (simp_all add: wrd UA_STATUSCODE_GOOD_def)

lemma isBad_codes [simp]:
  "isBad UA_STATUSCODE_BADUNEXPECTEDERROR" "isBad UA_STATUSCODE_BADINTERNALERROR"
  "isBad UA_STATUSCODE_BADOUTOFMEMORY" "isBad UA_STATUSCODE_BADIDENTITYTOKENINVALID"
  "isBad UA_STATUSCODE_BADUSERACCESSDENIED" "isBad UA_STATUSCODE_BADSUBSCRIPTIONIDINVALID"
  "isBad UA_STATUSCODE_BADNODEIDUNKNOWN" "isBad UA_STATUSCODE_BADNOTFOUND"
  "isBad UA_STATUSCODE_BADMONITOREDITEMIDINVALID" "isBad UA_STATUSCODE_BADNOMATCH"
  "isBad UA_STATUSCODE_BADDISCONNECT"
  by (simp_all add: wrd status_codes)

section \<open>Exceptions and codes\<close>

text \<open>An \<open>exception_ptr\<close> is an optional exception. \<open>BadDisconnect\<close> derives from \<open>BadStatus\<close>, so the
  first handler takes it as well.\<close>

fun getStatusCode :: "exn option \<Rightarrow> u32" where
  "getStatusCode (Some (BadStatus code)) = code"
| "getStatusCode (Some BadDisconnect) = UA_STATUSCODE_BADDISCONNECT"
| "getStatusCode (Some BadAlloc) = UA_STATUSCODE_BADOUTOFMEMORY"
| "getStatusCode (Some _) = UA_STATUSCODE_BADINTERNALERROR"
| "getStatusCode None = UA_STATUSCODE_GOOD"

definition throwIfBad :: "u32 \<Rightarrow> unit outc" where
  "throwIfBad code =
     (if isBad code
      then (if code = UA_STATUSCODE_BADDISCONNECT then throw BadDisconnect else throw (BadStatus code))
      else Ret ())"

lemma throwIfBad_returns [simp, outc]: "throwIfBad code = Ret () \<longleftrightarrow> \<not> isBad code"
  by (simp add: throwIfBad_def)

lemma throwIfBad_good [simp, outc]: "\<not> isBad code \<Longrightarrow> throwIfBad code = Ret ()"
  by simp

lemma throwIfBad_throws:
  "isBad code \<Longrightarrow> \<exists>e. throwIfBad code = throw e \<and> getStatusCode (Some e) = code"
  by (simp add: throwIfBad_def)

text \<open>C++ exceptions that carry a status code carry a bad one, as every \<open>throw\<close> of the library does;
  the constructor of \<open>BadStatus\<close> itself takes any code.\<close>

fun proper_exn :: "exn \<Rightarrow> bool" where
  "proper_exn (BadStatus code) = isBad code"
| "proper_exn _ = True"

lemma proper_exn_code: "proper_exn e \<longleftrightarrow> isBad (getStatusCode (Some e))"
  by (cases e) simp_all

lemma throwIfBad_proper: "throwIfBad code = throw e \<Longrightarrow> proper_exn e"
  by (auto simp: throwIfBad_def split: if_splits)

end
