(* ===== verification/Results.thy ===== *)
theory Results
  imports Status
begin

text \<open>
  The class template \<open>Result<T>\<close> and its specialisation \<open>Result<void>\<close> (\<open>result.hpp\<close>), \<open>BadResult\<close>,
  and \<open>detail::tryInvoke\<close> (\<open>detail/result_utils.hpp\<close>). \<open>Result<T>\<close> is a status code and an optional value;
  nothing in its interface ties the two together, so the intended relation (\<open>wf_Result\<close>: no value
  means a bad code) is stated and shown to be kept by every combinator.
\<close>

section \<open>Data\<close>

record BadResult =
  br_code :: u32

record 'a Result =
  code :: u32
  maybeValue :: "'a option"

record VoidResult =
  vcode :: u32

text \<open>The constructor of \<open>BadResult\<close> asserts that its code is bad.\<close>

definition mkBadResult :: "u32 \<Rightarrow> BadResult outc" where
  "mkBadResult c = (if isBad c then Ret \<lparr>br_code = c\<rparr> else Inl Terminate)"

text \<open>Constructors of \<open>Result<T>\<close>: default (\<open>T{}\<close> is the argument), from a value and a code, and
  from a bad result.\<close>

definition Result_default :: "'a \<Rightarrow> 'a Result" where
  "Result_default dflt = \<lparr>code = UA_STATUSCODE_GOOD, maybeValue = Some dflt\<rparr>"

definition Result_of :: "'a \<Rightarrow> u32 \<Rightarrow> 'a Result" where
  "Result_of x c = \<lparr>code = c, maybeValue = Some x\<rparr>"

definition Result_bad :: "BadResult \<Rightarrow> 'a Result" where
  "Result_bad b = \<lparr>code = br_code b, maybeValue = None\<rparr>"

definition VoidResult_default :: VoidResult where
  "VoidResult_default = \<lparr>vcode = UA_STATUSCODE_GOOD\<rparr>"

definition VoidResult_code :: "u32 \<Rightarrow> VoidResult" where
  "VoidResult_code c = \<lparr>vcode = c\<rparr>"

definition VoidResult_bad :: "BadResult \<Rightarrow> VoidResult" where
  "VoidResult_bad b = \<lparr>vcode = br_code b\<rparr>"

section \<open>Observers\<close>

definition deref :: "'a Result \<Rightarrow> 'a outc" where
  "deref r = (case maybeValue r of Some x \<Rightarrow> Ret x | None \<Rightarrow> Inl Undef)"

definition hasValue :: "'a Result \<Rightarrow> bool" where
  "hasValue r = (maybeValue r \<noteq> None)"

definition resultIsBad :: "'a Result \<Rightarrow> bool" where
  "resultIsBad r = isBad (code r)"

definition checkIsBad :: "'a Result \<Rightarrow> unit outc" where
  "checkIsBad r = throwIfBad (code r)"

definition value_of :: "'a Result \<Rightarrow> 'a outc" where
  "value_of r = outc_bind (checkIsBad r) (\<lambda>_. deref r)"

definition valueOr :: "'a Result \<Rightarrow> 'a \<Rightarrow> 'a outc" where
  "valueOr r defaultValue = (if \<not> resultIsBad r then deref r else Ret defaultValue)"

definition void_hasValue :: "VoidResult \<Rightarrow> bool" where
  "void_hasValue r = (\<not> isBad (vcode r))"

definition void_value :: "VoidResult \<Rightarrow> unit outc" where
  "void_value r = throwIfBad (vcode r)"

section \<open>Combinators\<close>

text \<open>\<open>transformImpl\<close> for a value-returning function, which may throw, and for a \<open>void\<close> function; in the
  second case the code builds a fresh \<open>Result<void>\<close> and never calls the function.\<close>

definition transform :: "'a Result \<Rightarrow> ('a \<Rightarrow> 'b outc) \<Rightarrow> 'b Result outc" where
  "transform r func =
     (if hasValue r
      then outc_bind (deref r) (\<lambda>x. outc_bind (func x) (\<lambda>y. Ret (Result_of y (code r))))
      else outc_bind (mkBadResult (code r)) (\<lambda>b. Ret (Result_bad b)))"

definition transformVoid :: "'a Result \<Rightarrow> ('a \<Rightarrow> unit outc) \<Rightarrow> VoidResult outc" where
  "transformVoid r func =
     (if hasValue r then Ret VoidResult_default
      else outc_bind (mkBadResult (code r)) (\<lambda>b. Ret (VoidResult_bad b)))"

text \<open>\<open>andThenImpl\<close> for a callable of the value and the code, and for one of the value alone.\<close>

definition andThen2 :: "'a Result \<Rightarrow> ('a \<Rightarrow> u32 \<Rightarrow> 'b Result outc) \<Rightarrow> 'b Result outc" where
  "andThen2 r func =
     (if hasValue r then outc_bind (deref r) (\<lambda>x. func x (code r))
      else outc_bind (mkBadResult (code r)) (\<lambda>b. Ret (Result_bad b)))"

definition andThen :: "'a Result \<Rightarrow> ('a \<Rightarrow> 'b Result outc) \<Rightarrow> 'b Result outc" where
  "andThen r func =
     (if hasValue r then outc_bind (deref r) func
      else outc_bind (mkBadResult (code r)) (\<lambda>b. Ret (Result_bad b)))"

definition orElse :: "'a Result \<Rightarrow> (u32 \<Rightarrow> 'a Result outc) \<Rightarrow> 'a Result outc" where
  "orElse r func = (if hasValue r then Ret r else func (code r))"

text \<open>\<open>tryInvoke\<close> for callables that return a \<open>Result\<close>-compatible value, nothing, or a status code. Every
  exception becomes a \<open>BadResult\<close>, whose constructor asserts a bad code.\<close>

definition catch_all :: "'a outc \<Rightarrow> (exn \<Rightarrow> 'a outc) \<Rightarrow> 'a outc" where
  "catch_all m h = (case m of Inl (Throw e) \<Rightarrow> h e | Inl f \<Rightarrow> Inl f | Inr x \<Rightarrow> Inr x)"

definition tryInvoke :: "(unit \<Rightarrow> 'a outc) \<Rightarrow> 'a Result outc" where
  "tryInvoke func =
     catch_all (outc_bind (func ()) (\<lambda>x. Ret (Result_of x UA_STATUSCODE_GOOD)))
       (\<lambda>e. outc_bind (mkBadResult (getStatusCode (Some e))) (\<lambda>b. Ret (Result_bad b)))"

definition tryInvokeVoid :: "(unit \<Rightarrow> unit outc) \<Rightarrow> VoidResult outc" where
  "tryInvokeVoid func =
     catch_all (outc_bind (func ()) (\<lambda>_. Ret VoidResult_default))
       (\<lambda>e. outc_bind (mkBadResult (getStatusCode (Some e))) (\<lambda>b. Ret (VoidResult_bad b)))"

definition tryInvokeCode :: "(unit \<Rightarrow> u32 outc) \<Rightarrow> VoidResult outc" where
  "tryInvokeCode func =
     catch_all (outc_bind (func ()) (\<lambda>c. Ret (VoidResult_code c)))
       (\<lambda>e. outc_bind (mkBadResult (getStatusCode (Some e))) (\<lambda>b. Ret (VoidResult_bad b)))"

lemma catch_all_simps [simp, outc]:
  "catch_all (Inr x) h = Inr x" "catch_all (Inl (Throw e)) h = h e"
  "catch_all (Inl Terminate) h = Inl Terminate" "catch_all (Inl Undef) h = Inl Undef"
  by (simp_all add: catch_all_def)

section \<open>Well-formed results\<close>

definition wf_Result :: "'a Result \<Rightarrow> bool" where
  "wf_Result r = (maybeValue r = None \<longrightarrow> isBad (code r))"

definition proper_Result :: "'a Result \<Rightarrow> bool" where
  "proper_Result r = (maybeValue r = None \<longleftrightarrow> isBad (code r))"

lemma proper_wf: "proper_Result r \<Longrightarrow> wf_Result r"
  by (simp add: proper_Result_def wf_Result_def)

lemma mkBadResult_Ret [outc]: "mkBadResult c = Ret b \<longleftrightarrow> isBad c \<and> br_code b = c"
  by (cases b) (auto simp: mkBadResult_def)

lemma mkBadResult_bad [simp, outc]: "isBad c \<Longrightarrow> mkBadResult c = Ret \<lparr>br_code = c\<rparr>"
  by (simp add: mkBadResult_def)

lemma Result_sel [simp]:
  "code (Result_of x c) = c" "maybeValue (Result_of x c) = Some x"
  "code (Result_bad b) = br_code b" "maybeValue (Result_bad b) = None"
  "code (Result_default x) = UA_STATUSCODE_GOOD" "maybeValue (Result_default x) = Some x"
  by (simp_all add: Result_of_def Result_bad_def Result_default_def)

lemma Result_cases [case_names Value NoValue]:
  obtains (Value) x where "r = Result_of x (code r)" "maybeValue r = Some x"
  | (NoValue) "maybeValue r = None"
  by (cases r; cases "maybeValue r") (auto simp: Result_of_def)

lemma hasValue_simps [simp]:
  "hasValue (Result_of x c)" "\<not> hasValue (Result_bad b)"
  by (simp_all add: hasValue_def)

lemma deref_value [simp, outc]: "deref (Result_of x c) = Ret x"
  by (simp add: deref_def)

lemma Result_bad_eq: "maybeValue r = None \<Longrightarrow> Result_bad \<lparr>br_code = code r\<rparr> = r"
  by (cases r) (simp add: Result_bad_def)

lemma transform_value [simp, outc]:
  "transform (Result_of x c) func = outc_bind (func x) (\<lambda>y. Ret (Result_of y c))"
  by (simp add: transform_def)

lemma transform_none [simp, outc]:
  "maybeValue r = None \<Longrightarrow> isBad (code r) \<Longrightarrow> transform r func = Ret (Result_bad \<lparr>br_code = code r\<rparr>)"
  by (simp add: transform_def hasValue_def)

lemma andThen_value [simp, outc]:
  "andThen (Result_of x c) func = func x" "andThen2 (Result_of x c) func2 = func2 x c"
  by (simp_all add: andThen_def andThen2_def)

lemma andThen_none [simp, outc]:
  assumes "maybeValue r = None" "isBad (code r)"
  shows "andThen r func = Ret (Result_bad \<lparr>br_code = code r\<rparr>)"
    and "andThen2 r func2 = Ret (Result_bad \<lparr>br_code = code r\<rparr>)"
  using assms by (simp_all add: andThen_def andThen2_def hasValue_def)

lemma wf_Result_intros [simp]:
  "wf_Result (Result_of x c)" "isBad c \<Longrightarrow> wf_Result (Result_bad \<lparr>br_code = c\<rparr>)"
  "wf_Result (Result_default x)"
  by (simp_all add: wf_Result_def)

lemma value_proper:
  assumes "proper_Result r"
  shows "value_of r = (case maybeValue r of Some x \<Rightarrow> Ret x | None \<Rightarrow> outc_bind (throwIfBad (code r)) (\<lambda>_. Inl Undef))"
  using assms by (auto simp: value_of_def checkIsBad_def deref_def proper_Result_def split: option.splits)

lemma transform_Some [outc]:
  "maybeValue r = Some x \<Longrightarrow> transform r func = outc_bind (func x) (\<lambda>y. Ret (Result_of y (code r)))"
  by (simp add: transform_def hasValue_def deref_def)

lemma andThen_Some [outc]:
  assumes "maybeValue r = Some x"
  shows "andThen r func = func x" and "andThen2 r func2 = func2 x (code r)"
  using assms by (simp_all add: andThen_def andThen2_def hasValue_def deref_def)

text \<open>No well-formed result makes an observer run into the null dereference.\<close>

lemma value_not_Undef: "wf_Result r \<Longrightarrow> value_of r \<noteq> Inl Undef \<and> valueOr r d \<noteq> Inl Undef"
  by (auto simp: value_of_def checkIsBad_def deref_def wf_Result_def valueOr_def resultIsBad_def
      throwIfBad_def split: option.splits)

lemma tryInvoke_cases:
  "tryInvoke func = (case func () of
      Inr x \<Rightarrow> Ret (Result_of x UA_STATUSCODE_GOOD)
    | Inl (Throw e) \<Rightarrow> if proper_exn e then Ret (Result_bad \<lparr>br_code = getStatusCode (Some e)\<rparr>) else Inl Terminate
    | Inl f \<Rightarrow> Inl f)"
  by (auto simp: tryInvoke_def mkBadResult_def proper_exn_code split: sum.splits fault.splits)

text \<open>The exceptions \<open>throwIfBad\<close> raises: \<open>BADDISCONNECT\<close> only as \<open>BadDisconnect\<close>.\<close>

definition library_exn :: "exn \<Rightarrow> bool" where
  "library_exn e = ((\<exists>c. e = BadStatus c \<and> isBad c \<and> c \<noteq> UA_STATUSCODE_BADDISCONNECT) \<or> e = BadDisconnect)"

section \<open>Properties\<close>

text \<open>Every combinator of \<open>Result\<close> keeps the invariant "no value implies a bad code": on a well-formed
  result, \<open>transform\<close>, \<open>andThen\<close> and \<open>orElse\<close> never fail by themselves (a fault can only come from
  the user's function), and the result they return is well-formed whenever the function's is;
  \<open>transform\<close> also keeps the status code.\<close>

theorem combinators_keep_wf:
  assumes "wf_Result r"
    and "\<And>x s. g x = Ret s \<Longrightarrow> wf_Result s" and "\<And>c s. h c = Ret s \<Longrightarrow> wf_Result s"
  shows "(\<forall>e. transform r f = Inl e \<longrightarrow> (\<exists>x. maybeValue r = Some x \<and> f x = Inl e))
       \<and> (\<forall>e. andThen r g = Inl e \<longrightarrow> (\<exists>x. maybeValue r = Some x \<and> g x = Inl e))
       \<and> (\<forall>e. orElse r h = Inl e \<longrightarrow> maybeValue r = None \<and> h (code r) = Inl e)
       \<and> (\<forall>s. transform r f = Ret s \<longrightarrow> wf_Result s \<and> code s = code r)
       \<and> (\<forall>s. andThen r g = Ret s \<longrightarrow> wf_Result s)
       \<and> (\<forall>s. orElse r h = Ret s \<longrightarrow> wf_Result s)"
  using assms
  by (cases "maybeValue r")
    (auto simp: transform_Some andThen_Some orElse_def hasValue_def wf_Result_def outc_bind_eq_Ret
      outc_bind_eq_Fault)

theorem combinators_keep_wf_witness:
  "andThen (Result_of (3::nat) 0) (\<lambda>x. Ret (Result_of (x + 1) 0)) = Ret (Result_of 4 0) \<and> wf_Result (Result_of (4::nat) 0)"
proof
  show run: "andThen (Result_of (3::nat) 0) (\<lambda>x. Ret (Result_of (x + 1) 0)) = Ret (Result_of 4 0)"
    by (simp add: andThen_Some Result_of_def)
  have "\<forall>s. andThen (Result_of (3::nat) 0) (\<lambda>x. Ret (Result_of (x + 1) 0)) = Ret s \<longrightarrow> wf_Result s"
    by (rule combinators_keep_wf [of "Result_of (3::nat) 0" "\<lambda>x. Ret (Result_of (x + 1) 0)"
        "\<lambda>c. Ret (Result_of 0 c)" "\<lambda>x. Ret x", THEN conjunct2, THEN conjunct2, THEN conjunct2, THEN conjunct2,
        THEN conjunct1]) auto
  with run show "wf_Result (Result_of (4::nat) 0)" by blast
qed

text \<open>Composition laws on well-formed results: two \<open>transform\<close>s in sequence are one \<open>transform\<close> by the
  composed function (so the intermediate result is unobservable, faults included), \<open>andThen\<close> is associative,
  and passing the status code along in the two-argument form of \<open>andThen\<close> rebuilds the result.\<close>

theorem combinator_laws:
  assumes "wf_Result r" and "\<And>x s. f' x = Ret s \<Longrightarrow> wf_Result s"
  shows "outc_bind (transform r f) (\<lambda>s. transform s g) = transform r (\<lambda>x. outc_bind (f x) g)
    \<and> outc_bind (andThen r f') (\<lambda>s. andThen s g') = andThen r (\<lambda>x. outc_bind (f' x) (\<lambda>s. andThen s g'))
    \<and> andThen2 r (\<lambda>x c. Ret (Result_of x c)) = Ret r"
  using assms
  by (cases "maybeValue r"; cases r)
    (auto simp: transform_Some andThen_Some outc_bind_assoc wf_Result_def outc Result_bad_def Result_of_def)

theorem combinator_laws_witness:
  "outc_bind (andThen (Result_of (3::nat) 0) (\<lambda>x. Ret (Result_of (x + 1) 0))) (\<lambda>s. andThen s (\<lambda>y. Ret (Result_of (y * 2) 0)))
     = Ret (Result_of 8 0)
   \<and> andThen2 (Result_of (3::nat) 0) (\<lambda>x c. Ret (Result_of x c)) = Ret (Result_of 3 0)"
  using combinator_laws [of "Result_of (3::nat) 0" "\<lambda>x. Ret (Result_of (x + 1) 0)" Ret Ret
      "\<lambda>y. Ret (Result_of (y * 2) 0)"]
  by auto

text \<open>\<open>tryInvoke\<close> turns a throwing computation into a \<open>Result\<close> and \<open>value()\<close> turns it back: for a function
  that returns or throws a \<open>BadStatus\<close> or \<open>BadDisconnect\<close> as the library throws them, reading the captured result
  with \<open>value()\<close> returns the same value or throws the same exception; any other exception comes back
  as a \<open>BadStatus\<close> with \<open>BADOUTOFMEMORY\<close> or \<open>BADINTERNALERROR\<close>. The captured result is always proper:
  a value exactly when the code is not bad.\<close>

theorem tryInvoke_value_roundtrip:
  "(func () = Ret x \<or> (func () = throw e \<and> library_exn e)
     \<longrightarrow> (\<exists>r. tryInvoke func = Ret r \<and> proper_Result r \<and> value_of r = func ()))
   \<and> (func () = throw BadAlloc
     \<longrightarrow> outc_bind (tryInvoke func) value_of = throw (BadStatus UA_STATUSCODE_BADOUTOFMEMORY))
   \<and> (func () = throw (TypeError m) \<or> func () = throw (StdException m) \<or> func () = throw (ForeignException k)
     \<longrightarrow> outc_bind (tryInvoke func) value_of = throw (BadStatus UA_STATUSCODE_BADINTERNALERROR))"
  by (auto simp: tryInvoke_cases library_exn_def proper_Result_def value_of_def checkIsBad_def throwIfBad_def)
    (simp_all add: status_codes)

theorem tryInvoke_value_roundtrip_witness:
  "\<exists>r. tryInvoke (\<lambda>_. throw BadDisconnect :: nat outc) = Ret r \<and> value_of r = throw BadDisconnect"
  using tryInvoke_value_roundtrip [of "\<lambda>_. throw BadDisconnect :: nat outc" 0 BadDisconnect "[]" 0]
  by (auto simp: library_exn_def)

text \<open>\<open>value()\<close> and \<open>valueOr()\<close> on a proper result: the value when the code is not bad, otherwise an exception
  carrying exactly the stored code, respectively the default; neither reads the empty optional.\<close>

theorem value_valueOr_spec:
  assumes "proper_Result r"
  shows "(\<not> isBad (code r) \<longrightarrow> value_of r = Ret (the (maybeValue r)) \<and> valueOr r d = value_of r)
       \<and> (isBad (code r) \<longrightarrow> valueOr r d = Ret d \<and>
            (\<exists>e. value_of r = throw e \<and> getStatusCode (Some e) = code r))"
  using assms throwIfBad_throws [of "code r"]
  by (auto simp: value_of_def valueOr_def resultIsBad_def checkIsBad_def deref_def proper_Result_def
      split: option.splits)

theorem value_valueOr_spec_witness:
  "proper_Result (Result_bad \<lparr>br_code = UA_STATUSCODE_BADNOMATCH\<rparr>)
   \<and> valueOr (Result_bad \<lparr>br_code = UA_STATUSCODE_BADNOMATCH\<rparr>) (7::nat) = Ret 7"
  using value_valueOr_spec [of "Result_bad \<lparr>br_code = UA_STATUSCODE_BADNOMATCH\<rparr>" "7::nat"]
  by (simp add: proper_Result_def)

text \<open>What the \<open>void\<close> branch of \<open>transform\<close> does: on every result that has a value it reports
  \<open>GOOD\<close>, whatever the function would do and whatever code the result carries.\<close>

lemma transformVoid_ignores_function:
  "hasValue r \<Longrightarrow> transformVoid r f = transformVoid r g \<and> transformVoid r f = Ret VoidResult_default"
  by (simp add: transformVoid_def)

end
