(* ===== verification/Bitmasks.thy ===== *)
theory Bitmasks
  imports Prelude
begin

text \<open>
  \<open>bitmask.hpp\<close> (the bitwise operators on opted-in enumerations and the class \<open>Bitmask\<close>) and the
  enumerations of \<open>common.hpp\<close>. An enumeration is a datatype with its enumerators and the function
  giving their values at the width of the underlying type; a bitmask is a word of that width.
  The contract of the four bitmask enumerations (each flag its own bit) is the locale
  \<open>flag_enum\<close>, in which masks are shown to behave as sets of flags.
\<close>

section \<open>Operators on bitmask enumerations\<close>

definition bm_and :: "'w::len word \<Rightarrow> 'w word \<Rightarrow> 'w word" where "bm_and lhs rhs = lhs AND rhs"
definition bm_or :: "'w::len word \<Rightarrow> 'w word \<Rightarrow> 'w word" where "bm_or lhs rhs = lhs OR rhs"
definition bm_xor :: "'w::len word \<Rightarrow> 'w word \<Rightarrow> 'w word" where "bm_xor lhs rhs = lhs XOR rhs"
definition bm_not :: "'w::len word \<Rightarrow> 'w word" where "bm_not rhs = NOT rhs"

text \<open>The assignment operators return the changed operand; the pair is the operand afterwards and the result.\<close>

definition bm_or_assign :: "'w::len word \<Rightarrow> 'w word \<Rightarrow> 'w word \<times> 'w word" where
  "bm_or_assign lhs rhs = (let lhs' = lhs OR rhs in (lhs', lhs'))"
definition bm_and_assign :: "'w::len word \<Rightarrow> 'w word \<Rightarrow> 'w word \<times> 'w word" where
  "bm_and_assign lhs rhs = (let lhs' = lhs AND rhs in (lhs', lhs'))"
definition bm_xor_assign :: "'w::len word \<Rightarrow> 'w word \<Rightarrow> 'w word \<times> 'w word" where
  "bm_xor_assign lhs rhs = (let lhs' = lhs XOR rhs in (lhs', lhs'))"

lemma bm_assign:
  "bm_or_assign a b = (bm_or a b, bm_or a b)" "bm_and_assign a b = (bm_and a b, bm_and a b)"
  "bm_xor_assign a b = (bm_xor a b, bm_xor a b)" "fst (bm_xor_assign (fst (bm_xor_assign a b)) b) = a"
  by (simp_all add: bm_or_assign_def bm_and_assign_def bm_xor_assign_def bm_or_def bm_and_def bm_xor_def Let_def xor.assoc)

section \<open>The class Bitmask\<close>

record 'm Bitmask =
  mask :: 'm

definition bm_empty :: "'w::len word Bitmask" where "bm_empty = \<lparr>mask = 0\<rparr>"
definition bm_of :: "'w::len word \<Rightarrow> 'w word Bitmask" where "bm_of m = \<lparr>mask = m\<rparr>"
definition bm_get :: "'w::len word Bitmask \<Rightarrow> 'w word" where "bm_get b = mask b"

definition bm_set_all :: "'w::len word Bitmask \<Rightarrow> 'w word Bitmask" where
  "bm_set_all b = b\<lparr>mask := NOT 0\<rparr>"
definition bm_set :: "'w::len word \<Rightarrow> 'w word Bitmask \<Rightarrow> 'w word Bitmask" where
  "bm_set m b = b\<lparr>mask := mask b OR m\<rparr>"
definition bm_reset_all :: "'w::len word Bitmask \<Rightarrow> 'w word Bitmask" where
  "bm_reset_all b = b\<lparr>mask := 0\<rparr>"
definition bm_reset :: "'w::len word \<Rightarrow> 'w word Bitmask \<Rightarrow> 'w word Bitmask" where
  "bm_reset m b = b\<lparr>mask := mask b AND NOT m\<rparr>"
definition bm_flip :: "'w::len word Bitmask \<Rightarrow> 'w word Bitmask" where
  "bm_flip b = b\<lparr>mask := NOT (mask b)\<rparr>"

definition bm_all :: "'w::len word Bitmask \<Rightarrow> bool" where "bm_all b = (NOT (mask b) = 0)"
definition bm_allOf :: "'w::len word \<Rightarrow> 'w word Bitmask \<Rightarrow> bool" where "bm_allOf m b = (mask b AND m = m)"
definition bm_any :: "'w::len word Bitmask \<Rightarrow> bool" where "bm_any b = (mask b \<noteq> 0)"
definition bm_anyOf :: "'w::len word \<Rightarrow> 'w word Bitmask \<Rightarrow> bool" where "bm_anyOf m b = (mask b AND m \<noteq> 0)"
definition bm_none :: "'w::len word Bitmask \<Rightarrow> bool" where "bm_none b = (mask b = 0)"
definition bm_noneOf :: "'w::len word \<Rightarrow> 'w word Bitmask \<Rightarrow> bool" where "bm_noneOf m b = (mask b AND m = 0)"
definition bm_eq :: "'w::len word Bitmask \<Rightarrow> 'w word Bitmask \<Rightarrow> bool" where "bm_eq lhs rhs = (bm_get lhs = bm_get rhs)"

definition bm_neq :: "'w::len word Bitmask \<Rightarrow> 'w word Bitmask \<Rightarrow> bool" where "bm_neq lhs rhs = (bm_get lhs \<noteq> bm_get rhs)"

text \<open>Comparison with an enumerator or a number of the underlying type, on either side.\<close>

definition bm_eq_value :: "'w::len word Bitmask \<Rightarrow> 'w word \<Rightarrow> bool" where "bm_eq_value lhs rhs = (bm_get lhs = rhs)"
definition bm_neq_value :: "'w::len word Bitmask \<Rightarrow> 'w word \<Rightarrow> bool" where "bm_neq_value lhs rhs = (bm_get lhs \<noteq> rhs)"

lemma bm_eq_laws:
  "bm_neq a b = (\<not> bm_eq a b)" "bm_eq_value a m = bm_eq a (bm_of m)" "bm_neq_value a m = bm_neq a (bm_of m)" "bm_eq a b = (a = b)"
  by (cases a; cases b; simp add: bm_eq_def bm_neq_def bm_eq_value_def bm_neq_value_def bm_of_def bm_get_def)+

lemmas bitmask_ops =
  bm_and_def bm_or_def bm_xor_def bm_not_def bm_empty_def bm_of_def bm_get_def bm_set_all_def bm_set_def
  bm_reset_all_def bm_reset_def bm_flip_def bm_all_def bm_allOf_def bm_any_def bm_anyOf_def bm_none_def
  bm_noneOf_def bm_eq_def

section \<open>Masks as sets of bits\<close>

text \<open>The abstraction: a mask stands for the set of its bit positions below the width.\<close>

definition bits :: "'w::len word \<Rightarrow> nat set" where
  "bits w = {i. bit w i}"

lemma bits_subset: "bits (w :: 'w::len word) \<subseteq> {..< LENGTH('w)}"
  by (auto simp: bits_def dest: bit_imp_le_length)

lemma bits_inject: "bits v = bits w \<longleftrightarrow> v = w"
  by (metis bits_def mem_Collect_eq bit_eqI)

lemma bits_simps [simp]:
  "bits (0 :: 'w::len word) = {}"
  "bits (v AND w) = bits v \<inter> bits w" "bits (v OR w) = bits v \<union> bits w"
  "bits (v XOR w) = (bits v - bits w) \<union> (bits w - bits v)"
  "bits (NOT v) = {..< LENGTH('w)} - bits (v :: 'w::len word)"
  by (auto simp: bits_def bit_simps dest: bit_imp_le_length)

lemma bits_minus_1 [simp]: "bits (- 1 :: 'w::len word) = {..< LENGTH('w)}"
  by (auto simp: bits_def dest: bit_imp_le_length)

lemma and_eq_iff_bits: "v AND w = w \<longleftrightarrow> bits w \<subseteq> bits (v :: 'w::len word)"
  unfolding bits_inject[symmetric] by auto

lemma eq_0_iff_bits: "v = 0 \<longleftrightarrow> bits (v :: 'w::len word) = {}"
  unfolding bits_inject[symmetric] by simp

section \<open>The enumerations\<close>

datatype AttributeId =
    AttrNodeId | AttrNodeClass | AttrBrowseName | AttrDisplayName | AttrDescription | AttrWriteMask
  | AttrUserWriteMask | AttrIsAbstract | AttrSymmetric | AttrInverseName | AttrContainsNoLoops
  | AttrEventNotifier | AttrValue | AttrDataType | AttrValueRank | AttrArrayDimensions | AttrAccessLevel
  | AttrUserAccessLevel | AttrMinimumSamplingInterval | AttrHistorizing | AttrExecutable | AttrUserExecutable
  | AttrDataTypeDefinition | AttrRolePermissions | AttrUserRolePermissions | AttrAccessRestrictions
  | AttrAccessLevelEx

fun AttributeId_code :: "AttributeId \<Rightarrow> u32" where
  "AttributeId_code AttrNodeId = 1" | "AttributeId_code AttrNodeClass = 2"
| "AttributeId_code AttrBrowseName = 3" | "AttributeId_code AttrDisplayName = 4"
| "AttributeId_code AttrDescription = 5" | "AttributeId_code AttrWriteMask = 6"
| "AttributeId_code AttrUserWriteMask = 7" | "AttributeId_code AttrIsAbstract = 8"
| "AttributeId_code AttrSymmetric = 9" | "AttributeId_code AttrInverseName = 10"
| "AttributeId_code AttrContainsNoLoops = 11" | "AttributeId_code AttrEventNotifier = 12"
| "AttributeId_code AttrValue = 13" | "AttributeId_code AttrDataType = 14"
| "AttributeId_code AttrValueRank = 15" | "AttributeId_code AttrArrayDimensions = 16"
| "AttributeId_code AttrAccessLevel = 17" | "AttributeId_code AttrUserAccessLevel = 18"
| "AttributeId_code AttrMinimumSamplingInterval = 19" | "AttributeId_code AttrHistorizing = 20"
| "AttributeId_code AttrExecutable = 21" | "AttributeId_code AttrUserExecutable = 22"
| "AttributeId_code AttrDataTypeDefinition = 23" | "AttributeId_code AttrRolePermissions = 24"
| "AttributeId_code AttrUserRolePermissions = 25" | "AttributeId_code AttrAccessRestrictions = 26"
| "AttributeId_code AttrAccessLevelEx = 27"

lemma AttributeId_code_inj: "AttributeId_code a = AttributeId_code b \<longleftrightarrow> a = b"
  by (cases a; cases b) simp_all

datatype NodeClass = NcObject | NcVariable | NcMethod | NcObjectType | NcVariableType | NcReferenceType
  | NcDataType | NcView

text \<open>\<open>NodeClass::Unspecified\<close> is the empty mask 0; the other enumerators are single bits. The underlying
  type \<open>int32_t\<close> is read as its 32 bits.\<close>

fun NodeClass_code :: "NodeClass option \<Rightarrow> u32" where
  "NodeClass_code None = 0"
| "NodeClass_code (Some NcObject) = 1" | "NodeClass_code (Some NcVariable) = 2"
| "NodeClass_code (Some NcMethod) = 4" | "NodeClass_code (Some NcObjectType) = 8"
| "NodeClass_code (Some NcVariableType) = 16" | "NodeClass_code (Some NcReferenceType) = 32"
| "NodeClass_code (Some NcDataType) = 64" | "NodeClass_code (Some NcView) = 128"

datatype AccessLevel = AlCurrentRead | AlCurrentWrite | AlHistoryRead | AlHistoryWrite | AlSemanticChange
  | AlStatusWrite | AlTimestampWrite

fun AccessLevel_bit :: "AccessLevel \<Rightarrow> nat" where
  "AccessLevel_bit AlCurrentRead = 0" | "AccessLevel_bit AlCurrentWrite = 1"
| "AccessLevel_bit AlHistoryRead = 2" | "AccessLevel_bit AlHistoryWrite = 3"
| "AccessLevel_bit AlSemanticChange = 4" | "AccessLevel_bit AlStatusWrite = 5"
| "AccessLevel_bit AlTimestampWrite = 6"

definition AccessLevel_code :: "AccessLevel option \<Rightarrow> u8" where
  "AccessLevel_code a = (case a of None \<Rightarrow> 0 | Some l \<Rightarrow> push_bit (AccessLevel_bit l) 1)"

datatype WriteMask = WmAccessLevel | WmArrayDimensions | WmBrowseName | WmContainsNoLoops | WmDataType
  | WmDescription | WmDisplayName | WmEventNotifier | WmExecutable | WmHistorizing | WmInverseName
  | WmIsAbstract | WmMinimumSamplingInterval | WmNodeClass | WmNodeId | WmSymmetric | WmUserAccessLevel
  | WmUserExecutable | WmUserWriteMask | WmValueRank | WmWriteMask | WmValueForVariableType
  | WmDataTypeDefinition | WmRolePermissions | WmAccessRestrictions | WmAccessLevelEx

fun WriteMask_bit :: "WriteMask \<Rightarrow> nat" where
  "WriteMask_bit WmAccessLevel = 0" | "WriteMask_bit WmArrayDimensions = 1"
| "WriteMask_bit WmBrowseName = 2" | "WriteMask_bit WmContainsNoLoops = 3"
| "WriteMask_bit WmDataType = 4" | "WriteMask_bit WmDescription = 5"
| "WriteMask_bit WmDisplayName = 6" | "WriteMask_bit WmEventNotifier = 7"
| "WriteMask_bit WmExecutable = 8" | "WriteMask_bit WmHistorizing = 9"
| "WriteMask_bit WmInverseName = 10" | "WriteMask_bit WmIsAbstract = 11"
| "WriteMask_bit WmMinimumSamplingInterval = 12" | "WriteMask_bit WmNodeClass = 13"
| "WriteMask_bit WmNodeId = 14" | "WriteMask_bit WmSymmetric = 15"
| "WriteMask_bit WmUserAccessLevel = 16" | "WriteMask_bit WmUserExecutable = 17"
| "WriteMask_bit WmUserWriteMask = 18" | "WriteMask_bit WmValueRank = 19"
| "WriteMask_bit WmWriteMask = 20" | "WriteMask_bit WmValueForVariableType = 21"
| "WriteMask_bit WmDataTypeDefinition = 22" | "WriteMask_bit WmRolePermissions = 23"
| "WriteMask_bit WmAccessRestrictions = 24" | "WriteMask_bit WmAccessLevelEx = 25"

definition WriteMask_code :: "WriteMask option \<Rightarrow> u32" where
  "WriteMask_code a = (case a of None \<Rightarrow> 0 | Some l \<Rightarrow> push_bit (WriteMask_bit l) 1)"

datatype EventNotifier = EnSubscribeToEvents | EnHistoryRead | EnHistoryWrite

fun EventNotifier_code :: "EventNotifier option \<Rightarrow> u8" where
  "EventNotifier_code None = 0"
| "EventNotifier_code (Some EnSubscribeToEvents) = 1"
| "EventNotifier_code (Some EnHistoryRead) = 4"
| "EventNotifier_code (Some EnHistoryWrite) = 8"

datatype ValueRank = VrScalarOrOneDimension | VrAny | VrScalar | VrOneOrMoreDimensions | VrOneDimension
  | VrTwoDimensions | VrThreeDimensions

fun ValueRank_code :: "ValueRank \<Rightarrow> int" where
  "ValueRank_code VrScalarOrOneDimension = -3" | "ValueRank_code VrAny = -2"
| "ValueRank_code VrScalar = -1" | "ValueRank_code VrOneOrMoreDimensions = 0"
| "ValueRank_code VrOneDimension = 1" | "ValueRank_code VrTwoDimensions = 2"
| "ValueRank_code VrThreeDimensions = 3"

datatype ModellingRule = MrMandatory | MrOptional | MrExposesItsArray | MrOptionalPlaceholder
  | MrMandatoryPlaceholder

fun ModellingRule_code :: "ModellingRule \<Rightarrow> u16" where
  "ModellingRule_code MrMandatory = 78" | "ModellingRule_code MrOptional = 80"
| "ModellingRule_code MrExposesItsArray = 83" | "ModellingRule_code MrOptionalPlaceholder = 11508"
| "ModellingRule_code MrMandatoryPlaceholder = 11510"

section \<open>Flag enumerations\<close>

locale flag_enum =
  fixes flag :: "'f \<Rightarrow> 'w::len word" and pos :: "'f \<Rightarrow> nat"
  assumes flag_pos: "flag f = push_bit (pos f) 1"
    and pos_inj: "pos f = pos g \<longleftrightarrow> f = g"
    and pos_len: "pos f < LENGTH('w)"
begin

lemma bits_flag: "bits (flag f) = {pos f}"
  using pos_len[of f] by (auto simp: flag_pos bits_def bit_simps)

text \<open>The mask a user builds by or-ing flags, starting from the empty mask.\<close>

lemma bits_fold: "bits (fold (\<lambda>f m. bm_or m (flag f)) fs m0) = bits m0 \<union> pos ` set fs"
  by (induction fs arbitrary: m0) (auto simp: bm_or_def bits_flag)

lemma anyOf_fold: "bm_anyOf (flag f) (bm_of (fold (\<lambda>f m. bm_or m (flag f)) fs 0)) \<longleftrightarrow> f \<in> set fs"
  by (auto simp: bm_anyOf_def bm_of_def eq_0_iff_bits bits_flag bits_fold pos_inj)

lemma fold_eq_iff:
  "fold (\<lambda>f m. bm_or m (flag f)) fs 0 = fold (\<lambda>f m. bm_or m (flag f)) gs 0 \<longleftrightarrow> set fs = set gs"
proof -
  have "pos ` set fs = pos ` set gs \<longleftrightarrow> set fs = set gs"
    by (rule inj_image_eq_iff) (simp add: inj_on_def pos_inj)
  then show ?thesis
    by (simp add: bits_inject[symmetric] bits_fold)
qed

lemma reset_flag: "bm_anyOf (flag g) (bm_reset (flag f) b) \<longleftrightarrow> g \<noteq> f \<and> bm_anyOf (flag g) b"
  using pos_len[of g] by (auto simp: bm_anyOf_def bm_reset_def eq_0_iff_bits bits_flag pos_inj)

end

fun NodeClass_bit :: "NodeClass \<Rightarrow> nat" where
  "NodeClass_bit NcObject = 0" | "NodeClass_bit NcVariable = 1" | "NodeClass_bit NcMethod = 2"
| "NodeClass_bit NcObjectType = 3" | "NodeClass_bit NcVariableType = 4"
| "NodeClass_bit NcReferenceType = 5" | "NodeClass_bit NcDataType = 6" | "NodeClass_bit NcView = 7"

fun EventNotifier_bit :: "EventNotifier \<Rightarrow> nat" where
  "EventNotifier_bit EnSubscribeToEvents = 0" | "EventNotifier_bit EnHistoryRead = 2"
| "EventNotifier_bit EnHistoryWrite = 3"

lemma bit_positions_inj:
  "NodeClass_bit a = NodeClass_bit b \<longleftrightarrow> a = b" "AccessLevel_bit c = AccessLevel_bit d \<longleftrightarrow> c = d"
  "EventNotifier_bit e = EventNotifier_bit f \<longleftrightarrow> e = f"
proof -
  show "NodeClass_bit a = NodeClass_bit b \<longleftrightarrow> a = b" by (cases a; cases b) simp_all
  show "AccessLevel_bit c = AccessLevel_bit d \<longleftrightarrow> c = d" by (cases c; cases d) simp_all
  show "EventNotifier_bit e = EventNotifier_bit f \<longleftrightarrow> e = f" by (cases e; cases f) simp_all
qed

lemma WriteMask_bit_inj: "WriteMask_bit a = WriteMask_bit b \<longleftrightarrow> a = b"
  by (cases a; cases b) simp_all

interpretation node_class: flag_enum "\<lambda>c. NodeClass_code (Some c)" NodeClass_bit
proof
  show "NodeClass_code (Some f) = push_bit (NodeClass_bit f) 1" for f by (cases f) simp_all
  show "NodeClass_bit f < LENGTH(32)" for f by (cases f) simp_all
qed (rule bit_positions_inj)

interpretation access_level: flag_enum "\<lambda>l. AccessLevel_code (Some l)" AccessLevel_bit
proof
  show "AccessLevel_bit f < LENGTH(8)" for f by (cases f) simp_all
qed (simp_all add: AccessLevel_code_def bit_positions_inj)

interpretation write_mask: flag_enum "\<lambda>m. WriteMask_code (Some m)" WriteMask_bit
proof
  show "WriteMask_bit f < LENGTH(32)" for f by (cases f) simp_all
qed (simp_all add: WriteMask_code_def WriteMask_bit_inj)

interpretation event_notifier: flag_enum "\<lambda>n. EventNotifier_code (Some n)" EventNotifier_bit
proof
  show "EventNotifier_code (Some f) = push_bit (EventNotifier_bit f) 1" for f by (cases f) simp_all
  show "EventNotifier_bit f < LENGTH(8)" for f by (cases f) simp_all
qed (rule bit_positions_inj)

section \<open>Properties\<close>

text \<open>C38. Every operation of \<open>Bitmask\<close> and of the enumeration operators is the corresponding operation on sets of
  bit positions, and every query is the corresponding set relation: \<open>set\<close> is union, \<open>reset\<close> difference, \<open>flip\<close>
  complement at the width of the underlying type, \<open>allOf\<close> inclusion, \<open>anyOf\<close>/\<open>noneOf\<close> (non-)disjointness.\<close>

theorem bitmask_refines_sets:
  fixes b :: "'w::len word Bitmask" and m :: "'w word"
  shows "bits (mask (bm_set m b)) = bits (mask b) \<union> bits m
    \<and> bits (mask (bm_reset m b)) = bits (mask b) - bits m
    \<and> bits (mask (bm_flip b)) = {..< LENGTH('w)} - bits (mask b)
    \<and> bits (mask (bm_set_all b)) = {..< LENGTH('w)} \<and> bits (mask (bm_reset_all b)) = {}
    \<and> (bm_all b \<longleftrightarrow> bits (mask b) = {..< LENGTH('w)}) \<and> (bm_allOf m b \<longleftrightarrow> bits m \<subseteq> bits (mask b))
    \<and> (bm_any b \<longleftrightarrow> bits (mask b) \<noteq> {}) \<and> (bm_anyOf m b \<longleftrightarrow> bits m \<inter> bits (mask b) \<noteq> {})
    \<and> (bm_none b \<longleftrightarrow> bits (mask b) = {}) \<and> (bm_noneOf m b \<longleftrightarrow> bits m \<inter> bits (mask b) = {})
    \<and> bits (bm_xor (mask b) m) = (bits (mask b) - bits m) \<union> (bits m - bits (mask b))"
  using bits_subset[of m] bits_subset[of "mask b"]
  by (auto simp: bitmask_ops and_eq_iff_bits eq_0_iff_bits)

text \<open>The enumerators of \<open>NodeClass\<close>, \<open>AccessLevel\<close>, \<open>WriteMask\<close> and \<open>EventNotifier\<close> are independent flags: a
  mask built by or-ing any enumerators contains exactly those (so no two enumerators overlap and no mask is
  ambiguous), and removing one leaves every other in place.\<close>

theorem flags_independent:
  "(bm_anyOf (NodeClass_code (Some c)) (bm_of (fold (\<lambda>f m. bm_or m (NodeClass_code (Some f))) cs 0)) = (c \<in> set cs))
   \<and> (bm_anyOf (AccessLevel_code (Some a)) (bm_of (fold (\<lambda>f m. bm_or m (AccessLevel_code (Some f))) as 0)) = (a \<in> set as))
   \<and> (bm_anyOf (WriteMask_code (Some w)) (bm_of (fold (\<lambda>f m. bm_or m (WriteMask_code (Some f))) ws 0)) = (w \<in> set ws))
   \<and> (bm_anyOf (EventNotifier_code (Some e)) (bm_of (fold (\<lambda>f m. bm_or m (EventNotifier_code (Some f))) es 0)) = (e \<in> set es))
   \<and> (bm_anyOf (AccessLevel_code (Some a)) (bm_reset (AccessLevel_code (Some a')) b)
        = (a \<noteq> a' \<and> bm_anyOf (AccessLevel_code (Some a)) b))
   \<and> (bm_anyOf (WriteMask_code (Some w)) (bm_reset (WriteMask_code (Some w')) b')
        = (w \<noteq> w' \<and> bm_anyOf (WriteMask_code (Some w)) b'))"
  by (simp add: node_class.anyOf_fold access_level.anyOf_fold write_mask.anyOf_fold event_notifier.anyOf_fold
      access_level.reset_flag write_mask.reset_flag)

end
