(* ===== verification/Spans.thy ===== *)
theory Spans
  imports Prelude
begin

text \<open>
  \<open>Span<T>\<close> (\<open>span.hpp\<close>): a non-owning view of \<open>size\<close> consecutive elements. The memory it
  points into maps element addresses to elements; reading an address that holds none is undefined
  behaviour. \<open>size_t\<close> arithmetic is 64-bit. The abstraction \<open>contents\<close> reads a valid
  span as the list of its elements, and each operation is shown to be a list operation on it.
\<close>

type_synonym 'a memory = "nat \<Rightarrow> 'a option"

record Span =
  span_size :: u64
  span_data :: nat

definition span_empty_default :: Span where
  "span_empty_default = \<lparr>span_size = 0, span_data = 0\<rparr>"

definition mkSpan :: "nat \<Rightarrow> u64 \<Rightarrow> Span" where
  "mkSpan p n = \<lparr>span_size = n, span_data = p\<rparr>"

definition span_swap :: "Span \<Rightarrow> Span \<Rightarrow> Span \<times> Span" where
  "span_swap s t = (s\<lparr>span_data := span_data t, span_size := span_size t\<rparr>,
                    t\<lparr>span_data := span_data s, span_size := span_size s\<rparr>)"

definition span_empty :: "Span \<Rightarrow> bool" where
  "span_empty s = (span_size s = 0)"

definition load :: "'a memory \<Rightarrow> nat \<Rightarrow> 'a outc" where
  "load m p = (case m p of None \<Rightarrow> Inl Undef | Some x \<Rightarrow> Ret x)"

text \<open>\<open>operator[]\<close>, \<open>front\<close> and \<open>back\<close> assert their precondition; \<open>at\<close> throws.\<close>

definition span_index :: "'a memory \<Rightarrow> Span \<Rightarrow> u64 \<Rightarrow> 'a outc" where
  "span_index m s i = (if i < span_size s then load m (span_data s + unat i) else Inl Terminate)"

definition span_at :: "'a memory \<Rightarrow> Span \<Rightarrow> u64 \<Rightarrow> 'a outc" where
  "span_at m s i =
     (if i \<ge> span_size s then throw (OutOfRange ''index >= size()'') else load m (span_data s + unat i))"

definition span_front :: "'a memory \<Rightarrow> Span \<Rightarrow> 'a outc" where
  "span_front m s = (if \<not> span_empty s then load m (span_data s) else Inl Terminate)"

definition span_back :: "'a memory \<Rightarrow> Span \<Rightarrow> 'a outc" where
  "span_back m s =
     (if \<not> span_empty s then load m (span_data s + unat (span_size s) - 1) else Inl Terminate)"

definition size_max :: u64 where "size_max = - 1"

definition subview :: "Span \<Rightarrow> u64 \<Rightarrow> u64 \<Rightarrow> Span" where
  "subview s offset count =
     (if offset \<ge> span_size s then span_empty_default
      else let count' = (if count > span_size s - offset then span_size s - offset else count)
           in mkSpan (span_data s + unat offset) count')"

definition span_first :: "Span \<Rightarrow> u64 \<Rightarrow> Span" where
  "span_first s count = (if count \<ge> span_size s then s else mkSpan (span_data s) count)"

definition span_last :: "Span \<Rightarrow> u64 \<Rightarrow> Span" where
  "span_last s count =
     (if count \<ge> span_size s then s else mkSpan (span_data s + unat (span_size s - count)) count)"

text \<open>\<open>operator==\<close> is \<open>std::equal\<close> on the two ranges of pointers: ranges of different length differ, and
  ranges of the same length are compared element by element up to the first difference.\<close>

fun range_equal :: "'a memory \<Rightarrow> nat \<Rightarrow> nat \<Rightarrow> nat \<Rightarrow> bool outc" where
  "range_equal m p q 0 = Ret True"
| "range_equal m p q (Suc n) =
     outc_bind (load m p) (\<lambda>x. outc_bind (load m q) (\<lambda>y.
       if x = y then range_equal m (Suc p) (Suc q) n else Ret False))"

definition span_eq :: "'a memory \<Rightarrow> Span \<Rightarrow> Span \<Rightarrow> bool outc" where
  "span_eq m s t =
     (if unat (span_size s) \<noteq> unat (span_size t) then Ret False
      else range_equal m (span_data s) (span_data t) (unat (span_size s)))"

section \<open>Abstraction\<close>

definition cells :: "'a memory \<Rightarrow> nat \<Rightarrow> nat \<Rightarrow> 'a option list" where
  "cells m p n = map m [p ..< p + n]"

definition valid_span :: "'a memory \<Rightarrow> Span \<Rightarrow> bool" where
  "valid_span m s = (None \<notin> set (cells m (span_data s) (unat (span_size s))))"

definition contents :: "'a memory \<Rightarrow> Span \<Rightarrow> 'a list" where
  "contents m s = map the (cells m (span_data s) (unat (span_size s)))"

lemma length_contents [simp]: "length (contents m s) = unat (span_size s)"
  by (simp add: contents_def cells_def)

lemma nth_contents [simp]:
  "i < unat (span_size s) \<Longrightarrow> contents m s ! i = the (m (span_data s + i))"
  by (simp add: contents_def cells_def)

lemma load_valid [simp]:
  "valid_span m s \<Longrightarrow> i < unat (span_size s) \<Longrightarrow> load m (span_data s + i) = Ret (contents m s ! i)"
proof -
  assume v: "valid_span m s" and i: "i < unat (span_size s)"
  from i have "span_data s + i \<in> {span_data s ..< span_data s + unat (span_size s)}" by simp
  with v have "m (span_data s + i) \<noteq> None" unfolding valid_span_def cells_def by (metis image_eqI set_map set_upt)
  with i show ?thesis by (auto simp: load_def)
qed

lemma valid_span_sub:
  assumes "valid_span m s" "span_data s \<le> span_data t"
    "span_data t + unat (span_size t) \<le> span_data s + unat (span_size s)"
  shows "valid_span m t"
  using assms by (fastforce simp: valid_span_def cells_def)

lemma contents_sub:
  assumes "span_data t = span_data s + k" "k + unat (span_size t) \<le> unat (span_size s)"
  shows "contents m t = take (unat (span_size t)) (drop k (contents m s))"
  using assms by (intro nth_equalityI) (auto simp: add.assoc)

lemma range_equal_cells:
  assumes "None \<notin> set (cells m p n)" "None \<notin> set (cells m q n)"
  shows "range_equal m p q n = Ret (map the (cells m p n) = map the (cells m q n))"
  using assms
proof (induction n arbitrary: p q)
  case (Suc n)
  have cons: "cells m p (Suc n) = m p # cells m (Suc p) n" for p
    by (simp add: cells_def upt_rec)
  from Suc show ?case by (cases "m p"; cases "m q") (auto simp: cons load_def)
qed (simp add: cells_def)

section \<open>Properties\<close>

text \<open>Views stay inside their span and denote the expected slice: for a valid span, \<open>subview\<close>, \<open>first\<close> and
  \<open>last\<close> are valid again for every 64-bit argument (the subtraction never wraps), and their contents are
  \<open>drop\<close>/\<open>take\<close> of the contents; the defaulted count means "up to the end".\<close>

theorem span_views:
  assumes "valid_span m s"
  shows "valid_span m (subview s off cnt) \<and> valid_span m (span_first s cnt) \<and> valid_span m (span_last s cnt)
    \<and> contents m (subview s off cnt) = take (unat cnt) (drop (unat off) (contents m s))
    \<and> contents m (subview s off size_max) = drop (unat off) (contents m s)
    \<and> contents m (span_first s cnt) = take (unat cnt) (contents m s)
    \<and> contents m (span_last s cnt) = drop (unat (span_size s) - unat cnt) (contents m s)"
proof -
  have sub: "valid_span m (subview s off c) \<and>
      contents m (subview s off c) = take (unat c) (drop (unat off) (contents m s))" for c
  proof (cases "off \<ge> span_size s")
    case True
    then show ?thesis
      by (simp add: subview_def span_empty_default_def valid_span_def cells_def contents_def word_le_nat_alt)
  next
    case False
    let ?t = "subview s off c"
    from False have lt: "unat off < unat (span_size s)" by (simp add: word_le_nat_alt)
    have sz: "unat (span_size ?t) = min (unat c) (unat (span_size s) - unat off)"
      and dt: "span_data ?t = span_data s + unat off"
      using False lt by (auto simp: subview_def mkSpan_def Let_def unat_sub word_less_nat_alt word_le_nat_alt)
    have "contents m ?t = take (unat (span_size ?t)) (drop (unat off) (contents m s))"
      using sz dt lt by (intro contents_sub) auto
    with sz lt dt assms show ?thesis
      by (auto simp: min_def intro!: valid_span_sub[OF assms])
  qed
  have max: "unat size_max = 2 ^ 64 - 1" by (simp add: size_max_def unsigned_minus_1_eq_mask mask_eq_exp_minus_1)
  have "unat (span_size s) \<le> 2 ^ 64 - 1" by (rule unat_max)
  then have mx: "contents m (subview s off size_max) = drop (unat off) (contents m s)"
    using sub[of size_max] max by simp
  have fst: "valid_span m (span_first s cnt) \<and> contents m (span_first s cnt) = take (unat cnt) (contents m s)"
    using assms
    by (auto simp: span_first_def mkSpan_def word_le_nat_alt intro!: valid_span_sub[OF assms]
        trans[OF contents_sub[where k=0 and s=s]])
  have lst: "valid_span m (span_last s cnt) \<and>
      contents m (span_last s cnt) = drop (unat (span_size s) - unat cnt) (contents m s)"
    using assms
    by (auto simp: span_last_def mkSpan_def word_le_nat_alt unat_sub intro!: valid_span_sub[OF assms]
        trans[OF contents_sub[where k="unat (span_size s) - unat cnt" and s=s]])
  from sub mx fst lst show ?thesis by blast
qed

definition demo_mem :: "nat \<Rightarrow> nat option" where
  "demo_mem p = (if p < 20 then Some (10 * p) else None)"

theorem span_views_witness:
  "valid_span demo_mem (mkSpan 4 5) \<and> contents demo_mem (subview (mkSpan 4 5) 2 9) = [60, 70, 80]"
proof -
  have v: "valid_span demo_mem (mkSpan 4 5)"
    by (simp add: valid_span_def cells_def mkSpan_def demo_mem_def upt_rec)
  have "contents demo_mem (mkSpan 4 5) = [40, 50, 60, 70, 80]"
    by (simp add: contents_def cells_def mkSpan_def demo_mem_def upt_rec)
  with v span_views [OF v, of 2 9] show ?thesis by simp
qed

text \<open>Element access and comparison on valid spans: \<open>at\<close> returns the element or throws
  \<open>std::out_of_range\<close>, never reads outside; \<open>operator[]\<close>, \<open>front\<close> and \<open>back\<close> agree with it whenever
  their assertion holds; \<open>operator==\<close> returns, and is equality of the contents.\<close>

theorem span_access:
  assumes "valid_span m s" and "valid_span m t"
  shows "span_at m s i = (if unat i < length (contents m s) then Ret (contents m s ! unat i)
                          else throw (OutOfRange ''index >= size()''))
    \<and> (unat i < length (contents m s) \<longrightarrow> span_index m s i = span_at m s i)
    \<and> (contents m s \<noteq> [] \<longrightarrow> span_front m s = Ret (hd (contents m s)) \<and> span_back m s = Ret (last (contents m s)))
    \<and> span_eq m s t = Ret (contents m s = contents m t)"
proof -
  have ne: "contents m s \<noteq> [] \<longleftrightarrow> 0 < unat (span_size s)"
    using length_contents[of m s] by (metis length_greater_0_conv)
  have bk: "contents m s \<noteq> [] \<Longrightarrow> load m (span_data s + unat (span_size s) - 1) = Ret (last (contents m s))"
    using load_valid[OF assms(1), of "unat (span_size s) - 1"] by (simp add: ne last_conv_nth)
  have fr: "contents m s \<noteq> [] \<Longrightarrow> load m (span_data s) = Ret (hd (contents m s))"
    using load_valid[OF assms(1), of 0] by (simp add: ne hd_conv_nth)
  have z: "span_empty s \<longleftrightarrow> contents m s = []"
    using ne by (auto simp: span_empty_def unat_eq_0)
  have eq: "span_eq m s t = Ret (contents m s = contents m t)"
    using assms
  proof (cases "unat (span_size s) = unat (span_size t)")
    case True
    with assms show ?thesis
      by (simp add: span_eq_def range_equal_cells valid_span_def contents_def)
  next
    case False
    then have "contents m s \<noteq> contents m t" by (metis length_contents)
    with False show ?thesis by (simp add: span_eq_def)
  qed
  show ?thesis
    using assms bk fr eq z
    by (auto simp: span_at_def span_index_def span_front_def span_back_def word_less_nat_alt word_le_nat_alt)
qed

theorem span_access_witness:
  "span_at demo_mem (mkSpan 4 5) 1 = Ret 50 \<and> span_at demo_mem (mkSpan 4 5) 5 = throw (OutOfRange ''index >= size()'')
   \<and> span_eq demo_mem (mkSpan 4 5) (mkSpan 4 5) = Ret True"
proof -
  have v: "valid_span demo_mem (mkSpan 4 5)"
    by (simp add: valid_span_def cells_def mkSpan_def demo_mem_def upt_rec)
  have "contents demo_mem (mkSpan 4 5) = [40, 50, 60, 70, 80]"
    by (simp add: contents_def cells_def mkSpan_def demo_mem_def upt_rec)
  with span_access [OF v v, of 1] span_access [OF v v, of 5] show ?thesis by simp
qed

end
