(* ===== verification/Native_Memory.thy ===== *)
theory Native_Memory
  imports Status
begin

text \<open>
  \<open>detail/types_handling.hpp\<close>: allocation, clearing and copying of native objects and arrays, and the
  sentinel \<open>0x01\<close> that marks an empty but defined array. The C allocator is modelled by a heap of blocks
  of cells (\<open>None\<close>: indeterminate contents), handing out 16-byte aligned addresses and failing whenever
  its budget is used up. What an element owns behind its pointers belongs to \<open>open62541\<close>: its copy function
  and the number of allocations it owns are parameters (\<open>item_type\<close>), and the heap keeps
  the balance \<open>live\<close> of those allocations, so that leaks and double frees of members are visible.
\<close>

section \<open>Heap and element types\<close>

record 'a heap =
  blocks :: "u64 \<Rightarrow> 'a option list option"
  next_block :: nat
  budget :: nat
  live :: int
  tick :: nat

text \<open>What the code relies on of a \<open>UA_DataType\<close>: the zero-initialised value, the number of allocations a value
  owns, \<open>UA_copy\<close> (its status and result may depend on the moment, here \<open>tick\<close>), and whether \<open>IsPointerFree\<close>
  holds of the C++ type.\<close>

record 'a item_type =
  zero :: 'a
  own :: "'a \<Rightarrow> int"
  ua_copy :: "nat \<Rightarrow> 'a \<Rightarrow> u32 \<times> 'a"
  pointerFree :: bool

definition addr_of :: "nat \<Rightarrow> u64" where
  "addr_of k = of_nat (16 * k)"

definition calloc :: "'a item_type \<Rightarrow> nat \<Rightarrow> 'a heap \<Rightarrow> u64 \<times> 'a heap" where
  "calloc ty n h =
     (if budget h = 0 \<or> next_block h \<ge> 2 ^ 59 then (0, h)
      else let p = addr_of (next_block h) in
        (p, h\<lparr>blocks := (blocks h)(p \<mapsto> replicate n (Some (zero ty))),
              next_block := Suc (next_block h), budget := budget h - 1\<rparr>))"

definition c_free :: "u64 \<Rightarrow> ('a heap, unit) op" where
  "c_free p h = (if p = 0 then (Ret (), h)
                 else case blocks h p of None \<Rightarrow> (Inl Undef, h)
                   | Some _ \<Rightarrow> (Ret (), h\<lparr>blocks := (blocks h)(p := None)\<rparr>))"

definition c_realloc :: "u64 \<Rightarrow> nat \<Rightarrow> ('a heap, u64) op" where
  "c_realloc p n h = (case blocks h p of None \<Rightarrow> (Inl Undef, h)
     | Some cs \<Rightarrow>
        if budget h = 0 \<or> next_block h \<ge> 2 ^ 59 then (Ret 0, h)
        else let q = addr_of (next_block h) in
          (Ret q, h\<lparr>blocks := (blocks h)(p := None, q \<mapsto> take n cs @ replicate (n - length cs) None),
                next_block := Suc (next_block h), budget := budget h - 1\<rparr>))"

definition store :: "u64 \<Rightarrow> nat \<Rightarrow> 'a \<Rightarrow> ('a heap, unit) op" where
  "store p i x h = (case blocks h p of
      Some cs \<Rightarrow> if i < length cs then (Ret (), h\<lparr>blocks := (blocks h)(p \<mapsto> cs[i := Some x])\<rparr>) else (Inl Undef, h)
    | None \<Rightarrow> (Inl Undef, h))"

section \<open>The sentinel\<close>

definition emptyArraySentinel :: u64 where
  "emptyArraySentinel = 1"

definition makeEmptyArraySentinel :: u64 where
  "makeEmptyArraySentinel = emptyArraySentinel"

definition stripEmptyArraySentinel :: "u64 \<Rightarrow> u64" where
  "stripEmptyArraySentinel array = array AND NOT emptyArraySentinel"

definition isEmptyArray :: "u64 \<Rightarrow> nat \<Rightarrow> bool" where
  "isEmptyArray array n = (stripEmptyArraySentinel array = 0 \<or> n = 0)"

section \<open>Single objects\<close>

definition clear :: "'a item_type \<Rightarrow> 'a \<Rightarrow> 'a \<times> int" where
  "clear ty x = (if pointerFree ty then (zero ty, 0) else (zero ty, own ty x))"

definition copy :: "'a item_type \<Rightarrow> 'a \<Rightarrow> ('a heap, 'a) op" where
  "copy ty src h =
     (if pointerFree ty then (Ret src, h)
      else case ua_copy ty (tick h) src of (status, dst) \<Rightarrow>
        let h' = h\<lparr>tick := Suc (tick h)\<rparr> in
        (case throwIfBad status of
           Inl e \<Rightarrow> (Inl e, h')
         | Inr _ \<Rightarrow> (Ret dst, h'\<lparr>live := live h + own ty dst\<rparr>)))"

definition allocate :: "'a item_type \<Rightarrow> ('a heap, u64) op" where
  "allocate ty h = (case calloc ty 1 h of (p, h') \<Rightarrow> if p = 0 then (throw BadAlloc, h') else (Ret p, h'))"

fun clear_cells :: "'a item_type \<Rightarrow> nat \<Rightarrow> 'a option list \<Rightarrow> ('a option list \<times> int) outc" where
  "clear_cells ty 0 cs = Ret (cs, 0)"
| "clear_cells ty (Suc n) (Some x # cs) =
     outc_bind (clear_cells ty n cs) (\<lambda>(cs', d). case clear ty x of (z, d') \<Rightarrow> Ret (Some z # cs', d' + d))"
| "clear_cells ty (Suc n) (None # cs) =
     (if pointerFree ty then outc_bind (clear_cells ty n cs) (\<lambda>(cs', d). Ret (Some (zero ty) # cs', d))
      else Inl Undef)"
| "clear_cells ty (Suc n) [] = Inl Undef"

definition clear_block :: "'a item_type \<Rightarrow> u64 \<Rightarrow> nat \<Rightarrow> ('a heap, unit) op" where
  "clear_block ty p n h = (case blocks h p of
      None \<Rightarrow> (Inl Undef, h)
    | Some cs \<Rightarrow> (case clear_cells ty n cs of
         Inl e \<Rightarrow> (Inl e, h)
       | Inr (cs', d) \<Rightarrow> (Ret (), h\<lparr>blocks := (blocks h)(p \<mapsto> cs'), live := live h - d\<rparr>)))"

definition deallocate :: "'a item_type \<Rightarrow> u64 \<Rightarrow> ('a heap, unit) op" where
  "deallocate ty native =
     (if native \<noteq> 0 then op_bind (clear_block ty native 1) (\<lambda>_. c_free native) else op_ret ())"

section \<open>Arrays\<close>

definition clearArray :: "'a item_type \<Rightarrow> u64 \<Rightarrow> nat \<Rightarrow> ('a heap, unit) op" where
  "clearArray ty array n = (if isEmptyArray array n then op_ret () else clear_block ty array n)"

definition deallocateArray_raw :: "u64 \<Rightarrow> ('a heap, unit) op" where
  "deallocateArray_raw array = c_free (stripEmptyArraySentinel array)"

definition deallocateArray :: "'a item_type \<Rightarrow> u64 \<Rightarrow> nat \<Rightarrow> ('a heap, unit) op" where
  "deallocateArray ty array n =
     op_bind (clearArray ty array n) (\<lambda>_. deallocateArray_raw array)"

definition UA_INT32_MAX :: nat where "UA_INT32_MAX = 2 ^ 31 - 1"

definition allocateArray :: "'a item_type \<Rightarrow> nat \<Rightarrow> ('a heap, u64) op" where
  "allocateArray ty n h =
     (if n > UA_INT32_MAX then (throw BadAlloc, h)
      else if n = 0 then (Ret makeEmptyArraySentinel, h)
      else case calloc ty n h of (p, h') \<Rightarrow> if p = 0 then (throw BadAlloc, h') else (Ret p, h'))"

text \<open>The forward-iterator version: a \<open>unique_ptr\<close> owns the new array until \<open>release\<close>, so an exception from copying
  an item clears and frees the whole array.\<close>

fun copy_items :: "'a item_type \<Rightarrow> u64 \<Rightarrow> nat \<Rightarrow> 'a list \<Rightarrow> ('a heap, unit) op" where
  "copy_items ty dst i [] = op_ret ()"
| "copy_items ty dst i (x # xs) =
     op_bind (copy ty x) (\<lambda>y. op_bind (store dst i y) (\<lambda>_. copy_items ty dst (Suc i) xs))"

definition copyArray_forward :: "'a item_type \<Rightarrow> 'a list \<Rightarrow> ('a heap, u64 \<times> nat) op" where
  "copyArray_forward ty src =
     op_bind (allocateArray ty (length src)) (\<lambda>dst.
       op_bind (op_on_throw (copy_items ty dst 0 src) (deallocateArray ty dst (length src)))
         (\<lambda>_. op_ret (dst, length src)))"

text \<open>The input-iterator version: the length is not known in advance; the array starts with 16 cells and
  doubles, and the deleter clears the first \<open>index\<close> cells only, since the others may be uninitialised.\<close>

definition reallocate :: "'a item_type \<Rightarrow> u64 \<Rightarrow> nat \<Rightarrow> ('a heap, u64) op" where
  "reallocate ty dst newSize =
     op_bind (c_realloc dst newSize) (\<lambda>q. if q = 0 then op_fail (Throw BadAlloc) else op_ret q)"

definition grow :: "'a item_type \<Rightarrow> u64 \<Rightarrow> nat \<Rightarrow> nat \<Rightarrow> ('a heap, u64 \<times> nat) op" where
  "grow ty dst index capacity =
     (if index \<ge> capacity
      then op_bind (op_on_throw (reallocate ty dst (capacity * 2)) (deallocateArray ty dst index))
             (\<lambda>q. op_ret (q, capacity * 2))
      else op_ret (dst, capacity))"

fun fill :: "'a item_type \<Rightarrow> u64 \<Rightarrow> nat \<Rightarrow> nat \<Rightarrow> 'a list \<Rightarrow> ('a heap, u64 \<times> nat) op" where
  "fill ty dst index capacity [] =
     op_bind (op_on_throw (reallocate ty dst index) (deallocateArray ty dst index)) (\<lambda>q. op_ret (q, index))"
| "fill ty dst index capacity (x # xs) =
     op_bind (grow ty dst index capacity) (\<lambda>(dst', capacity').
       op_bind (op_on_throw (copy ty x) (deallocateArray ty dst' index)) (\<lambda>y.
         op_bind (store dst' index y) (\<lambda>_. fill ty dst' (Suc index) capacity' xs)))"

definition copyArray_input :: "'a item_type \<Rightarrow> 'a list \<Rightarrow> ('a heap, u64 \<times> nat) op" where
  "copyArray_input ty src =
     (if src = [] then op_ret (makeEmptyArraySentinel, 0)
      else op_bind (allocateArray ty 16) (\<lambda>dst. fill ty dst 0 16 src))"

text \<open>The pointer versions: \<open>memcpy\<close> for pointer-free types, item by item otherwise.\<close>

definition read_cells :: "u64 \<Rightarrow> nat \<Rightarrow> ('a heap, 'a option list) op" where
  "read_cells p n h = (case blocks h p of
      Some cs \<Rightarrow> if n \<le> length cs then (Ret (take n cs), h) else (Inl Undef, h)
    | None \<Rightarrow> (Inl Undef, h))"

definition memcpy_cells :: "u64 \<Rightarrow> 'a option list \<Rightarrow> ('a heap, unit) op" where
  "memcpy_cells p vs h = (case blocks h p of
      Some cs \<Rightarrow> if length vs \<le> length cs
        then (Ret (), h\<lparr>blocks := (blocks h)(p \<mapsto> vs @ drop (length vs) cs)\<rparr>) else (Inl Undef, h)
    | None \<Rightarrow> (Inl Undef, h))"

definition copyArray_mem :: "'a item_type \<Rightarrow> u64 \<Rightarrow> nat \<Rightarrow> ('a heap, u64) op" where
  "copyArray_mem ty src n =
     (if isEmptyArray src n then op_ret makeEmptyArraySentinel
      else op_bind (allocateArray ty n) (\<lambda>dst.
        op_bind (read_cells src n) (\<lambda>vs.
          op_bind (memcpy_cells dst vs) (\<lambda>_. op_ret dst))))"

definition copyArray_ptr :: "'a item_type \<Rightarrow> u64 \<Rightarrow> nat \<Rightarrow> ('a heap, u64) op" where
  "copyArray_ptr ty src n =
     (if pointerFree ty then copyArray_mem ty src n
      else if n = 0 then op_bind (copyArray_forward ty []) (\<lambda>(p, k). op_ret p)
      else op_bind (read_cells src n) (\<lambda>vs.
        if None \<in> set vs then op_fail Undef
        else op_bind (copyArray_forward ty (map the vs)) (\<lambda>(p, n). op_ret p)))"

section \<open>The sentinel and addresses\<close>

lemma strip_even: "\<not> bit p 0 \<Longrightarrow> stripEmptyArraySentinel p = p"
  by (rule bit_word_eqI)
    (auto simp: stripEmptyArraySentinel_def emptyArraySentinel_def bit_simps intro: gr0I)

lemma strip_odd: "bit p 0 \<Longrightarrow> stripEmptyArraySentinel p = p - 1"
  unfolding stripEmptyArraySentinel_def emptyArraySentinel_def
  by (rule disjunctive_diff_eq_and_not[symmetric], rule bit_word_eqI) (auto simp: bit_simps)

lemma strip_special [simp]:
  "stripEmptyArraySentinel 0 = 0" "stripEmptyArraySentinel makeEmptyArraySentinel = 0"
  by (simp_all add: stripEmptyArraySentinel_def makeEmptyArraySentinel_def emptyArraySentinel_def)

text \<open>Addresses the allocator hands out.\<close>

definition block_addr :: "u64 \<Rightarrow> bool" where
  "block_addr p = (p \<noteq> 0 \<and> \<not> bit p 0)"

lemma block_addr_strip [simp]: "block_addr p \<Longrightarrow> stripEmptyArraySentinel p = p"
  by (simp add: block_addr_def strip_even)

lemma block_addr_not [simp]: "\<not> block_addr 0" "\<not> block_addr makeEmptyArraySentinel"
  by (simp_all add: block_addr_def makeEmptyArraySentinel_def emptyArraySentinel_def)

definition wf_heap :: "'a heap \<Rightarrow> bool" where
  "wf_heap h = (0 < next_block h \<and> next_block h \<le> 2 ^ 59 \<and>
     (\<forall>p. blocks h p \<noteq> None \<longrightarrow> (\<exists>k. 0 < k \<and> k < next_block h \<and> p = addr_of k)))"

lemma unat_addr: "k < 2 ^ 60 \<Longrightarrow> unat (addr_of k) = 16 * k"
  unfolding addr_of_def by (subst unat_of_nat) simp

lemma block_addr_16:
  assumes "0 < k" "k < 2 ^ 60"
  shows "block_addr (addr_of k)"
proof -
  let ?p = "addr_of k"
  have u: "unat ?p = 16 * k" using assms(2) by (rule unat_addr)
  have "bit (unat ?p) 0 = bit ?p 0" by (simp add: bit_unsigned_iff)
  moreover have "\<not> bit (unat ?p) 0" unfolding u by (simp add: bit_0)
  moreover have "?p \<noteq> 0" using u assms(1) by (metis mult_eq_0_iff neq0_conv unat_0 zero_neq_numeral)
  ultimately show ?thesis by (simp add: block_addr_def)
qed

lemma block_addr_dom: "wf_heap h \<Longrightarrow> blocks h p = Some cs \<Longrightarrow> block_addr p"
proof -
  assume w: "wf_heap h" and b: "blocks h p = Some cs"
  then obtain k where k: "0 < k" "k < next_block h" "p = addr_of k"
    unfolding wf_heap_def by blast
  have "(2::nat) ^ 59 < 2 ^ 60" by simp
  with w k have "k < 2 ^ 60" unfolding wf_heap_def by linarith
  with k show ?thesis using block_addr_16 by blast
qed

lemma fresh_block:
  assumes "wf_heap h" "next_block h < 2 ^ 59"
  shows "blocks h (addr_of (next_block h)) = None" "block_addr (addr_of (next_block h))"
proof -
  have lt: "k < 2 ^ 60" if "k \<le> next_block h" for k
  proof -
    have "(2::nat) ^ 59 < 2 ^ 60" by simp
    with assms(2) that show ?thesis by linarith
  qed
  show "block_addr (addr_of (next_block h))"
    using assms lt by (intro block_addr_16) (auto simp: wf_heap_def)
  { fix k assume k: "k < next_block h" "addr_of (next_block h) = addr_of k"
    have "16 * next_block h = 16 * k"
      using unat_addr[OF lt, of k] unat_addr[OF lt, of "next_block h"] k by simp
    with k have False by simp }
  then show "blocks h (addr_of (next_block h)) = None"
    using assms unfolding wf_heap_def by blast
qed

section \<open>Lemmas about the single operations\<close>

definition cost :: "'a item_type \<Rightarrow> 'a \<Rightarrow> int" where
  "cost ty x = (if pointerFree ty then 0 else own ty x)"

fun copies :: "'a item_type \<Rightarrow> nat \<Rightarrow> 'a list \<Rightarrow> 'a list outc" where
  "copies ty t [] = Ret []"
| "copies ty t (x # xs) =
     (if pointerFree ty then outc_bind (copies ty t xs) (\<lambda>ys. Ret (x # ys))
      else case ua_copy ty t x of (status, y) \<Rightarrow>
        outc_bind (throwIfBad status) (\<lambda>_. outc_bind (copies ty (Suc t) xs) (\<lambda>ys. Ret (y # ys))))"

lemma length_copies: "copies ty t xs = Ret ys \<Longrightarrow> length ys = length xs"
  by (induction ty t xs arbitrary: ys rule: copies.induct)
    (auto simp: outc_bind_eq_Ret split: if_splits prod.splits)

lemma clear_cells_ok:
  assumes "n \<le> length cs" "None \<notin> set (take n cs)"
  shows "clear_cells ty n cs = Ret (replicate n (Some (zero ty)) @ drop n cs,
           (\<Sum>c \<leftarrow> take n cs. cost ty (the c)))"
  using assms
proof (induction ty n cs rule: clear_cells.induct)
  case (2 ty n x cs)
  then show ?case by (simp add: clear_def cost_def)
qed simp_all

lemma wf_heap_upd:
  assumes "wf_heap h" "\<And>p. bs p \<noteq> None \<Longrightarrow> blocks h p \<noteq> None"
  shows "wf_heap (h\<lparr>blocks := bs, live := l, tick := t\<rparr>)" "wf_heap (h\<lparr>blocks := bs, live := l\<rparr>)"
    "wf_heap (h\<lparr>blocks := bs\<rparr>)" "wf_heap (h\<lparr>live := l, tick := t\<rparr>)" "wf_heap (h\<lparr>tick := t\<rparr>)"
  using assms by (auto simp: wf_heap_def)

lemma deallocateArray_block:
  assumes "block_addr p" "blocks h p = Some cs" "n \<le> length cs" "None \<notin> set (take n cs)"
  shows "deallocateArray ty p n h =
    (Ret (), h\<lparr>blocks := (blocks h)(p := None), live := live h - (\<Sum>c \<leftarrow> take n cs. cost ty (the c))\<rparr>)"
proof -
  have nz: "p \<noteq> 0" using assms(1) by (simp add: block_addr_def)
  show ?thesis
  proof (cases "n = 0")
    case True
    with assms nz show ?thesis
      by (simp add: deallocateArray_def clearArray_def isEmptyArray_def deallocateArray_raw_def c_free_def)
  next
    case False
    with assms nz show ?thesis
      by (simp add: deallocateArray_def clearArray_def isEmptyArray_def deallocateArray_raw_def op_bind_def
          clear_block_def clear_cells_ok c_free_def)
  qed
qed

lemma deallocateArray_nothing:
  assumes "stripEmptyArraySentinel p = 0"
  shows "deallocateArray ty p n h = (Ret (), h)"
  using assms by (simp add: deallocateArray_def clearArray_def isEmptyArray_def deallocateArray_raw_def c_free_def)

lemma calloc_cases:
  assumes "wf_heap h"
  obtains (fail) "calloc ty n h = (0, h)" "budget h = 0 \<or> next_block h \<ge> 2 ^ 59"
  | (ok) p h' where "calloc ty n h = (p, h')" "block_addr p" "blocks h p = None"
      "blocks h' = (blocks h)(p \<mapsto> replicate n (Some (zero ty)))" "live h' = live h" "tick h' = tick h"
      "wf_heap h'"
proof (cases "budget h = 0 \<or> next_block h \<ge> 2 ^ 59")
  case True
  then show ?thesis by (intro fail) (auto simp: calloc_def)
next
  case False
  let ?p = "addr_of (next_block h)"
  from False assms have fr: "blocks h ?p = None" "block_addr ?p" by (auto intro: fresh_block)
  let ?h = "h\<lparr>blocks := (blocks h)(?p \<mapsto> replicate n (Some (zero ty))),
              next_block := Suc (next_block h), budget := budget h - 1\<rparr>"
  have "wf_heap ?h" using assms False by (auto simp: wf_heap_def intro: less_SucI)
  moreover have "calloc ty n h = (?p, ?h)" using False by (simp add: calloc_def Let_def)
  ultimately show ?thesis using fr by (intro ok[of ?p ?h]) simp_all
qed

lemma c_realloc_cases:
  assumes "wf_heap h" "blocks h d = Some cs"
  obtains (fail) "c_realloc d n h = (Ret 0, h)"
  | (ok) q h' where "c_realloc d n h = (Ret q, h')" "block_addr q" "blocks h q = None"
      "blocks h' = (blocks h)(d := None, q \<mapsto> take n cs @ replicate (n - length cs) None)"
      "live h' = live h" "tick h' = tick h" "wf_heap h'"
proof (cases "budget h = 0 \<or> next_block h \<ge> 2 ^ 59")
  case True
  with assms show ?thesis by (intro fail) (auto simp: c_realloc_def)
next
  case False
  let ?p = "addr_of (next_block h)"
  from False assms have fr: "blocks h ?p = None" "block_addr ?p" by (auto intro: fresh_block)
  let ?h = "h\<lparr>blocks := (blocks h)(d := None, ?p \<mapsto> take n cs @ replicate (n - length cs) None),
              next_block := Suc (next_block h), budget := budget h - 1\<rparr>"
  have "wf_heap ?h" using assms False by (auto simp: wf_heap_def intro: less_SucI)
  moreover have "c_realloc d n h = (Ret ?p, ?h)" using False assms by (simp add: c_realloc_def Let_def)
  ultimately show ?thesis using fr by (intro ok[of ?p ?h]) simp_all
qed

lemma copy_cases:
  obtains (ok) y h' where "copy ty x h = (Ret y, h')" "h' = h\<lparr>live := live h + cost ty y, tick := tick h'\<rparr>"
      "\<And>xs. copies ty (tick h) (x # xs) = outc_bind (copies ty (tick h') xs) (\<lambda>ys. Ret (y # ys))"
  | (fail) e h' where "copy ty x h = (throw e, h')" "h' = h\<lparr>tick := tick h'\<rparr>"
      "\<And>xs. copies ty (tick h) (x # xs) = throw e"
proof (cases "pointerFree ty")
  case True
  then show ?thesis by (intro ok[of x h]) (auto simp: copy_def cost_def)
next
  case False
  obtain st y where c: "ua_copy ty (tick h) x = (st, y)" by fastforce
  show ?thesis
  proof (cases "throwIfBad st")
    case (Inl f)
    then obtain e where "f = Throw e" by (auto simp: throwIfBad_def split: if_splits)
    with False c Inl show ?thesis
      by (intro fail[of e "h\<lparr>tick := Suc (tick h)\<rparr>"]) (auto simp: copy_def)
  next
    case (Inr u)
    with False c show ?thesis
      by (intro ok[of y "h\<lparr>live := live h + own ty y, tick := Suc (tick h)\<rparr>"]) (auto simp: copy_def cost_def)
  qed
qed

section \<open>The copy loops\<close>

lemma copy_items_spec:
  assumes "blocks h p = Some cs" "i + length xs \<le> length cs"
  shows "\<exists>r h' ys. copy_items ty p i xs h = (r, h') \<and> length ys \<le> length xs
    \<and> h' = h\<lparr>blocks := (blocks h)(p \<mapsto> take i cs @ map Some ys @ drop (i + length ys) cs),
            live := live h + (\<Sum>y \<leftarrow> ys. cost ty y), tick := tick h'\<rparr>
    \<and> ((r = Ret () \<and> copies ty (tick h) xs = Ret ys) \<or> (\<exists>e. r = throw e \<and> copies ty (tick h) xs = throw e))"
  using assms
proof (induction xs arbitrary: i cs h)
  case Nil
  then show ?case
    by (intro exI[of _ "Ret ()"] exI[of _ h] exI[of _ "[]"]) (cases h, auto)
next
  case (Cons x xs)
  show ?case
  proof (cases rule: copy_cases[of ty x h])
    case (fail e h')
    then show ?thesis
      using Cons.prems
      by (intro exI[of _ "throw e"] exI[of _ h'] exI[of _ "[]"]) (cases h, auto simp: op_bind_def fun_upd_idem)
  next
    case (ok y h1)
    let ?cs = "cs[i := Some y]"
    let ?h2 = "h1\<lparr>blocks := (blocks h1)(p \<mapsto> ?cs)\<rparr>"
    have b1: "blocks h1 = blocks h" "live h1 = live h + cost ty y" by (subst ok(2), simp)+
    have st: "store p i y h1 = (Ret (), ?h2)" using Cons.prems by (simp add: store_def b1)
    have "blocks ?h2 p = Some ?cs" "Suc i + length xs \<le> length ?cs" using Cons.prems by auto
    from Cons.IH[OF this] obtain r h' ys where IH:
      "copy_items ty p (Suc i) xs ?h2 = (r, h')" "length ys \<le> length xs"
      "h' = ?h2\<lparr>blocks := (blocks ?h2)(p \<mapsto> take (Suc i) ?cs @ map Some ys @ drop (Suc i + length ys) ?cs),
            live := live ?h2 + (\<Sum>y \<leftarrow> ys. cost ty y), tick := tick h'\<rparr>"
      "(r = Ret () \<and> copies ty (tick ?h2) xs = Ret ys) \<or> (\<exists>e. r = throw e \<and> copies ty (tick ?h2) xs = throw e)"
      by blast
    have t2: "tick ?h2 = tick h1" by simp
    have run: "copy_items ty p i (x # xs) h = (r, h')"
      using ok(1) st IH(1) by (simp add: op_bind_def)
    have cells: "take (Suc i) ?cs @ map Some ys @ drop (Suc i + length ys) ?cs
        = take i cs @ map Some (y # ys) @ drop (i + length (y # ys)) cs"
      using Cons.prems by (simp add: take_Suc_conv_app_nth)
    have "h' = h\<lparr>blocks := (blocks h)(p \<mapsto> take i cs @ map Some (y # ys) @ drop (i + length (y # ys)) cs),
            live := live h + (\<Sum>y \<leftarrow> y # ys. cost ty y), tick := tick h'\<rparr>"
      by (subst IH(3), subst cells, subst ok(2)) (simp add: b1)
    moreover have "(r = Ret () \<and> copies ty (tick h) (x # xs) = Ret (y # ys)) \<or>
        (\<exists>e. r = throw e \<and> copies ty (tick h) (x # xs) = throw e)"
      using IH(4)[unfolded t2] ok(3)[of xs] by auto
    moreover have "length (y # ys) \<le> length (x # xs)" using IH(2) by simp
    ultimately show ?thesis using run by blast
  qed
qed

text \<open>What a copy operation promises: on success a new block holding exactly the copies (the sentinel for an
  empty source), nothing else touched, and a live balance grown by what the copies own; on failure
  \<open>bad_alloc\<close> or the exception of the first item that cannot be copied, with memory as before.\<close>

definition copy_ok :: "'a item_type \<Rightarrow> 'a list \<Rightarrow> 'a heap \<Rightarrow> u64 \<times> nat \<Rightarrow> 'a heap \<Rightarrow> bool" where
  "copy_ok ty xs h res h' = (case res of (p, n) \<Rightarrow> n = length xs \<and>
     (\<exists>ys. copies ty (tick h) xs = Ret ys \<and> live h' = live h + (\<Sum>y \<leftarrow> ys. cost ty y) \<and>
       (if xs = [] then p = makeEmptyArraySentinel \<and> blocks h' = blocks h
        else block_addr p \<and> blocks h p = None \<and> blocks h' = (blocks h)(p \<mapsto> map Some ys))))"

definition copy_failed :: "'a item_type \<Rightarrow> 'a list \<Rightarrow> 'a heap \<Rightarrow> fault \<Rightarrow> 'a heap \<Rightarrow> bool" where
  "copy_failed ty xs h f h' = ((f = Throw BadAlloc \<or> (\<exists>e. f = Throw e \<and> copies ty (tick h) xs = throw e))
     \<and> blocks h' = blocks h \<and> live h' = live h)"

definition copy_spec :: "'a item_type \<Rightarrow> 'a list \<Rightarrow> 'a heap \<Rightarrow> (u64 \<times> nat) outc \<times> 'a heap \<Rightarrow> bool" where
  "copy_spec ty xs h rh = (wf_heap (snd rh) \<and>
     (case fst rh of Inr res \<Rightarrow> copy_ok ty xs h res (snd rh) | Inl f \<Rightarrow> copy_failed ty xs h f (snd rh)))"

lemma sum_zero_cost: "own ty (zero ty) = 0 \<Longrightarrow> (\<Sum>c \<leftarrow> replicate n (Some (zero ty)). cost ty (the c)) = 0"
  by (induction n) (auto simp: cost_def)

lemma copyArray_forward_spec:
  assumes w: "wf_heap h" and z: "own ty (zero ty) = 0"
  shows "copy_spec ty xs h (copyArray_forward ty xs h)"
proof (cases "length xs > UA_INT32_MAX")
  case True
  with w show ?thesis
    by (simp add: copyArray_forward_def allocateArray_def op_bind_def copy_spec_def copy_failed_def)
next
  case len: False
  show ?thesis
  proof (cases "xs = []")
    case True
    with len w show ?thesis
      by (simp add: copyArray_forward_def allocateArray_def op_bind_def op_on_throw_def copy_spec_def copy_ok_def)
  next
    case ne: False
    from w show ?thesis
    proof (cases rule: calloc_cases[where ty = ty and n = "length xs"])
      case fail
      with len ne w show ?thesis
        by (simp add: copyArray_forward_def allocateArray_def op_bind_def copy_spec_def copy_failed_def)
    next
      case (ok p h1)
      have p0: "p \<noteq> 0" using ok(2) by (simp add: block_addr_def)
      let ?cs = "replicate (length xs) (Some (zero ty))"
      have b1: "blocks h1 p = Some ?cs" using ok(4) by simp
      from copy_items_spec[OF b1, of 0 xs ty] obtain r h2 ys where run:
        "copy_items ty p 0 xs h1 = (r, h2)" "length ys \<le> length xs"
        "h2 = h1\<lparr>blocks := (blocks h1)(p \<mapsto> map Some ys @ drop (length ys) ?cs),
            live := live h1 + (\<Sum>y \<leftarrow> ys. cost ty y), tick := tick h2\<rparr>"
        "(r = Ret () \<and> copies ty (tick h1) xs = Ret ys) \<or> (\<exists>e. r = throw e \<and> copies ty (tick h1) xs = throw e)"
        by auto
      have h2: "blocks h2 = (blocks h)(p \<mapsto> map Some ys @ drop (length ys) ?cs)"
        "live h2 = live h + (\<Sum>y \<leftarrow> ys. cost ty y)"
        by (subst run(3), simp add: ok)+
      have w2: "wf_heap h2"
        by (subst run(3), rule wf_heap_upd[OF ok(7)]) (auto simp: b1 split: if_splits)
      have start: "copyArray_forward ty xs h = op_bind (op_on_throw (copy_items ty p 0 xs)
          (deallocateArray ty p (length xs))) (\<lambda>_. op_ret (p, length xs)) h1"
        using len ne ok p0 by (simp add: copyArray_forward_def allocateArray_def op_bind_def)
      from run(4) show ?thesis
      proof
        assume good: "r = Ret () \<and> copies ty (tick h1) xs = Ret ys"
        then have "length ys = length xs" by (auto dest: length_copies)
        with good run(1) ne ok w2 h2 show ?thesis
          by (auto simp: start op_bind_def op_on_throw_def copy_spec_def copy_ok_def)
      next
        assume "\<exists>e. r = throw e \<and> copies ty (tick h1) xs = throw e"
        then obtain e where bad: "r = throw e" "copies ty (tick h1) xs = throw e" by blast
        let ?h3 = "h2\<lparr>blocks := (blocks h2)(p := None), live := live h\<rparr>"
        have "(\<Sum>c \<leftarrow> drop (length ys) ?cs. cost ty (the c)) = 0"
          using sum_zero_cost[OF z] by simp
        then have "(\<Sum>c \<leftarrow> take (length xs) (map Some ys @ drop (length ys) ?cs). cost ty (the c)) = (\<Sum>y \<leftarrow> ys. cost ty y)"
          using run(2) by (simp add: comp_def)
        then have "deallocateArray ty p (length xs) h2 = (Ret (), ?h3)"
          using deallocateArray_block[OF ok(2), of h2 _ "length xs" ty] h2 run(2) by (auto simp: in_set_replicate)
        with run(1) bad have "copyArray_forward ty xs h = (throw e, ?h3)"
          by (simp add: start op_bind_def op_on_throw_def)
        moreover have "blocks ?h3 = blocks h" using ok(3) h2 by auto
        moreover have "wf_heap ?h3" by (rule wf_heap_upd(2)[OF w2]) (auto split: if_splits)
        ultimately show ?thesis using bad ok by (simp add: copy_spec_def copy_failed_def)
      qed
    qed
  qed
qed

text \<open>The input-iterator loop. Invariant: the first \<open>index\<close> of the \<open>capacity\<close> cells are initialised, with the copies
  made so far.\<close>

definition filling :: "'a heap \<Rightarrow> u64 \<Rightarrow> nat \<Rightarrow> nat \<Rightarrow> 'a list \<Rightarrow> bool" where
  "filling h d i capacity ys = (wf_heap h \<and> block_addr d \<and> length ys = i \<and> i \<le> capacity \<and> 0 < capacity \<and>
     (\<exists>rest. blocks h d = Some (map Some ys @ rest) \<and> length ys + length rest = capacity))"

lemma filling_dealloc:
  assumes "filling h d i capacity ys" "h1 = h\<lparr>tick := t\<rparr>"
  obtains h' where "deallocateArray ty d i h1 = (Ret (), h')" "wf_heap h'"
    "blocks h' = (blocks h)(d := None)" "live h' = live h - (\<Sum>y \<leftarrow> ys. cost ty y)"
proof -
  from assms obtain rest where f: "wf_heap h" "block_addr d" "length ys = i"
    "blocks h d = Some (map Some ys @ rest)" by (auto simp: filling_def)
  let ?h' = "h1\<lparr>blocks := (blocks h1)(d := None), live := live h1 - (\<Sum>y \<leftarrow> ys. cost ty y)\<rparr>"
  have "wf_heap h1" using f(1) assms(2) wf_heap_upd(5)[OF f(1), of "blocks h"] by simp
  moreover have "deallocateArray ty d i h1 = (Ret (), ?h')"
    using deallocateArray_block[of d h1 "map Some ys @ rest" i ty] f assms(2) by (auto simp: comp_def)
  ultimately show ?thesis
    using assms(2) by (intro that[of ?h']) (auto simp: wf_heap_def split: if_splits)
qed

lemma realloc_filling:
  assumes "filling h d i capacity ys" "i \<le> n" "0 < n"
  obtains (fail) h' where "op_on_throw (reallocate ty d n) (deallocateArray ty d i) h = (throw BadAlloc, h')"
      "wf_heap h'" "blocks h' = (blocks h)(d := None)" "live h' = live h - (\<Sum>y \<leftarrow> ys. cost ty y)"
  | (ok) q h' rest where "op_on_throw (reallocate ty d n) (deallocateArray ty d i) h = (Ret q, h')"
      "filling h' q i n ys" "blocks h' = (blocks h)(d := None, q \<mapsto> map Some ys @ rest)"
      "length ys + length rest = n" "((blocks h)(d := None)) q = None" "live h' = live h" "tick h' = tick h"
proof -
  from assms obtain rest where f: "wf_heap h" "block_addr d" "length ys = i"
    "blocks h d = Some (map Some ys @ rest)" by (auto simp: filling_def)
  from f(1,4) show ?thesis
  proof (cases rule: c_realloc_cases[where n = n])
    case fail
    from filling_dealloc[OF assms(1), of h "tick h" ty] obtain h' where
      "deallocateArray ty d i h = (Ret (), h')" "wf_heap h'"
      "blocks h' = (blocks h)(d := None)" "live h' = live h - (\<Sum>y \<leftarrow> ys. cost ty y)" by auto
    with fail show ?thesis
      by (intro that(1)[of h']) (simp_all add: op_on_throw_def reallocate_def op_bind_def)
  next
    case (ok q h')
    let ?rest = "take (n - i) rest @ replicate (n - i - length rest) None"
    have cs: "take n (map Some ys @ rest) @ replicate (n - length (map Some ys @ rest)) None = map Some ys @ ?rest"
      using f(3) assms(2) by simp
    have len: "length ys + length ?rest = n" using f(3) assms(2) by auto
    have q0: "q \<noteq> 0" using ok(2) by (simp add: block_addr_def)
    have b: "blocks h' = (blocks h)(d := None, q \<mapsto> map Some ys @ ?rest)" using ok(4) cs by simp
    have "filling h' q i n ys"
      unfolding filling_def using ok b len assms(2,3) f(3) by (auto intro!: exI[of _ ?rest])
    with ok q0 b len show ?thesis
      by (intro that(2)[of q h' ?rest]) (auto simp: op_on_throw_def reallocate_def op_bind_def)
  qed
qed

lemma grow_filling:
  assumes "filling h d i capacity ys"
  obtains (fail) h' where "grow ty d i capacity h = (throw BadAlloc, h')"
      "wf_heap h'" "blocks h' = (blocks h)(d := None)" "live h' = live h - (\<Sum>y \<leftarrow> ys. cost ty y)"
  | (ok) q c h' rest where "grow ty d i capacity h = (Ret (q, c), h')" "i < c"
      "filling h' q i c ys" "blocks h' = (blocks h)(d := None, q \<mapsto> map Some ys @ rest)"
      "length ys + length rest = c" "((blocks h)(d := None)) q = None" "live h' = live h" "tick h' = tick h"
proof (cases "i \<ge> capacity")
  case True
  have c: "i \<le> capacity * 2" "0 < capacity * 2" "i < capacity * 2"
    using assms True by (auto simp: filling_def)
  from assms c(1,2) show ?thesis
  proof (cases rule: realloc_filling[where ty = ty])
    case (fail h')
    with True show ?thesis by (intro that(1)[of h']) (simp_all add: grow_def op_bind_def)
  next
    case (ok q h' rest)
    with True c show ?thesis
      by (intro that(2)[of q "capacity * 2" h' rest]) (simp_all add: grow_def op_bind_def)
  qed
next
  case False
  then obtain rest where "blocks h d = Some (map Some ys @ rest)" "length ys + length rest = capacity"
    using assms by (auto simp: filling_def)
  with False assms show ?thesis
    by (intro that(2)[of d capacity h rest]) (auto simp: grow_def filling_def)
qed

lemma fill_spec:
  assumes "filling h d i capacity ys" "0 < i + length xs"
  shows "\<exists>r h'. fill ty d i capacity xs h = (r, h') \<and> wf_heap h' \<and> (case r of
      Inr (p, n) \<Rightarrow> n = i + length xs \<and> (\<exists>zs. copies ty (tick h) xs = Ret zs
         \<and> live h' = live h + (\<Sum>y \<leftarrow> zs. cost ty y) \<and> block_addr p \<and> ((blocks h)(d := None)) p = None
         \<and> blocks h' = (blocks h)(d := None, p \<mapsto> map Some (ys @ zs)))
    | Inl f \<Rightarrow> (f = Throw BadAlloc \<or> (\<exists>e. f = Throw e \<and> copies ty (tick h) xs = throw e))
         \<and> blocks h' = (blocks h)(d := None) \<and> live h' = live h - (\<Sum>y \<leftarrow> ys. cost ty y))"
  using assms
proof (induction xs arbitrary: h d i capacity ys)
  case Nil
  then have "i \<le> i" "0 < i" by simp_all
  with Nil.prems(1) show ?case
  proof (cases rule: realloc_filling[where ty = ty])
    case (fail h')
    then show ?thesis by (simp add: op_bind_def)
  next
    case (ok q h' rest)
    then have "rest = []" using Nil.prems by (simp add: filling_def)
    with ok show ?thesis by (auto simp: op_bind_def filling_def)
  qed
next
  case (Cons x xs)
  from Cons.prems(1) show ?case
  proof (cases rule: grow_filling[where ty = ty])
    case (fail h')
    then show ?thesis by (simp add: op_bind_def)
  next
    case g: (ok q c h1 rest)
    show ?thesis
    proof (cases rule: copy_cases[of ty x h1])
      case (fail e h2)
      from filling_dealloc[OF g(3) fail(2)] obtain h3 where
        d: "deallocateArray ty q i h2 = (Ret (), h3)" "wf_heap h3"
          "blocks h3 = (blocks h1)(q := None)" "live h3 = live h1 - (\<Sum>y \<leftarrow> ys. cost ty y)" by blast
      have "fill ty d i capacity (x # xs) h = (throw e, h3)"
        using g(1) fail(1) d(1) by (simp add: op_bind_def op_on_throw_def)
      moreover have "copies ty (tick h) (x # xs) = throw e" using fail(3)[of xs] g(8) by simp
      moreover have "blocks h3 = (blocks h)(d := None)" using d(3) g(4,6) by (simp add: fun_upd_idem_iff)
      ultimately show ?thesis using d g(7) by (simp del: copies.simps fill.simps)
    next
      case (ok y h2)
      obtain u rest' where rest: "rest = u # rest'" using g(2,3,5) by (cases rest) (auto simp: filling_def)
      let ?h3 = "h2\<lparr>blocks := (blocks h2)(q \<mapsto> map Some (ys @ [y]) @ rest')\<rparr>"
      have b2: "blocks h2 = blocks h1" "live h2 = live h1 + cost ty y" by (subst ok(2), simp)+
      have i: "length ys = i" using g(3) by (simp add: filling_def)
      have st: "store q i y h2 = (Ret (), ?h3)"
        using g(4) i rest by (simp add: store_def b2 list_update_append)
      have w1: "wf_heap h1" using g(3) by (simp add: filling_def)
      have w2: "wf_heap h2" by (subst ok(2), rule wf_heap_upd(4)[OF w1]) assumption
      have w3: "wf_heap ?h3"
        by (rule wf_heap_upd(3)[OF w2]) (auto simp: b2 g(4) split: if_splits)
      have "filling ?h3 q (Suc i) c (ys @ [y])"
        using g(2,3,5) w3 rest by (auto simp: filling_def intro!: exI[of _ rest'])
      moreover have "0 < Suc i + length xs" by simp
      ultimately obtain r h' where IH: "fill ty q (Suc i) c xs ?h3 = (r, h')" "wf_heap h'" "case r of
          Inr (p, n) \<Rightarrow> n = Suc i + length xs \<and> (\<exists>zs. copies ty (tick ?h3) xs = Ret zs
             \<and> live h' = live ?h3 + (\<Sum>y \<leftarrow> zs. cost ty y) \<and> block_addr p \<and> ((blocks ?h3)(q := None)) p = None
             \<and> blocks h' = (blocks ?h3)(q := None, p \<mapsto> map Some ((ys @ [y]) @ zs)))
        | Inl f \<Rightarrow> (f = Throw BadAlloc \<or> (\<exists>e. f = Throw e \<and> copies ty (tick ?h3) xs = throw e))
             \<and> blocks h' = (blocks ?h3)(q := None) \<and> live h' = live ?h3 - (\<Sum>y \<leftarrow> ys @ [y]. cost ty y)"
        using Cons.IH[of ?h3 q "Suc i" c "ys @ [y]"] by blast
      have run: "fill ty d i capacity (x # xs) h = (r, h')"
        using g(1) ok(1) st IH(1) by (simp add: op_bind_def op_on_throw_def)
      have t: "tick ?h3 = tick h2" "live ?h3 = live h + cost ty y" using b2 g(7) by simp_all
      have bq: "(blocks ?h3)(q := None) = (blocks h)(d := None)" using b2(1) g(4,6) by (simp add: fun_upd_idem_iff)
      have cp: "copies ty (tick h) (x # xs) = outc_bind (copies ty (tick h2) xs) (\<lambda>ys. Ret (y # ys))"
        using ok(3)[of xs] g(8) by simp
      show ?thesis
        using run IH(2) IH(3)[unfolded t bq]
        by (cases r) (auto simp: cp simp del: copies.simps fill.simps)
    qed
  qed
qed

lemma copyArray_input_spec:
  assumes w: "wf_heap h"
  shows "copy_spec ty xs h (copyArray_input ty xs h)"
proof (cases "xs = []")
  case True
  with w show ?thesis by (simp add: copyArray_input_def copy_spec_def copy_ok_def)
next
  case False
  from w show ?thesis
  proof (cases rule: calloc_cases[where ty = ty and n = 16])
    case fail
    with False w show ?thesis
      by (simp add: copyArray_input_def allocateArray_def UA_INT32_MAX_def op_bind_def copy_spec_def copy_failed_def)
  next
    case (ok p h1)
    have "p \<noteq> 0" using ok(2) by (simp add: block_addr_def)
    then have run: "copyArray_input ty xs h = fill ty p 0 16 xs h1"
      using ok False by (simp add: copyArray_input_def allocateArray_def UA_INT32_MAX_def op_bind_def)
    have f: "filling h1 p 0 16 []" using ok by (simp add: filling_def)
    have b: "(blocks h1)(p := None) = blocks h" using ok(3,4) by auto
    from fill_spec[OF f, of xs ty] False obtain r h' where
      "fill ty p 0 16 xs h1 = (r, h')" "wf_heap h'" "case r of
      Inr (q, n) \<Rightarrow> n = 0 + length xs \<and> (\<exists>zs. copies ty (tick h1) xs = Ret zs
         \<and> live h' = live h1 + (\<Sum>y \<leftarrow> zs. cost ty y) \<and> block_addr q \<and> ((blocks h1)(p := None)) q = None
         \<and> blocks h' = (blocks h1)(p := None, q \<mapsto> map Some ([] @ zs)))
    | Inl f \<Rightarrow> (f = Throw BadAlloc \<or> (\<exists>e. f = Throw e \<and> copies ty (tick h1) xs = throw e))
         \<and> blocks h' = (blocks h1)(p := None) \<and> live h' = live h1 - (\<Sum>y \<leftarrow> []. cost ty y)"
      by auto
    then show ?thesis
      using False ok(5,6) unfolding run b
      by (cases r) (auto simp: copy_spec_def copy_ok_def copy_failed_def)
  qed
qed

section \<open>The contract of the copy operations\<close>

lemma copyArray_forward_total:
  assumes "wf_heap h" "0 < budget h" "next_block h < 2 ^ 59" "length xs \<le> UA_INT32_MAX"
    "copies ty (tick h) xs = Ret ys"
  shows "\<exists>res h'. copyArray_forward ty xs h = (Ret res, h')"
proof (cases "xs = []")
  case True
  then show ?thesis
    by (simp add: copyArray_forward_def allocateArray_def op_bind_def op_on_throw_def UA_INT32_MAX_def)
next
  case ne: False
  from assms(1) show ?thesis
  proof (cases rule: calloc_cases[where ty = ty and n = "length xs"])
    case fail
    with assms show ?thesis by simp
  next
    case (ok p h1)
    have p0: "p \<noteq> 0" using ok(2) by (simp add: block_addr_def)
    have "blocks h1 p = Some (replicate (length xs) (Some (zero ty)))" using ok(4) by simp
    from copy_items_spec[OF this, of 0 xs ty] ok(6) assms(5) obtain h2 where
      "copy_items ty p 0 xs h1 = (Ret (), h2)" by auto
    with ok p0 ne assms(4) show ?thesis
      by (simp add: copyArray_forward_def allocateArray_def op_bind_def op_on_throw_def)
  qed
qed

locale array_copier =
  fixes copyf :: "'a item_type \<Rightarrow> 'a list \<Rightarrow> ('a heap, u64 \<times> nat) op"
  assumes spec: "wf_heap h \<Longrightarrow> own ty (zero ty) = 0 \<Longrightarrow> copy_spec ty xs h (copyf ty xs h)"
begin

lemma never_faults:
  assumes "wf_heap h" "own ty (zero ty) = 0"
  shows "(\<exists>res. fst (copyf ty xs h) = Ret res) \<or> (\<exists>e. fst (copyf ty xs h) = throw e)"
  using spec[OF assms, of xs]
  by (cases "fst (copyf ty xs h)") (auto simp: copy_spec_def copy_failed_def)

lemma failure_no_leak:
  assumes "wf_heap h" "own ty (zero ty) = 0" "copyf ty xs h = (Inl f, h')"
  shows "blocks h' = blocks h \<and> live h' = live h"
  using spec[OF assms(1,2), of xs] assms(3) by (simp add: copy_spec_def copy_failed_def)

lemma success:
  assumes "wf_heap h" "own ty (zero ty) = 0" "copyf ty xs h = (Ret (p, n), h')"
  shows "n = length xs \<and> wf_heap h' \<and> (\<exists>ys. copies ty (tick h) xs = Ret ys \<and>
      (xs \<noteq> [] \<longrightarrow> blocks h' p = Some (map Some ys)) \<and> (\<forall>q cs. blocks h q = Some cs \<longrightarrow> blocks h' q = Some cs))"
  using spec[OF assms(1,2), of xs] assms(3)
  by (auto simp: copy_spec_def copy_ok_def split: if_splits)

lemma roundtrip:
  assumes "wf_heap h" "own ty (zero ty) = 0" "copyf ty xs h = (Ret (p, n), h')"
  shows "\<exists>h''. deallocateArray ty p n h' = (Ret (), h'') \<and> blocks h'' = blocks h \<and> live h'' = live h"
proof -
  from spec[OF assms(1,2), of xs] assms(3) obtain ys where s:
    "n = length xs" "copies ty (tick h) xs = Ret ys" "live h' = live h + (\<Sum>y \<leftarrow> ys. cost ty y)"
    "if xs = [] then p = makeEmptyArraySentinel \<and> blocks h' = blocks h
     else block_addr p \<and> blocks h p = None \<and> blocks h' = (blocks h)(p \<mapsto> map Some ys)"
    by (auto simp: copy_spec_def copy_ok_def)
  show ?thesis
  proof (cases "xs = []")
    case True
    with s show ?thesis by (auto simp: deallocateArray_nothing)
  next
    case False
    with s have p: "block_addr p" "blocks h' p = Some (map Some ys)" "length ys = n"
      by (auto dest: length_copies)
    have "deallocateArray ty p n h' =
        (Ret (), h'\<lparr>blocks := (blocks h')(p := None), live := live h' - (\<Sum>y \<leftarrow> ys. cost ty y)\<rparr>)"
      using deallocateArray_block[OF p(1,2), of n ty] p(3) by (auto simp: comp_def)
    then show ?thesis using s False by auto
  qed
qed

end

interpretation fwd: array_copier copyArray_forward
  by unfold_locales (rule copyArray_forward_spec)

interpretation inp: array_copier copyArray_input
  by unfold_locales (rule copyArray_input_spec)

section \<open>Properties\<close>

text \<open>A concrete element type for the witnesses: numbers, each owning one allocation unless it is zero, with a copy
  function that refuses the value 13.\<close>

definition demo_type :: "nat item_type" where
  "demo_type = \<lparr>zero = 0, own = (\<lambda>x. if x = 0 then 0 else 1),
     ua_copy = (\<lambda>_ x. if x = 13 then (UA_STATUSCODE_BADOUTOFMEMORY, 0) else (UA_STATUSCODE_GOOD, x)), pointerFree = False\<rparr>"

definition demo_heap :: "nat heap" where
  "demo_heap = \<lparr>blocks = \<lambda>_. None, next_block = 1, budget = 5, live = 0, tick = 0\<rparr>"

lemma demo_ok: "wf_heap demo_heap" "own demo_type (zero demo_type) = 0"
  by (simp_all add: demo_heap_def demo_type_def wf_heap_def)

text \<open>C32. Copying an array, through forward iterators or through input iterators with a growing buffer: for every
  source, allocator behaviour and every failure of \<open>UA_copy\<close>, the operation has no undefined behaviour; either
  it returns a fresh block (the sentinel for an empty source) that holds exactly the copies in order, leaving
  every other block alone, or it throws \<open>bad_alloc\<close> or the status of the first item that could not be copied
  and memory is as it was: nothing leaked, nothing freed twice.\<close>

theorem copyArray_correct:
  assumes "wf_heap h" and "own ty (zero ty) = 0"
  shows "copy_spec ty xs h (copyArray_forward ty xs h) \<and> copy_spec ty xs h (copyArray_input ty xs h)"
  by (intro conjI fwd.spec inp.spec assms)

theorem copyArray_correct_witness:
  "blocks (snd (copyArray_forward demo_type [7, 13, 8] demo_heap)) = Map.empty
   \<and> live (snd (copyArray_input demo_type [7, 13, 8] demo_heap)) = 0"
proof -
  have "copies demo_type (tick demo_heap) [7, 13, 8] = throw (BadStatus UA_STATUSCODE_BADOUTOFMEMORY)"
    by (simp add: demo_type_def throwIfBad_def status_codes wrd)
  moreover have "live demo_heap = 0" "blocks demo_heap = Map.empty" by (simp_all add: demo_heap_def)
  ultimately show ?thesis
    using copyArray_correct [OF demo_ok, of "[7, 13, 8]"]
    by (auto simp: copy_spec_def copy_ok_def copy_failed_def simp del: copies.simps split: sum.splits prod.splits)
qed

text \<open>Whatever a successful array copy created is released by \<open>deallocateArray\<close> with the returned pointer and
  size, on both strategies and for the empty array: all blocks and the balance of member
  allocations are those before the copy. When memory and the items allow it, the forward copy does succeed.\<close>

theorem copyArray_deallocate_roundtrip:
  assumes "wf_heap h" and "own ty (zero ty) = 0"
  shows "(copyArray_forward ty xs h = (Ret (p, n), h') \<longrightarrow>
            (\<exists>h''. deallocateArray ty p n h' = (Ret (), h'') \<and> blocks h'' = blocks h \<and> live h'' = live h))
    \<and> (copyArray_input ty xs h = (Ret (p, n), h') \<longrightarrow>
            (\<exists>h''. deallocateArray ty p n h' = (Ret (), h'') \<and> blocks h'' = blocks h \<and> live h'' = live h))
    \<and> (0 < budget h \<and> next_block h < 2 ^ 59 \<and> length xs \<le> UA_INT32_MAX \<and> copies ty (tick h) xs = Ret ys
         \<longrightarrow> returns (fst (copyArray_forward ty xs h)))"
  using fwd.roundtrip[OF assms] inp.roundtrip[OF assms] copyArray_forward_total[OF assms(1)]
  by (auto simp: returns_iff) (metis fst_conv)

theorem copyArray_deallocate_roundtrip_witness:
  "\<exists>h''. deallocateArray demo_type (fst (projr (fst (copyArray_forward demo_type [7, 8] demo_heap)))) 2
        (snd (copyArray_forward demo_type [7, 8] demo_heap)) = (Ret (), h'') \<and> live h'' = 0"
proof -
  have "copyArray_forward demo_type [7, 8] demo_heap =
      (Ret (16, 2), snd (copyArray_forward demo_type [7, 8] demo_heap))"
    by (simp add: copyArray_forward_def allocateArray_def UA_INT32_MAX_def demo_heap_def op_bind_def calloc_def
        Let_def addr_of_def op_on_throw_def copy_def demo_type_def throwIfBad_def store_def)
  from copyArray_deallocate_roundtrip [OF demo_ok, of "[7, 8]" 16 2, THEN conjunct1, rule_format, OF this]
  show ?thesis
    by (subst \<open>copyArray_forward demo_type [7, 8] demo_heap = _\<close>) (auto simp: demo_heap_def)
qed

text \<open>The empty-array sentinel: a null pointer, the sentinel and an even (allocator) address are
  told apart as intended, an array of length zero is the sentinel, and clearing or freeing null or the sentinel
  touches nothing; but every odd address other than the sentinel, such as borrowed byte data, is moved down by one
  by \<open>stripEmptyArraySentinel\<close>.\<close>

theorem sentinel_spec:
  "stripEmptyArraySentinel 0 = 0 \<and> stripEmptyArraySentinel makeEmptyArraySentinel = 0
   \<and> (block_addr p \<longrightarrow> stripEmptyArraySentinel p = p \<and> (isEmptyArray p n \<longleftrightarrow> n = 0))
   \<and> allocateArray ty 0 h = (Ret makeEmptyArraySentinel, h)
   \<and> deallocateArray ty 0 n h = (Ret (), h) \<and> deallocateArray ty makeEmptyArraySentinel n h = (Ret (), h)
   \<and> (bit p 0 \<longrightarrow> stripEmptyArraySentinel p = p - 1 \<and> stripEmptyArraySentinel p \<noteq> p)"
  by (auto simp: isEmptyArray_def block_addr_def strip_even strip_odd allocateArray_def UA_INT32_MAX_def
      deallocateArray_nothing)

theorem sentinel_spec_witness:
  "stripEmptyArraySentinel 17 = 16 \<and> stripEmptyArraySentinel 16 = 16"
  using sentinel_spec [of 17 0 demo_type demo_heap] sentinel_spec [of 16 0 demo_type demo_heap]
  by (simp add: block_addr_def bit_simps)

end
