(* ===== verification/Content_Filters.thy ===== *)
theory Content_Filters
  imports Native_Memory
begin

text \<open>
  Event filters: \<open>ContentFilterElement\<close> and \<open>ContentFilter\<close> (\<open>ua/types.hpp\<close>) and their \<open>!\<close>, \<open>&&\<close> and
  \<open>||\<close> operators (\<open>ua_types.cpp\<close>). A filter is a flat array of elements; an element refers to its
  sub-elements by their 32-bit index in the array (\<open>ElementOperand\<close>), and evaluation starts at the
  first element. The operators concatenate arrays and shift the indices. \<open>eval\<close> is the meaning of a filter as
  the comment of the class and OPC UA Part 4, annex B describe it, for any meaning of the operators
  and of the other operands.
\<close>

section \<open>Data\<close>

datatype FilterOperator = FoEquals | FoIsNull | FoGreaterThan | FoLessThan | FoGreaterThanOrEqual
  | FoLessThanOrEqual | FoLike | FoNot | FoBetween | FoInList | FoAnd | FoOr | FoCast | FoInView | FoOfType
  | FoRelatedTo | FoBitwiseAnd | FoBitwiseOr

fun FilterOperator_code :: "FilterOperator \<Rightarrow> u32" where
  "FilterOperator_code FoEquals = 0" | "FilterOperator_code FoIsNull = 1"
| "FilterOperator_code FoGreaterThan = 2" | "FilterOperator_code FoLessThan = 3"
| "FilterOperator_code FoGreaterThanOrEqual = 4" | "FilterOperator_code FoLessThanOrEqual = 5"
| "FilterOperator_code FoLike = 6" | "FilterOperator_code FoNot = 7"
| "FilterOperator_code FoBetween = 8" | "FilterOperator_code FoInList = 9"
| "FilterOperator_code FoAnd = 10" | "FilterOperator_code FoOr = 11"
| "FilterOperator_code FoCast = 12" | "FilterOperator_code FoInView = 13"
| "FilterOperator_code FoOfType = 14" | "FilterOperator_code FoRelatedTo = 15"
| "FilterOperator_code FoBitwiseAnd = 16" | "FilterOperator_code FoBitwiseOr = 17"

text \<open>Operands are extension objects. \<open>OtherOperand\<close> is any object that does not decode to one of the four
  operand types; the payloads other than the index are opaque.\<close>

datatype 'o FilterOperand =
    ElementOperand u32
  | LiteralOperand 'o
  | AttributeOperand 'o
  | SimpleAttributeOperand 'o
  | OtherOperand 'o

record 'o ContentFilterElement =
  filterOperator :: FilterOperator
  filterOperands :: "'o FilterOperand list"

type_synonym 'o ContentFilter = "'o ContentFilterElement list"

definition mkElement :: "FilterOperator \<Rightarrow> 'o FilterOperand list \<Rightarrow> 'o ContentFilterElement outc" where
  "mkElement op operands =
     (if length operands > UA_INT32_MAX then throw BadAlloc
      else Ret \<lparr>filterOperator = op, filterOperands = operands\<rparr>)"

section \<open>Concatenation\<close>

fun shift_operand :: "u32 \<Rightarrow> 'o FilterOperand \<Rightarrow> 'o FilterOperand" where
  "shift_operand off (ElementOperand index) = ElementOperand (index + off)"
| "shift_operand off operand = operand"

definition shift_element :: "u32 \<Rightarrow> 'o ContentFilterElement \<Rightarrow> 'o ContentFilterElement" where
  "shift_element off e = e\<lparr>filterOperands := map (shift_operand off) (filterOperands e)\<rparr>"

fun concat_from :: "nat \<Rightarrow> 'o ContentFilterElement list list \<Rightarrow> 'o ContentFilter" where
  "concat_from offset [] = []"
| "concat_from offset (es # ess) =
     map (shift_element (of_nat offset)) es @ concat_from (offset + length es) ess"

definition concatFilterElements :: "'o ContentFilterElement list list \<Rightarrow> 'o ContentFilter outc" where
  "concatFilterElements ess =
     (let totalSize = sum_list (map length ess) in
      if totalSize > UA_INT32_MAX then throw BadAlloc else Ret (concat_from 0 ess))"

definition applyUnaryOperator :: "FilterOperator \<Rightarrow> 'o ContentFilterElement list \<Rightarrow> 'o ContentFilter outc" where
  "applyUnaryOperator op es =
     outc_bind (mkElement op [ElementOperand 1]) (\<lambda>hd. concatFilterElements [[hd], es])"

definition applyBinaryOperator ::
  "FilterOperator \<Rightarrow> 'o ContentFilterElement list \<Rightarrow> 'o ContentFilterElement list \<Rightarrow> 'o ContentFilter outc" where
  "applyBinaryOperator op lhs rhs =
     outc_bind (mkElement op [ElementOperand 1, ElementOperand (1 + of_nat (length lhs))])
       (\<lambda>hd. concatFilterElements [[hd], lhs, rhs])"

definition not_element :: "'o ContentFilterElement \<Rightarrow> 'o ContentFilter outc" where
  "not_element e = applyUnaryOperator FoNot [e]"
definition not_filter :: "'o ContentFilter \<Rightarrow> 'o ContentFilter outc" where
  "not_filter f = applyUnaryOperator FoNot f"
definition and_ee :: "'o ContentFilterElement \<Rightarrow> 'o ContentFilterElement \<Rightarrow> 'o ContentFilter outc" where
  "and_ee lhs rhs = applyBinaryOperator FoAnd [lhs] [rhs]"
definition and_ef :: "'o ContentFilterElement \<Rightarrow> 'o ContentFilter \<Rightarrow> 'o ContentFilter outc" where
  "and_ef lhs rhs = applyBinaryOperator FoAnd [lhs] rhs"
definition and_fe :: "'o ContentFilter \<Rightarrow> 'o ContentFilterElement \<Rightarrow> 'o ContentFilter outc" where
  "and_fe lhs rhs = applyBinaryOperator FoAnd lhs [rhs]"
definition and_ff :: "'o ContentFilter \<Rightarrow> 'o ContentFilter \<Rightarrow> 'o ContentFilter outc" where
  "and_ff lhs rhs = applyBinaryOperator FoAnd lhs rhs"
definition or_ee :: "'o ContentFilterElement \<Rightarrow> 'o ContentFilterElement \<Rightarrow> 'o ContentFilter outc" where
  "or_ee lhs rhs = applyBinaryOperator FoOr [lhs] [rhs]"
definition or_ef :: "'o ContentFilterElement \<Rightarrow> 'o ContentFilter \<Rightarrow> 'o ContentFilter outc" where
  "or_ef lhs rhs = applyBinaryOperator FoOr [lhs] rhs"
definition or_fe :: "'o ContentFilter \<Rightarrow> 'o ContentFilterElement \<Rightarrow> 'o ContentFilter outc" where
  "or_fe lhs rhs = applyBinaryOperator FoOr lhs [rhs]"
definition or_ff :: "'o ContentFilter \<Rightarrow> 'o ContentFilter \<Rightarrow> 'o ContentFilter outc" where
  "or_ff lhs rhs = applyBinaryOperator FoOr lhs rhs"

section \<open>Meaning\<close>

text \<open>The specification asks every element reference to point to a later element; that makes
  evaluation terminate.\<close>

function eval :: "(FilterOperator \<Rightarrow> 'v list \<Rightarrow> 'v) \<Rightarrow> ('o FilterOperand \<Rightarrow> 'v) \<Rightarrow> 'o ContentFilter \<Rightarrow> nat \<Rightarrow> 'v option"
where
  "eval sem oper f i =
     (if i < length f then
        (case those (map (\<lambda>a. case a of
                ElementOperand j \<Rightarrow> if i < unat j then eval sem oper f (unat j) else None
              | a \<Rightarrow> Some (oper a)) (filterOperands (f ! i))) of
           None \<Rightarrow> None
         | Some vs \<Rightarrow> Some (sem (filterOperator (f ! i)) vs))
      else None)"
  by pat_completeness auto
termination
  by (relation "measure (\<lambda>(sem, oper, f, i). length f - i)") auto

declare eval.simps [simp del]

definition wf_filter :: "'o ContentFilter \<Rightarrow> bool" where
  "wf_filter f = (f \<noteq> [] \<and> (\<forall>i < length f. \<forall>j. ElementOperand j \<in> set (filterOperands (f ! i))
      \<longrightarrow> i < unat j \<and> unat j < length f))"

definition leaf_element :: "'o ContentFilterElement \<Rightarrow> bool" where
  "leaf_element e = (\<forall>j. ElementOperand j \<notin> set (filterOperands e))"

definition filter_value ::
  "(FilterOperator \<Rightarrow> 'v list \<Rightarrow> 'v) \<Rightarrow> ('o FilterOperand \<Rightarrow> 'v) \<Rightarrow> 'o ContentFilter \<Rightarrow> 'v option" where
  "filter_value sem oper f = eval sem oper f 0"

section \<open>Shifting a closed block does not change its meaning\<close>

lemma those_map_Some [simp]: "those (map (\<lambda>x. Some (g x)) xs) = Some (map g xs)"
  by (induction xs) simp_all

lemma those_not_None: "None \<notin> set xs \<Longrightarrow> \<exists>vs. those xs = Some vs"
proof (induction xs)
  case (Cons x xs)
  then show ?case by (cases x) auto
qed simp

definition operand_value ::
  "(FilterOperator \<Rightarrow> 'v list \<Rightarrow> 'v) \<Rightarrow> ('o FilterOperand \<Rightarrow> 'v) \<Rightarrow> 'o ContentFilter \<Rightarrow> nat \<Rightarrow> 'o FilterOperand \<Rightarrow> 'v option"
where
  "operand_value sem oper f i a = (case a of
      ElementOperand j \<Rightarrow> if i < unat j then eval sem oper f (unat j) else None
    | a \<Rightarrow> Some (oper a))"

lemma operand_value_simps [simp]:
  "operand_value sem oper f i (ElementOperand j) = (if i < unat j then eval sem oper f (unat j) else None)"
  "operand_value sem oper f i (LiteralOperand x) = Some (oper (LiteralOperand x))"
  "operand_value sem oper f i (AttributeOperand x) = Some (oper (AttributeOperand x))"
  "operand_value sem oper f i (SimpleAttributeOperand x) = Some (oper (SimpleAttributeOperand x))"
  "operand_value sem oper f i (OtherOperand x) = Some (oper (OtherOperand x))"
  by (simp_all add: operand_value_def)

lemma eval_unfold:
  "i < length f \<Longrightarrow> eval sem oper f i =
     map_option (sem (filterOperator (f ! i))) (those (map (operand_value sem oper f i) (filterOperands (f ! i))))"
  by (subst eval.simps) (auto simp: operand_value_def[abs_def] map_option_case cong: map_cong)

lemma eval_defined:
  assumes "wf_filter f" "i < length f"
  shows "eval sem oper f i \<noteq> None"
  using assms
proof (induction "length f - i" arbitrary: i rule: less_induct)
  case less
  have "operand_value sem oper f i a \<noteq> None" if "a \<in> set (filterOperands (f ! i))" for a
  proof (cases a)
    case (ElementOperand j)
    with that less.prems have j: "i < unat j" "unat j < length f" by (auto simp: wf_filter_def)
    then have "length f - unat j < length f - i" by simp
    from less.hyps[OF this less.prems(1) j(2)] j ElementOperand show ?thesis by simp
  qed simp_all
  then have "None \<notin> set (map (operand_value sem oper f i) (filterOperands (f ! i)))" by force
  from those_not_None[OF this] less.prems(2) show ?case by (auto simp: eval_unfold)
qed

lemma eval_embed:
  assumes wf: "wf_filter f" and bound: "length pre + length f + length post < 2 ^ 32" and "i < length f"
  shows "eval sem oper (pre @ map (shift_element (of_nat (length pre))) f @ post) (length pre + i)
    = eval sem oper f i"
  using assms(3)
proof (induction "length f - i" arbitrary: i rule: less_induct)
  case less
  let ?off = "of_nat (length pre) :: u32"
  let ?F = "pre @ map (shift_element ?off) f @ post"
  have nth: "?F ! (length pre + i) = shift_element ?off (f ! i)"
    using less.prems by (simp add: nth_append)
  have off: "unat ?off = length pre" using bound by (intro unat_of_nat_fit) simp
  have "operand_value sem oper ?F (length pre + i) (shift_operand ?off a) = operand_value sem oper f i a"
    if "a \<in> set (filterOperands (f ! i))" for a
  proof (cases a)
    case (ElementOperand j)
    with that less.prems wf have j: "i < unat j" "unat j < length f" by (auto simp: wf_filter_def)
    have uj: "unat (j + ?off) = length pre + unat j"
      using word_add_no_wrap[of j ?off] off j bound by simp
    have "length f - unat j < length f - i" using j by simp
    from less.hyps[OF this j(2)] show ?thesis using ElementOperand j(1) by (simp add: uj)
  qed simp_all
  then have "map (operand_value sem oper ?F (length pre + i)) (filterOperands (shift_element ?off (f ! i)))
      = map (operand_value sem oper f i) (filterOperands (f ! i))"
    by (simp add: shift_element_def)
  moreover have "length pre + i < length ?F" using less.prems by simp
  moreover have "filterOperator (shift_element ?off (f ! i)) = filterOperator (f ! i)"
    by (simp add: shift_element_def)
  ultimately show ?case
    using less.prems by (simp only: eval_unfold nth)
qed

lemma shift_0 [simp]: "shift_element 0 e = e"
proof -
  have "shift_operand 0 a = a" for a :: "'a FilterOperand" by (cases a) simp_all
  then show ?thesis by (simp add: shift_element_def map_idI)
qed

lemma wf_shifted:
  assumes wf: "wf_filter f" and bound: "n + length f < 2 ^ 32" and i: "i < length f"
    and j: "ElementOperand j \<in> set (filterOperands (shift_element (of_nat n) (f ! i)))"
  shows "n + i < unat j \<and> unat j < n + length f"
proof -
  obtain a where a: "a \<in> set (filterOperands (f ! i))" "ElementOperand j = shift_operand (of_nat n) a"
    using j by (auto simp: shift_element_def)
  from a(2) obtain k where k: "a = ElementOperand k" "j = k + of_nat n" by (cases a) auto
  with a wf i have ik: "i < unat k" "unat k < length f" by (auto simp: wf_filter_def)
  have "unat (of_nat n :: u32) = n" using bound by (intro unat_of_nat_fit) simp
  then have "unat j = unat k + n"
    using word_add_no_wrap[of k "of_nat n"] ik bound k(2) by simp
  with ik show ?thesis by simp
qed

lemma applyUnaryOperator_ok:
  assumes "1 + length f \<le> UA_INT32_MAX"
  shows "applyUnaryOperator op f =
    Ret (\<lparr>filterOperator = op, filterOperands = [ElementOperand 1]\<rparr> # map (shift_element 1) f)"
  using assms
  by (simp add: applyUnaryOperator_def mkElement_def concatFilterElements_def UA_INT32_MAX_def)

lemma applyBinaryOperator_ok:
  assumes "1 + length f + length g \<le> UA_INT32_MAX"
  shows "applyBinaryOperator op f g =
    Ret (\<lparr>filterOperator = op, filterOperands = [ElementOperand 1, ElementOperand (1 + of_nat (length f))]\<rparr>
      # map (shift_element 1) f @ map (shift_element (of_nat (1 + length f))) g)"
  using assms
  by (simp add: applyBinaryOperator_def mkElement_def concatFilterElements_def UA_INT32_MAX_def)

lemma apply_too_large:
  "1 + length f > UA_INT32_MAX \<Longrightarrow> applyUnaryOperator op f = throw BadAlloc"
  "1 + length f + length g > UA_INT32_MAX \<Longrightarrow> applyBinaryOperator op f g = throw BadAlloc"
  by (simp_all add: applyUnaryOperator_def applyBinaryOperator_def mkElement_def concatFilterElements_def
      UA_INT32_MAX_def)

lemma unary_correct:
  assumes wf: "wf_filter f" and size: "1 + length f \<le> UA_INT32_MAX"
  obtains r where "applyUnaryOperator op f = Ret r" "length r = 1 + length f" "wf_filter r"
    "filter_value sem oper r = map_option (\<lambda>v. sem op [v]) (filter_value sem oper f)"
proof -
  let ?hd = "\<lparr>filterOperator = op, filterOperands = [ElementOperand 1 :: 'a FilterOperand]\<rparr>"
  let ?r = "?hd # map (shift_element 1) f"
  from wf have ne: "0 < length f" by (simp add: wf_filter_def)
  have b: "1 + length f < 2 ^ 32" using size by (simp add: UA_INT32_MAX_def)
  have "wf_filter ?r"
    unfolding wf_filter_def
  proof (intro conjI allI impI)
    fix i j assume i: "i < length ?r" and j: "ElementOperand j \<in> set (filterOperands (?r ! i))"
    show "i < unat j" "unat j < length ?r"
      using i j ne wf_shifted[OF wf b, of "i - 1" j] by (cases i; simp)+
  qed simp
  moreover have "filter_value sem oper ?r = map_option (\<lambda>v. sem op [v]) (filter_value sem oper f)"
    using eval_embed[OF wf, of "[?hd]" "[]" 0 sem oper] b ne
    by (simp add: filter_value_def eval_unfold[of 0 ?r] option.map_comp)
      (cases "eval sem oper f 0"; simp)
  ultimately show ?thesis
    using applyUnaryOperator_ok[OF size, of op] by (intro that[of ?r]) auto
qed

lemma binary_correct:
  assumes wf: "wf_filter f" "wf_filter g" and size: "1 + length f + length g \<le> UA_INT32_MAX"
  obtains r where "applyBinaryOperator op f g = Ret r" "length r = 1 + length f + length g" "wf_filter r"
    "filter_value sem oper r =
       (case (filter_value sem oper f, filter_value sem oper g) of
          (Some v, Some w) \<Rightarrow> Some (sem op [v, w]) | _ \<Rightarrow> None)"
proof -
  let ?k = "1 + length f"
  let ?hd = "\<lparr>filterOperator = op,
    filterOperands = [ElementOperand 1, ElementOperand (1 + of_nat (length f)) :: 'a FilterOperand]\<rparr>"
  let ?r = "?hd # map (shift_element 1) f @ map (shift_element (of_nat ?k)) g"
  from wf have ne: "0 < length f" "0 < length g" by (simp_all add: wf_filter_def)
  have b: "?k + length g < 2 ^ 32" using size by (simp add: UA_INT32_MAX_def)
  have u: "unat (1 + of_nat (length f) :: u32) = ?k"
    using unat_of_nat_fit[of ?k, where 'a = 32] b by simp
  have "wf_filter ?r"
    unfolding wf_filter_def
  proof (intro conjI allI impI)
    fix i j assume i: "i < length ?r" and j: "ElementOperand j \<in> set (filterOperands (?r ! i))"
    consider "i = 0" | i' where "i = Suc i'" "i' < length f" | i' where "i = ?k + i'" "i' < length g"
      using i by (cases i) (auto simp: less_Suc_eq_le dest!: le_Suc_ex intro: that, metis add_diff_inverse_nat add_less_cancel_left)
    then have "i < unat j \<and> unat j < length ?r"
    proof cases
      case 1
      then show ?thesis using j ne u by auto
    next
      case 2
      then show ?thesis using j wf_shifted[OF wf(1), of 1 i' j] b by (simp add: nth_append)
    next
      case 3
      then show ?thesis using j wf_shifted[OF wf(2) b, of i' j] by (simp add: nth_append)
    qed
    then show "i < unat j" "unat j < length ?r" by simp_all
  qed simp
  moreover have "filter_value sem oper ?r = (case (filter_value sem oper f, filter_value sem oper g) of
          (Some v, Some w) \<Rightarrow> Some (sem op [v, w]) | _ \<Rightarrow> None)"
  proof -
    have 1: "eval sem oper ?r 1 = eval sem oper f 0"
    using eval_embed[OF wf(1), of "[?hd]" "map (shift_element (of_nat ?k)) g" 0 sem oper] b ne by simp
    have 2: "eval sem oper ?r ?k = eval sem oper g 0"
    using eval_embed[OF wf(2), of "?hd # map (shift_element 1) f" "[]" 0 sem oper] b ne by simp
    have "eval sem oper ?r 0 = map_option (sem op) (those [eval sem oper ?r 1, eval sem oper ?r ?k])"
      by (subst eval_unfold) (simp_all add: u)
    then show ?thesis
      unfolding 1 2 filter_value_def by (cases "eval sem oper f 0"; cases "eval sem oper g 0") simp_all
  qed
  ultimately show ?thesis
    using applyBinaryOperator_ok[OF size, of op] by (intro that[of ?r]) simp_all
qed

section \<open>Filter expressions\<close>

text \<open>The expressions a user writes with \<open>!\<close>, \<open>&&\<close> and \<open>||\<close>, the filter the operators build for them, and
  their meaning. Operators applied to single elements are those applied to one-element filters.\<close>

datatype 'o fexp =
    FLeaf "'o ContentFilterElement"
  | FNot "'o fexp"
  | FAnd "'o fexp" "'o fexp"
  | FOr "'o fexp" "'o fexp"

fun build :: "'o fexp \<Rightarrow> 'o ContentFilter outc" where
  "build (FLeaf e) = Ret [e]"
| "build (FNot a) = outc_bind (build a) not_filter"
| "build (FAnd a b) = outc_bind (build a) (\<lambda>f. outc_bind (build b) (and_ff f))"
| "build (FOr a b) = outc_bind (build a) (\<lambda>f. outc_bind (build b) (or_ff f))"

fun fsize :: "'o fexp \<Rightarrow> nat" where
  "fsize (FLeaf e) = 1"
| "fsize (FNot a) = 1 + fsize a"
| "fsize (FAnd a b) = 1 + fsize a + fsize b"
| "fsize (FOr a b) = 1 + fsize a + fsize b"

fun fvalue :: "(FilterOperator \<Rightarrow> 'v list \<Rightarrow> 'v) \<Rightarrow> ('o FilterOperand \<Rightarrow> 'v) \<Rightarrow> 'o fexp \<Rightarrow> 'v" where
  "fvalue sem oper (FLeaf e) = sem (filterOperator e) (map oper (filterOperands e))"
| "fvalue sem oper (FNot a) = sem FoNot [fvalue sem oper a]"
| "fvalue sem oper (FAnd a b) = sem FoAnd [fvalue sem oper a, fvalue sem oper b]"
| "fvalue sem oper (FOr a b) = sem FoOr [fvalue sem oper a, fvalue sem oper b]"

fun leaves :: "'o fexp \<Rightarrow> 'o ContentFilterElement set" where
  "leaves (FLeaf e) = {e}"
| "leaves (FNot a) = leaves a"
| "leaves (FAnd a b) = leaves a \<union> leaves b"
| "leaves (FOr a b) = leaves a \<union> leaves b"

lemma operand_value_other: "(\<forall>j. a \<noteq> ElementOperand j) \<Longrightarrow> operand_value sem oper f i a = Some (oper a)"
  by (cases a) simp_all

lemma leaf_value:
  assumes "leaf_element e"
  shows "wf_filter [e] \<and> filter_value sem oper [e] = Some (sem (filterOperator e) (map oper (filterOperands e)))"
proof -
  have "map (operand_value sem oper [e] 0) (filterOperands e) = map (\<lambda>a. Some (oper a)) (filterOperands e)"
    using assms by (auto simp: leaf_element_def intro!: operand_value_other)
  then have "those (map (operand_value sem oper [e] 0) (filterOperands e)) = Some (map oper (filterOperands e))"
    by (simp only: those_map_Some)
  with assms show ?thesis
    by (simp add: filter_value_def eval_unfold wf_filter_def leaf_element_def)
qed

section \<open>Properties\<close>

text \<open>C1. The filter operators preserve meaning: for every expression built from elements with
  \<open>!\<close>, \<open>&&\<close> and \<open>||\<close>, in any nesting, the resulting flat filter has one element per node, all its element
  references point to later elements inside the array, and evaluating it gives the value of the expression, under
  every interpretation of operators and operands. When the number of elements exceeds
  \<open>INT32_MAX\<close> the construction throws \<open>bad_alloc\<close> instead.\<close>

theorem filter_operators_correct:
  assumes "\<forall>e \<in> leaves x. leaf_element e"
  shows "if fsize x \<le> UA_INT32_MAX
         then \<exists>f. build x = Ret f \<and> length f = fsize x \<and> wf_filter f
                \<and> filter_value sem oper f = Some (fvalue sem oper x)
         else build x = throw BadAlloc"
  using assms
proof (induction x)
  case (FLeaf e)
  then show ?case using leaf_value[of e sem oper] by (simp add: UA_INT32_MAX_def)
next
  case (FNot a)
  show ?case
  proof (cases "fsize a \<le> UA_INT32_MAX")
    case True
    with FNot obtain f where f: "build a = Ret f" "length f = fsize a" "wf_filter f"
      "filter_value sem oper f = Some (fvalue sem oper a)" by auto
    with unary_correct[OF f(3), of FoNot sem oper] apply_too_large(1)[of f FoNot] show ?thesis
      by (auto simp: not_filter_def not_le)
  qed (use FNot in auto)
next
  case (FAnd a b)
  show ?case
  proof (cases "fsize a \<le> UA_INT32_MAX \<and> fsize b \<le> UA_INT32_MAX")
    case True
    with FAnd obtain f g where f: "build a = Ret f" "length f = fsize a" "wf_filter f"
      "filter_value sem oper f = Some (fvalue sem oper a)" "build b = Ret g" "length g = fsize b" "wf_filter g"
      "filter_value sem oper g = Some (fvalue sem oper b)" by auto
    with binary_correct[OF f(3,7), of FoAnd sem oper] apply_too_large(2)[of f g FoAnd] show ?thesis
      by (auto simp: and_ff_def not_le)
  qed (use FAnd in \<open>auto split: if_splits\<close>)
next
  case (FOr a b)
  show ?case
  proof (cases "fsize a \<le> UA_INT32_MAX \<and> fsize b \<le> UA_INT32_MAX")
    case True
    with FOr obtain f g where f: "build a = Ret f" "length f = fsize a" "wf_filter f"
      "filter_value sem oper f = Some (fvalue sem oper a)" "build b = Ret g" "length g = fsize b" "wf_filter g"
      "filter_value sem oper g = Some (fvalue sem oper b)" by auto
    with binary_correct[OF f(3,7), of FoOr sem oper] apply_too_large(2)[of f g FoOr] show ?thesis
      by (auto simp: or_ff_def not_le)
  qed (use FOr in \<open>auto split: if_splits\<close>)
qed

definition demo_leaf :: "bool \<Rightarrow> bool ContentFilterElement" where
  "demo_leaf b = \<lparr>filterOperator = FoEquals, filterOperands = [LiteralOperand b]\<rparr>"

fun demo_sem :: "FilterOperator \<Rightarrow> bool list \<Rightarrow> bool" where
  "demo_sem FoNot [a] = (\<not> a)" | "demo_sem FoAnd [a, b] = (a \<and> b)" | "demo_sem FoOr [a, b] = (a \<or> b)"
| "demo_sem op vs = hd vs"

theorem filter_operators_correct_witness:
  "\<exists>f. build (FOr (FNot (FLeaf (demo_leaf True))) (FAnd (FLeaf (demo_leaf True)) (FLeaf (demo_leaf True)))) = Ret f
     \<and> length f = 6 \<and> filter_value demo_sem (\<lambda>a. case a of LiteralOperand b \<Rightarrow> b | _ \<Rightarrow> False) f = Some True"
  using filter_operators_correct
    [of "FOr (FNot (FLeaf (demo_leaf True))) (FAnd (FLeaf (demo_leaf True)) (FLeaf (demo_leaf True)))"
        demo_sem "\<lambda>a. case a of LiteralOperand b \<Rightarrow> b | _ \<Rightarrow> False"]
  by (auto simp: demo_leaf_def leaf_element_def UA_INT32_MAX_def)

text \<open>Negation or conjunction of any well-formed filter, however it was built: the operators keep
  well-formedness, and the value is the operator applied to the operands' values; the original filters'
  elements keep their meaning inside the new array. Mixed element/filter overloads agree with the filter
  overload on the one-element filter.\<close>

theorem filter_composition:
  assumes "wf_filter f" and "wf_filter g" and "1 + length f + length g \<le> UA_INT32_MAX"
  shows "(\<exists>r. not_filter f = Ret r \<and> wf_filter r
            \<and> filter_value sem oper r = Some (sem FoNot [the (filter_value sem oper f)]))
    \<and> (\<exists>r. and_ff f g = Ret r \<and> wf_filter r \<and> filter_value sem oper r =
            Some (sem FoAnd [the (filter_value sem oper f), the (filter_value sem oper g)]))
    \<and> (\<exists>r. or_ff f g = Ret r \<and> wf_filter r \<and> filter_value sem oper r =
            Some (sem FoOr [the (filter_value sem oper f), the (filter_value sem oper g)]))
    \<and> and_ef e g = and_ff [e] g \<and> and_fe f e = and_ff f [e] \<and> and_ee e e' = and_ff [e] [e']
    \<and> or_ef e g = or_ff [e] g \<and> or_fe f e = or_ff f [e] \<and> or_ee e e' = or_ff [e] [e'] \<and> not_element e = not_filter [e]"
proof -
  have "0 < length f" "0 < length g" using assms by (auto simp: wf_filter_def)
  with eval_defined[OF assms(1), of 0 sem oper] eval_defined[OF assms(2), of 0 sem oper]
  obtain v w where v: "filter_value sem oper f = Some v" "filter_value sem oper g = Some w"
    by (auto simp: filter_value_def)
  obtain r1 where "not_filter f = Ret r1" "wf_filter r1"
    "filter_value sem oper r1 = map_option (\<lambda>v. sem FoNot [v]) (filter_value sem oper f)"
    using unary_correct[OF assms(1), of FoNot sem oper] assms(3) by (auto simp: not_filter_def)
  moreover obtain r2 where "and_ff f g = Ret r2" "wf_filter r2" "filter_value sem oper r2 = Some (sem FoAnd [v, w])"
    using binary_correct[OF assms, of FoAnd sem oper] v by (auto simp: and_ff_def)
  moreover obtain r3 where "or_ff f g = Ret r3" "wf_filter r3" "filter_value sem oper r3 = Some (sem FoOr [v, w])"
    using binary_correct[OF assms, of FoOr sem oper] v by (auto simp: or_ff_def)
  ultimately show ?thesis
    using v by (simp add: and_ef_def and_fe_def and_ee_def and_ff_def or_ef_def or_fe_def or_ee_def or_ff_def
        not_element_def not_filter_def)
qed

theorem filter_composition_witness:
  "\<exists>r. and_ff [demo_leaf True] [demo_leaf False] = Ret r \<and> wf_filter r"
proof -
  have "wf_filter [demo_leaf b]" for b by (simp add: wf_filter_def demo_leaf_def)
  from filter_composition [OF this this, of True False demo_sem "\<lambda>_. True" "demo_leaf True" "demo_leaf True"]
  show ?thesis by (auto simp: UA_INT32_MAX_def)
qed

text \<open>An empty filter is outside these theorems: its negation refers to element 1, which does not exist, and
  or-ing it with a filter takes the filter as its left operand twice over.\<close>

lemma not_empty_filter_dangles:
  "not_filter [] = Ret [\<lparr>filterOperator = FoNot, filterOperands = [ElementOperand 1]\<rparr>]
   \<and> filter_value sem oper [\<lparr>filterOperator = FoNot, filterOperands = [ElementOperand 1]\<rparr>] = None"
  by (simp add: not_filter_def applyUnaryOperator_def mkElement_def concatFilterElements_def UA_INT32_MAX_def
      filter_value_def eval.simps)

end
