(* ===== verification/Server_Run.thy ===== *)
theory Server_Run
  imports Status
begin

text \<open>
  The life cycle of \<open>Server\<close> (\<open>server.cpp\<close>: \<open>runStartup\<close>, \<open>runIterate\<close>, \<open>run\<close>, \<open>stop\<close>, \<open>isRunning\<close>) as a
  step relation of any number of threads that call these functions concurrently on one server. The shared state is
  the part of \<open>ServerContext\<close> they use: the atomic flag \<open>running\<close>, the two mutexes and \<open>stopRequested\<close>.
  Each lock operation, each access to the shared flags and each call of the native functions is one step; the
  outcomes of the native functions and the exceptions caught from user callbacks are left open. Three counters record
  history: successful \<open>UA_Server_run_startup\<close> calls, completed \<open>UA_Server_run_shutdown\<close> calls, and the
  times the exception path of \<open>run\<close> cleared \<open>running\<close> without a shutdown.
\<close>

section \<open>State\<close>

text \<open>The function that called \<open>runStartup\<close>.\<close>

datatype caller = ByRun | ByIterate

text \<open>Where a thread is. \<open>StartupCheck\<close> to \<open>StartupSet\<close> and \<open>StopTest\<close>, \<open>StopFlag\<close> hold \<open>mutexStartup\<close>;
  \<open>RunTest\<close> to \<open>RunCatch\<close> and \<open>StopShutdown\<close> hold \<open>mutexRun\<close>.\<close>

datatype pc =
    Idle
  | StartupWait caller | StartupCheck caller | StartupNative caller | StartupSet caller | StartupDone caller
  | RunWait | RunTest | RunIterate | RunRethrow | RunCatch
  | IterTest | IterNative | IterRethrow
  | StopWait | StopTest | StopFlag | StopWaitRun | StopShutdown

record srv =
  running :: bool
  stopRequested :: bool
  mutexStartup :: "nat option"
  mutexRun :: "nat option"
  pcs :: "pc list"
  startups :: nat
  shutdowns :: nat
  lost :: nat

definition at_pc :: "srv \<Rightarrow> nat \<Rightarrow> pc \<Rightarrow> bool" where
  "at_pc s t p = (t < length (pcs s) \<and> pcs s ! t = p)"

definition goto :: "nat \<Rightarrow> pc \<Rightarrow> srv \<Rightarrow> srv" where
  "goto t p s = s\<lparr>pcs := (pcs s)[t := p]\<rparr>"

definition init_srv :: "nat \<Rightarrow> srv" where
  "init_srv n = \<lparr>running = False, stopRequested = False, mutexStartup = None, mutexRun = None,
     pcs = replicate n Idle, startups = 0, shutdowns = 0, lost = 0\<rparr>"

section \<open>Steps\<close>

text \<open>\<open>runStartup\<close>: the lock, the check that consumes a requested stop, the native startup (whose bad status is
  thrown with the lock released by its destructor), and the flag.\<close>

inductive startup_step :: "nat \<Rightarrow> srv \<Rightarrow> srv \<Rightarrow> bool" where
  lock_startup: "at_pc s t (StartupWait c) \<Longrightarrow> mutexStartup s = None \<Longrightarrow>
    startup_step t s (goto t (StartupCheck c) (s\<lparr>mutexStartup := Some t\<rparr>))"
| startup_skip: "at_pc s t (StartupCheck c) \<Longrightarrow> running s \<or> stopRequested s \<Longrightarrow>
    startup_step t s (goto t (StartupDone c) (s\<lparr>stopRequested := False, mutexStartup := None\<rparr>))"
| startup_go: "at_pc s t (StartupCheck c) \<Longrightarrow> \<not> (running s \<or> stopRequested s) \<Longrightarrow>
    startup_step t s (goto t (StartupNative c) s)"
| startup_ok: "at_pc s t (StartupNative c) \<Longrightarrow>
    startup_step t s (goto t (StartupSet c) (s\<lparr>startups := Suc (startups s)\<rparr>))"
| startup_bad: "at_pc s t (StartupNative c) \<Longrightarrow>
    startup_step t s (goto t Idle (s\<lparr>mutexStartup := None\<rparr>))"
| startup_set: "at_pc s t (StartupSet c) \<Longrightarrow>
    startup_step t s (goto t (StartupDone c) (s\<lparr>running := True, mutexStartup := None\<rparr>))"

text \<open>\<open>run\<close>: startup, the early return, the lock, and the loop. An exception found in the catcher is
  rethrown inside the \<open>try\<close> block; the handler clears \<open>running\<close> and the lock is released.\<close>

inductive run_step :: "nat \<Rightarrow> srv \<Rightarrow> srv \<Rightarrow> bool" where
  run_call: "at_pc s t Idle \<Longrightarrow> run_step t s (goto t (StartupWait ByRun) s)"
| run_early: "at_pc s t (StartupDone ByRun) \<Longrightarrow> \<not> running s \<Longrightarrow> run_step t s (goto t Idle s)"
| run_enter: "at_pc s t (StartupDone ByRun) \<Longrightarrow> running s \<Longrightarrow> run_step t s (goto t RunWait s)"
| run_lock: "at_pc s t RunWait \<Longrightarrow> mutexRun s = None \<Longrightarrow>
    run_step t s (goto t RunTest (s\<lparr>mutexRun := Some t\<rparr>))"
| run_iter: "at_pc s t RunTest \<Longrightarrow> running s \<Longrightarrow> run_step t s (goto t RunIterate s)"
| run_exit: "at_pc s t RunTest \<Longrightarrow> \<not> running s \<Longrightarrow>
    run_step t s (goto t Idle (s\<lparr>mutexRun := None\<rparr>))"
| run_iterated: "at_pc s t RunIterate \<Longrightarrow> run_step t s (goto t RunRethrow s)"
| run_no_exception: "at_pc s t RunRethrow \<Longrightarrow> run_step t s (goto t RunTest s)"
| run_exception: "at_pc s t RunRethrow \<Longrightarrow> run_step t s (goto t RunCatch s)"
| run_catch: "at_pc s t RunCatch \<Longrightarrow>
    run_step t s (goto t Idle (s\<lparr>running := False, mutexRun := None,
       lost := (if running s \<and> StopFlag \<notin> set (pcs s) then Suc (lost s) else lost s)\<rparr>))"

text \<open>\<open>runIterate\<close>, which does not take \<open>mutexRun\<close>.\<close>

inductive iterate_step :: "nat \<Rightarrow> srv \<Rightarrow> srv \<Rightarrow> bool" where
  iter_running: "at_pc s t Idle \<Longrightarrow> running s \<Longrightarrow> iterate_step t s (goto t IterTest s)"
| iter_start: "at_pc s t Idle \<Longrightarrow> \<not> running s \<Longrightarrow> iterate_step t s (goto t (StartupWait ByIterate) s)"
| iter_started: "at_pc s t (StartupDone ByIterate) \<Longrightarrow> iterate_step t s (goto t IterTest s)"
| iter_early: "at_pc s t IterTest \<Longrightarrow> \<not> running s \<Longrightarrow> iterate_step t s (goto t Idle s)"
| iter_native: "at_pc s t IterTest \<Longrightarrow> running s \<Longrightarrow> iterate_step t s (goto t IterNative s)"
| iter_rethrow: "at_pc s t IterNative \<Longrightarrow> iterate_step t s (goto t IterRethrow s)"
| iter_return: "at_pc s t IterRethrow \<Longrightarrow> iterate_step t s (goto t Idle s)"

text \<open>\<open>stop\<close>: under \<open>mutexStartup\<close> either request the stop of a server that is not running yet, or clear
  \<open>running\<close>; then wait for the loop and shut down.\<close>

inductive stop_step :: "nat \<Rightarrow> srv \<Rightarrow> srv \<Rightarrow> bool" where
  stop_call: "at_pc s t Idle \<Longrightarrow> stop_step t s (goto t StopWait s)"
| stop_lock: "at_pc s t StopWait \<Longrightarrow> mutexStartup s = None \<Longrightarrow>
    stop_step t s (goto t StopTest (s\<lparr>mutexStartup := Some t\<rparr>))"
| stop_request: "at_pc s t StopTest \<Longrightarrow> \<not> running s \<Longrightarrow>
    stop_step t s (goto t Idle (s\<lparr>stopRequested := True, mutexStartup := None\<rparr>))"
| stop_running: "at_pc s t StopTest \<Longrightarrow> running s \<Longrightarrow> stop_step t s (goto t StopFlag s)"
| stop_flag: "at_pc s t StopFlag \<Longrightarrow>
    stop_step t s (goto t StopWaitRun (s\<lparr>running := False, mutexStartup := None\<rparr>))"
| stop_wait: "at_pc s t StopWaitRun \<Longrightarrow> mutexRun s = None \<Longrightarrow>
    stop_step t s (goto t StopShutdown (s\<lparr>mutexRun := Some t\<rparr>))"
| stop_shutdown: "at_pc s t StopShutdown \<Longrightarrow>
    stop_step t s (goto t Idle (s\<lparr>mutexRun := None, shutdowns := Suc (shutdowns s)\<rparr>))"

inductive step :: "srv \<Rightarrow> srv \<Rightarrow> bool" where
  "startup_step t s s' \<Longrightarrow> step s s'"
| "run_step t s s' \<Longrightarrow> step s s'"
| "iterate_step t s s' \<Longrightarrow> step s s'"
| "stop_step t s s' \<Longrightarrow> step s s'"

inductive reachable :: "nat \<Rightarrow> srv \<Rightarrow> bool" for n where
  init: "reachable n (init_srv n)"
| more: "reachable n s \<Longrightarrow> step s s' \<Longrightarrow> reachable n s'"

definition isRunning :: "srv \<Rightarrow> bool" where
  "isRunning s = running s"

section \<open>Invariant\<close>

fun holds_startup :: "pc \<Rightarrow> bool" where
  "holds_startup (StartupCheck c) = True" | "holds_startup (StartupNative c) = True"
| "holds_startup (StartupSet c) = True" | "holds_startup StopTest = True" | "holds_startup StopFlag = True"
| "holds_startup p = False"

fun holds_run :: "pc \<Rightarrow> bool" where
  "holds_run RunTest = True" | "holds_run RunIterate = True" | "holds_run RunRethrow = True"
| "holds_run RunCatch = True" | "holds_run StopShutdown = True"
| "holds_run p = False"

fun starting :: "pc \<Rightarrow> bool" where
  "starting (StartupNative c) = True" | "starting (StartupSet c) = True" | "starting p = False"

fun stopping :: "pc \<Rightarrow> bool" where
  "stopping StopWaitRun = True" | "stopping StopShutdown = True" | "stopping p = False"

fun started :: "pc \<Rightarrow> bool" where
  "started (StartupSet c) = True" | "started p = False"

definition how_many :: "(pc \<Rightarrow> bool) \<Rightarrow> pc list \<Rightarrow> nat" where
  "how_many P ps = length (filter P ps)"

definition lock_inv :: "srv \<Rightarrow> bool" where
  "lock_inv s = (\<forall>t < length (pcs s).
      (holds_startup (pcs s ! t) \<longleftrightarrow> mutexStartup s = Some t) \<and> (holds_run (pcs s ! t) \<longleftrightarrow> mutexRun s = Some t))"

text \<open>\<open>token\<close>: the obligation of a successful startup is held by the flag, or by the thread that has read the flag
  and is about to clear it.\<close>

definition token :: "srv \<Rightarrow> bool" where
  "token s = (running s \<or> StopFlag \<in> set (pcs s))"

definition count_inv :: "srv \<Rightarrow> bool" where
  "count_inv s = (int (startups s) = int (shutdowns s) + int (how_many stopping (pcs s))
      + int (how_many started (pcs s)) + int (lost s) + of_bool (token s))"

lemma how_many_update:
  assumes "t < length ps"
  shows "how_many P (ps[t := p]) + of_bool (P (ps ! t)) = how_many P ps + of_bool (P p)"
  using assms
proof (induction ps arbitrary: t)
  case (Cons q ps)
  then show ?case by (cases t) (auto simp: how_many_def)
qed simp

lemma how_many_replicate [simp]: "\<not> P p \<Longrightarrow> how_many P (replicate n p) = 0"
  by (induction n) (simp_all add: how_many_def)

lemma how_many_0: "how_many P ps = 0 \<longleftrightarrow> (\<forall>p \<in> set ps. \<not> P p)"
  by (auto simp: how_many_def filter_empty_conv)

lemma goto_sel [simp]:
  "running (goto t p s) = running s" "stopRequested (goto t p s) = stopRequested s"
  "mutexStartup (goto t p s) = mutexStartup s" "mutexRun (goto t p s) = mutexRun s"
  "pcs (goto t p s) = (pcs s)[t := p]" "startups (goto t p s) = startups s"
  "shutdowns (goto t p s) = shutdowns s" "lost (goto t p s) = lost s"
  by (simp_all add: goto_def)

text \<open>What every step does to the program counters and locks: thread \<open>t\<close> moves, acquires a lock only if it is
  free, and holds exactly the locks of its new position.\<close>

definition moves :: "nat \<Rightarrow> srv \<Rightarrow> srv \<Rightarrow> bool" where
  "moves t s s' = (t < length (pcs s) \<and> pcs s' = (pcs s)[t := pcs s' ! t]
     \<and> (holds_startup (pcs s' ! t) \<and> \<not> holds_startup (pcs s ! t) \<longrightarrow> mutexStartup s = None)
     \<and> (holds_run (pcs s' ! t) \<and> \<not> holds_run (pcs s ! t) \<longrightarrow> mutexRun s = None)
     \<and> mutexStartup s' = (if holds_startup (pcs s' ! t) then if holds_startup (pcs s ! t) then mutexStartup s else Some t
                          else if holds_startup (pcs s ! t) then None else mutexStartup s)
     \<and> mutexRun s' = (if holds_run (pcs s' ! t) then if holds_run (pcs s ! t) then mutexRun s else Some t
                      else if holds_run (pcs s ! t) then None else mutexRun s))"

lemma startup_moves: "startup_step t s s' \<Longrightarrow> moves t s s'"
  by (induction rule: startup_step.induct) (simp_all add: moves_def at_pc_def)

lemma run_moves: "run_step t s s' \<Longrightarrow> moves t s s'"
  by (induction rule: run_step.induct) (simp_all add: moves_def at_pc_def)

lemma iterate_moves: "iterate_step t s s' \<Longrightarrow> moves t s s'"
  by (induction rule: iterate_step.induct) (simp_all add: moves_def at_pc_def)

lemma stop_moves: "stop_step t s s' \<Longrightarrow> moves t s s'"
  by (induction rule: stop_step.induct) (simp_all add: moves_def at_pc_def)

lemma lock_inv_moves:
  assumes "moves t s s'" "lock_inv s"
  shows "lock_inv s'"
  unfolding lock_inv_def
proof (intro allI impI)
  fix u assume "u < length (pcs s')"
  moreover have "length (pcs s') = length (pcs s)"
    using assms(1) unfolding moves_def by (metis length_list_update)
  ultimately have u: "u < length (pcs s)" by simp
  have t: "t < length (pcs s)" using assms(1) by (simp add: moves_def)
  have other: "u \<noteq> t \<Longrightarrow> pcs s' ! u = pcs s ! u"
    using assms(1) unfolding moves_def by (metis nth_list_update_neq)
  show "(holds_startup (pcs s' ! u) \<longleftrightarrow> mutexStartup s' = Some u) \<and> (holds_run (pcs s' ! u) \<longleftrightarrow> mutexRun s' = Some u)"
    using assms u t other unfolding moves_def lock_inv_def by (cases "u = t") (auto split: if_splits)
qed

lemma step_cases_moves:
  assumes "step s s'"
  obtains t where "moves t s s'" "startup_step t s s' \<or> run_step t s s' \<or> iterate_step t s s' \<or> stop_step t s s'"
  using assms by (cases rule: step.cases) (auto dest: startup_moves run_moves iterate_moves stop_moves)

lemma holder_unique:
  assumes "lock_inv s" "t < length (pcs s)" "u < length (pcs s)"
  shows "holds_startup (pcs s ! t) \<Longrightarrow> holds_startup (pcs s ! u) \<Longrightarrow> u = t"
    and "holds_run (pcs s ! t) \<Longrightarrow> holds_run (pcs s ! u) \<Longrightarrow> u = t"
  using assms by (auto simp: lock_inv_def)

lemma starting_holds: "starting p \<Longrightarrow> holds_startup p"
  by (cases p) simp_all

text \<open>While some thread is in the native startup, neither flag is set, and only the holder of \<open>mutexStartup\<close> can set
  one.\<close>

definition start_ok :: "srv \<Rightarrow> bool" where
  "start_ok s = (\<forall>t < length (pcs s). starting (pcs s ! t) \<longrightarrow> \<not> running s \<and> \<not> stopRequested s)"

lemma start_ok_other:
  assumes "lock_inv s" "at_pc s t p" "holds_startup p"
  shows "\<forall>u < length (pcs s). u \<noteq> t \<longrightarrow> \<not> starting (pcs s ! u)"
  using assms holder_unique(1) starting_holds unfolding at_pc_def by metis

lemma start_ok_startup: "startup_step t s s' \<Longrightarrow> lock_inv s \<Longrightarrow> start_ok s \<Longrightarrow> start_ok s'"
  by (induction rule: startup_step.induct)
    (auto simp: start_ok_def at_pc_def nth_list_update dest: start_ok_other[unfolded at_pc_def, OF _ conjI])

lemma start_ok_run: "run_step t s s' \<Longrightarrow> start_ok s \<Longrightarrow> start_ok s'"
  by (induction rule: run_step.induct) (auto simp: start_ok_def at_pc_def nth_list_update)

lemma start_ok_iterate: "iterate_step t s s' \<Longrightarrow> start_ok s \<Longrightarrow> start_ok s'"
  by (induction rule: iterate_step.induct) (auto simp: start_ok_def at_pc_def nth_list_update)

lemma start_ok_stop: "stop_step t s s' \<Longrightarrow> lock_inv s \<Longrightarrow> start_ok s \<Longrightarrow> start_ok s'"
  by (induction rule: stop_step.induct)
    (auto simp: start_ok_def at_pc_def nth_list_update dest: start_ok_other[unfolded at_pc_def, OF _ conjI])

text \<open>The balance of startups.\<close>

lemma how_many_int [simp]:
  assumes "t < length ps"
  shows "int (how_many P (ps[t := q])) = int (how_many P ps) + of_bool (P q) - of_bool (P (ps ! t))"
  using how_many_update[OF assms, of P q] by (simp add: of_bool_def split: if_splits)

lemma flag_update:
  assumes "t < length ps" "ps ! t \<noteq> StopFlag"
  shows "StopFlag \<in> set (ps[t := q]) \<longleftrightarrow> q = StopFlag \<or> StopFlag \<in> set ps"
  using assms by (metis insert_iff insertE in_set_conv_nth length_list_update nth_list_update_eq
      nth_list_update_neq set_update_subset_insert subsetD)

lemma no_other_flag:
  assumes "lock_inv s" "at_pc s t p" "holds_startup p" "p \<noteq> StopFlag"
  shows "StopFlag \<notin> set (pcs s)"
proof
  assume "StopFlag \<in> set (pcs s)"
  then obtain u where "u < length (pcs s)" "pcs s ! u = StopFlag" by (metis in_set_conv_nth)
  with assms show False using holder_unique(1)[of s t u] by (auto simp: at_pc_def)
qed

lemma flag_removed:
  assumes "lock_inv s" "at_pc s t StopFlag" "q \<noteq> StopFlag"
  shows "StopFlag \<notin> set ((pcs s)[t := q])"
proof
  assume "StopFlag \<in> set ((pcs s)[t := q])"
  then obtain u where "u < length (pcs s)" "(pcs s)[t := q] ! u = StopFlag"
    by (metis in_set_conv_nth length_list_update)
  with assms show False using holder_unique(1)[of s t u] by (cases "u = t") (auto simp: at_pc_def)
qed

lemma count_startup:
  "startup_step t s s' \<Longrightarrow> lock_inv s \<Longrightarrow> start_ok s \<Longrightarrow> count_inv s \<Longrightarrow> count_inv s'"
proof (induction rule: startup_step.induct)
  case (startup_set s t c)
  then have "\<not> running s" "StopFlag \<notin> set (pcs s)"
    using no_other_flag[of s t "StartupSet c"] by (auto simp: start_ok_def at_pc_def)
  with startup_set show ?case by (simp add: count_inv_def token_def at_pc_def flag_update)
qed (simp_all add: count_inv_def token_def at_pc_def flag_update)

lemma count_run: "run_step t s s' \<Longrightarrow> lock_inv s \<Longrightarrow> count_inv s \<Longrightarrow> count_inv s'"
  by (induction rule: run_step.induct) (auto simp: count_inv_def token_def at_pc_def flag_update)

lemma count_iterate: "iterate_step t s s' \<Longrightarrow> count_inv s \<Longrightarrow> count_inv s'"
  by (induction rule: iterate_step.induct) (auto simp: count_inv_def token_def at_pc_def flag_update)

lemma count_stop: "stop_step t s s' \<Longrightarrow> lock_inv s \<Longrightarrow> count_inv s \<Longrightarrow> count_inv s'"
proof (induction rule: stop_step.induct)
  case (stop_flag s t)
  moreover have "StopFlag \<in> set (pcs s)" using stop_flag.hyps nth_mem[of t "pcs s"] by (auto simp: at_pc_def)
  moreover have "StopFlag \<notin> set ((pcs s)[t := StopWaitRun])" using stop_flag by (intro flag_removed) auto
  ultimately show ?case by (auto simp: count_inv_def token_def at_pc_def)
qed (auto simp: count_inv_def token_def at_pc_def flag_update)

lemma reachable_inv: "reachable n s \<Longrightarrow> lock_inv s \<and> start_ok s \<and> count_inv s \<and> length (pcs s) = n"
proof (induction rule: reachable.induct)
  case init
  show ?case
    by (simp add: init_srv_def lock_inv_def start_ok_def count_inv_def token_def)
next
  case (more s s')
  from more.hyps(2) obtain t where t: "moves t s s'"
    "startup_step t s s' \<or> run_step t s s' \<or> iterate_step t s s' \<or> stop_step t s s'"
    by (rule step_cases_moves)
  have "length (pcs s') = length (pcs s)"
    using t(1) unfolding moves_def by (metis length_list_update)
  with t more.IH show ?case
    using lock_inv_moves start_ok_startup start_ok_run start_ok_iterate start_ok_stop
      count_startup count_run count_iterate count_stop by metis
qed

section \<open>Sample executions of two threads\<close>

definition st2 :: "bool \<Rightarrow> bool \<Rightarrow> nat option \<Rightarrow> nat option \<Rightarrow> pc \<Rightarrow> pc \<Rightarrow> nat \<Rightarrow> nat \<Rightarrow> nat \<Rightarrow> srv" where
  "st2 r q ms mr p0 p1 a b c = \<lparr>running = r, stopRequested = q, mutexStartup = ms, mutexRun = mr, pcs = [p0, p1],
     startups = a, shutdowns = b, lost = c\<rparr>"

lemmas st2_simps = st2_def goto_def at_pc_def

text \<open>Thread 0 is in the native iteration of \<open>run\<close> while thread 1 waits in \<open>stop\<close>.\<close>

lemma run_stop_waiting: "reachable 2 (st2 False False None (Some 0) RunIterate StopWaitRun 1 0 0)"
proof -
  have r0: "reachable 2 (st2 False False None None Idle Idle 0 0 0)"
    using reachable.init[of 2] by (simp add: st2_def init_srv_def numeral_2_eq_2)
  have r1: "reachable 2 (st2 False False None None (StartupWait ByRun) Idle 0 0 0)"
    using reachable.more[OF r0 step.intros(2)[OF run_call[of _ 0]]] by (simp add: st2_simps numeral_2_eq_2)
  have r2: "reachable 2 (st2 False False (Some 0) None (StartupCheck ByRun) Idle 0 0 0)"
    using reachable.more[OF r1 step.intros(1)[OF lock_startup[of _ 0 ByRun]]] by (simp add: st2_simps numeral_2_eq_2)
  have r3: "reachable 2 (st2 False False (Some 0) None (StartupNative ByRun) Idle 0 0 0)"
    using reachable.more[OF r2 step.intros(1)[OF startup_go[of _ 0 ByRun]]] by (simp add: st2_simps numeral_2_eq_2)
  have r4: "reachable 2 (st2 False False (Some 0) None (StartupSet ByRun) Idle 1 0 0)"
    using reachable.more[OF r3 step.intros(1)[OF startup_ok[of _ 0 ByRun]]] by (simp add: st2_simps numeral_2_eq_2)
  have r5: "reachable 2 (st2 True False None None (StartupDone ByRun) Idle 1 0 0)"
    using reachable.more[OF r4 step.intros(1)[OF startup_set[of _ 0 ByRun]]] by (simp add: st2_simps numeral_2_eq_2)
  have r6: "reachable 2 (st2 True False None None RunWait Idle 1 0 0)"
    using reachable.more[OF r5 step.intros(2)[OF run_enter[of _ 0]]] by (simp add: st2_simps numeral_2_eq_2)
  have r7: "reachable 2 (st2 True False None (Some 0) RunTest Idle 1 0 0)"
    using reachable.more[OF r6 step.intros(2)[OF run_lock[of _ 0]]] by (simp add: st2_simps numeral_2_eq_2)
  have r8: "reachable 2 (st2 True False None (Some 0) RunIterate Idle 1 0 0)"
    using reachable.more[OF r7 step.intros(2)[OF run_iter[of _ 0]]] by (simp add: st2_simps numeral_2_eq_2)
  have r9: "reachable 2 (st2 True False None (Some 0) RunIterate StopWait 1 0 0)"
    using reachable.more[OF r8 step.intros(4)[OF stop_call[of _ 1]]] by (simp add: st2_simps numeral_2_eq_2)
  have r10: "reachable 2 (st2 True False (Some 1) (Some 0) RunIterate StopTest 1 0 0)"
    using reachable.more[OF r9 step.intros(4)[OF stop_lock[of _ 1]]] by (simp add: st2_simps numeral_2_eq_2)
  have r11: "reachable 2 (st2 True False (Some 1) (Some 0) RunIterate StopFlag 1 0 0)"
    using reachable.more[OF r10 step.intros(4)[OF stop_running[of _ 1]]] by (simp add: st2_simps numeral_2_eq_2)
  show ?thesis
    using reachable.more[OF r11 step.intros(4)[OF stop_flag[of _ 1]]] by (simp add: st2_simps numeral_2_eq_2)
qed

text \<open>A complete \<open>run\<close> and \<open>stop\<close>.\<close>

lemma run_stop_done: "reachable 2 (st2 False False None None Idle Idle 1 1 0)"
proof -
  have r0: "reachable 2 (st2 False False None None Idle Idle 0 0 0)"
    using reachable.init[of 2] by (simp add: st2_def init_srv_def numeral_2_eq_2)
  have r1: "reachable 2 (st2 False False None None (StartupWait ByRun) Idle 0 0 0)"
    using reachable.more[OF r0 step.intros(2)[OF run_call[of _ 0]]] by (simp add: st2_simps numeral_2_eq_2)
  have r2: "reachable 2 (st2 False False (Some 0) None (StartupCheck ByRun) Idle 0 0 0)"
    using reachable.more[OF r1 step.intros(1)[OF lock_startup[of _ 0 ByRun]]] by (simp add: st2_simps numeral_2_eq_2)
  have r3: "reachable 2 (st2 False False (Some 0) None (StartupNative ByRun) Idle 0 0 0)"
    using reachable.more[OF r2 step.intros(1)[OF startup_go[of _ 0 ByRun]]] by (simp add: st2_simps numeral_2_eq_2)
  have r4: "reachable 2 (st2 False False (Some 0) None (StartupSet ByRun) Idle 1 0 0)"
    using reachable.more[OF r3 step.intros(1)[OF startup_ok[of _ 0 ByRun]]] by (simp add: st2_simps numeral_2_eq_2)
  have r5: "reachable 2 (st2 True False None None (StartupDone ByRun) Idle 1 0 0)"
    using reachable.more[OF r4 step.intros(1)[OF startup_set[of _ 0 ByRun]]] by (simp add: st2_simps numeral_2_eq_2)
  have r6: "reachable 2 (st2 True False None None RunWait Idle 1 0 0)"
    using reachable.more[OF r5 step.intros(2)[OF run_enter[of _ 0]]] by (simp add: st2_simps numeral_2_eq_2)
  have r7: "reachable 2 (st2 True False None (Some 0) RunTest Idle 1 0 0)"
    using reachable.more[OF r6 step.intros(2)[OF run_lock[of _ 0]]] by (simp add: st2_simps numeral_2_eq_2)
  have r8: "reachable 2 (st2 True False None (Some 0) RunIterate Idle 1 0 0)"
    using reachable.more[OF r7 step.intros(2)[OF run_iter[of _ 0]]] by (simp add: st2_simps numeral_2_eq_2)
  have r9: "reachable 2 (st2 True False None (Some 0) RunIterate StopWait 1 0 0)"
    using reachable.more[OF r8 step.intros(4)[OF stop_call[of _ 1]]] by (simp add: st2_simps numeral_2_eq_2)
  have r10: "reachable 2 (st2 True False (Some 1) (Some 0) RunIterate StopTest 1 0 0)"
    using reachable.more[OF r9 step.intros(4)[OF stop_lock[of _ 1]]] by (simp add: st2_simps numeral_2_eq_2)
  have r11: "reachable 2 (st2 True False (Some 1) (Some 0) RunIterate StopFlag 1 0 0)"
    using reachable.more[OF r10 step.intros(4)[OF stop_running[of _ 1]]] by (simp add: st2_simps numeral_2_eq_2)
  have r12: "reachable 2 (st2 False False None (Some 0) RunIterate StopWaitRun 1 0 0)"
    using reachable.more[OF r11 step.intros(4)[OF stop_flag[of _ 1]]] by (simp add: st2_simps numeral_2_eq_2)
  have r13: "reachable 2 (st2 False False None (Some 0) RunRethrow StopWaitRun 1 0 0)"
    using reachable.more[OF r12 step.intros(2)[OF run_iterated[of _ 0]]] by (simp add: st2_simps numeral_2_eq_2)
  have r14: "reachable 2 (st2 False False None (Some 0) RunTest StopWaitRun 1 0 0)"
    using reachable.more[OF r13 step.intros(2)[OF run_no_exception[of _ 0]]] by (simp add: st2_simps numeral_2_eq_2)
  have r15: "reachable 2 (st2 False False None None Idle StopWaitRun 1 0 0)"
    using reachable.more[OF r14 step.intros(2)[OF run_exit[of _ 0]]] by (simp add: st2_simps numeral_2_eq_2)
  have r16: "reachable 2 (st2 False False None (Some 1) Idle StopShutdown 1 0 0)"
    using reachable.more[OF r15 step.intros(4)[OF stop_wait[of _ 1]]] by (simp add: st2_simps numeral_2_eq_2)
  show ?thesis
    using reachable.more[OF r16 step.intros(4)[OF stop_shutdown[of _ 1]]] by (simp add: st2_simps numeral_2_eq_2)
qed

text \<open>The loop of thread 0 has ended and thread 0 calls \<open>run\<close> again before thread 1, still in \<open>stop\<close>, reaches the shutdown: the native server is started a second time.\<close>

lemma restart_race: "reachable 2 (st2 False False (Some 0) None (StartupSet ByRun) StopWaitRun 2 0 0)"
proof -
  have r0: "reachable 2 (st2 False False None None Idle Idle 0 0 0)"
    using reachable.init[of 2] by (simp add: st2_def init_srv_def numeral_2_eq_2)
  have r1: "reachable 2 (st2 False False None None (StartupWait ByRun) Idle 0 0 0)"
    using reachable.more[OF r0 step.intros(2)[OF run_call[of _ 0]]] by (simp add: st2_simps numeral_2_eq_2)
  have r2: "reachable 2 (st2 False False (Some 0) None (StartupCheck ByRun) Idle 0 0 0)"
    using reachable.more[OF r1 step.intros(1)[OF lock_startup[of _ 0 ByRun]]] by (simp add: st2_simps numeral_2_eq_2)
  have r3: "reachable 2 (st2 False False (Some 0) None (StartupNative ByRun) Idle 0 0 0)"
    using reachable.more[OF r2 step.intros(1)[OF startup_go[of _ 0 ByRun]]] by (simp add: st2_simps numeral_2_eq_2)
  have r4: "reachable 2 (st2 False False (Some 0) None (StartupSet ByRun) Idle 1 0 0)"
    using reachable.more[OF r3 step.intros(1)[OF startup_ok[of _ 0 ByRun]]] by (simp add: st2_simps numeral_2_eq_2)
  have r5: "reachable 2 (st2 True False None None (StartupDone ByRun) Idle 1 0 0)"
    using reachable.more[OF r4 step.intros(1)[OF startup_set[of _ 0 ByRun]]] by (simp add: st2_simps numeral_2_eq_2)
  have r6: "reachable 2 (st2 True False None None RunWait Idle 1 0 0)"
    using reachable.more[OF r5 step.intros(2)[OF run_enter[of _ 0]]] by (simp add: st2_simps numeral_2_eq_2)
  have r7: "reachable 2 (st2 True False None (Some 0) RunTest Idle 1 0 0)"
    using reachable.more[OF r6 step.intros(2)[OF run_lock[of _ 0]]] by (simp add: st2_simps numeral_2_eq_2)
  have r8: "reachable 2 (st2 True False None (Some 0) RunIterate Idle 1 0 0)"
    using reachable.more[OF r7 step.intros(2)[OF run_iter[of _ 0]]] by (simp add: st2_simps numeral_2_eq_2)
  have r9: "reachable 2 (st2 True False None (Some 0) RunIterate StopWait 1 0 0)"
    using reachable.more[OF r8 step.intros(4)[OF stop_call[of _ 1]]] by (simp add: st2_simps numeral_2_eq_2)
  have r10: "reachable 2 (st2 True False (Some 1) (Some 0) RunIterate StopTest 1 0 0)"
    using reachable.more[OF r9 step.intros(4)[OF stop_lock[of _ 1]]] by (simp add: st2_simps numeral_2_eq_2)
  have r11: "reachable 2 (st2 True False (Some 1) (Some 0) RunIterate StopFlag 1 0 0)"
    using reachable.more[OF r10 step.intros(4)[OF stop_running[of _ 1]]] by (simp add: st2_simps numeral_2_eq_2)
  have r12: "reachable 2 (st2 False False None (Some 0) RunIterate StopWaitRun 1 0 0)"
    using reachable.more[OF r11 step.intros(4)[OF stop_flag[of _ 1]]] by (simp add: st2_simps numeral_2_eq_2)
  have r13: "reachable 2 (st2 False False None (Some 0) RunRethrow StopWaitRun 1 0 0)"
    using reachable.more[OF r12 step.intros(2)[OF run_iterated[of _ 0]]] by (simp add: st2_simps numeral_2_eq_2)
  have r14: "reachable 2 (st2 False False None (Some 0) RunTest StopWaitRun 1 0 0)"
    using reachable.more[OF r13 step.intros(2)[OF run_no_exception[of _ 0]]] by (simp add: st2_simps numeral_2_eq_2)
  have r15: "reachable 2 (st2 False False None None Idle StopWaitRun 1 0 0)"
    using reachable.more[OF r14 step.intros(2)[OF run_exit[of _ 0]]] by (simp add: st2_simps numeral_2_eq_2)
  have r16: "reachable 2 (st2 False False None None (StartupWait ByRun) StopWaitRun 1 0 0)"
    using reachable.more[OF r15 step.intros(2)[OF run_call[of _ 0]]] by (simp add: st2_simps numeral_2_eq_2)
  have r17: "reachable 2 (st2 False False (Some 0) None (StartupCheck ByRun) StopWaitRun 1 0 0)"
    using reachable.more[OF r16 step.intros(1)[OF lock_startup[of _ 0 ByRun]]] by (simp add: st2_simps numeral_2_eq_2)
  have r18: "reachable 2 (st2 False False (Some 0) None (StartupNative ByRun) StopWaitRun 1 0 0)"
    using reachable.more[OF r17 step.intros(1)[OF startup_go[of _ 0 ByRun]]] by (simp add: st2_simps numeral_2_eq_2)
  show ?thesis
    using reachable.more[OF r18 step.intros(1)[OF startup_ok[of _ 0 ByRun]]] by (simp add: st2_simps numeral_2_eq_2)
qed

text \<open>\<open>stop\<close> before \<open>run\<close>.\<close>

lemma stop_requested_first: "reachable 2 (st2 False True None None (StartupWait ByRun) Idle 0 0 0)"
proof -
  have r0: "reachable 2 (st2 False False None None Idle Idle 0 0 0)"
    using reachable.init[of 2] by (simp add: st2_def init_srv_def numeral_2_eq_2)
  have r1: "reachable 2 (st2 False False None None Idle StopWait 0 0 0)"
    using reachable.more[OF r0 step.intros(4)[OF stop_call[of _ 1]]] by (simp add: st2_simps numeral_2_eq_2)
  have r2: "reachable 2 (st2 False False (Some 1) None Idle StopTest 0 0 0)"
    using reachable.more[OF r1 step.intros(4)[OF stop_lock[of _ 1]]] by (simp add: st2_simps numeral_2_eq_2)
  have r3: "reachable 2 (st2 False True None None Idle Idle 0 0 0)"
    using reachable.more[OF r2 step.intros(4)[OF stop_request[of _ 1]]] by (simp add: st2_simps numeral_2_eq_2)
  show ?thesis
    using reachable.more[OF r3 step.intros(2)[OF run_call[of _ 0]]] by (simp add: st2_simps numeral_2_eq_2)
qed

text \<open>A callback throws: \<open>run\<close> clears \<open>running\<close> and leaves without a shutdown.\<close>

lemma exception_exit: "reachable 2 (st2 False False None None Idle Idle 1 0 1)"
proof -
  have r0: "reachable 2 (st2 False False None None Idle Idle 0 0 0)"
    using reachable.init[of 2] by (simp add: st2_def init_srv_def numeral_2_eq_2)
  have r1: "reachable 2 (st2 False False None None (StartupWait ByRun) Idle 0 0 0)"
    using reachable.more[OF r0 step.intros(2)[OF run_call[of _ 0]]] by (simp add: st2_simps numeral_2_eq_2)
  have r2: "reachable 2 (st2 False False (Some 0) None (StartupCheck ByRun) Idle 0 0 0)"
    using reachable.more[OF r1 step.intros(1)[OF lock_startup[of _ 0 ByRun]]] by (simp add: st2_simps numeral_2_eq_2)
  have r3: "reachable 2 (st2 False False (Some 0) None (StartupNative ByRun) Idle 0 0 0)"
    using reachable.more[OF r2 step.intros(1)[OF startup_go[of _ 0 ByRun]]] by (simp add: st2_simps numeral_2_eq_2)
  have r4: "reachable 2 (st2 False False (Some 0) None (StartupSet ByRun) Idle 1 0 0)"
    using reachable.more[OF r3 step.intros(1)[OF startup_ok[of _ 0 ByRun]]] by (simp add: st2_simps numeral_2_eq_2)
  have r5: "reachable 2 (st2 True False None None (StartupDone ByRun) Idle 1 0 0)"
    using reachable.more[OF r4 step.intros(1)[OF startup_set[of _ 0 ByRun]]] by (simp add: st2_simps numeral_2_eq_2)
  have r6: "reachable 2 (st2 True False None None RunWait Idle 1 0 0)"
    using reachable.more[OF r5 step.intros(2)[OF run_enter[of _ 0]]] by (simp add: st2_simps numeral_2_eq_2)
  have r7: "reachable 2 (st2 True False None (Some 0) RunTest Idle 1 0 0)"
    using reachable.more[OF r6 step.intros(2)[OF run_lock[of _ 0]]] by (simp add: st2_simps numeral_2_eq_2)
  have r8: "reachable 2 (st2 True False None (Some 0) RunIterate Idle 1 0 0)"
    using reachable.more[OF r7 step.intros(2)[OF run_iter[of _ 0]]] by (simp add: st2_simps numeral_2_eq_2)
  have r9: "reachable 2 (st2 True False None (Some 0) RunRethrow Idle 1 0 0)"
    using reachable.more[OF r8 step.intros(2)[OF run_iterated[of _ 0]]] by (simp add: st2_simps numeral_2_eq_2)
  have r10: "reachable 2 (st2 True False None (Some 0) RunCatch Idle 1 0 0)"
    using reachable.more[OF r9 step.intros(2)[OF run_exception[of _ 0]]] by (simp add: st2_simps numeral_2_eq_2)
  show ?thesis
    using reachable.more[OF r10 step.intros(2)[OF run_catch[of _ 0]]] by (simp add: st2_simps numeral_2_eq_2)
qed

section \<open>Properties\<close>

text \<open>Mutual exclusion between the entry points, for any number of threads and any interleaving: in every reachable
  state at most one thread is between lock and unlock of each mutex, so the native startup never runs
  twice at the same time, and no thread executes the body of \<open>run\<close>'s loop while another executes it or
  executes \<open>UA_Server_run_shutdown\<close> in \<open>stop\<close>. While a native startup is in progress the server is neither
  running nor asked to stop.\<close>

theorem server_mutual_exclusion:
  assumes "reachable n s" and "t < n" and "u < n" and "t \<noteq> u"
  shows "\<not> (holds_startup (pcs s ! t) \<and> holds_startup (pcs s ! u))
    \<and> \<not> (holds_run (pcs s ! t) \<and> holds_run (pcs s ! u))
    \<and> (pcs s ! t = StopShutdown \<longrightarrow> pcs s ! u \<notin> {RunTest, RunIterate, RunRethrow, RunCatch, StopShutdown})
    \<and> (starting (pcs s ! t) \<longrightarrow> \<not> isRunning s \<and> \<not> stopRequested s)"
  using reachable_inv[OF assms(1)] holder_unique[of s t u] assms(2-)
  by (auto simp: start_ok_def isRunning_def)

theorem server_mutual_exclusion_witness:
  "\<exists>s. reachable 2 s \<and> pcs s = [RunIterate, StopWaitRun] \<and> \<not> (holds_run (pcs s ! 0) \<and> holds_run (pcs s ! 1))"
  using server_mutual_exclusion [OF run_stop_waiting, of 0 1] run_stop_waiting
  by (intro exI[of _ "st2 False False None (Some 0) RunIterate StopWaitRun 1 0 0"]) (simp add: st2_def)

text \<open>C2. The balance of the native server: in every reachable state the number of successful startups is the number of
  completed shutdowns, plus the \<open>stop\<close> calls that have claimed the server and not yet shut it down, plus the times
  the exception path of \<open>run\<close> gave the server up, plus one if the server counts as running. So no startup is
  followed by two shutdowns, and when no call is in progress and no exception ended a loop, \<open>isRunning\<close> says exactly
  whether a startup is without its shutdown.\<close>

theorem server_startup_shutdown_balance:
  assumes "reachable n s"
  shows "startups s = shutdowns s + how_many stopping (pcs s) + how_many started (pcs s) + lost s + of_bool (token s)
    \<and> shutdowns s \<le> startups s
    \<and> ((\<forall>p \<in> set (pcs s). p = Idle) \<and> lost s = 0 \<longrightarrow> startups s = shutdowns s + of_bool (isRunning s))"
proof -
  from reachable_inv[OF assms] have c: "startups s = shutdowns s + how_many stopping (pcs s)
      + how_many started (pcs s) + lost s + of_bool (token s)"
    unfolding count_inv_def by (cases "token s"; simp; linarith)
  moreover have "how_many stopping (pcs s) = 0 \<and> how_many started (pcs s) = 0 \<and> token s = isRunning s"
    if "\<forall>p \<in> set (pcs s). p = Idle"
    using that by (auto simp: how_many_0 token_def isRunning_def)
  ultimately show ?thesis by auto
qed

theorem server_startup_shutdown_balance_witness:
  "reachable 2 (st2 False False None None Idle Idle 1 1 0)
   \<and> startups (st2 False False None None Idle Idle 1 1 0) = shutdowns (st2 False False None None Idle Idle 1 1 0)"
  using server_startup_shutdown_balance [OF run_stop_done] run_stop_done by (simp add: st2_def isRunning_def)

text \<open>C39. A stop requested before the server runs is not lost: while \<open>stopRequested\<close> is set no step of any thread
  starts the native server, and only a \<open>runStartup\<close> that thereby returns without starting clears it.\<close>

theorem stop_request_not_lost:
  assumes "reachable n s" and "stopRequested s" and "step s s'"
  shows "startups s' = startups s
    \<and> (stopRequested s' \<or> (\<exists>t c. at_pc s t (StartupCheck c) \<and> at_pc s' t (StartupDone c) \<and> running s' = running s))"
proof -
  from reachable_inv[OF assms(1)] assms(2) have no: "\<not> starting (pcs s ! t)" if "t < length (pcs s)" for t
    using that by (auto simp: start_ok_def)
  then have no_start: "\<not> at_pc s t (StartupNative c)" "\<not> at_pc s t (StartupSet c)" for t c
    by (force simp: at_pc_def)+
  from assms(3) obtain t where
    "startup_step t s s' \<or> run_step t s s' \<or> iterate_step t s s' \<or> stop_step t s s'"
    by (rule step_cases_moves)
  then show ?thesis
  proof (elim disjE)
    assume "startup_step t s s'"
    then show ?thesis
      using assms(2) no_start
    proof cases
      case (startup_skip c)
      then have "at_pc s' t (StartupDone c)" by (simp add: at_pc_def)
      with startup_skip show ?thesis by auto
    qed auto
  qed (erule run_step.cases iterate_step.cases stop_step.cases; use assms(2) in simp)+
qed

theorem stop_request_not_lost_witness:
  "\<exists>s s'. reachable 2 s \<and> stopRequested s \<and> step s s' \<and> startups s' = startups s"
proof -
  let ?s = "st2 False True None None (StartupWait ByRun) Idle 0 0 0"
  let ?s' = "goto 0 (StartupCheck ByRun) (?s\<lparr>mutexStartup := Some 0\<rparr>)"
  have st: "step ?s ?s'"
    by (rule step.intros(1), rule lock_startup) (simp_all add: st2_simps)
  from stop_request_not_lost [OF stop_requested_first _ st] stop_requested_first st show ?thesis
    by (intro exI[of _ ?s] exI[of _ ?s']) (simp add: st2_def)
qed

section \<open>What the locks do not exclude\<close>

text \<open>\<open>stop\<close> clears \<open>running\<close> and releases \<open>mutexStartup\<close> before it shuts the server down, so a \<open>run\<close> in this gap
  starts the native server although it is still up.\<close>

lemma double_startup_reachable:
  "\<exists>s. reachable 2 s \<and> startups s = 2 \<and> shutdowns s = 0 \<and> pcs s ! 1 = StopWaitRun"
  using restart_race by (intro exI[of _ "st2 False False (Some 0) None (StartupSet ByRun) StopWaitRun 2 0 0"]) (simp add: st2_def)

text \<open>After an exception ended the loop the native server is up, no flag says so, and \<open>stop\<close> does not shut it down:
  it only requests the stop of the next \<open>run\<close>.\<close>

lemma exception_leaves_server_up:
  "\<exists>s. reachable 2 s \<and> startups s = 1 \<and> shutdowns s = 0 \<and> pcs s = [Idle, Idle] \<and> \<not> isRunning s"
  using exception_exit by (intro exI[of _ "st2 False False None None Idle Idle 1 0 1"]) (simp add: st2_def isRunning_def)

end
