(* ===== verification/Access_Control.thy ===== *)
theory Access_Control
  imports Results Bitmasks
begin

text \<open>
  Access control: the adapters between the C callbacks of \<open>UA_AccessControl\<close> and the C++ interface
  \<open>AccessControlBase\<close> (\<open>plugin/accesscontrol.cpp\<close>), and the default implementation
  \<open>AccessControlDefault\<close> (\<open>plugin/accesscontrol_default.cpp\<close>). Node ids, requests and values that are only
  passed through are type parameters.
\<close>

section \<open>Interface\<close>

record ('n, 'c) Session =
  session_server :: nat
  session_id :: 'n
  session_context :: 'c

text \<open>The virtual functions of an implementation; each may throw. The type parameters stand for node ids (\<open>'n\<close>),
  session contexts (\<open>'c\<close>), tokens (\<open>'t\<close>) and the other arguments that are only passed on (\<open>'x\<close>).\<close>

record ('n, 'c, 't, 'x) adapter =
  a_activateSession :: "('n, 'c) Session \<Rightarrow> 'x \<Rightarrow> 'x \<Rightarrow> 't \<Rightarrow> u32 outc"
  a_closeSession :: "('n, 'c) Session \<Rightarrow> unit outc"
  a_getUserRightsMask :: "('n, 'c) Session \<Rightarrow> 'n \<Rightarrow> u32 outc"
  a_getUserAccessLevel :: "('n, 'c) Session \<Rightarrow> 'n \<Rightarrow> u8 outc"
  a_getUserExecutable :: "('n, 'c) Session \<Rightarrow> 'n \<Rightarrow> bool outc"
  a_getUserExecutableOnObject :: "('n, 'c) Session \<Rightarrow> 'n \<Rightarrow> 'n \<Rightarrow> bool outc"
  a_allowAddNode :: "('n, 'c) Session \<Rightarrow> 'x \<Rightarrow> bool outc"
  a_allowAddReference :: "('n, 'c) Session \<Rightarrow> 'x \<Rightarrow> bool outc"
  a_allowDeleteNode :: "('n, 'c) Session \<Rightarrow> 'x \<Rightarrow> bool outc"
  a_allowDeleteReference :: "('n, 'c) Session \<Rightarrow> 'x \<Rightarrow> bool outc"
  a_allowBrowseNode :: "('n, 'c) Session \<Rightarrow> 'n \<Rightarrow> bool outc"
  a_allowTransferSubscription :: "('n, 'c) Session \<Rightarrow> ('n, 'c) Session \<Rightarrow> bool outc"
  a_allowHistoryUpdate :: "('n, 'c) Session \<Rightarrow> 'n \<Rightarrow> nat \<Rightarrow> 'x \<Rightarrow> bool outc"
  a_allowHistoryDelete :: "('n, 'c) Session \<Rightarrow> 'n \<Rightarrow> int \<Rightarrow> int \<Rightarrow> bool \<Rightarrow> bool outc"

section \<open>Adapters\<close>

text \<open>\<open>getAdapter\<close> asserts its pointers; \<open>asWrapperRef\<close> replaces a null argument by a default instance;
  \<open>getSession\<close> is empty when the native server has no wrapper, and \<open>value()\<close> of the empty optional throws
  \<open>std::bad_optional_access\<close>.\<close>

definition getAdapter :: "('n, 'c, 't, 'x) adapter option \<Rightarrow> ('n, 'c, 't, 'x) adapter outc" where
  "getAdapter ac = (case ac of None \<Rightarrow> Inl Terminate | Some a \<Rightarrow> Ret a)"

definition asWrapperRef :: "'a \<Rightarrow> 'a option \<Rightarrow> 'a" where
  "asWrapperRef dflt p = (case p of None \<Rightarrow> dflt | Some x \<Rightarrow> x)"

definition getSession :: "'n \<Rightarrow> nat option \<Rightarrow> 'n option \<Rightarrow> 'c \<Rightarrow> ('n, 'c) Session option" where
  "getSession nullId wrapper sid ctx = (case wrapper of
      None \<Rightarrow> None
    | Some w \<Rightarrow> Some \<lparr>session_server = w, session_id = asWrapperRef nullId sid, session_context = ctx\<rparr>)"

definition session_value :: "('n, 'c) Session option \<Rightarrow> ('n, 'c) Session outc" where
  "session_value s = (case s of None \<Rightarrow> throw (StdException ''bad_optional_access'') | Some x \<Rightarrow> Ret x)"

text \<open>\<open>std::exception\<close> is the base of every exception here except a foreign one. \<open>logException\<close> only logs. The
  function is \<open>noexcept\<close>, so an exception no handler takes ends the process.\<close>

fun is_std_exception :: "exn \<Rightarrow> bool" where
  "is_std_exception (ForeignException k) = False"
| "is_std_exception _ = True"

definition invokeAccessCallback :: "'r \<Rightarrow> 'r outc \<Rightarrow> 'r outc" where
  "invokeAccessCallback returnOnException fn = (case fn of
      Inl (Throw e) \<Rightarrow> if is_std_exception e then Ret returnOnException else Inl Terminate
    | r \<Rightarrow> r)"

text \<open>The common shape of the callbacks: look up session and adapter, call, deny on exception.\<close>

definition with_session ::
  "'n \<Rightarrow> nat option \<Rightarrow> ('n, 'c, 't, 'x) adapter option \<Rightarrow> 'n option \<Rightarrow> 'c
   \<Rightarrow> (('n, 'c, 't, 'x) adapter \<Rightarrow> ('n, 'c) Session \<Rightarrow> 'r outc) \<Rightarrow> 'r outc" where
  "with_session nullId wrapper ac sid ctx call =
     outc_bind (getAdapter ac) (\<lambda>a. outc_bind (session_value (getSession nullId wrapper sid ctx)) (call a))"

definition activateSessionNative ::
  "'n \<Rightarrow> 'c \<Rightarrow> 'x \<Rightarrow> 'x \<Rightarrow> 't \<Rightarrow> nat option \<Rightarrow> ('n, 'c, 't, 'x) adapter option \<Rightarrow> 'x option \<Rightarrow> 'x option \<Rightarrow> 'n option
   \<Rightarrow> 't option \<Rightarrow> u32 outc" where
  "activateSessionNative nullId nullCtx dEndp dCert dToken wrapper ac endp cert sid token =
     invokeAccessCallback UA_STATUSCODE_BADINTERNALERROR (with_session nullId wrapper ac sid nullCtx
       (\<lambda>a s. a_activateSession a s (asWrapperRef dEndp endp) (asWrapperRef dCert cert) (asWrapperRef dToken token)))"

definition closeSessionNative ::
  "'n \<Rightarrow> nat option \<Rightarrow> ('n, 'c, 't, 'x) adapter option \<Rightarrow> 'n option \<Rightarrow> 'c \<Rightarrow> u32 outc" where
  "closeSessionNative nullId wrapper ac sid ctx =
     invokeAccessCallback UA_STATUSCODE_GOOD (with_session nullId wrapper ac sid ctx
       (\<lambda>a s. outc_bind (a_closeSession a s) (\<lambda>_. Ret UA_STATUSCODE_GOOD)))"

definition getUserRightsMaskNative ::
  "'n \<Rightarrow> nat option \<Rightarrow> ('n, 'c, 't, 'x) adapter option \<Rightarrow> 'n option \<Rightarrow> 'c \<Rightarrow> 'n option \<Rightarrow> u32 outc" where
  "getUserRightsMaskNative nullId wrapper ac sid ctx node =
     invokeAccessCallback 0 (with_session nullId wrapper ac sid ctx
       (\<lambda>a s. a_getUserRightsMask a s (asWrapperRef nullId node)))"

definition getUserAccessLevelNative ::
  "'n \<Rightarrow> nat option \<Rightarrow> ('n, 'c, 't, 'x) adapter option \<Rightarrow> 'n option \<Rightarrow> 'c \<Rightarrow> 'n option \<Rightarrow> u8 outc" where
  "getUserAccessLevelNative nullId wrapper ac sid ctx node =
     invokeAccessCallback 0 (with_session nullId wrapper ac sid ctx
       (\<lambda>a s. a_getUserAccessLevel a s (asWrapperRef nullId node)))"

definition getUserExecutableNative ::
  "'n \<Rightarrow> nat option \<Rightarrow> ('n, 'c, 't, 'x) adapter option \<Rightarrow> 'n option \<Rightarrow> 'c \<Rightarrow> 'n option \<Rightarrow> bool outc" where
  "getUserExecutableNative nullId wrapper ac sid ctx method =
     invokeAccessCallback False (with_session nullId wrapper ac sid ctx
       (\<lambda>a s. a_getUserExecutable a s (asWrapperRef nullId method)))"

definition getUserExecutableOnObjectNative ::
  "'n \<Rightarrow> nat option \<Rightarrow> ('n, 'c, 't, 'x) adapter option \<Rightarrow> 'n option \<Rightarrow> 'c \<Rightarrow> 'n option \<Rightarrow> 'n option \<Rightarrow> bool outc"
where
  "getUserExecutableOnObjectNative nullId wrapper ac sid ctx method object =
     invokeAccessCallback False (with_session nullId wrapper ac sid ctx
       (\<lambda>a s. a_getUserExecutableOnObject a s (asWrapperRef nullId method) (asWrapperRef nullId object)))"

definition allowAddNodeNative ::
  "'n \<Rightarrow> 'x \<Rightarrow> nat option \<Rightarrow> ('n, 'c, 't, 'x) adapter option \<Rightarrow> 'n option \<Rightarrow> 'c \<Rightarrow> 'x option \<Rightarrow> bool outc" where
  "allowAddNodeNative nullId dItem wrapper ac sid ctx item =
     invokeAccessCallback False (with_session nullId wrapper ac sid ctx
       (\<lambda>a s. a_allowAddNode a s (asWrapperRef dItem item)))"

definition allowAddReferenceNative ::
  "'n \<Rightarrow> 'x \<Rightarrow> nat option \<Rightarrow> ('n, 'c, 't, 'x) adapter option \<Rightarrow> 'n option \<Rightarrow> 'c \<Rightarrow> 'x option \<Rightarrow> bool outc" where
  "allowAddReferenceNative nullId dItem wrapper ac sid ctx item =
     invokeAccessCallback False (with_session nullId wrapper ac sid ctx
       (\<lambda>a s. a_allowAddReference a s (asWrapperRef dItem item)))"

definition allowDeleteNodeNative ::
  "'n \<Rightarrow> 'x \<Rightarrow> nat option \<Rightarrow> ('n, 'c, 't, 'x) adapter option \<Rightarrow> 'n option \<Rightarrow> 'c \<Rightarrow> 'x option \<Rightarrow> bool outc" where
  "allowDeleteNodeNative nullId dItem wrapper ac sid ctx item =
     invokeAccessCallback False (with_session nullId wrapper ac sid ctx
       (\<lambda>a s. a_allowDeleteNode a s (asWrapperRef dItem item)))"

definition allowDeleteReferenceNative ::
  "'n \<Rightarrow> 'x \<Rightarrow> nat option \<Rightarrow> ('n, 'c, 't, 'x) adapter option \<Rightarrow> 'n option \<Rightarrow> 'c \<Rightarrow> 'x option \<Rightarrow> bool outc" where
  "allowDeleteReferenceNative nullId dItem wrapper ac sid ctx item =
     invokeAccessCallback False (with_session nullId wrapper ac sid ctx
       (\<lambda>a s. a_allowDeleteReference a s (asWrapperRef dItem item)))"

definition allowBrowseNodeNative ::
  "'n \<Rightarrow> nat option \<Rightarrow> ('n, 'c, 't, 'x) adapter option \<Rightarrow> 'n option \<Rightarrow> 'c \<Rightarrow> 'n option \<Rightarrow> bool outc" where
  "allowBrowseNodeNative nullId wrapper ac sid ctx node =
     invokeAccessCallback False (with_session nullId wrapper ac sid ctx
       (\<lambda>a s. a_allowBrowseNode a s (asWrapperRef nullId node)))"

definition allowTransferSubscriptionNative ::
  "'n \<Rightarrow> nat option \<Rightarrow> ('n, 'c, 't, 'x) adapter option \<Rightarrow> 'n option \<Rightarrow> 'c \<Rightarrow> 'n option \<Rightarrow> 'c \<Rightarrow> bool outc" where
  "allowTransferSubscriptionNative nullId wrapper ac oldId oldCtx newId newCtx =
     invokeAccessCallback False (with_session nullId wrapper ac oldId oldCtx
       (\<lambda>a old. outc_bind (session_value (getSession nullId wrapper newId newCtx))
         (\<lambda>new. a_allowTransferSubscription a old new)))"

definition allowHistoryUpdateUpdateDataNative ::
  "'n \<Rightarrow> 'x \<Rightarrow> nat option \<Rightarrow> ('n, 'c, 't, 'x) adapter option \<Rightarrow> 'n option \<Rightarrow> 'c \<Rightarrow> 'n option \<Rightarrow> nat \<Rightarrow> 'x option \<Rightarrow> bool outc"
where
  "allowHistoryUpdateUpdateDataNative nullId dValue wrapper ac sid ctx node perform val =
     invokeAccessCallback False (with_session nullId wrapper ac sid ctx
       (\<lambda>a s. a_allowHistoryUpdate a s (asWrapperRef nullId node) perform (asWrapperRef dValue val)))"

definition allowHistoryUpdateDeleteRawModifiedNative ::
  "'n \<Rightarrow> nat option \<Rightarrow> ('n, 'c, 't, 'x) adapter option \<Rightarrow> 'n option \<Rightarrow> 'c \<Rightarrow> 'n option \<Rightarrow> int \<Rightarrow> int \<Rightarrow> bool \<Rightarrow> bool outc"
where
  "allowHistoryUpdateDeleteRawModifiedNative nullId wrapper ac sid ctx node from until modified =
     invokeAccessCallback False (with_session nullId wrapper ac sid ctx
       (\<lambda>a s. a_allowHistoryDelete a s (asWrapperRef nullId node) from until modified))"

section \<open>The default implementation\<close>

record Login =
  username :: string
  password :: string

datatype UserTokenType = UtAnonymous | UtUsername | UtCertificate | UtIssuedToken

record UserTokenPolicy =
  policyId :: string
  tokenType :: UserTokenType
  securityPolicyUri :: string

record AccessControlDefault =
  allowAnonymous :: bool
  logins :: "Login list"
  userTokenPolicies :: "UserTokenPolicy list"

definition policyIdAnonymous :: string where "policyIdAnonymous = ''open62541-anonymous-policy''"
definition policyIdUsername :: string where "policyIdUsername = ''open62541-username-policy''"

definition startsWith :: "string \<Rightarrow> string \<Rightarrow> bool" where
  "startsWith str prefix = (length str \<ge> length prefix \<and> take (length prefix) str = prefix)"

definition mkAccessControlDefault :: "bool \<Rightarrow> Login list \<Rightarrow> AccessControlDefault" where
  "mkAccessControlDefault anonymous ls =
     \<lparr>allowAnonymous = anonymous, logins = ls,
      userTokenPolicies =
        (if anonymous then [\<lparr>policyId = policyIdAnonymous, tokenType = UtAnonymous, securityPolicyUri = ''''\<rparr>] else [])
        @ (if ls \<noteq> [] then [\<lparr>policyId = policyIdUsername, tokenType = UtUsername, securityPolicyUri = ''''\<rparr>] else [])\<rparr>"

text \<open>The identity token of a session request: an extension object without body, with an undecoded body, or decoded to
  one of the token types.\<close>

datatype IdentityToken =
    TokenEmpty
  | TokenEncoded
  | TokenAnonymous string
  | TokenUserName string string string
  | TokenOther

definition default_activateSession :: "AccessControlDefault \<Rightarrow> IdentityToken \<Rightarrow> u32" where
  "default_activateSession ac token = (case token of
      TokenEmpty \<Rightarrow> if allowAnonymous ac then UA_STATUSCODE_GOOD else UA_STATUSCODE_BADIDENTITYTOKENINVALID
    | TokenEncoded \<Rightarrow> UA_STATUSCODE_BADIDENTITYTOKENINVALID
    | TokenAnonymous pid \<Rightarrow>
        if \<not> allowAnonymous ac then UA_STATUSCODE_BADIDENTITYTOKENINVALID
        else if pid = [] \<or> startsWith pid policyIdAnonymous then UA_STATUSCODE_GOOD
        else UA_STATUSCODE_BADIDENTITYTOKENINVALID
    | TokenUserName pid user pw \<Rightarrow>
        if \<not> startsWith pid policyIdUsername then UA_STATUSCODE_BADIDENTITYTOKENINVALID
        else if user = [] \<and> pw = [] then UA_STATUSCODE_BADIDENTITYTOKENINVALID
        else if list_ex (\<lambda>login. username login = user \<and> password login = pw) (logins ac) then UA_STATUSCODE_GOOD
        else UA_STATUSCODE_BADUSERACCESSDENIED
    | TokenOther \<Rightarrow> UA_STATUSCODE_BADIDENTITYTOKENINVALID)"

text \<open>A logged-in user has all rights.\<close>

definition default_adapter :: "AccessControlDefault \<Rightarrow> ('n, 'c, IdentityToken, 'x) adapter" where
  "default_adapter ac = \<lparr>
     a_activateSession = (\<lambda>s e c token. Ret (default_activateSession ac token)),
     a_closeSession = (\<lambda>s. Ret ()),
     a_getUserRightsMask = (\<lambda>s n. Ret 0xFFFFFFFF),
     a_getUserAccessLevel = (\<lambda>s n. Ret 0xFF),
     a_getUserExecutable = (\<lambda>s n. Ret True),
     a_getUserExecutableOnObject = (\<lambda>s n m. Ret True),
     a_allowAddNode = (\<lambda>s i. Ret True),
     a_allowAddReference = (\<lambda>s i. Ret True),
     a_allowDeleteNode = (\<lambda>s i. Ret True),
     a_allowDeleteReference = (\<lambda>s i. Ret True),
     a_allowBrowseNode = (\<lambda>s n. Ret True),
     a_allowTransferSubscription = (\<lambda>s s'. Ret True),
     a_allowHistoryUpdate = (\<lambda>s n p v. Ret True),
     a_allowHistoryDelete = (\<lambda>s n f t m. Ret True)\<rparr>"

section \<open>Creation and ownership\<close>

text \<open>What \<open>create\<close> puts into the native structure and \<open>detail::clear\<close> does with it. Adapters are named by their
  address; \<open>deleted\<close> records \<open>delete\<close> calls.\<close>

record native_ac =
  ac_context :: "nat option"
  ac_owned :: bool
  ac_policies :: "UserTokenPolicy list"

definition ac_null :: native_ac where
  "ac_null = \<lparr>ac_context = None, ac_owned = False, ac_policies = []\<rparr>"

definition ac_create :: "nat \<Rightarrow> UserTokenPolicy list \<Rightarrow> bool \<Rightarrow> native_ac" where
  "ac_create self policies ownsAdapter =
     \<lparr>ac_context = Some self, ac_owned = ownsAdapter, ac_policies = policies\<rparr>"

definition ac_clear :: "native_ac \<Rightarrow> nat list \<Rightarrow> native_ac \<times> nat list" where
  "ac_clear ac deleted =
     (ac_null, if ac_owned ac then (case ac_context ac of Some a \<Rightarrow> a # deleted | None \<Rightarrow> deleted) else deleted)"

section \<open>Lemmas\<close>

lemma invokeAccessCallback_simps [simp, outc]:
  "invokeAccessCallback d (Inr x) = Ret x"
  "invokeAccessCallback d (Inl Terminate) = Inl Terminate"
  "is_std_exception e \<Longrightarrow> invokeAccessCallback d (Inl (Throw e)) = Ret d"
  "\<not> is_std_exception e \<Longrightarrow> invokeAccessCallback d (Inl (Throw e)) = Inl Terminate"
  by (simp_all add: invokeAccessCallback_def)

lemma with_session_ok [simp, outc]:
  "with_session nullId (Some w) (Some a) sid ctx call =
     call a \<lparr>session_server = w, session_id = asWrapperRef nullId sid, session_context = ctx\<rparr>"
  by (simp add: with_session_def getAdapter_def session_value_def getSession_def)

lemma with_session_no_server [simp, outc]:
  "with_session nullId None (Some a) sid ctx call = throw (StdException ''bad_optional_access'')"
  by (simp add: with_session_def getAdapter_def session_value_def getSession_def)

lemma startsWith_iff: "startsWith str prefix \<longleftrightarrow> (\<exists>rest. str = prefix @ rest)"
proof
  assume "startsWith str prefix"
  then have "str = prefix @ drop (length prefix) str"
    unfolding startsWith_def by (metis append_take_drop_id)
  then show "\<exists>rest. str = prefix @ rest" ..
qed (auto simp: startsWith_def)

lemmas access_natives =
  getUserRightsMaskNative_def getUserAccessLevelNative_def getUserExecutableNative_def
  getUserExecutableOnObjectNative_def allowAddNodeNative_def allowAddReferenceNative_def
  allowDeleteNodeNative_def allowDeleteReferenceNative_def allowBrowseNodeNative_def
  activateSessionNative_def closeSessionNative_def allowHistoryUpdateUpdateDataNative_def
  allowHistoryUpdateDeleteRawModifiedNative_def allowTransferSubscriptionNative_def

section \<open>What the default implementation is meant to accept\<close>

definition accepted :: "AccessControlDefault \<Rightarrow> IdentityToken \<Rightarrow> bool" where
  "accepted ac token =
     ((allowAnonymous ac \<and> (token = TokenEmpty \<or> token = TokenAnonymous ''''
          \<or> (\<exists>rest. token = TokenAnonymous (policyIdAnonymous @ rest))))
      \<or> (\<exists>rest login. login \<in> set (logins ac) \<and> (username login \<noteq> [] \<or> password login \<noteq> [])
          \<and> token = TokenUserName (policyIdUsername @ rest) (username login) (password login)))"

text \<open>An implementation whose every virtual function throws \<open>e\<close>.\<close>

definition throws_always :: "('n, 'c, 't, 'x) adapter \<Rightarrow> exn \<Rightarrow> bool" where
  "throws_always a e =
     ((\<forall>s n. a_getUserRightsMask a s n = throw e \<and> a_getUserAccessLevel a s n = throw e
        \<and> a_getUserExecutable a s n = throw e \<and> a_allowBrowseNode a s n = throw e)
      \<and> (\<forall>s n m. a_getUserExecutableOnObject a s n m = throw e)
      \<and> (\<forall>s s'. a_allowTransferSubscription a s s' = throw e)
      \<and> (\<forall>s i. a_allowAddNode a s i = throw e \<and> a_allowAddReference a s i = throw e
        \<and> a_allowDeleteNode a s i = throw e \<and> a_allowDeleteReference a s i = throw e)
      \<and> (\<forall>s n k v. a_allowHistoryUpdate a s n k v = throw e)
      \<and> (\<forall>s n f u m. a_allowHistoryDelete a s n f u m = throw e)
      \<and> (\<forall>s x y t. a_activateSession a s x y t = throw e))"

section \<open>Properties\<close>

text \<open>C26. The default access control accepts exactly the intended identities: a session is activated with a good status if
  and only if the request is anonymous (no token, or an anonymous token with an empty or matching policy id)
  and anonymous access is allowed, or carries a user name token with a matching policy id and a non-empty credential
  that is one of the configured logins. Every other request is refused with a bad status, wrong credentials with
  \<open>BADUSERACCESSDENIED\<close>.\<close>

theorem default_access_decision:
  "(isGood (default_activateSession ac token) \<longleftrightarrow> accepted ac token)
   \<and> (\<not> accepted ac token \<longrightarrow> isBad (default_activateSession ac token))
   \<and> (token = TokenUserName (policyIdUsername @ rest) u p \<and> (u \<noteq> [] \<or> p \<noteq> []) \<and> \<not> accepted ac token
        \<longrightarrow> default_activateSession ac token = UA_STATUSCODE_BADUSERACCESSDENIED)"
proof -
  have codes: "\<not> isGood UA_STATUSCODE_BADIDENTITYTOKENINVALID" "\<not> isGood UA_STATUSCODE_BADUSERACCESSDENIED"
    by (simp_all add: wrd status_codes)
  show ?thesis
    by (cases token)
      (auto simp: default_activateSession_def accepted_def codes startsWith_iff list_ex_iff)
qed

theorem default_access_decision_witness:
  "default_activateSession (mkAccessControlDefault False [\<lparr>username = ''u'', password = ''p''\<rparr>])
     (TokenUserName (policyIdUsername @ ''-x'') ''u'' ''q'') = UA_STATUSCODE_BADUSERACCESSDENIED"
  using default_access_decision [of "mkAccessControlDefault False [\<lparr>username = ''u'', password = ''p''\<rparr>]"
      "TokenUserName (policyIdUsername @ ''-x'') ''u'' ''q''" "''-x''" "''u''" "''q''"]
  by (auto simp: accepted_def mkAccessControlDefault_def)



text \<open>What the default implementation itself answers through the callbacks once a session exists.\<close>

lemma default_adapter_grants:
  "getUserRightsMaskNative n0 (Some w) (Some (default_adapter ac)) sid ctx node = Ret 0xFFFFFFFF"
  "allowDeleteNodeNative n0 x0 (Some w) (Some (default_adapter ac)) sid ctx item = Ret True"
  by (simp_all add: access_natives default_adapter_def)

text \<open>An exception that does not derive from \<open>std::exception\<close> is not caught by the \<open>noexcept\<close> callback and ends the
  process.\<close>

lemma foreign_exception_terminates:
  assumes "a_allowAddNode a = (\<lambda>s i. throw (ForeignException k))"
  shows "allowAddNodeNative n0 x0 (Some w) (Some a) sid ctx item = Inl Terminate"
  using assms by (simp add: access_natives)

end
