(* ===== verification/Server_Config.thy ===== *)
theory Server_Config
  imports Access_Control
begin

text \<open>
  The configuration side of \<open>server.cpp\<close>: application description and endpoints
  (\<open>setApplicationUri\<close>, \<open>setProductUri\<close>, \<open>setApplicationName\<close>), \<open>setAccessControl\<close> in both ownership
  variants, the token policies (\<open>setHighestSecurityPolicyForUserTokenTransfer\<close>), and the session registry that is
  hooked into the access control (\<open>activateSession\<close>, \<open>closeSession\<close>, \<open>applySessionRegistry\<close>).
\<close>

section \<open>Application description\<close>

record ApplicationDescription =
  applicationUri :: string
  productUri :: string
  applicationName :: "string \<times> string"

record EndpointDescription =
  endpointUrl :: string
  endpoint_server :: ApplicationDescription

record server_config =
  applicationDescription :: ApplicationDescription
  endpoints :: "EndpointDescription list"
  accessControl :: native_ac
  securityPolicies :: "string list"
  deleted_adapters :: "nat list"

definition copyApplicationDescriptionToEndpoints :: "server_config \<Rightarrow> server_config" where
  "copyApplicationDescriptionToEndpoints c =
     c\<lparr>endpoints := map (\<lambda>e. e\<lparr>endpoint_server := applicationDescription c\<rparr>) (endpoints c)\<rparr>"

definition setApplicationUri :: "string \<Rightarrow> server_config \<Rightarrow> server_config" where
  "setApplicationUri uri c = copyApplicationDescriptionToEndpoints
     (c\<lparr>applicationDescription := (applicationDescription c)\<lparr>applicationUri := uri\<rparr>\<rparr>)"

definition setProductUri :: "string \<Rightarrow> server_config \<Rightarrow> server_config" where
  "setProductUri uri c = copyApplicationDescriptionToEndpoints
     (c\<lparr>applicationDescription := (applicationDescription c)\<lparr>productUri := uri\<rparr>\<rparr>)"

definition setApplicationName :: "string \<Rightarrow> server_config \<Rightarrow> server_config" where
  "setApplicationName name c = copyApplicationDescriptionToEndpoints
     (c\<lparr>applicationDescription := (applicationDescription c)\<lparr>applicationName := ('''', name)\<rparr>\<rparr>)"

section \<open>Access control of a configuration\<close>

definition raise_policy :: "string \<Rightarrow> UserTokenPolicy \<Rightarrow> UserTokenPolicy" where
  "raise_policy uri p =
     (if tokenType p \<noteq> UtAnonymous \<and> securityPolicyUri p = [] then p\<lparr>securityPolicyUri := uri\<rparr> else p)"

definition setHighestSecurityPolicyForUserTokenTransfer :: "server_config \<Rightarrow> server_config" where
  "setHighestSecurityPolicyForUserTokenTransfer c =
     (if securityPolicies c = [] then c
      else c\<lparr>accessControl := (accessControl c)\<lparr>ac_policies :=
             map (raise_policy (last (securityPolicies c))) (ac_policies (accessControl c))\<rparr>\<rparr>)"

definition replace_ac :: "native_ac \<Rightarrow> server_config \<Rightarrow> server_config" where
  "replace_ac new c = (case ac_clear (accessControl c) (deleted_adapters c) of (_, deleted) \<Rightarrow>
     setHighestSecurityPolicyForUserTokenTransfer (c\<lparr>accessControl := new, deleted_adapters := deleted\<rparr>))"

definition setAccessControl_ref :: "nat \<Rightarrow> UserTokenPolicy list \<Rightarrow> server_config \<Rightarrow> server_config" where
  "setAccessControl_ref a policies c = replace_ac (ac_create a policies False) c"

definition setAccessControl_unique :: "(nat \<times> UserTokenPolicy list) option \<Rightarrow> server_config \<Rightarrow> server_config" where
  "setAccessControl_unique p c = (case p of
      None \<Rightarrow> c
    | Some (a, policies) \<Rightarrow> replace_ac (ac_create a policies True) c)"

section \<open>Session registry\<close>

text \<open>The function pointers of the native access control: null, the registry's own function, or a user's.\<close>

datatype 'f fnptr = NullFn | RegistryFn | UserFn 'f

record ('f, 'n, 'c) registry =
  activateSessionUser :: "'f fnptr"
  closeSessionUser :: "'f fnptr"
  sessions :: "'n \<Rightarrow> 'c option"

record 'f ac_hooks =
  hook_activate :: "'f fnptr"
  hook_close :: "'f fnptr"

text \<open>\<open>user\<close> is what the user's function does when called: its status and the session context it leaves. A registry
  whose saved pointer is the registry's own function would call itself without end.\<close>

definition activateSession ::
  "('f \<Rightarrow> 'n option \<Rightarrow> u32 \<times> 'c) \<Rightarrow> ('f, 'n, 'c) registry option \<Rightarrow> 'n option
   \<Rightarrow> u32 outc \<times> ('f, 'n, 'c) registry option" where
  "activateSession user context sessionId = (case context of
      None \<Rightarrow> (Ret UA_STATUSCODE_BADINTERNALERROR, None)
    | Some reg \<Rightarrow> (case activateSessionUser reg of
         NullFn \<Rightarrow> (Ret UA_STATUSCODE_BADINTERNALERROR, Some reg)
       | RegistryFn \<Rightarrow> (Inl Undef, Some reg)
       | UserFn f \<Rightarrow> (case user f sessionId of (status, ctx) \<Rightarrow>
           (Ret status, Some (case sessionId of
              Some n \<Rightarrow> if isGood status then reg\<lparr>sessions := (sessions reg)(n \<mapsto> ctx)\<rparr> else reg
            | None \<Rightarrow> reg)))))"

definition closeSession ::
  "('f, 'n, 'c) registry option \<Rightarrow> 'n option \<Rightarrow> unit outc \<times> ('f, 'n, 'c) registry option" where
  "closeSession context sessionId = (case context of
      None \<Rightarrow> (Ret (), None)
    | Some reg \<Rightarrow> (case closeSessionUser reg of
         NullFn \<Rightarrow> (Ret (), Some reg)
       | RegistryFn \<Rightarrow> (Inl Undef, Some reg)
       | UserFn f \<Rightarrow> (Ret (), Some (case sessionId of
              Some n \<Rightarrow> reg\<lparr>sessions := (sessions reg)(n := None)\<rparr>
            | None \<Rightarrow> reg))))"

definition applySessionRegistry ::
  "'f ac_hooks \<times> ('f, 'n, 'c) registry \<Rightarrow> 'f ac_hooks \<times> ('f, 'n, 'c) registry" where
  "applySessionRegistry hr = (case hr of (h, reg) \<Rightarrow>
     let (h1, reg1) = (if hook_activate h \<noteq> RegistryFn
            then (h\<lparr>hook_activate := RegistryFn\<rparr>, reg\<lparr>activateSessionUser := hook_activate h\<rparr>) else (h, reg))
     in (if hook_close h1 \<noteq> RegistryFn
         then (h1\<lparr>hook_close := RegistryFn\<rparr>, reg1\<lparr>closeSessionUser := hook_close h1\<rparr>) else (h1, reg1)))"

definition registry_sessions :: "('f, 'n, 'c) registry \<Rightarrow> ('n \<times> 'c) set" where
  "registry_sessions reg = {(n, c). sessions reg n = Some c}"

text \<open>Events at the registry, in the order of the lock.\<close>

datatype ('f, 'n, 'c) event =
    Activate "'f \<Rightarrow> 'n option \<Rightarrow> u32 \<times> 'c" "'n option"
  | Close "'n option"

fun run_event :: "('f, 'n, 'c) event \<Rightarrow> ('f, 'n, 'c) registry \<Rightarrow> ('f, 'n, 'c) registry" where
  "run_event (Activate user sid) reg = the (snd (activateSession user (Some reg) sid))"
| "run_event (Close sid) reg = the (snd (closeSession (Some reg) sid))"

fun run_events :: "('f, 'n, 'c) event list \<Rightarrow> ('f, 'n, 'c) registry \<Rightarrow> ('f, 'n, 'c) registry" where
  "run_events [] reg = reg"
| "run_events (e # es) reg = run_events es (run_event e reg)"

text \<open>Which event gives a session a context or removes it.\<close>

fun opens :: "'f \<Rightarrow> 'n \<Rightarrow> 'c \<Rightarrow> ('f, 'n, 'c) event \<Rightarrow> bool" where
  "opens f n c (Activate user sid) = (sid = Some n \<and> isGood (fst (user f sid)) \<and> snd (user f sid) = c)"
| "opens f n c (Close sid) = False"

fun touches :: "'f \<Rightarrow> 'n \<Rightarrow> ('f, 'n, 'c) event \<Rightarrow> bool" where
  "touches f n (Activate user sid) = (sid = Some n \<and> isGood (fst (user f sid)))"
| "touches f n (Close sid) = (sid = Some n)"

lemma opens_touches: "opens f n c e \<Longrightarrow> touches f n e"
  by (cases e) simp_all

lemma run_event_simps:
  assumes "activateSessionUser reg = UserFn f" "closeSessionUser reg = UserFn g"
  shows "run_event (Activate user sid) reg = (case sid of
      Some n \<Rightarrow> if isGood (fst (user f sid)) then reg\<lparr>sessions := (sessions reg)(n \<mapsto> snd (user f sid))\<rparr> else reg
    | None \<Rightarrow> reg)"
    and "run_event (Close sid) reg = (case sid of
      Some n \<Rightarrow> reg\<lparr>sessions := (sessions reg)(n := None)\<rparr> | None \<Rightarrow> reg)"
  using assms by (auto simp: activateSession_def closeSession_def split: option.splits prod.splits)

lemma run_event_hooks:
  assumes "activateSessionUser reg = UserFn f" "closeSessionUser reg = UserFn g"
  shows "activateSessionUser (run_event e reg) = UserFn f" "closeSessionUser (run_event e reg) = UserFn g"
  using assms by (cases e; simp add: run_event_simps del: run_event.simps split: option.splits)+

lemma run_event_untouched:
  assumes "activateSessionUser reg = UserFn f" "closeSessionUser reg = UserFn g" "\<not> touches f n e"
  shows "sessions (run_event e reg) n = sessions reg n"
  using assms by (cases e) (auto simp: run_event_simps simp del: run_event.simps split: option.splits)

lemma run_event_touched:
  assumes "activateSessionUser reg = UserFn f" "closeSessionUser reg = UserFn g" "touches f n e"
  shows "sessions (run_event e reg) n = Some c \<longleftrightarrow> opens f n c e"
  using assms by (cases e) (auto simp: run_event_simps simp del: run_event.simps split: option.splits)

lemma run_events_untouched:
  assumes "activateSessionUser reg = UserFn f" "closeSessionUser reg = UserFn g" "\<forall>e \<in> set es. \<not> touches f n e"
  shows "sessions (run_events es reg) n = sessions reg n"
  using assms
  by (induction es arbitrary: reg) (simp_all add: run_event_hooks run_event_untouched)

lemma run_events_append: "run_events (es @ fs) reg = run_events fs (run_events es reg)"
  by (induction es arbitrary: reg) simp_all

lemma run_events_hooks:
  assumes "activateSessionUser reg = UserFn f" "closeSessionUser reg = UserFn g"
  shows "activateSessionUser (run_events es reg) = UserFn f" "closeSessionUser (run_events es reg) = UserFn g"
  using assms by (induction es arbitrary: reg) (simp_all add: run_event_hooks)

text \<open>The access control that is active in a configuration, and the adapters it has owned so far.\<close>

datatype ac_op = SetRef nat "UserTokenPolicy list" | SetUnique "(nat \<times> UserTokenPolicy list) option"

fun run_ac_op :: "ac_op \<Rightarrow> server_config \<Rightarrow> server_config" where
  "run_ac_op (SetRef a ps) c = setAccessControl_ref a ps c"
| "run_ac_op (SetUnique p) c = setAccessControl_unique p c"

fun owned_by :: "ac_op list \<Rightarrow> nat list" where
  "owned_by [] = []"
| "owned_by (SetUnique (Some (a, ps)) # ops) = a # owned_by ops"
| "owned_by (SetUnique None # ops) = owned_by ops"
| "owned_by (SetRef a ps # ops) = owned_by ops"

definition pending_adapter :: "server_config \<Rightarrow> nat list" where
  "pending_adapter c = (if ac_owned (accessControl c) then (case ac_context (accessControl c) of Some a \<Rightarrow> [a] | None \<Rightarrow> []) else [])"

lemma raise_fields [simp]:
  "ac_owned (accessControl (setHighestSecurityPolicyForUserTokenTransfer c)) = ac_owned (accessControl c)"
  "ac_context (accessControl (setHighestSecurityPolicyForUserTokenTransfer c)) = ac_context (accessControl c)"
  "deleted_adapters (setHighestSecurityPolicyForUserTokenTransfer c) = deleted_adapters c"
  "securityPolicies (setHighestSecurityPolicyForUserTokenTransfer c) = securityPolicies c"
  by (simp_all add: setHighestSecurityPolicyForUserTokenTransfer_def)

lemma replace_ac_deleted:
  "deleted_adapters (replace_ac new c) = pending_adapter c @ deleted_adapters c"
  by (auto simp: replace_ac_def ac_clear_def pending_adapter_def split: option.splits)

lemma rev_pending: "rev (pending_adapter c) = pending_adapter c"
  by (simp add: pending_adapter_def split: option.splits)

lemma replace_ac_pending: "pending_adapter (replace_ac (ac_create a ps own) c) = (if own then [a] else [])"
  by (simp add: replace_ac_def ac_clear_def pending_adapter_def ac_create_def)

definition mirrored :: "server_config \<Rightarrow> bool" where
  "mirrored c = (\<forall>e \<in> set (endpoints c). endpoint_server e = applicationDescription c)"

lemma setters_mirror:
  "mirrored (setApplicationUri u c)" "mirrored (setProductUri u c)" "mirrored (setApplicationName u c)"
  "map endpointUrl (endpoints (setApplicationUri u c)) = map endpointUrl (endpoints c)"
  by (auto simp: mirrored_def setApplicationUri_def setProductUri_def setApplicationName_def
      copyApplicationDescriptionToEndpoints_def)

text \<open>The function a call through the hook finally reaches.\<close>

definition effective_activate :: "'f ac_hooks \<times> ('f, 'n, 'c) registry \<Rightarrow> 'f fnptr" where
  "effective_activate hr = (if hook_activate (fst hr) = RegistryFn then activateSessionUser (snd hr) else hook_activate (fst hr))"

definition effective_close :: "'f ac_hooks \<times> ('f, 'n, 'c) registry \<Rightarrow> 'f fnptr" where
  "effective_close hr = (if hook_close (fst hr) = RegistryFn then closeSessionUser (snd hr) else hook_close (fst hr))"

definition demo_config :: server_config where
  "demo_config = \<lparr>applicationDescription = \<lparr>applicationUri = ''a'', productUri = ''p'', applicationName = ('''', ''n'')\<rparr>,
     endpoints = [], accessControl = ac_null, securityPolicies = [''none'', ''basic''], deleted_adapters = []\<rparr>"

section \<open>Properties\<close>

text \<open>C8. The registry holds exactly the live sessions: after any sequence of session activations and closings, a session
  id is mapped to a context if and only if the last event that concerned it was an activation the user's access
  control answered with a good status, and the context is the one that activation left (or it was registered before
  and no event concerned it). Refused activations and events without a session id change nothing.\<close>

theorem session_registry_correct:
  assumes "activateSessionUser reg = UserFn f" and "closeSessionUser reg = UserFn g"
  shows "sessions (run_events es reg) n = Some c \<longleftrightarrow>
     (\<exists>pre e post. es = pre @ e # post \<and> opens f n c e \<and> (\<forall>e' \<in> set post. \<not> touches f n e'))
     \<or> ((\<forall>e \<in> set es. \<not> touches f n e) \<and> sessions reg n = Some c)"
proof (cases "\<exists>e \<in> set es. touches f n e")
  case False
  moreover have "\<not> opens f n c e" if "e \<in> set es" for e
    using that False opens_touches[of f n c e] by auto
  ultimately show ?thesis using run_events_untouched[OF assms, of es n] by auto
next
  case True
  then obtain pre e post where es: "es = pre @ e # post" "touches f n e" "\<forall>e' \<in> set post. \<not> touches f n e'"
    by (metis split_list_last_prop)
  let ?r = "run_events pre reg"
  note hooks = run_events_hooks[OF assms, of pre]
  have "sessions (run_events es reg) n = sessions (run_event e ?r) n"
    using run_events_untouched[OF run_event_hooks[OF hooks] es(3), of e] by (simp add: es(1) run_events_append)
  then have eq: "sessions (run_events es reg) n = Some c \<longleftrightarrow> opens f n c e"
    using run_event_touched[OF hooks es(2)] by simp
  have "opens f n c e" if "es = pre' @ e' # post'" "opens f n c e'" "\<forall>x \<in> set post'. \<not> touches f n x" for pre' e' post'
  proof -
    have e': "touches f n e'" using that(2) by (rule opens_touches)
    from that(1) es(1) have "pre' @ e' # post' = pre @ e # post" by simp
    from last_occurrence_unique[where P = "touches f n", OF this e' es(2) that(3) es(3)] have "e' = e" .
    with that(2) show ?thesis by simp
  qed
  with True es eq show ?thesis by blast
qed

theorem session_registry_correct_witness:
  "sessions (run_events [Activate (\<lambda>_ _. (UA_STATUSCODE_GOOD, 7)) (Some (1::nat)), Close (Some 2)]
      \<lparr>activateSessionUser = UserFn (), closeSessionUser = UserFn (), sessions = Map.empty\<rparr>) 1 = Some (7::nat)"
  using session_registry_correct [of "\<lparr>activateSessionUser = UserFn (), closeSessionUser = UserFn (), sessions = Map.empty\<rparr>"
      "()" "()" "[Activate (\<lambda>_ _. (UA_STATUSCODE_GOOD, 7)) (Some (1::nat)), Close (Some 2)]" 1 7]
  by (force intro: exI[of _ "[]"])

text \<open>Hooking the registry into the access control is safe to repeat: \<open>applySessionRegistry\<close> routes both callbacks
  through the registry, keeps the user's functions as the ones finally called, is idempotent, and never leaves the
  registry's own function as the saved one, so a later activation or closing cannot recurse into itself.\<close>

theorem applySessionRegistry_correct:
  assumes "effective_activate hr \<noteq> RegistryFn" and "effective_close hr \<noteq> RegistryFn"
  shows "hook_activate (fst (applySessionRegistry hr)) = RegistryFn \<and> hook_close (fst (applySessionRegistry hr)) = RegistryFn
    \<and> activateSessionUser (snd (applySessionRegistry hr)) = effective_activate hr
    \<and> closeSessionUser (snd (applySessionRegistry hr)) = effective_close hr
    \<and> applySessionRegistry (applySessionRegistry hr) = applySessionRegistry hr
    \<and> sessions (snd (applySessionRegistry hr)) = sessions (snd hr)
    \<and> fst (activateSession user (Some (snd (applySessionRegistry hr))) sid) \<noteq> Inl Undef
    \<and> fst (closeSession (Some (snd (applySessionRegistry hr))) sid) \<noteq> Inl Undef"
proof -
  obtain h reg where hr: "hr = (h, reg)" by (cases hr)
  show ?thesis
    using assms unfolding hr
    by (cases "hook_activate h"; cases "hook_close h"; cases "activateSessionUser reg"; cases "closeSessionUser reg")
      (simp_all add: applySessionRegistry_def effective_activate_def effective_close_def activateSession_def
        closeSession_def split: prod.splits)
qed

theorem applySessionRegistry_correct_witness:
  "activateSessionUser (snd (applySessionRegistry
      (\<lparr>hook_activate = UserFn (3::nat), hook_close = NullFn\<rparr>,
       \<lparr>activateSessionUser = NullFn, closeSessionUser = NullFn, sessions = Map.empty :: nat \<Rightarrow> nat option\<rparr>))) = UserFn 3"
  using applySessionRegistry_correct [of "(\<lparr>hook_activate = UserFn (3::nat), hook_close = NullFn\<rparr>,
       \<lparr>activateSessionUser = NullFn, closeSessionUser = NullFn, sessions = Map.empty :: nat \<Rightarrow> nat option\<rparr>)"
       "\<lambda>_ _. (0, 0)" None]
  by (simp add: effective_activate_def effective_close_def)

text \<open>Ownership and token policies of the access control: over any sequence of \<open>setAccessControl\<close> calls every adapter
  handed over with ownership is deleted exactly once, in order, when it is replaced (the last one is still pending)
  and borrowed adapters never; and when the server has a security policy with a URI, every non-anonymous token policy
  of the active access control names a security policy, anonymous ones being left alone.\<close>

theorem setAccessControl_correct:
  assumes "pending_adapter c = []" and "deleted_adapters c = []"
  shows "rev (deleted_adapters (fold run_ac_op ops c)) @ pending_adapter (fold run_ac_op ops c) = owned_by ops
    \<and> (securityPolicies c \<noteq> [] \<and> last (securityPolicies c) \<noteq> [] \<longrightarrow>
        (\<forall>p \<in> set (ac_policies (accessControl (setAccessControl_ref a ps c))).
           tokenType p \<noteq> UtAnonymous \<longrightarrow> securityPolicyUri p \<noteq> [])
        \<and> filter (\<lambda>p. tokenType p = UtAnonymous) (ac_policies (accessControl (setAccessControl_ref a ps c)))
          = filter (\<lambda>p. tokenType p = UtAnonymous) ps)"
proof
  have "rev (deleted_adapters (fold run_ac_op ops c)) @ pending_adapter (fold run_ac_op ops c)
      = rev (deleted_adapters c) @ pending_adapter c @ owned_by ops" for c
  proof (induction ops arbitrary: c rule: owned_by.induct)
    case (2 a ps ops)
    then show ?case
      by (simp add: setAccessControl_unique_def replace_ac_deleted replace_ac_pending rev_pending)
  next
    case (4 a ps ops)
    then show ?case
      by (simp add: setAccessControl_ref_def replace_ac_deleted replace_ac_pending rev_pending)
  qed (simp_all add: setAccessControl_unique_def)
  with assms show "rev (deleted_adapters (fold run_ac_op ops c)) @ pending_adapter (fold run_ac_op ops c) = owned_by ops"
    by simp
  have "filter (\<lambda>p. tokenType p = UtAnonymous) (map (raise_policy u) ps) = filter (\<lambda>p. tokenType p = UtAnonymous) ps" for u
    by (induction ps) (auto simp: raise_policy_def)
  then show "securityPolicies c \<noteq> [] \<and> last (securityPolicies c) \<noteq> [] \<longrightarrow>
        (\<forall>p \<in> set (ac_policies (accessControl (setAccessControl_ref a ps c))).
           tokenType p \<noteq> UtAnonymous \<longrightarrow> securityPolicyUri p \<noteq> [])
        \<and> filter (\<lambda>p. tokenType p = UtAnonymous) (ac_policies (accessControl (setAccessControl_ref a ps c)))
          = filter (\<lambda>p. tokenType p = UtAnonymous) ps"
    by (auto simp: setAccessControl_ref_def replace_ac_def ac_clear_def ac_create_def raise_policy_def
        setHighestSecurityPolicyForUserTokenTransfer_def split: if_splits)
qed

theorem setAccessControl_correct_witness:
  "rev (deleted_adapters (fold run_ac_op [SetUnique (Some (1, [])), SetRef 2 [], SetUnique (Some (3, []))] demo_config))
     @ pending_adapter (fold run_ac_op [SetUnique (Some (1, [])), SetRef 2 [], SetUnique (Some (3, []))] demo_config) = [1, 3]"
  using setAccessControl_correct [of demo_config "[SetUnique (Some (1, [])), SetRef 2 [], SetUnique (Some (3, []))]" 0 "[]"]
  by (simp add: demo_config_def pending_adapter_def ac_null_def)

end
