(* ===== verification/Server_Objects.thy ===== *)
theory Server_Objects
  imports Status
begin

text \<open>
  Lifetime of \<open>Server\<close> objects (\<open>server.cpp\<close>: constructors, destructor, move construction, move assignment, the
  \<open>Deleter\<close> of the native server, \<open>asWrapper\<close>, \<open>getContext\<close>). A \<open>Server\<close> owns a context and a native server; the
  native server points back to the \<open>Server\<close> object. The world maps addresses of \<open>Server\<close> objects, contexts and
  native servers to their contents. \<open>wrong\<close> records native servers that were destroyed without a
  shutdown although started, or shut down although not started.
\<close>

record server_obj =
  context_ptr :: "nat option"
  server_ptr :: "nat option"

record native_server =
  back_pointer :: "nat option"
  is_up :: bool

record world =
  objects :: "nat \<Rightarrow> server_obj option"
  contexts :: "nat \<Rightarrow> bool option"
  natives :: "nat \<Rightarrow> native_server option"
  wrong :: "nat list"

section \<open>Access from the native server\<close>

text \<open>\<open>asWrapper\<close> follows the pointer stored in the configuration, \<open>getContext\<close> dereferences the wrapper's
  \<open>context_\<close>: a null context is undefined behaviour.\<close>

definition asWrapper :: "world \<Rightarrow> nat option \<Rightarrow> nat option" where
  "asWrapper w server = (case server of None \<Rightarrow> None | Some s \<Rightarrow>
     (case natives w s of None \<Rightarrow> None | Some n \<Rightarrow> back_pointer n))"

definition getContext :: "world \<Rightarrow> nat option \<Rightarrow> nat option outc" where
  "getContext w server = (case asWrapper w server of
      None \<Rightarrow> Ret None
    | Some a \<Rightarrow> (case objects w a of
        None \<Rightarrow> Inl Undef
      | Some ob \<Rightarrow> (case context_ptr ob of None \<Rightarrow> Inl Undef | Some c \<Rightarrow> Ret (Some c))))"

section \<open>Deleter\<close>

definition run_shutdown :: "nat \<Rightarrow> world \<Rightarrow> world" where
  "run_shutdown s w = (case natives w s of None \<Rightarrow> w | Some n \<Rightarrow>
     w\<lparr>natives := (natives w)(s \<mapsto> n\<lparr>is_up := False\<rparr>), wrong := (if is_up n then wrong w else s # wrong w)\<rparr>)"

definition UA_Server_delete :: "nat \<Rightarrow> world \<Rightarrow> world" where
  "UA_Server_delete s w = (case natives w s of None \<Rightarrow> w | Some n \<Rightarrow>
     w\<lparr>natives := (natives w)(s := None), wrong := (if is_up n then s # wrong w else wrong w)\<rparr>)"

text \<open>\<open>detail::getContext(server)->running\<close>: a null context pointer or a destroyed context is undefined behaviour.\<close>

definition context_running :: "world \<Rightarrow> nat \<Rightarrow> bool outc" where
  "context_running w s = outc_bind (getContext w (Some s)) (\<lambda>c. case c of
      None \<Rightarrow> Inl Undef
    | Some k \<Rightarrow> (case contexts w k of None \<Rightarrow> Inl Undef | Some r \<Rightarrow> Ret r))"

definition server_Deleter :: "nat option \<Rightarrow> (world, unit) op" where
  "server_Deleter server w = (case server of
      None \<Rightarrow> (Ret (), w)
    | Some s \<Rightarrow> (case context_running w s of
         Inl f \<Rightarrow> (Inl f, w)
       | Inr r \<Rightarrow> (Ret (), UA_Server_delete s (if r then run_shutdown s w else w))))"

section \<open>Construction, move and destruction\<close>

definition setWrapperAsContextPointer :: "nat \<Rightarrow> (world, unit) op" where
  "setWrapperAsContextPointer a w = (case objects w a of
      None \<Rightarrow> (Inl Undef, w)
    | Some ob \<Rightarrow> (case server_ptr ob of
        None \<Rightarrow> (Inl Undef, w)
      | Some s \<Rightarrow> (case natives w s of
          None \<Rightarrow> (Inl Undef, w)
        | Some n \<Rightarrow> (Ret (), w\<lparr>natives := (natives w)(s \<mapsto> n\<lparr>back_pointer := Some a\<rparr>)\<rparr>))))"

text \<open>The constructor from a configuration or a native instance; \<open>native\<close> is \<open>None\<close> when \<open>UA_Server_newWithConfig\<close>
  returned null. The new context (address \<open>c\<close>) is destroyed again when the constructor throws.\<close>

definition construct :: "nat \<Rightarrow> nat \<Rightarrow> nat option \<Rightarrow> (world, unit) op" where
  "construct a c native w = (case native of
      None \<Rightarrow> (throw (BadStatus UA_STATUSCODE_BADOUTOFMEMORY), w)
    | Some s \<Rightarrow> setWrapperAsContextPointer a
        (w\<lparr>contexts := (contexts w)(c \<mapsto> False),
           objects := (objects w)(a \<mapsto> \<lparr>context_ptr = Some c, server_ptr = Some s\<rparr>)\<rparr>))"

definition drop_context :: "nat option \<Rightarrow> world \<Rightarrow> world" where
  "drop_context c w = (case c of None \<Rightarrow> w | Some k \<Rightarrow> w\<lparr>contexts := (contexts w)(k := None)\<rparr>)"

text \<open>Members are destroyed in reverse order: the native server first, then the context.\<close>

definition destroy :: "nat \<Rightarrow> (world, unit) op" where
  "destroy a w = (case objects w a of
      None \<Rightarrow> (Inl Undef, w)
    | Some ob \<Rightarrow> (case server_Deleter (server_ptr ob) w of
         (Inl f, w') \<Rightarrow> (Inl f, w')
       | (Inr _, w') \<Rightarrow> (Ret (), (drop_context (context_ptr ob) w')\<lparr>objects := (objects w')(a := None)\<rparr>)))"

definition move_construct :: "nat \<Rightarrow> nat \<Rightarrow> (world, unit) op" where
  "move_construct a other w = (case objects w other of
      None \<Rightarrow> (Inl Undef, w)
    | Some ob \<Rightarrow> setWrapperAsContextPointer a
        (w\<lparr>objects := (objects w)(other \<mapsto> \<lparr>context_ptr = None, server_ptr = None\<rparr>, a \<mapsto> ob)\<rparr>))"

text \<open>Move assignment, statement by statement: the old context is destroyed when \<open>context_\<close> is assigned, and the old
  native server when \<open>server_\<close> is assigned, at which moment its deleter reads \<open>running\<close> through this object.\<close>

definition move_assign :: "nat \<Rightarrow> nat \<Rightarrow> (world, unit) op" where
  "move_assign a other w =
     (if a = other then (Ret (), w)
      else case (objects w a, objects w other) of
        (Some self, Some ob) \<Rightarrow>
          (let w1 = (drop_context (context_ptr self) w)\<lparr>objects := (objects w)
                 (a \<mapsto> self\<lparr>context_ptr := context_ptr ob\<rparr>, other \<mapsto> ob\<lparr>context_ptr := None\<rparr>)\<rparr>;
               w2 = w1\<lparr>objects := (objects w1)
                 (a \<mapsto> \<lparr>context_ptr = context_ptr ob, server_ptr = server_ptr ob\<rparr>,
                  other \<mapsto> \<lparr>context_ptr = None, server_ptr = None\<rparr>)\<rparr>
           in op_bind (server_Deleter (server_ptr self)) (\<lambda>_. setWrapperAsContextPointer a) w2)
      | _ \<Rightarrow> (Inl Undef, w))"

text \<open>\<open>run_startup\<close> and \<open>stop\<close> as far as the lifetime is concerned.\<close>

definition start_server :: "nat \<Rightarrow> world \<Rightarrow> world" where
  "start_server a w = (case objects w a of
      None \<Rightarrow> w
    | Some ob \<Rightarrow> (case (context_ptr ob, server_ptr ob) of
        (Some c, Some s) \<Rightarrow> (case natives w s of
           Some n \<Rightarrow> w\<lparr>natives := (natives w)(s \<mapsto> n\<lparr>is_up := True\<rparr>), contexts := (contexts w)(c \<mapsto> True)\<rparr>
         | None \<Rightarrow> w)
      | _ \<Rightarrow> w))"

section \<open>Well-formed worlds\<close>

text \<open>Every live object is either moved-from or owns a context and a native server that points back to it and is up exactly
  when the context says so; no two objects share either.\<close>

definition owns :: "world \<Rightarrow> nat \<Rightarrow> nat \<Rightarrow> nat \<Rightarrow> bool" where
  "owns w a c s = (objects w a = Some \<lparr>context_ptr = Some c, server_ptr = Some s\<rparr>)"

definition moved_from :: "world \<Rightarrow> nat \<Rightarrow> bool" where
  "moved_from w a = (objects w a = Some \<lparr>context_ptr = None, server_ptr = None\<rparr>)"

definition wf_world :: "world \<Rightarrow> bool" where
  "wf_world w =
     ((\<forall>a ob. objects w a = Some ob \<longrightarrow> moved_from w a \<or> (\<exists>c s. owns w a c s))
      \<and> (\<forall>a c s. owns w a c s \<longrightarrow> (\<exists>n. natives w s = Some n \<and> back_pointer n = Some a \<and> contexts w c = Some (is_up n)))
      \<and> (\<forall>a b c d s t. owns w a c s \<and> owns w b d t \<and> (c = d \<or> s = t) \<longrightarrow> a = b))"

lemma wf_owns:
  "wf_world w \<Longrightarrow> owns w a c s \<Longrightarrow> \<exists>n. natives w s = Some n \<and> back_pointer n = Some a \<and> contexts w c = Some (is_up n)"
  unfolding wf_world_def by blast

lemma wf_unique:
  "wf_world w \<Longrightarrow> owns w a c s \<Longrightarrow> owns w b d t \<Longrightarrow> c = d \<or> s = t \<Longrightarrow> a = b"
  unfolding wf_world_def by blast

lemma wf_object:
  "wf_world w \<Longrightarrow> objects w a = Some ob \<Longrightarrow> moved_from w a \<or> (\<exists>c s. owns w a c s)"
  unfolding wf_world_def by blast

lemma context_running_wf:
  assumes "wf_world w" "owns w a c s" "natives w s = Some n"
  shows "context_running w s = Ret (is_up n)"
  using wf_owns[OF assms(1,2)] assms(2,3)
  by (auto simp: context_running_def getContext_def asWrapper_def owns_def)

text \<open>Deleting the native server that belongs to an intact object: shut down if up, and nothing goes wrong.\<close>

lemma server_Deleter_wf:
  assumes "wf_world w" "owns w a c s"
  shows "server_Deleter (Some s) w = (Ret (), w\<lparr>natives := (natives w)(s := None)\<rparr>)"
proof -
  obtain n where n: "natives w s = Some n" using wf_owns[OF assms] by blast
  show ?thesis
    using n context_running_wf[OF assms n]
    by (auto simp: server_Deleter_def UA_Server_delete_def run_shutdown_def)
qed

lemma owns_det: "owns w a c s \<Longrightarrow> owns w a d t \<Longrightarrow> c = d \<and> s = t"
  by (simp add: owns_def)

text \<open>A new world is well-formed if each of its owners is justified by the old one.\<close>

lemma wf_worldI:
  assumes "\<And>a ob. objects w a = Some ob \<Longrightarrow> moved_from w a \<or> (\<exists>c s. owns w a c s)"
    and "\<And>a c s. owns w a c s \<Longrightarrow> \<exists>n. natives w s = Some n \<and> back_pointer n = Some a \<and> contexts w c = Some (is_up n)"
    and "\<And>a b c d s t. owns w a c s \<Longrightarrow> owns w b d t \<Longrightarrow> c = d \<or> s = t \<Longrightarrow> a = b"
  shows "wf_world w"
  unfolding wf_world_def using assms by blast

lemma destroy_wf:
  assumes wf: "wf_world w" and own: "owns w a c s"
  obtains w' where "destroy a w = (Ret (), w')" "wf_world w'" "wrong w' = wrong w" "natives w' s = None"
    "objects w' a = None" "contexts w' c = None" "\<And>b. b \<noteq> a \<Longrightarrow> objects w' b = objects w b"
proof -
  let ?w = "w\<lparr>objects := (objects w)(a := None), contexts := (contexts w)(c := None), natives := (natives w)(s := None)\<rparr>"
  have run: "destroy a w = (Ret (), ?w)"
    using own server_Deleter_wf[OF wf own] by (simp add: destroy_def owns_def drop_context_def)
  have other: "owns ?w b d t \<Longrightarrow> b \<noteq> a \<and> owns w b d t \<and> d \<noteq> c \<and> t \<noteq> s" for b d t
    using wf_unique[OF wf own, of b d t] by (auto simp: owns_def split: if_splits)
  have "wf_world ?w"
  proof (rule wf_worldI)
    fix b ob assume "objects ?w b = Some ob"
    then have "b \<noteq> a" "objects w b = Some ob" by (auto split: if_splits)
    with wf_object[OF wf] show "moved_from ?w b \<or> (\<exists>c s. owns ?w b c s)"
      by (fastforce simp: moved_from_def owns_def)
  next
    fix b d t assume "owns ?w b d t"
    from other[OF this] wf_owns[OF wf, of b d t]
    show "\<exists>n. natives ?w t = Some n \<and> back_pointer n = Some b \<and> contexts ?w d = Some (is_up n)" by auto
  next
    fix b b' d d' t t' assume "owns ?w b d t" "owns ?w b' d' t'" "d = d' \<or> t = t'"
    with other wf_unique[OF wf] show "b = b'" by metis
  qed
  with run show ?thesis by (intro that[of ?w]) auto
qed

lemma move_construct_wf:
  assumes wf: "wf_world w" and own: "owns w b c s" and free: "objects w a = None"
  obtains w' where "move_construct a b w = (Ret (), w')" "wf_world w'" "wrong w' = wrong w"
    "owns w' a c s" "moved_from w' b" "contexts w' = contexts w"
proof -
  obtain n where n: "natives w s = Some n" "back_pointer n = Some b" "contexts w c = Some (is_up n)"
    using wf_owns[OF wf own] by blast
  have ab: "a \<noteq> b" using own free by (auto simp: owns_def)
  let ?w = "w\<lparr>objects := (objects w)(b \<mapsto> \<lparr>context_ptr = None, server_ptr = None\<rparr>,
      a \<mapsto> \<lparr>context_ptr = Some c, server_ptr = Some s\<rparr>), natives := (natives w)(s \<mapsto> n\<lparr>back_pointer := Some a\<rparr>)\<rparr>"
  have run: "move_construct a b w = (Ret (), ?w)"
    using own n ab by (simp add: move_construct_def owns_def setWrapperAsContextPointer_def)
  have other: "owns ?w x d t \<Longrightarrow> (x = a \<and> d = c \<and> t = s) \<or> (x \<noteq> a \<and> x \<noteq> b \<and> owns w x d t \<and> d \<noteq> c \<and> t \<noteq> s)" for x d t
    using wf_unique[OF wf own, of x d t] ab by (auto simp: owns_def split: if_splits)
  have "wf_world ?w"
  proof (rule wf_worldI)
    fix x ob assume "objects ?w x = Some ob"
    then show "moved_from ?w x \<or> (\<exists>c s. owns ?w x c s)"
      using wf_object[OF wf, of x] by (fastforce simp: moved_from_def owns_def split: if_splits)
  next
    fix x d t assume "owns ?w x d t"
    from other[OF this] wf_owns[OF wf, of x d t] n
    show "\<exists>n. natives ?w t = Some n \<and> back_pointer n = Some x \<and> contexts ?w d = Some (is_up n)" by auto
  next
    fix x y d d' t t' assume "owns ?w x d t" "owns ?w y d' t'" "d = d' \<or> t = t'"
    with other wf_unique[OF wf] show "x = y" by metis
  qed
  with run ab show ?thesis by (intro that[of ?w]) (auto simp: owns_def moved_from_def)
qed

lemma construct_wf:
  assumes wf: "wf_world w" and free: "objects w a = None" "contexts w c = None"
    and native: "natives w s = Some n" "\<not> is_up n" "\<And>b d. \<not> owns w b d s"
  obtains w' where "construct a c (Some s) w = (Ret (), w')" "wf_world w'" "wrong w' = wrong w" "owns w' a c s"
proof -
  let ?w = "w\<lparr>contexts := (contexts w)(c \<mapsto> False), objects := (objects w)(a \<mapsto> \<lparr>context_ptr = Some c, server_ptr = Some s\<rparr>),
      natives := (natives w)(s \<mapsto> n\<lparr>back_pointer := Some a\<rparr>)\<rparr>"
  have run: "construct a c (Some s) w = (Ret (), ?w)"
    using native(1) by (simp add: construct_def setWrapperAsContextPointer_def)
  have other: "owns ?w x d t \<Longrightarrow> (x = a \<and> d = c \<and> t = s) \<or> (x \<noteq> a \<and> owns w x d t \<and> d \<noteq> c \<and> t \<noteq> s)" for x d t
    using wf_owns[OF wf, of x d t] free native(3)[of x d] by (auto simp: owns_def split: if_splits)
  have "wf_world ?w"
  proof (rule wf_worldI)
    fix x ob assume "objects ?w x = Some ob"
    then show "moved_from ?w x \<or> (\<exists>c s. owns ?w x c s)"
      using wf_object[OF wf, of x] by (fastforce simp: moved_from_def owns_def split: if_splits)
  next
    fix x d t assume "owns ?w x d t"
    from other[OF this] wf_owns[OF wf, of x d t] native(2)
    show "\<exists>n. natives ?w t = Some n \<and> back_pointer n = Some x \<and> contexts ?w d = Some (is_up n)" by auto
  next
    fix x y d d' t t' assume "owns ?w x d t" "owns ?w y d' t'" "d = d' \<or> t = t'"
    with other wf_unique[OF wf] show "x = y" by metis
  qed
  with run show ?thesis by (intro that[of ?w]) (auto simp: owns_def)
qed

text \<open>Move assignment between two owning objects keeps the structure intact; but the old native server is deleted
  according to the \<open>running\<close> flag of the \<^emph>\<open>other\<close> object.\<close>

lemma move_assign_wf:
  assumes wf: "wf_world w" and own: "owns w a c s" "owns w b d t" and ab: "a \<noteq> b"
    and n: "natives w s = Some n" "natives w t = Some m"
  obtains w' where "move_assign a b w = (Ret (), w')" "wf_world w'" "owns w' a d t" "moved_from w' b"
    "natives w' s = None" "wrong w' = (if is_up n = is_up m then wrong w else s # wrong w)"
proof -
  have bp: "back_pointer n = Some a" "back_pointer m = Some b" "contexts w d = Some (is_up m)"
    using wf_owns[OF wf own(1)] wf_owns[OF wf own(2)] n by auto
  have ne: "c \<noteq> d" "s \<noteq> t" using wf_unique[OF wf own] ab by auto
  let ?w = "w\<lparr>contexts := (contexts w)(c := None),
      objects := (objects w)(a \<mapsto> \<lparr>context_ptr = Some d, server_ptr = Some t\<rparr>,
         b \<mapsto> \<lparr>context_ptr = None, server_ptr = None\<rparr>),
      natives := (natives w)(s := None, t \<mapsto> m\<lparr>back_pointer := Some a\<rparr>),
      wrong := (if is_up n = is_up m then wrong w else s # wrong w)\<rparr>"
  have run: "move_assign a b w = (Ret (), ?w)"
    using own n bp ne ab
    by (cases "is_up n"; cases "is_up m")
      (auto simp: move_assign_def owns_def Let_def drop_context_def op_bind_def server_Deleter_def
        context_running_def getContext_def asWrapper_def UA_Server_delete_def run_shutdown_def
        setWrapperAsContextPointer_def fun_upd_twist)
  have other: "owns ?w x e u \<Longrightarrow> (x = a \<and> e = d \<and> u = t)
      \<or> (x \<noteq> a \<and> x \<noteq> b \<and> owns w x e u \<and> e \<noteq> c \<and> e \<noteq> d \<and> u \<noteq> s \<and> u \<noteq> t)" for x e u
    using wf_unique[OF wf own(1), of x e u] wf_unique[OF wf own(2), of x e u]
    by (auto simp: owns_def split: if_splits)
  have "wf_world ?w"
  proof (rule wf_worldI)
    fix x ob assume "objects ?w x = Some ob"
    then show "moved_from ?w x \<or> (\<exists>c s. owns ?w x c s)"
      using wf_object[OF wf, of x] by (fastforce simp: moved_from_def owns_def split: if_splits)
  next
    fix x e u assume "owns ?w x e u"
    from other[OF this] wf_owns[OF wf, of x e u] bp ne
    show "\<exists>n. natives ?w u = Some n \<and> back_pointer n = Some x \<and> contexts ?w e = Some (is_up n)" by auto
  next
    fix x y e e' u u' assume "owns ?w x e u" "owns ?w y e' u'" "e = e' \<or> u = u'"
    with other wf_unique[OF wf] show "x = y" by metis
  qed
  with run ne ab show ?thesis by (intro that[of ?w]) (auto simp: owns_def moved_from_def)
qed

section \<open>Properties\<close>

definition demo_world :: world where
  "demo_world = \<lparr>objects = [1 \<mapsto> \<lparr>context_ptr = Some 10, server_ptr = Some 20\<rparr>],
     contexts = [10 \<mapsto> True], natives = [20 \<mapsto> \<lparr>back_pointer = Some 1, is_up = True\<rparr>], wrong = []\<rparr>"

lemma demo_world_wf: "wf_world demo_world" "owns demo_world 1 10 20"
  by (rule wf_worldI) (auto simp: demo_world_def owns_def moved_from_def split: if_splits)

text \<open>C36. Lifetime of servers: constructing a server around a native instance, moving one into a new object and destroying
  one keep the world well-formed (each live object owns its own context and native server, which points back to it
  and is up exactly when the context says running), never touch freed memory, and destruction shuts a running native
  server down before deleting it and leaves an idle one alone.\<close>

theorem server_lifetime:
  assumes "wf_world w" and "owns w a c s" and "objects w b = None"
  shows "(\<exists>w'. destroy a w = (Ret (), w') \<and> wf_world w' \<and> wrong w' = wrong w
            \<and> objects w' a = None \<and> contexts w' c = None \<and> natives w' s = None)
    \<and> (\<exists>w'. move_construct b a w = (Ret (), w') \<and> wf_world w' \<and> wrong w' = wrong w
            \<and> owns w' b c s \<and> moved_from w' a)
    \<and> (contexts w d = None \<and> natives w t = Some n \<and> \<not> is_up n \<and> (\<forall>x e. \<not> owns w x e t) \<longrightarrow>
         (\<exists>w'. construct b d (Some t) w = (Ret (), w') \<and> wf_world w' \<and> wrong w' = wrong w \<and> owns w' b d t))"
proof (intro conjI impI)
  show "\<exists>w'. destroy a w = (Ret (), w') \<and> wf_world w' \<and> wrong w' = wrong w
            \<and> objects w' a = None \<and> contexts w' c = None \<and> natives w' s = None"
    using destroy_wf[OF assms(1,2)] by metis
  show "\<exists>w'. move_construct b a w = (Ret (), w') \<and> wf_world w' \<and> wrong w' = wrong w
            \<and> owns w' b c s \<and> moved_from w' a"
    using move_construct_wf[OF assms] by metis
  assume "contexts w d = None \<and> natives w t = Some n \<and> \<not> is_up n \<and> (\<forall>x e. \<not> owns w x e t)"
  then show "\<exists>w'. construct b d (Some t) w = (Ret (), w') \<and> wf_world w' \<and> wrong w' = wrong w \<and> owns w' b d t"
    using construct_wf[OF assms(1,3), of d t n] by metis
qed

theorem server_lifetime_witness:
  "\<exists>w'. destroy 1 demo_world = (Ret (), w') \<and> wrong w' = [] \<and> natives w' 20 = None"
proof -
  have "objects demo_world 2 = None" "wrong demo_world = []" by (simp_all add: demo_world_def)
  with server_lifetime [OF demo_world_wf, of 2 0 0 "\<lparr>back_pointer = None, is_up = False\<rparr>"] show ?thesis by auto
qed

text \<open>Move assignment hands over context and native server and deletes the old ones without touching freed memory,
  but the deleter of the old native server reads the running flag of the new context: the deletion is proper if and
  only if both servers are in the same state; a running target assigned from an idle server is deleted without a
  shutdown, and an idle target assigned from a running one is shut down although it was never started.\<close>

theorem move_assign_effect:
  assumes "wf_world w" and "owns w a c s" and "owns w b d t" and "a \<noteq> b"
    and "natives w s = Some n" and "natives w t = Some m"
  shows "\<exists>w'. move_assign a b w = (Ret (), w') \<and> wf_world w' \<and> owns w' a d t \<and> moved_from w' b \<and> natives w' s = None
    \<and> (wrong w' = wrong w \<longleftrightarrow> is_up n = is_up m)"
  using move_assign_wf[OF assms] by (metis not_Cons_self)

definition demo_two :: "bool \<Rightarrow> world" where
  "demo_two r = \<lparr>objects = [1 \<mapsto> \<lparr>context_ptr = Some 10, server_ptr = Some 20\<rparr>,
        2 \<mapsto> \<lparr>context_ptr = Some 11, server_ptr = Some 21\<rparr>],
     contexts = [10 \<mapsto> True, 11 \<mapsto> r],
     natives = [20 \<mapsto> \<lparr>back_pointer = Some 1, is_up = True\<rparr>, 21 \<mapsto> \<lparr>back_pointer = Some 2, is_up = r\<rparr>], wrong = []\<rparr>"

theorem move_assign_effect_witness:
  "\<exists>w'. move_assign 1 2 (demo_two False) = (Ret (), w') \<and> wrong w' \<noteq> []"
proof -
  have wf: "wf_world (demo_two False)"
    by (rule wf_worldI) (auto simp: demo_two_def owns_def moved_from_def split: if_splits)
  have own: "owns (demo_two False) 1 10 20" "owns (demo_two False) 2 11 21"
    "natives (demo_two False) 20 = Some \<lparr>back_pointer = Some 1, is_up = True\<rparr>"
    "natives (demo_two False) 21 = Some \<lparr>back_pointer = Some 2, is_up = False\<rparr>" "wrong (demo_two False) = []"
    by (simp_all add: demo_two_def owns_def)
  from move_assign_effect [OF wf own(1,2) _ own(3,4)] own(5) show ?thesis by auto
qed

end
