(* ===== verification/Context_Maps.thy ===== *)
theory Context_Maps
  imports Prelude
begin

text \<open>
  \<open>detail/contextmap.hpp\<close>: the keyed store of context objects that \<open>open62541\<close> callbacks refer to by
  pointer. The underlying \<open>std::map\<close> is modelled by its list of entries in key order; items are the owned pointers.
  Which items are stale is a property of the objects they point to, hence a parameter of the
  operations that sweep (for an item type without a \<open>stale\<close> flag it is constantly false). What the clients rely on is
  the locale \<open>context_store\<close>; it is interpreted on these operations. Each operation runs under the map's mutex and
  is one atomic step.
\<close>

section \<open>Operations\<close>

type_synonym ('k, 'i) cmap = "('k \<times> 'i) list"

fun cm_put :: "'k::linorder \<Rightarrow> 'i \<Rightarrow> ('k, 'i) cmap \<Rightarrow> ('k, 'i) cmap" where
  "cm_put k v [] = [(k, v)]"
| "cm_put k v ((a, w) # m) =
     (if k < a then (k, v) # (a, w) # m else if k = a then (k, v) # m else (a, w) # cm_put k v m)"

definition cm_find :: "('k, 'i) cmap \<Rightarrow> 'k \<Rightarrow> 'i option" where
  "cm_find m k = map_of m k"

definition cm_contains :: "('k, 'i) cmap \<Rightarrow> 'k \<Rightarrow> bool" where
  "cm_contains m k = (k \<in> set (map fst m))"

definition cm_eraseStale :: "('i \<Rightarrow> bool) \<Rightarrow> ('k, 'i) cmap \<Rightarrow> nat \<times> ('k, 'i) cmap" where
  "cm_eraseStale stale m =
     (let m' = filter (\<lambda>e. \<not> stale (snd e)) m in (length m - length m', m'))"

definition cm_sweep :: "('i \<Rightarrow> bool) \<Rightarrow> ('k, 'i) cmap \<Rightarrow> ('k, 'i) cmap" where
  "cm_sweep stale m = snd (cm_eraseStale stale m)"

definition cm_insert :: "('i \<Rightarrow> bool) \<Rightarrow> 'k::linorder \<Rightarrow> 'i \<Rightarrow> ('k, 'i) cmap \<Rightarrow> ('k, 'i) cmap" where
  "cm_insert stale k v m = cm_put k v (cm_sweep stale m)"

text \<open>\<open>operator[]\<close>: \<open>fresh\<close> is the newly allocated item used if the key has none.\<close>

definition cm_access :: "('i \<Rightarrow> bool) \<Rightarrow> 'k::linorder \<Rightarrow> 'i \<Rightarrow> ('k, 'i) cmap \<Rightarrow> 'i \<times> ('k, 'i) cmap" where
  "cm_access stale k fresh m =
     (let m' = cm_sweep stale m in
      case cm_find m' k of Some v \<Rightarrow> (v, m') | None \<Rightarrow> (fresh, cm_put k fresh m'))"

definition cm_erase :: "'k \<Rightarrow> ('k, 'i) cmap \<Rightarrow> nat \<times> ('k, 'i) cmap" where
  "cm_erase k m = (if cm_contains m k then 1 else 0, filter (\<lambda>e. fst e \<noteq> k) m)"

definition cm_remove :: "'k \<Rightarrow> ('k, 'i) cmap \<Rightarrow> ('k, 'i) cmap" where
  "cm_remove k m = snd (cm_erase k m)"

definition cm_iterate :: "('k \<times> 'i \<Rightarrow> 's \<Rightarrow> 's) \<Rightarrow> ('k, 'i) cmap \<Rightarrow> 's \<Rightarrow> 's" where
  "cm_iterate func m s = fold func m s"

section \<open>Interface\<close>

datatype ('k, 'i) store_op =
    SInsert "'i \<Rightarrow> bool" 'k 'i
  | SErase 'k
  | SSweep "'i \<Rightarrow> bool"

locale context_store =
  fixes inv :: "'m \<Rightarrow> bool" and empty :: 'm and find :: "'m \<Rightarrow> 'k \<Rightarrow> 'i option"
    and insert :: "('i \<Rightarrow> bool) \<Rightarrow> 'k \<Rightarrow> 'i \<Rightarrow> 'm \<Rightarrow> 'm"
    and remove :: "'k \<Rightarrow> 'm \<Rightarrow> 'm" and sweep :: "('i \<Rightarrow> bool) \<Rightarrow> 'm \<Rightarrow> 'm"
  assumes inv_empty: "inv empty" and find_empty: "find empty k = None"
    and inv_insert: "inv m \<Longrightarrow> inv (insert st k v m)"
    and inv_remove: "inv m \<Longrightarrow> inv (remove k m)"
    and inv_sweep: "inv m \<Longrightarrow> inv (sweep st m)"
    and find_sweep: "inv m \<Longrightarrow> find (sweep st m) k = (case find m k of Some v \<Rightarrow> if st v then None else Some v | None \<Rightarrow> None)"
    and find_insert: "inv m \<Longrightarrow> find (insert st k v m) k' = (if k' = k then Some v else find (sweep st m) k')"
    and find_remove: "inv m \<Longrightarrow> find (remove k m) k' = (if k' = k then None else find m k')"
begin

fun apply_op :: "('k, 'i) store_op \<Rightarrow> 'm \<Rightarrow> 'm" where
  "apply_op (SInsert st k v) m = insert st k v m"
| "apply_op (SErase k) m = remove k m"
| "apply_op (SSweep st) m = sweep st m"

fun keeps :: "'k \<Rightarrow> 'i \<Rightarrow> ('k, 'i) store_op \<Rightarrow> bool" where
  "keeps k v (SInsert st k' w) = (k' \<noteq> k \<and> \<not> st v)"
| "keeps k v (SErase k') = (k' \<noteq> k)"
| "keeps k v (SSweep st) = (\<not> st v)"

lemma apply_inv: "inv m \<Longrightarrow> inv (apply_op op m)"
  by (cases op) (simp_all add: inv_insert inv_remove inv_sweep)

lemma apply_keeps: "inv m \<Longrightarrow> find m k = Some v \<Longrightarrow> keeps k v op \<Longrightarrow> find (apply_op op m) k = Some v"
  by (cases op) (auto simp: find_insert find_remove find_sweep)

text \<open>Pointer stability: an item stays where it is until it is erased, overwritten or swept as stale.\<close>

lemma item_survives:
  "inv m \<Longrightarrow> find m k = Some v \<Longrightarrow> \<forall>op \<in> set ops. keeps k v op \<Longrightarrow> find (fold apply_op ops m) k = Some v"
  by (induction ops arbitrary: m) (simp_all add: apply_inv apply_keeps)

lemma sweep_complete: "inv m \<Longrightarrow> find (sweep st m) k = Some v \<Longrightarrow> \<not> st v \<and> find m k = Some v"
  by (simp add: find_sweep split: option.splits if_splits)

lemma insert_others: "inv m \<Longrightarrow> k' \<noteq> k \<Longrightarrow> find m k' = Some v \<Longrightarrow> \<not> st v \<Longrightarrow> find (insert st k w m) k' = Some v"
  by (simp add: find_insert find_sweep)

lemma insert_back: "inv m \<Longrightarrow> find (insert st k w m) k' = Some v \<Longrightarrow> (k' = k \<and> v = w) \<or> (k' \<noteq> k \<and> find m k' = Some v \<and> \<not> st v)"
  by (simp add: find_insert find_sweep split: if_splits option.splits)

end

section \<open>The implementation meets the interface\<close>

definition cm_inv :: "('k::linorder, 'i) cmap \<Rightarrow> bool" where
  "cm_inv m = (sorted (map fst m) \<and> distinct (map fst m))"

lemma fst_cm_put: "set (map fst (cm_put k v m)) = Set.insert k (set (map fst m))"
  by (induction k v m rule: cm_put.induct) auto

lemma cm_inv_put: "cm_inv m \<Longrightarrow> cm_inv (cm_put k v m)"
proof (induction k v m rule: cm_put.induct)
  case (2 k v a w m)
  then show ?case
    using fst_cm_put[of k v m] by (auto simp: cm_inv_def)
qed (simp add: cm_inv_def)

lemma find_put: "cm_inv m \<Longrightarrow> cm_find (cm_put k v m) k' = (if k' = k then Some v else cm_find m k')"
  by (induction k v m rule: cm_put.induct) (auto simp: cm_find_def cm_inv_def)

lemma cm_inv_filter: "cm_inv m \<Longrightarrow> cm_inv (filter P m)"
  by (simp add: cm_inv_def sorted_filter distinct_map_filter)

lemma find_filter:
  assumes "cm_inv m"
  shows "cm_find (filter P m) k = (case cm_find m k of Some v \<Rightarrow> if P (k, v) then Some v else None | None \<Rightarrow> None)"
  using assms
proof (induction m)
  case (Cons e m)
  then have "cm_inv m" by (simp add: cm_inv_def)
  moreover have "map_of m (fst e) = None" using Cons.prems by (simp add: cm_inv_def map_of_eq_None_iff)
  ultimately show ?case using Cons.IH by (cases e) (auto simp: cm_find_def split: option.splits)
qed (simp add: cm_find_def)

lemma cm_sweep_filter: "cm_sweep st m = filter (\<lambda>e. \<not> st (snd e)) m"
  by (simp add: cm_sweep_def cm_eraseStale_def Let_def)

interpretation ctx: context_store cm_inv "[]" cm_find cm_insert cm_remove cm_sweep
proof
  fix m :: "('a, 'b) cmap" and st k v k'
  assume m: "cm_inv m"
  show "cm_inv (cm_insert st k v m)"
    by (simp add: cm_insert_def cm_sweep_filter cm_inv_put cm_inv_filter m)
  show "cm_inv (cm_remove k m)" by (simp add: cm_remove_def cm_erase_def cm_inv_filter m)
  show "cm_inv (cm_sweep st m)" by (simp add: cm_sweep_filter cm_inv_filter m)
  show "cm_find (cm_sweep st m) k = (case cm_find m k of Some v \<Rightarrow> if st v then None else Some v | None \<Rightarrow> None)"
    using find_filter[OF m, of "\<lambda>e. \<not> st (snd e)"] by (auto simp: cm_sweep_filter split: option.splits)
  show "cm_find (cm_insert st k v m) k' = (if k' = k then Some v else cm_find (cm_sweep st m) k')"
    by (simp add: cm_insert_def find_put cm_sweep_filter cm_inv_filter m)
  show "cm_find (cm_remove k m) k' = (if k' = k then None else cm_find m k')"
    using find_filter[OF m, of "\<lambda>e. fst e \<noteq> k"] by (auto simp: cm_remove_def cm_erase_def split: option.splits)
qed (simp_all add: cm_inv_def cm_find_def)

section \<open>Raw pointers into a context map\<close>

text \<open>The native library keeps raw pointers to the items. They are backed by the map if each is the item found under its
  key and not stale. Different keys hold different items.\<close>

definition backed :: "('i \<Rightarrow> bool) \<Rightarrow> ('k \<Rightarrow> 'i option) \<Rightarrow> ('k::linorder, 'i) cmap \<Rightarrow> bool" where
  "backed stale held m = (cm_inv m \<and> (\<forall>k a. held k = Some a \<longrightarrow> cm_find m k = Some a \<and> \<not> stale a)
     \<and> (\<forall>k k' a. cm_find m k = Some a \<and> cm_find m k' = Some a \<longrightarrow> k = k'))"

lemma backed_empty: "backed stale (\<lambda>_. None) []"
  by (simp add: backed_def ctx.inv_empty ctx.find_empty)

lemma backed_cong:
  "backed stale held m \<Longrightarrow> (\<And>k a. cm_find m k = Some a \<Longrightarrow> stale' a = stale a) \<Longrightarrow> backed stale' held m"
  unfolding backed_def by metis

lemma backed_find: "backed stale held m \<Longrightarrow> held k = Some a \<Longrightarrow> cm_find m k = Some a \<and> \<not> stale a"
  by (simp add: backed_def)

lemma backed_insert:
  assumes "backed stale held m" "held k = None" "\<not> stale a" "\<forall>j. cm_find m j \<noteq> Some a"
  shows "backed stale (held(k := Some a)) (cm_insert stale k a m)" "backed stale held (cm_insert stale k a m)"
  using assms
  by (auto simp: backed_def ctx.inv_insert ctx.find_insert ctx.find_sweep split: option.splits if_splits)

lemma backed_release: "backed stale held m \<Longrightarrow> backed stale (held(k := None)) m"
  by (auto simp: backed_def split: if_splits)

lemma backed_remove: "backed stale held m \<Longrightarrow> held k = None \<Longrightarrow> backed stale held (cm_remove k m)"
  by (auto simp: backed_def ctx.inv_remove ctx.find_remove split: if_splits)

lemma backed_mark:
  assumes "backed stale held m" "cm_find m k = Some a" "held k = None"
  shows "backed (stale(a := True)) held m"
  using assms by (fastforce simp: backed_def)

section \<open>Properties\<close>

text \<open>The context map keeps pointers stable: in a well-formed map, an item that has been inserted is still found
  under its key, as the same object, after any sequence of insertions, erasures and sweeps that do not erase or
  overwrite its key and during which it is not stale; the map stays well-formed, a sweep removes exactly the
  stale items and reports their number, and \<open>operator[]\<close> returns the existing item when there is one.\<close>

theorem context_map_stable:
  assumes "cm_inv m" and "\<forall>op \<in> set ops. ctx.keeps k v op" and "\<not> st v"
  shows "cm_find (fold ctx.apply_op ops (cm_insert st k v m)) k = Some v
    \<and> cm_inv (fold ctx.apply_op ops (cm_insert st k v m))
    \<and> (cm_find (cm_sweep st m) j = Some w \<longleftrightarrow> cm_find m j = Some w \<and> \<not> st w)
    \<and> fst (cm_eraseStale st m) = length (filter (\<lambda>e. st (snd e)) m)
    \<and> fst (cm_access st k f (cm_insert st k v m)) = v
    \<and> (cm_find (cm_sweep st m) j = None \<longrightarrow> cm_find (snd (cm_access st j f m)) j = Some f)"
proof (intro conjI impI)
  have ins: "cm_inv (cm_insert st k v m)" "cm_find (cm_insert st k v m) k = Some v"
    using assms(1) by (simp_all add: ctx.inv_insert ctx.find_insert)
  show "cm_find (fold ctx.apply_op ops (cm_insert st k v m)) k = Some v"
    using ctx.item_survives[OF ins assms(2)] .
  show "cm_inv (fold ctx.apply_op ops (cm_insert st k v m))"
    using ins(1) by (induction ops arbitrary: m) (use ctx.apply_inv in \<open>auto intro: fold_invariant[where P = cm_inv and Q = "\<lambda>_. True"]\<close>)
  show "cm_find (cm_sweep st m) j = Some w \<longleftrightarrow> cm_find m j = Some w \<and> \<not> st w"
    using assms(1) by (auto simp: ctx.find_sweep split: option.splits)
  show "fst (cm_eraseStale st m) = length (filter (\<lambda>e. st (snd e)) m)"
    using sum_length_filter_compl[of "\<lambda>e. st (snd e)" m] by (simp add: cm_eraseStale_def Let_def)
  show "fst (cm_access st k f (cm_insert st k v m)) = v"
    using ins assms(3) by (simp add: cm_access_def ctx.find_sweep)
  assume "cm_find (cm_sweep st m) j = None"
  then show "cm_find (snd (cm_access st j f m)) j = Some f"
    using assms(1) by (simp add: cm_access_def find_put ctx.inv_sweep)
qed

theorem context_map_stable_witness:
  "cm_find (fold ctx.apply_op [SErase (3::nat), SInsert (\<lambda>x. x = (9::nat)) 1 5, SSweep (\<lambda>x. x = 9)]
     (cm_insert (\<lambda>x. x = 9) 2 7 [(3, 9)])) 2 = Some 7"
  using context_map_stable [of "[(3::nat, 9::nat)]" "[SErase 3, SInsert (\<lambda>x. x = 9) 1 5, SSweep (\<lambda>x. x = 9)]" 2 7
      "\<lambda>x. x = 9" 0 0 0]
  by (simp add: cm_inv_def)

end
