(* ===== verification/Callbacks.thy ===== *)
theory Callbacks
  imports Context_Maps Results
begin

text \<open>
  User callbacks across the C boundary: \<open>detail/exceptioncatcher.hpp\<close>,
  \<open>services/detail/callbackadapter.hpp\<close>, and the timed and repeated callbacks of \<open>callback.cpp\<close>. A callback
  context (a stale flag and the user's function) is owned by the context map of the connection, and the native timer holds
  a raw pointer to it; a context is alive while the map holds it.
\<close>

section \<open>Exception catcher\<close>

definition setException :: "exn \<Rightarrow> exn option \<Rightarrow> exn option" where
  "setException e st = Some e"

definition hasException :: "exn option \<Rightarrow> bool" where
  "hasException st = (st \<noteq> None)"

definition rethrow :: "(exn option, unit) op" where
  "rethrow st = (case st of Some e \<Rightarrow> (throw e, None) | None \<Rightarrow> (Ret (), st))"

text \<open>\<open>invoke\<close> is \<open>noexcept\<close> and stores whatever the callback throws.\<close>

definition catcher_invoke :: "unit outc \<Rightarrow> (exn option, unit) op" where
  "catcher_invoke callback st = (case callback of
      Inr _ \<Rightarrow> (Ret (), st)
    | Inl (Throw e) \<Rightarrow> (Ret (), setException e st)
    | Inl f \<Rightarrow> (Inl f, st))"

text \<open>\<open>CallbackAdapter::invoke\<close>: an empty function is skipped; without catcher exceptions are ignored. The first
  component of the state says whether the adapter has a catcher.\<close>

definition adapter_invoke :: "bool \<Rightarrow> (unit outc) option \<Rightarrow> (exn option, unit) op" where
  "adapter_invoke has_catcher callback st = (case callback of
      None \<Rightarrow> (Ret (), st)
    | Some cb \<Rightarrow> if has_catcher then catcher_invoke cb st
        else (case cb of Inl (Throw e) \<Rightarrow> (Ret (), st) | Inl f \<Rightarrow> (Inl f, st) | Inr _ \<Rightarrow> (Ret (), st)))"

fun invoke_all :: "(unit outc) list \<Rightarrow> exn option \<Rightarrow> exn option" where
  "invoke_all [] st = st"
| "invoke_all (cb # cbs) st = invoke_all cbs (snd (adapter_invoke True (Some cb) st))"

definition last_thrown :: "(unit outc) list \<Rightarrow> exn option" where
  "last_thrown cbs = fold (\<lambda>cb acc. case cb of Inl (Throw e) \<Rightarrow> Some e | _ \<Rightarrow> acc) cbs None"

section \<open>Monotonic time\<close>

text \<open>\<open>UA_DateTime\<close> is a signed 64-bit count; the two clock readings are arguments. Signed overflow is undefined.\<close>

definition int64_ok :: "int \<Rightarrow> bool" where
  "int64_ok x = (- (2 ^ 63) \<le> x \<and> x < 2 ^ 63)"

definition toMonotonic :: "int \<Rightarrow> int \<Rightarrow> int \<Rightarrow> int outc" where
  "toMonotonic now nowMonotonic date =
     (if \<not> int64_ok (date - now) then Inl Undef
      else if \<not> int64_ok (date - now + nowMonotonic) then Inl Undef
      else Ret (max (date - now + nowMonotonic) 0))"

section \<open>Timed and repeated callbacks\<close>

record cb_state =
  cb_map :: "(nat, nat) cmap"
  cb_stale :: "nat \<Rightarrow> bool"
  cb_item :: "nat \<Rightarrow> nat option"
  cb_timers :: "nat \<Rightarrow> (nat \<times> bool) option"
  cb_firing :: "(nat \<times> nat \<times> bool) list"
  cb_next :: nat
  cb_called :: "nat list"
  cb_uaf :: bool

text \<open>\<open>cb_timers\<close> maps a callback id to the context pointer and whether the timer is one-shot; \<open>cb_firing\<close> is the stack of
  callbacks being executed; \<open>cb_called\<close> records which user functions were run; \<open>cb_uaf\<close> is set when a context is accessed
  that the map no longer owns.\<close>

definition cb_alive :: "cb_state \<Rightarrow> nat \<Rightarrow> bool" where
  "cb_alive s a = (\<exists>k. cm_find (cb_map s) k = Some a)"

definition cb_init :: cb_state where
  "cb_init = \<lparr>cb_map = [], cb_stale = (\<lambda>_. False), cb_item = (\<lambda>_. None), cb_timers = (\<lambda>_. None), cb_firing = [],
     cb_next = 0, cb_called = [], cb_uaf = False\<rparr>"

text \<open>\<open>addTimedCallback\<close> and \<open>addRepeatedCallback\<close>: allocate the context, register it, throw on a bad status (which
  frees it), and store it. The native status and id are arguments.\<close>

definition addCallback :: "bool \<Rightarrow> nat \<Rightarrow> u32 \<times> nat \<Rightarrow> (cb_state, nat) op" where
  "addCallback once func native s = (case native of (status, cid) \<Rightarrow>
     let a = cb_next s;
         s1 = s\<lparr>cb_stale := (cb_stale s)(a := False), cb_item := (cb_item s)(a := Some func), cb_next := Suc a\<rparr> in
     (case throwIfBad status of
        Inl f \<Rightarrow> (Inl f, s1)
      | Inr _ \<Rightarrow> (Ret cid, s1\<lparr>cb_timers := (cb_timers s1)(cid := Some (a, once)),
          cb_map := cm_insert (cb_stale s1) cid a (cb_map s1)\<rparr>)))"

definition addTimedCallback :: "int \<Rightarrow> int \<Rightarrow> int \<Rightarrow> nat \<Rightarrow> u32 \<times> nat \<Rightarrow> (cb_state, nat) op" where
  "addTimedCallback now nowMonotonic date func native =
     op_bind (op_lift (toMonotonic now nowMonotonic date)) (\<lambda>_. addCallback True func native)"

definition addRepeatedCallback :: "nat \<Rightarrow> u32 \<times> nat \<Rightarrow> (cb_state, nat) op" where
  "addRepeatedCallback func native = addCallback False func native"

definition changeRepeatedCallbackInterval :: "u32 \<Rightarrow> (cb_state, unit) op" where
  "changeRepeatedCallbackInterval status = op_lift (throwIfBad status)"

definition removeCallback :: "nat \<Rightarrow> cb_state \<Rightarrow> cb_state" where
  "removeCallback cid s = s\<lparr>cb_timers := (cb_timers s)(cid := None), cb_map := cm_remove cid (cb_map s)\<rparr>"

text \<open>\<open>invokeCallback\<close>, in two parts around the execution of the user's function, which may itself add and remove
  callbacks. A one-shot timer is gone once it has fired.\<close>

definition invoke_begin :: "nat \<Rightarrow> nat \<Rightarrow> bool \<Rightarrow> cb_state \<Rightarrow> cb_state" where
  "invoke_begin cid a remove s =
     (if cb_alive s a
      then s\<lparr>cb_called := (case cb_item s a of Some f \<Rightarrow> f # cb_called s | None \<Rightarrow> cb_called s),
             cb_firing := (cid, a, remove) # cb_firing s\<rparr>
      else s\<lparr>cb_uaf := True\<rparr>)"

definition invoke_end :: "nat \<Rightarrow> nat \<Rightarrow> bool \<Rightarrow> cb_state \<Rightarrow> cb_state" where
  "invoke_end cid a remove s =
     (if remove
      then if cb_alive s a
           then s\<lparr>cb_stale := (cb_stale s)(a := True), cb_item := (cb_item s)(a := None),
                  cb_timers := (cb_timers s)(cid := None)\<rparr>
           else s\<lparr>cb_uaf := True\<rparr>
      else s)"

text \<open>Steps; \<open>d\<close> demands that no callback that is being executed is removed. Native ids are not reused while in use, and a
  one-shot timer does not fire again while it is executing.\<close>

inductive cb_step :: "bool \<Rightarrow> cb_state \<Rightarrow> cb_state \<Rightarrow> bool" for d where
  cb_add: "addCallback once func (status, cid) s = (r, s') \<Longrightarrow> cb_timers s cid = None \<Longrightarrow>
     cid \<notin> fst ` set (cb_firing s) \<Longrightarrow> cb_step d s s'"
| cb_remove: "(d \<longrightarrow> cid \<notin> fst ` set (cb_firing s)) \<Longrightarrow> cb_step d s (removeCallback cid s)"
| cb_fire: "cb_timers s cid = Some (a, once) \<Longrightarrow> cid \<notin> fst ` set (cb_firing s) \<Longrightarrow>
     cb_step d s (invoke_begin cid a once s)"
| cb_return: "cb_firing s = (cid, a, once) # rest \<Longrightarrow>
     cb_step d s (invoke_end cid a once (s\<lparr>cb_firing := rest\<rparr>))"

inductive cb_reachable :: "bool \<Rightarrow> cb_state \<Rightarrow> bool" for d where
  cb_start: "cb_reachable d cb_init"
| cb_more: "cb_reachable d s \<Longrightarrow> cb_step d s s' \<Longrightarrow> cb_reachable d s'"

section \<open>Invariant of disciplined executions\<close>

definition cb_held :: "cb_state \<Rightarrow> nat \<Rightarrow> nat option" where
  "cb_held s cid = map_option fst (cb_timers s cid)"

definition cb_inv :: "cb_state \<Rightarrow> bool" where
  "cb_inv s = (\<not> cb_uaf s \<and> backed (cb_stale s) (cb_held s) (cb_map s)
     \<and> (\<forall>k a. cm_find (cb_map s) k = Some a \<longrightarrow> a < cb_next s)
     \<and> (\<forall>(cid, a, once) \<in> set (cb_firing s). cb_timers s cid = Some (a, once))
     \<and> distinct (map fst (cb_firing s)))"

lemma cb_inv_init: "cb_inv cb_init"
  by (simp add: cb_inv_def cb_init_def backed_def cb_held_def ctx.inv_empty ctx.find_empty)

lemma cb_held_upd [simp]:
  "cb_held (s\<lparr>cb_timers := t\<rparr>) cid = map_option fst (t cid)"
  by (simp add: cb_held_def)

lemma cb_inv_add:
  assumes inv: "cb_inv s" and run: "addCallback once func (status, cid) s = (r, s')"
    and free: "cb_timers s cid = None" "cid \<notin> fst ` set (cb_firing s)"
  shows "cb_inv s'"
proof -
  let ?a = "cb_next s"
  let ?st = "(cb_stale s)(?a := False)"
  from inv have b: "backed (cb_stale s) (cb_held s) (cb_map s)"
    and lt: "\<And>k x. cm_find (cb_map s) k = Some x \<Longrightarrow> x < ?a" by (auto simp: cb_inv_def)
  have b1: "backed ?st (cb_held s) (cb_map s)" using lt by (intro backed_cong[OF b]) auto
  have fresh: "\<forall>j. cm_find (cb_map s) j \<noteq> Some ?a" using lt by (metis less_irrefl)
  have b2: "backed ?st ((cb_held s)(cid := Some ?a)) (cm_insert ?st cid ?a (cb_map s))"
    using backed_insert(1)[OF b1 _ _ fresh, of cid] free(1) by (simp add: cb_held_def)
  show ?thesis
  proof (cases "throwIfBad status")
    case (Inl f)
    with run inv b1 lt show ?thesis
      by (auto simp: addCallback_def Let_def cb_inv_def cb_held_def[abs_def] less_Suc_eq)
  next
    case (Inr u)
    let ?s = "s\<lparr>cb_stale := ?st, cb_item := (cb_item s)(?a := Some func), cb_next := Suc ?a,
        cb_timers := (cb_timers s)(cid := Some (?a, once)), cb_map := cm_insert ?st cid ?a (cb_map s)\<rparr>"
    have s': "s' = ?s" using run Inr by (auto simp: addCallback_def Let_def)
    have held: "cb_held ?s = (cb_held s)(cid := Some ?a)" by (auto simp: cb_held_def fun_eq_iff)
    have "x < Suc ?a" if "cm_find (cm_insert ?st cid ?a (cb_map s)) k = Some x" for k x
      using ctx.insert_back[OF _ that] b lt by (auto simp: backed_def less_Suc_eq)
    moreover have "cb_timers ?s c = Some (x, y)" if "(c, x, y) \<in> set (cb_firing s)" for c x y
      using that inv free(2) by (force simp: cb_inv_def image_iff)
    ultimately show ?thesis
      using inv b2 unfolding s' cb_inv_def held by auto
  qed
qed

lemma cb_inv_remove:
  assumes inv: "cb_inv s" and "cid \<notin> fst ` set (cb_firing s)"
  shows "cb_inv (removeCallback cid s)"
proof -
  let ?s = "removeCallback cid s"
  have held: "cb_held ?s = (cb_held s)(cid := None)" by (auto simp: removeCallback_def cb_held_def fun_eq_iff)
  have b: "backed (cb_stale s) (cb_held s) (cb_map s)" using inv by (simp add: cb_inv_def)
  have "backed (cb_stale s) ((cb_held s)(cid := None)) (cm_remove cid (cb_map s))"
    using backed_remove[OF backed_release[OF b], of cid] by simp
  moreover have "x < cb_next s" if "cm_find (cm_remove cid (cb_map s)) k = Some x" for k x
    using that b inv by (auto simp: backed_def ctx.find_remove cb_inv_def split: if_splits)
  moreover have "cb_timers ?s c = Some (x, y)" if "(c, x, y) \<in> set (cb_firing s)" for c x y
    using that inv assms(2) by (force simp: cb_inv_def image_iff removeCallback_def)
  ultimately show ?thesis
    using inv unfolding cb_inv_def held by (auto simp: removeCallback_def)
qed

lemma cb_inv_alive: "cb_inv s \<Longrightarrow> cb_timers s cid = Some (a, once) \<Longrightarrow> cm_find (cb_map s) cid = Some a \<and> \<not> cb_stale s a"
  using backed_find[of "cb_stale s" "cb_held s" "cb_map s" cid a] by (simp add: cb_inv_def cb_held_def)

lemma cb_inv_fire:
  assumes inv: "cb_inv s" and "cb_timers s cid = Some (a, once)" "cid \<notin> fst ` set (cb_firing s)"
  shows "cb_inv (invoke_begin cid a once s)"
proof -
  have "cb_alive s a" using cb_inv_alive[OF assms(1,2)] by (auto simp: cb_alive_def)
  with assms show ?thesis by (auto simp: invoke_begin_def cb_inv_def cb_held_def[abs_def])
qed

lemma cb_inv_return:
  assumes inv: "cb_inv s" and fr: "cb_firing s = (cid, a, once) # rest"
  shows "cb_inv (invoke_end cid a once (s\<lparr>cb_firing := rest\<rparr>))"
proof (cases once)
  case False
  with assms show ?thesis by (auto simp: invoke_end_def cb_inv_def cb_held_def[abs_def])
next
  case True
  have t: "cb_timers s cid = Some (a, once)" using inv fr by (auto simp: cb_inv_def)
  have f: "cm_find (cb_map s) cid = Some a" using cb_inv_alive[OF inv t] by simp
  then have al: "cb_alive (s\<lparr>cb_firing := rest\<rparr>) a" by (auto simp: cb_alive_def)
  let ?s = "s\<lparr>cb_firing := rest, cb_stale := (cb_stale s)(a := True), cb_item := (cb_item s)(a := None),
      cb_timers := (cb_timers s)(cid := None)\<rparr>"
  have held: "cb_held ?s = (cb_held s)(cid := None)" by (auto simp: cb_held_def fun_eq_iff)
  have b: "backed (cb_stale s) (cb_held s) (cb_map s)" using inv by (simp add: cb_inv_def)
  have "backed ((cb_stale s)(a := True)) ((cb_held s)(cid := None)) (cb_map s)"
    by (rule backed_mark[OF backed_release[OF b] f]) simp
  moreover have "cb_timers ?s c = Some (x, y)" if "(c, x, y) \<in> set rest" for c x y
  proof -
    have "c \<noteq> cid" using inv fr that by (force simp: cb_inv_def)
    moreover have "cb_timers s c = Some (x, y)" using inv fr that by (auto simp: cb_inv_def)
    ultimately show ?thesis by simp
  qed
  moreover have "distinct (map fst rest)" using inv fr by (simp add: cb_inv_def)
  ultimately have "cb_inv ?s" using inv unfolding cb_inv_def held by auto
  with True al show ?thesis by (simp add: invoke_end_def)
qed

lemma cb_reachable_inv: "cb_reachable True s \<Longrightarrow> cb_inv s"
proof (induction rule: cb_reachable.induct)
  case (cb_more s s')
  from cb_more.hyps(2) cb_more.IH show ?case
    by (cases rule: cb_step.cases) (auto intro: cb_inv_add cb_inv_remove cb_inv_fire cb_inv_return)
qed (rule cb_inv_init)

section \<open>Properties\<close>


definition demo_cb :: cb_state where
  "demo_cb = snd (addCallback True 42 (UA_STATUSCODE_GOOD, 5) cb_init)"

lemma demo_cb_reachable: "cb_reachable d demo_cb"
  unfolding demo_cb_def
  by (rule cb_more[OF cb_start], rule cb_add[of True 42 UA_STATUSCODE_GOOD 5 cb_init "fst (addCallback True 42 (UA_STATUSCODE_GOOD, 5) cb_init)"])
    (simp_all add: cb_init_def)


text \<open>The exception catcher loses nothing but older exceptions: after any sequence of callbacks invoked through it,
  \<open>rethrow\<close> throws exactly the exception of the last callback that threw and nothing if none did, leaves the catcher
  empty, so that a second \<open>rethrow\<close> returns; without a catcher an adapter swallows every exception.\<close>

theorem catcher_rethrows_last:
  assumes "\<forall>cb \<in> set cbs. cb \<noteq> Inl Terminate \<and> cb \<noteq> Inl Undef"
  shows "rethrow (invoke_all cbs None) = ((case last_thrown cbs of Some e \<Rightarrow> throw e | None \<Rightarrow> Ret ()), None)
    \<and> rethrow (snd (rethrow (invoke_all cbs None))) = (Ret (), None)
    \<and> (\<forall>cb \<in> set cbs. adapter_invoke False (Some cb) st = (Ret (), st) \<and> fst (adapter_invoke True (Some cb) st) = Ret ())"
proof -
  have "invoke_all cbs st = fold (\<lambda>cb acc. case cb of Inl (Throw e) \<Rightarrow> Some e | _ \<Rightarrow> acc) cbs st" for st
    using assms
    by (induction cbs arbitrary: st)
      (auto simp: adapter_invoke_def catcher_invoke_def setException_def split: sum.splits fault.splits)
  then have "invoke_all cbs None = last_thrown cbs" by (simp add: last_thrown_def)
  with assms show ?thesis
    by (auto simp: rethrow_def adapter_invoke_def catcher_invoke_def split: option.splits sum.splits fault.splits)
qed

theorem catcher_rethrows_last_witness:
  "rethrow (invoke_all [throw BadAlloc, Ret (), throw BadDisconnect, Ret ()] None) = (throw BadDisconnect, None)"
  using catcher_rethrows_last [of "[throw BadAlloc, Ret (), throw BadDisconnect, Ret ()]" None]
  by (simp add: last_thrown_def)

text \<open>Removing a one-shot callback from inside itself makes \<open>invokeCallback\<close> write to the freed context.\<close>

lemma self_removal_use_after_free: "\<exists>s. cb_reachable False s \<and> cb_uaf s"
proof -
  let ?s1 = "invoke_begin 5 0 True demo_cb"
  let ?s2 = "removeCallback 5 ?s1"
  have d: "cb_timers demo_cb 5 = Some (0, True)" "cb_firing demo_cb = []" "cb_map demo_cb = [(5, 0)]" "cb_uaf demo_cb = False"
    by (simp_all add: demo_cb_def addCallback_def cb_init_def Let_def cm_insert_def cm_sweep_filter)
  have al: "cb_alive demo_cb 0" using d(3) by (auto simp: cb_alive_def cm_find_def)
  have r1: "cb_reachable False ?s1"
    using cb_more[OF demo_cb_reachable cb_fire[of demo_cb 5 0 True False]] d by simp
  have r2: "cb_reachable False ?s2" using cb_more[OF r1 cb_remove] by blast
  have f: "cb_firing ?s2 = [(5, 0, True)]" "cb_map ?s2 = []"
    using al d by (simp_all add: removeCallback_def invoke_begin_def cm_remove_def cm_erase_def)
  have "cb_reachable False (invoke_end 5 0 True (?s2\<lparr>cb_firing := []\<rparr>))"
    using cb_more[OF r2 cb_return[OF f(1)]] .
  moreover have "cb_uaf (invoke_end 5 0 True (?s2\<lparr>cb_firing := []\<rparr>))"
    using f(2) by (simp add: invoke_end_def cb_alive_def cm_find_def)
  ultimately show ?thesis by blast
qed

text \<open>A date in the past maps to the start of the monotonic clock.\<close>

lemma toMonotonic_bounds: "toMonotonic now nowM date = Ret t \<Longrightarrow> 0 \<le> t \<and> (date - now + nowM \<ge> 0 \<longrightarrow> t = date - now + nowM)"
  by (auto simp: toMonotonic_def split: if_splits)

end
