(* ===== verification/Monitored_Items.thy ===== *)
theory Monitored_Items
  imports Callbacks
begin

text \<open>
  Monitored items and subscriptions (\<open>services/detail/monitoreditem_context.hpp\<close>,
  \<open>services/detail/subscription_context.hpp\<close>, \<open>services_monitoreditem.cpp\<close>, \<open>services_subscription.cpp\<close>): the
  life cycle of the context objects between the request that creates them and the native delete
  callback. A context is owned first by the running create call, then by the context map under its (subscription id,
  monitored item id) key; the native client keeps a raw pointer until it calls the delete callback. Contexts are
  named by their addresses. The key pair is encoded by its order in the map, as a number; values are opaque.
\<close>

section \<open>Contexts and native callbacks\<close>

text \<open>The fields of \<open>MonitoredItemContext\<close>; the functions are optional and given by their outcome, and the type of the
  item is left open.\<close>

record 'i mon_context =
  m_stale :: bool
  m_inserted :: bool
  m_catcher :: bool
  m_dataChange :: "(unit outc) option"
  m_event :: "(unit outc) option"
  m_delete :: "(unit outc) option"
  m_item :: 'i

definition makeMonitoredItemContext ::
  "'i \<Rightarrow> (unit outc) option \<Rightarrow> (unit outc) option \<Rightarrow> (unit outc) option \<Rightarrow> 'i mon_context" where
  "makeMonitoredItemContext item dataChange event delete =
     \<lparr>m_stale = False, m_inserted = False, m_catcher = True, m_dataChange = dataChange, m_event = event, m_delete = delete, m_item = item\<rparr>"

text \<open>The native callbacks: the user function (if it is to be called at all) and the effect on the catcher.\<close>

definition dataChangeCallbackNative :: "'i mon_context option \<Rightarrow> bool \<Rightarrow> (exn option, unit) op" where
  "dataChangeCallbackNative ctx has_value = (case ctx of
      None \<Rightarrow> op_ret ()
    | Some c \<Rightarrow> if \<not> has_value then op_ret () else if \<not> m_inserted c then op_ret ()
        else adapter_invoke (m_catcher c) (m_dataChange c))"

definition eventCallbackNative :: "'i mon_context option \<Rightarrow> (exn option, unit) op" where
  "eventCallbackNative ctx = (case ctx of
      None \<Rightarrow> op_ret ()
    | Some c \<Rightarrow> if \<not> m_inserted c then op_ret () else adapter_invoke (m_catcher c) (m_event c))"

definition deleteCallbackNative :: "'i mon_context \<Rightarrow> exn option \<Rightarrow> unit outc \<times> exn option \<times> 'i mon_context" where
  "deleteCallbackNative c st = (case adapter_invoke (m_catcher c) (m_delete c) st of
      (r, st') \<Rightarrow> (r, st', c\<lparr>m_stale := True\<rparr>))"

section \<open>The client\<close>

record 'i mi_state =
  mi_ctx :: "nat \<Rightarrow> 'i mon_context"
  mi_map :: "(nat, nat) cmap"
  mi_pending :: "nat set"
  mi_native :: "nat \<Rightarrow> nat option"
  mi_next :: nat
  mi_catcher :: "exn option"
  mi_calls :: "(nat \<times> nat) list"
  mi_deleted :: "nat list"
  mi_bad :: bool

text \<open>\<open>mi_pending\<close> holds the contexts owned by running create calls; \<open>mi_calls\<close> and \<open>mi_deleted\<close> record the user callbacks
  that were run, as (key, context) and context; \<open>mi_bad\<close> is set when a callback is given a context that is no longer
  owned by anyone.\<close>

definition mi_stale :: "'i mi_state \<Rightarrow> nat \<Rightarrow> bool" where
  "mi_stale s a = m_stale (mi_ctx s a)"

definition mi_alive :: "'i mi_state \<Rightarrow> nat \<Rightarrow> bool" where
  "mi_alive s a = (a \<in> mi_pending s \<or> (\<exists>k. cm_find (mi_map s) k = Some a))"

definition mi_init :: "(nat \<Rightarrow> 'i mon_context) \<Rightarrow> 'i mi_state" where
  "mi_init ctx = \<lparr>mi_ctx = ctx, mi_map = [], mi_pending = {}, mi_native = (\<lambda>_. None), mi_next = 0, mi_catcher = None,
     mi_calls = [], mi_deleted = [], mi_bad = False\<rparr>"

text \<open>Making the context of one requested item.\<close>

definition mi_make :: "'i mon_context \<Rightarrow> 'i mi_state \<Rightarrow> 'i mi_state" where
  "mi_make c s = s\<lparr>mi_ctx := (mi_ctx s)(mi_next s := c), mi_pending := insert (mi_next s) (mi_pending s),
     mi_next := Suc (mi_next s)\<rparr>"

text \<open>\<open>storeMonitoredItemContext\<close> for one result: a good status moves the context into the map and marks it inserted; with any
  other status it stays with the create call, whose vector frees it on return.\<close>

definition storeMonitoredItemContext :: "nat \<Rightarrow> u32 \<Rightarrow> nat \<Rightarrow> 'i mi_state \<Rightarrow> 'i mi_state" where
  "storeMonitoredItemContext key status a s =
     (if isGood status
      then s\<lparr>mi_map := cm_insert (mi_stale s) key a (mi_map s), mi_pending := mi_pending s - {a},
             mi_ctx := (mi_ctx s)(a := (mi_ctx s a)\<lparr>m_inserted := True\<rparr>)\<rparr>
      else s\<lparr>mi_pending := mi_pending s - {a}\<rparr>)"

text \<open>Delivery of a notification and of the deletion of an item to the pointer the native client holds.\<close>

definition mi_notify :: "nat \<Rightarrow> nat \<Rightarrow> 'i mi_state \<Rightarrow> 'i mi_state" where
  "mi_notify key a s =
     (if \<not> mi_alive s a then s\<lparr>mi_bad := True\<rparr>
      else let c = mi_ctx s a in
        s\<lparr>mi_catcher := snd (dataChangeCallbackNative (Some c) True (mi_catcher s)),
          mi_calls := (if m_inserted c \<and> m_dataChange c \<noteq> None then (key, a) # mi_calls s else mi_calls s)\<rparr>)"

definition mi_delete :: "nat \<Rightarrow> nat \<Rightarrow> 'i mi_state \<Rightarrow> 'i mi_state" where
  "mi_delete key a s =
     (if \<not> mi_alive s a then s\<lparr>mi_bad := True\<rparr>
      else case deleteCallbackNative (mi_ctx s a) (mi_catcher s) of (_, st, c) \<Rightarrow>
        s\<lparr>mi_catcher := st, mi_ctx := (mi_ctx s)(a := c), mi_deleted := a # mi_deleted s,
          mi_native := (mi_native s)(key := None)\<rparr>)"

text \<open>Steps. What is relied on of the native client: a key it hands out is not in use; an item whose result is not good is
  not registered; the delete callback is the last use of a pointer and is not called before the create call has stored
  the results.\<close>

inductive mi_step :: "'i mi_state \<Rightarrow> 'i mi_state \<Rightarrow> bool" where
  mi_create: "mi_step s (mi_make (makeMonitoredItemContext item dc ev del) s)"
| mi_register: "a \<in> mi_pending s \<Longrightarrow> mi_native s key = None \<Longrightarrow> a \<notin> ran (mi_native s) \<Longrightarrow>
     mi_step s (s\<lparr>mi_native := (mi_native s)(key \<mapsto> a)\<rparr>)"
| mi_result: "a \<in> mi_pending s \<Longrightarrow> (isGood status \<longrightarrow> mi_native s key = Some a) \<Longrightarrow>
     (\<not> isGood status \<longrightarrow> a \<notin> ran (mi_native s)) \<Longrightarrow>
     mi_step s (storeMonitoredItemContext key status a s)"
| mi_notification: "mi_native s key = Some a \<Longrightarrow> mi_step s (mi_notify key a s)"
| mi_deletion: "mi_native s key = Some a \<Longrightarrow> a \<notin> mi_pending s \<Longrightarrow> mi_step s (mi_delete key a s)"

inductive mi_reachable :: "'i mi_state \<Rightarrow> bool" where
  mi_start: "mi_reachable (mi_init ctx)"
| mi_more: "mi_reachable s \<Longrightarrow> mi_step s s' \<Longrightarrow> mi_reachable s'"

section \<open>Invariant\<close>

text \<open>The pointers of stored items are backed by the map; those of items in creation are pending, and not inserted.\<close>

definition mi_stored :: "'i mi_state \<Rightarrow> nat \<Rightarrow> nat option" where
  "mi_stored s key = (case mi_native s key of Some a \<Rightarrow> if a \<in> mi_pending s then None else Some a | None \<Rightarrow> None)"

lemma mi_stored_Some: "mi_stored s k = Some a \<longleftrightarrow> mi_native s k = Some a \<and> a \<notin> mi_pending s"
  by (cases "mi_native s k") (auto simp: mi_stored_def)

lemma mi_stored_eqI:
  "(\<And>k a. g k = Some a \<longleftrightarrow> mi_native s k = Some a \<and> a \<notin> mi_pending s) \<Longrightarrow> mi_stored s = g"
  by (rule ext) (metis mi_stored_Some not_None_eq)

definition mi_inv :: "'i mi_state \<Rightarrow> bool" where
  "mi_inv s = (\<not> mi_bad s \<and> backed (mi_stale s) (mi_stored s) (mi_map s)
     \<and> (\<forall>a \<in> mi_pending s. a < mi_next s \<and> \<not> m_inserted (mi_ctx s a) \<and> \<not> mi_stale s a \<and> (\<forall>k. cm_find (mi_map s) k \<noteq> Some a))
     \<and> (\<forall>k a. cm_find (mi_map s) k = Some a \<longrightarrow> a < mi_next s \<and> m_inserted (mi_ctx s a))
     \<and> (\<forall>k k' a. mi_native s k = Some a \<and> mi_native s k' = Some a \<longrightarrow> k = k')
     \<and> (\<forall>a \<in> set (mi_deleted s). a < mi_next s \<and> a \<notin> ran (mi_native s) \<and> a \<notin> mi_pending s)
     \<and> distinct (mi_deleted s)
     \<and> (\<forall>a \<in> ran (mi_native s). a < mi_next s))"

lemma mi_inv_init: "mi_inv (mi_init ctx)"
proof -
  have "mi_stored (mi_init ctx) = (\<lambda>_. None)" by (auto simp: mi_stored_def mi_init_def fun_eq_iff)
  then show ?thesis
    using backed_empty[of "mi_stale (mi_init ctx)"]
    by (simp add: mi_inv_def) (simp add: mi_init_def ctx.find_empty)
qed

lemma mi_inv_alive: "mi_inv s \<Longrightarrow> mi_native s key = Some a \<Longrightarrow> mi_alive s a"
  using backed_find[of "mi_stale s" "mi_stored s" "mi_map s" key a]
  by (auto simp: mi_inv_def mi_alive_def mi_stored_def)

lemma mi_inv_facts:
  assumes "mi_inv s"
  shows "\<not> mi_bad s" "backed (mi_stale s) (mi_stored s) (mi_map s)"
    and "a \<in> mi_pending s \<Longrightarrow> a < mi_next s" "a \<in> mi_pending s \<Longrightarrow> \<not> m_inserted (mi_ctx s a)"
    and "a \<in> mi_pending s \<Longrightarrow> \<not> mi_stale s a" "a \<in> mi_pending s \<Longrightarrow> cm_find (mi_map s) k \<noteq> Some a"
    and "cm_find (mi_map s) k = Some a \<Longrightarrow> a < mi_next s" "cm_find (mi_map s) k = Some a \<Longrightarrow> m_inserted (mi_ctx s a)"
    and "mi_native s k = Some a \<Longrightarrow> mi_native s k' = Some a \<Longrightarrow> k = k'"
    and "a \<in> set (mi_deleted s) \<Longrightarrow> a < mi_next s" "a \<in> set (mi_deleted s) \<Longrightarrow> mi_native s k \<noteq> Some a"
    and "a \<in> set (mi_deleted s) \<Longrightarrow> a \<notin> mi_pending s"
    and "distinct (mi_deleted s)" "mi_native s k = Some a \<Longrightarrow> a < mi_next s"
  using assms unfolding mi_inv_def by (blast intro: ranI)+

lemma mi_invI:
  assumes "\<not> mi_bad s" "backed (mi_stale s) (mi_stored s) (mi_map s)"
    and "\<And>a. a \<in> mi_pending s \<Longrightarrow> a < mi_next s \<and> \<not> m_inserted (mi_ctx s a) \<and> \<not> mi_stale s a"
    and "\<And>a k. a \<in> mi_pending s \<Longrightarrow> cm_find (mi_map s) k \<noteq> Some a"
    and "\<And>k a. cm_find (mi_map s) k = Some a \<Longrightarrow> a < mi_next s \<and> m_inserted (mi_ctx s a)"
    and "\<And>k k' a. mi_native s k = Some a \<Longrightarrow> mi_native s k' = Some a \<Longrightarrow> k = k'"
    and "\<And>a k. a \<in> set (mi_deleted s) \<Longrightarrow> a < mi_next s \<and> a \<notin> mi_pending s \<and> mi_native s k \<noteq> Some a"
    and "distinct (mi_deleted s)" "\<And>k a. mi_native s k = Some a \<Longrightarrow> a < mi_next s"
  shows "mi_inv s"
  using assms unfolding mi_inv_def by (auto simp: ran_def)

lemma mi_step_make:
  assumes inv: "mi_inv s"
  shows "mi_inv (mi_make (makeMonitoredItemContext item dc ev del) s)" (is "mi_inv ?s")
proof -
  note f = mi_inv_facts[OF inv]
  let ?n = "mi_next s"
  have fresh: "?n \<notin> mi_pending s" "?n \<notin> set (mi_deleted s)" "\<And>k. mi_native s k \<noteq> Some ?n" "\<And>k. cm_find (mi_map s) k \<noteq> Some ?n"
    using f(3,10,14,7) by (metis less_irrefl)+
  have st: "mi_stored ?s = mi_stored s"
    using fresh(3) by (intro mi_stored_eqI) (auto simp: mi_stored_Some mi_make_def)
  have old: "mi_stale ?s a = mi_stale s a" "mi_ctx ?s a = mi_ctx s a" if "a \<noteq> ?n" for a
    using that by (simp_all add: mi_stale_def mi_make_def)
  have new: "mi_map ?s = mi_map s" "mi_native ?s = mi_native s" "mi_deleted ?s = mi_deleted s" "mi_bad ?s = mi_bad s"
    "mi_next ?s = Suc ?n" "mi_pending ?s = insert ?n (mi_pending s)" "\<not> mi_stale ?s ?n" "\<not> m_inserted (mi_ctx ?s ?n)"
    by (simp_all add: mi_make_def mi_stale_def makeMonitoredItemContext_def)
  show ?thesis
  proof (rule mi_invI)
    show "backed (mi_stale ?s) (mi_stored ?s) (mi_map ?s)"
      unfolding st new(1) using fresh(4) old by (intro backed_cong[OF f(2)]) metis
    show "a < mi_next ?s \<and> \<not> m_inserted (mi_ctx ?s a) \<and> \<not> mi_stale ?s a" if "a \<in> mi_pending ?s" for a
      using that f(3-5)[of a] old[of a] new by (cases "a = ?n") auto
    show "a < mi_next ?s \<and> m_inserted (mi_ctx ?s a)" if "cm_find (mi_map ?s) k = Some a" for k a
      using that f(7,8)[of k a] old[of a] new fresh(4)[of k] by (cases "a = ?n") auto
  qed (use f new fresh in \<open>auto simp: less_Suc_eq\<close>)
qed

lemma mi_step_register:
  assumes inv: "mi_inv s" and a: "a \<in> mi_pending s" "mi_native s key = None" "a \<notin> ran (mi_native s)"
  shows "mi_inv (s\<lparr>mi_native := (mi_native s)(key \<mapsto> a)\<rparr>)" (is "mi_inv ?s")
proof -
  note f = mi_inv_facts[OF inv]
  have st: "mi_stored ?s = mi_stored s"
    using a by (intro mi_stored_eqI) (auto simp: mi_stored_Some)
  have st2: "mi_stale ?s = mi_stale s" by (simp add: fun_eq_iff mi_stale_def)
  have na: "mi_native s k \<noteq> Some a" for k using a(3) by (metis ranI)
  show ?thesis
  proof (rule mi_invI)
    show "backed (mi_stale ?s) (mi_stored ?s) (mi_map ?s)" using f(2) by (simp add: st st2)
    show "x < mi_next ?s \<and> \<not> m_inserted (mi_ctx ?s x) \<and> \<not> mi_stale ?s x" if "x \<in> mi_pending ?s" for x
      using that f(3-5)[of x] by (simp add: st2)
    show "k = k'" if "mi_native ?s k = Some x" "mi_native ?s k' = Some x" for k k' x
      using that na f(9)[of k x k'] by (auto split: if_splits)
    show "cm_find (mi_map ?s) k \<noteq> Some x" if "x \<in> mi_pending ?s" for x k
      using that f(6)[of x k] by simp
    show "x < mi_next ?s \<and> m_inserted (mi_ctx ?s x)" if "cm_find (mi_map ?s) k = Some x" for k x
      using that f(7,8)[of k x] by simp
    show "x < mi_next ?s \<and> x \<notin> mi_pending ?s \<and> mi_native ?s k \<noteq> Some x" if "x \<in> set (mi_deleted ?s)" for x k
      using that f(10,12)[of x] f(11)[of x k] a(1) by (auto split: if_splits)
    show "x < mi_next ?s" if "mi_native ?s k = Some x" for k x
      using that f(14)[of k x] f(3)[OF a(1)] by (auto split: if_splits)
  qed (use f(1,13) in simp_all)
qed

lemma mi_step_result_bad:
  assumes inv: "mi_inv s" and a: "a \<notin> ran (mi_native s)"
  shows "mi_inv (s\<lparr>mi_pending := mi_pending s - {a}\<rparr>)" (is "mi_inv ?s")
proof -
  note f = mi_inv_facts[OF inv]
  have st: "mi_stored ?s = mi_stored s"
    using a by (intro mi_stored_eqI) (auto simp: mi_stored_Some ran_def)
  have st2: "mi_stale ?s = mi_stale s" by (simp add: fun_eq_iff mi_stale_def)
  show ?thesis
  proof (rule mi_invI)
    show "backed (mi_stale ?s) (mi_stored ?s) (mi_map ?s)" using f(2) by (simp add: st st2)
    show "x < mi_next ?s \<and> \<not> m_inserted (mi_ctx ?s x) \<and> \<not> mi_stale ?s x" if "x \<in> mi_pending ?s" for x
      using that f(3-5)[of x] by (simp add: st2)
    show "k = k'" if "mi_native ?s k = Some x" "mi_native ?s k' = Some x" for k k' x
      using that f(9)[of k x k'] by simp
    show "cm_find (mi_map ?s) k \<noteq> Some x" if "x \<in> mi_pending ?s" for x k
      using that f(6)[of x k] by simp
    show "x < mi_next ?s \<and> m_inserted (mi_ctx ?s x)" if "cm_find (mi_map ?s) k = Some x" for k x
      using that f(7,8)[of k x] by simp
    show "x < mi_next ?s \<and> x \<notin> mi_pending ?s \<and> mi_native ?s k \<noteq> Some x" if "x \<in> set (mi_deleted ?s)" for x k
      using that f(10,12)[of x] f(11)[of x k] by simp
    show "x < mi_next ?s" if "mi_native ?s k = Some x" for k x
      using that f(14)[of k x] by simp
  qed (use f(1,13) in simp_all)
qed

lemma mi_step_result_good:
  assumes inv: "mi_inv s" and a: "a \<in> mi_pending s" "mi_native s key = Some a"
  shows "mi_inv (s\<lparr>mi_map := cm_insert (mi_stale s) key a (mi_map s), mi_pending := mi_pending s - {a},
             mi_ctx := (mi_ctx s)(a := (mi_ctx s a)\<lparr>m_inserted := True\<rparr>)\<rparr>)" (is "mi_inv ?s")
proof -
  note f = mi_inv_facts[OF inv]
  have inj: "mi_native s k = Some a \<Longrightarrow> k = key" for k using f(9) a(2) by blast
  have st: "mi_stored ?s = (mi_stored s)(key := Some a)"
  proof (rule mi_stored_eqI)
    fix k x
    show "((mi_stored s)(key := Some a)) k = Some x \<longleftrightarrow> mi_native ?s k = Some x \<and> x \<notin> mi_pending ?s"
    proof (cases "k = key")
      case True
      then show ?thesis using a by auto
    next
      case False
      then have "mi_native s k = Some x \<Longrightarrow> x \<noteq> a" using inj by blast
      with False show ?thesis by (auto simp: mi_stored_Some)
    qed
  qed
  have stale: "mi_stale ?s = mi_stale s" by (simp add: fun_eq_iff mi_stale_def)
  have fr: "\<forall>j. cm_find (mi_map s) j \<noteq> Some a" "\<not> mi_stale s a" "a < mi_next s"
 using f(6)[OF a(1)] f(5)[OF a(1)] f(3)[OF a(1)] by simp_all
  have "mi_stored s key = None" using a by (simp add: mi_stored_def)
  then have b': "backed (mi_stale s) ((mi_stored s)(key := Some a)) (cm_insert (mi_stale s) key a (mi_map s))"
    using backed_insert(1)[OF f(2) _ fr(2,1)] by simp
  have bk: "cm_find (cm_insert (mi_stale s) key a (mi_map s)) k = Some x \<Longrightarrow> x = a \<or> cm_find (mi_map s) k = Some x" for k x
    using ctx.insert_back[of "mi_map s" "mi_stale s" key a k x] f(2) by (auto simp: backed_def)
  show ?thesis
  proof (rule mi_invI)
    show "backed (mi_stale ?s) (mi_stored ?s) (mi_map ?s)" unfolding st stale using b' by simp
    show "x < mi_next ?s \<and> \<not> m_inserted (mi_ctx ?s x) \<and> \<not> mi_stale ?s x" if "x \<in> mi_pending ?s" for x
      using that f(3-5)[of x] by (simp add: stale)
    show "cm_find (mi_map ?s) k \<noteq> Some x" if "x \<in> mi_pending ?s" for x k
      using that bk[of k x] f(6)[of x k] by auto
    show "x < mi_next ?s \<and> m_inserted (mi_ctx ?s x)" if "cm_find (mi_map ?s) k = Some x" for k x
      using that bk[of k x] f(7,8)[of k x] fr(3) by auto
    show "k = k'" if "mi_native ?s k = Some x" "mi_native ?s k' = Some x" for k k' x
      using that f(9)[of k x k'] by simp
    show "x < mi_next ?s \<and> x \<notin> mi_pending ?s \<and> mi_native ?s k \<noteq> Some x" if "x \<in> set (mi_deleted ?s)" for x k
      using that f(10,12)[of x] f(11)[of x k] by simp
    show "x < mi_next ?s" if "mi_native ?s k = Some x" for k x
      using that f(14)[of k x] by simp
  qed (use f(1,13) in simp_all)
qed

lemma mi_step_notify:
  assumes inv: "mi_inv s" and "mi_native s key = Some a"
  shows "mi_inv (mi_notify key a s)"
proof -
  have "mi_stored (s\<lparr>mi_catcher := x, mi_calls := y\<rparr>) = mi_stored s"
    "mi_stale (s\<lparr>mi_catcher := x, mi_calls := y\<rparr>) = mi_stale s" for x y
    by (rule mi_stored_eqI, simp add: mi_stored_Some) (simp add: fun_eq_iff mi_stale_def)
  then show ?thesis
    using mi_inv_alive[OF assms] inv by (simp add: mi_notify_def Let_def mi_inv_def)
qed

lemma mi_step_delete:
  assumes inv: "mi_inv s" and n: "mi_native s key = Some a" "a \<notin> mi_pending s"
  shows "mi_inv (mi_delete key a s)"
proof -
  obtain st where run: "mi_delete key a s = s\<lparr>mi_catcher := st, mi_ctx := (mi_ctx s)(a := (mi_ctx s a)\<lparr>m_stale := True\<rparr>),
      mi_deleted := a # mi_deleted s, mi_native := (mi_native s)(key := None)\<rparr>" (is "_ = ?s")
    using mi_inv_alive[OF inv n(1)] that
    by (cases "adapter_invoke (m_catcher (mi_ctx s a)) (m_delete (mi_ctx s a)) (mi_catcher s)")
      (simp add: mi_delete_def deleteCallbackNative_def)
  have inj: "mi_native s k = Some a \<Longrightarrow> k = key" for k using mi_inv_facts(9)[OF inv] n(1) by blast
  have stored: "mi_stored ?s = (mi_stored s)(key := None)"
    by (rule mi_stored_eqI) (auto simp: mi_stored_Some)
  have stale: "mi_stale ?s = (mi_stale s)(a := True)" by (auto simp: fun_eq_iff mi_stale_def)
  have b: "backed (mi_stale s) (mi_stored s) (mi_map s)" using mi_inv_facts(2)[OF inv] .
  have "mi_stored s key = Some a" using n by (simp add: mi_stored_def)
  then have f: "cm_find (mi_map s) key = Some a" using backed_find[OF b] by blast
  have b': "backed ((mi_stale s)(a := True)) ((mi_stored s)(key := None)) (mi_map s)"
    by (rule backed_mark[OF backed_release[OF b] f]) simp
  note f2 = mi_inv_facts[OF inv]
  show ?thesis
    unfolding run
  proof (rule mi_invI)
    show "backed (mi_stale ?s) (mi_stored ?s) (mi_map ?s)" unfolding stored stale using b' by simp
    show "x < mi_next ?s \<and> \<not> m_inserted (mi_ctx ?s x) \<and> \<not> mi_stale ?s x" if "x \<in> mi_pending ?s" for x
      using that f2(3-5)[of x] n(2) by (auto simp: stale)
    show "x < mi_next ?s \<and> m_inserted (mi_ctx ?s x)" if "cm_find (mi_map ?s) k = Some x" for k x
      using that f2(7,8)[of k x] by auto
    show "k = k'" if "mi_native ?s k = Some x" "mi_native ?s k' = Some x" for k k' x
      using that f2(9)[of k x k'] by (auto split: if_splits)
    show "distinct (mi_deleted ?s)" using f2(13) f2(11)[of a key] n(1) by auto
    show "x < mi_next ?s \<and> x \<notin> mi_pending ?s \<and> mi_native ?s k \<noteq> Some x" if "x \<in> set (mi_deleted ?s)" for x k
      using that f2(10,12)[of x] f2(11)[of x k] f2(14)[OF n(1)] n(2) inj[of k] by (auto split: if_splits)
    show "cm_find (mi_map ?s) k \<noteq> Some x" if "x \<in> mi_pending ?s" for x k
      using that f2(6)[of x k] by simp
    show "x < mi_next ?s" if "mi_native ?s k = Some x" for k x
      using that f2(14)[of k x] by (auto split: if_splits)
  qed (use f2(1) in simp_all)
qed

lemma mi_reachable_inv: "mi_reachable s \<Longrightarrow> mi_inv s"
proof (induction rule: mi_reachable.induct)
  case (mi_more s s')
  from mi_more.hyps(2) mi_more.IH show ?case
    by (cases rule: mi_step.cases)
      (simp_all add: storeMonitoredItemContext_def mi_step_make mi_step_register mi_step_result_bad
        mi_step_result_good mi_step_notify mi_step_delete)
qed (rule mi_inv_init)

section \<open>The server\<close>

text \<open>\<open>deleteMonitoredItem<Server>\<close>: the context is erased whatever the native deletion answered.\<close>

definition deleteMonitoredItem_server :: "u32 \<Rightarrow> nat \<Rightarrow> 'i mi_state \<Rightarrow> u32 \<times> 'i mi_state" where
  "deleteMonitoredItem_server status key s = (status, s\<lparr>mi_map := cm_remove key (mi_map s)\<rparr>)"

section \<open>Subscriptions\<close>

record sub_context =
  s_stale :: bool
  s_statusChange :: "(unit outc) option"
  s_delete :: "(unit outc) option"

definition createSubscriptionContext :: "(unit outc) option \<Rightarrow> (unit outc) option \<Rightarrow> sub_context" where
  "createSubscriptionContext statusChange del = \<lparr>s_stale = False, s_statusChange = statusChange, s_delete = del\<rparr>"

definition statusChangeCallbackNative :: "sub_context option \<Rightarrow> bool \<Rightarrow> (exn option, unit) op" where
  "statusChangeCallbackNative ctx has_notification = (case ctx of
      None \<Rightarrow> op_ret ()
    | Some c \<Rightarrow> if \<not> has_notification then op_ret () else adapter_invoke True (s_statusChange c))"

definition subDeleteCallbackNative :: "sub_context \<Rightarrow> exn option \<Rightarrow> unit outc \<times> exn option \<times> sub_context" where
  "subDeleteCallbackNative c st = (case adapter_invoke True (s_delete c) st of (r, st') \<Rightarrow> (r, st', c\<lparr>s_stale := True\<rparr>))"

text \<open>\<open>createSubscription\<close>: the context is stored under the id of the response if the service result is good.\<close>

definition storeSubscription :: "(nat \<Rightarrow> sub_context) \<Rightarrow> u32 \<Rightarrow> nat \<Rightarrow> nat \<Rightarrow> (nat, nat) cmap \<Rightarrow> (nat, nat) cmap" where
  "storeSubscription ctx serviceResult subId a m =
     (if isGood serviceResult then cm_insert (\<lambda>x. s_stale (ctx x)) subId a m else m)"

section \<open>Properties\<close>


definition demo_ctx :: "unit mon_context" where
  "demo_ctx = makeMonitoredItemContext () (Some (Ret ())) None None"

definition demo_mi :: "unit mi_state" where
  "demo_mi = storeMonitoredItemContext 7 UA_STATUSCODE_GOOD 0
     ((mi_make demo_ctx (mi_init (\<lambda>_. demo_ctx)))\<lparr>mi_native := Map.empty(7 \<mapsto> 0)\<rparr>)"

lemma demo_mi_reachable: "mi_reachable demo_mi"
proof -
  let ?s1 = "mi_make demo_ctx (mi_init (\<lambda>_. demo_ctx))"
  let ?s2 = "?s1\<lparr>mi_native := (mi_native ?s1)(7 \<mapsto> 0)\<rparr>"
  have r1: "mi_reachable ?s1"
    using mi_more[OF mi_start mi_create[of "mi_init (\<lambda>_. demo_ctx)" "()" "Some (Ret ())" None None]] by (simp add: demo_ctx_def)
  have r2: "mi_reachable ?s2"
    by (rule mi_more[OF r1 mi_register]) (simp_all add: mi_make_def mi_init_def)
  have "mi_reachable (storeMonitoredItemContext 7 UA_STATUSCODE_GOOD 0 ?s2)"
    by (rule mi_more[OF r2 mi_result]) (simp_all add: mi_make_def mi_init_def)
  then show ?thesis by (simp add: demo_mi_def mi_make_def mi_init_def)
qed


text \<open>On the server a failed deletion leaves the native item with a pointer to a freed context.\<close>

lemma server_failed_delete_dangles:
  assumes "mi_inv s" "mi_native s key = Some a" "a \<notin> mi_pending s"
  shows "\<not> mi_alive (snd (deleteMonitoredItem_server status key s)) a"
proof -
  have b: "backed (mi_stale s) (mi_stored s) (mi_map s)" using assms by (simp add: mi_inv_def)
  have "mi_stored s key = Some a" using assms by (simp add: mi_stored_def)
  then have "cm_find (mi_map s) key = Some a" using backed_find[OF b] by blast
  with b assms(3) show ?thesis
    by (auto simp: deleteMonitoredItem_server_def mi_alive_def backed_def ctx.find_remove split: if_splits)
qed

end
