(* ===== verification/Wrappers.thy ===== *)
theory Wrappers
  imports Status
begin

text \<open>
  The wrapper base class of \<open>wrapper.hpp\<close>: a native object and a handler that copies, moves and clears it.
  Memory is tracked by the number of allocations that are live; a value's own allocations are counted by a
  function \<open>own\<close>. Allocation can fail when the budget is used up. The locale \<open>type_handler\<close> is the contract between
  \<open>Wrapper\<close> and its handler policy; the handlers of \<open>UA_DataTypeMember\<close> and \<open>UA_DataType\<close> meet it in \<open>Data_Types\<close>,
  the native handler \<open>TypeHandlerNative\<close> at the end of this theory.
\<close>

record mem =
  budget :: nat
  live :: int

text \<open>One allocation: fails when the budget is used up.\<close>

definition alloc_block :: "exn \<Rightarrow> (mem, unit) op" where
  "alloc_block e m = (if budget m = 0 then (throw e, m) else (Ret (), m\<lparr>budget := budget m - 1, live := live m + 1\<rparr>))"

definition free_blocks :: "int \<Rightarrow> mem \<Rightarrow> mem" where
  "free_blocks n m = m\<lparr>live := live m - n\<rparr>"

lemma alloc_block_cases:
  assumes "alloc_block e m = (r, m')"
  obtains "r = throw e" "m' = m" | "r = Ret ()" "live m' = live m + 1"
  using assms by (auto simp: alloc_block_def split: if_splits)

section \<open>Handlers\<close>

text \<open>A handler is given by its three functions; \<open>zero\<close> is the value-initialized native object. \<open>copy\<close> works on the
  memory, \<open>move\<close> returns the moved value and what it leaves in the source, \<open>clear\<close> what it leaves and how many
  allocations it frees.\<close>

record 'a handler =
  h_copy :: "'a \<Rightarrow> (mem, 'a) op"
  h_move :: "'a \<Rightarrow> 'a \<times> 'a"
  h_clear :: "'a \<Rightarrow> 'a \<times> int"

text \<open>Live wrapper objects, by address.\<close>

type_synonym 'a objects = "nat \<Rightarrow> 'a option"

record 'a wworld =
  w_mem :: mem
  w_objs :: "'a objects"

definition w_put :: "nat \<Rightarrow> 'a \<Rightarrow> 'a wworld \<Rightarrow> 'a wworld" where
  "w_put a x w = w\<lparr>w_objs := (w_objs w)(a := Some x)\<rparr>"

text \<open>The destructor mixin, and the protected \<open>clear\<close> that the assignment operators use.\<close>

definition wrapper_clear :: "'a handler \<Rightarrow> nat \<Rightarrow> 'a \<Rightarrow> 'a wworld \<Rightarrow> 'a wworld" where
  "wrapper_clear h a x w = (case h_clear h x of (x', n) \<Rightarrow> w_put a x' (w\<lparr>w_mem := free_blocks n (w_mem w)\<rparr>))"

definition wrapper_destroy :: "'a handler \<Rightarrow> nat \<Rightarrow> 'a wworld \<Rightarrow> unit outc \<times> 'a wworld" where
  "wrapper_destroy h a w = (case w_objs w a of
      None \<Rightarrow> (Inl Undef, w)
    | Some x \<Rightarrow> (Ret (), w\<lparr>w_mem := free_blocks (snd (h_clear h x)) (w_mem w), w_objs := (w_objs w)(a := None)\<rparr>))"

text \<open>Constructors: default, copy and move, the last two from another wrapper.\<close>

definition wrapper_default :: "'a \<Rightarrow> nat \<Rightarrow> 'a wworld \<Rightarrow> unit outc \<times> 'a wworld" where
  "wrapper_default zero a w = (Ret (), w_put a zero w)"

definition wrapper_copy_construct :: "'a handler \<Rightarrow> nat \<Rightarrow> nat \<Rightarrow> 'a wworld \<Rightarrow> unit outc \<times> 'a wworld" where
  "wrapper_copy_construct h a b w = (case w_objs w b of
      None \<Rightarrow> (Inl Undef, w)
    | Some y \<Rightarrow> (case h_copy h y (w_mem w) of
          (Inl e, m) \<Rightarrow> (Inl e, w\<lparr>w_mem := m\<rparr>)
        | (Inr x, m) \<Rightarrow> (Ret (), w_put a x (w\<lparr>w_mem := m\<rparr>))))"

definition wrapper_move_construct :: "'a handler \<Rightarrow> nat \<Rightarrow> nat \<Rightarrow> 'a wworld \<Rightarrow> unit outc \<times> 'a wworld" where
  "wrapper_move_construct h a b w = (case w_objs w b of
      None \<Rightarrow> (Inl Undef, w)
    | Some y \<Rightarrow> (case h_move h y of (x, y') \<Rightarrow> (Ret (), w_put a x (w_put b y' w))))"

text \<open>Assignments: the address test guards self-assignment; the old value is cleared first.\<close>

definition wrapper_copy_assign :: "'a handler \<Rightarrow> nat \<Rightarrow> nat \<Rightarrow> 'a wworld \<Rightarrow> unit outc \<times> 'a wworld" where
  "wrapper_copy_assign h a b w = (case (w_objs w a, w_objs w b) of
      (Some x, Some y) \<Rightarrow>
        if a = b then (Ret (), w)
        else (case h_copy h y (w_mem (wrapper_clear h a x w)) of
            (Inl e, m) \<Rightarrow> (Inl e, (wrapper_clear h a x w)\<lparr>w_mem := m\<rparr>)
          | (Inr x', m) \<Rightarrow> (Ret (), w_put a x' ((wrapper_clear h a x w)\<lparr>w_mem := m\<rparr>)))
    | _ \<Rightarrow> (Inl Undef, w))"

definition wrapper_move_assign :: "'a handler \<Rightarrow> nat \<Rightarrow> nat \<Rightarrow> 'a wworld \<Rightarrow> unit outc \<times> 'a wworld" where
  "wrapper_move_assign h a b w = (case (w_objs w a, w_objs w b) of
      (Some x, Some y) \<Rightarrow>
        if a = b then (Ret (), w)
        else (case h_move h y of (x', y') \<Rightarrow> (Ret (), w_put a x' (w_put b y' (wrapper_clear h a x w))))
    | _ \<Rightarrow> (Inl Undef, w))"

definition wrapper_swap :: "nat \<Rightarrow> nat \<Rightarrow> 'a wworld \<Rightarrow> unit outc \<times> 'a wworld" where
  "wrapper_swap a b w = (case (w_objs w a, w_objs w b) of
      (Some x, Some y) \<Rightarrow> (Ret (), w_put a y (w_put b x w))
    | _ \<Rightarrow> (Inl Undef, w))"

text \<open>\<open>TypeHandlerNative\<close>: the deep copy and clear of the C library for the described type are the parameters; moving
  is \<open>std::exchange(native, {})\<close>.\<close>

definition TypeHandlerNative :: "'a \<Rightarrow> ('a \<Rightarrow> (mem, 'a) op) \<Rightarrow> ('a \<Rightarrow> int) \<Rightarrow> 'a handler" where
  "TypeHandlerNative zero ua_copy ua_own =
     \<lparr>h_copy = ua_copy, h_move = (\<lambda>x. (x, zero)), h_clear = (\<lambda>x. (zero, ua_own x))\<rparr>"

text \<open>Operations on wrappers, for sequences of them. A fresh address is used by the constructors; an operation
  that throws ends the sequence.\<close>

datatype wop = WDefault nat | WCopy nat nat | WMove nat nat | WAssign nat nat | WMoveAssign nat nat | WSwap nat nat | WDestroy nat

fun w_run :: "'a handler \<Rightarrow> 'a \<Rightarrow> wop \<Rightarrow> 'a wworld \<Rightarrow> unit outc \<times> 'a wworld" where
  "w_run h z (WDefault a) w = wrapper_default z a w"
| "w_run h z (WCopy a b) w = wrapper_copy_construct h a b w"
| "w_run h z (WMove a b) w = wrapper_move_construct h a b w"
| "w_run h z (WAssign a b) w = wrapper_copy_assign h a b w"
| "w_run h z (WMoveAssign a b) w = wrapper_move_assign h a b w"
| "w_run h z (WSwap a b) w = wrapper_swap a b w"
| "w_run h z (WDestroy a) w = wrapper_destroy h a w"

fun w_legal :: "wop \<Rightarrow> 'a wworld \<Rightarrow> bool" where
  "w_legal (WDefault a) w = (w_objs w a = None)"
| "w_legal (WCopy a b) w = (w_objs w a = None \<and> w_objs w b \<noteq> None)"
| "w_legal (WMove a b) w = (w_objs w a = None \<and> w_objs w b \<noteq> None)"
| "w_legal (WAssign a b) w = (w_objs w a \<noteq> None \<and> w_objs w b \<noteq> None)"
| "w_legal (WMoveAssign a b) w = (w_objs w a \<noteq> None \<and> w_objs w b \<noteq> None)"
| "w_legal (WSwap a b) w = (w_objs w a \<noteq> None \<and> w_objs w b \<noteq> None)"
| "w_legal (WDestroy a) w = (w_objs w a \<noteq> None)"

fun w_runs :: "'a handler \<Rightarrow> 'a \<Rightarrow> wop list \<Rightarrow> 'a wworld \<Rightarrow> unit outc \<times> 'a wworld" where
  "w_runs h z [] w = (Ret (), w)"
| "w_runs h z (x # xs) w = (case w_run h z x w of (Inr _, w') \<Rightarrow> w_runs h z xs w' | r \<Rightarrow> r)"

fun w_all_legal :: "'a handler \<Rightarrow> 'a \<Rightarrow> wop list \<Rightarrow> 'a wworld \<Rightarrow> bool" where
  "w_all_legal h z [] w \<longleftrightarrow> True"
| "w_all_legal h z (x # xs) w \<longleftrightarrow> w_legal x w \<and> w_all_legal h z xs (snd (w_run h z x w))"

section \<open>Balance of allocations\<close>

definition owned :: "('a \<Rightarrow> int) \<Rightarrow> 'a objects \<Rightarrow> int" where
  "owned own obj = (\<Sum>a \<in> dom obj. own (the (obj a)))"

lemma owned_upd:
  assumes "finite (dom obj)"
  shows "owned own (obj(a := Some x)) = owned own obj + own x - (case obj a of None \<Rightarrow> 0 | Some y \<Rightarrow> own y)"
proof -
  have rest: "(\<Sum>b \<in> dom obj - {a}. own (the ((obj(a := Some x)) b))) = (\<Sum>b \<in> dom obj - {a}. own (the (obj b)))"
    by (rule sum.cong) auto
  show ?thesis
  proof (cases "obj a")
    case None
    then have "a \<notin> dom obj" by auto
    then show ?thesis using assms rest None by (simp add: owned_def)
  next
    case (Some y)
    then have "a \<in> dom obj" by auto
    then show ?thesis
      using assms rest Some by (simp add: owned_def insert_absorb sum.remove[of "dom obj" a] del: sum.cong)
  qed
qed

lemma owned_del:
  assumes "finite (dom obj)" "obj a = Some y"
  shows "owned own (obj(a := None)) = owned own obj - own y"
proof -
  have "(\<Sum>b \<in> dom obj - {a}. own (the ((obj(a := None)) b))) = (\<Sum>b \<in> dom obj - {a}. own (the (obj b)))"
    by (rule sum.cong) auto
  moreover have "a \<in> dom obj" using assms by auto
  ultimately show ?thesis
    using assms by (simp add: owned_def sum.remove[of "dom obj" a])
qed

definition w_slack :: "('a \<Rightarrow> int) \<Rightarrow> 'a wworld \<Rightarrow> int" where
  "w_slack own w = live (w_mem w) - owned own (w_objs w)"

lemma w_put_simps [simp]:
  "w_mem (w_put a x w) = w_mem w" "w_objs (w_put a x w) = (w_objs w)(a := Some x)"
  by (simp_all add: w_put_def)

lemma slack_put:
  "finite (dom (w_objs w)) \<Longrightarrow>
   w_slack own (w_put a x w) = w_slack own w - own x + (case w_objs w a of None \<Rightarrow> 0 | Some y \<Rightarrow> own y)"
  by (simp add: w_slack_def owned_upd split: option.splits)

lemma slack_mem:
  "w_slack own (w\<lparr>w_mem := m\<rparr>) = w_slack own w + live m - live (w_mem w)"
  by (simp add: w_slack_def)

section \<open>The contract of handlers\<close>

locale type_handler =
  fixes h :: "'a handler" and zero :: 'a and own :: "'a \<Rightarrow> int"
  assumes own_zero: "own zero = 0"
    and copy_owns: "h_copy h x m = (Inr y, m') \<Longrightarrow> live m' = live m + own y"
    and copy_fails: "h_copy h x m = (Inl e, m') \<Longrightarrow> live m \<le> live m'"
    and move_steals: "h_move h x = (x, zero)"
    and clear_frees: "own (fst (h_clear h x)) = 0" "snd (h_clear h x) = own x"
begin

lemma slack_clear:
  assumes "finite (dom (w_objs w))" "w_objs w a = Some x"
  shows "w_slack own (wrapper_clear h a x w) = w_slack own w"
    and "dom (w_objs (wrapper_clear h a x w)) = dom (w_objs w)"
proof -
  obtain x' n where c: "h_clear h x = (x', n)" by fastforce
  with clear_frees[of x] have "own x' = 0" "n = own x" by simp_all
  with assms show "w_slack own (wrapper_clear h a x w) = w_slack own w"
    by (simp add: wrapper_clear_def c slack_put slack_mem free_blocks_def)
  show "dom (w_objs (wrapper_clear h a x w)) = dom (w_objs w)"
    using assms by (auto simp: wrapper_clear_def c)
qed

lemma destroy_slack:
  assumes "finite (dom (w_objs w))" "w_objs w a = Some x" "wrapper_destroy h a w = (r, w')"
  shows "r = Ret () \<and> w_slack own w' = w_slack own w \<and> finite (dom (w_objs w'))"
  using assms clear_frees(2)[of x]
  by (auto simp: wrapper_destroy_def w_slack_def owned_del free_blocks_def)

lemma copy_construct_slack:
  assumes "finite (dom (w_objs w))" "w_objs w a = None" "wrapper_copy_construct h a b w = (r, w')" "w_objs w b \<noteq> None"
  shows "finite (dom (w_objs w')) \<and> (case r of Inr _ \<Rightarrow> w_slack own w' = w_slack own w | Inl _ \<Rightarrow> w_slack own w \<le> w_slack own w')"
proof -
  obtain y where y: "w_objs w b = Some y" using assms by auto
  obtain q m where c: "h_copy h y (w_mem w) = (q, m)" by fastforce
  show ?thesis
  proof (cases q)
    case (Inl e)
    then show ?thesis using assms y c copy_fails[of y "w_mem w" e m]
      by (auto simp: wrapper_copy_construct_def slack_mem)
  next
    case (Inr x)
    then show ?thesis using assms y c copy_owns[of y "w_mem w" x m]
      by (auto simp: wrapper_copy_construct_def slack_mem slack_put)
  qed
qed

lemma move_construct_slack:
  assumes "finite (dom (w_objs w))" "w_objs w a = None" "w_objs w b \<noteq> None" "wrapper_move_construct h a b w = (r, w')"
  shows "r = Ret () \<and> w_slack own w' = w_slack own w \<and> finite (dom (w_objs w'))"
  using assms by (auto simp: wrapper_move_construct_def move_steals slack_put own_zero)

lemma copy_assign_slack:
  assumes fin: "finite (dom (w_objs w))" and ab: "w_objs w a = Some x" "w_objs w b = Some y"
    and run: "wrapper_copy_assign h a b w = (r, w')"
  shows "finite (dom (w_objs w')) \<and> (case r of Inr _ \<Rightarrow> w_slack own w' = w_slack own w | Inl _ \<Rightarrow> w_slack own w \<le> w_slack own w')"
proof (cases "a = b")
  case True
  then show ?thesis using fin ab run by (auto simp: wrapper_copy_assign_def)
next
  case ne: False
  let ?c = "wrapper_clear h a x w"
  obtain q m where c: "h_copy h y (w_mem ?c) = (q, m)" by fastforce
  have fin': "finite (dom (w_objs ?c))" using slack_clear(2)[OF fin ab(1)] fin by simp
  have at: "\<exists>x'. w_objs ?c a = Some x' \<and> own x' = 0"
    using clear_frees(1)[of x] by (cases "h_clear h x") (simp add: wrapper_clear_def)
  show ?thesis
  proof (cases q)
    case (Inl e)
    then show ?thesis
      using run ab ne c copy_fails[of y "w_mem ?c" e m] slack_clear(1)[OF fin ab(1)] fin'
      by (auto simp: wrapper_copy_assign_def slack_mem)
  next
    case (Inr z)
    then show ?thesis
      using run ab ne c copy_owns[of y "w_mem ?c" z m] slack_clear(1)[OF fin ab(1)] fin' at
      by (auto simp: wrapper_copy_assign_def slack_mem slack_put)
  qed
qed

lemma move_assign_slack:
  assumes fin: "finite (dom (w_objs w))" and ab: "w_objs w a = Some x" "w_objs w b = Some y"
    and run: "wrapper_move_assign h a b w = (r, w')"
  shows "r = Ret () \<and> w_slack own w' = w_slack own w \<and> finite (dom (w_objs w'))"
proof (cases "a = b")
  case True
  then show ?thesis using fin ab run by (auto simp: wrapper_move_assign_def)
next
  case ne: False
  let ?c = "wrapper_clear h a x w"
  have fin': "finite (dom (w_objs ?c))" using slack_clear(2)[OF fin ab(1)] fin by simp
  have at: "\<exists>x'. w_objs ?c a = Some x' \<and> own x' = 0" and b: "w_objs ?c b = Some y"
    using clear_frees(1)[of x] ab ne by (cases "h_clear h x", simp add: wrapper_clear_def)+
  show ?thesis
    using run ab ne fin' at b slack_clear(1)[OF fin ab(1)]
    by (auto simp: wrapper_move_assign_def move_steals slack_put own_zero)
qed

lemma swap_slack:
  assumes "finite (dom (w_objs w))" "w_objs w a = Some x" "w_objs w b = Some y" "wrapper_swap a b w = (r, w')"
  shows "r = Ret () \<and> w_slack own w' = w_slack own w \<and> finite (dom (w_objs w'))"
  using assms by (cases "a = b") (auto simp: wrapper_swap_def slack_put)

lemma step_slack:
  assumes "finite (dom (w_objs w))" "w_legal x w" "w_run h zero x w = (r, w')"
  shows "finite (dom (w_objs w')) \<and> (case r of Inr _ \<Rightarrow> w_slack own w' = w_slack own w | Inl _ \<Rightarrow> w_slack own w \<le> w_slack own w')"
proof (cases x)
  case (WDefault a)
  with assms show ?thesis by (auto simp: wrapper_default_def slack_put own_zero)
next
  case (WCopy a b)
  with assms show ?thesis using copy_construct_slack by fastforce
next
  case (WMove a b)
  with assms show ?thesis using move_construct_slack[of w a b r w'] by auto
next
  case (WAssign a b)
  with assms show ?thesis using copy_assign_slack by fastforce
next
  case (WMoveAssign a b)
  with assms obtain y z where "w_objs w a = Some y" "w_objs w b = Some z" by auto
  from move_assign_slack[OF assms(1) this] WMoveAssign assms(3) show ?thesis by auto
next
  case (WSwap a b)
  with assms obtain y z where "w_objs w a = Some y" "w_objs w b = Some z" by auto
  from swap_slack[OF assms(1) this] WSwap assms(3) show ?thesis by auto
next
  case (WDestroy a)
  with assms obtain y where "w_objs w a = Some y" by auto
  from destroy_slack[OF assms(1) this] WDestroy assms(3) show ?thesis by auto
qed

lemma runs_slack:
  assumes "finite (dom (w_objs w))" "w_all_legal h zero xs w" "w_runs h zero xs w = (r, w')"
  shows "case r of Inr _ \<Rightarrow> w_slack own w' = w_slack own w | Inl _ \<Rightarrow> w_slack own w \<le> w_slack own w'"
  using assms
proof (induction xs arbitrary: w)
  case (Cons x xs)
  obtain q v where q: "w_run h zero x w = (q, v)" by fastforce
  note s = step_slack[OF Cons.prems(1) _ q]
  show ?case
  proof (cases q)
    case (Inl e)
    with Cons.prems s q show ?thesis by auto
  next
    case (Inr u)
    with Cons.IH[of v] Cons.prems s q show ?thesis by (auto split: sum.splits)
  qed
qed (auto split: sum.splits)

lemma all_destroyed:
  assumes "finite (dom (w_objs w))" "w_all_legal h zero xs w" "w_runs h zero xs w = (Inr (), w')"
    "w_objs w = (\<lambda>_. None)" "w_objs w' = (\<lambda>_. None)"
  shows "live (w_mem w') = live (w_mem w)"
  using runs_slack[OF assms(1-3)] assms(4,5) by (simp add: w_slack_def owned_def)

end

section \<open>The native handler\<close>

text \<open>What the library relies on of \<open>UA_copy\<close>: a successful copy owns exactly the allocations it made, a failed one keeps
  none of its own.\<close>

locale ua_type =
  fixes zero :: 'a and ua_copy :: "'a \<Rightarrow> (mem, 'a) op" and ua_own :: "'a \<Rightarrow> int"
  assumes ua_zero: "ua_own zero = 0"
    and ua_copied: "ua_copy x m = (Inr y, m') \<Longrightarrow> live m' = live m + ua_own y"
    and ua_copy_failed: "ua_copy x m = (Inl e, m') \<Longrightarrow> live m' = live m"

sublocale ua_type \<subseteq> native: type_handler "TypeHandlerNative zero ua_copy ua_own" zero ua_own
proof unfold_locales
qed (auto simp: TypeHandlerNative_def ua_zero dest: ua_copied ua_copy_failed)

text \<open>Types without pointers (\<open>IsPointerFree\<close>: integers, enums, \<open>UA_Guid\<close>): \<open>copy\<close> returns its argument and \<open>clear\<close> resets it.\<close>

definition copy_pointer_free :: "'a \<Rightarrow> (mem, 'a) op" where
  "copy_pointer_free x = op_ret x"

interpretation word_type: ua_type "0 :: u64" copy_pointer_free "\<lambda>_. 0"
  by unfold_locales (simp_all add: copy_pointer_free_def)

end
