(* ===== verification/Data_Types.thy ===== *)
theory Data_Types
  imports Wrappers "HOL-Library.Multiset"
begin

text \<open>
  Data type descriptions: \<open>datatype.hpp\<close> and \<open>datatype.cpp\<close>. A C string is \<open>None\<close> for a null pointer, otherwise its
  characters up to the terminator; names and the member array are allocations of the memory of \<open>Wrappers\<close>. A
  description is referenced by a pointer (a number), dereferenced by a parameter of the definitions that need it.
  Node ids are an arbitrary linearly ordered type: the order is \<open>UA_NodeId_order\<close> of the C library. The padding is
  what the encoder of the C library adds to its position before it visits a member. The ids of
  descriptions are values that own no memory, as the numeric ids the library registers.
\<close>

section \<open>C strings\<close>

definition allocCString :: "string \<Rightarrow> (mem, string option) op" where
  "allocCString src = op_bind (alloc_block (BadStatus UA_STATUSCODE_BADOUTOFMEMORY))
     (\<lambda>_. op_ret (Some (takeWhile (\<lambda>c. c \<noteq> CHR 0x00) src)))"

definition c_str_count :: "string option \<Rightarrow> int" where
  "c_str_count s = (case s of None \<Rightarrow> 0 | Some _ \<Rightarrow> 1)"

definition clear_cstr :: "string option \<Rightarrow> (mem, unit) op" where
  "clear_cstr s m = (Ret (), free_blocks (c_str_count s) m)"

text \<open>The conversion of a \<open>const char*\<close> to \<open>string_view\<close> reads the characters: undefined for a null pointer.\<close>

definition view_cstr :: "string option \<Rightarrow> string outc" where
  "view_cstr s = (case s of None \<Rightarrow> Inl Undef | Some t \<Rightarrow> Ret t)"

section \<open>Descriptions\<close>

record DataTypeMember =
  memberName :: "string option"
  memberType :: "nat option"
  padding :: u8
  isArray :: bool
  isOptional :: bool

datatype TypeKind = Kind_Enum | Kind_Structure | Kind_OptStruct | Kind_Union | Kind_Other nat

record 'id DataType =
  typeName :: "string option"
  typeId :: 'id
  binaryEncodingId :: 'id
  memSize :: u16
  typeKind :: TypeKind
  pointerFree :: bool
  overlayable :: bool
  members :: "DataTypeMember list"

definition zero_member :: DataTypeMember where
  "zero_member = \<lparr>memberName = None, memberType = None, padding = 0, isArray = False, isOptional = False\<rparr>"

definition zero_type :: "'id \<Rightarrow> 'id DataType" where
  "zero_type null_id = \<lparr>typeName = None, typeId = null_id, binaryEncodingId = null_id, memSize = 0, typeKind = Kind_Other 0,
     pointerFree = False, overlayable = False, members = []\<rparr>"

definition setMemberName :: "string \<Rightarrow> DataTypeMember \<Rightarrow> (mem, DataTypeMember) op" where
  "setMemberName n d = op_bind (clear_cstr (memberName d)) (\<lambda>_. op_bind (allocCString n) (\<lambda>s. op_ret (d\<lparr>memberName := s\<rparr>)))"

text \<open>\<open>setTypeName\<close> is \<open>noexcept\<close>: an exception of the allocation ends the process.\<close>

definition setTypeName :: "string \<Rightarrow> 'id DataType \<Rightarrow> (mem, 'id DataType) op" where
  "setTypeName n d m = (case op_bind (clear_cstr (typeName d)) (\<lambda>_. allocCString n) m of
      (Inr s, m') \<Rightarrow> (Ret (d\<lparr>typeName := s\<rparr>), m')
    | (Inl (Throw _), m') \<Rightarrow> (Inl Terminate, m')
    | (Inl f, m') \<Rightarrow> (Inl f, m'))"

definition type_eq :: "'id DataType \<Rightarrow> 'id DataType \<Rightarrow> bool" where
  "type_eq a b = (typeId a = typeId b)"

definition member_eq :: "(nat \<Rightarrow> 'id DataType) \<Rightarrow> DataTypeMember \<Rightarrow> DataTypeMember \<Rightarrow> bool" where
  "member_eq deref_type a b = (case (memberType a, memberType b) of
      (Some p, Some q) \<Rightarrow> p = q \<or> type_eq (deref_type p) (deref_type q)
    | _ \<Rightarrow> False)"

section \<open>Copy, move and clear\<close>

text \<open>Clearing returns what remains and the number of allocations it frees; \<open>releasing\<close> applies it to the memory.\<close>

definition releasing :: "'a \<times> int \<Rightarrow> (mem, 'a) op" where
  "releasing r m = (Ret (fst r), free_blocks (snd r) m)"

definition clear_member :: "DataTypeMember \<Rightarrow> DataTypeMember \<times> int" where
  "clear_member d = (d\<lparr>memberName := None\<rparr>, c_str_count (memberName d))"

fun clear_each :: "DataTypeMember list \<Rightarrow> int" where
  "clear_each [] = 0"
| "clear_each (d # ds) = snd (clear_member d) + clear_each ds"

definition free_array :: "'a list \<Rightarrow> int" where
  "free_array xs = (if xs = [] then 0 else 1)"

definition clearMembers :: "'id DataType \<Rightarrow> 'id DataType \<times> int" where
  "clearMembers d = (d\<lparr>members := []\<rparr>, clear_each (members d) + free_array (members d))"

definition clear_type :: "'id \<Rightarrow> 'id DataType \<Rightarrow> 'id DataType \<times> int" where
  "clear_type null_id d = (zero_type null_id, c_str_count (typeName d) + snd (clearMembers d))"

definition copy_member :: "DataTypeMember \<Rightarrow> (mem, DataTypeMember) op" where
  "copy_member src = op_bind (op_lift (view_cstr (memberName src))) (\<lambda>n.
     op_bind (allocCString n) (\<lambda>s. op_ret (src\<lparr>memberName := s\<rparr>)))"

fun copy_each :: "DataTypeMember list \<Rightarrow> (mem, DataTypeMember list) op" where
  "copy_each [] = op_ret []"
| "copy_each (d # ds) = op_bind (copy_member d) (\<lambda>d'. op_bind (copy_each ds) (\<lambda>ds'. op_ret (d' # ds')))"

text \<open>\<open>copyMembers\<close>: no allocation for an empty list. \<open>allocateArray\<close> also refuses more than \<open>INT32_MAX\<close> elements;
  member lists are shorter. Nothing frees the array or the names already copied when a copy throws.\<close>

definition copyMembers :: "DataTypeMember list \<Rightarrow> 'id DataType \<Rightarrow> (mem, 'id DataType) op" where
  "copyMembers ds dst = (if ds = [] then op_ret (dst\<lparr>members := []\<rparr>)
     else op_bind (alloc_block BadAlloc) (\<lambda>_. op_bind (copy_each ds) (\<lambda>ds'. op_ret (dst\<lparr>members := ds'\<rparr>))))"

definition copy_type :: "'id DataType \<Rightarrow> (mem, 'id DataType) op" where
  "copy_type src = op_bind (op_lift (view_cstr (typeName src))) (\<lambda>n.
     op_bind (allocCString n) (\<lambda>s. copyMembers (members src) (src\<lparr>typeName := s\<rparr>)))"

text \<open>\<open>DataType::setMembers\<close>.\<close>

definition setMembers :: "DataTypeMember list \<Rightarrow> 'id DataType \<Rightarrow> (mem, 'id DataType) op" where
  "setMembers ds d = (if 2 ^ 8 \<le> length ds then op_fail Terminate
     else op_bind (releasing (clearMembers d)) (\<lambda>d'. copyMembers ds d'))"

text \<open>The handlers.\<close>

definition own_member :: "DataTypeMember \<Rightarrow> int" where
  "own_member d = c_str_count (memberName d)"

definition own_type :: "'id DataType \<Rightarrow> int" where
  "own_type d = c_str_count (typeName d) + (if members d = [] then 0 else 1) + (\<Sum>x \<leftarrow> members d. own_member x)"

definition member_handler :: "DataTypeMember handler" where
  "member_handler = \<lparr>h_copy = copy_member, h_move = (\<lambda>d. (d, zero_member)), h_clear = clear_member\<rparr>"

definition type_handler_of :: "'id \<Rightarrow> 'id DataType handler" where
  "type_handler_of null_id = \<lparr>h_copy = copy_type, h_move = (\<lambda>d. (d, zero_type null_id)), h_clear = clear_type null_id\<rparr>"

section \<open>The builder\<close>

record Field =
  f_memSize :: nat
  f_offset :: nat
  f_member :: DataTypeMember

record 'id builder =
  b_mem :: mem
  b_type :: "'id DataType"
  b_fields :: "Field list"

definition on_mem :: "(mem, 'a) op \<Rightarrow> ('id builder, 'a) op" where
  "on_mem f b = (case f (b_mem b) of (r, m) \<Rightarrow> (r, b\<lparr>b_mem := m\<rparr>))"

text \<open>The three factories: the local description is copied into the builder and destroyed.\<close>

definition new_builder :: "'id \<Rightarrow> TypeKind \<Rightarrow> string \<Rightarrow> 'id \<Rightarrow> 'id \<Rightarrow> nat \<Rightarrow> (mem, 'id DataType) op" where
  "new_builder null_id kind name tid bid sz =
     op_bind (setTypeName name (zero_type null_id)) (\<lambda>d.
       let dt = d\<lparr>typeId := tid, binaryEncodingId := bid, memSize := of_nat sz, typeKind := kind, pointerFree := True,
                  overlayable := False\<rparr>
       in op_bind (op_on_throw (copy_type dt) (op_bind (releasing (clear_type null_id dt)) (\<lambda>_. op_ret ())))
            (\<lambda>c. op_bind (releasing (clear_type null_id dt)) (\<lambda>_. op_ret c)))"

definition createEnum :: "'id \<Rightarrow> string \<Rightarrow> 'id \<Rightarrow> 'id \<Rightarrow> nat \<Rightarrow> (mem, 'id DataType) op" where
  "createEnum null_id = new_builder null_id Kind_Enum"

definition createStructure :: "'id \<Rightarrow> string \<Rightarrow> 'id \<Rightarrow> 'id \<Rightarrow> nat \<Rightarrow> (mem, 'id DataType) op" where
  "createStructure null_id = new_builder null_id Kind_Structure"

definition createUnion :: "'id \<Rightarrow> string \<Rightarrow> 'id \<Rightarrow> 'id \<Rightarrow> nat \<Rightarrow> (mem, 'id DataType) op" where
  "createUnion null_id = new_builder null_id Kind_Union"

text \<open>A field's C++ type: whether it is a pointer, and the size of the type it is or points to. Pointers and
  \<open>size_t\<close> have 8 bytes.\<close>

record member_type =
  is_pointer :: bool
  pointee_size :: nat

definition size_of :: "member_type \<Rightarrow> nat" where
  "size_of t = (if is_pointer t then 8 else pointee_size t)"

definition mk_member :: "string \<Rightarrow> nat \<Rightarrow> u8 \<Rightarrow> bool \<Rightarrow> bool \<Rightarrow> (mem, DataTypeMember) op" where
  "mk_member name p pad arr opt = op_bind (setMemberName name zero_member)
     (\<lambda>d. op_ret (d\<lparr>memberType := Some p, padding := pad, isArray := arr, isOptional := opt\<rparr>))"

definition push_field :: "nat \<Rightarrow> nat \<Rightarrow> DataTypeMember \<Rightarrow> ('id builder, unit) op" where
  "push_field sz offset d b = (Ret (), b\<lparr>b_fields := b_fields b @ [\<lparr>f_memSize = sz, f_offset = offset, f_member = d\<rparr>]\<rparr>)"

text \<open>\<open>addField<TMember>(fieldName, offset, fieldType)\<close>; \<open>p\<close> is the address of the field's description \<open>ft\<close>.\<close>

definition addField :: "string \<Rightarrow> member_type \<Rightarrow> nat \<Rightarrow> nat \<Rightarrow> 'id DataType \<Rightarrow> ('id builder, unit) op" where
  "addField name t offset p ft b =
    (if pointee_size t \<noteq> unat (memSize ft) then (Inl Terminate, b)
     else
      let b1 = (if is_pointer t then b\<lparr>b_type := (b_type b)\<lparr>typeKind := Kind_OptStruct\<rparr>\<rparr> else b);
          b2 = (if is_pointer t \<or> \<not> pointerFree ft then b1\<lparr>b_type := (b_type b1)\<lparr>pointerFree := False\<rparr>\<rparr> else b1)
      in op_bind (on_mem (mk_member name p 0 False (is_pointer t))) (push_field (size_of t) offset) b2)"

text \<open>The array overload: a size field followed without padding by the pointer to the elements.\<close>

definition addArrayField :: "string \<Rightarrow> member_type \<Rightarrow> nat \<Rightarrow> nat \<Rightarrow> nat \<Rightarrow> 'id DataType \<Rightarrow> ('id builder, unit) op" where
  "addArrayField name t offsetSize offsetArray p ft b =
    (if offsetArray \<noteq> offsetSize + 8 \<or> pointee_size t \<noteq> unat (memSize ft) then (Inl Terminate, b)
     else op_bind (on_mem (mk_member name p 0 True False)) (push_field (8 + 8) offsetSize)
            (b\<lparr>b_type := (b_type b)\<lparr>pointerFree := False\<rparr>\<rparr>))"

definition addUnionField :: "string \<Rightarrow> member_type \<Rightarrow> nat \<Rightarrow> nat \<Rightarrow> 'id DataType \<Rightarrow> ('id builder, unit) op" where
  "addUnionField name t offset p ft b =
    (if offset = 0 \<or> pointee_size t \<noteq> unat (memSize ft) then (Inl Terminate, b)
     else op_bind (on_mem (mk_member name p (of_nat offset) False (is_pointer t))) (push_field (size_of t) offset)
            (if is_pointer t \<or> \<not> pointerFree ft then b\<lparr>b_type := (b_type b)\<lparr>pointerFree := False\<rparr>\<rparr> else b))"

text \<open>The padding loop of \<open>build\<close>, with the end of the previous field; the subtraction is one of \<open>size_t\<close> and the
  result is cut to eight bits.\<close>

fun set_paddings :: "nat option \<Rightarrow> Field list \<Rightarrow> Field list" where
  "set_paddings _ [] = []"
| "set_paddings prev (f # fs) =
     f\<lparr>f_member := (f_member f)\<lparr>padding := (case prev of
           None \<Rightarrow> of_nat (f_offset f)
         | Some e \<Rightarrow> ucast (of_nat (f_offset f) - of_nat e :: u64))\<rparr>\<rparr>
     # set_paddings (Some (f_offset f + f_memSize f)) fs"

text \<open>\<open>build\<close>. \<open>std::sort\<close> orders the fields by offset; the order of fields with equal offsets is unspecified in C++
  and stable here. The builder keeps its own copy, the caller gets another one.\<close>

definition build :: "bool \<Rightarrow> ('id builder, 'id DataType) op" where
  "build is_struct b =
    (let fs = sort_key f_offset (b_fields b);
         gs = (if is_struct then set_paddings None fs else fs)
     in op_bind (on_mem (setMembers (map f_member gs) (b_type b)))
          (\<lambda>d b'. on_mem (copy_type d) (b'\<lparr>b_type := d\<rparr>))
          (b\<lparr>b_fields := gs\<rparr>))"

section \<open>Looking types up\<close>

text \<open>\<open>std::lower_bound\<close> on a table sorted by id, with the indices of the remaining range.\<close>

function lower_bound :: "('a \<Rightarrow> bool) \<Rightarrow> 'a list \<Rightarrow> nat \<Rightarrow> nat \<Rightarrow> nat" where
  "lower_bound cmp xs first len =
     (if len = 0 then first
      else if cmp (xs ! (first + len div 2)) then lower_bound cmp xs (first + len div 2 + 1) (len - (len div 2 + 1))
      else lower_bound cmp xs first (len div 2))"
  by pat_completeness auto
termination by (relation "measure (\<lambda>(_, _, _, n). n)") auto

declare lower_bound.simps [simp del]

definition findDataType_builtin :: "('id::linorder) DataType list \<Rightarrow> 'id \<Rightarrow> 'id DataType option" where
  "findDataType_builtin types i =
     (let k = lower_bound (\<lambda>t. typeId t < i) types 0 (length types)
      in if k < length types \<and> typeId (types ! k) = i then Some (types ! k) else None)"

record 'id DataTypeArray =
  arr_types :: "'id DataType list"
  arr_cleanup :: bool

fun find_custom :: "'id DataTypeArray list \<Rightarrow> 'id \<Rightarrow> 'id DataType option" where
  "find_custom [] i = None"
| "find_custom (c # cs) i = (case find (\<lambda>t. typeId t = i) (arr_types c) of Some t \<Rightarrow> Some t | None \<Rightarrow> find_custom cs i)"

definition findDataType :: "('id::linorder) DataType list \<Rightarrow> 'id \<Rightarrow> 'id DataTypeArray list \<Rightarrow> 'id DataType option" where
  "findDataType types i custom = (case findDataType_builtin types i of Some t \<Rightarrow> Some t | None \<Rightarrow> find_custom custom i)"

section \<open>Custom types of a configuration\<close>

fun copy_types :: "'id DataType list \<Rightarrow> (mem, 'id DataType list) op" where
  "copy_types [] = op_ret []"
| "copy_types (d # ds) = op_bind (copy_type d) (\<lambda>d'. op_bind (copy_types ds) (\<lambda>ds'. op_ret (d' # ds')))"

definition copyArray_types :: "'id DataType list \<Rightarrow> (mem, 'id DataType list) op" where
  "copyArray_types ds = (if 2 ^ 31 - 1 < length ds then op_fail (Throw BadAlloc)
     else if ds = [] then op_ret []
     else op_bind (alloc_block BadAlloc) (\<lambda>_. copy_types ds))"

definition addDataTypes :: "'id DataTypeArray list \<Rightarrow> 'id DataType list \<Rightarrow> (mem, 'id DataTypeArray list) op" where
  "addDataTypes head ds = op_bind (alloc_block BadAlloc) (\<lambda>_. op_bind (copyArray_types ds)
     (\<lambda>ds'. op_ret (\<lparr>arr_types = ds', arr_cleanup = True\<rparr> # head)))"

fun clear_types :: "'id \<Rightarrow> 'id DataType list \<Rightarrow> int" where
  "clear_types null_id [] = 0"
| "clear_types null_id (d # ds) = snd (clear_type null_id d) + clear_types null_id ds"

definition clear_array :: "'id \<Rightarrow> 'id DataTypeArray \<Rightarrow> int" where
  "clear_array null_id a = (if arr_cleanup a then clear_types null_id (arr_types a) + free_array (arr_types a) else 0)"

fun deallocate_types :: "'id \<Rightarrow> 'id DataTypeArray list \<Rightarrow> mem \<Rightarrow> mem" where
  "deallocate_types null_id [] m = m"
| "deallocate_types null_id (a # as) m =
     deallocate_types null_id as (if arr_cleanup a then free_blocks (clear_array null_id a + 1) m else m)"

section \<open>Copies own what they allocate\<close>

lemma allocCString_cases:
  assumes "allocCString s m = (r, m')"
  obtains (fails) "r = throw (BadStatus UA_STATUSCODE_BADOUTOFMEMORY)" "m' = m"
    | (allocated) "r = Ret (Some (takeWhile (\<lambda>c. c \<noteq> CHR 0x00) s))" "live m' = live m + 1"
  using assms by (auto simp: allocCString_def alloc_block_def op_bind_def split: if_splits)

text \<open>A name read back from a C string.\<close>

definition c_name :: "string option \<Rightarrow> string" where
  "c_name s = (case s of None \<Rightarrow> [] | Some t \<Rightarrow> takeWhile (\<lambda>c. c \<noteq> CHR 0x00) t)"

lemma copy_member_cases:
  assumes "copy_member d m = (r, m')"
  obtains (fails) e where "r = Inl e" "m' = m"
    | (copied) n where "memberName d = Some n" "r = Ret (d\<lparr>memberName := Some (c_name (memberName d))\<rparr>)" "live m' = live m + 1"
proof (cases "memberName d")
  case None
  with assms fails show thesis by (auto simp: copy_member_def view_cstr_def op_bind_def)
next
  case (Some n)
  obtain q k where a: "allocCString n m = (q, k)" by fastforce
  show thesis
  proof (cases rule: allocCString_cases[OF a])
    case 1
    with assms Some a fails show thesis by (auto simp: copy_member_def view_cstr_def op_bind_def)
  next
    case 2
    with assms Some a copied show thesis by (auto simp: copy_member_def view_cstr_def op_bind_def c_name_def)
  qed
qed

lemma copy_each_live:
  assumes "copy_each ds m = (r, m')"
  shows "live m \<le> live m'"
    and "r = Ret ds' \<Longrightarrow> ds' = map (\<lambda>d. d\<lparr>memberName := Some (c_name (memberName d))\<rparr>) ds
           \<and> live m' = live m + (\<Sum>x \<leftarrow> ds'. own_member x)"
proof -
  have "live m \<le> live m' \<and> (\<forall>ds'. r = Ret ds' \<longrightarrow> ds' = map (\<lambda>d. d\<lparr>memberName := Some (c_name (memberName d))\<rparr>) ds
           \<and> live m' = live m + (\<Sum>x \<leftarrow> ds'. own_member x))"
    using assms
  proof (induction ds arbitrary: m r m')
    case (Cons d ds)
    obtain q k where c: "copy_member d m = (q, k)" by fastforce
    obtain q2 k2 where c2: "copy_each ds k = (q2, k2)" by fastforce
    note IH = Cons.IH[OF c2]
    show ?case
    proof (cases rule: copy_member_cases[OF c])
      case (1 e)
      with Cons.prems c show ?thesis by (auto simp: op_bind_def)
    next
      case (2 n)
      with Cons.prems c c2 IH show ?thesis
        by (cases q2) (auto simp: op_bind_def own_member_def c_str_count_def)
    qed
  qed auto
  then show "live m \<le> live m'"
    and "r = Ret ds' \<Longrightarrow> ds' = map (\<lambda>d. d\<lparr>memberName := Some (c_name (memberName d))\<rparr>) ds
           \<and> live m' = live m + (\<Sum>x \<leftarrow> ds'. own_member x)" by auto
qed

definition copied_members :: "DataTypeMember list \<Rightarrow> DataTypeMember list" where
  "copied_members ds = map (\<lambda>d. d\<lparr>memberName := Some (c_name (memberName d))\<rparr>) ds"

lemma copyMembers_cases:
  assumes "copyMembers ds d m = (r, m')"
  obtains (fails) e where "r = Inl e" "live m \<le> live m'"
    | (copied) "r = Ret (d\<lparr>members := copied_members ds\<rparr>)"
        "live m' = live m + (if ds = [] then 0 else 1) + (\<Sum>x \<leftarrow> copied_members ds. own_member x)"
proof (cases "ds = []")
  case True
  with assms copied show thesis by (simp add: copyMembers_def copied_members_def)
next
  case False
  obtain q k where a: "alloc_block BadAlloc m = (q, k)" by fastforce
  show thesis
  proof (cases rule: alloc_block_cases[OF a])
    case 1
    with assms False a fails show thesis by (auto simp: copyMembers_def op_bind_def)
  next
    case 2
    obtain q2 k2 where c: "copy_each ds k = (q2, k2)" by fastforce
    show thesis
    proof (cases q2)
      case (Inl e)
      with assms False a 2 c copy_each_live(1)[OF c] show thesis by (intro fails[of e]) (auto simp: copyMembers_def op_bind_def)
    next
      case (Inr ds')
      with assms False a 2 c copy_each_live(2)[OF c Inr] show thesis
        by (intro copied) (auto simp: copyMembers_def op_bind_def copied_members_def)
    qed
  qed
qed

definition copied_type :: "'id DataType \<Rightarrow> 'id DataType" where
  "copied_type d = d\<lparr>typeName := Some (c_name (typeName d)), members := copied_members (members d)\<rparr>"

lemma copy_type_cases:
  assumes "copy_type d m = (r, m')"
  obtains (fails) e where "r = Inl e" "live m \<le> live m'"
    | (copied) "r = Ret (copied_type d)" "live m' = live m + own_type (copied_type d)"
proof (cases "typeName d")
  case None
  with assms fails show thesis by (auto simp: copy_type_def view_cstr_def op_bind_def)
next
  case (Some n)
  obtain q k where a: "allocCString n m = (q, k)" by fastforce
  show thesis
  proof (cases rule: allocCString_cases[OF a])
    case 1
    with assms Some a fails show thesis by (auto simp: copy_type_def view_cstr_def op_bind_def)
  next
    case 2
    let ?d = "d\<lparr>typeName := Some (takeWhile (\<lambda>c. c \<noteq> CHR 0x00) n)\<rparr>"
    obtain q2 k2 where c: "copyMembers (members d) ?d k = (q2, k2)" by fastforce
    have run: "r = q2 \<and> m' = k2" using assms Some a 2 c by (simp add: copy_type_def view_cstr_def op_bind_def)
    show thesis
    proof (cases rule: copyMembers_cases[OF c])
      case (1 e)
      with run 2 show thesis by (intro fails[of e]) auto
    next
      case copy: 2
      have "copied_members (members d) = [] \<longleftrightarrow> members d = []" by (simp add: copied_members_def)
      with copy run 2 Some show thesis
        by (intro copied) (simp_all add: copied_type_def own_type_def c_str_count_def c_name_def)
    qed
  qed
qed

lemma clear_each_own: "clear_each ds = (\<Sum>x \<leftarrow> ds. own_member x)"
  by (induction ds) (simp_all add: clear_member_def own_member_def)

lemma clear_type_own: "snd (clear_type z d) = own_type d"
  by (simp add: clear_type_def clearMembers_def clear_each_own own_type_def free_array_def)

lemma own_zero_type [simp]: "own_type (zero_type z) = 0"
  by (simp add: own_type_def zero_type_def c_str_count_def)

interpretation member_h: type_handler member_handler zero_member own_member
proof unfold_locales
  show "own_member zero_member = 0" by (simp add: own_member_def zero_member_def c_str_count_def)
  show "live m' = live m + own_member y" if "h_copy member_handler x m = (Ret y, m')" for x y m m'
  proof -
    from that have "copy_member x m = (Ret y, m')" by (simp add: member_handler_def)
    then show ?thesis by (cases rule: copy_member_cases) (auto simp: own_member_def c_str_count_def)
  qed
  show "live m \<le> live m'" if "h_copy member_handler x m = (Inl e, m')" for x e m m'
  proof -
    from that have "copy_member x m = (Inl e, m')" by (simp add: member_handler_def)
    then show ?thesis by (cases rule: copy_member_cases) auto
  qed
qed (simp_all add: member_handler_def clear_member_def own_member_def c_str_count_def)

interpretation type_h: type_handler "type_handler_of null_id" "zero_type null_id" own_type for null_id
proof unfold_locales
  show "live m' = live m + own_type y" if "h_copy (type_handler_of null_id) x m = (Ret y, m')" for x y m m'
  proof -
    from that have "copy_type x m = (Ret y, m')" by (simp add: type_handler_of_def)
    then show ?thesis by (cases rule: copy_type_cases) auto
  qed
  show "live m \<le> live m'" if "h_copy (type_handler_of null_id) x m = (Inl e, m')" for x e m m'
  proof -
    from that have "copy_type x m = (Inl e, m')" by (simp add: type_handler_of_def)
    then show ?thesis by (cases rule: copy_type_cases) auto
  qed
  show "own_type (fst (h_clear (type_handler_of null_id) x)) = 0" for x
    by (simp add: type_handler_of_def clear_type_def)
qed (simp_all add: type_handler_of_def clear_type_own)

section \<open>The layout the builder describes\<close>

text \<open>What the encoder does with sizes and paddings: it skips the padding, is then at the member, and goes on behind it.\<close>

fun layout :: "nat \<Rightarrow> (nat \<times> u8) list \<Rightarrow> nat list" where
  "layout pos [] = []"
| "layout pos ((sz, p) # xs) = (pos + unat p) # layout (pos + unat p + sz) xs"

text \<open>Fields in order that do not overlap and have gaps a padding can express.\<close>

fun packed :: "nat \<Rightarrow> Field list \<Rightarrow> bool" where
  "packed e [] \<longleftrightarrow> True"
| "packed e (f # fs) \<longleftrightarrow> e \<le> f_offset f \<and> f_offset f < e + 256 \<and> packed (f_offset f + f_memSize f) fs"

definition padded :: "Field list \<Rightarrow> (nat \<times> u8) list" where
  "padded fs = map (\<lambda>f. (f_memSize f, padding (f_member f))) fs"

lemma unat_padding:
  assumes "e \<le> n" "n < e + 256"
  shows "unat (ucast (of_nat n - of_nat e :: u64) :: u8) = n - e"
proof -
  have "of_nat n - of_nat e = (of_nat (n - e) :: u64)" using assms by (simp add: of_nat_diff)
  moreover have "n - e < 256" using assms by linarith
  ultimately show ?thesis
    by (simp add: unsigned_ucast_eq unat_of_nat_fit take_bit_nat_eq_self del: of_nat_diff)
qed

lemma layout_paddings: "packed e fs \<Longrightarrow> layout e (padded (set_paddings (Some e) fs)) = map f_offset fs"
  by (induction "Some e" fs arbitrary: e rule: set_paddings.induct) (simp_all add: padded_def unat_padding)

lemma layout_build:
  assumes "packed 0 fs"
  shows "layout 0 (padded (set_paddings None fs)) = map f_offset fs"
  using assms layout_paddings[of "f_offset (hd fs) + f_memSize (hd fs)" "tl fs"]
  by (cases fs) (simp_all add: padded_def unat_of_nat_fit)

lemma set_paddings_fields:
  "map f_offset (set_paddings e fs) = map f_offset fs" "map f_memSize (set_paddings e fs) = map f_memSize fs"
  "map (memberName \<circ> f_member) (set_paddings e fs) = map (memberName \<circ> f_member) fs"
  "length (set_paddings e fs) = length fs"
  by (induction e fs rule: set_paddings.induct) simp_all

text \<open>Declarations of fields, as the user of the builder writes them.\<close>

datatype 'id decl =
    Plain string member_type nat nat "'id DataType"
  | Arr string member_type nat nat nat "'id DataType"

fun add_decl :: "'id decl \<Rightarrow> ('id builder, unit) op" where
  "add_decl (Plain n t off p ft) = addField n t off p ft"
| "add_decl (Arr n t offS offA p ft) = addArrayField n t offS offA p ft"

fun add_decls :: "'id decl list \<Rightarrow> ('id builder, unit) op" where
  "add_decls [] = op_ret ()"
| "add_decls (d # ds) = op_bind (add_decl d) (\<lambda>_. add_decls ds)"

fun decl_offset :: "'id decl \<Rightarrow> nat" where
  "decl_offset (Plain n t off p ft) = off"
| "decl_offset (Arr n t offS offA p ft) = offS"

fun decl_optional :: "'id decl \<Rightarrow> bool" where
  "decl_optional (Plain n t off p ft) = is_pointer t"
| "decl_optional (Arr n t offS offA p ft) = False"

fun decl_flat :: "'id decl \<Rightarrow> bool" where
  "decl_flat (Plain n t off p ft) = (\<not> is_pointer t \<and> pointerFree ft)"
| "decl_flat (Arr n t offS offA p ft) = False"

definition stored_name :: "string \<Rightarrow> string option" where
  "stored_name n = Some (takeWhile (\<lambda>c. c \<noteq> CHR 0x00) n)"

fun decl_field :: "'id decl \<Rightarrow> Field" where
  "decl_field (Plain n t off p ft) = \<lparr>f_memSize = size_of t, f_offset = off, f_member =
     \<lparr>memberName = stored_name n, memberType = Some p, padding = 0, isArray = False, isOptional = is_pointer t\<rparr>\<rparr>"
| "decl_field (Arr n t offS offA p ft) = \<lparr>f_memSize = 16, f_offset = offS, f_member =
     \<lparr>memberName = stored_name n, memberType = Some p, padding = 0, isArray = True, isOptional = False\<rparr>\<rparr>"

lemma f_offset_decl [simp]: "f_offset (decl_field d) = decl_offset d"
  by (cases d) simp_all

definition with_decls :: "'id decl list \<Rightarrow> 'id DataType \<Rightarrow> 'id DataType" where
  "with_decls ds d = d\<lparr>typeKind := (if \<exists>x \<in> set ds. decl_optional x then Kind_OptStruct else typeKind d),
     pointerFree := (pointerFree d \<and> (\<forall>x \<in> set ds. decl_flat x))\<rparr>"

lemma mk_member_ok:
  assumes "mk_member n p pad arr opt m = (Ret d, m')"
  shows "d = \<lparr>memberName = stored_name n, memberType = Some p, padding = pad, isArray = arr, isOptional = opt\<rparr>"
proof -
  obtain q k where a: "allocCString n (free_blocks (c_str_count (memberName zero_member)) m) = (q, k)" by fastforce
  show ?thesis
    by (cases rule: allocCString_cases[OF a])
      (use assms a in \<open>auto simp: mk_member_def setMemberName_def op_bind_def clear_cstr_def stored_name_def zero_member_def\<close>)
qed

lemma add_member_ok:
  assumes "op_bind (on_mem (mk_member n p pad arr opt)) (push_field sz off) b = (Ret (), b')"
  shows "b_fields b' = b_fields b @ [\<lparr>f_memSize = sz, f_offset = off, f_member =
           \<lparr>memberName = stored_name n, memberType = Some p, padding = pad, isArray = arr, isOptional = opt\<rparr>\<rparr>]
         \<and> b_type b' = b_type b"
proof -
  obtain q k where r: "mk_member n p pad arr opt (b_mem b) = (q, k)" by fastforce
  with assms obtain d where q: "q = Ret d" by (cases q) (auto simp: op_bind_def on_mem_def)
  from mk_member_ok[OF r[unfolded q]] assms r q show ?thesis
    by (auto simp: op_bind_def on_mem_def push_field_def)
qed

lemma add_decl_ok:
  assumes "add_decl d b = (Ret (), b')"
  shows "b_fields b' = b_fields b @ [decl_field d] \<and> b_type b' = with_decls [d] (b_type b)"
proof (cases d)
  case (Plain n t off p ft)
  let ?b1 = "if is_pointer t then b\<lparr>b_type := (b_type b)\<lparr>typeKind := Kind_OptStruct\<rparr>\<rparr> else b"
  let ?b2 = "if is_pointer t \<or> \<not> pointerFree ft then ?b1\<lparr>b_type := (b_type ?b1)\<lparr>pointerFree := False\<rparr>\<rparr> else ?b1"
  have "op_bind (on_mem (mk_member n p 0 False (is_pointer t))) (push_field (size_of t) off) ?b2 = (Ret (), b')"
    using assms Plain by (simp add: addField_def Let_def split: if_splits)
  from add_member_ok[OF this] show ?thesis by (simp add: Plain with_decls_def)
next
  case (Arr n t offS offA p ft)
  have "op_bind (on_mem (mk_member n p 0 True False)) (push_field 16 offS)
      (b\<lparr>b_type := (b_type b)\<lparr>pointerFree := False\<rparr>\<rparr>) = (Ret (), b')"
    using assms Arr by (simp add: addArrayField_def split: if_splits)
  from add_member_ok[OF this] show ?thesis by (simp add: Arr with_decls_def)
qed

lemma with_decls_Cons: "with_decls ds (with_decls [d] x) = with_decls (d # ds) x"
  by (simp add: with_decls_def conj_ac)

lemma add_decls_ok:
  assumes "add_decls ds b = (Ret (), b')"
  shows "b_fields b' = b_fields b @ map decl_field ds \<and> b_type b' = with_decls ds (b_type b)"
  using assms
proof (induction ds arbitrary: b)
  case Nil
  then show ?case by (simp add: with_decls_def)
next
  case (Cons d ds)
  obtain q c where r: "add_decl d b = (q, c)" by fastforce
  with Cons.prems have q: "q = Ret ()" by (cases q) (auto simp: op_bind_def)
  with Cons.prems r have "add_decls ds c = (Ret (), b')" by (simp add: op_bind_def)
  from Cons.IH[OF this] add_decl_ok[OF r[unfolded q]] show ?case by (simp add: with_decls_Cons)
qed

lemma copied_members_stored:
  "(\<And>d. d \<in> set ds \<Longrightarrow> \<exists>n. memberName d = stored_name n) \<Longrightarrow> copied_members ds = ds"
proof (induction ds)
  case (Cons d ds)
  then obtain n where "memberName d = stored_name n" by auto
  then have "d\<lparr>memberName := Some (c_name (memberName d))\<rparr> = d"
    by (cases d) (simp add: c_name_def stored_name_def)
  with Cons show ?case by (simp add: copied_members_def)
qed (simp add: copied_members_def)

lemma set_paddings_stored:
  assumes "d \<in> set (map f_member (set_paddings e (sort_key f_offset (map decl_field ds))))"
  shows "\<exists>n. memberName d = stored_name n"
proof -
  have "memberName d \<in> set (map (memberName \<circ> f_member) (set_paddings e (sort_key f_offset (map decl_field ds))))"
    using assms by (auto simp: image_iff)
  then obtain x where "x \<in> set ds" "memberName d = memberName (f_member (decl_field x))"
    unfolding set_paddings_fields(3) by auto
  then have "memberName d = memberName (f_member (decl_field x))" by simp
  then show ?thesis by (cases x) (simp_all, blast+)
qed

lemma new_builder_ok:
  assumes "new_builder z kind n tid bid sz m = (Ret d, m')"
  shows "d = \<lparr>typeName = stored_name n, typeId = tid, binaryEncodingId = bid, memSize = of_nat sz, typeKind = kind,
              pointerFree = True, overlayable = False, members = []\<rparr>"
proof -
  let ?f = "\<lambda>d. d\<lparr>typeId := tid, binaryEncodingId := bid, memSize := of_nat sz, typeKind := kind, pointerFree := True,
                  overlayable := False\<rparr>"
  obtain q k where a: "setTypeName n (zero_type z) m = (q, k)" by fastforce
  then obtain d1 where q: "q = Ret d1" using assms by (cases q) (auto simp: new_builder_def op_bind_def)
  have d1: "d1 = (zero_type z)\<lparr>typeName := stored_name n\<rparr>"
    using a q by (auto simp: setTypeName_def op_bind_def clear_cstr_def allocCString_def alloc_block_def stored_name_def
        split: if_splits)
  obtain q2 k2 where c: "copy_type (?f d1) k = (q2, k2)" by fastforce
  then obtain e where q2: "q2 = Ret e" using assms a q
    by (cases q2) (auto simp: new_builder_def op_bind_def op_on_throw_def Let_def releasing_def split: fault.splits)
  have "d = e" using assms a q c q2 by (simp add: new_builder_def op_bind_def op_on_throw_def Let_def releasing_def)
  moreover have "e = copied_type (?f d1)" using c q2 by (cases rule: copy_type_cases) auto
  ultimately show ?thesis
    by (simp add: d1 copied_type_def zero_type_def copied_members_def c_name_def stored_name_def)
qed

lemma build_ok:
  assumes "build True b = (Ret dt, b')"
  shows "length (b_fields b) < 256"
    and "members dt = copied_members (copied_members (map f_member (set_paddings None (sort_key f_offset (b_fields b)))))"
    and "dt\<lparr>members := []\<rparr> = (b_type b)\<lparr>typeName := Some (c_name (typeName (b_type b))), members := []\<rparr>"
proof -
  let ?gs = "set_paddings None (sort_key f_offset (b_fields b))"
  let ?b = "b\<lparr>b_fields := ?gs\<rparr>"
  obtain q k where s: "setMembers (map f_member ?gs) (b_type b) (b_mem b) = (q, k)" by fastforce
  then obtain d where q: "q = Ret d" using assms by (cases q) (auto simp: build_def op_bind_def on_mem_def)
  obtain q2 k2 where c: "copy_type d k = (q2, k2)" by fastforce
  have q2: "q2 = Ret dt" using assms s q c by (cases q2) (auto simp: build_def op_bind_def on_mem_def)
  have len: "length (map f_member ?gs) < 256"
    using s q by (auto simp: setMembers_def set_paddings_fields split: if_splits)
  then show "length (b_fields b) < 256" by (simp add: set_paddings_fields)
  obtain m where m: "copyMembers (map f_member ?gs) ((b_type b)\<lparr>members := []\<rparr>) m = (Ret d, k)"
    using s q len by (auto simp: setMembers_def op_bind_def releasing_def clearMembers_def split: if_splits)
  have d: "d = (b_type b)\<lparr>members := copied_members (map f_member ?gs)\<rparr>"
    by (cases rule: copyMembers_cases[OF m]) simp_all
  have dt: "dt = copied_type d" using c q2 by (cases rule: copy_type_cases) auto
  show "members dt = copied_members (copied_members (map f_member ?gs))"
    "dt\<lparr>members := []\<rparr> = (b_type b)\<lparr>typeName := Some (c_name (typeName (b_type b))), members := []\<rparr>"
    by (simp_all add: dt d copied_type_def)
qed

text \<open>The description a structure's declarations stand for.\<close>

definition described :: "string \<Rightarrow> 'id \<Rightarrow> 'id \<Rightarrow> nat \<Rightarrow> 'id decl list \<Rightarrow> 'id DataType" where
  "described n tid bid sz ds = \<lparr>typeName = stored_name n, typeId = tid, binaryEncodingId = bid, memSize = of_nat sz,
     typeKind = (if \<exists>x \<in> set ds. decl_optional x then Kind_OptStruct else Kind_Structure),
     pointerFree = (\<forall>x \<in> set ds. decl_flat x), overlayable = False,
     members = map f_member (set_paddings None (sort_key f_offset (map decl_field ds)))\<rparr>"

lemma built_structure:
  assumes "createStructure z n tid bid sz m = (Ret d, m1)"
    and "add_decls ds \<lparr>b_mem = m1, b_type = d, b_fields = []\<rparr> = (Ret (), b)" and "build True b = (Ret dt, b')"
  shows "dt = described n tid bid sz ds"
proof -
  have d: "d = \<lparr>typeName = stored_name n, typeId = tid, binaryEncodingId = bid, memSize = of_nat sz, typeKind = Kind_Structure,
              pointerFree = True, overlayable = False, members = []\<rparr>"
    using assms(1) by (intro new_builder_ok[of z Kind_Structure n tid bid sz m d m1]) (simp add: createStructure_def)
  have b: "b_fields b = map decl_field ds" "b_type b = with_decls ds d"
    using add_decls_ok[OF assms(2)] by simp_all
  let ?ms = "map f_member (set_paddings None (sort_key f_offset (map decl_field ds)))"
  have "copied_members ?ms = ?ms" by (rule copied_members_stored) (rule set_paddings_stored)
  then have "members dt = ?ms" using build_ok(2)[OF assms(3)] by (simp only: b)
  moreover have "Some (c_name (stored_name n)) = stored_name n" by (simp add: c_name_def stored_name_def)
  ultimately show ?thesis
    using build_ok(3)[OF assms(3)] by (cases dt) (simp add: described_def b d with_decls_def)
qed

lemma sort_decls_order:
  assumes "mset ds = mset ds'" "distinct (map decl_offset ds)"
  shows "sort_key f_offset (map decl_field ds) = sort_key f_offset (map decl_field ds')"
proof (rule sort_key_inj_key_eq)
  show "mset (map decl_field ds) = mset (sort_key f_offset (map decl_field ds'))" using assms(1) by simp
  have "inj_on decl_offset (set ds)" using assms(2) by (simp add: distinct_map)
  then show "inj_on f_offset (set (map decl_field ds))" by (auto simp: inj_on_def)
qed simp

lemma described_perm:
  assumes "mset ds = mset ds'" "distinct (map decl_offset ds)"
  shows "described n tid bid sz ds = described n tid bid sz ds'"
  using sort_decls_order[OF assms] mset_eq_setD[OF assms(1)] by (simp add: described_def)

section \<open>Lookup\<close>

lemma lower_bound_spec:
  assumes "\<And>i j. i \<le> j \<Longrightarrow> j < length xs \<Longrightarrow> cmp (xs ! j) \<Longrightarrow> cmp (xs ! i)"
    and "first + len \<le> length xs" "\<forall>i < first. cmp (xs ! i)" "\<forall>i. first + len \<le> i \<and> i < length xs \<longrightarrow> \<not> cmp (xs ! i)"
  shows "lower_bound cmp xs first len \<le> length xs
    \<and> (\<forall>i < lower_bound cmp xs first len. cmp (xs ! i))
    \<and> (\<forall>i. lower_bound cmp xs first len \<le> i \<and> i < length xs \<longrightarrow> \<not> cmp (xs ! i))"
  using assms(2-4)
proof (induction "len" arbitrary: first rule: less_induct)
  case (less len)
  let ?k = "first + len div 2"
  show ?case
  proof (cases "len = 0")
    case True
    with less.prems show ?thesis by (simp add: lower_bound.simps[of cmp xs first])
  next
    case pos: False
    then have k: "?k < first + len" by simp
    show ?thesis
    proof (cases "cmp (xs ! ?k)")
      case True
      let ?l = "len - (len div 2 + 1)"
      have eq: "lower_bound cmp xs first len = lower_bound cmp xs (?k + 1) ?l"
        using pos True by (simp add: lower_bound.simps[of cmp xs first])
      have "cmp (xs ! i)" if "i < ?k + 1" for i
        using assms(1)[of i ?k] True k less.prems(1) that by linarith
      then have low: "\<forall>i < ?k + 1. cmp (xs ! i)" by blast
      have sum: "?k + 1 + ?l = first + len" and "?l < len" using pos by simp_all
      from less.IH[OF this(2) _ low] less.prems(1,3) show ?thesis unfolding eq sum by blast
    next
      case False
      have eq: "lower_bound cmp xs first len = lower_bound cmp xs first (len div 2)"
        using pos False by (simp add: lower_bound.simps[of cmp xs first])
      have high: "\<forall>i. ?k \<le> i \<and> i < length xs \<longrightarrow> \<not> cmp (xs ! i)"
        using assms(1)[of ?k] False by blast
      have "?k \<le> length xs" "len div 2 < len" using k less.prems(1) pos by simp_all
      from less.IH[OF this(2,1) less.prems(2) high] show ?thesis unfolding eq .
    qed
  qed
qed

lemma find_builtin:
  assumes "sorted (map typeId types)"
  shows "findDataType_builtin types i = find (\<lambda>t. typeId t = i) types"
proof -
  let ?k = "lower_bound (\<lambda>t. typeId t < i) types 0 (length types)"
  have le: "a \<le> b \<Longrightarrow> b < length types \<Longrightarrow> typeId (types ! a) \<le> typeId (types ! b)" for a b
    using sorted_nth_mono[OF assms, of a b] by simp
  have lb: "?k \<le> length types \<and> (\<forall>j < ?k. typeId (types ! j) < i) \<and> (\<forall>j. ?k \<le> j \<and> j < length types \<longrightarrow> \<not> typeId (types ! j) < i)"
  proof (rule lower_bound_spec)
    show "typeId (types ! a) < i" if "a \<le> j" "j < length types" "typeId (types ! j) < i" for a j
      using le[OF that(1,2)] that(3) by simp
    show "\<forall>j. 0 + length types \<le> j \<and> j < length types \<longrightarrow> \<not> typeId (types ! j) < i" by auto
  qed simp_all
  note k = lb[THEN conjunct2, THEN conjunct1] lb[THEN conjunct2, THEN conjunct2]
  show ?thesis
  proof (cases "?k < length types \<and> typeId (types ! ?k) = i")
    case True
    moreover have "\<forall>j < ?k. typeId (types ! j) \<noteq> i" using k(1) by force
    ultimately have "find (\<lambda>t. typeId t = i) types = Some (types ! ?k)" by (auto simp: find_Some_iff)
    with True show ?thesis by (simp add: findDataType_builtin_def)
  next
    case False
    have "typeId (types ! j) \<noteq> i" if "j < length types" for j
    proof (cases "j < ?k")
      case True
      with k(1) show ?thesis by force
    next
      case ge: False
      then have "typeId (types ! ?k) \<le> typeId (types ! j)" "\<not> typeId (types ! ?k) < i" "?k < length types"
        using le[of ?k j] k(2) that by auto
      with False show ?thesis by auto
    qed
    then have "find (\<lambda>t. typeId t = i) types = None" by (auto simp: find_None_iff in_set_conv_nth)
    with False show ?thesis by (auto simp: findDataType_builtin_def)
  qed
qed

lemma find_append: "find P (xs @ ys) = (case find P xs of Some x \<Rightarrow> Some x | None \<Rightarrow> find P ys)"
  by (induction xs) simp_all

lemma find_custom_concat: "find_custom cs i = find (\<lambda>t. typeId t = i) (concat (map arr_types cs))"
  by (induction cs) (simp_all add: find_append split: option.splits)

section \<open>Properties\<close>


definition demo_mem :: mem where "demo_mem = \<lparr>budget = 100, live = 0\<rparr>"

definition int32_type :: "nat DataType" where
  "int32_type = (zero_type 0)\<lparr>typeName := Some ''Int32'', typeId := 6, memSize := 4, pointerFree := True\<rparr>"

definition string_type :: "nat DataType" where
  "string_type = (zero_type 0)\<lparr>typeName := Some ''String'', typeId := 12, memSize := 16\<rparr>"

text \<open>\<open>struct S { String* c; int32_t a; String b; }\<close> with the fields declared out of order.\<close>

definition demo_decls :: "nat decl list" where
  "demo_decls = [Plain ''b'' \<lparr>is_pointer = False, pointee_size = 16\<rparr> 16 12 string_type,
     Plain ''a'' \<lparr>is_pointer = False, pointee_size = 4\<rparr> 8 6 int32_type,
     Plain ''c'' \<lparr>is_pointer = True, pointee_size = 16\<rparr> 0 12 string_type]"

definition demo_start :: "nat DataType outc \<times> mem" where
  "demo_start = createStructure 0 ''S'' 3001 3002 32 demo_mem"

definition demo_fields :: "unit outc \<times> nat builder" where
  "demo_fields = add_decls demo_decls \<lparr>b_mem = snd demo_start, b_type = projr (fst demo_start), b_fields = []\<rparr>"

definition demo_built :: "nat DataType outc \<times> nat builder" where
  "demo_built = build True (snd demo_fields)"

lemma demo_start_ok: "createStructure 0 ''S'' 3001 3002 32 demo_mem = (Ret (projr (fst demo_start)), snd demo_start)"
  by code_simp

lemma demo_fields_ok:
  "add_decls demo_decls \<lparr>b_mem = snd demo_start, b_type = projr (fst demo_start), b_fields = []\<rparr> = (Ret (), snd demo_fields)"
  by code_simp

lemma demo_built_ok: "build True (snd demo_fields) = (Ret (projr (fst demo_built)), snd demo_built)"
proof -
  have "returns (fst demo_built)" by code_simp
  then show ?thesis by (cases "build True (snd demo_fields)") (auto simp: returns_iff demo_built_def)
qed


section \<open>Custom types\<close>

lemma copy_types_cases:
  assumes "copy_types ds m = (r, m')"
  shows "live m \<le> live m'"
    and "r = Ret ds' \<Longrightarrow> ds' = map copied_type ds \<and> live m' = live m + (\<Sum>d \<leftarrow> ds'. own_type d)"
proof -
  have "live m \<le> live m' \<and> (\<forall>ds'. r = Ret ds' \<longrightarrow> ds' = map copied_type ds \<and> live m' = live m + (\<Sum>d \<leftarrow> ds'. own_type d))"
    using assms
  proof (induction ds arbitrary: m r m')
    case (Cons d ds)
    obtain q k where c: "copy_type d m = (q, k)" by fastforce
    obtain q2 k2 where c2: "copy_types ds k = (q2, k2)" by fastforce
    note IH = Cons.IH[OF c2]
    show ?case
    proof (cases rule: copy_type_cases[OF c])
      case (1 e)
      with Cons.prems c show ?thesis by (auto simp: op_bind_def)
    next
      case 2
      moreover have "0 \<le> own_type (copied_type d)"
        by (auto simp: own_type_def c_str_count_def own_member_def intro!: add_nonneg_nonneg sum_list_nonneg split: option.splits)
      ultimately show ?thesis using Cons.prems c c2 IH by (cases q2) (auto simp: op_bind_def)
    qed
  qed auto
  then show "live m \<le> live m'"
    and "r = Ret ds' \<Longrightarrow> ds' = map copied_type ds \<and> live m' = live m + (\<Sum>d \<leftarrow> ds'. own_type d)" by auto
qed

lemma addDataTypes_cases:
  assumes "addDataTypes head ds m = (r, m')"
  obtains (fails) e where "r = Inl e" "live m \<le> live m'"
    | (added) "r = Ret (\<lparr>arr_types = map copied_type ds, arr_cleanup = True\<rparr> # head)"
        "live m' = live m + 1 + free_array ds + (\<Sum>d \<leftarrow> map copied_type ds. own_type d)"
proof -
  obtain q k where a: "alloc_block BadAlloc m = (q, k)" by fastforce
  show thesis
  proof (cases rule: alloc_block_cases[OF a])
    case 1
    with assms a show thesis by (intro fails[of "Throw BadAlloc"]) (auto simp: addDataTypes_def op_bind_def)
  next
    case 2
    obtain q2 k2 where c: "copyArray_types ds k = (q2, k2)" by fastforce
    have run: "m' = k2 \<and> r = (case q2 of Inl e \<Rightarrow> Inl e | Inr ds' \<Rightarrow> Ret (\<lparr>arr_types = ds', arr_cleanup = True\<rparr> # head))"
      using assms a 2 c by (cases q2) (auto simp: addDataTypes_def op_bind_def)
    show thesis
    proof (cases "2 ^ 31 - 1 < length ds")
      case True
      with c run 2 show thesis by (intro fails[of "Throw BadAlloc"]) (auto simp: copyArray_types_def)
    next
      case small: False
      show thesis
      proof (cases "ds = []")
        case True
        with c run 2 small show thesis by (intro added) (auto simp: copyArray_types_def free_array_def)
      next
        case ne: False
        obtain q3 k3 where b: "alloc_block BadAlloc k = (q3, k3)" by fastforce
        obtain q4 k4 where t: "copy_types ds k3 = (q4, k4)" by fastforce
        show thesis
        proof (cases rule: alloc_block_cases[OF b])
          case 1
          with c run 2 small ne b show thesis
            by (intro fails[of "Throw BadAlloc"]) (auto simp: copyArray_types_def op_bind_def)
        next
          case b2: 2
          have "q2 = q4" "k2 = k4" using c small ne b b2 t by (simp_all add: copyArray_types_def op_bind_def)
          with run 2 b2 copy_types_cases[OF t] ne show thesis
            by (cases q4) (auto simp: free_array_def intro: fails added)
        qed
      qed
    qed
  qed
qed

lemma find_map_copied: "find (\<lambda>t. typeId t = i) (map copied_type ts) = map_option copied_type (find (\<lambda>t. typeId t = i) ts)"
  by (induction ts) (simp_all add: copied_type_def)

lemma clear_types_own: "clear_types z ds = (\<Sum>d \<leftarrow> ds. own_type d)"
  by (induction ds) (simp_all add: clear_type_own)

lemma deallocate_live_shift: "live (deallocate_types z as m) = live m + live (deallocate_types z as \<lparr>budget = 0, live = 0\<rparr>)"
proof (induction as arbitrary: m)
  case (Cons a as)
  show ?case
    using Cons.IH[of "free_blocks (clear_array z a + 1) m"]
      Cons.IH[of "free_blocks (clear_array z a + 1) \<lparr>budget = 0, live = 0\<rparr>"] Cons.IH[of m]
    by (auto simp: free_blocks_def)
qed simp

text \<open>Looking a type up: the binary search over the sorted built-in table is a linear search, custom types are searched
  after the built-in ones, the array added last first; so after \<open>addDataTypes\<close> the id of an added type finds its copy
  unless a built-in type has that id, and every other id finds what it found before.\<close>

theorem findDataType_correct:
  assumes "sorted (map typeId types)"
  shows "findDataType types i custom = find (\<lambda>t. typeId t = i) (types @ concat (map arr_types custom))
    \<and> (addDataTypes custom ts m = (Ret custom', m') \<longrightarrow> findDataType types i custom' =
      (case find (\<lambda>t. typeId t = i) types of Some t \<Rightarrow> Some t | None \<Rightarrow>
         (case find (\<lambda>t. typeId t = i) ts of Some t \<Rightarrow> Some (copied_type t) | None \<Rightarrow> findDataType types i custom)))"
proof -
  have look: "findDataType types i custom = find (\<lambda>t. typeId t = i) (types @ concat (map arr_types custom))" for custom
    unfolding findDataType_def find_builtin[OF assms] find_custom_concat find_append by simp
  have "custom' = \<lparr>arr_types = map copied_type ts, arr_cleanup = True\<rparr> # custom" if "addDataTypes custom ts m = (Ret custom', m')"
    using that by (cases rule: addDataTypes_cases) auto
  then show ?thesis
    unfolding look by (auto simp: find_append find_map_copied split: option.splits)
qed

definition demo_table :: "nat DataType list" where "demo_table = [int32_type, string_type]"

definition demo_custom :: "nat DataTypeArray list outc \<times> mem" where
  "demo_custom = addDataTypes [] [int32_type\<lparr>typeId := 3001\<rparr>] demo_mem"

lemma demo_custom_ok: "addDataTypes [] [int32_type\<lparr>typeId := 3001\<rparr>] demo_mem = (Ret (projr (fst demo_custom)), snd demo_custom)"
proof -
  have "returns (fst demo_custom)"
    by (simp add: demo_custom_def addDataTypes_def copyArray_types_def alloc_block_def op_bind_def demo_mem_def int32_type_def
        copy_type_def view_cstr_def allocCString_def copyMembers_def zero_type_def)
  then show ?thesis
    by (cases "addDataTypes [] [int32_type\<lparr>typeId := 3001\<rparr>] demo_mem") (auto simp: returns_iff demo_custom_def)
qed

theorem findDataType_correct_witness:
  "findDataType demo_table 12 [] = Some string_type \<and> findDataType demo_table 3001 [] = None
   \<and> findDataType demo_table 3001 (projr (fst demo_custom)) = Some (copied_type (int32_type\<lparr>typeId := 3001\<rparr>))"
proof -
  have s: "sorted (map typeId demo_table)" by code_simp
  note ids = demo_table_def int32_type_def string_type_def
  have "findDataType demo_table 12 [] = Some string_type" "findDataType demo_table 3001 [] = None"
    using findDataType_correct[OF s, of 12 "[]"] findDataType_correct[OF s, of 3001 "[]"] by (simp_all add: ids)
  moreover have "findDataType demo_table 3001 (projr (fst demo_custom)) = Some (copied_type (int32_type\<lparr>typeId := 3001\<rparr>))"
    using findDataType_correct[OF s, of 3001 "[]" "[int32_type\<lparr>typeId := 3001\<rparr>]" demo_mem] demo_custom_ok by (simp add: ids)
  ultimately show ?thesis by blast
qed


definition demo_world0 :: "nat DataType wworld" where
  "demo_world0 = \<lparr>w_mem = \<lparr>budget = 9, live = 0\<rparr>, w_objs = (\<lambda>_. None)\<rparr>"


text \<open>A copy that fails on its way leaks what it has already allocated: nothing owns the name of the type.\<close>

lemma failed_copy_leaks:
  "fst (copy_type (string_type\<lparr>members := [zero_member\<lparr>memberName := Some ''x''\<rparr>]\<rparr>) \<lparr>budget = 1, live = 0\<rparr>) = throw BadAlloc
   \<and> live (snd (copy_type (string_type\<lparr>members := [zero_member\<lparr>memberName := Some ''x''\<rparr>]\<rparr>) \<lparr>budget = 1, live = 0\<rparr>)) = 1"
  by code_simp

text \<open>Copying a description whose name was never set reads a null pointer.\<close>

lemma copy_unnamed_undefined: "fst (copy_type (zero_type z) m) = Inl Undef"
  by (simp add: copy_type_def zero_type_def view_cstr_def op_bind_def)

end
