(* ===== verification/Node_Contexts.thy ===== *)
theory Node_Contexts
  imports Callbacks
begin

text \<open>
  Contexts of nodes in a server (\<open>detail/server_context.hpp\<close>, \<open>detail/ptr.hpp\<close>, \<open>plugin/nodestore.cpp\<close>, the method
  callbacks of \<open>services_nodemanagement.cpp\<close> and the value backends of \<open>server.cpp\<close>): the user's method callbacks, value
  callbacks and data sources live in a \<open>NodeContext\<close> owned by the context map of the server, to which the native node
  points; the value callbacks and data sources are owned by the context or borrowed from the user. Contexts, user objects
  and node ids are numbers; the native server's status codes are arguments.
\<close>

section \<open>Owning or raw pointers\<close>

record uptr =
  up_unique :: "nat option"
  up_raw :: "nat option"

definition uptr_null :: uptr where
  "uptr_null = \<lparr>up_unique = None, up_raw = None\<rparr>"

definition uptr_of_unique :: "nat option \<Rightarrow> uptr" where
  "uptr_of_unique p = \<lparr>up_unique = p, up_raw = p\<rparr>"

definition uptr_of_raw :: "nat option \<Rightarrow> uptr" where
  "uptr_of_raw p = \<lparr>up_unique = None, up_raw = p\<rparr>"

definition uptr_get :: "uptr \<Rightarrow> nat option" where
  "uptr_get u = up_raw u"

definition uptr_is_null :: "uptr \<Rightarrow> bool" where
  "uptr_is_null u = (uptr_get u = None)"

section \<open>Node contexts and native nodes\<close>

text \<open>A method callback of one of the two signatures, as an \<open>std::function\<close> that may be empty: from the input and the
  output arguments before the call to an outcome and the output arguments after it.\<close>

datatype 'v method_callback =
    SimpleCallback "('v list \<Rightarrow> 'v list \<Rightarrow> unit outc \<times> 'v list) option"
  | FullCallback "(nat \<Rightarrow> 'v list \<Rightarrow> 'v list \<Rightarrow> nat \<Rightarrow> nat \<Rightarrow> u32 outc \<times> 'v list) option"

record 'v NodeContext =
  valueCallback :: uptr
  dataSource :: uptr
  methodCallback :: "'v method_callback"

text \<open>What the native node keeps: the context pointer and which of the library's callbacks are installed.\<close>

record native_node =
  nn_context :: "nat option"
  nn_value :: bool
  nn_source :: bool
  nn_method :: bool

definition plain_node :: native_node where
  "plain_node = \<lparr>nn_context = None, nn_value = False, nn_source = False, nn_method = False\<rparr>"

text \<open>\<open>ns_owned\<close> are the user objects the library has to delete, \<open>ns_user\<close> those the user keeps; \<open>ns_bad\<close> is set by a double
  deletion and by an access to a deleted context or object.\<close>

record 'v node_state =
  ns_ctx :: "nat \<Rightarrow> 'v NodeContext"
  ns_map :: "(nat, nat) cmap"
  ns_next :: nat
  ns_nodes :: "nat \<Rightarrow> native_node option"
  ns_owned :: "nat set"
  ns_user :: "nat set"
  ns_bad :: bool

definition ns_init :: "(nat \<Rightarrow> 'v NodeContext) \<Rightarrow> 'v node_state" where
  "ns_init ctx = \<lparr>ns_ctx = ctx, ns_map = [], ns_next = 0, ns_nodes = (\<lambda>_. None), ns_owned = {}, ns_user = {}, ns_bad = False\<rparr>"

definition ns_alive :: "'v node_state \<Rightarrow> nat \<Rightarrow> bool" where
  "ns_alive s a = (a \<in> set (map snd (ns_map s)))"

definition object_alive :: "'v node_state \<Rightarrow> nat \<Rightarrow> bool" where
  "object_alive s p = (p \<in> ns_owned s \<or> p \<in> ns_user s)"

section \<open>Ownership\<close>

definition delete_object :: "nat \<Rightarrow> 'v node_state \<Rightarrow> 'v node_state" where
  "delete_object p s = (if p \<in> ns_owned s then s\<lparr>ns_owned := ns_owned s - {p}\<rparr> else s\<lparr>ns_bad := True\<rparr>)"

definition uptr_delete :: "uptr \<Rightarrow> 'v node_state \<Rightarrow> 'v node_state" where
  "uptr_delete u s = (case up_unique u of None \<Rightarrow> s | Some p \<Rightarrow> delete_object p s)"

text \<open>The members are destroyed in the reverse of their order.\<close>

definition delete_context :: "nat \<Rightarrow> 'v node_state \<Rightarrow> 'v node_state" where
  "delete_context a s = uptr_delete (valueCallback (ns_ctx s a)) (uptr_delete (dataSource (ns_ctx s a)) s)"

definition make_context :: "'v method_callback \<Rightarrow> 'v node_state \<Rightarrow> nat \<times> 'v node_state" where
  "make_context cb s = (ns_next s,
     s\<lparr>ns_ctx := (ns_ctx s)(ns_next s := \<lparr>valueCallback = uptr_null, dataSource = uptr_null, methodCallback = cb\<rparr>),
       ns_next := Suc (ns_next s)\<rparr>)"

text \<open>\<open>nodeContexts.insert\<close>: node contexts are never stale; a previous context of the id is deleted.\<close>

definition store_context :: "nat \<Rightarrow> nat \<Rightarrow> 'v node_state \<Rightarrow> 'v node_state" where
  "store_context i a s = (case cm_find (ns_map s) i of None \<Rightarrow> s | Some b \<Rightarrow> delete_context b s)
     \<lparr>ns_map := cm_insert (\<lambda>_. False) i a (ns_map s)\<rparr>"

definition set_node :: "nat \<Rightarrow> (native_node \<Rightarrow> native_node) \<Rightarrow> 'v node_state \<Rightarrow> 'v node_state" where
  "set_node i f s = s\<lparr>ns_nodes := (ns_nodes s)(i := map_option f (ns_nodes s i))\<rparr>"

section \<open>Operations\<close>

text \<open>\<open>addMethod\<close>: the native status and the id of the new node are arguments, as is whether the insertion into the map finds
  memory; the context is deleted when anything throws.\<close>

definition addMethod_body :: "'v method_callback \<Rightarrow> u32 \<times> nat \<Rightarrow> bool \<Rightarrow> ('v node_state, nat) op" where
  "addMethod_body cb native memory s = (case (make_context cb s, native) of ((a, s1), (status, i)) \<Rightarrow>
     (case throwIfBad status of
        Inl f \<Rightarrow> (Inl f, delete_context a s1)
      | Inr _ \<Rightarrow> (let s2 = s1\<lparr>ns_nodes := (ns_nodes s1)(i := Some (plain_node\<lparr>nn_context := Some a, nn_method := True\<rparr>))\<rparr> in
          if memory then (Ret i, store_context i a s2) else (throw BadAlloc, delete_context a s2))))"

definition addMethod :: "'v method_callback \<Rightarrow> u32 \<times> nat \<Rightarrow> bool \<Rightarrow> ('v node_state, nat Result) op" where
  "addMethod cb native memory s = (case addMethod_body cb native memory s of (r, s') \<Rightarrow> (tryInvoke (\<lambda>_. r), s'))"

definition setMethodCallback_body ::
  "nat \<Rightarrow> 'v method_callback \<Rightarrow> u32 \<Rightarrow> u32 \<Rightarrow> bool \<Rightarrow> ('v node_state, unit) op" where
  "setMethodCallback_body i cb statusCallback statusContext memory s = (case make_context cb s of (a, s1) \<Rightarrow>
     (case throwIfBad statusCallback of
        Inl f \<Rightarrow> (Inl f, delete_context a s1)
      | Inr _ \<Rightarrow> (let s2 = set_node i (\<lambda>n. n\<lparr>nn_method := True\<rparr>) s1 in
          case throwIfBad statusContext of
            Inl f \<Rightarrow> (Inl f, delete_context a s2)
          | Inr _ \<Rightarrow> (let s3 = set_node i (\<lambda>n. n\<lparr>nn_context := Some a\<rparr>) s2 in
              if memory then (Ret (), store_context i a s3) else (throw BadAlloc, delete_context a s3)))))"

definition setMethodCallback :: "nat \<Rightarrow> 'v method_callback \<Rightarrow> u32 \<Rightarrow> u32 \<Rightarrow> bool \<Rightarrow> 'v node_state \<Rightarrow> u32 outc \<times> 'v node_state" where
  "setMethodCallback i cb k k' memory s = (case setMethodCallback_body i cb k k' memory s of
     (r, s') \<Rightarrow> (outc_bind (tryInvokeVoid (\<lambda>_. r)) (\<lambda>v. Ret (vcode v)), s'))"

text \<open>\<open>nodeContexts[id]\<close> creates an empty context when there is none.\<close>

definition node_context :: "nat \<Rightarrow> 'v node_state \<Rightarrow> nat \<times> 'v node_state" where
  "node_context i s = (case cm_find (ns_map s) i of
      Some a \<Rightarrow> (a, s)
    | None \<Rightarrow> (case make_context (SimpleCallback None) s of (a, s1) \<Rightarrow> (a, store_context i a s1)))"

definition setVariableNodeValueCallbackImpl :: "nat \<Rightarrow> uptr \<Rightarrow> u32 \<Rightarrow> u32 \<Rightarrow> ('v node_state, unit) op" where
  "setVariableNodeValueCallbackImpl i callback statusContext statusCallback s = (case node_context i s of (a, s1) \<Rightarrow>
     (let s2 = (uptr_delete (valueCallback (ns_ctx s1 a)) s1)
            \<lparr>ns_ctx := (ns_ctx s1)(a := (ns_ctx s1 a)\<lparr>valueCallback := callback\<rparr>)\<rparr> in
      case throwIfBad statusContext of
        Inl f \<Rightarrow> (Inl f, s2)
      | Inr _ \<Rightarrow> (let s3 = set_node i (\<lambda>n. n\<lparr>nn_context := Some a\<rparr>) s2 in
          if uptr_is_null callback then (Inl Undef, s3)
          else (case throwIfBad statusCallback of
              Inl f \<Rightarrow> (Inl f, s3)
            | Inr _ \<Rightarrow> (Ret (), set_node i (\<lambda>n. n\<lparr>nn_value := True\<rparr>) s3)))))"

definition setVariableNodeValueBackend :: "nat \<Rightarrow> uptr \<Rightarrow> u32 \<Rightarrow> u32 \<Rightarrow> ('v node_state, unit) op" where
  "setVariableNodeValueBackend i source statusContext statusSource s = (case node_context i s of (a, s1) \<Rightarrow>
     (let s2 = (uptr_delete (dataSource (ns_ctx s1 a)) s1)
            \<lparr>ns_ctx := (ns_ctx s1)(a := (ns_ctx s1 a)\<lparr>dataSource := source\<rparr>)\<rparr> in
      case throwIfBad statusContext of
        Inl f \<Rightarrow> (Inl f, s2)
      | Inr _ \<Rightarrow> (let s3 = set_node i (\<lambda>n. n\<lparr>nn_context := Some a\<rparr>) s2 in
          if uptr_is_null source then (Inl Undef, s3)
          else (case throwIfBad statusSource of
              Inl f \<Rightarrow> (Inl f, s3)
            | Inr _ \<Rightarrow> (Ret (), set_node i (\<lambda>n. n\<lparr>nn_source := True\<rparr>) s3)))))"

text \<open>The overloads for a reference, which borrow, and for a \<open>unique_ptr\<close>, which own; the methods of \<open>Server\<close> forward to them.\<close>

definition setVariableNodeValueCallback_ref :: "nat \<Rightarrow> nat \<Rightarrow> u32 \<Rightarrow> u32 \<Rightarrow> ('v node_state, unit) op" where
  "setVariableNodeValueCallback_ref i callback = setVariableNodeValueCallbackImpl i (uptr_of_raw (Some callback))"

definition setVariableNodeValueCallback_unique :: "nat \<Rightarrow> nat option \<Rightarrow> u32 \<Rightarrow> u32 \<Rightarrow> ('v node_state, unit) op" where
  "setVariableNodeValueCallback_unique i callback = setVariableNodeValueCallbackImpl i (uptr_of_unique callback)"

definition setVariableNodeValueBackend_ref :: "nat \<Rightarrow> nat \<Rightarrow> u32 \<Rightarrow> u32 \<Rightarrow> ('v node_state, unit) op" where
  "setVariableNodeValueBackend_ref i source = setVariableNodeValueBackend i (uptr_of_raw (Some source))"

definition setVariableNodeValueBackend_unique :: "nat \<Rightarrow> nat option \<Rightarrow> u32 \<Rightarrow> u32 \<Rightarrow> ('v node_state, unit) op" where
  "setVariableNodeValueBackend_unique i source = setVariableNodeValueBackend i (uptr_of_unique source)"

definition Server_setVariableNodeValueCallback_ref :: "nat \<Rightarrow> nat \<Rightarrow> u32 \<Rightarrow> u32 \<Rightarrow> ('v node_state, unit) op" where
  "Server_setVariableNodeValueCallback_ref i callback = setVariableNodeValueCallback_ref i callback"

definition Server_setVariableNodeValueCallback_unique :: "nat \<Rightarrow> nat option \<Rightarrow> u32 \<Rightarrow> u32 \<Rightarrow> ('v node_state, unit) op" where
  "Server_setVariableNodeValueCallback_unique i callback = setVariableNodeValueCallback_unique i callback"

definition Server_setVariableNodeDataSource_ref :: "nat \<Rightarrow> nat \<Rightarrow> u32 \<Rightarrow> u32 \<Rightarrow> ('v node_state, unit) op" where
  "Server_setVariableNodeDataSource_ref i source = setVariableNodeValueBackend_ref i source"

definition Server_setVariableNodeDataSource_unique :: "nat \<Rightarrow> nat option \<Rightarrow> u32 \<Rightarrow> u32 \<Rightarrow> ('v node_state, unit) op" where
  "Server_setVariableNodeDataSource_unique i source = setVariableNodeValueBackend_unique i source"

lemmas server_overload_defs = Server_setVariableNodeValueCallback_ref_def Server_setVariableNodeValueCallback_unique_def
  Server_setVariableNodeDataSource_ref_def Server_setVariableNodeDataSource_unique_def
  setVariableNodeValueCallback_ref_def setVariableNodeValueCallback_unique_def
  setVariableNodeValueBackend_ref_def setVariableNodeValueBackend_unique_def

section \<open>Native callbacks\<close>

text \<open>\<open>getSession\<close>, and the user's session object as the session id. The behaviour of the user's objects is given by functions
  of their address, the other arguments of the call being fixed. \<open>ctx\<close> is the context the native node passes.\<close>

definition getNodeSession :: "bool \<Rightarrow> nat option \<Rightarrow> nat option" where
  "getNodeSession has_wrapper sessionId = (if \<not> has_wrapper \<or> sessionId = None then None else sessionId)"

definition notify_value :: "bool \<Rightarrow> nat option \<Rightarrow> 'v NodeContext option \<Rightarrow> (nat \<Rightarrow> nat \<Rightarrow> unit outc) \<Rightarrow> (exn option, unit) op" where
  "notify_value has_wrapper sessionId ctx user = (case ctx of
      None \<Rightarrow> op_fail Undef
    | Some c \<Rightarrow> (case (uptr_get (valueCallback c), getNodeSession has_wrapper sessionId) of
          (Some p, Some session) \<Rightarrow> if has_wrapper then catcher_invoke (user p session) else op_ret ()
        | _ \<Rightarrow> op_ret ()))"

definition onReadNative :: "bool \<Rightarrow> nat option \<Rightarrow> 'v NodeContext option \<Rightarrow> (nat \<Rightarrow> nat \<Rightarrow> unit outc) \<Rightarrow> (exn option, unit) op" where
  "onReadNative has_wrapper sessionId ctx onRead = notify_value has_wrapper sessionId ctx onRead"

definition onWriteNative :: "bool \<Rightarrow> nat option \<Rightarrow> 'v NodeContext option \<Rightarrow> (nat \<Rightarrow> nat \<Rightarrow> unit outc) \<Rightarrow> (exn option, unit) op" where
  "onWriteNative has_wrapper sessionId ctx onWrite = notify_value has_wrapper sessionId ctx onWrite"

definition access_source :: "bool \<Rightarrow> nat option \<Rightarrow> 'v NodeContext option \<Rightarrow> (nat \<Rightarrow> nat \<Rightarrow> u32 outc) \<Rightarrow> u32 outc" where
  "access_source has_wrapper sessionId ctx user = (case ctx of
      None \<Rightarrow> Inl Undef
    | Some c \<Rightarrow> (case (uptr_get (dataSource c), getNodeSession has_wrapper sessionId) of
          (Some p, Some session) \<Rightarrow> outc_bind (tryInvokeCode (\<lambda>_. user p session)) (\<lambda>r. Ret (vcode r))
        | _ \<Rightarrow> Ret UA_STATUSCODE_BADINTERNALERROR))"

definition readNative :: "bool \<Rightarrow> nat option \<Rightarrow> 'v NodeContext option \<Rightarrow> (nat \<Rightarrow> nat \<Rightarrow> u32 outc) \<Rightarrow> u32 outc" where
  "readNative has_wrapper sessionId ctx read = access_source has_wrapper sessionId ctx read"

definition writeNative :: "bool \<Rightarrow> nat option \<Rightarrow> 'v NodeContext option \<Rightarrow> (nat \<Rightarrow> nat \<Rightarrow> u32 outc) \<Rightarrow> u32 outc" where
  "writeNative has_wrapper sessionId ctx write = access_source has_wrapper sessionId ctx write"

definition create_plugin :: "bool \<Rightarrow> 'n \<Rightarrow> 'n outc" where
  "create_plugin ownsAdapter native = (if ownsAdapter then throw (BadStatus UA_STATUSCODE_BADINTERNALERROR) else Ret native)"

text \<open>\<open>methodCallback\<close>: the status code for the caller and the output arguments.\<close>

definition method_callback_native ::
  "'v NodeContext option \<Rightarrow> nat \<Rightarrow> 'v list \<Rightarrow> 'v list \<Rightarrow> nat \<Rightarrow> nat \<Rightarrow> u32 outc \<times> 'v list" where
  "method_callback_native ctx session input out methodId objectId = (case ctx of
      None \<Rightarrow> (Inl Undef, out)
    | Some c \<Rightarrow> (case methodCallback c of
        SimpleCallback (Some cb) \<Rightarrow> (case cb input out of
            (r, out') \<Rightarrow> (outc_bind (tryInvokeVoid (\<lambda>_. r)) (\<lambda>v. Ret (vcode v)), out'))
      | FullCallback (Some cb) \<Rightarrow> (case cb session input out methodId objectId of
            (r, out') \<Rightarrow> (outc_bind (tryInvokeCode (\<lambda>_. r)) (\<lambda>v. Ret (vcode v)), out'))
      | _ \<Rightarrow> (Ret UA_STATUSCODE_BADINTERNALERROR, out)))"

section \<open>Steps\<close>

datatype callback_kind = ValueKind | SourceKind | MethodKind

definition node_slot :: "callback_kind \<Rightarrow> 'v NodeContext \<Rightarrow> uptr" where
  "node_slot kind c = (case kind of ValueKind \<Rightarrow> valueCallback c | SourceKind \<Rightarrow> dataSource c | MethodKind \<Rightarrow> uptr_null)"

definition installed_kind :: "callback_kind \<Rightarrow> native_node \<Rightarrow> bool" where
  "installed_kind kind n = (case kind of ValueKind \<Rightarrow> nn_value n | SourceKind \<Rightarrow> nn_source n | MethodKind \<Rightarrow> nn_method n)"

text \<open>The accesses of one native callback: to the context, and to the user object behind its pointer.\<close>

definition native_call :: "callback_kind \<Rightarrow> nat option \<Rightarrow> 'v node_state \<Rightarrow> 'v node_state" where
  "native_call kind ctx s = (case ctx of
      None \<Rightarrow> s\<lparr>ns_bad := True\<rparr>
    | Some a \<Rightarrow> if \<not> ns_alive s a then s\<lparr>ns_bad := True\<rparr>
        else (case uptr_get (node_slot kind (ns_ctx s a)) of
            None \<Rightarrow> s
          | Some p \<Rightarrow> if object_alive s p then s else s\<lparr>ns_bad := True\<rparr>))"

definition hand_over :: "nat \<Rightarrow> 'v node_state \<Rightarrow> 'v node_state" where
  "hand_over p s = s\<lparr>ns_owned := insert p (ns_owned s)\<rparr>"

text \<open>What is relied on of the native server and of the user: a method callback is accepted only for an existing node, whose
  context can then be set; insertions find memory; an owned object is new; a borrowed one is the user's, who does not delete
  it while a context points to it.\<close>

inductive node_step :: "'v node_state \<Rightarrow> 'v node_state \<Rightarrow> bool" where
  st_add: "ns_nodes s i = None \<Longrightarrow> node_step s (s\<lparr>ns_nodes := (ns_nodes s)(i := Some plain_node)\<rparr>)"
| st_delete: "node_step s (s\<lparr>ns_nodes := (ns_nodes s)(i := None)\<rparr>)"
| st_addMethod: "node_step s (snd (addMethod cb (status, i) True s))"
| st_setMethod: "(\<not> isBad k \<longrightarrow> \<not> isBad k') \<Longrightarrow> node_step s (snd (setMethodCallback i cb k k' True s))"
| st_value_own: "\<not> object_alive s p \<Longrightarrow>
    node_step s (snd (Server_setVariableNodeValueCallback_unique i (Some p) k k' (hand_over p s)))"
| st_value_null: "node_step s (snd (Server_setVariableNodeValueCallback_unique i None k k' s))"
| st_value_raw: "p \<in> ns_user s \<Longrightarrow> node_step s (snd (Server_setVariableNodeValueCallback_ref i p k k' s))"
| st_source_own: "\<not> object_alive s p \<Longrightarrow>
    node_step s (snd (Server_setVariableNodeDataSource_unique i (Some p) k k' (hand_over p s)))"
| st_source_null: "node_step s (snd (Server_setVariableNodeDataSource_unique i None k k' s))"
| st_source_raw: "p \<in> ns_user s \<Longrightarrow> node_step s (snd (Server_setVariableNodeDataSource_ref i p k k' s))"
| st_user_makes: "\<not> object_alive s p \<Longrightarrow> node_step s (s\<lparr>ns_user := insert p (ns_user s)\<rparr>)"
| st_user_deletes: "\<forall>k a. cm_find (ns_map s) k = Some a \<longrightarrow>
      uptr_get (valueCallback (ns_ctx s a)) \<noteq> Some p \<and> uptr_get (dataSource (ns_ctx s a)) \<noteq> Some p \<Longrightarrow>
    node_step s (s\<lparr>ns_user := ns_user s - {p}\<rparr>)"
| st_call: "ns_nodes s i = Some n \<Longrightarrow> installed_kind kind n \<Longrightarrow> node_step s (native_call kind (nn_context n) s)"

section \<open>Invariant\<close>

text \<open>The object a slot of the context stored for an id owns.\<close>

definition slot_owner :: "'v node_state \<Rightarrow> nat \<times> callback_kind \<Rightarrow> nat option" where
  "slot_owner s x = (case cm_find (ns_map s) (fst x) of
      None \<Rightarrow> None | Some a \<Rightarrow> up_unique (node_slot (snd x) (ns_ctx s a)))"

definition slot_ok :: "nat set \<Rightarrow> uptr \<Rightarrow> bool" where
  "slot_ok user u = (if up_unique u = None then (case up_raw u of None \<Rightarrow> True | Some p \<Rightarrow> p \<in> user) else up_raw u = up_unique u)"

definition node_held :: "'v node_state \<Rightarrow> nat \<Rightarrow> nat option" where
  "node_held s i = Option.bind (ns_nodes s i) nn_context"

text \<open>The part about contexts and their slots, \<open>E\<close> being the objects on their way into a slot, and the part about native nodes.\<close>

definition contexts_inv :: "nat set \<Rightarrow> 'v node_state \<Rightarrow> bool" where
  "contexts_inv E s = (\<not> ns_bad s \<and> ns_owned s \<inter> ns_user s = {}
     \<and> inj_on (slot_owner s) (dom (slot_owner s)) \<and> ran (slot_owner s) \<inter> E = {} \<and> ns_owned s = ran (slot_owner s) \<union> E
     \<and> (\<forall>k a kind. cm_find (ns_map s) k = Some a \<longrightarrow> a < ns_next s \<and> slot_ok (ns_user s) (node_slot kind (ns_ctx s a))))"

definition nodes_inv :: "'v node_state \<Rightarrow> bool" where
  "nodes_inv s = (backed (\<lambda>_. False) (node_held s) (ns_map s)
     \<and> (\<forall>i n kind. ns_nodes s i = Some n \<and> installed_kind kind n \<longrightarrow> nn_context n \<noteq> None))"

definition node_inv :: "'v node_state \<Rightarrow> bool" where
  "node_inv s = (contexts_inv {} s \<and> nodes_inv s)"

section \<open>Preservation\<close>

text \<open>Partial injective functions.\<close>

lemma ran_clear:
  assumes "inj_on f (dom f)"
  shows "ran (\<lambda>x. if P x then None else f x) = ran f - {p. \<exists>x. P x \<and> f x = Some p}"
    and "inj_on (\<lambda>x. if P x then None else f x) (dom (\<lambda>x. if P x then None else f x))"
  using assms by (auto simp: ran_def inj_on_def dom_def split: if_splits) (metis option.inject)+

lemma ran_set:
  assumes "inj_on f (dom f)" "\<And>p. v = Some p \<Longrightarrow> p \<notin> ran f"
  shows "ran (f(x := v)) = (ran f - set_option (f x)) \<union> set_option v" and "inj_on (f(x := v)) (dom (f(x := v)))"
  using assms by (auto simp: ran_def inj_on_def dom_def split: if_splits) (metis option.inject)+

lemma slot_owner_stored: "cm_find (ns_map s) i = Some a \<Longrightarrow> slot_owner s (i, kind) = up_unique (node_slot kind (ns_ctx s a))"
  by (simp add: slot_owner_def)

lemma uptr_delete_owned:
  "\<lbrakk>\<And>p. up_unique u = Some p \<Longrightarrow> p \<in> ns_owned s\<rbrakk> \<Longrightarrow> uptr_delete u s = s\<lparr>ns_owned := ns_owned s - set_option (up_unique u)\<rparr>"
  by (cases "up_unique u") (simp_all add: uptr_delete_def delete_object_def)

lemma delete_context_owned:
  assumes "contexts_inv E s" "cm_find (ns_map s) i = Some b"
  shows "delete_context b s = s\<lparr>ns_owned := ns_owned s - {p. \<exists>kind. slot_owner s (i, kind) = Some p}\<rparr>"
proof -
  let ?v = "up_unique (valueCallback (ns_ctx s b))" and ?d = "up_unique (dataSource (ns_ctx s b))"
  have o: "slot_owner s (i, ValueKind) = ?v" "slot_owner s (i, SourceKind) = ?d" "slot_owner s (i, MethodKind) = None"
    using slot_owner_stored[OF assms(2)] by (simp_all add: node_slot_def uptr_null_def)
  have mem: "p \<in> ns_owned s" if "slot_owner s x = Some p" for x p
    using assms(1) ranI[of "slot_owner s" x p, OF that] by (simp add: contexts_inv_def)
  have ne: "p \<noteq> q" if "?v = Some p" "?d = Some q" for p q
  proof
    assume "p = q"
    then have "slot_owner s (i, ValueKind) = slot_owner s (i, SourceKind)" using o that by simp
    moreover have "(i, ValueKind) \<in> dom (slot_owner s)" "(i, SourceKind) \<in> dom (slot_owner s)" using o that by auto
    ultimately show False using assms(1) by (auto simp: contexts_inv_def dest: inj_onD)
  qed
  have "{p. \<exists>kind. slot_owner s (i, kind) = Some p} = set_option ?v \<union> set_option ?d"
    using o by (auto; metis callback_kind.exhaust option.distinct(1))
  moreover have "uptr_delete (dataSource (ns_ctx s b)) s = s\<lparr>ns_owned := ns_owned s - set_option ?d\<rparr>"
    using mem o by (intro uptr_delete_owned) metis
  moreover have "uptr_delete (valueCallback (ns_ctx s b)) (s\<lparr>ns_owned := ns_owned s - set_option ?d\<rparr>)
      = s\<lparr>ns_owned := ns_owned s - set_option ?d - set_option ?v\<rparr>"
    using mem[of "(i, ValueKind)"] o ne by (subst uptr_delete_owned) auto
  ultimately show ?thesis by (simp add: delete_context_def set_diff_eq Un_commute)
qed

lemma slot_owner_cong: "ns_map s' = ns_map s \<Longrightarrow> ns_ctx s' = ns_ctx s \<Longrightarrow> slot_owner s' = slot_owner s"
  by (rule ext) (simp add: slot_owner_def cong: option.case_cong)

lemma slot_owner_nodes [simp]: "slot_owner (s\<lparr>ns_nodes := x\<rparr>) = slot_owner s"
  by (rule slot_owner_cong) simp_all

lemma contexts_inv_nodes [simp]:
  "contexts_inv E (s\<lparr>ns_nodes := x\<rparr>) = contexts_inv E s" "contexts_inv E (set_node i f s) = contexts_inv E s"
  by (simp_all add: contexts_inv_def set_node_def)

lemma find_store: "cm_inv m \<Longrightarrow> cm_find (cm_insert (\<lambda>_. False) i a m) k = (if k = i then Some a else cm_find m k)"
  by (simp add: ctx.find_insert ctx.find_sweep split: option.splits)

lemma store_context_simps [simp]:
  "ns_map (store_context i a s) = cm_insert (\<lambda>_. False) i a (ns_map s)"
  by (simp add: store_context_def)

definition new_context :: "nat \<Rightarrow> 'v node_state \<Rightarrow> bool" where
  "new_context a s = (a < ns_next s \<and> (\<forall>j. cm_find (ns_map s) j \<noteq> Some a) \<and> valueCallback (ns_ctx s a) = uptr_null
     \<and> dataSource (ns_ctx s a) = uptr_null)"

lemma new_slots: "new_context a s \<Longrightarrow> node_slot kind (ns_ctx s a) = uptr_null"
  by (cases kind) (simp_all add: new_context_def node_slot_def)

lemma delete_new: "new_context a s \<Longrightarrow> delete_context a s = s"
  by (simp add: new_context_def delete_context_def uptr_delete_def uptr_null_def)

lemma store_context_eff:
  assumes "contexts_inv E s" "cm_inv (ns_map s)"
  shows "store_context i a s = s\<lparr>ns_owned := ns_owned s - {p. \<exists>kind. slot_owner s (i, kind) = Some p},
    ns_map := cm_insert (\<lambda>_. False) i a (ns_map s)\<rparr>"
proof (cases "cm_find (ns_map s) i")
  case None
  then have "{p. \<exists>kind. slot_owner s (i, kind) = Some p} = {}" by (simp add: slot_owner_def)
  with None show ?thesis by (simp add: store_context_def)
qed (simp add: store_context_def delete_context_owned[OF assms(1)])

lemma contexts_store:
  assumes inv: "contexts_inv E s" and m: "cm_inv (ns_map s)" and a: "new_context a s"
  shows "contexts_inv E (store_context i a s)"
proof -
  let ?s = "store_context i a s" and ?gone = "{p. \<exists>kind. slot_owner s (i, kind) = Some p}"
  have eff: "?s = s\<lparr>ns_owned := ns_owned s - ?gone, ns_map := cm_insert (\<lambda>_. False) i a (ns_map s)\<rparr>"
    by (rule store_context_eff[OF inv m])
  have own: "slot_owner ?s = (\<lambda>x. if fst x = i then None else slot_owner s x)"
    unfolding eff using new_slots[OF a]
    by (auto simp: slot_owner_def find_store[OF m] uptr_null_def fun_eq_iff split: option.splits)
  have gone: "?gone = {p. \<exists>x. fst x = i \<and> slot_owner s x = Some p}" by force
  have disj: "?gone \<subseteq> ran (slot_owner s)" by (auto simp: ran_def)
  have i1: "inj_on (slot_owner s) (dom (slot_owner s))" using inv by (simp add: contexts_inv_def)
  note r = ran_clear[OF i1, of "\<lambda>x. fst x = i"]
  show ?thesis
    unfolding contexts_inv_def own r(1)
  proof (intro conjI allI impI)
    show "ns_owned ?s = (ran (slot_owner s) - {p. \<exists>x. fst x = i \<and> slot_owner s x = Some p}) \<union> E"
      using inv disj by (auto simp: eff contexts_inv_def gone[symmetric])
    show "slot_ok (ns_user ?s) (node_slot kind (ns_ctx ?s b))" "b < ns_next ?s" if "cm_find (ns_map ?s) k = Some b" for k b kind
      using that inv a new_slots[OF a, of kind]
      by (auto simp: eff find_store[OF m] contexts_inv_def slot_ok_def uptr_null_def new_context_def split: if_splits)
  qed (use inv r(2) in \<open>auto simp: eff contexts_inv_def\<close>)
qed

text \<open>Filling a slot of a stored context.\<close>

definition fill_slot :: "callback_kind \<Rightarrow> nat \<Rightarrow> uptr \<Rightarrow> 'v node_state \<Rightarrow> 'v node_state" where
  "fill_slot kind a u s = (uptr_delete (node_slot kind (ns_ctx s a)) s)
     \<lparr>ns_ctx := (ns_ctx s)(a := (case kind of ValueKind \<Rightarrow> (ns_ctx s a)\<lparr>valueCallback := u\<rparr>
        | SourceKind \<Rightarrow> (ns_ctx s a)\<lparr>dataSource := u\<rparr> | MethodKind \<Rightarrow> ns_ctx s a))\<rparr>"

lemma contexts_fill:
  assumes inv: "contexts_inv (set_option (up_unique u)) s" and b: "backed (\<lambda>_. False) held (ns_map s)"
    and a: "cm_find (ns_map s) i = Some a" and u: "slot_ok (ns_user s) u" and k: "kind \<noteq> MethodKind"
  shows "contexts_inv {} (fill_slot kind a u s)"
proof -
  let ?s = "fill_slot kind a u s" and ?x = "(i, kind)"
  have old: "slot_owner s ?x = up_unique (node_slot kind (ns_ctx s a))" by (rule slot_owner_stored[OF a])
  have i1: "inj_on (slot_owner s) (dom (slot_owner s))" and e: "ran (slot_owner s) \<inter> set_option (up_unique u) = {}"
    "ns_owned s = ran (slot_owner s) \<union> set_option (up_unique u)" using inv by (simp_all add: contexts_inv_def)
  have mem: "p \<in> ns_owned s" if "up_unique (node_slot kind (ns_ctx s a)) = Some p" for p
    using e(2) that old ranI[of "slot_owner s" ?x p] by simp
  have f: "ns_owned ?s = ns_owned s - set_option (slot_owner s ?x)" "ns_map ?s = ns_map s" "ns_user ?s = ns_user s"
    "ns_bad ?s = ns_bad s" "ns_next ?s = ns_next s" by (simp_all add: fill_slot_def uptr_delete_owned[OF mem] old)
  have slot: "node_slot kind' (ns_ctx ?s b) = (if b = a \<and> kind' = kind then u else node_slot kind' (ns_ctx s b))" for kind' b
    using k by (cases kind; cases kind') (simp_all add: fill_slot_def node_slot_def)
  have only: "cm_find (ns_map s) j = Some a \<Longrightarrow> j = i" for j using b a by (auto simp: backed_def)
  have own: "slot_owner ?s = (slot_owner s)(?x := up_unique u)"
  proof
    fix y :: "nat \<times> callback_kind"
    show "slot_owner ?s y = ((slot_owner s)(?x := up_unique u)) y"
    proof (cases "cm_find (ns_map s) (fst y)")
      case None
      then have "y \<noteq> ?x" using a by auto
      with None show ?thesis by (simp add: slot_owner_def f(2))
    next
      case (Some b)
      then have "slot_owner ?s y = up_unique (node_slot (snd y) (ns_ctx ?s b))" "slot_owner s y = up_unique (node_slot (snd y) (ns_ctx s b))"
        by (simp_all add: slot_owner_def f(2))
      moreover have "b = a \<and> snd y = kind \<longleftrightarrow> y = ?x" using Some a only[of "fst y"] by (cases y) auto
      ultimately show ?thesis by (simp add: slot)
    qed
  qed
  have v: "p \<notin> ran (slot_owner s)" if "up_unique u = Some p" for p using e(1) that by auto
  have r: "ran (slot_owner ?s) = (ran (slot_owner s) - set_option (slot_owner s ?x)) \<union> set_option (up_unique u)"
    "inj_on (slot_owner ?s) (dom (slot_owner ?s))"
    unfolding own by (rule ran_set(1)[OF i1 v], assumption, rule ran_set(2)[OF i1 v], assumption)
  have sub: "set_option (slot_owner s ?x) \<subseteq> ran (slot_owner s)" by (auto simp: ran_def)
  have ok: "slot_ok (ns_user s) (node_slot kind' (ns_ctx s b))" "b < ns_next s" if "cm_find (ns_map s) j = Some b" for j b kind'
    using inv that by (simp_all add: contexts_inv_def)
  show ?thesis
    unfolding contexts_inv_def r(1) f slot
  proof (intro conjI allI impI)
    show "ns_owned s - set_option (slot_owner s ?x) = ran (slot_owner s) - set_option (slot_owner s ?x) \<union> set_option (up_unique u) \<union> {}"
      using e sub by blast
    show "(ns_owned s - set_option (slot_owner s ?x)) \<inter> ns_user s = {}" "\<not> ns_bad s" using inv by (auto simp: contexts_inv_def)
    show "slot_ok (ns_user s) (if b = a \<and> kind' = kind then u else node_slot kind' (ns_ctx s b))" if "cm_find (ns_map s) j = Some b" for j b kind'
      using ok(1)[OF that] u by simp
  qed (use r(2) ok(2) in auto)
qed

lemma make_context_new:
  assumes "contexts_inv E s" "make_context cb s = (a, s1)"
  shows "contexts_inv E s1" "new_context a s1" "ns_map s1 = ns_map s" "ns_nodes s1 = ns_nodes s" "ns_user s1 = ns_user s"
proof -
  have s1: "a = ns_next s" "s1 = s\<lparr>ns_ctx := (ns_ctx s)(a := \<lparr>valueCallback = uptr_null, dataSource = uptr_null, methodCallback = cb\<rparr>),
      ns_next := Suc a\<rparr>" using assms(2) by (auto simp: make_context_def)
  have old: "cm_find (ns_map s) k = Some b \<Longrightarrow> b < a" for k b using assms(1) s1(1) by (simp add: contexts_inv_def)
  then have fresh: "cm_find (ns_map s) k \<noteq> Some a" for k by (metis less_irrefl)
  show f: "ns_map s1 = ns_map s" "ns_nodes s1 = ns_nodes s" "ns_user s1 = ns_user s" by (simp_all add: s1)
  show "new_context a s1" using fresh by (simp add: new_context_def s1)
  have "slot_owner s1 = slot_owner s"
    using fresh by (intro ext) (auto simp: slot_owner_def s1 split: option.splits)
  moreover have "cm_find (ns_map s1) k = Some b \<Longrightarrow> ns_ctx s1 b = ns_ctx s b \<and> b < Suc a" for k b
    using fresh[of k] old[of k b] by (auto simp: s1)
  ultimately show "contexts_inv E s1"
    using assms(1) unfolding contexts_inv_def by (auto simp: s1(2))
qed

lemma nodes_inv_flag: "nodes_inv s \<Longrightarrow> ns_nodes s i = Some n \<Longrightarrow> installed_kind kind n \<Longrightarrow> nn_context n \<noteq> None"
  unfolding nodes_inv_def by blast

text \<open>Changing one native node, whose context is the one found under its id.\<close>

lemma nodes_change:
  assumes "nodes_inv s" "cm_find (ns_map s) i = Some a" "\<forall>j. j \<noteq> i \<longrightarrow> x j = ns_nodes s j" "\<forall>n. x i = Some n \<longrightarrow> nn_context n = Some a"
  shows "nodes_inv (s\<lparr>ns_nodes := x\<rparr>)"
proof -
  have "backed (\<lambda>_. False) (node_held (s\<lparr>ns_nodes := x\<rparr>)) (ns_map s)"
    unfolding backed_def
  proof (intro conjI allI impI)
    fix k b assume k: "node_held (s\<lparr>ns_nodes := x\<rparr>) k = Some b"
    show "cm_find (ns_map s) k = Some b"
    proof (cases "k = i")
      case True
      then show ?thesis using k assms(2,4) by (cases "x i") (auto simp: node_held_def)
    next
      case False
      then have "node_held s k = Some b" using k assms(3) by (simp add: node_held_def)
      then show ?thesis using assms(1) by (simp add: nodes_inv_def backed_def)
    qed
  qed (use assms(1) in \<open>auto simp: nodes_inv_def backed_def\<close>)
  moreover have "nn_context n \<noteq> None" if "x j = Some n" "installed_kind kind n" for j n kind
    using that assms(3,4) nodes_inv_flag[OF assms(1), of j n kind] by (cases "j = i") auto
  ultimately show ?thesis unfolding nodes_inv_def by auto
qed

lemma nodes_store:
  assumes inv: "nodes_inv s" and fresh: "\<forall>j. cm_find (ns_map s) j \<noteq> Some a"
    and held: "node_held s i = None \<or> (\<forall>n. x i = Some n \<longrightarrow> nn_context n = Some a)"
    and x: "\<forall>j. j \<noteq> i \<longrightarrow> x j = ns_nodes s j" "\<forall>n. x i = Some n \<longrightarrow> nn_context n = Some a \<or> ns_nodes s i = Some n"
    and s': "ns_map s' = cm_insert (\<lambda>_. False) i a (ns_map s)" "ns_nodes s' = x"
  shows "nodes_inv s'"
proof -
  have b: "backed (\<lambda>_. False) ((node_held s)(i := None)) (ns_map s)" using inv by (simp add: nodes_inv_def backed_release)
  have "node_held s' = ((node_held s)(i := None))(i := Some a) \<or> node_held s' = (node_held s)(i := None)"
    using held x by (cases "x i") (auto simp: node_held_def s'(2) fun_eq_iff)
  then have "backed (\<lambda>_. False) (node_held s') (ns_map s')"
    using backed_insert[OF b _ _ fresh, of i] by (auto simp: s'(1))
  moreover have "nn_context n \<noteq> None" if "x j = Some n" "installed_kind kind n" for j n kind
    using that x nodes_inv_flag[OF inv, of j n kind] by (cases "j = i") auto
  ultimately show ?thesis unfolding nodes_inv_def s'(2) by auto
qed

lemma store_nodes [simp]: "ns_nodes (store_context i a s) = ns_nodes s"
proof -
  have d: "ns_nodes (uptr_delete u s) = ns_nodes s" for u and s :: "'a node_state"
    by (simp add: uptr_delete_def delete_object_def split: option.split)
  show ?thesis by (simp add: store_context_def delete_context_def d split: option.split)
qed

lemma new_context_nodes [simp]: "new_context a (s\<lparr>ns_nodes := x\<rparr>) = new_context a s"
  by (simp add: new_context_def)

lemma nodes_invD: "nodes_inv s \<Longrightarrow> cm_inv (ns_map s)"
  by (simp add: nodes_inv_def backed_def)

lemma nodes_inv_cong: "ns_map s' = ns_map s \<Longrightarrow> ns_nodes s' = ns_nodes s \<Longrightarrow> nodes_inv s' = nodes_inv s"
  by (simp add: nodes_inv_def node_held_def[abs_def])

lemma addMethod_inv:
  assumes "node_inv s"
  shows "node_inv (snd (addMethod cb (status, i) True s))"
proof -
  obtain a s1 where mk: "make_context cb s = (a, s1)" by fastforce
  have inv: "contexts_inv {} s" "nodes_inv s" using assms by (simp_all add: node_inv_def)
  note m = make_context_new[OF inv(1) mk]
  let ?s2 = "s1\<lparr>ns_nodes := (ns_nodes s1)(i := Some (plain_node\<lparr>nn_context := Some a, nn_method := True\<rparr>))\<rparr>"
  have "contexts_inv {} (store_context i a ?s2)"
    using m nodes_invD[OF inv(2)] by (intro contexts_store) simp_all
  moreover have "nodes_inv (store_context i a ?s2)"
    using m by (intro nodes_store[OF inv(2), of a i "ns_nodes ?s2"]) (auto simp: new_context_def)
  ultimately have good: "node_inv (store_context i a ?s2)" by (simp add: node_inv_def)
  have same: "node_inv s1" using m(1) inv(2) nodes_inv_cong[OF m(3,4)] by (simp add: node_inv_def)
  show ?thesis
  proof (cases "throwIfBad status")
    case (Inl f)
    then show ?thesis using same delete_new[OF m(2)] by (simp add: addMethod_def addMethod_body_def mk)
  next
    case (Inr u)
    then show ?thesis using good by (simp add: addMethod_def addMethod_body_def mk)
  qed
qed

lemma setMethod_inv:
  assumes "node_inv s" "\<not> isBad k \<longrightarrow> \<not> isBad k'"
  shows "node_inv (snd (setMethodCallback i cb k k' True s))"
proof -
  obtain a s1 where mk: "make_context cb s = (a, s1)" by fastforce
  have inv: "contexts_inv {} s" "nodes_inv s" using assms by (simp_all add: node_inv_def)
  note m = make_context_new[OF inv(1) mk]
  let ?x = "(ns_nodes s1)(i := map_option (\<lambda>n. n\<lparr>nn_method := True, nn_context := Some a\<rparr>) (ns_nodes s1 i))"
  have eq: "set_node i (\<lambda>n. n\<lparr>nn_context := Some a\<rparr>) (set_node i (\<lambda>n. n\<lparr>nn_method := True\<rparr>) s1) = s1\<lparr>ns_nodes := ?x\<rparr>"
    by (simp add: set_node_def option.map_comp comp_def)
  have "contexts_inv {} (store_context i a (s1\<lparr>ns_nodes := ?x\<rparr>))"
    using m nodes_invD[OF inv(2)] by (intro contexts_store) simp_all
  moreover have "nodes_inv (store_context i a (s1\<lparr>ns_nodes := ?x\<rparr>))"
    using m by (intro nodes_store[OF inv(2), of a i "?x"]) (auto simp: new_context_def)
  ultimately have good: "node_inv (store_context i a (s1\<lparr>ns_nodes := ?x\<rparr>))" by (simp add: node_inv_def)
  have same: "node_inv s1" using m(1) inv(2) nodes_inv_cong[OF m(3,4)] by (simp add: node_inv_def)
  show ?thesis
  proof (cases "isBad k")
    case True
    then have "snd (setMethodCallback_body i cb k k' True s) = s1"
      using throwIfBad_throws[OF True] delete_new[OF m(2)] by (auto simp: setMethodCallback_body_def mk)
    then show ?thesis using same by (cases "setMethodCallback_body i cb k k' True s") (simp add: setMethodCallback_def)
  next
    case False
    then have "snd (setMethodCallback_body i cb k k' True s) = store_context i a (s1\<lparr>ns_nodes := ?x\<rparr>)"
      using assms(2) by (simp add: setMethodCallback_body_def mk throwIfBad_def Let_def eq)
    then show ?thesis using good by (cases "setMethodCallback_body i cb k k' True s") (simp add: setMethodCallback_def)
  qed
qed

lemma node_context_inv:
  assumes inv: "contexts_inv E s" "nodes_inv s" and run: "node_context i s = (a, s1)"
  shows "contexts_inv E s1" "nodes_inv s1" "cm_find (ns_map s1) i = Some a" "ns_user s1 = ns_user s" "ns_nodes s1 = ns_nodes s"
proof -
  have "contexts_inv E s1 \<and> nodes_inv s1 \<and> cm_find (ns_map s1) i = Some a \<and> ns_user s1 = ns_user s \<and> ns_nodes s1 = ns_nodes s"
  proof (cases "cm_find (ns_map s) i")
    case None
    obtain b s2 where mk: "make_context (SimpleCallback None) s = (b, s2)" by fastforce
    note m = make_context_new[OF inv(1) mk]
    have s1: "a = b" "s1 = store_context i b s2" using run None by (auto simp: node_context_def mk)
    have c: "cm_inv (ns_map s2)" using nodes_invD[OF inv(2)] by (simp add: m)
    have "node_held s i = None"
      using None backed_find[of "\<lambda>_. False" "node_held s" "ns_map s" i] inv(2)
      by (cases "node_held s i") (auto simp: nodes_inv_def)
    then have "nodes_inv s1"
      using m by (intro nodes_store[OF inv(2), of b i "ns_nodes s"]) (auto simp: s1 new_context_def)
    moreover have "ns_user s1 = ns_user s"
      using store_context_eff[OF m(1) c, of i b] by (simp add: s1 m)
    ultimately show ?thesis
      using contexts_store[OF m(1) c m(2), of i] find_store[OF c, of i b i] by (simp add: s1 m)
  qed (use run inv in \<open>simp add: node_context_def\<close>)
  then show "contexts_inv E s1" "nodes_inv s1" "cm_find (ns_map s1) i = Some a" "ns_user s1 = ns_user s" "ns_nodes s1 = ns_nodes s" by auto
qed

lemma fill_frame:
  "ns_map (fill_slot kind a u s) = ns_map s" "ns_nodes (fill_slot kind a u s) = ns_nodes s"
  by (simp_all add: fill_slot_def uptr_delete_def delete_object_def split: option.split)

lemma set_node_inv:
  assumes "node_inv s" "cm_find (ns_map s) i = Some a" "\<And>n. ns_nodes s i = Some n \<Longrightarrow> nn_context (f n) = Some a"
  shows "node_inv (set_node i f s)"
  using assms nodes_change[of s i a "(ns_nodes s)(i := map_option f (ns_nodes s i))"]
  by (auto simp: node_inv_def set_node_def)

text \<open>What both setters do with the slot of their kind.\<close>

definition set_slot :: "callback_kind \<Rightarrow> (native_node \<Rightarrow> native_node) \<Rightarrow> nat \<Rightarrow> uptr \<Rightarrow> u32 \<Rightarrow> u32 \<Rightarrow> ('v node_state, unit) op" where
  "set_slot kind flag i u k k' s = (case node_context i s of (a, s1) \<Rightarrow>
     (case throwIfBad k of
        Inl f \<Rightarrow> (Inl f, fill_slot kind a u s1)
      | Inr _ \<Rightarrow> (let s3 = set_node i (\<lambda>n. n\<lparr>nn_context := Some a\<rparr>) (fill_slot kind a u s1) in
          if uptr_is_null u then (Inl Undef, s3)
          else (case throwIfBad k' of
              Inl f \<Rightarrow> (Inl f, s3)
            | Inr _ \<Rightarrow> (Ret (), set_node i flag s3)))))"

lemma setters_set_slot:
  "setVariableNodeValueCallbackImpl = set_slot ValueKind (\<lambda>n. n\<lparr>nn_value := True\<rparr>)"
  "setVariableNodeValueBackend = set_slot SourceKind (\<lambda>n. n\<lparr>nn_source := True\<rparr>)"
  by (intro ext, simp add: setVariableNodeValueCallbackImpl_def set_slot_def fill_slot_def node_slot_def Let_def
        split: prod.split sum.split)
    (intro ext, simp add: setVariableNodeValueBackend_def set_slot_def fill_slot_def node_slot_def Let_def
        split: prod.split sum.split)

lemma set_slot_inv:
  assumes inv: "contexts_inv (set_option (up_unique u)) s" "nodes_inv s" and u: "slot_ok (ns_user s) u" and k: "kind \<noteq> MethodKind"
    and flag: "\<And>n. nn_context (flag n) = nn_context n"
  shows "node_inv (snd (set_slot kind flag i u k1 k2 s))"
proof -
  obtain a s1 where run: "node_context i s = (a, s1)" by fastforce
  note c = node_context_inv[OF inv run]
  let ?s2 = "fill_slot kind a u s1"
  let ?s3 = "set_node i (\<lambda>n. n\<lparr>nn_context := Some a\<rparr>) ?s2"
  have b: "backed (\<lambda>_. False) (node_held s1) (ns_map s1)" using c(2) by (simp add: nodes_inv_def)
  have s2: "node_inv ?s2"
    using contexts_fill[OF c(1) b c(3) _ k] u c(4) nodes_inv_cong[OF fill_frame, of kind a u s1] c(2) by (simp add: node_inv_def)
  then have s3: "node_inv ?s3" using c(3) by (intro set_node_inv[of _ _ a]) (simp_all add: fill_frame)
  have "node_inv (set_node i flag ?s3)"
    by (rule set_node_inv[OF s3, of i a]) (use c(3) in \<open>auto simp: fill_frame set_node_def flag\<close>)
  with s2 s3 show ?thesis by (auto simp: set_slot_def run Let_def split: sum.split)
qed

lemma hand_over_inv:
  assumes "node_inv s" "\<not> object_alive s p"
  shows "contexts_inv {p} (hand_over p s)" "nodes_inv (hand_over p s)"
proof -
  have "slot_owner (hand_over p s) = slot_owner s" by (rule slot_owner_cong) (simp_all add: hand_over_def)
  then show "contexts_inv {p} (hand_over p s)"
    using assms by (auto simp: node_inv_def contexts_inv_def object_alive_def hand_over_def)
  show "nodes_inv (hand_over p s)" using assms nodes_inv_cong[of "hand_over p s" s] by (simp add: node_inv_def hand_over_def)
qed

lemma native_call_id:
  assumes "node_inv s" "ns_nodes s i = Some n" "installed_kind kind n"
  shows "native_call kind (nn_context n) s = s"
proof -
  obtain a where a: "nn_context n = Some a" using assms nodes_inv_flag by (metis node_inv_def not_None_eq)
  then have f: "cm_find (ns_map s) i = Some a"
    using assms backed_find[of "\<lambda>_. False" "node_held s" "ns_map s" i a] by (simp add: node_inv_def nodes_inv_def node_held_def)
  then have "ns_alive s a" by (force simp: ns_alive_def cm_find_def dest: map_of_SomeD)
  moreover have "object_alive s p" if "uptr_get (node_slot kind (ns_ctx s a)) = Some p" for p
  proof -
    have ok: "slot_ok (ns_user s) (node_slot kind (ns_ctx s a))" "ns_owned s = ran (slot_owner s)"
      using assms(1) f by (auto simp: node_inv_def contexts_inv_def)
    show ?thesis
    proof (cases "up_unique (node_slot kind (ns_ctx s a))")
      case None
      then show ?thesis using ok(1) that by (simp add: slot_ok_def uptr_get_def object_alive_def)
    next
      case (Some q)
      then have "q = p" using ok(1) that by (simp add: slot_ok_def uptr_get_def)
      then show ?thesis using ranI[of "slot_owner s" "(i, kind)" p] Some slot_owner_stored[OF f, of kind] ok(2) by (simp add: object_alive_def)
    qed
  qed
  ultimately show ?thesis by (simp add: native_call_def a split: option.split)
qed

lemma node_inv_init: "node_inv (ns_init ctx)"
proof -
  have "slot_owner (ns_init ctx) = (\<lambda>_. None)" "node_held (ns_init ctx) = (\<lambda>_. None)"
    by (simp_all add: fun_eq_iff slot_owner_def node_held_def ns_init_def ctx.find_empty)
  then show ?thesis
    using backed_empty[of "\<lambda>_. False"] by (simp add: node_inv_def contexts_inv_def nodes_inv_def) (simp add: ns_init_def ctx.find_empty)
qed

lemma slot_ok_simps [simp]:
  "slot_ok user (uptr_of_unique u)" "slot_ok user (uptr_of_raw (Some p)) = (p \<in> user)"
  "up_unique (uptr_of_unique u) = u" "up_unique (uptr_of_raw u) = None"
  by (simp_all add: slot_ok_def uptr_of_unique_def uptr_of_raw_def split: option.split)

lemma user_change:
  assumes "node_inv s" "U \<inter> ns_owned s = {}"
    and "\<And>k a kind p. cm_find (ns_map s) k = Some a \<Longrightarrow> up_raw (node_slot kind (ns_ctx s a)) = Some p \<Longrightarrow> p \<in> ns_user s \<Longrightarrow> p \<in> U"
  shows "node_inv (s\<lparr>ns_user := U\<rparr>)"
proof -
  have "slot_owner (s\<lparr>ns_user := U\<rparr>) = slot_owner s" by (rule slot_owner_cong) simp_all
  moreover have "slot_ok U (node_slot kind (ns_ctx s a))" if "cm_find (ns_map s) k = Some a" for k a kind
  proof -
    have "slot_ok (ns_user s) (node_slot kind (ns_ctx s a))" using assms(1) that by (simp add: node_inv_def contexts_inv_def)
    then show ?thesis using assms(3)[OF that, of kind] by (auto simp: slot_ok_def split: option.splits if_splits)
  qed
  ultimately have "contexts_inv {} (s\<lparr>ns_user := U\<rparr>)"
    using assms(1,2) by (auto simp: node_inv_def contexts_inv_def)
  then show ?thesis using assms(1) nodes_inv_cong[of "s\<lparr>ns_user := U\<rparr>" s] by (simp add: node_inv_def)
qed

lemma node_step_inv: "node_step s s' \<Longrightarrow> node_inv s \<Longrightarrow> node_inv s'"
proof (induction rule: node_step.induct)
  case (st_add s i)
  have "node_held (s\<lparr>ns_nodes := (ns_nodes s)(i := Some plain_node)\<rparr>) = node_held s"
    using st_add by (auto simp: fun_eq_iff node_held_def plain_node_def)
  moreover have "\<not> installed_kind kind plain_node" for kind by (cases kind) (simp_all add: installed_kind_def plain_node_def)
  moreover have "nodes_inv s" using st_add by (simp add: node_inv_def)
  ultimately have "nodes_inv (s\<lparr>ns_nodes := (ns_nodes s)(i := Some plain_node)\<rparr>)"
    using nodes_inv_flag[of s] by (auto simp: nodes_inv_def)
  then show ?case using st_add by (simp add: node_inv_def)
next
  case (st_delete s i)
  have "node_held (s\<lparr>ns_nodes := (ns_nodes s)(i := None)\<rparr>) = (node_held s)(i := None)"
    by (auto simp: fun_eq_iff node_held_def)
  moreover have "nodes_inv s" using st_delete by (simp add: node_inv_def)
  ultimately have "nodes_inv (s\<lparr>ns_nodes := (ns_nodes s)(i := None)\<rparr>)"
    using nodes_inv_flag[of s] by (auto simp: nodes_inv_def backed_release)
  then show ?case using st_delete by (simp add: node_inv_def)
next
  case (st_user_makes s p)
  then have "insert p (ns_user s) \<inter> ns_owned s = {}" by (auto simp: node_inv_def contexts_inv_def object_alive_def)
  then show ?case using st_user_makes by (intro user_change) simp_all
next
  case (st_user_deletes s p)
  have "(ns_user s - {p}) \<inter> ns_owned s = {}" using st_user_deletes by (auto simp: node_inv_def contexts_inv_def)
  moreover have "q \<in> ns_user s - {p}"
    if "cm_find (ns_map s) k = Some a" "up_raw (node_slot kind (ns_ctx s a)) = Some q" "q \<in> ns_user s" for k a kind q
    using that st_user_deletes.hyps by (cases kind) (auto simp: node_slot_def uptr_get_def uptr_null_def)
  ultimately show ?case using st_user_deletes.prems by (intro user_change) auto
next
  case (st_call s i n kind)
  then show ?case using native_call_id[of s i n kind] by simp
next
  case (st_value_own s p i k k')
  show ?case unfolding server_overload_defs setters_set_slot by (rule set_slot_inv) (use hand_over_inv[OF st_value_own(2,1)] in simp_all)
next
  case (st_source_own s p i k k')
  show ?case unfolding server_overload_defs setters_set_slot by (rule set_slot_inv) (use hand_over_inv[OF st_source_own(2,1)] in simp_all)
next
  case (st_value_null s i k k')
  then show ?case unfolding server_overload_defs setters_set_slot by (intro set_slot_inv) (simp_all add: node_inv_def)
next
  case (st_value_raw p s i k k')
  then show ?case unfolding server_overload_defs setters_set_slot by (intro set_slot_inv) (simp_all add: node_inv_def)
next
  case (st_source_null s i k k')
  then show ?case unfolding server_overload_defs setters_set_slot by (intro set_slot_inv) (simp_all add: node_inv_def)
next
  case (st_source_raw p s i k k')
  then show ?case unfolding server_overload_defs setters_set_slot by (intro set_slot_inv) (simp_all add: node_inv_def)
qed (simp_all add: addMethod_inv setMethod_inv)

lemma node_reachable_inv: "node_step\<^sup>*\<^sup>* (ns_init ctx) s \<Longrightarrow> node_inv s"
  by (induction rule: rtranclp_induct) (auto simp: node_inv_init intro: node_step_inv)

text \<open>A setter that returns has installed the given object.\<close>

lemma set_slot_installs:
  assumes "set_slot kind flag i u k k' s = (Ret (), s')" "ns_nodes s i = Some n" "kind \<noteq> MethodKind" "contexts_inv E s" "nodes_inv s"
  shows "\<exists>a n'. ns_nodes s' i = Some n' \<and> n' = flag (n\<lparr>nn_context := Some a\<rparr>) \<and> node_slot kind (ns_ctx s' a) = u \<and> u \<noteq> uptr_null"
proof -
  obtain a s1 where run: "node_context i s = (a, s1)" by fastforce
  note c = node_context_inv[OF assms(4,5) run]
  have s': "s' = set_node i flag (set_node i (\<lambda>n. n\<lparr>nn_context := Some a\<rparr>) (fill_slot kind a u s1))" "uptr_get u \<noteq> None"
    using assms(1) by (auto simp: set_slot_def run Let_def uptr_is_null_def split: sum.splits if_splits)
  then have "ns_nodes s' i = Some (flag (n\<lparr>nn_context := Some a\<rparr>))" using assms(2) c(5) by (simp add: set_node_def fill_frame)
  moreover have "node_slot kind (ns_ctx s' a) = u"
    using assms(3) by (cases kind) (simp_all add: s' set_node_def fill_slot_def node_slot_def)
  ultimately show ?thesis using s'(2) by (auto simp: uptr_get_def uptr_null_def)
qed

section \<open>Properties\<close>

text \<open>C4. However methods, value callbacks and data sources are added, replaced and called and nodes deleted, no deleted context
  and no deleted user object is used, none is deleted twice, every installed native callback finds the context stored under
  its node id, and the objects handed over that are still alive are exactly those owned by one slot of one stored context. A
  setter that returns has installed the given object: the next native call goes to it.\<close>

theorem node_contexts_safe:
  assumes "node_step\<^sup>*\<^sup>* (ns_init ctx) s"
  shows "\<not> ns_bad s
    \<and> (ns_nodes s i = Some n \<and> installed_kind kind n \<longrightarrow>
        (\<exists>a. nn_context n = Some a \<and> cm_find (ns_map s) i = Some a \<and> ns_alive s a
          \<and> (\<forall>p. uptr_get (node_slot kind (ns_ctx s a)) = Some p \<longrightarrow> object_alive s p)))
    \<and> (p \<in> ns_owned s \<longleftrightarrow> (\<exists>!x. slot_owner s x = Some p)) \<and> ns_owned s \<inter> ns_user s = {}
    \<and> (ns_nodes s i = Some n \<and> setVariableNodeValueCallbackImpl i u k k' s = (Ret (), s1) \<longrightarrow>
        (\<exists>a n'. ns_nodes s1 i = Some n' \<and> nn_value n' \<and> nn_context n' = Some a \<and> valueCallback (ns_ctx s1 a) = u \<and> u \<noteq> uptr_null))
    \<and> (ns_nodes s i = Some n \<and> setVariableNodeValueBackend i u k k' s = (Ret (), s2) \<longrightarrow>
        (\<exists>a n'. ns_nodes s2 i = Some n' \<and> nn_source n' \<and> nn_context n' = Some a \<and> dataSource (ns_ctx s2 a) = u \<and> u \<noteq> uptr_null))"
proof (intro conjI impI; (elim conjE)?)
  have inv: "node_inv s" by (rule node_reachable_inv[OF assms])
  then have c: "contexts_inv {} s" and nd: "nodes_inv s" by (simp_all add: node_inv_def)
  show bad: "\<not> ns_bad s" "ns_owned s \<inter> ns_user s = {}" using c unfolding contexts_inv_def by blast+
  show "p \<in> ns_owned s \<longleftrightarrow> (\<exists>!x. slot_owner s x = Some p)"
  proof
    have own: "ns_owned s = ran (slot_owner s)" "inj_on (slot_owner s) (dom (slot_owner s))"
      using c unfolding contexts_inv_def by simp_all
    show "\<exists>!x. slot_owner s x = Some p" if p: "p \<in> ns_owned s"
    proof -
      obtain x where x: "slot_owner s x = Some p" using p unfolding own(1) ran_def mem_Collect_eq by (elim exE)
      have "y = x" if "slot_owner s y = Some p" for y
        by (rule inj_onD[OF own(2)]) (use x that in \<open>simp_all add: domIff\<close>)
      with x show ?thesis by blast
    qed
    show "p \<in> ns_owned s" if "\<exists>!x. slot_owner s x = Some p"
      using that unfolding own(1) ran_def mem_Collect_eq by (elim ex1E) (rule exI)
  qed
  show "\<exists>a. nn_context n = Some a \<and> cm_find (ns_map s) i = Some a \<and> ns_alive s a
      \<and> (\<forall>p. uptr_get (node_slot kind (ns_ctx s a)) = Some p \<longrightarrow> object_alive s p)"
    if n: "ns_nodes s i = Some n" "installed_kind kind n"
  proof -
    obtain a where a: "nn_context n = Some a" using nodes_inv_flag[OF nd n] by blast
    then have "cm_find (ns_map s) i = Some a"
      using nd n backed_find[of "\<lambda>_. False" "node_held s" "ns_map s" i a] by (simp add: nodes_inv_def node_held_def)
    moreover have "\<not> ns_bad (native_call kind (Some a) s)" using native_call_id[OF inv n] a bad by simp
    ultimately show ?thesis using a by (auto simp: native_call_def split: if_splits option.splits)
  qed
  show "\<exists>a n'. ns_nodes s1 i = Some n' \<and> nn_value n' \<and> nn_context n' = Some a \<and> valueCallback (ns_ctx s1 a) = u \<and> u \<noteq> uptr_null"
    if "ns_nodes s i = Some n" "setVariableNodeValueCallbackImpl i u k k' s = (Ret (), s1)"
    using set_slot_installs[OF that(2)[unfolded setters_set_slot] that(1) _ c nd] by (auto simp: node_slot_def)
  show "\<exists>a n'. ns_nodes s2 i = Some n' \<and> nn_source n' \<and> nn_context n' = Some a \<and> dataSource (ns_ctx s2 a) = u \<and> u \<noteq> uptr_null"
    if "ns_nodes s i = Some n" "setVariableNodeValueBackend i u k k' s = (Ret (), s2)"
    using set_slot_installs[OF that(2)[unfolded setters_set_slot] that(1) _ c nd] by (auto simp: node_slot_def)
qed

definition demo_nodes :: "nat node_state" where
  "demo_nodes = snd (setVariableNodeValueCallbackImpl 7 (uptr_of_unique (Some 3)) UA_STATUSCODE_GOOD UA_STATUSCODE_GOOD
     (hand_over 3 (snd (addMethod (SimpleCallback None) (UA_STATUSCODE_GOOD, 7) True
       (ns_init (\<lambda>_. \<lparr>valueCallback = uptr_null, dataSource = uptr_null, methodCallback = SimpleCallback None\<rparr>))))))"

theorem node_contexts_safe_witness:
  "3 \<in> ns_owned demo_nodes \<and> \<not> ns_bad demo_nodes \<and> (\<exists>!x. slot_owner demo_nodes x = Some 3)"
proof -
  let ?init = "ns_init (\<lambda>_. \<lparr>valueCallback = uptr_null, dataSource = uptr_null, methodCallback = SimpleCallback None\<rparr>) :: nat node_state"
  let ?s = "snd (addMethod (SimpleCallback None) (UA_STATUSCODE_GOOD, 7) True ?init)"
  have "node_step ?init ?s" by (rule st_addMethod)
  moreover have "\<not> object_alive ?s 3"
    by (simp add: object_alive_def addMethod_def addMethod_body_def make_context_def ns_init_def throwIfBad_def isBad_def
        status_codes store_context_def cm_find_def Let_def)
  then have "node_step ?s demo_nodes" unfolding demo_nodes_def server_overload_defs[symmetric] by (rule st_value_own)
  ultimately have r: "node_step\<^sup>*\<^sup>* ?init demo_nodes" by (meson rtranclp.rtrancl_into_rtrancl rtranclp.rtrancl_refl)
  have "3 \<in> ns_owned demo_nodes" by (simp add: demo_nodes_def) code_simp
  then show ?thesis using node_contexts_safe[OF r, of 0 plain_node ValueKind 3 uptr_null 0 0 demo_nodes demo_nodes] by blast
qed

text \<open>What the native server observes: exceptions of value callbacks end in the catcher of the server; data sources and methods
  report a code.\<close>

definition benign :: "'a outc \<Rightarrow> bool" where
  "benign r = (case r of Inl (Throw e) \<Rightarrow> proper_exn e | Inl _ \<Rightarrow> False | Inr _ \<Rightarrow> True)"

definition code_of :: "('a \<Rightarrow> u32) \<Rightarrow> 'a outc \<Rightarrow> u32" where
  "code_of f r = (case r of Inl (Throw e) \<Rightarrow> getStatusCode (Some e) | Inr x \<Rightarrow> f x | _ \<Rightarrow> 0)"

lemma benign_cases: "benign r \<Longrightarrow> (\<exists>e. r = throw e \<and> proper_exn e) \<or> (\<exists>x. r = Ret x)"
  by (auto simp: benign_def split: sum.splits fault.splits)

lemma tryInvokeVoid_code: "benign r \<Longrightarrow> outc_bind (tryInvokeVoid (\<lambda>_. r)) (\<lambda>v. Ret (vcode v)) = Ret (code_of (\<lambda>_. UA_STATUSCODE_GOOD) r)"
  by (cases r) (auto simp: benign_def code_of_def tryInvokeVoid_def mkBadResult_def proper_exn_code VoidResult_default_def VoidResult_bad_def
      split: fault.splits)

lemma tryInvokeCode_code: "benign r \<Longrightarrow> outc_bind (tryInvokeCode (\<lambda>_. r)) (\<lambda>v. Ret (vcode v)) = Ret (code_of id r)"
  by (cases r) (auto simp: benign_def code_of_def tryInvokeCode_def mkBadResult_def proper_exn_code VoidResult_code_def VoidResult_bad_def
      split: fault.splits)



section \<open>Where the guarantees end\<close>

text \<open>When the insertion into the map finds no memory, the context is deleted while the native node already points to it.\<close>

lemma addMethod_no_memory_dangles:
  assumes "node_inv s"
  shows "let s' = snd (addMethod cb (UA_STATUSCODE_GOOD, i) False s) in
    \<exists>n a. ns_nodes s' i = Some n \<and> nn_method n \<and> nn_context n = Some a \<and> ns_bad (native_call MethodKind (Some a) s')"
proof -
  obtain a s1 where mk: "make_context cb s = (a, s1)" by fastforce
  have c: "contexts_inv {} s" "cm_inv (ns_map s)" using assms nodes_invD by (auto simp: node_inv_def)
  note m = make_context_new[OF c(1) mk]
  let ?s2 = "s1\<lparr>ns_nodes := (ns_nodes s1)(i := Some (plain_node\<lparr>nn_context := Some a, nn_method := True\<rparr>))\<rparr>"
  have "snd (addMethod cb (UA_STATUSCODE_GOOD, i) False s) = ?s2"
    using delete_new[of a ?s2] m(2) by (simp add: addMethod_def addMethod_body_def mk throwIfBad_def status_codes isBad_def)
  moreover have "cm_find (ns_map s1) k \<noteq> Some a" for k using m(2) by (simp add: new_context_def)
  then have "\<not> ns_alive ?s2 a"
    using c(2) m(3) map_of_is_SomeI[of "ns_map s"] by (auto simp: ns_alive_def cm_find_def cm_inv_def)
  ultimately show ?thesis by (simp add: Let_def native_call_def)
qed

text \<open>A null \<open>unique_ptr\<close> is dereferenced after the context has been attached to the node.\<close>

lemma null_backend_undefined:
  "fst (setVariableNodeValueCallbackImpl i (uptr_of_unique None) UA_STATUSCODE_GOOD k s) = Inl Undef"
  "fst (setVariableNodeValueBackend i (uptr_of_unique None) UA_STATUSCODE_GOOD k s) = Inl Undef"
  by (simp_all add: setVariableNodeValueCallbackImpl_def setVariableNodeValueBackend_def uptr_of_unique_def uptr_is_null_def uptr_get_def
      throwIfBad_def status_codes isBad_def Let_def split: prod.split)

end
