(* ===== verification/Builtin_Types.thy ===== *)
theory Builtin_Types
  imports Wrappers
begin

text \<open>
  The builtin types of \<open>types.hpp\<close> without variants: strings, date and time, guids, node ids, qualified names,
  localized texts. A \<open>UA_String\<close> is null, or holds characters (none: the empty-array sentinel); a \<open>string_view\<close> is
  an optional character list, \<open>None\<close> being a null data pointer. Contents own one allocation when they are not empty.
  Signed 64-bit arithmetic is on integers, undefined outside the range.
\<close>

section \<open>Native strings\<close>

datatype native_string = NullString | Str string

type_synonym view = "string option"

definition toNativeString :: "view \<Rightarrow> native_string" where
  "toNativeString src = (case src of None \<Rightarrow> NullString | Some s \<Rightarrow> Str s)"

definition allocNativeString :: "view \<Rightarrow> (mem, native_string) op" where
  "allocNativeString src = (case src of
      None \<Rightarrow> op_ret NullString
    | Some s \<Rightarrow> if s = [] then op_ret (Str [])
                else op_bind (alloc_block (BadStatus UA_STATUSCODE_BADOUTOFMEMORY)) (\<lambda>_. op_ret (Str s)))"

definition toStringView :: "native_string \<Rightarrow> view" where
  "toStringView src = (case src of NullString \<Rightarrow> None | Str s \<Rightarrow> if s = [] then None else Some s)"

definition own_string :: "native_string \<Rightarrow> int" where
  "own_string s = (case s of NullString \<Rightarrow> 0 | Str t \<Rightarrow> if t = [] then 0 else 1)"

text \<open>\<open>StringLikeMixin\<close>. \<open>data()\<close> strips the sentinel, so it is null for both kinds of empty strings.\<close>

definition str_size :: "native_string \<Rightarrow> nat" where
  "str_size s = (case s of NullString \<Rightarrow> 0 | Str t \<Rightarrow> length t)"

definition str_empty :: "native_string \<Rightarrow> bool" where
  "str_empty s = (str_size s = 0)"

definition str_data :: "native_string \<Rightarrow> string option" where
  "str_data s = (case s of NullString \<Rightarrow> None | Str t \<Rightarrow> if t = [] then None else Some t)"

definition deref_at :: "string option \<Rightarrow> nat \<Rightarrow> char outc" where
  "deref_at p i = (case p of None \<Rightarrow> Inl Undef | Some t \<Rightarrow> if i < length t then Ret (t ! i) else Inl Undef)"

definition str_index :: "native_string \<Rightarrow> nat \<Rightarrow> char outc" where
  "str_index s i = (if i < str_size s then deref_at (str_data s) i else Inl Terminate)"

definition str_front :: "native_string \<Rightarrow> char outc" where
  "str_front s = (if str_empty s then Inl Terminate else deref_at (str_data s) 0)"

definition str_back :: "native_string \<Rightarrow> char outc" where
  "str_back s = (if str_empty s then Inl Terminate else deref_at (str_data s) (str_size s - 1))"

text \<open>The characters between \<open>begin()\<close> and \<open>end()\<close>.\<close>

definition str_chars :: "native_string \<Rightarrow> string" where
  "str_chars s = (case str_data s of None \<Rightarrow> [] | Some t \<Rightarrow> take (str_size s) t)"

text \<open>\<open>init(first, last)\<close> copies a range; an empty one becomes the sentinel.\<close>

definition str_init :: "string \<Rightarrow> (mem, native_string) op" where
  "str_init s = (if 2 ^ 31 - 1 < length s then op_fail (Throw BadAlloc)
     else if s = [] then op_ret (Str []) else op_bind (alloc_block BadAlloc) (\<lambda>_. op_ret (Str s)))"

definition String_of_view :: "view \<Rightarrow> (mem, native_string) op" where
  "String_of_view = allocNativeString"

definition view_of_String :: "native_string \<Rightarrow> view" where
  "view_of_String s = (case str_data s of None \<Rightarrow> None | Some t \<Rightarrow> Some (take (str_size s) t))"

text \<open>Equality of two native strings is the C library's.\<close>

definition string_eq :: "(native_string \<Rightarrow> native_string \<Rightarrow> bool) \<Rightarrow> native_string \<Rightarrow> native_string \<Rightarrow> bool" where
  "string_eq ua_equal a b = ua_equal a b"

definition string_eq_view :: "native_string \<Rightarrow> view \<Rightarrow> bool" where
  "string_eq_view a v = ((case view_of_String a of None \<Rightarrow> [] | Some t \<Rightarrow> t) = (case v of None \<Rightarrow> [] | Some t \<Rightarrow> t))"

text \<open>The type converters for string-like types and for string literals with their terminator.\<close>

definition string_fromNative :: "native_string \<Rightarrow> string" where
  "string_fromNative s = (case str_data s of None \<Rightarrow> [] | Some t \<Rightarrow> take (str_size s) t)"

definition string_toNative :: "string \<Rightarrow> (mem, native_string) op" where
  "string_toNative s = str_init s"

definition literal_toNative :: "char list \<Rightarrow> (mem, native_string) op" where
  "literal_toNative s = String_of_view (Some (if s \<noteq> [] \<and> last s = CHR 0x00 then butlast s else s))"

section \<open>Date and time\<close>

definition i64 :: "int \<Rightarrow> int outc" where
  "i64 x = (if - (2 ^ 63) \<le> x \<and> x < 2 ^ 63 then Ret x else Inl Undef)"

text \<open>C++ division truncates towards zero.\<close>

definition tdiv :: "int \<Rightarrow> int \<Rightarrow> int" where
  "tdiv a b = sgn a * sgn b * (\<bar>a\<bar> div \<bar>b\<bar>)"

text \<open>\<open>std::chrono\<close> durations with a period of \<open>num/den\<close> seconds; \<open>duration_cast\<close> multiplies and divides by the reduced
  quotient of the periods.\<close>

record period =
  per_num :: int
  per_den :: int

definition ticks :: period where "ticks = \<lparr>per_num = 1, per_den = 10000000\<rparr>"
definition seconds :: period where "seconds = \<lparr>per_num = 1, per_den = 1\<rparr>"
definition nanoseconds :: period where "nanoseconds = \<lparr>per_num = 1, per_den = 1000000000\<rparr>"

definition duration_cast :: "period \<Rightarrow> period \<Rightarrow> int \<Rightarrow> int outc" where
  "duration_cast p q n =
     (let a = per_num p * per_den q; b = per_den p * per_num q; g = gcd a b
      in outc_bind (i64 (n * (a div g))) (\<lambda>x. Ret (tdiv x (b div g))))"

definition UA_DATETIME_SEC :: int where "UA_DATETIME_SEC = 10000000"
definition UA_DATETIME_UNIX_EPOCH :: int where "UA_DATETIME_UNIX_EPOCH = 11644473600 * 10000000"

text \<open>A \<open>DateTime\<close> is its count of ticks of 100 ns since 1601.\<close>

definition fromTimePoint :: "period \<Rightarrow> int \<Rightarrow> int outc" where
  "fromTimePoint p n = outc_bind (duration_cast p ticks n) (\<lambda>t. i64 (t + UA_DATETIME_UNIX_EPOCH))"

definition fromUnixTime :: "int \<Rightarrow> int outc" where
  "fromUnixTime u = outc_bind (i64 (u * UA_DATETIME_SEC)) (\<lambda>t. i64 (t + UA_DATETIME_UNIX_EPOCH))"

definition toTimePoint :: "period \<Rightarrow> int \<Rightarrow> int outc" where
  "toTimePoint p dt = outc_bind (i64 (dt - UA_DATETIME_UNIX_EPOCH)) (duration_cast ticks p)"

definition toUnixTime :: "int \<Rightarrow> int outc" where
  "toUnixTime dt = outc_bind (i64 (dt - UA_DATETIME_UNIX_EPOCH)) (\<lambda>t. Ret (tdiv t UA_DATETIME_SEC))"

definition DateTime_add :: "int \<Rightarrow> period \<Rightarrow> int \<Rightarrow> int outc" where
  "DateTime_add dt p n = outc_bind (duration_cast p ticks n) (\<lambda>t. i64 (dt + t))"

definition DateTime_sub :: "int \<Rightarrow> period \<Rightarrow> int \<Rightarrow> int outc" where
  "DateTime_sub dt p n = outc_bind (duration_cast p ticks n) (\<lambda>t. i64 (dt - t))"

definition DateTime_diff :: "int \<Rightarrow> int \<Rightarrow> int outc" where
  "DateTime_diff a b = i64 (a - b)"

section \<open>Guid\<close>

record Guid =
  data1 :: u32
  data2 :: u16
  data3 :: u16
  data4 :: "u8 list"

definition Guid_of_bytes :: "u8 list \<Rightarrow> Guid" where
  "Guid_of_bytes d = \<lparr>
     data1 = push_bit 24 (ucast (d ! 0)) OR push_bit 16 (ucast (d ! 1)) OR push_bit 8 (ucast (d ! 2)) OR ucast (d ! 3),
     data2 = push_bit 8 (ucast (d ! 4)) OR ucast (d ! 5),
     data3 = push_bit 8 (ucast (d ! 6)) OR ucast (d ! 7),
     data4 = [d ! 8, d ! 9, d ! 10, d ! 11, d ! 12, d ! 13, d ! 14, d ! 15]\<rparr>"

definition Guid_of_parts :: "u32 \<Rightarrow> u16 \<Rightarrow> u16 \<Rightarrow> u8 list \<Rightarrow> Guid" where
  "Guid_of_parts a b c d = \<lparr>data1 = a, data2 = b, data3 = c,
     data4 = [d ! 0, d ! 1, d ! 2, d ! 3, d ! 4, d ! 5, d ! 6, d ! 7]\<rparr>"

section \<open>Node ids\<close>

text \<open>The tagged union of the C library; the tag is the constructor.\<close>

datatype node_identifier = Numeric u32 | StringId native_string | GuidId Guid | ByteStringId native_string

record NodeId =
  namespaceIndex :: u16
  ident :: node_identifier

datatype NodeIdType = NtNumeric | NtString | NtGuid | NtByteString

definition NodeIdType_code :: "NodeIdType \<Rightarrow> u8" where
  "NodeIdType_code t = (case t of NtNumeric \<Rightarrow> 0 | NtString \<Rightarrow> 3 | NtGuid \<Rightarrow> 4 | NtByteString \<Rightarrow> 5)"

definition null_NodeId :: NodeId where
  "null_NodeId = \<lparr>namespaceIndex = 0, ident = Numeric 0\<rparr>"

definition NodeId_numeric :: "u16 \<Rightarrow> u32 \<Rightarrow> NodeId" where
  "NodeId_numeric ns i = \<lparr>namespaceIndex = ns, ident = Numeric i\<rparr>"

definition NodeId_string :: "u16 \<Rightarrow> view \<Rightarrow> (mem, NodeId) op" where
  "NodeId_string ns s = op_bind (allocNativeString s) (\<lambda>n. op_ret \<lparr>namespaceIndex = ns, ident = StringId n\<rparr>)"

definition NodeId_guid :: "u16 \<Rightarrow> Guid \<Rightarrow> NodeId" where
  "NodeId_guid ns g = \<lparr>namespaceIndex = ns, ident = GuidId g\<rparr>"

text \<open>The byte string is passed by value and moved: nothing is allocated here.\<close>

definition NodeId_bytes :: "u16 \<Rightarrow> native_string \<Rightarrow> NodeId" where
  "NodeId_bytes ns b = \<lparr>namespaceIndex = ns, ident = ByteStringId b\<rparr>"

definition identifierType :: "NodeId \<Rightarrow> NodeIdType" where
  "identifierType n = (case ident n of Numeric _ \<Rightarrow> NtNumeric | StringId _ \<Rightarrow> NtString | GuidId _ \<Rightarrow> NtGuid
     | ByteStringId _ \<Rightarrow> NtByteString)"

text \<open>\<open>identifierIf<T>\<close>, one function per permitted \<open>T\<close>; \<open>identifier<T>\<close> throws where it returns null.\<close>

definition identifierIf_numeric :: "NodeId \<Rightarrow> u32 option" where
  "identifierIf_numeric n = (if identifierType n = NtNumeric then (case ident n of Numeric i \<Rightarrow> Some i | _ \<Rightarrow> None) else None)"

definition identifierIf_string :: "NodeId \<Rightarrow> native_string option" where
  "identifierIf_string n = (if identifierType n = NtString then (case ident n of StringId s \<Rightarrow> Some s | _ \<Rightarrow> None) else None)"

definition identifierIf_guid :: "NodeId \<Rightarrow> Guid option" where
  "identifierIf_guid n = (if identifierType n = NtGuid then (case ident n of GuidId g \<Rightarrow> Some g | _ \<Rightarrow> None) else None)"

definition identifierIf_bytes :: "NodeId \<Rightarrow> native_string option" where
  "identifierIf_bytes n = (if identifierType n = NtByteString then (case ident n of ByteStringId s \<Rightarrow> Some s | _ \<Rightarrow> None) else None)"

definition identifier_as :: "(NodeId \<Rightarrow> 'a option) \<Rightarrow> NodeId \<Rightarrow> 'a outc" where
  "identifier_as get n = (case get n of Some x \<Rightarrow> Ret x
     | None \<Rightarrow> throw (TypeError ''NodeId identifier type doesn't match the requested type''))"

text \<open>Comparison through the order function of the C library.\<close>

datatype UA_Order = UA_ORDER_LESS | UA_ORDER_EQ | UA_ORDER_MORE

definition id_lt :: "('n \<Rightarrow> 'n \<Rightarrow> UA_Order) \<Rightarrow> 'n \<Rightarrow> 'n \<Rightarrow> bool" where
  "id_lt cmp a b = (cmp a b = UA_ORDER_LESS)"

definition id_gt :: "('n \<Rightarrow> 'n \<Rightarrow> UA_Order) \<Rightarrow> 'n \<Rightarrow> 'n \<Rightarrow> bool" where
  "id_gt cmp a b = (cmp a b = UA_ORDER_MORE)"

definition id_le :: "('n \<Rightarrow> 'n \<Rightarrow> UA_Order) \<Rightarrow> ('n \<Rightarrow> 'n \<Rightarrow> bool) \<Rightarrow> 'n \<Rightarrow> 'n \<Rightarrow> bool" where
  "id_le cmp eq a b = (id_lt cmp a b \<or> eq a b)"

definition id_ge :: "('n \<Rightarrow> 'n \<Rightarrow> UA_Order) \<Rightarrow> ('n \<Rightarrow> 'n \<Rightarrow> bool) \<Rightarrow> 'n \<Rightarrow> 'n \<Rightarrow> bool" where
  "id_ge cmp eq a b = (id_gt cmp a b \<or> eq a b)"

record ExpandedNodeId =
  ex_nodeId :: NodeId
  ex_namespaceUri :: native_string
  ex_serverIndex :: u32

definition ExpandedNodeId_of :: "NodeId \<Rightarrow> ExpandedNodeId" where
  "ExpandedNodeId_of n = \<lparr>ex_nodeId = n, ex_namespaceUri = NullString, ex_serverIndex = 0\<rparr>"

definition ExpandedNodeId_full :: "NodeId \<Rightarrow> view \<Rightarrow> u32 \<Rightarrow> (mem, ExpandedNodeId) op" where
  "ExpandedNodeId_full n uri srv = op_bind (allocNativeString uri)
     (\<lambda>u. op_ret \<lparr>ex_nodeId = n, ex_namespaceUri = u, ex_serverIndex = srv\<rparr>)"

definition own_NodeId :: "NodeId \<Rightarrow> int" where
  "own_NodeId n = (case ident n of StringId s \<Rightarrow> own_string s | ByteStringId s \<Rightarrow> own_string s | _ \<Rightarrow> 0)"

definition own_ExpandedNodeId :: "ExpandedNodeId \<Rightarrow> int" where
  "own_ExpandedNodeId e = own_NodeId (ex_nodeId e) + own_string (ex_namespaceUri e)"

definition isLocal :: "ExpandedNodeId \<Rightarrow> bool" where
  "isLocal e = (ex_serverIndex e = 0)"

section \<open>Qualified names and localized texts\<close>

record QualifiedName =
  qn_namespaceIndex :: u16
  qn_name :: native_string

definition mkQualifiedName :: "u16 \<Rightarrow> view \<Rightarrow> (mem, QualifiedName) op" where
  "mkQualifiedName ns n = op_bind (allocNativeString n) (\<lambda>s. op_ret \<lparr>qn_namespaceIndex = ns, qn_name = s\<rparr>)"

definition qn_eq :: "(native_string \<Rightarrow> native_string \<Rightarrow> bool) \<Rightarrow> QualifiedName \<Rightarrow> QualifiedName \<Rightarrow> bool" where
  "qn_eq ua_equal a b = (qn_namespaceIndex a = qn_namespaceIndex b \<and> string_eq ua_equal (qn_name a) (qn_name b))"

record LocalizedText =
  lt_locale :: native_string
  lt_text :: native_string

text \<open>The base class destroys what the first allocation made when the second throws.\<close>

definition mkLocalizedText :: "view \<Rightarrow> view \<Rightarrow> (mem, LocalizedText) op" where
  "mkLocalizedText loc txt = op_bind (allocNativeString loc) (\<lambda>l.
     op_bind (op_on_throw (allocNativeString txt) (\<lambda>m. (Ret (), free_blocks (own_string l) m)))
       (\<lambda>t. op_ret \<lparr>lt_locale = l, lt_text = t\<rparr>))"

definition lt_eq :: "(native_string \<Rightarrow> native_string \<Rightarrow> bool) \<Rightarrow> LocalizedText \<Rightarrow> LocalizedText \<Rightarrow> bool" where
  "lt_eq ua_equal a b = (string_eq ua_equal (lt_locale a) (lt_locale b) \<and> string_eq ua_equal (lt_text a) (lt_text b))"

section \<open>Facts\<close>

lemma i64_Ret [outc]: "i64 x = Ret y \<longleftrightarrow> y = x \<and> - (2 ^ 63) \<le> x \<and> x < 2 ^ 63"
  by (auto simp: i64_def)

lemma i64_Inl: "i64 x = Inl e \<longleftrightarrow> e = Undef \<and> \<not> (- (2 ^ 63) \<le> x \<and> x < 2 ^ 63)"
  by (auto simp: i64_def)

lemma tdiv_mult [simp]: "0 < b \<Longrightarrow> tdiv (a * b) b = a"
  by (simp add: tdiv_def abs_mult sgn_mult sgn_mult_abs)

lemma tdiv_pos: "0 \<le> a \<Longrightarrow> 0 < b \<Longrightarrow> tdiv a b = a div b"
  by (cases "a = 0") (simp_all add: tdiv_def)

lemma tdiv_neg: "tdiv (- a) b = - tdiv a b"
  by (simp add: tdiv_def sgn_minus)

lemma tdiv_bounds:
  assumes "0 < b"
  shows "\<bar>a - tdiv a b * b\<bar> < b" "0 \<le> a \<Longrightarrow> 0 \<le> tdiv a b \<and> tdiv a b * b \<le> a" "a \<le> 0 \<Longrightarrow> a \<le> tdiv a b * b"
proof -
  have pos: "0 \<le> tdiv c b \<and> tdiv c b * b \<le> c \<and> c - tdiv c b * b < b" if "0 \<le> c" for c
  proof -
    have "c div b * b = c - c mod b" by (simp add: minus_mod_eq_div_mult [symmetric])
    with that assms pos_mod_bound[OF assms, of c] pos_mod_sign[OF assms, of c] show ?thesis
      by (simp add: tdiv_pos pos_imp_zdiv_nonneg_iff)
  qed
  show "0 \<le> a \<Longrightarrow> 0 \<le> tdiv a b \<and> tdiv a b * b \<le> a" using pos by blast
  show "a \<le> 0 \<Longrightarrow> a \<le> tdiv a b * b" using pos[of "- a"] by (simp add: tdiv_neg)
  show "\<bar>a - tdiv a b * b\<bar> < b"
    by (cases "0 \<le> a") (use pos[of a] pos[of "- a"] in \<open>simp_all add: tdiv_neg\<close>)
qed

lemma cast_ticks: "duration_cast ticks ticks n = i64 n"
  by (simp add: duration_cast_def ticks_def tdiv_def sgn_mult_abs outc_bind_Ret)

lemma cast_to_nano: "duration_cast ticks nanoseconds n = i64 (n * 100)"
  by (simp add: duration_cast_def ticks_def nanoseconds_def tdiv_def sgn_mult_abs)

lemma cast_from_nano: "duration_cast nanoseconds ticks n = outc_bind (i64 n) (\<lambda>x. Ret (tdiv x 100))"
  by (simp add: duration_cast_def ticks_def nanoseconds_def)

section \<open>Properties\<close>

text \<open>C40. Dates convert as documented wherever they fit: \<open>fromUnixTime\<close> is defined exactly when the product and the sum fit
  64 bits and \<open>toUnixTime\<close> inverts it; \<open>toUnixTime\<close> rounds towards 1970 by less than a second; time points
  with 100 ns resolution survive the round trip in both directions, nanosecond time points lose less than
  100 ns; adding and subtracting a duration undo each other and the difference of the two dates is the duration.\<close>

theorem datetime_conversions:
  assumes "- (2 ^ 63) \<le> d" "d < 2 ^ 63"
  shows "(fromUnixTime u = Ret d \<longrightarrow> d = u * UA_DATETIME_SEC + UA_DATETIME_UNIX_EPOCH \<and> toUnixTime d = Ret u)
    \<and> (returns (fromUnixTime u) \<longleftrightarrow> - (2 ^ 63) \<le> u * UA_DATETIME_SEC \<and> u * UA_DATETIME_SEC + UA_DATETIME_UNIX_EPOCH < 2 ^ 63)
    \<and> (toUnixTime d = Ret u \<longrightarrow> \<bar>d - (u * UA_DATETIME_SEC + UA_DATETIME_UNIX_EPOCH)\<bar> < UA_DATETIME_SEC
         \<and> (UA_DATETIME_UNIX_EPOCH \<le> d \<longleftrightarrow> 0 \<le> u \<and> u * UA_DATETIME_SEC + UA_DATETIME_UNIX_EPOCH \<le> d))
    \<and> (fromTimePoint ticks n = Ret d \<longleftrightarrow> toTimePoint ticks d = Ret n)
    \<and> (toTimePoint nanoseconds d = Ret n \<longrightarrow> fromTimePoint nanoseconds n = Ret d)
    \<and> (fromTimePoint nanoseconds n = Ret d \<longrightarrow> \<bar>n - 100 * (d - UA_DATETIME_UNIX_EPOCH)\<bar> < 100)
    \<and> (DateTime_add d ticks n = Ret e \<longrightarrow> DateTime_sub e ticks n = Ret d \<and> DateTime_diff e d = Ret n)"
proof (intro conjI)
  let ?E = UA_DATETIME_UNIX_EPOCH
  have E: "0 < ?E" "?E < 2 ^ 63" by (simp_all add: UA_DATETIME_UNIX_EPOCH_def)
  have S: "0 < UA_DATETIME_SEC" by (simp add: UA_DATETIME_SEC_def)
  show "fromUnixTime u = Ret d \<longrightarrow> d = u * UA_DATETIME_SEC + ?E \<and> toUnixTime d = Ret u"
    using S by (auto simp: fromUnixTime_def toUnixTime_def outc_bind_eq_Ret i64_Ret)
  show "returns (fromUnixTime u) \<longleftrightarrow> - (2 ^ 63) \<le> u * UA_DATETIME_SEC \<and> u * UA_DATETIME_SEC + ?E < 2 ^ 63"
    using E by (auto simp: fromUnixTime_def returns_iff outc_bind_eq_Ret i64_Ret)
  show "toUnixTime d = Ret u \<longrightarrow> \<bar>d - (u * UA_DATETIME_SEC + ?E)\<bar> < UA_DATETIME_SEC
         \<and> (?E \<le> d \<longleftrightarrow> 0 \<le> u \<and> u * UA_DATETIME_SEC + ?E \<le> d)"
  proof
    assume "toUnixTime d = Ret u"
    then have u: "u = tdiv (d - ?E) UA_DATETIME_SEC" by (auto simp: toUnixTime_def outc_bind_eq_Ret i64_Ret)
    note b = tdiv_bounds[OF S, of "d - ?E", folded u]
    have "0 \<le> u * UA_DATETIME_SEC" if "0 \<le> u" using S that by simp
    then show "\<bar>d - (u * UA_DATETIME_SEC + ?E)\<bar> < UA_DATETIME_SEC
         \<and> (?E \<le> d \<longleftrightarrow> 0 \<le> u \<and> u * UA_DATETIME_SEC + ?E \<le> d)" using b by (smt (verit))
  qed
  show "fromTimePoint ticks n = Ret d \<longleftrightarrow> toTimePoint ticks d = Ret n"
    using assms E by (auto simp: fromTimePoint_def toTimePoint_def cast_ticks outc_bind_eq_Ret i64_Ret)
  show "toTimePoint nanoseconds d = Ret n \<longrightarrow> fromTimePoint nanoseconds n = Ret d"
  proof
    assume "toTimePoint nanoseconds d = Ret n"
    then have n: "n = (d - ?E) * 100" "- (2 ^ 63) \<le> n" "n < 2 ^ 63"
      by (simp_all add: toTimePoint_def cast_to_nano outc_bind_eq_Ret i64_Ret)
    have "tdiv n 100 = d - ?E" unfolding n(1) by (rule tdiv_mult) simp
    then show "fromTimePoint nanoseconds n = Ret d"
      using n(2,3) assms by (simp add: fromTimePoint_def cast_from_nano i64_def)
  qed
  show "fromTimePoint nanoseconds n = Ret d \<longrightarrow> \<bar>n - 100 * (d - ?E)\<bar> < 100"
    using tdiv_bounds(1)[of 100 n] by (auto simp: fromTimePoint_def cast_from_nano outc_bind_eq_Ret i64_Ret mult.commute)
  show "DateTime_add d ticks n = Ret e \<longrightarrow> DateTime_sub e ticks n = Ret d \<and> DateTime_diff e d = Ret n"
    using assms by (auto simp: DateTime_add_def DateTime_sub_def DateTime_diff_def cast_ticks outc_bind_eq_Ret i64_Ret)
qed

theorem datetime_conversions_witness:
  "toUnixTime (UA_DATETIME_UNIX_EPOCH - 5) = Ret 0 \<and> \<bar>UA_DATETIME_UNIX_EPOCH - 5 - (0 * UA_DATETIME_SEC + UA_DATETIME_UNIX_EPOCH)\<bar> < UA_DATETIME_SEC"
proof -
  have "toUnixTime (UA_DATETIME_UNIX_EPOCH - 5) = Ret 0"
    by (simp add: toUnixTime_def i64_def tdiv_def UA_DATETIME_SEC_def)
  then show ?thesis
    using datetime_conversions[of "UA_DATETIME_UNIX_EPOCH - 5" 0] by (simp add: UA_DATETIME_UNIX_EPOCH_def)
qed

text \<open>Strings cross the C boundary unchanged: a copy that succeeds owns its characters and reads back as the
  source (through \<open>string_view\<close>, iteration and indexing), only an allocation can fail and then nothing stays allocated;
  the borrowed conversion has the same content; indexing inside the size never leaves the characters and outside is caught
  by the assertion; converted standard strings come back equal and literals lose exactly their terminator.\<close>

theorem native_strings_faithful:
  assumes "allocNativeString v m = (r, m')"
  shows "(case r of
       Inr s \<Rightarrow> s = toNativeString v \<and> live m' = live m + own_string s \<and> str_chars s = (case v of None \<Rightarrow> [] | Some t \<Rightarrow> t)
          \<and> toStringView s = (if v = Some [] then None else v) \<and> view_of_String s = toStringView s
          \<and> (\<forall>i. str_index s i = (if i < str_size s then Ret (str_chars s ! i) else Inl Terminate))
          \<and> (str_empty s \<longleftrightarrow> str_chars s = [])
     | Inl e \<Rightarrow> e = Throw (BadStatus UA_STATUSCODE_BADOUTOFMEMORY) \<and> m' = m \<and> budget m = 0)
    \<and> (string_toNative x k = (Ret s, k') \<longrightarrow> string_fromNative s = x)
    \<and> (literal_toNative (y @ [CHR 0x00]) k = (Ret s, k') \<longrightarrow> str_chars s = y)"
proof (intro conjI impI)
  show "case r of
       Inr s \<Rightarrow> s = toNativeString v \<and> live m' = live m + own_string s \<and> str_chars s = (case v of None \<Rightarrow> [] | Some t \<Rightarrow> t)
          \<and> toStringView s = (if v = Some [] then None else v) \<and> view_of_String s = toStringView s
          \<and> (\<forall>i. str_index s i = (if i < str_size s then Ret (str_chars s ! i) else Inl Terminate))
          \<and> (str_empty s \<longleftrightarrow> str_chars s = [])
     | Inl e \<Rightarrow> e = Throw (BadStatus UA_STATUSCODE_BADOUTOFMEMORY) \<and> m' = m \<and> budget m = 0"
    using assms by (cases v)
      (auto simp: allocNativeString_def alloc_block_def op_bind_def toNativeString_def own_string_def toStringView_def str_chars_def
        str_data_def view_of_String_def str_index_def str_size_def deref_at_def str_empty_def split: if_splits)
  assume "string_toNative x k = (Ret s, k')"
  then show "string_fromNative s = x"
    by (auto simp: string_toNative_def str_init_def alloc_block_def op_bind_def string_fromNative_def str_data_def str_size_def
        op_fail_def split: if_splits)
next
  assume "literal_toNative (y @ [CHR 0x00]) k = (Ret s, k')"
  then show "str_chars s = y"
    by (auto simp: literal_toNative_def String_of_view_def allocNativeString_def alloc_block_def op_bind_def str_chars_def
        str_data_def str_size_def split: if_splits)
qed

theorem native_strings_faithful_witness:
  "fst (allocNativeString (Some ''abc'') \<lparr>budget = 1, live = 0\<rparr>) = Ret (Str ''abc'') \<and> str_chars (Str ''abc'') = ''abc''
   \<and> string_fromNative (Str ''xy'') = ''xy''"
proof -
  have a: "allocNativeString (Some ''abc'') \<lparr>budget = 1, live = 0\<rparr> = (Ret (Str ''abc''), \<lparr>budget = 0, live = 1\<rparr>)"
    by (simp add: allocNativeString_def op_bind_def alloc_block_def)
  have b: "string_toNative ''xy'' \<lparr>budget = 1, live = 0\<rparr> = (Ret (Str ''xy''), \<lparr>budget = 0, live = 1\<rparr>)"
    by (simp add: string_toNative_def str_init_def op_bind_def alloc_block_def)
  note w = native_strings_faithful[OF a, of "''xy''" "\<lparr>budget = 1, live = 0\<rparr>" "Str ''xy''" "\<lparr>budget = 0, live = 1\<rparr>" "[]"]
  have "str_chars (Str ''abc'') = ''abc''" using w[THEN conjunct1] unfolding sum.case option.case by (elim conjE)
  moreover have "string_fromNative (Str ''xy'') = ''xy''" using w[THEN conjunct2, THEN conjunct1, THEN mp, OF b] .
  ultimately show ?thesis using a by simp
qed

text \<open>The big-endian bytes a guid stands for.\<close>

definition guid_bytes :: "Guid \<Rightarrow> u8 list" where
  "guid_bytes g = [ucast (drop_bit 24 (data1 g)), ucast (drop_bit 16 (data1 g)), ucast (drop_bit 8 (data1 g)), ucast (data1 g),
     ucast (drop_bit 8 (data2 g)), ucast (data2 g), ucast (drop_bit 8 (data3 g)), ucast (data3 g)] @ data4 g"

lemma bytes32:
  fixes a b c d :: u8
  defines "w \<equiv> push_bit 24 (ucast a) OR push_bit 16 (ucast b) OR push_bit 8 (ucast c) OR ucast d :: u32"
  shows "ucast (drop_bit 24 w) = a" "ucast (drop_bit 16 w) = b" "ucast (drop_bit 8 w) = c" "ucast w = d"
  unfolding w_def by (rule bit_word_eqI; auto simp: bit_simps dest: bit_imp_le_length)+

lemma bytes16:
  fixes a b :: u8
  defines "w \<equiv> push_bit 8 (ucast a) OR ucast b :: u16"
  shows "ucast (drop_bit 8 w) = a" "ucast w = b"
  unfolding w_def by (rule bit_word_eqI; auto simp: bit_simps dest: bit_imp_le_length)+

text \<open>Node ids keep what they were built from: a guid read from 16 bytes has exactly those bytes in network order, so
  different bytes give different guids; every node id constructor keeps namespace and identifier, the tag is the
  constructor's, and of the typed accessors exactly the one of the stored type answers while the others return null and their
  throwing variants throw \<open>TypeError\<close>.\<close>

theorem node_id_faithful:
  assumes "length bs = 16" "length cs = 16"
  shows "guid_bytes (Guid_of_bytes bs) = bs \<and> (Guid_of_bytes bs = Guid_of_bytes cs \<longleftrightarrow> bs = cs)
    \<and> Guid_of_parts (data1 (Guid_of_bytes bs)) (data2 (Guid_of_bytes bs)) (data3 (Guid_of_bytes bs)) (drop 8 bs) = Guid_of_bytes bs
    \<and> identifier_as identifierIf_guid (NodeId_guid ns (Guid_of_bytes bs)) = Ret (Guid_of_bytes bs)
    \<and> identifier_as identifierIf_numeric (NodeId_numeric ns i) = Ret i
    \<and> identifier_as identifierIf_bytes (NodeId_bytes ns b) = Ret b
    \<and> (NodeId_string ns v m = (Ret n, m') \<longrightarrow> namespaceIndex n = ns \<and> identifier_as identifierIf_string n = Ret (toNativeString v))
    \<and> (identifierIf_numeric x \<noteq> None \<longleftrightarrow> identifierType x = NtNumeric) \<and> (identifierIf_string x \<noteq> None \<longleftrightarrow> identifierType x = NtString)
    \<and> (identifierIf_guid x \<noteq> None \<longleftrightarrow> identifierType x = NtGuid) \<and> (identifierIf_bytes x \<noteq> None \<longleftrightarrow> identifierType x = NtByteString)
    \<and> (identifierType x \<noteq> NtGuid \<longrightarrow> (\<exists>t. identifier_as identifierIf_guid x = throw (TypeError t)))
    \<and> isLocal (ExpandedNodeId_of x)"
proof -
  have nth: "length xs = 16 \<Longrightarrow> xs = [xs ! 0, xs ! 1, xs ! 2, xs ! 3, xs ! 4, xs ! 5, xs ! 6, xs ! 7, xs ! 8, xs ! 9,
      xs ! 10, xs ! 11, xs ! 12, xs ! 13, xs ! 14, xs ! 15]" for xs :: "u8 list"
    by (rule nth_equalityI) (auto simp: nth_Cons less_Suc_eq numeral_eq_Suc split: nat.splits)
  have bytes: "length xs = 16 \<Longrightarrow> guid_bytes (Guid_of_bytes xs) = xs" for xs
    by (rule trans[OF _ nth[symmetric]]) (simp_all only: guid_bytes_def Guid_of_bytes_def Guid.select_convs bytes32 bytes16 append.simps)
  have parts: "Guid_of_parts (data1 (Guid_of_bytes bs)) (data2 (Guid_of_bytes bs)) (data3 (Guid_of_bytes bs)) (drop 8 bs) = Guid_of_bytes bs"
    using assms(1) by (simp add: Guid_of_parts_def Guid_of_bytes_def)
  have ids: "identifierIf_numeric x \<noteq> None \<longleftrightarrow> identifierType x = NtNumeric" "identifierIf_string x \<noteq> None \<longleftrightarrow> identifierType x = NtString"
    "identifierIf_guid x \<noteq> None \<longleftrightarrow> identifierType x = NtGuid" "identifierIf_bytes x \<noteq> None \<longleftrightarrow> identifierType x = NtByteString"
    by (auto simp: identifierType_def identifierIf_numeric_def identifierIf_string_def identifierIf_guid_def identifierIf_bytes_def
        split: node_identifier.splits)
  have str: "namespaceIndex n = ns \<and> identifier_as identifierIf_string n = Ret (toNativeString v)" if "NodeId_string ns v m = (Ret n, m')"
    using that by (auto simp: NodeId_string_def op_bind_def allocNativeString_def alloc_block_def identifier_as_def
        identifierIf_string_def identifierType_def toNativeString_def split: option.splits if_splits)
  have inj: "Guid_of_bytes bs = Guid_of_bytes cs \<longleftrightarrow> bs = cs" using bytes[OF assms(1)] bytes[OF assms(2)] by metis
  have get: "identifier_as identifierIf_guid (NodeId_guid ns g) = Ret g" "identifier_as identifierIf_numeric (NodeId_numeric ns i) = Ret i"
    "identifier_as identifierIf_bytes (NodeId_bytes ns b) = Ret b" "isLocal (ExpandedNodeId_of x)" for g
    by (simp_all add: identifier_as_def identifierIf_guid_def identifierIf_numeric_def identifierIf_bytes_def identifierType_def
        NodeId_guid_def NodeId_numeric_def NodeId_bytes_def isLocal_def ExpandedNodeId_of_def)
  have err: "identifierType x \<noteq> NtGuid \<longrightarrow> (\<exists>t. identifier_as identifierIf_guid x = throw (TypeError t))"
    using ids(3) by (auto simp: identifier_as_def)
  show ?thesis
    by (intro conjI impI bytes[OF assms(1)] inj parts ids get err[THEN mp]) (use str in blast)+
qed

theorem node_id_faithful_witness:
  "guid_bytes (Guid_of_bytes [1, 2, 3, 4, 5, 6, 7, 8, 9, 10, 11, 12, 13, 14, 15, 255]) = [1, 2, 3, 4, 5, 6, 7, 8, 9, 10, 11, 12, 13, 14, 15, 255]
   \<and> (\<exists>t. identifier_as identifierIf_guid (NodeId_numeric 1 42) = throw (TypeError t))"
proof -
  have "identifierType (NodeId_numeric 1 42) \<noteq> NtGuid" by (simp add: identifierType_def NodeId_numeric_def)
  then show ?thesis
    using node_id_faithful[of "[1, 2, 3, 4, 5, 6, 7, 8, 9, 10, 11, 12, 13, 14, 15, 255]" "replicate 16 0" undefined undefined
        undefined undefined undefined undefined undefined "NodeId_numeric 1 42"] by simp
qed

end
