(* ===== verification/Numeric_Ranges.thy ===== *)
theory Numeric_Ranges
  imports Builtin_Types
begin

text \<open>
  \<open>NumericRange\<close> (\<open>types.hpp\<close>, \<open>types.cpp\<close>): ownership of the array of dimensions, and the string form. The parser is a
  function of the C library and a parameter of the constructor; the documented encoding (\<open>1:2,0:3,5\<close>) is given here as a
  reading function of its own, against which the printer is checked.
\<close>

section \<open>The class\<close>

record RangeDimension =
  nrd_min :: u32
  nrd_max :: u32

definition dim_eq :: "RangeDimension \<Rightarrow> RangeDimension \<Rightarrow> bool" where
  "dim_eq lhs rhs = (nrd_min lhs = nrd_min rhs \<and> nrd_max lhs = nrd_max rhs)"

definition dim_neq :: "RangeDimension \<Rightarrow> RangeDimension \<Rightarrow> bool" where
  "dim_neq lhs rhs = (\<not> dim_eq lhs rhs)"

datatype range_ptr = RangeNull | RangeSentinel | RangeOwn "RangeDimension list"

record NumericRange =
  nr_dimensions :: range_ptr
  nr_size :: nat

definition zero_range :: NumericRange where
  "zero_range = \<lparr>nr_dimensions = RangeNull, nr_size = 0\<rparr>"

definition range_dimensions :: "NumericRange \<Rightarrow> RangeDimension list" where
  "range_dimensions r = (case nr_dimensions r of RangeOwn xs \<Rightarrow> take (nr_size r) xs | _ \<Rightarrow> [])"

definition range_empty :: "NumericRange \<Rightarrow> bool" where
  "range_empty r = (nr_size r = 0)"

definition own_range :: "NumericRange \<Rightarrow> int" where
  "own_range r = (case nr_dimensions r of RangeOwn _ \<Rightarrow> 1 | _ \<Rightarrow> 0)"

text \<open>The private \<open>copy\<close>, from a pointer and a size, and from a native range.\<close>

definition copy_dimensions :: "RangeDimension list \<Rightarrow> (mem, NumericRange) op" where
  "copy_dimensions xs = (if xs = [] then op_ret \<lparr>nr_dimensions = RangeSentinel, nr_size = 0\<rparr>
     else if 2 ^ 31 - 1 < List.length xs then op_fail (Throw BadAlloc)
     else op_bind (alloc_block BadAlloc) (\<lambda>_. op_ret \<lparr>nr_dimensions = RangeOwn xs, nr_size = List.length xs\<rparr>))"

definition copy_range :: "NumericRange \<Rightarrow> (mem, NumericRange) op" where
  "copy_range other = copy_dimensions (range_dimensions other)"

definition clear_range :: "NumericRange \<Rightarrow> NumericRange \<times> int" where
  "clear_range r = (zero_range, own_range r)"

definition move_range :: "NumericRange \<Rightarrow> NumericRange \<times> NumericRange" where
  "move_range other = (other, zero_range)"

text \<open>The constructors and assignments have the shape of those of \<open>Wrapper\<close>, over these three functions.\<close>

definition range_handler :: "NumericRange handler" where
  "range_handler = \<lparr>h_copy = copy_range, h_move = move_range, h_clear = clear_range\<rparr>"

definition NumericRange_of_dimensions :: "RangeDimension list \<Rightarrow> (mem, NumericRange) op" where
  "NumericRange_of_dimensions dims = copy_dimensions dims"

definition NumericRange_of_string ::
  "(native_string \<Rightarrow> mem \<Rightarrow> (u32 \<times> NumericRange) \<times> mem) \<Rightarrow> string option \<Rightarrow> (mem, NumericRange) op" where
  "NumericRange_of_string parse encodedRange m = (case parse (toNativeString encodedRange) m of ((status, r), m') \<Rightarrow>
     (outc_bind (throwIfBad status) (\<lambda>_. Ret r), m'))"

definition range_assign :: "nat \<Rightarrow> nat \<Rightarrow> NumericRange wworld \<Rightarrow> unit outc \<times> NumericRange wworld" where
  "range_assign = wrapper_copy_assign range_handler"

definition range_move_assign :: "nat \<Rightarrow> nat \<Rightarrow> NumericRange wworld \<Rightarrow> unit outc \<times> NumericRange wworld" where
  "range_move_assign = wrapper_move_assign range_handler"

definition range_copy_construct :: "nat \<Rightarrow> nat \<Rightarrow> NumericRange wworld \<Rightarrow> unit outc \<times> NumericRange wworld" where
  "range_copy_construct = wrapper_copy_construct range_handler"

definition range_move_construct :: "nat \<Rightarrow> nat \<Rightarrow> NumericRange wworld \<Rightarrow> unit outc \<times> NumericRange wworld" where
  "range_move_construct = wrapper_move_construct range_handler"

definition range_destroy :: "nat \<Rightarrow> NumericRange wworld \<Rightarrow> unit outc \<times> NumericRange wworld" where
  "range_destroy = wrapper_destroy range_handler"

section \<open>Printing\<close>

text \<open>An unsigned number in an output stream, with the classic locale.\<close>

definition digit :: "nat \<Rightarrow> char" where
  "digit d = char_of (48 + d)"

fun decimal :: "nat \<Rightarrow> string" where
  "decimal n = (if n < 10 then [digit n] else decimal (n div 10) @ [digit (n mod 10)])"

declare decimal.simps [simp del]

definition print_dimension :: "RangeDimension \<Rightarrow> string" where
  "print_dimension d = decimal (unat (nrd_min d)) @ (if nrd_min d \<noteq> nrd_max d
     then CHR '':'' # decimal (unat (nrd_max d)) else [])"

fun print_stream :: "RangeDimension list \<Rightarrow> string" where
  "print_stream [] = []"
| "print_stream (d # ds) = print_dimension d @ CHR '','' # print_stream ds"

text \<open>\<open>toStringImpl\<close>: \<open>pop_back\<close> of an empty string is undefined.\<close>

definition toStringImpl :: "NumericRange \<Rightarrow> (mem, native_string) op" where
  "toStringImpl r = (case print_stream (range_dimensions r) of [] \<Rightarrow> op_fail Undef | s \<Rightarrow> String_of_view (Some (butlast s)))"

section \<open>The documented encoding\<close>

definition is_digit :: "char \<Rightarrow> bool" where
  "is_digit c = (48 \<le> (of_char c :: nat) \<and> (of_char c :: nat) < 58)"

definition number :: "string \<Rightarrow> nat" where
  "number s = foldl (\<lambda>a c. 10 * a + (of_char c - 48)) 0 s"

definition read_number :: "string \<Rightarrow> u32 option" where
  "read_number s = (if s \<noteq> [] \<and> list_all is_digit s \<and> number s < 2 ^ 32 then Some (word_of_nat (number s)) else None)"

fun split_on :: "char \<Rightarrow> string \<Rightarrow> string list" where
  "split_on c [] = [[]]"
| "split_on c (x # xs) = (if x = c then [] # split_on c xs else (case split_on c xs of [] \<Rightarrow> [[x]] | y # ys \<Rightarrow> (x # y) # ys))"

definition read_dimension :: "string \<Rightarrow> RangeDimension option" where
  "read_dimension s = (case split_on CHR '':'' s of
      [a] \<Rightarrow> map_option (\<lambda>n. \<lparr>nrd_min = n, nrd_max = n\<rparr>) (read_number a)
    | [a, b] \<Rightarrow> (case (read_number a, read_number b) of
        (Some lo, Some hi) \<Rightarrow> if lo < hi then Some \<lparr>nrd_min = lo, nrd_max = hi\<rparr> else None
      | _ \<Rightarrow> None)
    | _ \<Rightarrow> None)"

definition read_range :: "string \<Rightarrow> RangeDimension list option" where
  "read_range s = those (map read_dimension (split_on CHR '','' s))"

section \<open>Facts\<close>

lemma of_char_digit: "d < 10 \<Longrightarrow> (of_char (digit d) :: nat) = 48 + d"
  by (simp add: digit_def)

lemma is_digit_digit: "d < 10 \<Longrightarrow> is_digit (digit d)"
  by (simp add: is_digit_def of_char_digit)

lemma decimal_digits: "list_all is_digit (decimal n)" "decimal n \<noteq> []"
proof -
  show "list_all is_digit (decimal n)"
  proof (induction n rule: decimal.induct)
    case (1 n)
    have "n < 10 \<or> \<not> n < 10" by simp
    then show ?case
    proof
      assume "n < 10"
      then show ?thesis by (subst decimal.simps) (simp add: is_digit_digit)
    next
      assume "\<not> n < 10"
      then show ?thesis using 1 by (subst decimal.simps) (simp add: is_digit_digit)
    qed
  qed
  show "decimal n \<noteq> []" by (subst decimal.simps) simp
qed

lemma number_decimal: "number (decimal n) = n"
proof (induction n rule: decimal.induct)
  case (1 n)
  show ?case
  proof (cases "n < 10")
    case True
    then show ?thesis by (subst decimal.simps) (simp add: number_def of_char_digit)
  next
    case False
    then show ?thesis using 1 by (subst decimal.simps) (simp add: number_def of_char_digit)
  qed
qed

lemma read_decimal: "read_number (decimal (unat (w :: u32))) = Some w"
  using unsigned_less[of w] by (simp add: read_number_def decimal_digits number_decimal)

lemma split_on_free: "c \<notin> set s \<Longrightarrow> split_on c s = [s]"
  by (induction s) auto

lemma split_on_append: "c \<notin> set s \<Longrightarrow> split_on c (s @ c # t) = s # split_on c t"
  by (induction s) auto

lemma separators_free: "CHR '':'' \<notin> set (decimal n)" "CHR '','' \<notin> set (decimal n)"
  using decimal_digits(1)[of n] by (auto simp: list_all_iff is_digit_def)

lemma print_dimension_cases:
  "print_dimension d = (if nrd_min d = nrd_max d then decimal (unat (nrd_min d))
     else decimal (unat (nrd_min d)) @ CHR '':'' # decimal (unat (nrd_max d)))"
  by (simp add: print_dimension_def)

lemma read_print_dimension: "nrd_min d \<le> nrd_max d \<Longrightarrow> read_dimension (print_dimension d) = Some d"
  by (auto simp: read_dimension_def print_dimension_cases split_on_free split_on_append separators_free read_decimal order_less_le)

lemma print_dimension_free: "CHR '','' \<notin> set (print_dimension d)" "print_dimension d \<noteq> []"
  by (auto simp: print_dimension_cases separators_free decimal_digits)

lemma split_print: "ds \<noteq> [] \<Longrightarrow> split_on CHR '','' (butlast (print_stream ds)) = map print_dimension ds"
proof (induction ds)
  case (Cons d ds)
  show ?case
  proof (cases ds)
    case Nil
    then show ?thesis by (simp add: butlast_append split_on_free print_dimension_free)
  next
    case (Cons e es)
    then have "butlast (print_stream (d # ds)) = print_dimension d @ CHR '','' # butlast (print_stream ds)"
      by (simp add: butlast_append)
    then show ?thesis using Cons Cons.IH by (simp add: split_on_append print_dimension_free)
  qed
qed simp

lemma those_map: "(\<And>x. x \<in> set xs \<Longrightarrow> f (g x) = Some x) \<Longrightarrow> those (map f (map g xs)) = Some xs"
  by (induction xs) auto

lemma read_print: "ds \<noteq> [] \<Longrightarrow> \<forall>d \<in> set ds. nrd_min d \<le> nrd_max d \<Longrightarrow> read_range (butlast (print_stream ds)) = Some ds"
  unfolding read_range_def by (subst split_print) (auto intro: those_map read_print_dimension simp del: map_map)

lemma stream_empty: "print_stream ds = [] \<longleftrightarrow> ds = []"
  by (cases ds) simp_all

interpretation range_wrapper: type_handler range_handler zero_range own_range
  by unfold_locales
    (auto simp: range_handler_def zero_range_def own_range_def copy_range_def copy_dimensions_def move_range_def clear_range_def
      alloc_block_def op_bind_def split: if_splits)

text \<open>The string of a range: what \<open>toString\<close> returns when its allocations succeed.\<close>

definition shown :: "NumericRange \<Rightarrow> mem \<Rightarrow> string option" where
  "shown r m = (case toStringImpl r m of (Inr s, _) \<Rightarrow> Some (str_chars s) | _ \<Rightarrow> None)"

lemma butlast_stream: "ds \<noteq> [] \<Longrightarrow> butlast (print_stream ds) \<noteq> []"
  by (cases ds) (auto simp: butlast_append print_dimension_free split: if_splits)

lemma shown_range:
  "range_dimensions r \<noteq> [] \<Longrightarrow> 0 < budget m \<Longrightarrow> shown r m = Some (butlast (print_stream (range_dimensions r)))"
  using stream_empty[of "range_dimensions r"]
  by (auto simp: shown_def toStringImpl_def String_of_view_def allocNativeString_def alloc_block_def op_bind_def op_ret_def str_chars_def str_data_def
      str_size_def butlast_stream split: list.splits)

lemma copy_dimensions_result:
  "copy_dimensions xs m = (Inr r, m') \<Longrightarrow> range_dimensions r = xs \<and> range_empty r = (xs = []) \<and> live m' = live m + own_range r"
  by (auto simp: copy_dimensions_def range_dimensions_def range_empty_def own_range_def alloc_block_def op_bind_def split: if_splits)

text \<open>C25. A numeric range holds exactly the dimensions it was made of, and so does every copy of it. Its string, when memory
  allows one, is read by the documented encoding as exactly these dimensions, provided there is one and each has
  min <= max; without dimensions the conversion is undefined. Sequences of constructions, assignments, swaps and
  destructions of ranges, with any failing allocation, keep the allocations equal to those the ranges own or, after an
  exception, at least these.\<close>

theorem numeric_range_roundtrip:
  assumes "NumericRange_of_dimensions ds m = (Inr r, m1)" "copy_range r m1 = (Inr r', m2)"
    and "\<forall>d \<in> set ds. nrd_min d \<le> nrd_max d" "0 < budget m2"
    and "finite (dom (w_objs w))" "w_all_legal range_handler zero_range ops w" "w_runs range_handler zero_range ops w = (q, w')"
  shows "range_dimensions r = ds \<and> range_dimensions r' = ds
    \<and> (if ds = [] then fst (toStringImpl r' m2) = Inl Undef else Option.bind (shown r' m2) read_range = Some ds)
    \<and> (if q = Ret () then w_slack own_range w' = w_slack own_range w else w_slack own_range w \<le> w_slack own_range w')"
proof -
  have "range_dimensions r = ds" using assms(1) copy_dimensions_result by (simp add: NumericRange_of_dimensions_def)
  moreover from this have "range_dimensions r' = ds" using assms(2) copy_dimensions_result by (simp add: copy_range_def)
  moreover from this have "fst (toStringImpl r' m2) = Inl Undef" if "ds = []" using that by (simp add: toStringImpl_def)
  moreover have "Option.bind (shown r' m2) read_range = Some ds" if "ds \<noteq> []"
    using that assms(3,4) \<open>range_dimensions r' = ds\<close> by (simp add: shown_range read_print)
  ultimately show ?thesis using range_wrapper.runs_slack[OF assms(5-7)] by (auto split: sum.splits)
qed

definition demo_dims :: "RangeDimension list" where
  "demo_dims = [\<lparr>nrd_min = 1, nrd_max = 2\<rparr>, \<lparr>nrd_min = 0, nrd_max = 13\<rparr>, \<lparr>nrd_min = 5, nrd_max = 5\<rparr>]"

definition demo_range :: NumericRange where
  "demo_range = \<lparr>nr_dimensions = RangeOwn demo_dims, nr_size = 3\<rparr>"

definition demo_ranges :: "NumericRange wworld" where
  "demo_ranges = \<lparr>w_mem = \<lparr>budget = 9, live = 1\<rparr>, w_objs = (\<lambda>_. None)(0 := Some demo_range)\<rparr>"

theorem numeric_range_roundtrip_witness:
  "Option.bind (shown demo_range \<lparr>budget = 7, live = 2\<rparr>) read_range = Some demo_dims
   \<and> w_slack own_range (snd (w_runs range_handler zero_range [WCopy 1 0, WMoveAssign 0 1, WDestroy 1] demo_ranges))
      = w_slack own_range demo_ranges"
proof -
  let ?ops = "[WCopy 1 0, WMoveAssign 0 1, WDestroy 1]"
  have m: "NumericRange_of_dimensions demo_dims \<lparr>budget = 9, live = 0\<rparr> = (Inr demo_range, \<lparr>budget = 8, live = 1\<rparr>)"
    "copy_range demo_range \<lparr>budget = 8, live = 1\<rparr> = (Inr demo_range, \<lparr>budget = 7, live = 2\<rparr>)"
    "\<forall>d \<in> set demo_dims. nrd_min d \<le> nrd_max d" "demo_dims \<noteq> []"
    by (simp_all add: demo_dims_def demo_range_def NumericRange_of_dimensions_def copy_range_def copy_dimensions_def range_dimensions_def
        alloc_block_def op_bind_def op_ret_def)
  have "finite (dom (w_objs demo_ranges))" "w_all_legal range_handler zero_range ?ops demo_ranges"
    "fst (w_runs range_handler zero_range ?ops demo_ranges) = Ret ()"
    by (simp_all add: demo_ranges_def wrapper_copy_construct_def wrapper_move_assign_def wrapper_destroy_def wrapper_clear_def range_handler_def
        move_range_def clear_range_def copy_range_def copy_dimensions_def demo_range_def demo_dims_def range_dimensions_def alloc_block_def
        op_bind_def op_ret_def w_put_def)
  then show ?thesis
    using numeric_range_roundtrip[OF m(1-3) _ _ _ surjective_pairing, of demo_ranges ?ops] m(4) by simp
qed

end
