(* ===== verification/Variants.thy ===== *)
theory Variants
  imports Builtin_Types
begin

text \<open>
  \<open>Variant\<close> of \<open>types.hpp\<close>. The value universe \<open>'v\<close> holds the native values of all types; a type is described by its id
  and size, a template argument by its description and \<open>sizeof\<close>. The data pointer is null, the empty-array sentinel,
  an owned block, or the address of an object outside, whose elements a store gives. The two tests of the C
  library on variants are the parameter \<open>api\<close>; \<open>variant_api\<close> is what its documentation says. Deep copies and conversions to
  native values are operations on the memory of \<open>Wrappers\<close>; \<open>own\<close> counts what a native value owns.
\<close>

record vtype =
  t_id :: nat
  t_size :: nat

datatype 'v vdata = NullPtr | SentinelPtr | OwnPtr "'v list" | ExtPtr nat

datatype storage = UA_VARIANT_DATA | UA_VARIANT_DATA_NODELETE

record 'v Variant =
  v_type :: "vtype option"
  v_storage :: storage
  v_data :: "'v vdata"
  v_length :: nat
  v_dims :: "u32 list"

definition zero_variant :: "'v Variant" where
  "zero_variant = \<lparr>v_type = None, v_storage = UA_VARIANT_DATA, v_data = NullPtr, v_length = 0, v_dims = []\<rparr>"

record 'v api =
  UA_Variant_isEmpty :: "'v Variant \<Rightarrow> bool"
  UA_Variant_isScalar :: "'v Variant \<Rightarrow> bool"

text \<open>The documented meaning: empty means no type, a scalar has length zero and a pointer that is neither null nor the sentinel.\<close>

definition variant_api :: "'v api \<Rightarrow> bool" where
  "variant_api a = ((\<forall>v. UA_Variant_isEmpty a v \<longleftrightarrow> v_type v = None)
     \<and> (\<forall>v. UA_Variant_isScalar a v \<longleftrightarrow> v_type v \<noteq> None \<and> v_length v = 0 \<and> v_data v \<notin> {NullPtr, SentinelPtr}))"

definition doc_api :: "'v api" where
  "doc_api = \<lparr>UA_Variant_isEmpty = (\<lambda>v. v_type v = None),
     UA_Variant_isScalar = (\<lambda>v. v_type v \<noteq> None \<and> v_length v = 0 \<and> (case v_data v of NullPtr \<Rightarrow> False | SentinelPtr \<Rightarrow> False | _ \<Rightarrow> True))\<rparr>"

lemma variant_api_doc: "variant_api doc_api"
  by (auto simp: variant_api_def doc_api_def split: vdata.splits)

section \<open>Ownership\<close>

definition own_variant :: "('v \<Rightarrow> int) \<Rightarrow> 'v Variant \<Rightarrow> int" where
  "own_variant own v = (case (v_storage v, v_data v) of (UA_VARIANT_DATA, OwnPtr xs) \<Rightarrow> 1 + (\<Sum>x \<leftarrow> xs. own x) | _ \<Rightarrow> 0)"

text \<open>A variant object and the memory.\<close>

record 'v vworld =
  vw_mem :: mem
  vw_var :: "'v Variant"

definition variant_clear :: "('v \<Rightarrow> int) \<Rightarrow> 'v vworld \<Rightarrow> 'v vworld" where
  "variant_clear own w = \<lparr>vw_mem = free_blocks (own_variant own (vw_var w)) (vw_mem w), vw_var = zero_variant\<rparr>"

definition setArrayImpl :: "('v \<Rightarrow> int) \<Rightarrow> nat \<Rightarrow> 'v vdata \<Rightarrow> nat \<Rightarrow> vtype \<Rightarrow> storage \<Rightarrow> ('v vworld, unit) op" where
  "setArrayImpl own sz d n ty st w =
     (if sz \<noteq> t_size ty then (Inl Terminate, w)
      else (Ret (), (variant_clear own w)\<lparr>vw_var := \<lparr>v_type = Some ty, v_storage = st, v_data = d, v_length = n, v_dims = []\<rparr>\<rparr>))"

definition setScalarImpl :: "('v \<Rightarrow> int) \<Rightarrow> nat \<Rightarrow> 'v vdata \<Rightarrow> vtype \<Rightarrow> storage \<Rightarrow> ('v vworld, unit) op" where
  "setScalarImpl own sz d ty st = setArrayImpl own sz d 0 ty st"

definition in_mem :: "(mem, 'a) op \<Rightarrow> ('v vworld, 'a) op" where
  "in_mem f w = (case f (vw_mem w) of (r, m) \<Rightarrow> (r, w\<lparr>vw_mem := m\<rparr>))"

text \<open>\<open>setScalarCopyImpl\<close> and \<open>setScalarCopyConvertImpl\<close>: a block is allocated, the copy or converted value is put there, and only
  then the variant is changed; the unique pointer frees the block when the copy throws.\<close>

definition new_scalar :: "('a \<Rightarrow> (mem, 'v) op) \<Rightarrow> 'a \<Rightarrow> (mem, 'v list) op" where
  "new_scalar f x = op_bind (alloc_block BadAlloc) (\<lambda>_.
     op_bind (op_on_throw (f x) (\<lambda>m. (Ret (), free_blocks 1 m))) (\<lambda>y. op_ret [y]))"

definition setScalarCopyImpl :: "('v \<Rightarrow> int) \<Rightarrow> ('v \<Rightarrow> (mem, 'v) op) \<Rightarrow> nat \<Rightarrow> 'v \<Rightarrow> vtype \<Rightarrow> ('v vworld, unit) op" where
  "setScalarCopyImpl own ua_copy sz x ty =
     op_bind (in_mem (new_scalar ua_copy x)) (\<lambda>xs. setScalarImpl own sz (OwnPtr xs) ty UA_VARIANT_DATA)"

definition setScalarCopyConvertImpl ::
  "('v \<Rightarrow> int) \<Rightarrow> ('a \<Rightarrow> (mem, 'v) op) \<Rightarrow> 'a \<Rightarrow> vtype \<Rightarrow> ('v vworld, unit) op" where
  "setScalarCopyConvertImpl own toNative x ty =
     op_bind (in_mem (new_scalar toNative x)) (\<lambda>xs. setScalarImpl own (t_size ty) (OwnPtr xs) ty UA_VARIANT_DATA)"

text \<open>\<open>copyArray\<close> on the counting memory: each element is copied or converted; when one throws the array deleter clears the
  elements already there and frees the block. An empty range gives the sentinel.\<close>

fun copy_elems :: "('v \<Rightarrow> int) \<Rightarrow> ('a \<Rightarrow> (mem, 'v) op) \<Rightarrow> 'a list \<Rightarrow> (mem, 'v list) op" where
  "copy_elems own f [] = op_ret []"
| "copy_elems own f (x # xs) = op_bind (f x) (\<lambda>y.
     op_bind (op_on_throw (copy_elems own f xs) (\<lambda>m. (Ret (), free_blocks (own y) m))) (\<lambda>ys. op_ret (y # ys)))"

definition vcopyArray :: "('v \<Rightarrow> int) \<Rightarrow> ('a \<Rightarrow> (mem, 'v) op) \<Rightarrow> 'a list \<Rightarrow> (mem, 'v vdata \<times> nat) op" where
  "vcopyArray own f xs = (if 2 ^ 31 - 1 < length xs then op_fail (Throw BadAlloc)
     else if xs = [] then op_ret (SentinelPtr, 0)
     else op_bind (alloc_block BadAlloc) (\<lambda>_.
       op_bind (op_on_throw (copy_elems own f xs) (\<lambda>m. (Ret (), free_blocks 1 m))) (\<lambda>ys. op_ret (OwnPtr ys, length xs))))"

definition setArrayCopyImpl :: "('v \<Rightarrow> int) \<Rightarrow> ('v \<Rightarrow> (mem, 'v) op) \<Rightarrow> nat \<Rightarrow> 'v list \<Rightarrow> vtype \<Rightarrow> ('v vworld, unit) op" where
  "setArrayCopyImpl own ua_copy sz xs ty =
     op_bind (in_mem (vcopyArray own ua_copy xs)) (\<lambda>(d, n). setArrayImpl own sz d n ty UA_VARIANT_DATA)"

definition setArrayCopyConvertImpl :: "('v \<Rightarrow> int) \<Rightarrow> ('a \<Rightarrow> (mem, 'v) op) \<Rightarrow> 'a list \<Rightarrow> vtype \<Rightarrow> ('v vworld, unit) op" where
  "setArrayCopyConvertImpl own toNative xs ty =
     op_bind (in_mem (vcopyArray own toNative xs)) (\<lambda>(d, n). setArrayImpl own (t_size ty) d n ty UA_VARIANT_DATA)"

section \<open>Assignment\<close>

text \<open>\<open>assign(T*, type)\<close> borrows: \<open>assign_pointer\<close> a scalar, \<open>assign_container\<close> the elements of a container, given by its data
  pointer (null or an address) and size.\<close>

definition assign_pointer :: "('v \<Rightarrow> int) \<Rightarrow> nat \<Rightarrow> nat option \<Rightarrow> vtype \<Rightarrow> ('v vworld, unit) op" where
  "assign_pointer own sz p ty w = (case p of None \<Rightarrow> (Ret (), variant_clear own w)
     | Some a \<Rightarrow> setScalarImpl own sz (ExtPtr a) ty UA_VARIANT_DATA_NODELETE w)"

definition assign_container :: "('v \<Rightarrow> int) \<Rightarrow> nat \<Rightarrow> (nat option \<times> nat) option \<Rightarrow> vtype \<Rightarrow> ('v vworld, unit) op" where
  "assign_container own sz c ty w = (case c of None \<Rightarrow> (Ret (), variant_clear own w)
     | Some (p, n) \<Rightarrow> setArrayImpl own sz (case p of None \<Rightarrow> NullPtr | Some a \<Rightarrow> ExtPtr a) n ty UA_VARIANT_DATA_NODELETE w)"

text \<open>The copying \<open>assign\<close> of a template argument: registered types are copied, convertible ones converted, containers element-wise.
  The source value distinguishes what \<open>if constexpr\<close> selects.\<close>

datatype ('a, 'v) source = RegScalar 'v | ConvScalar 'a | RegRange "'v list" | ConvRange "'a list"

fun assign :: "('v \<Rightarrow> int) \<Rightarrow> ('v \<Rightarrow> (mem, 'v) op) \<Rightarrow> ('a \<Rightarrow> (mem, 'v) op) \<Rightarrow> vtype \<Rightarrow> ('a, 'v) source \<Rightarrow> ('v vworld, unit) op" where
  "assign own ua_copy toNative ty (RegScalar x) = setScalarCopyImpl own ua_copy (t_size ty) x ty"
| "assign own ua_copy toNative ty (ConvScalar x) = setScalarCopyConvertImpl own toNative x ty"
| "assign own ua_copy toNative ty (RegRange xs) = setArrayCopyImpl own ua_copy (t_size ty) xs ty"
| "assign own ua_copy toNative ty (ConvRange xs) = setArrayCopyConvertImpl own toNative xs ty"

section \<open>Observers and accessors\<close>

definition v_empty :: "'v api \<Rightarrow> 'v Variant \<Rightarrow> bool" where
  "v_empty a v = UA_Variant_isEmpty a v"

definition v_isScalar :: "'v api \<Rightarrow> 'v Variant \<Rightarrow> bool" where
  "v_isScalar a v = UA_Variant_isScalar a v"

definition v_isArray :: "'v api \<Rightarrow> 'v Variant \<Rightarrow> bool" where
  "v_isArray a v = (\<not> v_empty a v \<and> \<not> v_isScalar a v)"

definition v_isType :: "'v Variant \<Rightarrow> nat \<Rightarrow> bool" where
  "v_isType v i = (case v_type v of None \<Rightarrow> False | Some t \<Rightarrow> t_id t = i)"

definition isBorrowed :: "'v Variant \<Rightarrow> bool" where
  "isBorrowed v = (v_storage v = UA_VARIANT_DATA_NODELETE)"

text \<open>\<open>data()\<close> strips the sentinel.\<close>

definition v_elems :: "(nat \<Rightarrow> 'v list option) \<Rightarrow> 'v Variant \<Rightarrow> 'v list option" where
  "v_elems store v = (case v_data v of NullPtr \<Rightarrow> None | SentinelPtr \<Rightarrow> None | OwnPtr xs \<Rightarrow> Some xs | ExtPtr a \<Rightarrow> store a)"

definition checkIsScalar :: "'v api \<Rightarrow> 'v Variant \<Rightarrow> unit outc" where
  "checkIsScalar a v = (if \<not> v_isScalar a v then throw (BadVariantAccess ''Variant is not a scalar'') else Ret ())"

definition checkIsArray :: "'v api \<Rightarrow> 'v Variant \<Rightarrow> unit outc" where
  "checkIsArray a v = (if \<not> v_isArray a v then throw (BadVariantAccess ''Variant is not an array'') else Ret ())"

definition checkIsType :: "vtype \<Rightarrow> 'v Variant \<Rightarrow> unit outc" where
  "checkIsType t v = (case v_type v of
      None \<Rightarrow> throw (BadVariantAccess ''Variant does not contain a value convertible to template type'')
    | Some dt \<Rightarrow> if t_id dt \<noteq> t_id t
        then throw (BadVariantAccess ''Variant does not contain a value convertible to template type'') else Ret ())"

definition v_scalar :: "'v api \<Rightarrow> (nat \<Rightarrow> 'v list option) \<Rightarrow> vtype \<Rightarrow> 'v Variant \<Rightarrow> 'v outc" where
  "v_scalar a store t v = outc_bind (checkIsScalar a v) (\<lambda>_. outc_bind (checkIsType t v) (\<lambda>_.
     (case v_elems store v of Some (x # _) \<Rightarrow> Ret x | _ \<Rightarrow> Inl Undef)))"

text \<open>\<open>array<T>()\<close> is a span of the elements; the result here is the content it shows.\<close>

definition v_array :: "'v api \<Rightarrow> (nat \<Rightarrow> 'v list option) \<Rightarrow> vtype \<Rightarrow> 'v Variant \<Rightarrow> 'v list outc" where
  "v_array a store t v = outc_bind (checkIsArray a v) (\<lambda>_. outc_bind (checkIsType t v) (\<lambda>_.
     if v_length v = 0 then Ret []
     else (case v_elems store v of
         Some xs \<Rightarrow> if v_length v \<le> length xs then Ret (take (v_length v) xs) else Inl Undef
       | None \<Rightarrow> Inl Undef)))"

text \<open>\<open>to<T>()\<close>, for the four kinds of \<open>T\<close>.\<close>

definition to_reg_scalar :: "'v api \<Rightarrow> (nat \<Rightarrow> 'v list option) \<Rightarrow> vtype \<Rightarrow> 'v Variant \<Rightarrow> 'v outc" where
  "to_reg_scalar = v_scalar"

definition to_conv_scalar :: "'v api \<Rightarrow> (nat \<Rightarrow> 'v list option) \<Rightarrow> ('v \<Rightarrow> 'a) \<Rightarrow> vtype \<Rightarrow> 'v Variant \<Rightarrow> 'a outc" where
  "to_conv_scalar a store fromNative t v = outc_map fromNative (v_scalar a store t v)"

definition to_reg_array :: "'v api \<Rightarrow> (nat \<Rightarrow> 'v list option) \<Rightarrow> vtype \<Rightarrow> 'v Variant \<Rightarrow> 'v list outc" where
  "to_reg_array = v_array"

definition to_conv_array :: "'v api \<Rightarrow> (nat \<Rightarrow> 'v list option) \<Rightarrow> ('v \<Rightarrow> 'a) \<Rightarrow> vtype \<Rightarrow> 'v Variant \<Rightarrow> 'a list outc" where
  "to_conv_array a store fromNative t v = outc_map (map fromNative) (v_array a store t v)"

section \<open>Sources of native values\<close>

text \<open>What \<open>Variant\<close> relies on of \<open>UA_copy\<close> and of \<open>TypeConverter::toNative\<close>: a value that is produced owns what was
  allocated for it and reads back as the source; a failure throws and keeps nothing.\<close>

locale value_source =
  fixes own :: "'v \<Rightarrow> int" and f :: "'a \<Rightarrow> (mem, 'v) op" and back_to :: "'v \<Rightarrow> 'a"
  assumes produced: "f x m = (Inr y, m') \<Longrightarrow> live m' = live m + own y \<and> back_to y = x"
    and failed: "f x m = (Inl e, m') \<Longrightarrow> (\<exists>ex. e = Throw ex) \<and> live m' = live m"
begin

lemma new_scalar_spec:
  assumes "new_scalar f x m = (r, m')"
  obtains (failure) ex where "r = throw ex" "live m' = live m"
    | (success) y where "r = Ret [y]" "live m' = live m + 1 + own y" "back_to y = x"
proof -
  obtain q k where a: "alloc_block BadAlloc m = (q, k)" by fastforce
  show thesis
  proof (cases rule: alloc_block_cases[OF a])
    case 1
    with assms a show thesis by (intro failure) (auto simp: new_scalar_def op_bind_def)
  next
    case 2
    obtain q2 k2 where c: "f x k = (q2, k2)" by fastforce
    show thesis
    proof (cases q2)
      case (Inl e)
      with failed c obtain ex where "e = Throw ex" "live k2 = live k" by blast
      with assms a 2 c Inl show thesis
        by (intro failure[of ex]) (auto simp: new_scalar_def op_bind_def op_on_throw_def free_blocks_def)
    next
      case (Inr y)
      with produced c have "live k2 = live k + own y \<and> back_to y = x" by blast
      with assms a 2 c Inr show thesis
        by (intro success[of y]) (auto simp: new_scalar_def op_bind_def op_on_throw_def)
    qed
  qed
qed

lemma copy_elems_spec:
  assumes "copy_elems own f xs m = (r, m')"
  shows "case r of Inl e \<Rightarrow> (\<exists>ex. e = Throw ex) \<and> live m' = live m
    | Inr ys \<Rightarrow> live m' = live m + (\<Sum>y \<leftarrow> ys. own y) \<and> map back_to ys = xs"
  using assms
proof (induction xs arbitrary: m r m')
  case (Cons x xs)
  obtain q k where c: "f x m = (q, k)" by fastforce
  obtain q2 k2 where c2: "copy_elems own f xs k = (q2, k2)" by fastforce
  show ?case
  proof (cases q)
    case (Inl e)
    with failed[OF c[unfolded Inl]] Cons.prems c show ?thesis by (auto simp: op_bind_def)
  next
    case (Inr y)
    note p = produced[OF c[unfolded Inr]]
    show ?thesis
    proof (cases q2)
      case (Inl e)
      with Cons.IH[OF c2] obtain ex where "e = Throw ex" "live k2 = live k" by auto
      with Inl Inr Cons.prems c c2 p show ?thesis by (auto simp: op_bind_def op_on_throw_def free_blocks_def)
    next
      case ys: (Inr ys)
      with Cons.IH[OF c2] Inr Cons.prems c c2 p show ?thesis by (auto simp: op_bind_def op_on_throw_def)
    qed
  qed
qed auto

lemma vcopyArray_spec:
  assumes "vcopyArray own f xs m = (r, m')"
  obtains (failure) ex where "r = throw ex" "live m' = live m"
    | (nothing) "xs = []" "r = Ret (SentinelPtr, 0)" "live m' = live m"
    | (success) ys where "xs \<noteq> []" "r = Ret (OwnPtr ys, length xs)" "live m' = live m + 1 + (\<Sum>y \<leftarrow> ys. own y)" "map back_to ys = xs"
proof (cases "2 ^ 31 - 1 < length xs \<or> xs = []")
  case True
  show thesis
  proof (cases "xs = []")
    case True
    show thesis by (rule nothing) (use assms True in \<open>simp_all add: vcopyArray_def\<close>)
  next
    case False
    show thesis by (rule failure[of BadAlloc]) (use assms False \<open>2 ^ 31 - 1 < length xs \<or> xs = []\<close> in \<open>auto simp: vcopyArray_def\<close>)
  qed
next
  case False
  obtain q k where a: "alloc_block BadAlloc m = (q, k)" by fastforce
  show thesis
  proof (cases rule: alloc_block_cases[OF a])
    case 1
    with assms a False show thesis by (intro failure) (auto simp: vcopyArray_def op_bind_def)
  next
    case 2
    obtain q2 k2 where c: "copy_elems own f xs k = (q2, k2)" by fastforce
    show thesis
    proof (cases q2)
      case (Inl e)
      with copy_elems_spec[OF c] obtain ex where "e = Throw ex" "live k2 = live k" by auto
      with assms a 2 c Inl False show thesis
        by (intro failure[of ex]) (auto simp: vcopyArray_def op_bind_def op_on_throw_def free_blocks_def)
    next
      case (Inr ys)
      with copy_elems_spec[OF c] assms a 2 c False show thesis
        by (intro success[of ys]) (auto simp: vcopyArray_def op_bind_def op_on_throw_def)
    qed
  qed
qed

end

interpretation string_source: value_source own_string string_toNative string_fromNative
proof
  show "live m' = live m + own_string y \<and> string_fromNative y = x" if "string_toNative x m = (Ret y, m')" for x m y m'
    using that by (auto simp: string_toNative_def str_init_def alloc_block_def op_bind_def own_string_def string_fromNative_def
        str_data_def str_size_def split: if_splits)
  show "(\<exists>ex. e = Throw ex) \<and> live m' = live m" if "string_toNative x m = (Inl e, m')" for x m e m'
    using that by (auto simp: string_toNative_def str_init_def alloc_block_def op_bind_def split: if_splits)
qed

interpretation flat_source: value_source "\<lambda>_. 0" copy_pointer_free "\<lambda>x. x"
  by unfold_locales (simp_all add: copy_pointer_free_def)

section \<open>Assignments are atomic and read back\<close>

text \<open>The state of a variant after a copying assignment, seen through the accessors.\<close>

definition reads_scalar :: "'v api \<Rightarrow> vtype \<Rightarrow> 'v \<Rightarrow> 'v Variant \<Rightarrow> bool" where
  "reads_scalar a ty x v \<longleftrightarrow> v_isScalar a v \<and> \<not> v_isArray a v \<and> v_type v = Some ty \<and> \<not> isBorrowed v \<and> (\<forall>store. v_elems store v = Some [x])"

definition reads_array :: "'v api \<Rightarrow> vtype \<Rightarrow> 'v list \<Rightarrow> 'v Variant \<Rightarrow> bool" where
  "reads_array a ty xs v \<longleftrightarrow> v_isArray a v \<and> \<not> v_isScalar a v \<and> v_type v = Some ty \<and> \<not> isBorrowed v \<and> v_length v = length xs
     \<and> (\<forall>store. v_elems store v = (if xs = [] then None else Some xs))"

lemma reads_scalar_access:
  assumes "reads_scalar a ty x v"
  shows "v_scalar a store ty v = Ret x" "\<exists>msg. v_array a store t v = throw (BadVariantAccess msg)"
    and "t_id t \<noteq> t_id ty \<Longrightarrow> \<exists>msg. v_scalar a store t v = throw (BadVariantAccess msg)"
  using assms by (auto simp: reads_scalar_def v_scalar_def v_array_def checkIsScalar_def checkIsArray_def checkIsType_def)

lemma reads_array_access:
  assumes "reads_array a ty xs v"
  shows "v_array a store ty v = Ret xs" "\<exists>msg. v_scalar a store t v = throw (BadVariantAccess msg)"
    and "t_id t \<noteq> t_id ty \<Longrightarrow> \<exists>msg. v_array a store t v = throw (BadVariantAccess msg)"
  using assms by (auto simp: reads_array_def v_scalar_def v_array_def checkIsScalar_def checkIsArray_def checkIsType_def)

definition unchanged :: "'v vworld \<Rightarrow> 'v vworld \<Rightarrow> bool" where
  "unchanged w w' \<longleftrightarrow> vw_var w' = vw_var w \<and> live (vw_mem w') = live (vw_mem w)"

definition replaced :: "('v \<Rightarrow> int) \<Rightarrow> 'v vworld \<Rightarrow> 'v vworld \<Rightarrow> bool" where
  "replaced own w w' \<longleftrightarrow>
     live (vw_mem w') - own_variant own (vw_var w') = live (vw_mem w) - own_variant own (vw_var w)"

lemma in_mem_run: "f (vw_mem w) = (r, m) \<Longrightarrow> in_mem f w = (r, w\<lparr>vw_mem := m\<rparr>)"
  by (simp add: in_mem_def)

lemma setArrayImpl_ok:
  "setArrayImpl own (t_size ty) d n ty st w = (Ret (), \<lparr>vw_mem = free_blocks (own_variant own (vw_var w)) (vw_mem w),
     vw_var = \<lparr>v_type = Some ty, v_storage = st, v_data = d, v_length = n, v_dims = []\<rparr>\<rparr>)"
  by (simp add: setArrayImpl_def variant_clear_def)

lemma own_variant_simps [simp]:
  "own_variant own \<lparr>v_type = t, v_storage = UA_VARIANT_DATA, v_data = OwnPtr xs, v_length = n, v_dims = ds\<rparr> = 1 + (\<Sum>x \<leftarrow> xs. own x)"
  "own_variant own \<lparr>v_type = t, v_storage = UA_VARIANT_DATA, v_data = SentinelPtr, v_length = n, v_dims = ds\<rparr> = 0"
  "own_variant own \<lparr>v_type = t, v_storage = UA_VARIANT_DATA_NODELETE, v_data = d, v_length = n, v_dims = ds\<rparr> = 0"
  "own_variant own zero_variant = 0"
  by (simp_all add: own_variant_def zero_variant_def)

lemma scalar_assignment:
  assumes "value_source own f g" "variant_api a"
    and "op_bind (in_mem (new_scalar f x)) (\<lambda>xs. setScalarImpl own (t_size ty) (OwnPtr xs) ty UA_VARIANT_DATA) w = (r, w')"
  shows "(\<exists>e. r = throw e \<and> unchanged w w')
    \<or> (\<exists>y. r = Ret () \<and> replaced own w w' \<and> reads_scalar a ty y (vw_var w') \<and> g y = x)"
proof -
  obtain q m where n: "new_scalar f x (vw_mem w) = (q, m)" by fastforce
  note run = in_mem_run[of "new_scalar f x", OF n]
  show ?thesis
  proof (cases rule: value_source.new_scalar_spec[OF assms(1) n])
    case (1 e)
    with assms(3) run show ?thesis by (auto simp: op_bind_def unchanged_def)
  next
    case (2 y)
    with assms(2,3) run show ?thesis
      by (auto simp: op_bind_def setScalarImpl_def setArrayImpl_ok replaced_def free_blocks_def
          reads_scalar_def v_isScalar_def v_isArray_def v_empty_def isBorrowed_def v_elems_def variant_api_def)
  qed
qed

lemma array_assignment:
  assumes "value_source own f g" "variant_api a"
    and "op_bind (in_mem (vcopyArray own f xs)) (\<lambda>(d, n). setArrayImpl own (t_size ty) d n ty UA_VARIANT_DATA) w = (r, w')"
  shows "(\<exists>e. r = throw e \<and> unchanged w w')
    \<or> (\<exists>ys. r = Ret () \<and> replaced own w w' \<and> reads_array a ty ys (vw_var w') \<and> map g ys = xs)"
proof -
  obtain q m where n: "vcopyArray own f xs (vw_mem w) = (q, m)" by fastforce
  note run = in_mem_run[of "vcopyArray own f xs", OF n]
  show ?thesis
  proof (cases rule: value_source.vcopyArray_spec[OF assms(1) n])
    case (1 e)
    with assms(3) run show ?thesis by (auto simp: op_bind_def unchanged_def)
  next
    case 2
    with assms(2,3) run show ?thesis
      by (intro disjI2 exI[of _ "[]"])
        (auto simp: op_bind_def setArrayImpl_ok replaced_def free_blocks_def
          reads_array_def v_isScalar_def v_isArray_def v_empty_def isBorrowed_def v_elems_def variant_api_def)
  next
    case (3 ys)
    with assms(2,3) run show ?thesis
      by (intro disjI2 exI[of _ ys])
        (auto simp: op_bind_def setArrayImpl_ok replaced_def free_blocks_def
          reads_array_def v_isScalar_def v_isArray_def v_empty_def isBorrowed_def v_elems_def variant_api_def)
  qed
qed

section \<open>Well-formed variants\<close>

text \<open>The pointer and the length of a variant fit each other: elements are there, and a scalar has one.\<close>

definition wf_variant :: "(nat \<Rightarrow> 'v list option) \<Rightarrow> 'v Variant \<Rightarrow> bool" where
  "wf_variant store v \<longleftrightarrow> (case v_elems store v of
      None \<Rightarrow> v_length v = 0 \<and> v_data v \<in> {NullPtr, SentinelPtr}
    | Some xs \<Rightarrow> xs \<noteq> [] \<and> v_length v \<le> length xs)"

lemma wf_reads:
  "reads_scalar a ty x v \<Longrightarrow> variant_api a \<Longrightarrow> wf_variant store v"
  "reads_array a ty xs v \<Longrightarrow> variant_api a \<Longrightarrow> wf_variant store v"
  by (auto simp: reads_scalar_def reads_array_def wf_variant_def v_isScalar_def v_isArray_def v_empty_def variant_api_def
      split: if_splits option.splits)

lemma wf_access_defined:
  assumes "wf_variant store v" "variant_api a"
  shows "v_scalar a store t v \<noteq> Inl Undef" "v_array a store t v \<noteq> Inl Undef"
  using assms
  by (auto simp: wf_variant_def v_scalar_def v_array_def checkIsScalar_def checkIsArray_def checkIsType_def v_isScalar_def
      variant_api_def v_elems_def split: option.splits list.splits if_splits)

lemma assign_cases:
  assumes "variant_api a" "value_source own toNative fromNative" "value_source own ua_copy (\<lambda>x. x)"
    and "assign own ua_copy toNative ty src w = (r, w')"
  shows "(\<exists>e. r = throw e \<and> unchanged w w')
    \<or> (r = Ret () \<and> replaced own w w' \<and> (case src of
          RegScalar x \<Rightarrow> reads_scalar a ty x (vw_var w')
        | ConvScalar x \<Rightarrow> (\<exists>y. fromNative y = x \<and> reads_scalar a ty y (vw_var w'))
        | RegRange xs \<Rightarrow> reads_array a ty xs (vw_var w')
        | ConvRange xs \<Rightarrow> (\<exists>ys. map fromNative ys = xs \<and> reads_array a ty ys (vw_var w'))))"
proof (cases src)
  case (RegScalar x)
  then show ?thesis
    using scalar_assignment[OF assms(3,1), of x ty w r w'] assms(4) by (auto simp: setScalarCopyImpl_def)
next
  case (ConvScalar x)
  then show ?thesis
    using scalar_assignment[OF assms(2,1), of x ty w r w'] assms(4) by (auto simp: setScalarCopyConvertImpl_def)
next
  case (RegRange xs)
  then show ?thesis
    using array_assignment[OF assms(3,1), of xs ty w r w'] assms(4) by (auto simp: setArrayCopyImpl_def)
next
  case (ConvRange xs)
  then show ?thesis
    using array_assignment[OF assms(2,1), of xs ty w r w'] assms(4) by (auto simp: setArrayCopyConvertImpl_def)
qed

section \<open>Properties\<close>

text \<open>C6. What is assigned comes back: a copying assignment to a variant, of a scalar or a range, registered or converted,
  either throws and leaves the variant and the live allocations as they were, or replaces the old content
  without leaking it and reads back equal through \<open>to\<close> with the same type; reading with another type, or as the other
  category, throws \<open>BadVariantAccess\<close>.\<close>

theorem variant_assign_to:
  assumes "variant_api a" "value_source own toNative fromNative" "value_source own ua_copy (\<lambda>x. x)"
    and "assign own ua_copy toNative ty src w = (r, w')" "t_id t \<noteq> t_id ty"
  shows "(case r of
      Inl e \<Rightarrow> (\<exists>ex. e = Throw ex) \<and> vw_var w' = vw_var w \<and> live (vw_mem w') = live (vw_mem w)
    | Inr _ \<Rightarrow> live (vw_mem w') - own_variant own (vw_var w') = live (vw_mem w) - own_variant own (vw_var w)
        \<and> (case src of
            RegScalar x \<Rightarrow> to_reg_scalar a store ty (vw_var w') = Ret x
          | ConvScalar x \<Rightarrow> to_conv_scalar a store fromNative ty (vw_var w') = Ret x
          | RegRange xs \<Rightarrow> to_reg_array a store ty (vw_var w') = Ret xs
          | ConvRange xs \<Rightarrow> to_conv_array a store fromNative ty (vw_var w') = Ret xs)
        \<and> (\<exists>m. to_reg_scalar a store t (vw_var w') = throw (BadVariantAccess m))
        \<and> (\<exists>m. to_reg_array a store t (vw_var w') = throw (BadVariantAccess m)))"
proof (cases r)
  case (Inl e)
  with assign_cases[OF assms(1-4)] show ?thesis by (auto simp: unchanged_def)
next
  case (Inr u)
  with assign_cases[OF assms(1-4)] have ok: "replaced own w w'"
    and src: "case src of RegScalar x \<Rightarrow> reads_scalar a ty x (vw_var w')
        | ConvScalar x \<Rightarrow> (\<exists>y. fromNative y = x \<and> reads_scalar a ty y (vw_var w'))
        | RegRange xs \<Rightarrow> reads_array a ty xs (vw_var w')
        | ConvRange xs \<Rightarrow> (\<exists>ys. map fromNative ys = xs \<and> reads_array a ty ys (vw_var w'))" by auto
  have other: "(\<exists>m. to_reg_scalar a store t (vw_var w') = throw (BadVariantAccess m))
        \<and> (\<exists>m. to_reg_array a store t (vw_var w') = throw (BadVariantAccess m))"
    using src reads_scalar_access(2)[of a ty _ "vw_var w'" store t] reads_scalar_access(3)[of a ty _ "vw_var w'" t store] reads_array_access(2)[of a ty _ "vw_var w'" store t] reads_array_access(3)[of a ty _ "vw_var w'" t store] assms(5)
    unfolding to_reg_scalar_def to_reg_array_def by (cases src) auto
  have "case src of
            RegScalar x \<Rightarrow> to_reg_scalar a store ty (vw_var w') = Ret x
          | ConvScalar x \<Rightarrow> to_conv_scalar a store fromNative ty (vw_var w') = Ret x
          | RegRange xs \<Rightarrow> to_reg_array a store ty (vw_var w') = Ret xs
          | ConvRange xs \<Rightarrow> to_conv_array a store fromNative ty (vw_var w') = Ret xs"
    using src by (cases src)
      (auto simp: to_reg_scalar_def to_conv_scalar_def to_reg_array_def to_conv_array_def
        reads_scalar_access(1)[of a ty _ "vw_var w'" store] reads_array_access(1)[of a ty _ "vw_var w'" store])
  with ok other Inr show ?thesis by (simp add: replaced_def)
qed

definition string_vtype :: vtype where "string_vtype = \<lparr>t_id = 12, t_size = 16\<rparr>"

definition demo_vworld :: "native_string vworld" where
  "demo_vworld = \<lparr>vw_mem = \<lparr>budget = 9, live = 0\<rparr>, vw_var = zero_variant\<rparr>"

definition string_ua_copy :: "native_string \<Rightarrow> (mem, native_string) op" where
  "string_ua_copy x = (case x of NullString \<Rightarrow> op_ret NullString | Str s \<Rightarrow> if s = [] then op_ret (Str []) else
     op_bind (alloc_block (BadStatus UA_STATUSCODE_BADOUTOFMEMORY)) (\<lambda>_. op_ret (Str s)))"

interpretation string_copy: value_source own_string string_ua_copy "\<lambda>x. x"
proof
  show "live m' = live m + own_string y \<and> y = x" if "string_ua_copy x m = (Ret y, m')" for x m y m'
    using that by (auto simp: string_ua_copy_def alloc_block_def op_bind_def own_string_def split: if_splits native_string.splits)
  show "(\<exists>ex. e = Throw ex) \<and> live m' = live m" if "string_ua_copy x m = (Inl e, m')" for x m e m'
    using that by (auto simp: string_ua_copy_def alloc_block_def op_bind_def split: if_splits native_string.splits)
qed

theorem variant_assign_to_witness:
  "\<exists>w'. assign own_string string_ua_copy string_toNative string_vtype (ConvRange [''one'', ''two'']) demo_vworld = (Ret (), w')
     \<and> to_conv_array doc_api (\<lambda>_. None) string_fromNative string_vtype (vw_var w') = Ret [''one'', ''two'']"
proof -
  obtain r w' where run: "assign own_string string_ua_copy string_toNative string_vtype (ConvRange [''one'', ''two'']) demo_vworld = (r, w')"
    by fastforce
  moreover have "r = Ret ()"
    using run by (auto simp: demo_vworld_def setArrayCopyConvertImpl_def in_mem_def op_bind_def vcopyArray_def alloc_block_def
        op_on_throw_def string_toNative_def str_init_def setArrayImpl_def)
  moreover have "t_id (string_vtype\<lparr>t_id := 6\<rparr>) \<noteq> t_id string_vtype" by (simp add: string_vtype_def)
  ultimately show ?thesis
    using variant_assign_to[OF variant_api_doc string_source.value_source_axioms string_copy.value_source_axioms run, of "string_vtype\<lparr>t_id := 6\<rparr>" "\<lambda>_. None"]
    by auto
qed

text \<open>Reading is defined: on a variant whose pointer and length fit, \<open>scalar\<close> and \<open>array\<close> return a value or throw
  \<open>BadVariantAccess\<close> and at most one of the two returns; borrowing a container that has elements, or none and a null
  pointer, makes such a variant and reads back the container's elements, and the destructor frees nothing of it.\<close>

theorem variant_access_defined:
  assumes "variant_api a" "wf_variant store v"
  shows "((\<exists>x. v_scalar a store t v = Ret x) \<or> (\<exists>m. v_scalar a store t v = throw (BadVariantAccess m)))
    \<and> ((\<exists>xs. v_array a store t v = Ret xs) \<or> (\<exists>m. v_array a store t v = throw (BadVariantAccess m)))
    \<and> (returns (v_scalar a store t v) \<longrightarrow> \<not> returns (v_array a store t' v))
    \<and> (assign_container own (t_size ty) (Some (p, n)) ty w = (r, w') \<and>
        (case p of None \<Rightarrow> n = 0 \<and> xs = [] | Some d \<Rightarrow> store d = Some xs \<and> xs \<noteq> [] \<and> n = length xs) \<longrightarrow>
          wf_variant store (vw_var w') \<and> v_array a store ty (vw_var w') = Ret xs \<and> own_variant own (vw_var w') = 0)"
proof (intro conjI impI)
  show "(\<exists>x. v_scalar a store t v = Ret x) \<or> (\<exists>m. v_scalar a store t v = throw (BadVariantAccess m))"
    using wf_access_defined(1)[OF assms(2,1), of t]
    by (auto simp: v_scalar_def checkIsScalar_def checkIsType_def split: option.splits list.splits)
  show "(\<exists>xs. v_array a store t v = Ret xs) \<or> (\<exists>m. v_array a store t v = throw (BadVariantAccess m))"
    using wf_access_defined(2)[OF assms(2,1), of t]
    by (auto simp: v_array_def checkIsArray_def checkIsType_def split: option.splits)
  show "\<not> returns (v_array a store t' v)" if "returns (v_scalar a store t v)"
    using that by (auto simp: v_array_def v_scalar_def checkIsArray_def checkIsScalar_def v_isArray_def split: if_splits)
  assume c: "assign_container own (t_size ty) (Some (p, n)) ty w = (r, w') \<and>
        (case p of None \<Rightarrow> n = 0 \<and> xs = [] | Some d \<Rightarrow> store d = Some xs \<and> xs \<noteq> [] \<and> n = length xs)"
  show "wf_variant store (vw_var w')" "v_array a store ty (vw_var w') = Ret xs" "own_variant own (vw_var w') = 0"
    using c assms(1) by (cases p; auto simp: assign_container_def setArrayImpl_ok wf_variant_def v_elems_def v_array_def
        checkIsArray_def checkIsType_def v_isArray_def v_isScalar_def v_empty_def variant_api_def)+
qed

theorem variant_access_defined_witness:
  "\<exists>w'. assign_container own_string 16 (Some (Some 7, 1)) string_vtype demo_vworld = (Ret (), w')
     \<and> v_array doc_api [7 \<mapsto> [Str ''x'']] string_vtype (vw_var w') = Ret [Str ''x'']"
proof -
  obtain r w' where run: "assign_container own_string (t_size string_vtype) (Some (Some 7, 1)) string_vtype demo_vworld = (r, w')" by fastforce
  have "wf_variant [7 \<mapsto> [Str ''x'']] (zero_variant :: native_string Variant)"
    by (simp add: wf_variant_def zero_variant_def v_elems_def)
  from variant_access_defined[OF variant_api_doc this, of string_vtype string_vtype own_string string_vtype "Some 7" 1 demo_vworld r w' "[Str ''x'']"]
    run have "v_array doc_api [7 \<mapsto> [Str ''x'']] string_vtype (vw_var w') = Ret [Str ''x'']" by simp
  moreover have "r = Ret ()" using run by (simp add: assign_container_def setArrayImpl_ok)
  ultimately show ?thesis using run by (simp add: string_vtype_def)
qed

text \<open>Borrowing a container that is empty but has a data pointer (a vector with reserved capacity) makes a variant that
  claims to be a scalar, and reading it leaves the elements.\<close>

lemma empty_container_is_scalar:
  assumes "store d = Some []"
  shows "\<exists>w'. assign_container own (t_size ty) (Some (Some d, 0)) ty w = (Ret (), w') \<and> v_isScalar doc_api (vw_var w')
    \<and> v_scalar doc_api store ty (vw_var w') = Inl Undef"
  using assms by (simp add: assign_container_def setArrayImpl_ok v_isScalar_def doc_api_def v_scalar_def checkIsScalar_def
      checkIsType_def v_elems_def)

end
