(* ===== verification/Data_Values.thy ===== *)
theory Data_Values
  imports Variants Results Bitmasks
begin

text \<open>
  \<open>DataValue\<close> and \<open>ExtensionObject\<close> of \<open>types.hpp\<close>, and the attribute handlers of
  \<open>services/detail/attribute_handler.hpp\<close>, which convert between the \<open>DataValue\<close>s of the read and write services
  and the types of the attributes. The handlers all instantiate one contract, the locale \<open>attribute_codec\<close>.
\<close>

section \<open>DataValue\<close>

record 'v DataValue =
  dv_value :: "'v Variant"
  dv_sourceTimestamp :: int
  dv_serverTimestamp :: int
  dv_sourcePicoseconds :: u16
  dv_serverPicoseconds :: u16
  dv_status :: u32
  dv_hasValue :: bool
  dv_hasSourceTimestamp :: bool
  dv_hasServerTimestamp :: bool
  dv_hasSourcePicoseconds :: bool
  dv_hasServerPicoseconds :: bool
  dv_hasStatus :: bool

definition zero_DataValue :: "'v DataValue" where
  "zero_DataValue = \<lparr>dv_value = zero_variant, dv_sourceTimestamp = 0, dv_serverTimestamp = 0, dv_sourcePicoseconds = 0,
     dv_serverPicoseconds = 0, dv_status = 0, dv_hasValue = False, dv_hasSourceTimestamp = False, dv_hasServerTimestamp = False,
     dv_hasSourcePicoseconds = False, dv_hasServerPicoseconds = False, dv_hasStatus = False\<rparr>"

text \<open>\<open>setValue\<close> by move: the old variant is cleared, the argument is taken over.\<close>

definition setValue :: "'v Variant \<Rightarrow> 'v DataValue \<Rightarrow> 'v DataValue" where
  "setValue v d = d\<lparr>dv_value := v, dv_hasValue := True\<rparr>"

definition setSourceTimestamp :: "int \<Rightarrow> 'v DataValue \<Rightarrow> 'v DataValue" where
  "setSourceTimestamp t d = d\<lparr>dv_sourceTimestamp := t, dv_hasSourceTimestamp := True\<rparr>"

definition setServerTimestamp :: "int \<Rightarrow> 'v DataValue \<Rightarrow> 'v DataValue" where
  "setServerTimestamp t d = d\<lparr>dv_serverTimestamp := t, dv_hasServerTimestamp := True\<rparr>"

definition setSourcePicoseconds :: "u16 \<Rightarrow> 'v DataValue \<Rightarrow> 'v DataValue" where
  "setSourcePicoseconds n d = d\<lparr>dv_sourcePicoseconds := n, dv_hasSourcePicoseconds := True\<rparr>"

definition setServerPicoseconds :: "u16 \<Rightarrow> 'v DataValue \<Rightarrow> 'v DataValue" where
  "setServerPicoseconds n d = d\<lparr>dv_serverPicoseconds := n, dv_hasServerPicoseconds := True\<rparr>"

definition setStatus :: "u32 \<Rightarrow> 'v DataValue \<Rightarrow> 'v DataValue" where
  "setStatus c d = d\<lparr>dv_status := c, dv_hasStatus := True\<rparr>"

definition value_or :: "'a option \<Rightarrow> 'a \<Rightarrow> 'a" where
  "value_or x d = (case x of None \<Rightarrow> d | Some y \<Rightarrow> y)"

definition DataValue_of :: "'v Variant \<Rightarrow> 'v DataValue" where
  "DataValue_of v = setValue v zero_DataValue"

definition DataValue_full ::
  "'v Variant \<Rightarrow> int option \<Rightarrow> int option \<Rightarrow> u16 option \<Rightarrow> u16 option \<Rightarrow> u32 option \<Rightarrow> 'v DataValue" where
  "DataValue_full v sourceTs serverTs sourcePs serverPs st = setValue v
     \<lparr>dv_value = zero_variant, dv_sourceTimestamp = value_or sourceTs 0, dv_serverTimestamp = value_or serverTs 0,
      dv_sourcePicoseconds = value_or sourcePs 0, dv_serverPicoseconds = value_or serverPs 0, dv_status = value_or st 0,
      dv_hasValue = False, dv_hasSourceTimestamp = sourceTs \<noteq> None, dv_hasServerTimestamp = serverTs \<noteq> None,
      dv_hasSourcePicoseconds = sourcePs \<noteq> None, dv_hasServerPicoseconds = serverPs \<noteq> None, dv_hasStatus = st \<noteq> None\<rparr>"

section \<open>ExtensionObject\<close>

text \<open>The encodings of the C library with their content; decoded data is owned (one block) or borrowed, by address.\<close>

datatype 'v ExtensionObject =
    EncodedNoBody
  | EncodedByteString NodeId native_string
  | EncodedXml NodeId native_string
  | Decoded vtype 'v
  | DecodedNoDelete vtype nat

datatype ExtensionObjectEncoding = EncNoBody | EncByteString | EncXml | EncDecoded | EncDecodedNoDelete

text \<open>From a pointer (null leaves the object empty), and by copy.\<close>

definition eo_of_pointer :: "nat \<Rightarrow> nat option \<Rightarrow> vtype \<Rightarrow> 'v ExtensionObject outc" where
  "eo_of_pointer sz p ty = (case p of None \<Rightarrow> Ret EncodedNoBody
     | Some a \<Rightarrow> if sz \<noteq> t_size ty then Inl Terminate else Ret (DecodedNoDelete ty a))"

definition eo_of_copy :: "('v \<Rightarrow> (mem, 'v) op) \<Rightarrow> 'v \<Rightarrow> vtype \<Rightarrow> (mem, 'v ExtensionObject) op" where
  "eo_of_copy ua_copy x ty = op_bind (new_scalar ua_copy x) (\<lambda>xs. op_ret (Decoded ty (hd xs)))"

definition eo_encoding :: "'v ExtensionObject \<Rightarrow> ExtensionObjectEncoding" where
  "eo_encoding e = (case e of EncodedNoBody \<Rightarrow> EncNoBody | EncodedByteString _ _ \<Rightarrow> EncByteString | EncodedXml _ _ \<Rightarrow> EncXml
     | Decoded _ _ \<Rightarrow> EncDecoded | DecodedNoDelete _ _ \<Rightarrow> EncDecodedNoDelete)"

definition eo_empty :: "'v ExtensionObject \<Rightarrow> bool" where
  "eo_empty e = (eo_encoding e = EncNoBody)"

definition eo_isEncoded :: "'v ExtensionObject \<Rightarrow> bool" where
  "eo_isEncoded e = (eo_encoding e = EncByteString \<or> eo_encoding e = EncXml)"

definition eo_isDecoded :: "'v ExtensionObject \<Rightarrow> bool" where
  "eo_isDecoded e = (eo_encoding e = EncDecoded \<or> eo_encoding e = EncDecodedNoDelete)"

definition encodedTypeId :: "'v ExtensionObject \<Rightarrow> NodeId option" where
  "encodedTypeId e = (case e of EncodedByteString i _ \<Rightarrow> Some i | EncodedXml i _ \<Rightarrow> Some i | _ \<Rightarrow> None)"

definition encodedBinary :: "'v ExtensionObject \<Rightarrow> native_string option" where
  "encodedBinary e = (case e of EncodedByteString _ b \<Rightarrow> Some b | _ \<Rightarrow> None)"

definition encodedXml :: "'v ExtensionObject \<Rightarrow> native_string option" where
  "encodedXml e = (case e of EncodedXml _ b \<Rightarrow> Some b | _ \<Rightarrow> None)"

definition decodedType :: "'v ExtensionObject \<Rightarrow> vtype option" where
  "decodedType e = (case e of Decoded ty _ \<Rightarrow> Some ty | DecodedNoDelete ty _ \<Rightarrow> Some ty | _ \<Rightarrow> None)"

text \<open>The untyped \<open>decodedData()\<close>, with the store of the objects outside, and the typed one.\<close>

definition decodedData :: "(nat \<Rightarrow> 'v option) \<Rightarrow> 'v ExtensionObject \<Rightarrow> 'v option" where
  "decodedData store e = (case e of Decoded _ x \<Rightarrow> Some x | DecodedNoDelete _ a \<Rightarrow> store a | _ \<Rightarrow> None)"

definition isDecodedType :: "vtype \<Rightarrow> 'v ExtensionObject \<Rightarrow> bool" where
  "isDecodedType t e = (case decodedType e of None \<Rightarrow> False | Some ty \<Rightarrow> t_id ty = t_id t)"

definition decodedData_as :: "(nat \<Rightarrow> 'v option) \<Rightarrow> vtype \<Rightarrow> 'v ExtensionObject \<Rightarrow> 'v option" where
  "decodedData_as store t e = (if isDecodedType t e then decodedData store e else None)"

section \<open>Attribute handlers\<close>

definition getVariant :: "'v DataValue \<Rightarrow> 'v Variant Result outc" where
  "getVariant d = (if isBad (dv_status d) then outc_map Result_bad (mkBadResult (dv_status d))
     else if \<not> dv_hasValue d then outc_map Result_bad (mkBadResult UA_STATUSCODE_BADUNEXPECTEDERROR)
     else Ret (Result_of (dv_value d) UA_STATUSCODE_GOOD))"

text \<open>\<open>AttributeHandlerVariant\<close>: writing makes a shallow, borrowed copy of the variant.\<close>

definition variant_fromDataValue :: "'v DataValue \<Rightarrow> 'v Variant Result outc" where
  "variant_fromDataValue d = getVariant d"

definition variant_toDataValue :: "'v Variant \<Rightarrow> 'v DataValue" where
  "variant_toDataValue v = zero_DataValue\<lparr>dv_value := v\<lparr>v_storage := UA_VARIANT_DATA_NODELETE\<rparr>, dv_hasValue := True\<rparr>"

text \<open>\<open>noexcept\<close> functions: an exception ends the process.\<close>

definition noexcept :: "'a outc \<Rightarrow> 'a outc" where
  "noexcept r = (case r of Inl (Throw _) \<Rightarrow> Inl Terminate | _ \<Rightarrow> r)"

text \<open>\<open>AttributeHandlerScalar\<close> for a registered type: the assertions on type and category, then \<open>scalar\<close>.\<close>

definition scalar_fromDataValue :: "'v api \<Rightarrow> (nat \<Rightarrow> 'v list option) \<Rightarrow> vtype \<Rightarrow> 'v DataValue \<Rightarrow> 'v Result outc" where
  "scalar_fromDataValue a store t d = noexcept (outc_bind (getVariant d) (\<lambda>r. transform r (\<lambda>v.
     if \<not> v_isType v (t_id t) \<or> \<not> v_isScalar a v then Inl Terminate else v_scalar a store t v)))"

definition scalar_toDataValue ::
  "('v \<Rightarrow> int) \<Rightarrow> ('v \<Rightarrow> (mem, 'v) op) \<Rightarrow> vtype \<Rightarrow> 'v \<Rightarrow> (mem, 'v DataValue) op" where
  "scalar_toDataValue own ua_copy t x m = (case assign own ua_copy ua_copy t (RegScalar x) \<lparr>vw_mem = m, vw_var = zero_variant\<rparr> of
      (Inl e, w) \<Rightarrow> (Inl e, vw_mem w)
    | (Inr _, w) \<Rightarrow> (Ret (DataValue_of (vw_var w)), vw_mem w))"

text \<open>Enumerations and bitmasks go through the handler of their underlying type.\<close>

definition enum_fromDataValue ::
  "('v \<Rightarrow> 'e) \<Rightarrow> 'v api \<Rightarrow> (nat \<Rightarrow> 'v list option) \<Rightarrow> vtype \<Rightarrow> 'v DataValue \<Rightarrow> 'e Result outc" where
  "enum_fromDataValue cast a store t d = noexcept (outc_bind (scalar_fromDataValue a store t d) (\<lambda>r. transform r (\<lambda>x. Ret (cast x))))"

definition enum_toDataValue ::
  "('e \<Rightarrow> 'v) \<Rightarrow> ('v \<Rightarrow> int) \<Rightarrow> ('v \<Rightarrow> (mem, 'v) op) \<Rightarrow> vtype \<Rightarrow> 'e \<Rightarrow> (mem, 'v DataValue) op" where
  "enum_toDataValue repr own ua_copy t e = scalar_toDataValue own ua_copy t (repr e)"

text \<open>\<open>NodeClass\<close>: the data is read without a check of its type.\<close>

definition nodeClass_fromDataValue :: "('v \<Rightarrow> 'e) \<Rightarrow> (nat \<Rightarrow> 'v list option) \<Rightarrow> 'v DataValue \<Rightarrow> 'e Result outc" where
  "nodeClass_fromDataValue cast store d = noexcept (outc_bind (getVariant d) (\<lambda>r. transform r (\<lambda>v.
     case v_elems store v of Some (x # _) \<Rightarrow> Ret (cast x) | _ \<Rightarrow> Inl Undef)))"

text \<open>\<open>ArrayDimensions\<close>.\<close>

definition array_fromDataValue ::
  "'v api \<Rightarrow> (nat \<Rightarrow> 'v list option) \<Rightarrow> vtype \<Rightarrow> 'v DataValue \<Rightarrow> 'v list Result outc" where
  "array_fromDataValue a store t d = noexcept (outc_bind (getVariant d) (\<lambda>r. transform r (\<lambda>v.
     if \<not> v_isType v (t_id t) \<or> \<not> v_isArray a v then Inl Terminate else to_reg_array a store t v)))"

definition array_toDataValue ::
  "('v \<Rightarrow> int) \<Rightarrow> ('v \<Rightarrow> (mem, 'v) op) \<Rightarrow> vtype \<Rightarrow> 'v list \<Rightarrow> (mem, 'v DataValue) op" where
  "array_toDataValue own ua_copy t xs m = (case assign own ua_copy ua_copy t (RegRange xs) \<lparr>vw_mem = m, vw_var = zero_variant\<rparr> of
      (Inl e, w) \<Rightarrow> (Inl e, vw_mem w)
    | (Inr _, w) \<Rightarrow> (Ret (DataValue_of (vw_var w)), vw_mem w))"

section \<open>The contract of attribute handlers\<close>

locale attribute_codec =
  fixes fromDV :: "'v DataValue \<Rightarrow> 'x Result outc" and toDV :: "'x \<Rightarrow> (mem, 'v DataValue) op"
  assumes decode_encode: "toDV x m = (Inr d, m') \<Longrightarrow> fromDV d = Ret (Result_of x UA_STATUSCODE_GOOD)"
    and decode_bad: "isBad (dv_status d) \<Longrightarrow> fromDV d = Ret (Result_bad \<lparr>br_code = dv_status d\<rparr>)"
    and decode_missing: "\<not> isBad (dv_status d) \<Longrightarrow> \<not> dv_hasValue d \<Longrightarrow>
      fromDV d = Ret (Result_bad \<lparr>br_code = UA_STATUSCODE_BADUNEXPECTEDERROR\<rparr>)"
begin

text \<open>What the callers of a handler rely on: an encoded value is never mistaken for an error, and an error never for a value.\<close>

lemma encoded_is_value:
  assumes "toDV x m = (Inr d, m')"
  shows "\<not> isBad (dv_status d)" "dv_hasValue d"
proof -
  have "maybeValue (Result_of x UA_STATUSCODE_GOOD) = Some x" by simp
  then show "\<not> isBad (dv_status d)" "dv_hasValue d"
    using decode_encode[OF assms] decode_bad[of d] decode_missing[of d] by (auto simp: Result_of_def Result_bad_def)
qed

lemma encode_inject:
  assumes "toDV x m = (Inr d, m')" "toDV y k = (Inr d, k')"
  shows "x = y"
  using decode_encode[OF assms(1)] decode_encode[OF assms(2)] by (simp add: Result_of_def)

lemma decode_wf: "\<not> (\<not> isBad (dv_status d) \<and> dv_hasValue d) \<Longrightarrow> \<exists>r. fromDV d = Ret r \<and> wf_Result r \<and> maybeValue r = None"
  using decode_bad[of d] decode_missing[of d] by (cases "isBad (dv_status d)") auto

end

lemma noexcept_simps [simp]:
  "noexcept (Ret x) = Ret x" "noexcept (Inl Terminate) = Inl Terminate" "noexcept (Inl Undef) = Inl Undef"
  "noexcept (throw e) = Inl Terminate"
  by (simp_all add: noexcept_def)

lemma getVariant_cases:
  "isBad (dv_status d) \<Longrightarrow> getVariant d = Ret (Result_bad \<lparr>br_code = dv_status d\<rparr>)"
  "\<not> isBad (dv_status d) \<Longrightarrow> \<not> dv_hasValue d \<Longrightarrow> getVariant d = Ret (Result_bad \<lparr>br_code = UA_STATUSCODE_BADUNEXPECTEDERROR\<rparr>)"
  "\<not> isBad (dv_status d) \<Longrightarrow> dv_hasValue d \<Longrightarrow> getVariant d = Ret (Result_of (dv_value d) UA_STATUSCODE_GOOD)"
  by (simp_all add: getVariant_def)

lemma DataValue_of_simps [simp]:
  "dv_status (DataValue_of v) = 0" "dv_hasValue (DataValue_of v)" "dv_value (DataValue_of v) = v" "\<not> isBad 0"
  by (simp_all add: DataValue_of_def setValue_def zero_DataValue_def) (simp add: isBad_unat)

lemma scalar_encoded:
  assumes "variant_api a" "value_source own ua_copy (\<lambda>x. x)" "scalar_toDataValue own ua_copy t x m = (r, m')"
  shows "case r of Inl e \<Rightarrow> (\<exists>ex. e = Throw ex) \<and> live m' = live m
    | Inr d \<Rightarrow> (\<exists>v. d = DataValue_of v \<and> reads_scalar a t x v \<and> live m' = live m + own_variant own v)"
proof -
  let ?w = "\<lparr>vw_mem = m, vw_var = zero_variant\<rparr>"
  obtain q w where run: "assign own ua_copy ua_copy t (RegScalar x) ?w = (q, w)" by fastforce
  from assign_cases[OF assms(1) assms(2,2) run] assms(3) run show ?thesis
    by (auto simp: scalar_toDataValue_def unchanged_def replaced_def intro!: exI[of _ "vw_var w"])
qed

lemma array_encoded:
  assumes "variant_api a" "value_source own ua_copy (\<lambda>x. x)" "array_toDataValue own ua_copy t xs m = (r, m')"
  shows "case r of Inl e \<Rightarrow> (\<exists>ex. e = Throw ex) \<and> live m' = live m
    | Inr d \<Rightarrow> (\<exists>v. d = DataValue_of v \<and> reads_array a t xs v \<and> live m' = live m + own_variant own v)"
proof -
  let ?w = "\<lparr>vw_mem = m, vw_var = zero_variant\<rparr>"
  obtain q w where run: "assign own ua_copy ua_copy t (RegRange xs) ?w = (q, w)" by fastforce
  from assign_cases[OF assms(1) assms(2,2) run] assms(3) run show ?thesis
    by (auto simp: array_toDataValue_def unchanged_def replaced_def intro!: exI[of _ "vw_var w"])
qed

lemma transform_bad [simp]: "isBad c \<Longrightarrow> transform (Result_bad \<lparr>br_code = c\<rparr>) f = Ret (Result_bad \<lparr>br_code = c\<rparr>)"
  by (simp add: transform_def Result_bad_def hasValue_def)

lemma decode_error:
  "isBad (dv_status d) \<Longrightarrow> noexcept (outc_bind (getVariant d) (\<lambda>r. transform r f)) = Ret (Result_bad \<lparr>br_code = dv_status d\<rparr>)"
  "\<not> isBad (dv_status d) \<Longrightarrow> \<not> dv_hasValue d \<Longrightarrow>
   noexcept (outc_bind (getVariant d) (\<lambda>r. transform r f)) = Ret (Result_bad \<lparr>br_code = UA_STATUSCODE_BADUNEXPECTEDERROR\<rparr>)"
  by (simp_all add: getVariant_cases)

lemma scalar_decoded:
  assumes "reads_scalar a t x v"
  shows "scalar_fromDataValue a store t (DataValue_of v) = Ret (Result_of x UA_STATUSCODE_GOOD)"
  using assms reads_scalar_access(1)[OF assms, of store]
  by (simp add: scalar_fromDataValue_def getVariant_cases transform_Some reads_scalar_def v_isType_def Result_of_def outc)

lemma array_decoded:
  assumes "reads_array a t xs v"
  shows "array_fromDataValue a store t (DataValue_of v) = Ret (Result_of xs UA_STATUSCODE_GOOD)"
  using assms reads_array_access(1)[OF assms, of store]
  by (simp add: array_fromDataValue_def getVariant_cases transform_Some reads_array_def v_isType_def Result_of_def outc to_reg_array_def)

lemma scalar_codec:
  assumes "variant_api a" "value_source own ua_copy (\<lambda>x. x)"
  shows "attribute_codec (scalar_fromDataValue a store t) (scalar_toDataValue own ua_copy t)"
proof
  show "scalar_fromDataValue a store t d = Ret (Result_of x UA_STATUSCODE_GOOD)"
    if "scalar_toDataValue own ua_copy t x m = (Ret d, m')" for x m d m'
    using scalar_encoded[OF assms that] scalar_decoded by auto
qed (simp_all add: scalar_fromDataValue_def decode_error)

lemma array_codec:
  assumes "variant_api a" "value_source own ua_copy (\<lambda>x. x)"
  shows "attribute_codec (array_fromDataValue a store t) (array_toDataValue own ua_copy t)"
proof
  show "array_fromDataValue a store t d = Ret (Result_of xs UA_STATUSCODE_GOOD)"
    if "array_toDataValue own ua_copy t xs m = (Ret d, m')" for xs m d m'
    using array_encoded[OF assms that] array_decoded by auto
qed (simp_all add: array_fromDataValue_def decode_error)

lemma enum_codec:
  assumes "variant_api a" "value_source own ua_copy (\<lambda>x. x)" "\<And>e. cast (repr e) = e"
  shows "attribute_codec (enum_fromDataValue cast a store t) (enum_toDataValue repr own ua_copy t)"
proof -
  show ?thesis
  proof
    show "enum_fromDataValue cast a store t d = Ret (Result_of e UA_STATUSCODE_GOOD)"
      if "enum_toDataValue repr own ua_copy t e m = (Ret d, m')" for e m d m'
    proof -
      have "scalar_toDataValue own ua_copy t (repr e) m = (Ret d, m')" using that by (simp add: enum_toDataValue_def)
      then show ?thesis
        using scalar_encoded[OF assms(1,2)] scalar_decoded assms(3)
        by (fastforce simp: enum_fromDataValue_def transform_Some Result_of_def)
    qed
  qed (simp_all add: enum_fromDataValue_def scalar_fromDataValue_def decode_error)
qed

interpretation text_attr: attribute_codec "scalar_fromDataValue doc_api store string_vtype" "scalar_toDataValue own_string string_ua_copy string_vtype"
  for store
  by (rule scalar_codec[OF variant_api_doc string_copy.value_source_axioms])

definition u32_vtype :: vtype where "u32_vtype = \<lparr>t_id = 7, t_size = 4\<rparr>"

interpretation mask_attr: attribute_codec "enum_fromDataValue bm_of doc_api store u32_vtype"
    "enum_toDataValue bm_get (\<lambda>_. 0) copy_pointer_free u32_vtype :: 32 word Bitmask \<Rightarrow> _"
  for store
  by (rule enum_codec[OF variant_api_doc flat_source.value_source_axioms]) (simp add: bm_of_def bm_get_def)

interpretation dims_attr: attribute_codec "array_fromDataValue doc_api store u32_vtype"
    "array_toDataValue (\<lambda>_. 0) (copy_pointer_free :: u32 \<Rightarrow> _) u32_vtype"
  for store
  by (rule array_codec[OF variant_api_doc flat_source.value_source_axioms])

section \<open>Properties\<close>

text \<open>C31. Attributes survive the wire format: for scalar, enumeration (and bitmask) and array attributes, a value converted to a
  \<open>DataValue\<close> is read back equal with a good code, or the conversion throws and leaks nothing; reading a
  \<open>DataValue\<close> with a bad status gives that status, one without value \<open>BADUNEXPECTEDERROR\<close>; the value attribute's shallow
  copy is borrowed, so destroying the \<open>DataValue\<close> frees nothing, and reads like the original.\<close>

theorem attribute_roundtrip:
  assumes "variant_api a" "value_source own ua_copy (\<lambda>x. x)" "\<And>e. cast (repr e) = e"
  shows "(case scalar_toDataValue own ua_copy t x m of
        (Inl e, m') \<Rightarrow> (\<exists>ex. e = Throw ex) \<and> live m' = live m
      | (Inr d, m') \<Rightarrow> scalar_fromDataValue a store t d = Ret (Result_of x UA_STATUSCODE_GOOD)
          \<and> live m' = live m + own_variant own (dv_value d))
    \<and> (case array_toDataValue own ua_copy t xs m of
        (Inl e, m') \<Rightarrow> (\<exists>ex. e = Throw ex) \<and> live m' = live m
      | (Inr d, m') \<Rightarrow> array_fromDataValue a store t d = Ret (Result_of xs UA_STATUSCODE_GOOD)
          \<and> live m' = live m + own_variant own (dv_value d))
    \<and> (enum_toDataValue repr own ua_copy t e m = (Ret d, m') \<longrightarrow>
        enum_fromDataValue cast a store t d = Ret (Result_of e UA_STATUSCODE_GOOD)
        \<and> nodeClass_fromDataValue cast store d = Ret (Result_of e UA_STATUSCODE_GOOD))
    \<and> (isBad (dv_status b) \<longrightarrow> enum_fromDataValue cast a store t b = Ret (Result_bad \<lparr>br_code = dv_status b\<rparr>)
        \<and> array_fromDataValue a store t b = Ret (Result_bad \<lparr>br_code = dv_status b\<rparr>)
        \<and> variant_fromDataValue b = Ret (Result_bad \<lparr>br_code = dv_status b\<rparr>))
    \<and> (\<not> isBad (dv_status b) \<and> \<not> dv_hasValue b \<longrightarrow>
        enum_fromDataValue cast a store t b = Ret (Result_bad \<lparr>br_code = UA_STATUSCODE_BADUNEXPECTEDERROR\<rparr>))
    \<and> variant_fromDataValue (variant_toDataValue v) = Ret (Result_of (v\<lparr>v_storage := UA_VARIANT_DATA_NODELETE\<rparr>) UA_STATUSCODE_GOOD)
    \<and> own_variant own (dv_value (variant_toDataValue v)) = 0
    \<and> v_elems store (dv_value (variant_toDataValue v)) = v_elems store v"
proof -
  note codecs = scalar_codec[OF assms(1,2), of store t] array_codec[OF assms(1,2), of store t] enum_codec[OF assms, of store t]
  have sc: "case scalar_toDataValue own ua_copy t x m of
        (Inl e, m') \<Rightarrow> (\<exists>ex. e = Throw ex) \<and> live m' = live m
      | (Inr d, m') \<Rightarrow> scalar_fromDataValue a store t d = Ret (Result_of x UA_STATUSCODE_GOOD)
          \<and> live m' = live m + own_variant own (dv_value d)"
    using scalar_encoded[OF assms(1,2) surjective_pairing, of t x m] scalar_decoded
    by (cases "scalar_toDataValue own ua_copy t x m") (auto split: sum.splits)
  have ar: "case array_toDataValue own ua_copy t xs m of
        (Inl e, m') \<Rightarrow> (\<exists>ex. e = Throw ex) \<and> live m' = live m
      | (Inr d, m') \<Rightarrow> array_fromDataValue a store t d = Ret (Result_of xs UA_STATUSCODE_GOOD)
          \<and> live m' = live m + own_variant own (dv_value d)"
    using array_encoded[OF assms(1,2) surjective_pairing, of t xs m] array_decoded
    by (cases "array_toDataValue own ua_copy t xs m") (auto split: sum.splits)
  have nc: "nodeClass_fromDataValue cast store d = Ret (Result_of e UA_STATUSCODE_GOOD)"
    if "enum_toDataValue repr own ua_copy t e m = (Ret d, m')"
  proof -
    have "scalar_toDataValue own ua_copy t (repr e) m = (Ret d, m')" using that by (simp add: enum_toDataValue_def)
    then obtain v where "d = DataValue_of v" "reads_scalar a t (repr e) v"
      using scalar_encoded[OF assms(1,2)] by fastforce
    then show ?thesis
      by (simp add: nodeClass_fromDataValue_def getVariant_cases transform_Some reads_scalar_def Result_of_def outc assms(3))
  qed
  have var: "variant_fromDataValue (variant_toDataValue v) = Ret (Result_of (v\<lparr>v_storage := UA_VARIANT_DATA_NODELETE\<rparr>) UA_STATUSCODE_GOOD)"
    "own_variant own (dv_value (variant_toDataValue v)) = 0" "v_elems store (dv_value (variant_toDataValue v)) = v_elems store v"
    by (simp_all add: variant_fromDataValue_def variant_toDataValue_def getVariant_def zero_DataValue_def own_variant_def v_elems_def)
  show ?thesis
    using sc ar nc var attribute_codec.decode_encode[OF codecs(3), of e m d m'] attribute_codec.decode_bad[OF codecs(3), of b]
      attribute_codec.decode_bad[OF codecs(2), of b] attribute_codec.decode_missing[OF codecs(3), of b] getVariant_cases(1)[of b]
    unfolding variant_fromDataValue_def by blast
qed

theorem attribute_roundtrip_witness:
  "\<exists>d m'. enum_toDataValue bm_get (\<lambda>_. 0) copy_pointer_free u32_vtype (bm_of 5 :: 32 word Bitmask) \<lparr>budget = 3, live = 0\<rparr> = (Ret d, m')
     \<and> enum_fromDataValue bm_of doc_api (\<lambda>_. None) u32_vtype d = Ret (Result_of (bm_of 5 :: 32 word Bitmask) UA_STATUSCODE_GOOD)"
proof -
  have c: "bm_of (bm_get e) = e" for e :: "32 word Bitmask" by (simp add: bm_of_def bm_get_def)
  obtain r m' where run: "enum_toDataValue bm_get (\<lambda>_. 0) copy_pointer_free u32_vtype (bm_of 5 :: 32 word Bitmask) \<lparr>budget = 3, live = 0\<rparr> = (r, m')"
    by fastforce
  then obtain d where "r = Ret d"
    by (auto simp: enum_toDataValue_def scalar_toDataValue_def setScalarCopyImpl_def in_mem_def op_bind_def new_scalar_def alloc_block_def
        op_on_throw_def copy_pointer_free_def setScalarImpl_def setArrayImpl_def u32_vtype_def)
  with run attribute_roundtrip[where cast = bm_of and repr = bm_get and e = "bm_of 5 :: 32 word Bitmask" and d = d and m = "\<lparr>budget = 3, live = 0\<rparr>"
      and m' = m' and t = u32_vtype and a = doc_api and own = "\<lambda>_. 0" and ua_copy = copy_pointer_free and store = "\<lambda>_. None",
      OF variant_api_doc flat_source.value_source_axioms c]
  show ?thesis by blast
qed

end
