(* ===== verification/Node_Attributes.thy ===== *)
theory Node_Attributes
  imports Data_Values
begin

text \<open>
  The node attribute classes of \<open>ua/types.hpp\<close>, whose setters keep the mask \<open>specifiedAttributes\<close> up to date. The four
  setter macros of the file are the four setter definitions below; the members common to all classes are a record that the
  classes extend. The default objects of the C library are arguments. The contract of a setter is the locale
  \<open>attr_setter\<close>, interpreted for every setter of every class.
\<close>

section \<open>The mask\<close>

datatype attr_flag = AfAccessLevel | AfArrayDimensions | AfBrowseName | AfContainsNoLoops | AfDataType | AfDescription | AfDisplayName
  | AfEventNotifier | AfExecutable | AfHistorizing | AfInverseName | AfIsAbstract | AfMinimumSamplingInterval | AfNodeClass | AfNodeId
  | AfSymmetric | AfUserAccessLevel | AfUserExecutable | AfUserWriteMask | AfValueRank | AfWriteMask | AfValue | AfDataTypeDefinition
  | AfRolePermissions | AfAccessRestrictions

fun NodeAttributesMask :: "attr_flag \<Rightarrow> u32" where
  "NodeAttributesMask AfAccessLevel = 1" | "NodeAttributesMask AfArrayDimensions = 2" | "NodeAttributesMask AfBrowseName = 4"
| "NodeAttributesMask AfContainsNoLoops = 8" | "NodeAttributesMask AfDataType = 16" | "NodeAttributesMask AfDescription = 32"
| "NodeAttributesMask AfDisplayName = 64" | "NodeAttributesMask AfEventNotifier = 128" | "NodeAttributesMask AfExecutable = 256"
| "NodeAttributesMask AfHistorizing = 512" | "NodeAttributesMask AfInverseName = 1024" | "NodeAttributesMask AfIsAbstract = 2048"
| "NodeAttributesMask AfMinimumSamplingInterval = 4096" | "NodeAttributesMask AfNodeClass = 8192"
| "NodeAttributesMask AfNodeId = 16384" | "NodeAttributesMask AfSymmetric = 32768" | "NodeAttributesMask AfUserAccessLevel = 65536"
| "NodeAttributesMask AfUserExecutable = 131072" | "NodeAttributesMask AfUserWriteMask = 262144"
| "NodeAttributesMask AfValueRank = 524288" | "NodeAttributesMask AfWriteMask = 1048576" | "NodeAttributesMask AfValue = 2097152"
| "NodeAttributesMask AfDataTypeDefinition = 4194304" | "NodeAttributesMask AfRolePermissions = 8388608"
| "NodeAttributesMask AfAccessRestrictions = 16777216"

text \<open>The enumerators that name the attributes of a node class.\<close>

definition Mask_All :: u32 where "Mask_All = 33554431"
definition Mask_BaseNode :: u32 where "Mask_BaseNode = 26501220"
definition Mask_Object :: u32 where "Mask_Object = 26501348"
definition Mask_ObjectType :: u32 where "Mask_ObjectType = 26503268"
definition Mask_Variable :: u32 where "Mask_Variable = 26571383"
definition Mask_VariableType :: u32 where "Mask_VariableType = 28600438"
definition Mask_Method :: u32 where "Mask_Method = 26632548"
definition Mask_ReferenceType :: u32 where "Mask_ReferenceType = 26537060"
definition Mask_View :: u32 where "Mask_View = 26501356"

fun flag_bit :: "attr_flag \<Rightarrow> nat" where
  "flag_bit AfAccessLevel = 0" | "flag_bit AfArrayDimensions = 1" | "flag_bit AfBrowseName = 2" | "flag_bit AfContainsNoLoops = 3"
| "flag_bit AfDataType = 4" | "flag_bit AfDescription = 5" | "flag_bit AfDisplayName = 6" | "flag_bit AfEventNotifier = 7"
| "flag_bit AfExecutable = 8" | "flag_bit AfHistorizing = 9" | "flag_bit AfInverseName = 10" | "flag_bit AfIsAbstract = 11"
| "flag_bit AfMinimumSamplingInterval = 12" | "flag_bit AfNodeClass = 13" | "flag_bit AfNodeId = 14" | "flag_bit AfSymmetric = 15"
| "flag_bit AfUserAccessLevel = 16" | "flag_bit AfUserExecutable = 17" | "flag_bit AfUserWriteMask = 18" | "flag_bit AfValueRank = 19"
| "flag_bit AfWriteMask = 20" | "flag_bit AfValue = 21" | "flag_bit AfDataTypeDefinition = 22" | "flag_bit AfRolePermissions = 23"
| "flag_bit AfAccessRestrictions = 24"

lemma mask_bit: "NodeAttributesMask f = push_bit (flag_bit f) 1" "flag_bit f < 32"
  by (cases f; simp)+

lemma flag_bit_inj: "flag_bit f = flag_bit g \<longleftrightarrow> f = g"
  by (cases f; cases g; simp)

lemma bit_mask [simp]: "bit (NodeAttributesMask f) n \<longleftrightarrow> n = flag_bit f"
  using mask_bit(2)[of f] by (auto simp: mask_bit(1) bit_exp_iff)

section \<open>The classes\<close>

record NodeAttributes =
  specifiedAttributes :: u32
  na_displayName :: LocalizedText
  na_description :: LocalizedText
  na_writeMask :: u32
  na_userWriteMask :: u32

record ObjectAttributes = NodeAttributes +
  oa_eventNotifier :: u8

text \<open>The array member: null, the empty-array sentinel, an owned block, or the address of a block that has been freed.\<close>

datatype dims = NullDims | SentinelDims | OwnDims "u32 list" | FreedDims

record ('v, 'd) VariableAttributes = NodeAttributes +
  va_value :: "'v Variant"
  va_dataType :: NodeId
  va_valueRank :: "32 word"
  va_arrayDimensions :: dims
  va_accessLevel :: u8
  va_userAccessLevel :: u8
  va_minimumSamplingInterval :: 'd
  va_historizing :: bool

record MethodAttributes = NodeAttributes +
  ma_executable :: bool
  ma_userExecutable :: bool

record ObjectTypeAttributes = NodeAttributes +
  ota_isAbstract :: bool

record 'v VariableTypeAttributes = NodeAttributes +
  vta_value :: "'v Variant"
  vta_dataType :: NodeId
  vta_valueRank :: "32 word"
  vta_arrayDimensions :: dims
  vta_isAbstract :: bool

record ReferenceTypeAttributes = NodeAttributes +
  rta_isAbstract :: bool
  rta_symmetric :: bool
  rta_inverseName :: LocalizedText

record DataTypeAttributes = NodeAttributes +
  dta_isAbstract :: bool

record ViewAttributes = NodeAttributes +
  vwa_containsNoLoops :: bool
  vwa_eventNotifier :: u8

section \<open>Setters\<close>

text \<open>\<open>UAPP_NODEATTR\<close>, \<open>UAPP_NODEATTR_CAST\<close> and \<open>UAPP_NODEATTR_WRAPPER\<close>: the flag is set, then the member is assigned.\<close>

definition nodeattr :: "attr_flag \<Rightarrow> ('a NodeAttributes_scheme \<Rightarrow> 'a NodeAttributes_scheme) \<Rightarrow> 'a NodeAttributes_scheme \<Rightarrow> 'a NodeAttributes_scheme" where
  "nodeattr f upd a = upd (a\<lparr>specifiedAttributes := bm_or (specifiedAttributes a) (NodeAttributesMask f)\<rparr>)"

definition setDisplayName :: "LocalizedText \<Rightarrow> 'a NodeAttributes_scheme \<Rightarrow> 'a NodeAttributes_scheme" where
  "setDisplayName x = nodeattr AfDisplayName (na_displayName_update (\<lambda>_. x))"

definition setDescription :: "LocalizedText \<Rightarrow> 'a NodeAttributes_scheme \<Rightarrow> 'a NodeAttributes_scheme" where
  "setDescription x = nodeattr AfDescription (na_description_update (\<lambda>_. x))"

definition setWriteMask :: "u32 \<Rightarrow> 'a NodeAttributes_scheme \<Rightarrow> 'a NodeAttributes_scheme" where
  "setWriteMask x = nodeattr AfWriteMask (na_writeMask_update (\<lambda>_. x))"

definition setUserWriteMask :: "u32 \<Rightarrow> 'a NodeAttributes_scheme \<Rightarrow> 'a NodeAttributes_scheme" where
  "setUserWriteMask x = nodeattr AfUserWriteMask (na_userWriteMask_update (\<lambda>_. x))"

definition Object_setEventNotifier :: "u8 \<Rightarrow> ObjectAttributes \<Rightarrow> ObjectAttributes" where
  "Object_setEventNotifier x = nodeattr AfEventNotifier (oa_eventNotifier_update (\<lambda>_. x))"

definition Variable_setValue :: "'v Variant \<Rightarrow> ('v, 'd) VariableAttributes \<Rightarrow> ('v, 'd) VariableAttributes" where
  "Variable_setValue x = nodeattr AfValue (va_value_update (\<lambda>_. x))"

definition Variable_setDataType :: "NodeId \<Rightarrow> ('v, 'd) VariableAttributes \<Rightarrow> ('v, 'd) VariableAttributes" where
  "Variable_setDataType x = nodeattr AfDataType (va_dataType_update (\<lambda>_. x))"

definition Variable_setValueRank :: "32 word \<Rightarrow> ('v, 'd) VariableAttributes \<Rightarrow> ('v, 'd) VariableAttributes" where
  "Variable_setValueRank x = nodeattr AfValueRank (va_valueRank_update (\<lambda>_. x))"

definition Variable_setAccessLevel :: "u8 \<Rightarrow> ('v, 'd) VariableAttributes \<Rightarrow> ('v, 'd) VariableAttributes" where
  "Variable_setAccessLevel x = nodeattr AfAccessLevel (va_accessLevel_update (\<lambda>_. x))"

definition Variable_setUserAccessLevel :: "u8 \<Rightarrow> ('v, 'd) VariableAttributes \<Rightarrow> ('v, 'd) VariableAttributes" where
  "Variable_setUserAccessLevel x = nodeattr AfUserAccessLevel (va_userAccessLevel_update (\<lambda>_. x))"

definition Variable_setMinimumSamplingInterval :: "'d \<Rightarrow> ('v, 'd) VariableAttributes \<Rightarrow> ('v, 'd) VariableAttributes" where
  "Variable_setMinimumSamplingInterval x = nodeattr AfMinimumSamplingInterval (va_minimumSamplingInterval_update (\<lambda>_. x))"

definition Variable_setHistorizing :: "bool \<Rightarrow> ('v, 'd) VariableAttributes \<Rightarrow> ('v, 'd) VariableAttributes" where
  "Variable_setHistorizing x = nodeattr AfHistorizing (va_historizing_update (\<lambda>_. x))"

definition Method_setExecutable :: "bool \<Rightarrow> MethodAttributes \<Rightarrow> MethodAttributes" where
  "Method_setExecutable x = nodeattr AfExecutable (ma_executable_update (\<lambda>_. x))"

definition Method_setUserExecutable :: "bool \<Rightarrow> MethodAttributes \<Rightarrow> MethodAttributes" where
  "Method_setUserExecutable x = nodeattr AfUserExecutable (ma_userExecutable_update (\<lambda>_. x))"

definition ObjectType_setIsAbstract :: "bool \<Rightarrow> ObjectTypeAttributes \<Rightarrow> ObjectTypeAttributes" where
  "ObjectType_setIsAbstract x = nodeattr AfIsAbstract (ota_isAbstract_update (\<lambda>_. x))"

definition VariableType_setValue :: "'v Variant \<Rightarrow> 'v VariableTypeAttributes \<Rightarrow> 'v VariableTypeAttributes" where
  "VariableType_setValue x = nodeattr AfValue (vta_value_update (\<lambda>_. x))"

definition VariableType_setDataType :: "NodeId \<Rightarrow> 'v VariableTypeAttributes \<Rightarrow> 'v VariableTypeAttributes" where
  "VariableType_setDataType x = nodeattr AfDataType (vta_dataType_update (\<lambda>_. x))"

definition VariableType_setValueRank :: "32 word \<Rightarrow> 'v VariableTypeAttributes \<Rightarrow> 'v VariableTypeAttributes" where
  "VariableType_setValueRank x = nodeattr AfValueRank (vta_valueRank_update (\<lambda>_. x))"

definition VariableType_setIsAbstract :: "bool \<Rightarrow> 'v VariableTypeAttributes \<Rightarrow> 'v VariableTypeAttributes" where
  "VariableType_setIsAbstract x = nodeattr AfIsAbstract (vta_isAbstract_update (\<lambda>_. x))"

definition ReferenceType_setIsAbstract :: "bool \<Rightarrow> ReferenceTypeAttributes \<Rightarrow> ReferenceTypeAttributes" where
  "ReferenceType_setIsAbstract x = nodeattr AfIsAbstract (rta_isAbstract_update (\<lambda>_. x))"

definition ReferenceType_setSymmetric :: "bool \<Rightarrow> ReferenceTypeAttributes \<Rightarrow> ReferenceTypeAttributes" where
  "ReferenceType_setSymmetric x = nodeattr AfSymmetric (rta_symmetric_update (\<lambda>_. x))"

definition ReferenceType_setInverseName :: "LocalizedText \<Rightarrow> ReferenceTypeAttributes \<Rightarrow> ReferenceTypeAttributes" where
  "ReferenceType_setInverseName x = nodeattr AfInverseName (rta_inverseName_update (\<lambda>_. x))"

definition DataType_setIsAbstract :: "bool \<Rightarrow> DataTypeAttributes \<Rightarrow> DataTypeAttributes" where
  "DataType_setIsAbstract x = nodeattr AfIsAbstract (dta_isAbstract_update (\<lambda>_. x))"

text \<open>The setter of views is named \<open>setIsAbstract\<close> but sets \<open>containsNoLoops\<close> and its flag.\<close>

definition View_setIsAbstract :: "bool \<Rightarrow> ViewAttributes \<Rightarrow> ViewAttributes" where
  "View_setIsAbstract x = nodeattr AfContainsNoLoops (vwa_containsNoLoops_update (\<lambda>_. x))"

definition View_setEventNotifier :: "u8 \<Rightarrow> ViewAttributes \<Rightarrow> ViewAttributes" where
  "View_setEventNotifier x = nodeattr AfEventNotifier (vwa_eventNotifier_update (\<lambda>_. x))"

text \<open>\<open>UAPP_NODEATTR_ARRAY\<close>: flag, deallocation of the old array, copy of the new one, whose allocation may fail.\<close>

definition own_dims :: "dims \<Rightarrow> int" where
  "own_dims d = (case d of OwnDims _ \<Rightarrow> 1 | _ \<Rightarrow> 0)"

definition freed_dims :: "dims \<Rightarrow> dims" where
  "freed_dims d = (case d of OwnDims _ \<Rightarrow> FreedDims | _ \<Rightarrow> d)"

definition copy_dims :: "u32 list \<Rightarrow> (mem, dims) op" where
  "copy_dims xs = (if xs = [] then op_ret SentinelDims else op_bind (alloc_block BadAlloc) (\<lambda>_. op_ret (OwnDims xs)))"

definition nodeattr_array ::
  "('a NodeAttributes_scheme \<Rightarrow> dims) \<Rightarrow> ((dims \<Rightarrow> dims) \<Rightarrow> 'a NodeAttributes_scheme \<Rightarrow> 'a NodeAttributes_scheme) \<Rightarrow> attr_flag \<Rightarrow> u32 list \<Rightarrow>
    (mem \<times> 'a NodeAttributes_scheme, unit) op" where
  "nodeattr_array member upd f xs s = (case s of (m, a) \<Rightarrow>
     (let a1 = a\<lparr>specifiedAttributes := bm_or (specifiedAttributes a) (NodeAttributesMask f)\<rparr>;
          a2 = upd (\<lambda>_. freed_dims (member a)) a1
      in if member a = FreedDims then (Inl Undef, (m, a1))
         else (case copy_dims xs (free_blocks (own_dims (member a)) m) of
             (Inl e, m') \<Rightarrow> (Inl e, (m', a2))
           | (Inr d, m') \<Rightarrow> (Ret (), (m', upd (\<lambda>_. d) a1)))))"

definition Variable_setArrayDimensions :: "u32 list \<Rightarrow> (mem \<times> ('v, 'd) VariableAttributes, unit) op" where
  "Variable_setArrayDimensions = nodeattr_array va_arrayDimensions va_arrayDimensions_update AfArrayDimensions"

definition VariableType_setArrayDimensions :: "u32 list \<Rightarrow> (mem \<times> 'v VariableTypeAttributes, unit) op" where
  "VariableType_setArrayDimensions = nodeattr_array vta_arrayDimensions vta_arrayDimensions_update AfArrayDimensions"

definition dims_elems :: "dims \<Rightarrow> u32 list outc" where
  "dims_elems d = (case d of OwnDims xs \<Rightarrow> Ret xs | FreedDims \<Rightarrow> Inl Undef | _ \<Rightarrow> Ret [])"

section \<open>The contract of a setter\<close>

locale attr_setter =
  fixes get :: "'a \<Rightarrow> 'x" and set_to :: "'x \<Rightarrow> 'a \<Rightarrow> 'a" and spec :: "'a \<Rightarrow> u32" and flag :: attr_flag
  assumes get_set: "get (set_to x a) = x" and spec_set: "spec (set_to x a) = bm_or (spec a) (NodeAttributesMask flag)"
begin

lemma specified: "bit (spec (set_to x a)) (flag_bit flag)"
  by (simp add: spec_set bm_or_def bit_or_iff)

lemma keeps_others: "n \<noteq> flag_bit flag \<Longrightarrow> bit (spec (set_to x a)) n = bit (spec a) n"
  by (simp add: spec_set bm_or_def bit_or_iff)

lemma effect: "get (set_to x a) = x \<and> bit (spec (set_to x a)) n = (bit (spec a) n \<or> n = flag_bit flag)"
  by (cases "n = flag_bit flag") (simp_all add: specified keeps_others get_set)

end

lemmas setter_defs = nodeattr_def setDisplayName_def setDescription_def setWriteMask_def setUserWriteMask_def
  Object_setEventNotifier_def Variable_setValue_def Variable_setDataType_def Variable_setValueRank_def Variable_setAccessLevel_def
  Variable_setUserAccessLevel_def Variable_setMinimumSamplingInterval_def Variable_setHistorizing_def Method_setExecutable_def
  Method_setUserExecutable_def ObjectType_setIsAbstract_def VariableType_setValue_def VariableType_setDataType_def
  VariableType_setValueRank_def VariableType_setIsAbstract_def ReferenceType_setIsAbstract_def ReferenceType_setSymmetric_def
  ReferenceType_setInverseName_def DataType_setIsAbstract_def View_setIsAbstract_def View_setEventNotifier_def

interpretation displayName: attr_setter na_displayName setDisplayName specifiedAttributes AfDisplayName
  by unfold_locales (simp_all add: setter_defs)
interpretation description: attr_setter na_description setDescription specifiedAttributes AfDescription
  by unfold_locales (simp_all add: setter_defs)
interpretation writeMask: attr_setter na_writeMask setWriteMask specifiedAttributes AfWriteMask
  by unfold_locales (simp_all add: setter_defs)
interpretation userWriteMask: attr_setter na_userWriteMask setUserWriteMask specifiedAttributes AfUserWriteMask
  by unfold_locales (simp_all add: setter_defs)
interpretation object_eventNotifier: attr_setter oa_eventNotifier Object_setEventNotifier specifiedAttributes AfEventNotifier
  by unfold_locales (simp_all add: setter_defs)
interpretation variable_value: attr_setter va_value Variable_setValue specifiedAttributes AfValue
  by unfold_locales (simp_all add: setter_defs)
interpretation variable_dataType: attr_setter va_dataType Variable_setDataType specifiedAttributes AfDataType
  by unfold_locales (simp_all add: setter_defs)
interpretation variable_valueRank: attr_setter va_valueRank Variable_setValueRank specifiedAttributes AfValueRank
  by unfold_locales (simp_all add: setter_defs)
interpretation variable_accessLevel: attr_setter va_accessLevel Variable_setAccessLevel specifiedAttributes AfAccessLevel
  by unfold_locales (simp_all add: setter_defs)
interpretation variable_userAccessLevel: attr_setter va_userAccessLevel Variable_setUserAccessLevel specifiedAttributes AfUserAccessLevel
  by unfold_locales (simp_all add: setter_defs)
interpretation variable_sampling: attr_setter va_minimumSamplingInterval Variable_setMinimumSamplingInterval specifiedAttributes AfMinimumSamplingInterval
  by unfold_locales (simp_all add: setter_defs)
interpretation variable_historizing: attr_setter va_historizing Variable_setHistorizing specifiedAttributes AfHistorizing
  by unfold_locales (simp_all add: setter_defs)
interpretation executable: attr_setter ma_executable Method_setExecutable specifiedAttributes AfExecutable
  by unfold_locales (simp_all add: setter_defs)
interpretation userExecutable: attr_setter ma_userExecutable Method_setUserExecutable specifiedAttributes AfUserExecutable
  by unfold_locales (simp_all add: setter_defs)
interpretation objectType: attr_setter ota_isAbstract ObjectType_setIsAbstract specifiedAttributes AfIsAbstract
  by unfold_locales (simp_all add: setter_defs)
interpretation variableType_value: attr_setter vta_value VariableType_setValue specifiedAttributes AfValue
  by unfold_locales (simp_all add: setter_defs)
interpretation variableType_dataType: attr_setter vta_dataType VariableType_setDataType specifiedAttributes AfDataType
  by unfold_locales (simp_all add: setter_defs)
interpretation variableType_valueRank: attr_setter vta_valueRank VariableType_setValueRank specifiedAttributes AfValueRank
  by unfold_locales (simp_all add: setter_defs)
interpretation variableType_isAbstract: attr_setter vta_isAbstract VariableType_setIsAbstract specifiedAttributes AfIsAbstract
  by unfold_locales (simp_all add: setter_defs)
interpretation referenceType_isAbstract: attr_setter rta_isAbstract ReferenceType_setIsAbstract specifiedAttributes AfIsAbstract
  by unfold_locales (simp_all add: setter_defs)
interpretation symmetric: attr_setter rta_symmetric ReferenceType_setSymmetric specifiedAttributes AfSymmetric
  by unfold_locales (simp_all add: setter_defs)
interpretation inverseName: attr_setter rta_inverseName ReferenceType_setInverseName specifiedAttributes AfInverseName
  by unfold_locales (simp_all add: setter_defs)
interpretation dataType: attr_setter dta_isAbstract DataType_setIsAbstract specifiedAttributes AfIsAbstract
  by unfold_locales (simp_all add: setter_defs)
interpretation view_eventNotifier: attr_setter vwa_eventNotifier View_setEventNotifier specifiedAttributes AfEventNotifier
  by unfold_locales (simp_all add: setter_defs)

text \<open>The setter of views meets the contract only for the attribute it does not name.\<close>

interpretation containsNoLoops: attr_setter vwa_containsNoLoops View_setIsAbstract specifiedAttributes AfContainsNoLoops
  by unfold_locales (simp_all add: setter_defs)

section \<open>Sequences of setters\<close>

datatype ('v, 'd) variable_setter = VsDisplayName LocalizedText | VsDescription LocalizedText | VsWriteMask u32 | VsUserWriteMask u32
  | VsValue "'v Variant" | VsDataType NodeId | VsValueRank "32 word" | VsAccessLevel u8 | VsUserAccessLevel u8
  | VsMinimumSamplingInterval 'd | VsHistorizing bool

fun setter_flag :: "('v, 'd) variable_setter \<Rightarrow> attr_flag" where
  "setter_flag (VsDisplayName _) = AfDisplayName" | "setter_flag (VsDescription _) = AfDescription"
| "setter_flag (VsWriteMask _) = AfWriteMask" | "setter_flag (VsUserWriteMask _) = AfUserWriteMask" | "setter_flag (VsValue _) = AfValue"
| "setter_flag (VsDataType _) = AfDataType" | "setter_flag (VsValueRank _) = AfValueRank" | "setter_flag (VsAccessLevel _) = AfAccessLevel"
| "setter_flag (VsUserAccessLevel _) = AfUserAccessLevel" | "setter_flag (VsMinimumSamplingInterval _) = AfMinimumSamplingInterval"
| "setter_flag (VsHistorizing _) = AfHistorizing"

fun apply_setter :: "('v, 'd) variable_setter \<Rightarrow> ('v, 'd) VariableAttributes \<Rightarrow> ('v, 'd) VariableAttributes" where
  "apply_setter (VsDisplayName x) = setDisplayName x" | "apply_setter (VsDescription x) = setDescription x"
| "apply_setter (VsWriteMask x) = setWriteMask x" | "apply_setter (VsUserWriteMask x) = setUserWriteMask x"
| "apply_setter (VsValue x) = Variable_setValue x" | "apply_setter (VsDataType x) = Variable_setDataType x"
| "apply_setter (VsValueRank x) = Variable_setValueRank x" | "apply_setter (VsAccessLevel x) = Variable_setAccessLevel x"
| "apply_setter (VsUserAccessLevel x) = Variable_setUserAccessLevel x"
| "apply_setter (VsMinimumSamplingInterval x) = Variable_setMinimumSamplingInterval x"
| "apply_setter (VsHistorizing x) = Variable_setHistorizing x"

text \<open>The member a setter is about, as that setter, and the members with cleared flag.\<close>

fun member_of :: "attr_flag \<Rightarrow> ('v, 'd) VariableAttributes \<Rightarrow> ('v, 'd) variable_setter option" where
  "member_of AfDisplayName a = Some (VsDisplayName (na_displayName a))"
| "member_of AfDescription a = Some (VsDescription (na_description a))"
| "member_of AfWriteMask a = Some (VsWriteMask (na_writeMask a))"
| "member_of AfUserWriteMask a = Some (VsUserWriteMask (na_userWriteMask a))"
| "member_of AfValue a = Some (VsValue (va_value a))"
| "member_of AfDataType a = Some (VsDataType (va_dataType a))"
| "member_of AfValueRank a = Some (VsValueRank (va_valueRank a))"
| "member_of AfAccessLevel a = Some (VsAccessLevel (va_accessLevel a))"
| "member_of AfUserAccessLevel a = Some (VsUserAccessLevel (va_userAccessLevel a))"
| "member_of AfMinimumSamplingInterval a = Some (VsMinimumSamplingInterval (va_minimumSamplingInterval a))"
| "member_of AfHistorizing a = Some (VsHistorizing (va_historizing a))"
| "member_of _ a = None"

lemma apply_setter_spec:
  "bit (specifiedAttributes (apply_setter s a)) (flag_bit f) \<longleftrightarrow> bit (specifiedAttributes a) (flag_bit f) \<or> f = setter_flag s"
  by (cases s) (simp_all add: setter_defs bm_or_def bit_or_iff flag_bit_inj del: NodeAttributesMask.simps flag_bit.simps)

lemma member_apply: "member_of f (apply_setter s a) = (if f = setter_flag s then Some s else member_of f a)"
  by (cases s; cases f) (simp_all add: setter_defs)

lemma dims_apply: "va_arrayDimensions (apply_setter s a) = va_arrayDimensions a"
  by (cases s) (simp_all add: setter_defs)

lemma apply_setter_bits:
  "bit (specifiedAttributes (apply_setter s a)) n \<longleftrightarrow> bit (specifiedAttributes a) n \<or> n = flag_bit (setter_flag s)"
  by (cases s) (simp_all add: setter_defs bm_or_def bit_or_iff del: NodeAttributesMask.simps flag_bit.simps)

lemma fold_bits:
  "bit (specifiedAttributes (fold apply_setter ss a)) n \<longleftrightarrow> bit (specifiedAttributes a) n \<or> (\<exists>s \<in> set ss. n = flag_bit (setter_flag s))"
  by (induction ss arbitrary: a) (auto simp: apply_setter_bits)

lemma fold_keeps: "f \<notin> setter_flag ` set ss \<Longrightarrow> member_of f (fold apply_setter ss a) = member_of f a"
  by (induction ss arbitrary: a) (auto simp: member_apply)

lemma fold_last:
  assumes "f \<in> setter_flag ` set ss"
  shows "\<exists>ss1 s ss2. ss = ss1 @ s # ss2 \<and> setter_flag s = f \<and> f \<notin> setter_flag ` set ss2 \<and> member_of f (fold apply_setter ss a) = Some s"
proof -
  obtain ss1 s ss2 where "ss = ss1 @ s # ss2" "setter_flag s = f" "\<forall>z \<in> set ss2. setter_flag z \<noteq> f"
    using split_list_last_prop[of ss "\<lambda>s. setter_flag s = f"] assms by auto
  moreover from this have "f \<notin> setter_flag ` set ss2" by auto
  ultimately show ?thesis using fold_keeps[of f ss2] by (fastforce simp: member_apply)
qed

text \<open>The enumerator \<open>Variable\<close> does not contain the flags of \<open>Value\<close> and \<open>ValueRank\<close>, which the class sets.\<close>

definition variable_mask :: u32 where
  "variable_mask = bm_or Mask_Variable (bm_or (NodeAttributesMask AfValue) (NodeAttributesMask AfValueRank))"

lemma Mask_Variable_incomplete: "\<not> bit Mask_Variable (flag_bit AfValue)" "\<not> bit Mask_Variable (flag_bit AfValueRank)"
  by (simp_all add: Mask_Variable_def)

lemma variable_flags: "bit variable_mask (flag_bit (setter_flag s))"
  by (cases s) (simp_all add: variable_mask_def Mask_Variable_def bm_or_def)

lemma specified_in_mask:
  assumes "specifiedAttributes a = 0"
  shows "bm_and (specifiedAttributes (fold apply_setter ss a)) (bm_not variable_mask) = 0"
proof (rule bit_eqI)
  fix n
  show "bit (bm_and (specifiedAttributes (fold apply_setter ss a)) (bm_not variable_mask)) n = bit 0 n"
    using variable_flags by (auto simp: bm_and_def bm_not_def bit_and_iff bit_not_iff fold_bits assms)
qed

text \<open>The array setter: on success the copy is owned and the old array freed; when the copy fails, the pointer of a freed old
  array stays in place.\<close>

lemma setArrayDimensions_cases:
  assumes "va_arrayDimensions b \<noteq> FreedDims"
  shows "case Variable_setArrayDimensions xs (m, b) of
      (Inr _, (m', b')) \<Rightarrow> dims_elems (va_arrayDimensions b') = Ret xs
        \<and> live m' - own_dims (va_arrayDimensions b') = live m - own_dims (va_arrayDimensions b)
        \<and> bit (specifiedAttributes b') (flag_bit AfArrayDimensions) \<and> va_value b' = va_value b
    | (Inl e, (m', b')) \<Rightarrow> e = Throw BadAlloc \<and> xs \<noteq> [] \<and> live m' = live m - own_dims (va_arrayDimensions b)
        \<and> (va_arrayDimensions b' = FreedDims \<longleftrightarrow> own_dims (va_arrayDimensions b) = 1)"
  using assms by (auto simp: Variable_setArrayDimensions_def nodeattr_array_def copy_dims_def alloc_block_def op_bind_def free_blocks_def
      own_dims_def freed_dims_def dims_elems_def bm_or_def bit_or_iff Let_def simp del: flag_bit.simps NodeAttributesMask.simps split: dims.splits)

text \<open>C20. \<open>specifiedAttributes\<close> tells the truth: after any sequence of setters on a default object a flag is set exactly if
  its setter was called, the members without flag have their default, the others hold what the last call of their setter was
  given, and no flag outside those of the node class is set. The array setter keeps this and the ownership of its block
  unless the copy fails, which leaves the pointer to the freed old array behind.\<close>

theorem attributes_specified:
  assumes "specifiedAttributes dflt = 0" "va_arrayDimensions b \<noteq> FreedDims"
  shows "(\<forall>f. bit (specifiedAttributes (fold apply_setter ss dflt)) (flag_bit f) \<longleftrightarrow> f \<in> setter_flag ` set ss)
    \<and> (\<forall>f. f \<notin> setter_flag ` set ss \<longrightarrow> member_of f (fold apply_setter ss dflt) = member_of f dflt)
    \<and> (\<forall>f \<in> setter_flag ` set ss. \<exists>ss1 s ss2. ss = ss1 @ s # ss2 \<and> setter_flag s = f \<and> f \<notin> setter_flag ` set ss2
        \<and> member_of f (fold apply_setter ss dflt) = Some s)
    \<and> bm_and (specifiedAttributes (fold apply_setter ss dflt)) (bm_not variable_mask) = 0
    \<and> va_arrayDimensions (fold apply_setter ss dflt) = va_arrayDimensions dflt
    \<and> (case Variable_setArrayDimensions xs (m, b) of
        (Inr _, (m', b')) \<Rightarrow> dims_elems (va_arrayDimensions b') = Ret xs
          \<and> live m' - own_dims (va_arrayDimensions b') = live m - own_dims (va_arrayDimensions b)
          \<and> bit (specifiedAttributes b') (flag_bit AfArrayDimensions) \<and> va_value b' = va_value b
      | (Inl e, (m', b')) \<Rightarrow> e = Throw BadAlloc \<and> xs \<noteq> [] \<and> live m' = live m - own_dims (va_arrayDimensions b)
          \<and> (va_arrayDimensions b' = FreedDims \<longleftrightarrow> own_dims (va_arrayDimensions b) = 1))"
proof (intro conjI allI impI ballI)
  show "bit (specifiedAttributes (fold apply_setter ss dflt)) (flag_bit f) \<longleftrightarrow> f \<in> setter_flag ` set ss" for f
    by (auto simp: fold_bits assms(1) flag_bit_inj)
  show "va_arrayDimensions (fold apply_setter ss dflt) = va_arrayDimensions dflt"
    by (induction ss arbitrary: dflt) (simp_all add: dims_apply)
qed (simp_all add: fold_keeps fold_last specified_in_mask assms setArrayDimensions_cases)

definition default_variable :: "(nat, nat) VariableAttributes" where
  "default_variable = \<lparr>specifiedAttributes = 0, na_displayName = \<lparr>lt_locale = NullString, lt_text = NullString\<rparr>,
     na_description = \<lparr>lt_locale = NullString, lt_text = NullString\<rparr>, na_writeMask = 0, na_userWriteMask = 0,
     va_value = zero_variant, va_dataType = NodeId_numeric 0 24, va_valueRank = - 2, va_arrayDimensions = NullDims,
     va_accessLevel = 1, va_userAccessLevel = 0, va_minimumSamplingInterval = 0, va_historizing = False\<rparr>"

theorem attributes_specified_witness:
  "bit (specifiedAttributes (fold apply_setter [VsHistorizing True, VsAccessLevel 3] default_variable)) (flag_bit AfHistorizing)
   \<and> \<not> bit (specifiedAttributes (fold apply_setter [VsHistorizing True, VsAccessLevel 3] default_variable)) (flag_bit AfWriteMask)"
proof -
  have d: "specifiedAttributes default_variable = 0" "va_arrayDimensions default_variable \<noteq> FreedDims" by (simp_all add: default_variable_def)
  have "\<forall>f. bit (specifiedAttributes (fold apply_setter [VsHistorizing True, VsAccessLevel 3] default_variable)) (flag_bit f)
      \<longleftrightarrow> f \<in> setter_flag ` set [VsHistorizing True, VsAccessLevel 3 :: (nat, nat) variable_setter]"
    by (rule attributes_specified[OF d, THEN conjunct1])
  then show ?thesis by (simp del: fold.simps flag_bit.simps)
qed

text \<open>What the wrong name of the view setter does: the flag \<open>IsAbstract\<close>, which views do not have, is never set.\<close>

lemma view_isAbstract:
  "bit (specifiedAttributes (View_setIsAbstract x a)) (flag_bit AfContainsNoLoops)"
  "bit (specifiedAttributes (View_setIsAbstract x a)) (flag_bit AfIsAbstract) = bit (specifiedAttributes a) (flag_bit AfIsAbstract)"
  by (rule containsNoLoops.specified, rule containsNoLoops.keeps_others) simp

end
