(* ===== verification/Requests.thy ===== *)
theory Requests
  imports Data_Values
begin

text \<open>
  The requests of the OPC UA services and \<open>services/detail/request_handling.hpp\<close>, which builds them from the arguments
  of the service functions. A native array member (a size and a pointer) is the list of its elements; the functions
  that take one item by reference make an array of size one from its address. Members the code leaves at their
  zero initialisation and never touches (request header, view, maximum age, diagnostics) are left out. The requests
  borrow their content: none of these functions allocates, except \<open>makeBrowsePath\<close>.
\<close>

section \<open>Enumerations\<close>

datatype TimestampsToReturn = TsSource | TsServer | TsBoth | TsNeither | TsInvalid

datatype BrowseDirection = BdForward | BdInverse | BdBoth | BdInvalid

datatype MonitoringMode = MmDisabled | MmSampling | MmReporting

section \<open>Node management\<close>

text \<open>Node identifiers of namespace 0 that the code names.\<close>

definition ns0 :: "u32 \<Rightarrow> NodeId" where
  "ns0 i = NodeId_numeric 0 i"

definition HierarchicalReferences :: NodeId where "HierarchicalReferences = ns0 33"

record 'v AddNodesItem =
  ani_parentNodeId :: ExpandedNodeId
  ani_referenceTypeId :: NodeId
  ani_requestedNewNodeId :: ExpandedNodeId
  ani_browseName :: QualifiedName
  ani_nodeClass :: NodeClass
  ani_nodeAttributes :: "'v ExtensionObject"
  ani_typeDefinition :: ExpandedNodeId

text \<open>\<open>wrapNodeAttributes\<close> borrows the attributes at address \<open>a\<close>, of size \<open>sz\<close>.\<close>

definition wrapNodeAttributes :: "nat \<Rightarrow> nat \<Rightarrow> vtype \<Rightarrow> 'v ExtensionObject outc" where
  "wrapNodeAttributes sz a ty = eo_of_pointer sz (Some a) ty"

definition makeAddNodesItem ::
  "NodeId \<Rightarrow> NodeId \<Rightarrow> NodeId \<Rightarrow> string option \<Rightarrow> NodeClass \<Rightarrow> 'v ExtensionObject \<Rightarrow> NodeId \<Rightarrow> 'v AddNodesItem" where
  "makeAddNodesItem parentId referenceType i browseName nodeClass nodeAttributes typeDefinition =
     \<lparr>ani_parentNodeId = ExpandedNodeId_of parentId, ani_referenceTypeId = referenceType,
      ani_requestedNewNodeId = ExpandedNodeId_of i,
      ani_browseName = \<lparr>qn_namespaceIndex = namespaceIndex i, qn_name = toNativeString browseName\<rparr>,
      ani_nodeClass = nodeClass, ani_nodeAttributes = nodeAttributes, ani_typeDefinition = ExpandedNodeId_of typeDefinition\<rparr>"

definition makeAddNodesRequest :: "'v AddNodesItem \<Rightarrow> 'v AddNodesItem list" where
  "makeAddNodesRequest item = [item]"

record AddReferencesItem =
  ari_sourceNodeId :: NodeId
  ari_referenceTypeId :: NodeId
  ari_isForward :: bool
  ari_targetNodeId :: ExpandedNodeId

definition makeAddReferencesItem :: "NodeId \<Rightarrow> NodeId \<Rightarrow> bool \<Rightarrow> NodeId \<Rightarrow> AddReferencesItem" where
  "makeAddReferencesItem sourceId referenceType forward targetId =
     \<lparr>ari_sourceNodeId = sourceId, ari_referenceTypeId = referenceType, ari_isForward = forward,
      ari_targetNodeId = ExpandedNodeId_of targetId\<rparr>"

definition makeAddReferencesRequest :: "AddReferencesItem \<Rightarrow> AddReferencesItem list" where
  "makeAddReferencesRequest item = [item]"

record DeleteNodesItem =
  dni_nodeId :: NodeId
  dni_deleteTargetReferences :: bool

definition makeDeleteNodesItem :: "NodeId \<Rightarrow> bool \<Rightarrow> DeleteNodesItem" where
  "makeDeleteNodesItem i deleteReferences = \<lparr>dni_nodeId = i, dni_deleteTargetReferences = deleteReferences\<rparr>"

definition makeDeleteNodesRequest :: "DeleteNodesItem \<Rightarrow> DeleteNodesItem list" where
  "makeDeleteNodesRequest item = [item]"

record DeleteReferencesItem =
  dri_sourceNodeId :: NodeId
  dri_referenceTypeId :: NodeId
  dri_isForward :: bool
  dri_targetNodeId :: ExpandedNodeId
  dri_deleteBidirectional :: bool

definition makeDeleteReferencesItem :: "NodeId \<Rightarrow> NodeId \<Rightarrow> bool \<Rightarrow> NodeId \<Rightarrow> bool \<Rightarrow> DeleteReferencesItem" where
  "makeDeleteReferencesItem sourceId referenceType isForward targetId deleteBidirectional =
     \<lparr>dri_sourceNodeId = sourceId, dri_referenceTypeId = referenceType, dri_isForward = isForward,
      dri_targetNodeId = ExpandedNodeId_of targetId, dri_deleteBidirectional = deleteBidirectional\<rparr>"

definition makeDeleteReferencesRequest :: "DeleteReferencesItem \<Rightarrow> DeleteReferencesItem list" where
  "makeDeleteReferencesRequest item = [item]"

section \<open>Attributes and methods\<close>

record ReadValueId =
  rvi_nodeId :: NodeId
  rvi_attributeId :: u32
  rvi_indexRange :: native_string
  rvi_dataEncoding :: QualifiedName

definition makeReadValueId :: "NodeId \<Rightarrow> AttributeId \<Rightarrow> ReadValueId" where
  "makeReadValueId i attributeId =
     \<lparr>rvi_nodeId = i, rvi_attributeId = AttributeId_code attributeId, rvi_indexRange = NullString,
      rvi_dataEncoding = \<lparr>qn_namespaceIndex = 0, qn_name = NullString\<rparr>\<rparr>"

record ReadRequest =
  rr_timestampsToReturn :: TimestampsToReturn
  rr_nodesToRead :: "ReadValueId list"

definition makeReadRequest :: "TimestampsToReturn \<Rightarrow> ReadValueId \<Rightarrow> ReadRequest" where
  "makeReadRequest timestamps item = \<lparr>rr_timestampsToReturn = timestamps, rr_nodesToRead = [item]\<rparr>"

definition makeReadRequest_span :: "TimestampsToReturn \<Rightarrow> ReadValueId list \<Rightarrow> ReadRequest" where
  "makeReadRequest_span timestamps nodesToRead = \<lparr>rr_timestampsToReturn = timestamps, rr_nodesToRead = nodesToRead\<rparr>"

record 'v WriteValue =
  wv_nodeId :: NodeId
  wv_attributeId :: u32
  wv_indexRange :: native_string
  wv_value :: "'v DataValue"

text \<open>A shallow copy of the value, whose \<open>hasValue\<close> flag is set whatever it was.\<close>

definition makeWriteValue :: "NodeId \<Rightarrow> AttributeId \<Rightarrow> 'v DataValue \<Rightarrow> 'v WriteValue" where
  "makeWriteValue i attributeId value =
     \<lparr>wv_nodeId = i, wv_attributeId = AttributeId_code attributeId, wv_indexRange = NullString,
      wv_value = value\<lparr>dv_hasValue := True\<rparr>\<rparr>"

definition makeWriteRequest :: "'v WriteValue \<Rightarrow> 'v WriteValue list" where
  "makeWriteRequest item = [item]"

definition makeWriteRequest_span :: "'v WriteValue list \<Rightarrow> 'v WriteValue list" where
  "makeWriteRequest_span nodesToWrite = nodesToWrite"

record 'v CallMethodRequest =
  cmr_objectId :: NodeId
  cmr_methodId :: NodeId
  cmr_inputArguments :: "'v Variant list"

definition makeCallMethodRequest :: "NodeId \<Rightarrow> NodeId \<Rightarrow> 'v Variant list \<Rightarrow> 'v CallMethodRequest" where
  "makeCallMethodRequest objectId methodId inputArguments =
     \<lparr>cmr_objectId = objectId, cmr_methodId = methodId, cmr_inputArguments = inputArguments\<rparr>"

definition makeCallRequest :: "'v CallMethodRequest \<Rightarrow> 'v CallMethodRequest list" where
  "makeCallRequest item = [item]"

section \<open>Views\<close>

record BrowseDescription =
  bd_nodeId :: NodeId
  bd_browseDirection :: BrowseDirection
  bd_referenceTypeId :: NodeId
  bd_includeSubtypes :: bool
  bd_nodeClassMask :: u32
  bd_resultMask :: u32

record BrowseRequest =
  brr_requestedMaxReferencesPerNode :: u32
  brr_nodesToBrowse :: "BrowseDescription list"

definition makeBrowseRequest :: "BrowseDescription \<Rightarrow> u32 \<Rightarrow> BrowseRequest" where
  "makeBrowseRequest bd maxReferences = \<lparr>brr_requestedMaxReferencesPerNode = maxReferences, brr_nodesToBrowse = [bd]\<rparr>"

record BrowseNextRequest =
  bnr_releaseContinuationPoints :: bool
  bnr_continuationPoints :: "native_string list"

definition makeBrowseNextRequest :: "bool \<Rightarrow> native_string \<Rightarrow> BrowseNextRequest" where
  "makeBrowseNextRequest releaseContinuationPoint continuationPoint =
     \<lparr>bnr_releaseContinuationPoints = releaseContinuationPoint, bnr_continuationPoints = [continuationPoint]\<rparr>"

record RelativePathElement =
  rpe_referenceTypeId :: NodeId
  rpe_isInverse :: bool
  rpe_includeSubtypes :: bool
  rpe_targetName :: QualifiedName

record BrowsePath =
  bp_startingNode :: NodeId
  bp_relativePath :: "RelativePathElement list"

definition makeTranslateBrowsePathsToNodeIdsRequest :: "BrowsePath \<Rightarrow> BrowsePath list" where
  "makeTranslateBrowsePathsToNodeIdsRequest browsePath = [browsePath]"

definition makeBrowsePath :: "NodeId \<Rightarrow> QualifiedName list \<Rightarrow> BrowsePath" where
  "makeBrowsePath origin browsePath =
     \<lparr>bp_startingNode = origin,
      bp_relativePath = map (\<lambda>qn. \<lparr>rpe_referenceTypeId = HierarchicalReferences, rpe_isInverse = False,
        rpe_includeSubtypes = True, rpe_targetName = qn\<rparr>) browsePath\<rparr>"

section \<open>Subscriptions\<close>

text \<open>Parameters of subscriptions and monitored items; intervals are \<open>double\<close>s, which are only passed on.\<close>

record 'd SubscriptionParameters =
  sp_publishingInterval :: 'd
  sp_lifetimeCount :: u32
  sp_maxKeepAliveCount :: u32
  sp_maxNotificationsPerPublish :: u32
  sp_priority :: u8

record 'd CreateSubscriptionRequest =
  csr_requestedPublishingInterval :: 'd
  csr_requestedLifetimeCount :: u32
  csr_requestedMaxKeepAliveCount :: u32
  csr_maxNotificationsPerPublish :: u32
  csr_publishingEnabled :: bool
  csr_priority :: u8

definition makeCreateSubscriptionRequest :: "'d SubscriptionParameters \<Rightarrow> bool \<Rightarrow> 'd CreateSubscriptionRequest" where
  "makeCreateSubscriptionRequest parameters publishingEnabled =
     \<lparr>csr_requestedPublishingInterval = sp_publishingInterval parameters,
      csr_requestedLifetimeCount = sp_lifetimeCount parameters,
      csr_requestedMaxKeepAliveCount = sp_maxKeepAliveCount parameters,
      csr_maxNotificationsPerPublish = sp_maxNotificationsPerPublish parameters,
      csr_publishingEnabled = publishingEnabled, csr_priority = sp_priority parameters\<rparr>"

record 'd ModifySubscriptionRequest =
  msr_subscriptionId :: u32
  msr_requestedPublishingInterval :: 'd
  msr_requestedLifetimeCount :: u32
  msr_requestedMaxKeepAliveCount :: u32
  msr_maxNotificationsPerPublish :: u32
  msr_priority :: u8

definition makeModifySubscriptionRequest :: "u32 \<Rightarrow> 'd SubscriptionParameters \<Rightarrow> 'd ModifySubscriptionRequest" where
  "makeModifySubscriptionRequest subscriptionId parameters =
     \<lparr>msr_subscriptionId = subscriptionId, msr_requestedPublishingInterval = sp_publishingInterval parameters,
      msr_requestedLifetimeCount = sp_lifetimeCount parameters,
      msr_requestedMaxKeepAliveCount = sp_maxKeepAliveCount parameters,
      msr_maxNotificationsPerPublish = sp_maxNotificationsPerPublish parameters, msr_priority = sp_priority parameters\<rparr>"

record SetPublishingModeRequest =
  spm_publishingEnabled :: bool
  spm_subscriptionIds :: "u32 list"

definition makeSetPublishingModeRequest :: "bool \<Rightarrow> u32 list \<Rightarrow> SetPublishingModeRequest" where
  "makeSetPublishingModeRequest publishing subscriptionIds =
     \<lparr>spm_publishingEnabled = publishing, spm_subscriptionIds = subscriptionIds\<rparr>"

definition makeDeleteSubscriptionsRequest :: "u32 \<Rightarrow> u32 list" where
  "makeDeleteSubscriptionsRequest subscriptionId = [subscriptionId]"

record ('d, 'v) MonitoringParametersEx =
  mp_samplingInterval :: 'd
  mp_filter :: "'v ExtensionObject"
  mp_queueSize :: u32
  mp_discardOldest :: bool
  mp_timestamps :: TimestampsToReturn

record ('d, 'v) native_MonitoringParameters =
  nmp_clientHandle :: u32
  nmp_samplingInterval :: 'd
  nmp_filter :: "'v ExtensionObject"
  nmp_queueSize :: u32
  nmp_discardOldest :: bool

definition makeMonitoringParametersToNative ::
  "('d, 'v) MonitoringParametersEx \<Rightarrow> ('d, 'v) native_MonitoringParameters \<Rightarrow> ('d, 'v) native_MonitoringParameters" where
  "makeMonitoringParametersToNative parameters native =
     native\<lparr>nmp_samplingInterval := mp_samplingInterval parameters, nmp_filter := mp_filter parameters,
       nmp_queueSize := mp_queueSize parameters, nmp_discardOldest := mp_discardOldest parameters\<rparr>"

definition zero_native_parameters :: "'d \<Rightarrow> ('d, 'v) native_MonitoringParameters" where
  "zero_native_parameters z =
     \<lparr>nmp_clientHandle = 0, nmp_samplingInterval = z, nmp_filter = EncodedNoBody, nmp_queueSize = 0, nmp_discardOldest = False\<rparr>"

record ('d, 'v) MonitoredItemCreateRequest =
  mcr_itemToMonitor :: ReadValueId
  mcr_monitoringMode :: MonitoringMode
  mcr_requestedParameters :: "('d, 'v) native_MonitoringParameters"

definition makeMonitoredItemCreateRequest ::
  "'d \<Rightarrow> ReadValueId \<Rightarrow> MonitoringMode \<Rightarrow> ('d, 'v) MonitoringParametersEx \<Rightarrow> ('d, 'v) MonitoredItemCreateRequest" where
  "makeMonitoredItemCreateRequest z itemToMonitor monitoringMode parameters =
     \<lparr>mcr_itemToMonitor = itemToMonitor, mcr_monitoringMode = monitoringMode,
      mcr_requestedParameters = makeMonitoringParametersToNative parameters (zero_native_parameters z)\<rparr>"

record ('d, 'v) CreateMonitoredItemsRequest =
  cmi_subscriptionId :: u32
  cmi_timestampsToReturn :: TimestampsToReturn
  cmi_itemsToCreate :: "('d, 'v) MonitoredItemCreateRequest list"

definition makeCreateMonitoredItemsRequest ::
  "u32 \<Rightarrow> TimestampsToReturn \<Rightarrow> ('d, 'v) MonitoredItemCreateRequest list \<Rightarrow> ('d, 'v) CreateMonitoredItemsRequest" where
  "makeCreateMonitoredItemsRequest subscriptionId timestampsToReturn itemsToCreate =
     \<lparr>cmi_subscriptionId = subscriptionId, cmi_timestampsToReturn = timestampsToReturn, cmi_itemsToCreate = itemsToCreate\<rparr>"

record ('d, 'v) MonitoredItemModifyRequest =
  mmr_monitoredItemId :: u32
  mmr_requestedParameters :: "('d, 'v) native_MonitoringParameters"

definition makeMonitoredItemModifyRequest ::
  "'d \<Rightarrow> u32 \<Rightarrow> ('d, 'v) MonitoringParametersEx \<Rightarrow> ('d, 'v) MonitoredItemModifyRequest" where
  "makeMonitoredItemModifyRequest z monitoredItemId parameters =
     \<lparr>mmr_monitoredItemId = monitoredItemId,
      mmr_requestedParameters = makeMonitoringParametersToNative parameters (zero_native_parameters z)\<rparr>"

record ('d, 'v) ModifyMonitoredItemsRequest =
  mmi_subscriptionId :: u32
  mmi_timestampsToReturn :: TimestampsToReturn
  mmi_itemsToModify :: "('d, 'v) MonitoredItemModifyRequest list"

definition makeModifyMonitoredItemsRequest ::
  "u32 \<Rightarrow> ('d, 'v) MonitoringParametersEx \<Rightarrow> ('d, 'v) MonitoredItemModifyRequest \<Rightarrow> ('d, 'v) ModifyMonitoredItemsRequest" where
  "makeModifyMonitoredItemsRequest subscriptionId parameters item =
     \<lparr>mmi_subscriptionId = subscriptionId, mmi_timestampsToReturn = mp_timestamps parameters, mmi_itemsToModify = [item]\<rparr>"

record SetMonitoringModeRequest =
  smm_subscriptionId :: u32
  smm_monitoringMode :: MonitoringMode
  smm_monitoredItemIds :: "u32 list"

definition makeSetMonitoringModeRequest :: "u32 \<Rightarrow> u32 list \<Rightarrow> MonitoringMode \<Rightarrow> SetMonitoringModeRequest" where
  "makeSetMonitoringModeRequest subscriptionId monitoredItemIds monitoringMode =
     \<lparr>smm_subscriptionId = subscriptionId, smm_monitoringMode = monitoringMode, smm_monitoredItemIds = monitoredItemIds\<rparr>"

record SetTriggeringRequest =
  str_subscriptionId :: u32
  str_triggeringItemId :: u32
  str_linksToAdd :: "u32 list"
  str_linksToRemove :: "u32 list"

definition makeSetTriggeringRequest :: "u32 \<Rightarrow> u32 \<Rightarrow> u32 list \<Rightarrow> u32 list \<Rightarrow> SetTriggeringRequest" where
  "makeSetTriggeringRequest subscriptionId triggeringItemId linksToAdd linksToRemove =
     \<lparr>str_subscriptionId = subscriptionId, str_triggeringItemId = triggeringItemId,
      str_linksToAdd = linksToAdd, str_linksToRemove = linksToRemove\<rparr>"

record DeleteMonitoredItemsRequest =
  dmi_subscriptionId :: u32
  dmi_monitoredItemIds :: "u32 list"

definition makeDeleteMonitoredItemsRequest :: "u32 \<Rightarrow> u32 list \<Rightarrow> DeleteMonitoredItemsRequest" where
  "makeDeleteMonitoredItemsRequest subscriptionId monitoredItemIds =
     \<lparr>dmi_subscriptionId = subscriptionId, dmi_monitoredItemIds = monitoredItemIds\<rparr>"

text \<open>The equations of the node, attribute and view requests, for the proofs about the services.\<close>

lemmas request_defs =
  makeAddNodesItem_def makeAddNodesRequest_def makeAddReferencesItem_def makeAddReferencesRequest_def
  makeDeleteNodesItem_def makeDeleteNodesRequest_def makeDeleteReferencesItem_def makeDeleteReferencesRequest_def
  makeReadValueId_def makeReadRequest_def makeWriteValue_def makeWriteRequest_def makeCallMethodRequest_def
  makeCallRequest_def makeBrowseRequest_def makeBrowseNextRequest_def makeTranslateBrowsePathsToNodeIdsRequest_def

end
