(* ===== verification/Services.thy ===== *)
theory Services
  imports Requests
begin

text \<open>
  The response side of the services (\<open>services/detail/response_handling.hpp\<close>) and the service functions that exist
  for both kinds of connection (\<open>services_attribute.cpp\<close>, \<open>services_method.cpp\<close>, \<open>services_view.cpp\<close>,
  \<open>services_nodemanagement.cpp\<close>), with the loop \<open>browseAll\<close> of \<open>services/view.hpp\<close>. The functions of the C library are
  the fields of two records, one for a server and one for a client, over a state \<open>'w\<close> of the world behind them.
\<close>

section \<open>Responses\<close>

text \<open>The results array is null or has elements; the size is a field of its own, as in the native structure.\<close>

record 'r Response =
  serviceResult :: u32
  results :: "'r list option"
  resultsSize :: nat

definition getServiceResult :: "'r Response \<Rightarrow> u32" where
  "getServiceResult r = serviceResult r"

definition getSingleResultRef :: "'r Response \<Rightarrow> 'r Result outc" where
  "getSingleResultRef r =
     (if isBad (getServiceResult r) then outc_map Result_bad (mkBadResult (getServiceResult r))
      else if results r = None \<or> resultsSize r \<noteq> 1 then outc_map Result_bad (mkBadResult UA_STATUSCODE_BADUNEXPECTEDERROR)
      else (case results r of Some (x # _) \<Rightarrow> Ret (Result_of x UA_STATUSCODE_GOOD) | _ \<Rightarrow> Inl Undef))"

definition getSingleStatus :: "u32 Response \<Rightarrow> u32 outc" where
  "getSingleStatus r = outc_bind (getSingleResultRef r) (\<lambda>s. if hasValue s then deref s else Ret (code s))"

text \<open>\<open>Wrap\<close> moves a native object out and leaves the zero object \<open>z\<close> behind.\<close>

definition Wrap :: "'r \<Rightarrow> 'r \<Rightarrow> 'r \<times> 'r" where
  "Wrap z native = (native, z)"

definition wrapSingleResult :: "'r \<Rightarrow> 'r Response \<Rightarrow> 'r Result outc \<times> 'r Response" where
  "wrapSingleResult z r = (case getSingleResultRef r of
      Inl e \<Rightarrow> (Inl e, r)
    | Inr s \<Rightarrow> (transform s (\<lambda>x. Ret (fst (Wrap z x))),
        if hasValue s then r\<lparr>results := map_option (\<lambda>xs. snd (Wrap z (hd xs)) # tl xs) (results r)\<rparr> else r))"

text \<open>\<open>wrapSingleResultWithStatus\<close>: \<open>setStatus\<close> stores a code in the status member of a default result.\<close>

definition wrapSingleResultWithStatus :: "'r \<Rightarrow> ('r \<Rightarrow> u32 \<Rightarrow> 'r) \<Rightarrow> 'r Response \<Rightarrow> 'r outc" where
  "wrapSingleResultWithStatus z setCode r = outc_bind (fst (wrapSingleResult z r)) (\<lambda>s.
     outc_bind (orElse s (\<lambda>c. Ret (Result_of (setCode z c) UA_STATUSCODE_GOOD))) deref)"

record AddNodesResult =
  anr_statusCode :: u32
  anr_addedNodeId :: NodeId

definition getAddedNodeId :: "AddNodesResult \<Rightarrow> NodeId Result outc" where
  "getAddedNodeId r =
     (if isBad (anr_statusCode r) then outc_map Result_bad (mkBadResult (anr_statusCode r))
      else Ret (Result_of (fst (Wrap (ns0 0) (anr_addedNodeId r))) UA_STATUSCODE_GOOD))"

section \<open>Results of the services\<close>

record 'v CallMethodResult =
  cm_statusCode :: u32
  cm_inputArgumentResults :: "u32 list"
  cm_outputArguments :: "'v Variant list"

definition zero_CallMethodResult :: "'v CallMethodResult" where
  "zero_CallMethodResult = \<lparr>cm_statusCode = 0, cm_inputArgumentResults = [], cm_outputArguments = []\<rparr>"

record ReferenceDescription =
  rd_referenceTypeId :: NodeId
  rd_isForward :: bool
  rd_nodeId :: ExpandedNodeId
  rd_browseName :: QualifiedName
  rd_displayName :: LocalizedText
  rd_nodeClass :: u32
  rd_typeDefinition :: ExpandedNodeId

record BrowseResult =
  br_statusCode :: u32
  br_continuationPoint :: native_string
  br_references :: "ReferenceDescription list"

definition zero_BrowseResult :: BrowseResult where
  "zero_BrowseResult = \<lparr>br_statusCode = 0, br_continuationPoint = NullString, br_references = []\<rparr>"

record BrowsePathTarget =
  bpt_targetId :: ExpandedNodeId
  bpt_remainingPathIndex :: u32

record BrowsePathResult =
  bpr_statusCode :: u32
  bpr_targets :: "BrowsePathTarget list"

definition zero_BrowsePathResult :: BrowsePathResult where
  "zero_BrowsePathResult = \<lparr>bpr_statusCode = 0, bpr_targets = []\<rparr>"

section \<open>The C library behind a connection\<close>

text \<open>The direct functions of a server, with the arguments the code passes.\<close>

record ('v, 'w) server_api =
  UA_Server_read :: "ReadValueId \<Rightarrow> TimestampsToReturn \<Rightarrow> 'w \<Rightarrow> 'v DataValue \<times> 'w"
  UA_Server_write :: "'v WriteValue \<Rightarrow> 'w \<Rightarrow> u32 \<times> 'w"
  UA_Server_call :: "'v CallMethodRequest \<Rightarrow> 'w \<Rightarrow> 'v CallMethodResult \<times> 'w"
  UA_Server_browse :: "u32 \<Rightarrow> BrowseDescription \<Rightarrow> 'w \<Rightarrow> BrowseResult \<times> 'w"
  UA_Server_browseNext :: "bool \<Rightarrow> native_string \<Rightarrow> 'w \<Rightarrow> BrowseResult \<times> 'w"
  UA_Server_translate :: "BrowsePath \<Rightarrow> 'w \<Rightarrow> BrowsePathResult \<times> 'w"
  UA_Server_addNode :: "NodeClass \<Rightarrow> NodeId \<Rightarrow> NodeId \<Rightarrow> NodeId \<Rightarrow> QualifiedName \<Rightarrow> NodeId \<Rightarrow> 'v ExtensionObject \<Rightarrow> 'w \<Rightarrow> (u32 \<times> NodeId) \<times> 'w"
  UA_Server_addReference :: "NodeId \<Rightarrow> NodeId \<Rightarrow> ExpandedNodeId \<Rightarrow> bool \<Rightarrow> 'w \<Rightarrow> u32 \<times> 'w"
  UA_Server_deleteNode :: "NodeId \<Rightarrow> bool \<Rightarrow> 'w \<Rightarrow> u32 \<times> 'w"
  UA_Server_deleteReference :: "NodeId \<Rightarrow> NodeId \<Rightarrow> bool \<Rightarrow> ExpandedNodeId \<Rightarrow> bool \<Rightarrow> 'w \<Rightarrow> u32 \<times> 'w"

text \<open>The request functions of a client.\<close>

record ('v, 'w) client_api =
  UA_Client_Service_read :: "ReadRequest \<Rightarrow> 'w \<Rightarrow> 'v DataValue Response \<times> 'w"
  UA_Client_Service_write :: "'v WriteValue list \<Rightarrow> 'w \<Rightarrow> u32 Response \<times> 'w"
  UA_Client_Service_call :: "'v CallMethodRequest list \<Rightarrow> 'w \<Rightarrow> 'v CallMethodResult Response \<times> 'w"
  UA_Client_Service_browse :: "BrowseRequest \<Rightarrow> 'w \<Rightarrow> BrowseResult Response \<times> 'w"
  UA_Client_Service_browseNext :: "BrowseNextRequest \<Rightarrow> 'w \<Rightarrow> BrowseResult Response \<times> 'w"
  UA_Client_Service_translate :: "BrowsePath list \<Rightarrow> 'w \<Rightarrow> BrowsePathResult Response \<times> 'w"
  UA_Client_Service_addNodes :: "'v AddNodesItem list \<Rightarrow> 'w \<Rightarrow> AddNodesResult Response \<times> 'w"
  UA_Client_Service_addReferences :: "AddReferencesItem list \<Rightarrow> 'w \<Rightarrow> u32 Response \<times> 'w"
  UA_Client_Service_deleteNodes :: "DeleteNodesItem list \<Rightarrow> 'w \<Rightarrow> u32 Response \<times> 'w"
  UA_Client_Service_deleteReferences :: "DeleteReferencesItem list \<Rightarrow> 'w \<Rightarrow> u32 Response \<times> 'w"

text \<open>The server gets the decoded attributes and their type, two null pointers when there are none.\<close>

definition decoded_attributes :: "'v ExtensionObject \<Rightarrow> 'v ExtensionObject" where
  "decoded_attributes e = (if eo_isDecoded e then e else EncodedNoBody)"

text \<open>A service call whose response a function evaluates.\<close>

definition with_response :: "('w \<Rightarrow> 'r Response \<times> 'w) \<Rightarrow> ('r Response \<Rightarrow> 'a outc) \<Rightarrow> ('w, 'a) op" where
  "with_response srv f w = (case srv w of (r, w') \<Rightarrow> (f r, w'))"

definition direct :: "('w \<Rightarrow> 'r \<times> 'w) \<Rightarrow> ('r \<Rightarrow> 'a outc) \<Rightarrow> ('w, 'a) op" where
  "direct srv f w = (case srv w of (r, w') \<Rightarrow> (f r, w'))"

section \<open>The service functions\<close>

definition readAttribute_Server ::
  "('v, 'w) server_api \<Rightarrow> NodeId \<Rightarrow> AttributeId \<Rightarrow> TimestampsToReturn \<Rightarrow> ('w, 'v DataValue Result) op" where
  "readAttribute_Server s i a ts =
     direct (UA_Server_read s (makeReadValueId i a) ts) (\<lambda>d. Ret (Result_of d UA_STATUSCODE_GOOD))"

definition readAttribute_Client ::
  "('v, 'w) client_api \<Rightarrow> NodeId \<Rightarrow> AttributeId \<Rightarrow> TimestampsToReturn \<Rightarrow> ('w, 'v DataValue Result) op" where
  "readAttribute_Client c i a ts =
     with_response (UA_Client_Service_read c (makeReadRequest ts (makeReadValueId i a))) (\<lambda>r. fst (wrapSingleResult zero_DataValue r))"

definition writeAttribute_Server :: "('v, 'w) server_api \<Rightarrow> NodeId \<Rightarrow> AttributeId \<Rightarrow> 'v DataValue \<Rightarrow> ('w, u32) op" where
  "writeAttribute_Server s i a v = direct (UA_Server_write s (makeWriteValue i a v)) Ret"

definition writeAttribute_Client :: "('v, 'w) client_api \<Rightarrow> NodeId \<Rightarrow> AttributeId \<Rightarrow> 'v DataValue \<Rightarrow> ('w, u32) op" where
  "writeAttribute_Client c i a v = with_response (UA_Client_Service_write c (makeWriteRequest (makeWriteValue i a v))) getSingleStatus"

definition call_Server :: "('v, 'w) server_api \<Rightarrow> NodeId \<Rightarrow> NodeId \<Rightarrow> 'v Variant list \<Rightarrow> ('w, 'v CallMethodResult) op" where
  "call_Server s objectId methodId args = direct (UA_Server_call s (makeCallMethodRequest objectId methodId args)) Ret"

definition call_Client :: "('v, 'w) client_api \<Rightarrow> NodeId \<Rightarrow> NodeId \<Rightarrow> 'v Variant list \<Rightarrow> ('w, 'v CallMethodResult) op" where
  "call_Client c objectId methodId args =
     with_response (UA_Client_Service_call c (makeCallRequest (makeCallMethodRequest objectId methodId args)))
       (wrapSingleResultWithStatus zero_CallMethodResult (\<lambda>r k. r\<lparr>cm_statusCode := k\<rparr>))"

definition browse_Server :: "('v, 'w) server_api \<Rightarrow> BrowseDescription \<Rightarrow> u32 \<Rightarrow> ('w, BrowseResult) op" where
  "browse_Server s bd n = direct (UA_Server_browse s n bd) Ret"

definition wrap_browse :: "BrowseResult Response \<Rightarrow> BrowseResult outc" where
  "wrap_browse = wrapSingleResultWithStatus zero_BrowseResult (\<lambda>r k. r\<lparr>br_statusCode := k\<rparr>)"

definition browse_Client :: "('v, 'w) client_api \<Rightarrow> BrowseDescription \<Rightarrow> u32 \<Rightarrow> ('w, BrowseResult) op" where
  "browse_Client c bd n = with_response (UA_Client_Service_browse c (makeBrowseRequest bd n)) wrap_browse"

definition browseNext_Server :: "('v, 'w) server_api \<Rightarrow> bool \<Rightarrow> native_string \<Rightarrow> ('w, BrowseResult) op" where
  "browseNext_Server s rel cp = direct (UA_Server_browseNext s rel cp) Ret"

definition browseNext_Client :: "('v, 'w) client_api \<Rightarrow> bool \<Rightarrow> native_string \<Rightarrow> ('w, BrowseResult) op" where
  "browseNext_Client c rel cp = with_response (UA_Client_Service_browseNext c (makeBrowseNextRequest rel cp)) wrap_browse"

definition translate_Server :: "('v, 'w) server_api \<Rightarrow> BrowsePath \<Rightarrow> ('w, BrowsePathResult) op" where
  "translate_Server s p = direct (UA_Server_translate s p) Ret"

definition translate_Client :: "('v, 'w) client_api \<Rightarrow> BrowsePath \<Rightarrow> ('w, BrowsePathResult) op" where
  "translate_Client c p =
     with_response (UA_Client_Service_translate c (makeTranslateBrowsePathsToNodeIdsRequest p))
       (wrapSingleResultWithStatus zero_BrowsePathResult (\<lambda>r k. r\<lparr>bpr_statusCode := k\<rparr>))"

definition addNode_Server ::
  "('v, 'w) server_api \<Rightarrow> NodeClass \<Rightarrow> NodeId \<Rightarrow> NodeId \<Rightarrow> string option \<Rightarrow> 'v ExtensionObject \<Rightarrow> NodeId \<Rightarrow> NodeId \<Rightarrow> ('w, NodeId Result) op" where
  "addNode_Server s cls parentId i browseName attrs typeDefinition referenceType =
     direct (UA_Server_addNode s cls i parentId referenceType
         \<lparr>qn_namespaceIndex = namespaceIndex i, qn_name = toNativeString browseName\<rparr> typeDefinition (decoded_attributes attrs))
       (\<lambda>(status, added). if isBad status then outc_map Result_bad (mkBadResult status) else Ret (Result_of added UA_STATUSCODE_GOOD))"

definition addNode_Client ::
  "('v, 'w) client_api \<Rightarrow> NodeClass \<Rightarrow> NodeId \<Rightarrow> NodeId \<Rightarrow> string option \<Rightarrow> 'v ExtensionObject \<Rightarrow> NodeId \<Rightarrow> NodeId \<Rightarrow> ('w, NodeId Result) op" where
  "addNode_Client c cls parentId i browseName attrs typeDefinition referenceType =
     with_response (UA_Client_Service_addNodes c
         (makeAddNodesRequest (makeAddNodesItem parentId referenceType i browseName cls attrs typeDefinition)))
       (\<lambda>r. outc_bind (getSingleResultRef r) (\<lambda>s. andThen s getAddedNodeId))"

definition addReference_Server :: "('v, 'w) server_api \<Rightarrow> NodeId \<Rightarrow> NodeId \<Rightarrow> NodeId \<Rightarrow> bool \<Rightarrow> ('w, u32) op" where
  "addReference_Server s sourceId targetId referenceType forward =
     direct (UA_Server_addReference s sourceId referenceType (ExpandedNodeId_of targetId) forward) Ret"

definition addReference_Client :: "('v, 'w) client_api \<Rightarrow> NodeId \<Rightarrow> NodeId \<Rightarrow> NodeId \<Rightarrow> bool \<Rightarrow> ('w, u32) op" where
  "addReference_Client c sourceId targetId referenceType forward =
     with_response (UA_Client_Service_addReferences c
       (makeAddReferencesRequest (makeAddReferencesItem sourceId referenceType forward targetId))) getSingleStatus"

definition deleteNode_Server :: "('v, 'w) server_api \<Rightarrow> NodeId \<Rightarrow> bool \<Rightarrow> ('w, u32) op" where
  "deleteNode_Server s i deleteReferences = direct (UA_Server_deleteNode s i deleteReferences) Ret"

definition deleteNode_Client :: "('v, 'w) client_api \<Rightarrow> NodeId \<Rightarrow> bool \<Rightarrow> ('w, u32) op" where
  "deleteNode_Client c i deleteReferences =
     with_response (UA_Client_Service_deleteNodes c (makeDeleteNodesRequest (makeDeleteNodesItem i deleteReferences))) getSingleStatus"

definition deleteReference_Server ::
  "('v, 'w) server_api \<Rightarrow> NodeId \<Rightarrow> NodeId \<Rightarrow> NodeId \<Rightarrow> bool \<Rightarrow> bool \<Rightarrow> ('w, u32) op" where
  "deleteReference_Server s sourceId targetId referenceType isForward deleteBidirectional =
     direct (UA_Server_deleteReference s sourceId referenceType isForward (ExpandedNodeId_of targetId) deleteBidirectional) Ret"

definition deleteReference_Client ::
  "('v, 'w) client_api \<Rightarrow> NodeId \<Rightarrow> NodeId \<Rightarrow> NodeId \<Rightarrow> bool \<Rightarrow> bool \<Rightarrow> ('w, u32) op" where
  "deleteReference_Client c sourceId targetId referenceType isForward deleteBidirectional =
     with_response (UA_Client_Service_deleteReferences c (makeDeleteReferencesRequest
       (makeDeleteReferencesItem sourceId referenceType isForward targetId deleteBidirectional))) getSingleStatus"

section \<open>Collecting all references\<close>

text \<open>\<open>browseAll\<close> over the connection's \<open>browse\<close> and \<open>browseNext\<close>; \<open>None\<close> is a loop that does not end. References are moved
  out of each result and appended.\<close>

partial_function (option) browse_loop ::
  "(native_string \<Rightarrow> ('w, BrowseResult) op) \<Rightarrow> ReferenceDescription list \<Rightarrow> BrowseResult \<Rightarrow> 'w \<Rightarrow>
    (ReferenceDescription list Result outc \<times> 'w) option" where
  "browse_loop nxt refs r w =
     (if str_empty (br_continuationPoint r) then Some (Ret (Result_of refs (br_statusCode r)), w)
      else (case nxt (br_continuationPoint r) w of
          (Inl e, w') \<Rightarrow> Some (Inl e, w')
        | (Inr r', w') \<Rightarrow> browse_loop nxt (refs @ br_references r') r' w'))"

definition browseAll ::
  "('w, BrowseResult) op \<Rightarrow> (native_string \<Rightarrow> ('w, BrowseResult) op) \<Rightarrow> 'w \<Rightarrow>
    (ReferenceDescription list Result outc \<times> 'w) option" where
  "browseAll first nxt w = (case first w of
      (Inl e, w') \<Rightarrow> Some (Inl e, w')
    | (Inr r, w') \<Rightarrow> browse_loop nxt (br_references r) r w')"

definition browseAll_Server :: "('v, 'w) server_api \<Rightarrow> BrowseDescription \<Rightarrow> 'w \<Rightarrow> (ReferenceDescription list Result outc \<times> 'w) option" where
  "browseAll_Server s bd = browseAll (browse_Server s bd 0) (browseNext_Server s False)"

definition browseAll_Client :: "('v, 'w) client_api \<Rightarrow> BrowseDescription \<Rightarrow> 'w \<Rightarrow> (ReferenceDescription list Result outc \<times> 'w) option" where
  "browseAll_Client c bd = browseAll (browse_Client c bd 0) (browseNext_Client c False)"

definition browseSimplifiedBrowsePath :: "(BrowsePath \<Rightarrow> ('w, BrowsePathResult) op) \<Rightarrow> NodeId \<Rightarrow> QualifiedName list \<Rightarrow> ('w, BrowsePathResult) op" where
  "browseSimplifiedBrowsePath translate origin path = translate (makeBrowsePath origin path)"

section \<open>Evaluating responses\<close>

text \<open>A response is broken, with a code, when the service failed or did not return exactly one result.\<close>

definition broken :: "'r Response \<Rightarrow> u32 \<Rightarrow> bool" where
  "broken r k = (if isBad (serviceResult r) then k = serviceResult r
     else (results r = None \<or> resultsSize r \<noteq> 1) \<and> k = UA_STATUSCODE_BADUNEXPECTEDERROR)"

definition answer :: "'r \<Rightarrow> 'r Response" where
  "answer x = \<lparr>serviceResult = UA_STATUSCODE_GOOD, results = Some [x], resultsSize = 1\<rparr>"

lemma broken_isBad: "broken r k \<Longrightarrow> isBad k"
  by (auto simp: broken_def split: if_splits)

lemma single_broken: "broken r k \<Longrightarrow> getSingleResultRef r = Ret (Result_bad \<lparr>br_code = k\<rparr>)"
  by (auto simp: broken_def getSingleResultRef_def getServiceResult_def mkBadResult_def split: if_splits)

lemma single_answer: "getSingleResultRef (answer x) = Ret (Result_of x UA_STATUSCODE_GOOD)"
  by (simp add: getSingleResultRef_def getServiceResult_def answer_def)

lemmas eval_defs = getSingleStatus_def wrapSingleResult_def wrapSingleResultWithStatus_def Wrap_def transform_def andThen_def
  orElse_def hasValue_def deref_def mkBadResult_def Result_of_def Result_bad_def

lemma eval_answer [simp]:
  "getSingleStatus (answer c) = Ret c"
  "fst (wrapSingleResult z (answer x)) = Ret (Result_of x UA_STATUSCODE_GOOD)"
  "wrapSingleResultWithStatus z f (answer x) = Ret x"
  by (simp_all add: eval_defs single_answer)

lemma eval_broken:
  assumes "broken r k"
  shows "fst (wrapSingleResult z r) = Ret (Result_bad \<lparr>br_code = k\<rparr>)" "wrapSingleResultWithStatus z f r = Ret (f z k)"
  using single_broken[OF assms] broken_isBad[OF assms] by (simp_all add: eval_defs)

lemma status_broken: "broken r k \<Longrightarrow> getSingleStatus r = Ret k"
  using single_broken[of r k] by (simp add: eval_defs)

text \<open>A response that is neither broken nor has a single element does not arise: the array has as many elements as its size says.\<close>

definition wf_response :: "'r Response \<Rightarrow> bool" where
  "wf_response r = (case results r of None \<Rightarrow> True | Some xs \<Rightarrow> length xs = resultsSize r)"

lemma response_cases: "wf_response r \<Longrightarrow> (\<exists>k. broken r k) \<or> (\<exists>x. results r = Some [x] \<and> getSingleResultRef r = Ret (Result_of x UA_STATUSCODE_GOOD))"
  by (auto simp: wf_response_def broken_def getSingleResultRef_def getServiceResult_def length_Suc_conv split: option.splits)

text \<open>What a moved-out result leaves behind.\<close>

lemma wrapped_is_emptied: "snd (wrapSingleResult z (answer x)) = (answer x)\<lparr>results := Some [z]\<rparr>"
  unfolding wrapSingleResult_def single_answer by (simp add: hasValue_def Result_of_def answer_def Wrap_def)

section \<open>Clients and servers\<close>

text \<open>A client that is connected to a server: a request with one operation is answered by a good service result and
  the result the server's function gives. A client whose requests all fail, with one code.\<close>

definition answers :: "('w \<Rightarrow> 'r Response \<times> 'w) \<Rightarrow> ('w \<Rightarrow> 'r \<times> 'w) \<Rightarrow> bool" where
  "answers cl sv = (\<forall>w. cl w = (answer (fst (sv w)), snd (sv w)))"

definition serve_addNode :: "('v, 'w) server_api \<Rightarrow> 'v AddNodesItem \<Rightarrow> 'w \<Rightarrow> AddNodesResult \<times> 'w" where
  "serve_addNode s item w = (case UA_Server_addNode s (ani_nodeClass item) (ex_nodeId (ani_requestedNewNodeId item))
       (ex_nodeId (ani_parentNodeId item)) (ani_referenceTypeId item) (ani_browseName item) (ex_nodeId (ani_typeDefinition item))
       (decoded_attributes (ani_nodeAttributes item)) w of
     ((status, added), w') \<Rightarrow> (\<lparr>anr_statusCode = status, anr_addedNodeId = added\<rparr>, w'))"

definition connected :: "('v, 'w) client_api \<Rightarrow> ('v, 'w) server_api \<Rightarrow> bool" where
  "connected c s = ((\<forall>ts x. answers (UA_Client_Service_read c \<lparr>rr_timestampsToReturn = ts, rr_nodesToRead = [x]\<rparr>) (UA_Server_read s x ts))
     \<and> (\<forall>x. answers (UA_Client_Service_write c [x]) (UA_Server_write s x))
     \<and> (\<forall>x. answers (UA_Client_Service_call c [x]) (UA_Server_call s x))
     \<and> (\<forall>n x. answers (UA_Client_Service_browse c \<lparr>brr_requestedMaxReferencesPerNode = n, brr_nodesToBrowse = [x]\<rparr>) (UA_Server_browse s n x))
     \<and> (\<forall>b x. answers (UA_Client_Service_browseNext c \<lparr>bnr_releaseContinuationPoints = b, bnr_continuationPoints = [x]\<rparr>) (UA_Server_browseNext s b x))
     \<and> (\<forall>x. answers (UA_Client_Service_translate c [x]) (UA_Server_translate s x))
     \<and> (\<forall>x. answers (UA_Client_Service_addNodes c [x]) (serve_addNode s x))
     \<and> (\<forall>x. answers (UA_Client_Service_addReferences c [x])
         (UA_Server_addReference s (ari_sourceNodeId x) (ari_referenceTypeId x) (ari_targetNodeId x) (ari_isForward x)))
     \<and> (\<forall>x. answers (UA_Client_Service_deleteNodes c [x]) (UA_Server_deleteNode s (dni_nodeId x) (dni_deleteTargetReferences x)))
     \<and> (\<forall>x. answers (UA_Client_Service_deleteReferences c [x]) (UA_Server_deleteReference s (dri_sourceNodeId x)
         (dri_referenceTypeId x) (dri_isForward x) (dri_targetNodeId x) (dri_deleteBidirectional x))))"

definition down :: "('v, 'w) client_api \<Rightarrow> u32 \<Rightarrow> bool" where
  "down c k = ((\<forall>q w. broken (fst (UA_Client_Service_read c q w)) k) \<and> (\<forall>q w. broken (fst (UA_Client_Service_write c q w)) k)
     \<and> (\<forall>q w. broken (fst (UA_Client_Service_call c q w)) k) \<and> (\<forall>q w. broken (fst (UA_Client_Service_browse c q w)) k)
     \<and> (\<forall>q w. broken (fst (UA_Client_Service_browseNext c q w)) k) \<and> (\<forall>q w. broken (fst (UA_Client_Service_translate c q w)) k)
     \<and> (\<forall>q w. broken (fst (UA_Client_Service_addNodes c q w)) k) \<and> (\<forall>q w. broken (fst (UA_Client_Service_addReferences c q w)) k)
     \<and> (\<forall>q w. broken (fst (UA_Client_Service_deleteNodes c q w)) k) \<and> (\<forall>q w. broken (fst (UA_Client_Service_deleteReferences c q w)) k))"

lemma with_answers: "answers cl sv \<Longrightarrow> with_response cl f w = (f (answer (fst (sv w))), snd (sv w))"
  by (simp add: answers_def with_response_def)

lemma with_broken: "broken (fst (cl w)) k \<Longrightarrow> fst (with_response cl f w) = f (fst (cl w))"
  by (simp add: with_response_def split: prod.splits)

lemma down_simps:
  assumes "down c k"
  shows "broken (fst (UA_Client_Service_read c q1 w)) k" "broken (fst (UA_Client_Service_write c q2 w)) k"
    "broken (fst (UA_Client_Service_call c q3 w)) k" "broken (fst (UA_Client_Service_browse c q4 w)) k"
    "broken (fst (UA_Client_Service_browseNext c q5 w)) k" "broken (fst (UA_Client_Service_translate c q6 w)) k"
    "broken (fst (UA_Client_Service_addNodes c q7 w)) k" "broken (fst (UA_Client_Service_addReferences c q8 w)) k"
    "broken (fst (UA_Client_Service_deleteNodes c q9 w)) k" "broken (fst (UA_Client_Service_deleteReferences c q10 w)) k"
    "isBad k"
proof -
  show b: "broken (fst (UA_Client_Service_read c q1 w)) k" for q1 w using assms by (simp add: down_def)
  show "isBad k" by (rule broken_isBad[OF b])
qed (use assms in \<open>simp_all add: down_def\<close>)

lemma answers_item:
  "getSingleResultRef (answer x) = Ret (Result_of x UA_STATUSCODE_GOOD)" "andThen (Result_of x k) f = f x"
  by (simp_all add: single_answer andThen_def hasValue_def deref_def Result_of_def)

lemmas service_defs =
  readAttribute_Server_def readAttribute_Client_def writeAttribute_Server_def writeAttribute_Client_def call_Server_def
  call_Client_def browse_Server_def browse_Client_def wrap_browse_def browseNext_Server_def browseNext_Client_def
  translate_Server_def translate_Client_def addNode_Server_def addNode_Client_def addReference_Server_def
  addReference_Client_def deleteNode_Server_def deleteNode_Client_def deleteReference_Server_def deleteReference_Client_def

lemma connected_simps:
  assumes "connected c s"
  shows "answers (UA_Client_Service_read c \<lparr>rr_timestampsToReturn = ts, rr_nodesToRead = [i]\<rparr>) (UA_Server_read s i ts)"
    "answers (UA_Client_Service_write c [v]) (UA_Server_write s v)"
    "answers (UA_Client_Service_call c [q]) (UA_Server_call s q)"
    "answers (UA_Client_Service_browse c \<lparr>brr_requestedMaxReferencesPerNode = n, brr_nodesToBrowse = [bd]\<rparr>) (UA_Server_browse s n bd)"
    "answers (UA_Client_Service_browseNext c \<lparr>bnr_releaseContinuationPoints = b, bnr_continuationPoints = [cp]\<rparr>) (UA_Server_browseNext s b cp)"
    "answers (UA_Client_Service_translate c [p]) (UA_Server_translate s p)"
    "answers (UA_Client_Service_addNodes c [an]) (serve_addNode s an)"
    "answers (UA_Client_Service_addReferences c [ar])
       (UA_Server_addReference s (ari_sourceNodeId ar) (ari_referenceTypeId ar) (ari_targetNodeId ar) (ari_isForward ar))"
    "answers (UA_Client_Service_deleteNodes c [dn]) (UA_Server_deleteNode s (dni_nodeId dn) (dni_deleteTargetReferences dn))"
    "answers (UA_Client_Service_deleteReferences c [dr]) (UA_Server_deleteReference s (dri_sourceNodeId dr)
       (dri_referenceTypeId dr) (dri_isForward dr) (dri_targetNodeId dr) (dri_deleteBidirectional dr))"
  using assms by (simp_all add: connected_def)

lemma direct_agrees:
  assumes "answers cl sv" "\<And>x. f (answer x) = g x"
  shows "with_response cl f = direct sv g"
  using assms by (simp add: fun_eq_iff with_answers direct_def split: prod.splits)

lemma views_agree:
  assumes "connected c s"
  shows "browse_Client c = browse_Server s" "browseNext_Client c = browseNext_Server s"
  by (intro ext, simp add: service_defs request_defs direct_agrees[OF connected_simps(4)[OF assms]]
      direct_agrees[OF connected_simps(5)[OF assms]])+

lemma addNode_agrees:
  assumes "connected c s"
  shows "addNode_Client c cls p i nm at td rt = addNode_Server s cls p i nm at td rt"
proof (rule ext)
  fix w
  show "addNode_Client c cls p i nm at td rt w = addNode_Server s cls p i nm at td rt w"
    by (simp add: addNode_Client_def addNode_Server_def request_defs with_answers[OF connected_simps(7)[OF assms]]
        answers_item serve_addNode_def ExpandedNodeId_of_def direct_def getAddedNodeId_def Wrap_def split: prod.splits)
qed

lemma connected_agree:
  assumes "connected c s"
  shows "readAttribute_Client c = readAttribute_Server s" "writeAttribute_Client c = writeAttribute_Server s"
    "call_Client c = call_Server s" "browse_Client c = browse_Server s" "browseNext_Client c = browseNext_Server s"
    "translate_Client c = translate_Server s" "addReference_Client c = addReference_Server s"
    "deleteNode_Client c = deleteNode_Server s" "deleteReference_Client c = deleteReference_Server s"
    "addNode_Client c = addNode_Server s"
proof -
  note up = connected_simps[OF assms(1)]
  show "readAttribute_Client c = readAttribute_Server s" "writeAttribute_Client c = writeAttribute_Server s"
    "call_Client c = call_Server s" "browse_Client c = browse_Server s" "browseNext_Client c = browseNext_Server s"
    "translate_Client c = translate_Server s" "addReference_Client c = addReference_Server s"
    "deleteNode_Client c = deleteNode_Server s" "deleteReference_Client c = deleteReference_Server s"
    by (intro ext fun_cong[OF direct_agrees]; simp add: service_defs request_defs direct_agrees[OF up(1)] direct_agrees[OF up(2)]
        direct_agrees[OF up(3)] direct_agrees[OF up(4)] direct_agrees[OF up(5)] direct_agrees[OF up(6)] direct_agrees[OF up(8)]
        direct_agrees[OF up(9)] direct_agrees[OF up(10)])+
  show "addNode_Client c = addNode_Server s"
    by (intro ext fun_cong[OF addNode_agrees[OF assms(1)]])
qed

lemma down_results:
  assumes "down d k"
  shows "fst (readAttribute_Client d i a ts w) = Ret (Result_bad \<lparr>br_code = k\<rparr>)"
    "fst (call_Client d i p args w) = Ret (zero_CallMethodResult\<lparr>cm_statusCode := k\<rparr>)"
    "fst (browse_Client d bd n w) = Ret (zero_BrowseResult\<lparr>br_statusCode := k\<rparr>)"
    "fst (browseNext_Client d b cp w) = Ret (zero_BrowseResult\<lparr>br_statusCode := k\<rparr>)"
    "fst (translate_Client d path w) = Ret (zero_BrowsePathResult\<lparr>bpr_statusCode := k\<rparr>)"
    "fst (writeAttribute_Client d i a v w) = Ret k" "fst (addReference_Client d i p rt b w) = Ret k"
    "fst (deleteNode_Client d i b w) = Ret k" "fst (deleteReference_Client d i p rt b b' w) = Ret k"
    "fst (addNode_Client d cls p i nm at td rt w) = Ret (Result_bad \<lparr>br_code = k\<rparr>)" "isBad k"
proof -
  note down = down_simps[OF assms]
  show "fst (readAttribute_Client d i a ts w) = Ret (Result_bad \<lparr>br_code = k\<rparr>)"
    "fst (call_Client d i p args w) = Ret (zero_CallMethodResult\<lparr>cm_statusCode := k\<rparr>)"
    "fst (browse_Client d bd n w) = Ret (zero_BrowseResult\<lparr>br_statusCode := k\<rparr>)"
    "fst (browseNext_Client d b cp w) = Ret (zero_BrowseResult\<lparr>br_statusCode := k\<rparr>)"
    "fst (translate_Client d path w) = Ret (zero_BrowsePathResult\<lparr>bpr_statusCode := k\<rparr>)"
    unfolding service_defs by (simp_all add: with_broken[where k = k, OF down(1)] with_broken[where k = k, OF down(3)]
        with_broken[where k = k, OF down(4)] with_broken[where k = k, OF down(5)] with_broken[where k = k, OF down(6)]
        eval_broken[OF down(1)] eval_broken[OF down(3)] eval_broken[OF down(4)] eval_broken[OF down(5)] eval_broken[OF down(6)])
  show "fst (writeAttribute_Client d i a v w) = Ret k" "fst (addReference_Client d i p rt b w) = Ret k"
    "fst (deleteNode_Client d i b w) = Ret k" "fst (deleteReference_Client d i p rt b b' w) = Ret k"
    unfolding service_defs by (simp_all add: with_broken[where k = k, OF down(2)] with_broken[where k = k, OF down(8)]
        with_broken[where k = k, OF down(9)] with_broken[where k = k, OF down(10)] status_broken[OF down(2)]
        status_broken[OF down(8)] status_broken[OF down(9)] status_broken[OF down(10)])
  show "fst (addNode_Client d cls p i nm at td rt w) = Ret (Result_bad \<lparr>br_code = k\<rparr>)"
    unfolding service_defs by (simp add: with_broken[where k = k, OF down(7)] single_broken[OF down(7)] andThen_def hasValue_def
        Result_bad_def mkBadResult_def down(11))
  show "isBad k" by (rule down(11))
qed

text \<open>C12. The overloads for servers and clients agree: over a connected client every service function gives the result,
  and changes the world, as the same function on the server does, for every argument and on success as on failure of
  the operation; when the client's requests fail, or are not answered by exactly one result, each function reports
  that code the way its return type allows.\<close>

theorem services_agree:
  assumes "connected c s" "down d k"
  shows "(readAttribute_Client c = readAttribute_Server s \<and> writeAttribute_Client c = writeAttribute_Server s
      \<and> call_Client c = call_Server s \<and> browse_Client c = browse_Server s \<and> browseNext_Client c = browseNext_Server s
      \<and> translate_Client c = translate_Server s \<and> addNode_Client c = addNode_Server s
      \<and> addReference_Client c = addReference_Server s \<and> deleteNode_Client c = deleteNode_Server s
      \<and> deleteReference_Client c = deleteReference_Server s)
    \<and> fst (readAttribute_Client d i a ts w) = Ret (Result_bad \<lparr>br_code = k\<rparr>)
    \<and> fst (addNode_Client d cls p i nm at td rt w) = Ret (Result_bad \<lparr>br_code = k\<rparr>)
    \<and> fst (writeAttribute_Client d i a v w) = Ret k \<and> fst (addReference_Client d i p rt b w) = Ret k
    \<and> fst (deleteNode_Client d i b w) = Ret k \<and> fst (deleteReference_Client d i p rt b b' w) = Ret k
    \<and> fst (call_Client d i p args w) = Ret (zero_CallMethodResult\<lparr>cm_statusCode := k\<rparr>)
    \<and> fst (browse_Client d bd n w) = Ret (zero_BrowseResult\<lparr>br_statusCode := k\<rparr>)
    \<and> fst (browseNext_Client d b cp w) = Ret (zero_BrowseResult\<lparr>br_statusCode := k\<rparr>)
    \<and> fst (translate_Client d path w) = Ret (zero_BrowsePathResult\<lparr>bpr_statusCode := k\<rparr>)"
  by (intro conjI) (simp_all only: connected_agree[OF assms(1)] down_results[OF assms(2)])

text \<open>A client that passes single operations to a server, and one whose connection is closed.\<close>

definition single :: "('q \<Rightarrow> 'w \<Rightarrow> 'r \<times> 'w) \<Rightarrow> 'q list \<Rightarrow> 'w \<Rightarrow> 'r Response \<times> 'w" where
  "single f q w = (case q of [x] \<Rightarrow> (answer (fst (f x w)), snd (f x w))
     | _ \<Rightarrow> (\<lparr>serviceResult = UA_STATUSCODE_BADINTERNALERROR, results = None, resultsSize = 0\<rparr>, w))"

definition client_of :: "('v, 'w) server_api \<Rightarrow> ('v, 'w) client_api" where
  "client_of s = \<lparr>UA_Client_Service_read = (\<lambda>q. single (\<lambda>x. UA_Server_read s x (rr_timestampsToReturn q)) (rr_nodesToRead q)),
     UA_Client_Service_write = single (UA_Server_write s), UA_Client_Service_call = single (UA_Server_call s),
     UA_Client_Service_browse = (\<lambda>q. single (UA_Server_browse s (brr_requestedMaxReferencesPerNode q)) (brr_nodesToBrowse q)),
     UA_Client_Service_browseNext = (\<lambda>q. single (UA_Server_browseNext s (bnr_releaseContinuationPoints q)) (bnr_continuationPoints q)),
     UA_Client_Service_translate = single (UA_Server_translate s), UA_Client_Service_addNodes = single (serve_addNode s),
     UA_Client_Service_addReferences = single (\<lambda>x. UA_Server_addReference s (ari_sourceNodeId x) (ari_referenceTypeId x)
         (ari_targetNodeId x) (ari_isForward x)),
     UA_Client_Service_deleteNodes = single (\<lambda>x. UA_Server_deleteNode s (dni_nodeId x) (dni_deleteTargetReferences x)),
     UA_Client_Service_deleteReferences = single (\<lambda>x. UA_Server_deleteReference s (dri_sourceNodeId x)
         (dri_referenceTypeId x) (dri_isForward x) (dri_targetNodeId x) (dri_deleteBidirectional x))\<rparr>"

definition closed :: "u32 \<Rightarrow> 'r Response" where
  "closed k = \<lparr>serviceResult = k, results = None, resultsSize = 0\<rparr>"

definition closed_client :: "u32 \<Rightarrow> ('v, 'w) client_api" where
  "closed_client k = \<lparr>UA_Client_Service_read = (\<lambda>_. Pair (closed k)), UA_Client_Service_write = (\<lambda>_. Pair (closed k)),
     UA_Client_Service_call = (\<lambda>_. Pair (closed k)), UA_Client_Service_browse = (\<lambda>_. Pair (closed k)),
     UA_Client_Service_browseNext = (\<lambda>_. Pair (closed k)), UA_Client_Service_translate = (\<lambda>_. Pair (closed k)),
     UA_Client_Service_addNodes = (\<lambda>_. Pair (closed k)), UA_Client_Service_addReferences = (\<lambda>_. Pair (closed k)),
     UA_Client_Service_deleteNodes = (\<lambda>_. Pair (closed k)), UA_Client_Service_deleteReferences = (\<lambda>_. Pair (closed k))\<rparr>"

lemma connected_client_of: "connected (client_of s) s"
  by (simp add: connected_def answers_def client_of_def single_def)

lemma down_closed: "isBad k \<Longrightarrow> down (closed_client k) k"
  by (simp add: down_def closed_client_def closed_def broken_def)

text \<open>A server that counts the operations and refuses to write.\<close>

definition counting_server :: "('v, nat) server_api" where
  "counting_server = \<lparr>UA_Server_read = (\<lambda>_ _ n. (zero_DataValue, n + 1)),
     UA_Server_write = (\<lambda>_ n. (UA_STATUSCODE_BADNODEIDUNKNOWN, n + 1)), UA_Server_call = (\<lambda>_ n. (zero_CallMethodResult, n + 1)),
     UA_Server_browse = (\<lambda>_ _ n. (zero_BrowseResult, n + 1)), UA_Server_browseNext = (\<lambda>_ _ n. (zero_BrowseResult, n + 1)),
     UA_Server_translate = (\<lambda>_ n. (zero_BrowsePathResult, n + 1)), UA_Server_addNode = (\<lambda>_ i _ _ _ _ _ n. ((UA_STATUSCODE_GOOD, i), n + 1)),
     UA_Server_addReference = (\<lambda>_ _ _ _ n. (UA_STATUSCODE_GOOD, n + 1)), UA_Server_deleteNode = (\<lambda>_ _ n. (UA_STATUSCODE_GOOD, n + 1)),
     UA_Server_deleteReference = (\<lambda>_ _ _ _ _ n. (UA_STATUSCODE_GOOD, n + 1))\<rparr>"

theorem services_agree_witness:
  "writeAttribute_Client (client_of counting_server) (ns0 85) AttrValue (zero_DataValue :: nat DataValue) 3
     = (Ret UA_STATUSCODE_BADNODEIDUNKNOWN, 4)
   \<and> fst (readAttribute_Client (closed_client UA_STATUSCODE_BADDISCONNECT :: (nat, nat) client_api) (ns0 85) AttrValue TsBoth 3)
     = Ret (Result_bad \<lparr>br_code = UA_STATUSCODE_BADDISCONNECT\<rparr>)"
proof -
  note agree = services_agree[OF connected_client_of[of "counting_server :: (nat, nat) server_api"]
      down_closed[of UA_STATUSCODE_BADDISCONNECT, OF isBad_codes(11)]]
  have "writeAttribute_Client (client_of counting_server) = writeAttribute_Server (counting_server :: (nat, nat) server_api)"
    by (rule agree[THEN conjunct1, THEN conjunct2, THEN conjunct1])
  moreover have "fst (readAttribute_Client (closed_client UA_STATUSCODE_BADDISCONNECT :: (nat, nat) client_api) (ns0 85) AttrValue TsBoth 3)
     = Ret (Result_bad \<lparr>br_code = UA_STATUSCODE_BADDISCONNECT\<rparr>)"
    by (rule agree[THEN conjunct2, THEN conjunct1])
  ultimately show ?thesis by (simp add: writeAttribute_Server_def direct_def counting_server_def)
qed

section \<open>Browsing to the end\<close>

text \<open>A server's continuation points: \<open>rest\<close> gives the references a continuation point still stands for; each page delivers
  some of them, and a page without references is the last one.\<close>

definition pages :: "(native_string \<Rightarrow> ('w, BrowseResult) op) \<Rightarrow> ('w \<Rightarrow> native_string \<Rightarrow> ReferenceDescription list) \<Rightarrow> bool" where
  "pages nxt rest = (\<forall>cp w. \<not> str_empty cp \<longrightarrow> (\<exists>r w'. nxt cp w = (Ret r, w')
     \<and> (if str_empty (br_continuationPoint r) then rest w cp = br_references r
        else br_references r \<noteq> [] \<and> rest w cp = br_references r @ rest w' (br_continuationPoint r))))"

lemma browse_loop_pages:
  assumes "pages nxt rest"
  shows "\<exists>k w'. browse_loop nxt refs r w
    = Some (Ret (Result_of (refs @ (if str_empty (br_continuationPoint r) then [] else rest w (br_continuationPoint r))) k), w')"
proof (induction "List.length (rest w (br_continuationPoint r))" arbitrary: refs r w rule: less_induct)
  case less
  show ?case
  proof (cases "str_empty (br_continuationPoint r)")
    case True
    then show ?thesis by (subst browse_loop.simps) (simp, blast)
  next
    case False
    then obtain r' w' where n: "nxt (br_continuationPoint r) w = (Ret r', w')" and
      p: "if str_empty (br_continuationPoint r') then rest w (br_continuationPoint r) = br_references r'
        else br_references r' \<noteq> [] \<and> rest w (br_continuationPoint r) = br_references r' @ rest w' (br_continuationPoint r')"
      using assms unfolding pages_def by blast
    have step: "browse_loop nxt refs r w = browse_loop nxt (refs @ br_references r') r' w'"
      using False n by (subst browse_loop.simps) simp
    show ?thesis
    proof (cases "str_empty (br_continuationPoint r')")
      case True
      then show ?thesis using p False unfolding step by (subst browse_loop.simps) (simp, blast)
    next
      case more: False
      then show ?thesis using less[of w' r' "refs @ br_references r'"] p False unfolding step by simp
    qed
  qed
qed

lemma browse_loop_endless:
  assumes "\<And>cp w. \<exists>r w'. nxt cp w = (Ret r, w') \<and> \<not> str_empty (br_continuationPoint r)" "\<not> str_empty (br_continuationPoint r)"
  shows "browse_loop nxt refs r w = None"
proof -
  have "str_empty (br_continuationPoint r)" if eq: "browse_loop nxt refs r w = Some y" for y
  proof -
    have "nxt = nxt \<longrightarrow> str_empty (br_continuationPoint r)"
    proof (rule browse_loop.raw_induct[of "\<lambda>n _ r _ _. n = nxt \<longrightarrow> str_empty (br_continuationPoint r)", OF _ eq], rule impI)
      fix loop n refs r w y
      assume ih: "\<And>n refs r w y. loop n refs r w = Some y \<Longrightarrow> n = nxt \<longrightarrow> str_empty (br_continuationPoint r)"
        and body: "(if str_empty (br_continuationPoint r) then Some (Ret (Result_of refs (br_statusCode r)), w)
          else case n (br_continuationPoint r) w of (Inl e, w') \<Rightarrow> Some (Inl e, w')
            | (Inr r', w') \<Rightarrow> loop n (refs @ br_references r') r' w') = Some y" and "n = nxt"
      obtain r' w' where n: "nxt (br_continuationPoint r) w = (Ret r', w')" "\<not> str_empty (br_continuationPoint r')"
        using assms(1) by blast
      show "str_empty (br_continuationPoint r)"
      proof (rule ccontr)
        assume "\<not> str_empty (br_continuationPoint r)"
        then have "loop nxt (refs @ br_references r') r' w' = Some y" using body n(1) \<open>n = nxt\<close> by simp
        from ih[OF this] n(2) show False by simp
      qed
    qed
    then show ?thesis by simp
  qed
  then show ?thesis using assms(2) by (cases "browse_loop nxt refs r w") auto
qed

text \<open>C22. \<open>browseAll\<close> ends and returns every reference in the order of the pages, whatever the sizes of the pages, if each
  page but the last delivers a reference; a bad code of the last page comes with the references collected so far, which
  \<open>value()\<close> then hides. Over a connected client it does the same as on the server. It does not end on a server that
  always hands out another continuation point.\<close>

theorem browseAll_terminates:
  assumes "connected c s" "pages (browseNext_Server s False) rest" "UA_Server_browse s 0 bd w = (r, w')"
    and "\<And>b cp w. \<not> str_empty (br_continuationPoint (fst (UA_Server_browseNext e b cp w)))"
    and "\<And>n w. \<not> str_empty (br_continuationPoint (fst (UA_Server_browse e n bd w)))"
  shows "(\<exists>k w''. browseAll_Server s bd w = Some (Ret (Result_of
        (br_references r @ (if str_empty (br_continuationPoint r) then [] else rest w' (br_continuationPoint r))) k), w''))
    \<and> browseAll_Client c bd = browseAll_Server s bd
    \<and> (str_empty (br_continuationPoint r) \<longrightarrow>
        browseAll_Server s bd w = Some (Ret (Result_of (br_references r) (br_statusCode r)), w'))
    \<and> (isBad k \<longrightarrow> (\<exists>x. value_of (Result_of refs k) = throw x \<and> getStatusCode (Some x) = k))
    \<and> browseAll_Server e bd w = None"
proof (intro conjI impI)
  have first: "browse_Server s bd 0 w = (Ret r, w')" using assms(3) by (simp add: browse_Server_def direct_def)
  show "\<exists>k w''. browseAll_Server s bd w = Some (Ret (Result_of
        (br_references r @ (if str_empty (br_continuationPoint r) then [] else rest w' (br_continuationPoint r))) k), w'')"
    using browse_loop_pages[OF assms(2)] by (simp add: browseAll_Server_def browseAll_def first)
  show "browseAll_Server s bd w = Some (Ret (Result_of (br_references r) (br_statusCode r)), w')"
    if "str_empty (br_continuationPoint r)"
    using that by (subst browseAll_Server_def) (simp add: browseAll_def first browse_loop.simps)
  show "browseAll_Client c bd = browseAll_Server s bd"
    by (simp add: browseAll_Client_def browseAll_Server_def views_agree[OF assms(1)])
  show "\<exists>x. value_of (Result_of refs k) = throw x \<and> getStatusCode (Some x) = k" if "isBad k"
    using throwIfBad_throws[OF that] by (auto simp: value_of_def checkIsBad_def Result_of_def)
  have "\<exists>r w'. browseNext_Server e False cp w = (Ret r, w') \<and> \<not> str_empty (br_continuationPoint r)" for cp w
    using assms(4)[of False cp w] by (cases "UA_Server_browseNext e False cp w") (simp add: browseNext_Server_def direct_def)
  then show "browseAll_Server e bd w = None"
    using browse_loop_endless[of "browseNext_Server e False"] assms(5)[of 0 w]
    by (cases "UA_Server_browse e 0 bd w") (simp add: browseAll_Server_def browseAll_def browse_Server_def direct_def)
qed

text \<open>A server whose world is the list of the references still to deliver, one for each page, and one that never stops.\<close>

definition page :: "ReferenceDescription list \<Rightarrow> BrowseResult \<times> ReferenceDescription list" where
  "page refs = (\<lparr>br_statusCode = UA_STATUSCODE_GOOD, br_continuationPoint = (if List.length refs \<le> 1 then NullString else Str ''c''),
     br_references = take 1 refs\<rparr>, drop 1 refs)"

definition paging_server :: "(nat, ReferenceDescription list) server_api" where
  "paging_server = \<lparr>UA_Server_read = (\<lambda>_ _ w. (zero_DataValue, w)), UA_Server_write = (\<lambda>_ w. (UA_STATUSCODE_GOOD, w)),
     UA_Server_call = (\<lambda>_ w. (zero_CallMethodResult, w)), UA_Server_browse = (\<lambda>_ _. page), UA_Server_browseNext = (\<lambda>_ _. page),
     UA_Server_translate = (\<lambda>_ w. (zero_BrowsePathResult, w)), UA_Server_addNode = (\<lambda>_ i _ _ _ _ _ w. ((UA_STATUSCODE_GOOD, i), w)),
     UA_Server_addReference = (\<lambda>_ _ _ _ w. (UA_STATUSCODE_GOOD, w)), UA_Server_deleteNode = (\<lambda>_ _ w. (UA_STATUSCODE_GOOD, w)),
     UA_Server_deleteReference = (\<lambda>_ _ _ _ _ w. (UA_STATUSCODE_GOOD, w))\<rparr>"

definition endless_server :: "(nat, ReferenceDescription list) server_api" where
  "endless_server = paging_server\<lparr>UA_Server_browse := (\<lambda>_ _ w. (zero_BrowseResult\<lparr>br_continuationPoint := Str ''c''\<rparr>, w)),
     UA_Server_browseNext := (\<lambda>_ _ w. (zero_BrowseResult\<lparr>br_continuationPoint := Str ''c''\<rparr>, w))\<rparr>"

definition some_reference :: "u32 \<Rightarrow> ReferenceDescription" where
  "some_reference i = \<lparr>rd_referenceTypeId = HierarchicalReferences, rd_isForward = True, rd_nodeId = ExpandedNodeId_of (ns0 i),
     rd_browseName = \<lparr>qn_namespaceIndex = 0, qn_name = NullString\<rparr>,
     rd_displayName = \<lparr>lt_locale = NullString, lt_text = NullString\<rparr>, rd_nodeClass = 1, rd_typeDefinition = ExpandedNodeId_of (ns0 0)\<rparr>"

definition root_description :: BrowseDescription where
  "root_description = \<lparr>bd_nodeId = ns0 84, bd_browseDirection = BdForward, bd_referenceTypeId = HierarchicalReferences,
     bd_includeSubtypes = True, bd_nodeClassMask = 0, bd_resultMask = 63\<rparr>"

lemma paging_pages: "pages (browseNext_Server paging_server False) (\<lambda>w _. w)"
proof -
  have "str_empty (Str ''c'') = False" "str_empty NullString" by (simp_all add: str_empty_def str_size_def)
  then show ?thesis
    by (simp add: pages_def browseNext_Server_def direct_def paging_server_def page_def le_Suc_eq length_Suc_conv)
qed

theorem browseAll_terminates_witness:
  "\<exists>k w. browseAll_Server paging_server root_description [some_reference 1, some_reference 2, some_reference 3]
     = Some (Ret (Result_of [some_reference 1, some_reference 2, some_reference 3] k), w)"
proof -
  have e: "\<not> str_empty (br_continuationPoint (fst (UA_Server_browseNext endless_server b cp w)))"
    "\<not> str_empty (br_continuationPoint (fst (UA_Server_browse endless_server n root_description w)))" for b cp n w
    by (simp_all add: endless_server_def str_empty_def str_size_def)
  have first: "UA_Server_browse paging_server 0 root_description [some_reference 1, some_reference 2, some_reference 3]
    = (\<lparr>br_statusCode = UA_STATUSCODE_GOOD, br_continuationPoint = Str ''c'', br_references = [some_reference 1]\<rparr>,
       [some_reference 2, some_reference 3])" by (simp add: paging_server_def page_def)
  show ?thesis
    using browseAll_terminates[OF connected_client_of paging_pages first e, THEN conjunct1] by (simp add: str_empty_def str_size_def)
qed

end
