(* ===== verification/Async.thy ===== *)
theory Async
  imports Services Callbacks
begin

text \<open>
  Asynchronous operations: completion tokens (\<open>async.hpp\<close>, \<open>services/detail/async_transform.hpp\<close>,
  \<open>services/detail/async_hook.hpp\<close>), the adapter that hands a context to the native client
  (\<open>services/detail/client_service.hpp\<close>), and the asynchronous service functions of \<open>services/*.hpp\<close>. A token is the function
  that its specialisation of \<open>AsyncResult::initiate\<close> is: from an initiation, which wants a completion handler, to an
  operation.
\<close>

section \<open>Completion tokens\<close>

type_synonym ('r, 'w) handler = "'r \<Rightarrow> ('w, unit) op"
type_synonym ('r, 'w) initiation = "('r, 'w) handler \<Rightarrow> ('w, unit) op"
type_synonym ('r, 'w, 'x) token = "('r, 'w) initiation \<Rightarrow> ('w, 'x) op"

text \<open>A callable, \<open>useDetached\<close>, and \<open>useDeferred\<close>, which returns a function from another token.\<close>

definition use_handler :: "('r, 'w) handler \<Rightarrow> ('r, 'w, unit) token" where
  "use_handler h init = init h"

definition use_detached :: "('r, 'w, unit) token" where
  "use_detached init = init (\<lambda>_. op_ret ())"

definition use_deferred :: "('r, 'w, ('r, 'w, 'x) token \<Rightarrow> ('w, 'x) op) token" where
  "use_deferred init = op_ret (\<lambda>tok. tok init)"

text \<open>\<open>asyncTransform\<close>, \<open>TransformToken\<close> and \<open>HookToken\<close>.\<close>

definition asyncTransform :: "('b, 'w) handler \<Rightarrow> ('a \<Rightarrow> 'b outc) \<Rightarrow> ('a, 'w) handler" where
  "asyncTransform h f r = op_bind (op_lift (f r)) h"

definition TransformToken :: "('a \<Rightarrow> 'b outc) \<Rightarrow> ('b, 'w, 'x) token \<Rightarrow> ('a, 'w, 'x) token" where
  "TransformToken f tok init = tok (\<lambda>h. init (asyncTransform h f))"

definition HookToken :: "('r, 'w) handler \<Rightarrow> ('r, 'w, 'x) token \<Rightarrow> ('r, 'w, 'x) token" where
  "HookToken hook tok init = tok (\<lambda>h. init (\<lambda>r. op_bind (hook r) (\<lambda>_. h r)))"

text \<open>\<open>useFuture\<close>: a promise is moved into the handler. A promise is set at most once; one that is
  still pending when the last handler is gone is a broken promise.\<close>

datatype 'r promise = Pending | Value 'r

record ('r, 'w) future_world =
  fw_promises :: "nat \<Rightarrow> 'r promise"
  fw_next :: nat
  fw_world :: 'w

definition set_value :: "nat \<Rightarrow> 'r \<Rightarrow> (('r, 'w) future_world, unit) op" where
  "set_value p r w = (case fw_promises w p of
      Pending \<Rightarrow> (Ret (), w\<lparr>fw_promises := (fw_promises w)(p := Value r)\<rparr>)
    | _ \<Rightarrow> (throw (StdException ''Promise already satisfied''), w))"

definition use_future :: "('r, ('r, 'w) future_world, nat) token" where
  "use_future init w = (let p = fw_next w in
     case init (set_value p) (w\<lparr>fw_promises := (fw_promises w)(p := Pending), fw_next := Suc p\<rparr>) of
       (Inl f, w') \<Rightarrow> (Inl f, w')
     | (Inr _, w') \<Rightarrow> (Ret p, w'))"

section \<open>Asynchronous services\<close>

text \<open>\<open>send\<close> stands for \<open>sendRequestAsync\<close> with its request: an initiation.\<close>

definition readAttributeAsync ::
  "(ReadRequest \<Rightarrow> ('v DataValue Response, 'w) initiation) \<Rightarrow> NodeId \<Rightarrow> AttributeId \<Rightarrow> TimestampsToReturn \<Rightarrow>
    ('v DataValue Result, 'w, 'x) token \<Rightarrow> ('w, 'x) op" where
  "readAttributeAsync send i a ts tok =
     TransformToken (\<lambda>r. fst (wrapSingleResult zero_DataValue r)) tok (send (makeReadRequest ts (makeReadValueId i a)))"

definition writeAttributeAsync ::
  "('v WriteValue list \<Rightarrow> (u32 Response, 'w) initiation) \<Rightarrow> NodeId \<Rightarrow> AttributeId \<Rightarrow> 'v DataValue \<Rightarrow>
    (u32, 'w, 'x) token \<Rightarrow> ('w, 'x) op" where
  "writeAttributeAsync send i a v tok = TransformToken getSingleStatus tok (send (makeWriteRequest (makeWriteValue i a v)))"

definition callAsync ::
  "('v CallMethodRequest list \<Rightarrow> ('v CallMethodResult Response, 'w) initiation) \<Rightarrow> NodeId \<Rightarrow> NodeId \<Rightarrow> 'v Variant list \<Rightarrow>
    ('v CallMethodResult, 'w, 'x) token \<Rightarrow> ('w, 'x) op" where
  "callAsync send objectId methodId args tok =
     TransformToken (wrapSingleResultWithStatus zero_CallMethodResult (\<lambda>r k. r\<lparr>cm_statusCode := k\<rparr>)) tok
       (send (makeCallRequest (makeCallMethodRequest objectId methodId args)))"

definition browseAsync ::
  "(BrowseRequest \<Rightarrow> (BrowseResult Response, 'w) initiation) \<Rightarrow> BrowseDescription \<Rightarrow> u32 \<Rightarrow> (BrowseResult, 'w, 'x) token \<Rightarrow> ('w, 'x) op" where
  "browseAsync send bd n tok = TransformToken wrap_browse tok (send (makeBrowseRequest bd n))"

definition browseNextAsync ::
  "(BrowseNextRequest \<Rightarrow> (BrowseResult Response, 'w) initiation) \<Rightarrow> bool \<Rightarrow> native_string \<Rightarrow> (BrowseResult, 'w, 'x) token \<Rightarrow> ('w, 'x) op" where
  "browseNextAsync send rel cp tok = TransformToken wrap_browse tok (send (makeBrowseNextRequest rel cp))"

definition translateBrowsePathToNodeIdsAsync ::
  "(BrowsePath list \<Rightarrow> (BrowsePathResult Response, 'w) initiation) \<Rightarrow> BrowsePath \<Rightarrow> (BrowsePathResult, 'w, 'x) token \<Rightarrow> ('w, 'x) op" where
  "translateBrowsePathToNodeIdsAsync send path tok =
     TransformToken (wrapSingleResultWithStatus zero_BrowsePathResult (\<lambda>r k. r\<lparr>bpr_statusCode := k\<rparr>)) tok
       (send (makeTranslateBrowsePathsToNodeIdsRequest path))"

definition browseSimplifiedBrowsePathAsync ::
  "(BrowsePath list \<Rightarrow> (BrowsePathResult Response, 'w) initiation) \<Rightarrow> NodeId \<Rightarrow> QualifiedName list \<Rightarrow> (BrowsePathResult, 'w, 'x) token \<Rightarrow> ('w, 'x) op" where
  "browseSimplifiedBrowsePathAsync send origin path tok = translateBrowsePathToNodeIdsAsync send (makeBrowsePath origin path) tok"

definition addNodeAsync ::
  "('v AddNodesItem list \<Rightarrow> (AddNodesResult Response, 'w) initiation) \<Rightarrow> NodeClass \<Rightarrow> NodeId \<Rightarrow> NodeId \<Rightarrow> string option \<Rightarrow>
    'v ExtensionObject \<Rightarrow> NodeId \<Rightarrow> NodeId \<Rightarrow> (NodeId Result, 'w, 'x) token \<Rightarrow> ('w, 'x) op" where
  "addNodeAsync send cls parentId i browseName attrs typeDefinition referenceType tok =
     TransformToken (\<lambda>r. outc_bind (getSingleResultRef r) (\<lambda>s. andThen s getAddedNodeId)) tok
       (send (makeAddNodesRequest (makeAddNodesItem parentId referenceType i browseName cls attrs typeDefinition)))"

definition addReferenceAsync ::
  "(AddReferencesItem list \<Rightarrow> (u32 Response, 'w) initiation) \<Rightarrow> NodeId \<Rightarrow> NodeId \<Rightarrow> NodeId \<Rightarrow> bool \<Rightarrow> (u32, 'w, 'x) token \<Rightarrow> ('w, 'x) op" where
  "addReferenceAsync send sourceId targetId referenceType forward tok =
     TransformToken getSingleStatus tok (send (makeAddReferencesRequest (makeAddReferencesItem sourceId referenceType forward targetId)))"

definition deleteNodeAsync ::
  "(DeleteNodesItem list \<Rightarrow> (u32 Response, 'w) initiation) \<Rightarrow> NodeId \<Rightarrow> bool \<Rightarrow> (u32, 'w, 'x) token \<Rightarrow> ('w, 'x) op" where
  "deleteNodeAsync send i deleteReferences tok =
     TransformToken getSingleStatus tok (send (makeDeleteNodesRequest (makeDeleteNodesItem i deleteReferences)))"

definition deleteReferenceAsync ::
  "(DeleteReferencesItem list \<Rightarrow> (u32 Response, 'w) initiation) \<Rightarrow> NodeId \<Rightarrow> NodeId \<Rightarrow> NodeId \<Rightarrow> bool \<Rightarrow> bool \<Rightarrow> (u32, 'w, 'x) token \<Rightarrow> ('w, 'x) op" where
  "deleteReferenceAsync send sourceId targetId referenceType isForward deleteBidirectional tok =
     TransformToken getSingleStatus tok (send (makeDeleteReferencesRequest
       (makeDeleteReferencesItem sourceId referenceType isForward targetId deleteBidirectional)))"

text \<open>Attributes, synchronously and asynchronously: the handler's decoder after the read, its encoder before the write.\<close>

definition readAttributeImpl ::
  "(NodeId \<Rightarrow> AttributeId \<Rightarrow> TimestampsToReturn \<Rightarrow> ('w, 'v DataValue Result) op) \<Rightarrow> ('v DataValue \<Rightarrow> 'a Result outc) \<Rightarrow>
    AttributeId \<Rightarrow> NodeId \<Rightarrow> ('w, 'a Result) op" where
  "readAttributeImpl rd fromDV a i = op_bind (rd i a TsNeither) (\<lambda>r. op_lift (andThen r fromDV))"

definition readAttributeAsyncImpl ::
  "(ReadRequest \<Rightarrow> ('v DataValue Response, 'w) initiation) \<Rightarrow> ('v DataValue \<Rightarrow> 'a Result outc) \<Rightarrow> AttributeId \<Rightarrow> NodeId \<Rightarrow>
    ('a Result, 'w, 'x) token \<Rightarrow> ('w, 'x) op" where
  "readAttributeAsyncImpl send fromDV a i tok = readAttributeAsync send i a TsNeither (TransformToken (\<lambda>r. andThen r fromDV) tok)"

text \<open>The encoder allocates in the world, and the value is destroyed after the call. An exception of the encoder meets the
  \<open>noexcept\<close> of the synchronous function.\<close>

definition op_noexcept :: "('w, 'a) op \<Rightarrow> ('w, 'a) op" where
  "op_noexcept m w = (case m w of (r, w') \<Rightarrow> (noexcept r, w'))"

definition writeAttributeImpl ::
  "(NodeId \<Rightarrow> AttributeId \<Rightarrow> 'v DataValue \<Rightarrow> ('w, u32) op) \<Rightarrow> ('a \<Rightarrow> ('w, 'v DataValue) op) \<Rightarrow> ('v DataValue \<Rightarrow> 'w \<Rightarrow> 'w) \<Rightarrow>
    AttributeId \<Rightarrow> NodeId \<Rightarrow> 'a \<Rightarrow> ('w, u32) op" where
  "writeAttributeImpl wr toDV destroy a i x =
     op_noexcept (op_bind (toDV x) (\<lambda>d w. case wr i a d w of (r, w') \<Rightarrow> (r, destroy d w')))"

definition writeAttributeAsyncImpl ::
  "('v WriteValue list \<Rightarrow> (u32 Response, 'w) initiation) \<Rightarrow> ('a \<Rightarrow> ('w, 'v DataValue) op) \<Rightarrow> ('v DataValue \<Rightarrow> 'w \<Rightarrow> 'w) \<Rightarrow>
    AttributeId \<Rightarrow> NodeId \<Rightarrow> 'a \<Rightarrow> (u32, 'w, 'x) token \<Rightarrow> ('w, 'x) op" where
  "writeAttributeAsyncImpl send toDV destroy a i x tok =
     op_bind (toDV x) (\<lambda>d w. case writeAttributeAsync send i a d tok w of (r, w') \<Rightarrow> (r, destroy d w'))"

section \<open>Asynchronous and synchronous functions agree\<close>

text \<open>A transport that answers at once.\<close>

definition immediate :: "('q \<Rightarrow> 'w \<Rightarrow> 'r \<times> 'w) \<Rightarrow> 'q \<Rightarrow> ('r, 'w) initiation" where
  "immediate srv q h w = (case srv q w of (r, w') \<Rightarrow> h r w')"

definition after :: "('w, 'r) op \<Rightarrow> ('r, 'w) initiation" where
  "after f h = op_bind f h"

lemma transform_immediate:
  "TransformToken f tok (immediate srv q) = tok (after (with_response (srv q) f))"
proof -
  have "immediate srv q (asyncTransform h f) = after (with_response (srv q) f) h" for h
    by (rule ext) (simp add: immediate_def after_def with_response_def asyncTransform_def op_bind_def op_lift_def split: prod.splits)
  then show ?thesis by (simp add: TransformToken_def)
qed

lemma asyncTransform_twice: "asyncTransform (asyncTransform h g) f = asyncTransform h (\<lambda>r. outc_bind (f r) g)"
  by (rule ext)+ (simp add: asyncTransform_def op_bind_def op_lift_def outc_bind_def split: sum.splits)

lemma transform_transform: "TransformToken f (TransformToken g tok) = TransformToken (\<lambda>r. outc_bind (f r) g) tok"
  by (rule ext) (simp add: TransformToken_def asyncTransform_twice)

lemma with_response_bind:
  "with_response srv (\<lambda>r. outc_bind (f r) g) = op_bind (with_response srv f) (\<lambda>x. op_lift (g x))"
  by (rule ext) (simp add: with_response_def op_bind_def op_lift_def outc_bind_def split: prod.splits sum.splits)

definition lift_world :: "('w, 'r) op \<Rightarrow> (('r, 'w) future_world, 'r) op" where
  "lift_world f w = (case f (fw_world w) of (r, v) \<Rightarrow> (r, w\<lparr>fw_world := v\<rparr>))"

lemmas async_defs =
  readAttributeAsync_def writeAttributeAsync_def callAsync_def browseAsync_def browseNextAsync_def
  browseSimplifiedBrowsePathAsync_def translateBrowsePathToNodeIdsAsync_def addNodeAsync_def addReferenceAsync_def
  deleteNodeAsync_def deleteReferenceAsync_def

text \<open>C28. Over a transport that answers at once every asynchronous function is, for every completion token, the token applied
  to the synchronous function of the same name followed by the completion handler. Transformations compose, a hook runs
  before the handler, a deferred operation is started by the token it is given later, a detached one loses the result, and
  a future holds it.\<close>

theorem async_agrees:
  "readAttributeAsync (immediate (UA_Client_Service_read c)) i a ts tok = tok (after (readAttribute_Client c i a ts))
    \<and> writeAttributeAsync (immediate (UA_Client_Service_write c)) i a v tok' = tok' (after (writeAttribute_Client c i a v))
    \<and> callAsync (immediate (UA_Client_Service_call c)) i j args tok1 = tok1 (after (call_Client c i j args))
    \<and> browseAsync (immediate (UA_Client_Service_browse c)) bd n tok2 = tok2 (after (browse_Client c bd n))
    \<and> browseNextAsync (immediate (UA_Client_Service_browseNext c)) rel cp tok2 = tok2 (after (browseNext_Client c rel cp))
    \<and> browseSimplifiedBrowsePathAsync (immediate (UA_Client_Service_translate c)) i names tok3
        = tok3 (after (browseSimplifiedBrowsePath (translate_Client c) i names))
    \<and> addNodeAsync (immediate (UA_Client_Service_addNodes c)) cls i j nm at td rt tok4 = tok4 (after (addNode_Client c cls i j nm at td rt))
    \<and> addReferenceAsync (immediate (UA_Client_Service_addReferences c)) i j rt fw tok' = tok' (after (addReference_Client c i j rt fw))
    \<and> deleteNodeAsync (immediate (UA_Client_Service_deleteNodes c)) i fw tok' = tok' (after (deleteNode_Client c i fw))
    \<and> deleteReferenceAsync (immediate (UA_Client_Service_deleteReferences c)) i j rt fw bi tok' = tok' (after (deleteReference_Client c i j rt fw bi))
    \<and> readAttributeAsyncImpl (immediate (UA_Client_Service_read c)) dec a i tok5 = tok5 (after (readAttributeImpl (readAttribute_Client c) dec a i))
    \<and> TransformToken f (TransformToken g tok6) = TransformToken (\<lambda>r. outc_bind (f r) g) tok6
    \<and> HookToken hook (use_handler h) (after op1) = op_bind op1 (\<lambda>r. op_bind (hook r) (\<lambda>_. h r))
    \<and> op_bind (use_deferred init) (\<lambda>start. start tok7) = tok7 init
    \<and> use_detached (after op1) w = (case op1 w of (Inl e, w') \<Rightarrow> (Inl e, w') | (Inr r, w') \<Rightarrow> (Ret (), w'))
    \<and> (case op2 (fw_world u) of
        (Inr r, v) \<Rightarrow> \<exists>u'. use_future (after (lift_world op2)) u = (Ret (fw_next u), u') \<and> fw_promises u' (fw_next u) = Value r \<and> fw_world u' = v
      | (Inl e, v) \<Rightarrow> \<exists>u'. use_future (after (lift_world op2)) u = (Inl e, u') \<and> fw_promises u' (fw_next u) = Pending)"
proof (intro conjI)
  show "readAttributeAsync (immediate (UA_Client_Service_read c)) i a ts tok = tok (after (readAttribute_Client c i a ts))"
    "writeAttributeAsync (immediate (UA_Client_Service_write c)) i a v tok' = tok' (after (writeAttribute_Client c i a v))"
    "callAsync (immediate (UA_Client_Service_call c)) i j args tok1 = tok1 (after (call_Client c i j args))"
    "browseAsync (immediate (UA_Client_Service_browse c)) bd n tok2 = tok2 (after (browse_Client c bd n))"
    "browseNextAsync (immediate (UA_Client_Service_browseNext c)) rel cp tok2 = tok2 (after (browseNext_Client c rel cp))"
    "browseSimplifiedBrowsePathAsync (immediate (UA_Client_Service_translate c)) i names tok3
        = tok3 (after (browseSimplifiedBrowsePath (translate_Client c) i names))"
    "addNodeAsync (immediate (UA_Client_Service_addNodes c)) cls i j nm at td rt tok4 = tok4 (after (addNode_Client c cls i j nm at td rt))"
    "addReferenceAsync (immediate (UA_Client_Service_addReferences c)) i j rt fw tok' = tok' (after (addReference_Client c i j rt fw))"
    "deleteNodeAsync (immediate (UA_Client_Service_deleteNodes c)) i fw tok' = tok' (after (deleteNode_Client c i fw))"
    "deleteReferenceAsync (immediate (UA_Client_Service_deleteReferences c)) i j rt fw bi tok' = tok' (after (deleteReference_Client c i j rt fw bi))"
    unfolding async_defs transform_immediate by (simp_all add: service_defs browseSimplifiedBrowsePath_def)
  show "readAttributeAsyncImpl (immediate (UA_Client_Service_read c)) dec a i tok5 = tok5 (after (readAttributeImpl (readAttribute_Client c) dec a i))"
    unfolding readAttributeAsyncImpl_def readAttributeAsync_def transform_transform transform_immediate with_response_bind
    by (simp add: readAttributeImpl_def readAttribute_Client_def)
  show "TransformToken f (TransformToken g tok6) = TransformToken (\<lambda>r. outc_bind (f r) g) tok6" by (rule transform_transform)
  show "case op2 (fw_world u) of
        (Inr r, v) \<Rightarrow> \<exists>u'. use_future (after (lift_world op2)) u = (Ret (fw_next u), u') \<and> fw_promises u' (fw_next u) = Value r \<and> fw_world u' = v
      | (Inl e, v) \<Rightarrow> \<exists>u'. use_future (after (lift_world op2)) u = (Inl e, u') \<and> fw_promises u' (fw_next u) = Pending"
    by (simp add: use_future_def after_def lift_world_def op_bind_def set_value_def Let_def split: prod.splits sum.splits)
qed (simp_all add: HookToken_def use_handler_def use_deferred_def use_detached_def after_def op_bind_def op_ret_def split: prod.splits sum.splits)

section \<open>Requests in flight\<close>

text \<open>The heap of the \<open>Context\<close> objects with their handlers, the requests the native client has accepted with their
  \<open>userdata\<close> pointers, the exception catcher, and a record of the handlers that were run. Handlers are given by the
  outcome for a response. \<open>rq_freed\<close> is set when a destroyed context is accessed.\<close>

record 'r request_state =
  rq_contexts :: "nat \<Rightarrow> ('r \<Rightarrow> unit outc) option"
  rq_pending :: "nat \<Rightarrow> nat option"
  rq_next :: nat
  rq_catcher :: "exn option"
  rq_calls :: "(nat \<times> 'r) list"
  rq_freed :: bool

definition makeCallbackAndContext :: "('r \<Rightarrow> unit outc) \<Rightarrow> 'r request_state \<Rightarrow> nat \<times> 'r request_state" where
  "makeCallbackAndContext h s = (rq_next s, s\<lparr>rq_contexts := (rq_contexts s)(rq_next s \<mapsto> h), rq_next := Suc (rq_next s)\<rparr>)"

text \<open>\<open>AsyncServiceAdapter::initiate\<close> around \<open>sendRequestAsync\<close>: the native client returns \<open>status\<close> and, when good, keeps the
  pointer under the request's id. When the initiation throws, the context is destroyed and the exception caught.\<close>

definition initiate_request :: "('r \<Rightarrow> unit outc) \<Rightarrow> u32 \<Rightarrow> nat \<Rightarrow> 'r request_state \<Rightarrow> 'r request_state" where
  "initiate_request h status reqId s = (case makeCallbackAndContext h s of (a, s1) \<Rightarrow>
     (case throwIfBad status of
        Inl (Throw e) \<Rightarrow> s1\<lparr>rq_contexts := (rq_contexts s1)(a := None), rq_catcher := setException e (rq_catcher s1)\<rparr>
      | _ \<Rightarrow> s1\<lparr>rq_pending := (rq_pending s1)(reqId \<mapsto> a)\<rparr>))"

text \<open>The callback: it takes the context over and destroys it on return; a null response throws inside the catcher.\<close>

definition request_callback :: "nat \<Rightarrow> 'r option \<Rightarrow> 'r request_state \<Rightarrow> 'r request_state" where
  "request_callback a response s = (case rq_contexts s a of
      None \<Rightarrow> s\<lparr>rq_freed := True\<rparr>
    | Some h \<Rightarrow> (case response of
        None \<Rightarrow> s\<lparr>rq_contexts := (rq_contexts s)(a := None),
          rq_catcher := snd (catcher_invoke (throw (BadStatus UA_STATUSCODE_BADUNEXPECTEDERROR)) (rq_catcher s))\<rparr>
      | Some r \<Rightarrow> s\<lparr>rq_contexts := (rq_contexts s)(a := None), rq_catcher := snd (catcher_invoke (h r) (rq_catcher s)),
          rq_calls := (a, r) # rq_calls s\<rparr>))"

text \<open>Steps. The native client uses an id that is not in use, gives each pointer back once and forgets it.\<close>

inductive request_step :: "'r request_state \<Rightarrow> 'r request_state \<Rightarrow> bool" where
  rq_start: "rq_pending s reqId = None \<Longrightarrow> request_step s (initiate_request h status reqId s)"
| rq_complete: "rq_pending s reqId = Some a \<Longrightarrow>
    request_step s (request_callback a response (s\<lparr>rq_pending := (rq_pending s)(reqId := None)\<rparr>))"

inductive_cases request_stepE: "request_step s s'"

definition rq_init :: "'r request_state" where
  "rq_init = \<lparr>rq_contexts = (\<lambda>_. None), rq_pending = (\<lambda>_. None), rq_next = 0, rq_catcher = None, rq_calls = [], rq_freed = False\<rparr>"

definition rq_inv :: "'r request_state \<Rightarrow> bool" where
  "rq_inv s = (ran (rq_pending s) = dom (rq_contexts s) \<and> inj_on (rq_pending s) (dom (rq_pending s))
     \<and> (\<forall>a \<in> dom (rq_contexts s). a < rq_next s) \<and> (\<forall>a r. (a, r) \<in> set (rq_calls s) \<longrightarrow> a < rq_next s \<and> rq_contexts s a = None)
     \<and> distinct (map fst (rq_calls s)) \<and> \<not> rq_freed s)"

lemma rq_inv_init: "rq_inv rq_init"
  by (simp add: rq_inv_def rq_init_def)

lemma pending_alive: "rq_inv s \<Longrightarrow> rq_pending s i = Some a \<Longrightarrow> \<exists>h. rq_contexts s a = Some h"
  by (auto simp: rq_inv_def ran_def dom_def set_eq_iff)

lemma initiate_bad:
  "isBad status \<Longrightarrow> rq_inv s \<Longrightarrow> \<exists>e. initiate_request h status i s = s\<lparr>rq_next := Suc (rq_next s), rq_catcher := Some e\<rparr>
    \<and> getStatusCode (Some e) = status"
proof -
  assume "isBad status" "rq_inv s"
  then obtain e where e: "throwIfBad status = throw e" "getStatusCode (Some e) = status" using throwIfBad_throws by blast
  have "rq_contexts s (rq_next s) = None" using \<open>rq_inv s\<close> by (auto simp: rq_inv_def dom_def)
  then have "(rq_contexts s)(rq_next s := None) = rq_contexts s" by (rule fun_upd_idem)
  then show ?thesis using e
    by (cases s) (simp add: initiate_request_def makeCallbackAndContext_def setException_def)
qed

lemma initiate_good:
  "\<not> isBad status \<Longrightarrow> initiate_request h status i s = s\<lparr>rq_contexts := (rq_contexts s)(rq_next s \<mapsto> h), rq_next := Suc (rq_next s),
    rq_pending := (rq_pending s)(i \<mapsto> rq_next s)\<rparr>"
  by (simp add: initiate_request_def makeCallbackAndContext_def)

lemma ran_delete:
  assumes "inj_on m (dom m)" "m i = Some a"
  shows "ran (m(i := None)) = ran m - {a}"
proof -
  have "k = i" if "m k = Some a" for k using assms that by (simp add: inj_on_def dom_def)
  then show ?thesis by (auto simp: ran_def) (metis assms(2) option.inject)
qed

lemma request_step_inv:
  assumes "request_step s s'" "rq_inv s"
  shows "rq_inv s'"
proof -
  from assms(1) consider (start) i h status where "rq_pending s i = None" "s' = initiate_request h status i s"
    | (complete) i a response where "rq_pending s i = Some a"
        "s' = request_callback a response (s\<lparr>rq_pending := (rq_pending s)(i := None)\<rparr>)"
    by (elim request_stepE)
  then show ?thesis
  proof cases
  case start
  show ?thesis
  proof (cases "isBad status")
    case True
    from initiate_bad[OF True assms(2), of h i] obtain e where "s' = s\<lparr>rq_next := Suc (rq_next s), rq_catcher := Some e\<rparr>"
      using start(2) by auto
    then show ?thesis using assms(2) by (fastforce simp: rq_inv_def less_Suc_eq)
  next
    case False
    have "rq_next s \<notin> ran (rq_pending s)" using assms(2) by (auto simp: rq_inv_def)
    have r: "ran ((rq_pending s)(i \<mapsto> rq_next s)) = insert (rq_next s) (dom (rq_contexts s))"
      using assms(2) start(1) by (simp add: rq_inv_def)
    have "inj_on (rq_pending s) (dom (rq_pending s))" using assms(2) by (simp add: rq_inv_def)
    then have inj: "inj_on ((rq_pending s)(i \<mapsto> rq_next s)) (insert i (dom (rq_pending s)))"
      using \<open>rq_next s \<notin> ran (rq_pending s)\<close> by (auto simp: inj_on_def ran_def dom_def)
    have "s' = s\<lparr>rq_contexts := (rq_contexts s)(rq_next s \<mapsto> h), rq_next := Suc (rq_next s), rq_pending := (rq_pending s)(i \<mapsto> rq_next s)\<rparr>"
      using start(2) by (simp add: initiate_good[OF False])
    then show ?thesis using assms(2) r inj by (fastforce simp: rq_inv_def less_Suc_eq)
  qed
next
  case complete
  then obtain h where h: "rq_contexts s a = Some h" using pending_alive[OF assms(2)] by blast
  have inj: "inj_on (rq_pending s) (dom (rq_pending s))" and r: "ran (rq_pending s) = dom (rq_contexts s)"
    using assms(2) by (simp_all add: rq_inv_def)
  have "ran ((rq_pending s)(i := None)) = dom (rq_contexts s) - {a}" "inj_on ((rq_pending s)(i := None)) (dom (rq_pending s) - {i})"
    using ran_delete[OF inj complete(1)] inj_on_subset[OF inj, of "dom (rq_pending s) - {i}"]
    by (auto simp: r inj_on_def)
  then show ?thesis using assms(2) h complete(2)
    by (cases response) (auto simp: rq_inv_def request_callback_def)
qed
qed

lemma request_reachable_inv: "request_step\<^sup>*\<^sup>* s s' \<Longrightarrow> rq_inv s \<Longrightarrow> rq_inv s'"
  by (induction rule: rtranclp_induct) (auto dest: request_step_inv)

text \<open>C18. In every reachable state the contexts alive are exactly the ones of the accepted requests, one for each, no destroyed
  context has been accessed and no handler has run twice. A request the native client refuses leaves no context and its
  status code in the catcher; a response runs the handler of its request once and destroys the context, and a request without
  response destroys it without running the handler.\<close>

theorem async_requests_safe:
  assumes "request_step\<^sup>*\<^sup>* rq_init s"
  shows "\<not> rq_freed s \<and> distinct (map fst (rq_calls s)) \<and> ran (rq_pending s) = dom (rq_contexts s)
    \<and> inj_on (rq_pending s) (dom (rq_pending s))
    \<and> (isBad status \<longrightarrow> (\<exists>e. getStatusCode (Some e) = status
        \<and> initiate_request h status i s = s\<lparr>rq_next := Suc (rq_next s), rq_catcher := Some e\<rparr>))
    \<and> (rq_pending s i = Some a \<longrightarrow> (let s' = request_callback a response (s\<lparr>rq_pending := (rq_pending s)(i := None)\<rparr>) in
        rq_contexts s' = (rq_contexts s)(a := None) \<and> a \<notin> fst ` set (rq_calls s)
        \<and> (case response of
            None \<Rightarrow> rq_calls s' = rq_calls s \<and> rq_catcher s' = Some (BadStatus UA_STATUSCODE_BADUNEXPECTEDERROR)
          | Some r \<Rightarrow> rq_calls s' = (a, r) # rq_calls s
              \<and> (\<forall>g. rq_contexts s a = Some g \<longrightarrow> rq_catcher s' = snd (catcher_invoke (g r) (rq_catcher s))))))"
proof -
  have inv: "rq_inv s" using request_reachable_inv[OF assms rq_inv_init] .
  have p: "\<exists>g. rq_contexts s a = Some g" if "rq_pending s i = Some a" using pending_alive[OF inv that] .
  then have "a \<notin> fst ` set (rq_calls s)" if "rq_pending s i = Some a" using inv that by (auto simp: rq_inv_def)
  with p initiate_bad[OF _ inv, of status h i] inv show ?thesis
    by (auto simp: rq_inv_def request_callback_def Let_def catcher_invoke_def setException_def split: option.splits)
qed

theorem async_requests_safe_witness:
  "let s1 = initiate_request (\<lambda>_ :: nat. throw BadAlloc) UA_STATUSCODE_GOOD 1 rq_init;
       s = request_callback 0 (Some 7) (s1\<lparr>rq_pending := (rq_pending s1)(1 := None)\<rparr>)
   in distinct (map fst (rq_calls s)) \<and> \<not> rq_freed s \<and> rq_calls s = [(0, 7)] \<and> rq_catcher s = Some BadAlloc"
proof -
  let ?s1 = "initiate_request (\<lambda>_ :: nat. throw BadAlloc) UA_STATUSCODE_GOOD 1 rq_init"
  let ?s = "request_callback 0 (Some 7) (?s1\<lparr>rq_pending := (rq_pending ?s1)(1 := None)\<rparr>)"
  have "request_step rq_init ?s1" by (rule rq_start) (simp add: rq_init_def)
  moreover have "request_step ?s1 ?s" by (rule rq_complete) (simp add: initiate_good rq_init_def)
  ultimately have "request_step\<^sup>*\<^sup>* rq_init ?s" by simp
  from async_requests_safe[OF this] have "distinct (map fst (rq_calls ?s)) \<and> \<not> rq_freed ?s" by blast
  moreover have "rq_calls ?s = [(0, 7)] \<and> rq_catcher ?s = Some BadAlloc"
    by (simp add: initiate_good rq_init_def request_callback_def catcher_invoke_def setException_def)
  ultimately show ?thesis unfolding Let_def by blast
qed

end
