(* ===== verification/Attributes.thy ===== *)
theory Attributes
  imports Async
begin

text \<open>
  Reading and writing attributes (\<open>services/attribute.hpp\<close>, \<open>services/attribute_highlevel.hpp\<close>,
  \<open>services/detail/attribute_handler.hpp\<close>): the handler of each attribute, and for each attribute the synchronous and
  asynchronous read and write functions, over a connection, which is the group of service functions the templates use. The
  values of attributes other than \<open>Value\<close> have the eight types below; doubles are kept as their bits, and enumerations with
  their underlying integer. A world is the memory together with whatever is behind the connection; the memory of responses
  is not accounted for.
\<close>

section \<open>Values and handlers\<close>

type_synonym i32 = "32 word"

datatype attr_value =
    AvBool (un_Bool: bool) | AvByte (un_Byte: u8) | AvInt32 (un_Int32: i32) | AvUInt32 (un_UInt32: u32) | AvDouble (un_Double: u64)
  | AvNodeId (un_NodeId: NodeId) | AvQualifiedName (un_QualifiedName: QualifiedName)
  | AvLocalizedText (un_LocalizedText: LocalizedText)

definition bool_vtype :: vtype where "bool_vtype = \<lparr>t_id = 1, t_size = 1\<rparr>"
definition byte_vtype :: vtype where "byte_vtype = \<lparr>t_id = 3, t_size = 1\<rparr>"
definition i32_vtype :: vtype where "i32_vtype = \<lparr>t_id = 6, t_size = 4\<rparr>"
definition double_vtype :: vtype where "double_vtype = \<lparr>t_id = 11, t_size = 8\<rparr>"
definition nodeid_vtype :: vtype where "nodeid_vtype = \<lparr>t_id = 17, t_size = 24\<rparr>"
definition qname_vtype :: vtype where "qname_vtype = \<lparr>t_id = 20, t_size = 24\<rparr>"
definition text_vtype :: vtype where "text_vtype = \<lparr>t_id = 21, t_size = 32\<rparr>"

text \<open>The functions of the C library and the objects outside that handlers depend on.\<close>

record attr_env =
  ae_api :: "attr_value api"
  ae_store :: "nat \<Rightarrow> attr_value list option"
  ae_own :: "attr_value \<Rightarrow> int"
  ae_copy :: "attr_value \<Rightarrow> (mem, attr_value) op"

record 'x attr_handler =
  ah_from :: "attr_value DataValue \<Rightarrow> 'x Result outc"
  ah_to :: "'x \<Rightarrow> (mem, attr_value DataValue) op"

definition HandlerScalar :: "attr_env \<Rightarrow> vtype \<Rightarrow> ('x \<Rightarrow> attr_value) \<Rightarrow> (attr_value \<Rightarrow> 'x) \<Rightarrow> 'x attr_handler" where
  "HandlerScalar e t wrap unwrap = \<lparr>ah_from = enum_fromDataValue unwrap (ae_api e) (ae_store e) t,
     ah_to = enum_toDataValue wrap (ae_own e) (ae_copy e) t\<rparr>"

definition HandlerBitmask ::
  "attr_env \<Rightarrow> vtype \<Rightarrow> ('w::len word \<Rightarrow> attr_value) \<Rightarrow> (attr_value \<Rightarrow> 'w word) \<Rightarrow> 'w word Bitmask attr_handler" where
  "HandlerBitmask e t wrap unwrap = HandlerScalar e t (\<lambda>b. wrap (bm_get b)) (\<lambda>v. bm_of (unwrap v))"

definition HandlerVariant :: "attr_value Variant attr_handler" where
  "HandlerVariant = \<lparr>ah_from = variant_fromDataValue, ah_to = (\<lambda>v. op_ret (variant_toDataValue v))\<rparr>"

text \<open>The node class is read without checking the type, and has no \<open>toDataValue\<close>.\<close>

definition from_NodeClass :: "attr_env \<Rightarrow> attr_value DataValue \<Rightarrow> i32 Result outc" where
  "from_NodeClass e = nodeClass_fromDataValue un_Int32 (ae_store e)"

definition from_ArrayDimensions :: "attr_env \<Rightarrow> attr_value DataValue \<Rightarrow> u32 list Result outc" where
  "from_ArrayDimensions e d = outc_bind (array_fromDataValue (ae_api e) (ae_store e) u32_vtype d) (\<lambda>r. transform r (\<lambda>vs. Ret (map un_UInt32 vs)))"

definition Handler_ArrayDimensions :: "attr_env \<Rightarrow> u32 list attr_handler" where
  "Handler_ArrayDimensions e = \<lparr>ah_from = from_ArrayDimensions e,
     ah_to = (\<lambda>xs. array_toDataValue (ae_own e) (ae_copy e) u32_vtype (map AvUInt32 xs))\<rparr>"

definition Handler_NodeId :: "attr_env \<Rightarrow> NodeId attr_handler" where "Handler_NodeId e = HandlerScalar e nodeid_vtype AvNodeId un_NodeId"
definition Handler_BrowseName :: "attr_env \<Rightarrow> QualifiedName attr_handler" where "Handler_BrowseName e = HandlerScalar e qname_vtype AvQualifiedName un_QualifiedName"
definition Handler_DisplayName :: "attr_env \<Rightarrow> LocalizedText attr_handler" where "Handler_DisplayName e = HandlerScalar e text_vtype AvLocalizedText un_LocalizedText"
definition Handler_Description :: "attr_env \<Rightarrow> LocalizedText attr_handler" where "Handler_Description e = HandlerScalar e text_vtype AvLocalizedText un_LocalizedText"
definition Handler_WriteMask :: "attr_env \<Rightarrow> 32 word Bitmask attr_handler" where "Handler_WriteMask e = HandlerBitmask e u32_vtype AvUInt32 un_UInt32"
definition Handler_UserWriteMask :: "attr_env \<Rightarrow> 32 word Bitmask attr_handler" where "Handler_UserWriteMask e = HandlerBitmask e u32_vtype AvUInt32 un_UInt32"
definition Handler_IsAbstract :: "attr_env \<Rightarrow> bool attr_handler" where "Handler_IsAbstract e = HandlerScalar e bool_vtype AvBool un_Bool"
definition Handler_Symmetric :: "attr_env \<Rightarrow> bool attr_handler" where "Handler_Symmetric e = HandlerScalar e bool_vtype AvBool un_Bool"
definition Handler_InverseName :: "attr_env \<Rightarrow> LocalizedText attr_handler" where "Handler_InverseName e = HandlerScalar e text_vtype AvLocalizedText un_LocalizedText"
definition Handler_ContainsNoLoops :: "attr_env \<Rightarrow> bool attr_handler" where "Handler_ContainsNoLoops e = HandlerScalar e bool_vtype AvBool un_Bool"
definition Handler_EventNotifier :: "attr_env \<Rightarrow> 8 word Bitmask attr_handler" where "Handler_EventNotifier e = HandlerBitmask e byte_vtype AvByte un_Byte"
definition Handler_Value :: "attr_value Variant attr_handler" where "Handler_Value = HandlerVariant"
definition Handler_DataType :: "attr_env \<Rightarrow> NodeId attr_handler" where "Handler_DataType e = HandlerScalar e nodeid_vtype AvNodeId un_NodeId"
definition Handler_ValueRank :: "attr_env \<Rightarrow> i32 attr_handler" where "Handler_ValueRank e = HandlerScalar e i32_vtype AvInt32 un_Int32"
definition Handler_AccessLevel :: "attr_env \<Rightarrow> 8 word Bitmask attr_handler" where "Handler_AccessLevel e = HandlerBitmask e byte_vtype AvByte un_Byte"
definition Handler_UserAccessLevel :: "attr_env \<Rightarrow> 8 word Bitmask attr_handler" where "Handler_UserAccessLevel e = HandlerBitmask e byte_vtype AvByte un_Byte"
definition Handler_MinimumSamplingInterval :: "attr_env \<Rightarrow> u64 attr_handler" where "Handler_MinimumSamplingInterval e = HandlerScalar e double_vtype AvDouble un_Double"
definition Handler_Historizing :: "attr_env \<Rightarrow> bool attr_handler" where "Handler_Historizing e = HandlerScalar e bool_vtype AvBool un_Bool"
definition Handler_Executable :: "attr_env \<Rightarrow> bool attr_handler" where "Handler_Executable e = HandlerScalar e bool_vtype AvBool un_Bool"
definition Handler_UserExecutable :: "attr_env \<Rightarrow> bool attr_handler" where "Handler_UserExecutable e = HandlerScalar e bool_vtype AvBool un_Bool"
definition Handler_DataTypeDefinition :: "attr_value Variant attr_handler" where "Handler_DataTypeDefinition = HandlerVariant"

section \<open>Connections\<close>

text \<open>The service functions that the templates select by the type of the connection.\<close>

record ('v, 'w) connection =
  cn_read :: "NodeId \<Rightarrow> AttributeId \<Rightarrow> TimestampsToReturn \<Rightarrow> ('w, 'v DataValue Result) op"
  cn_write :: "NodeId \<Rightarrow> AttributeId \<Rightarrow> 'v DataValue \<Rightarrow> ('w, u32) op"
  cn_call :: "NodeId \<Rightarrow> NodeId \<Rightarrow> 'v Variant list \<Rightarrow> ('w, 'v CallMethodResult) op"
  cn_browse :: "BrowseDescription \<Rightarrow> u32 \<Rightarrow> ('w, BrowseResult) op"
  cn_browseNext :: "bool \<Rightarrow> native_string \<Rightarrow> ('w, BrowseResult) op"
  cn_translate :: "BrowsePath \<Rightarrow> ('w, BrowsePathResult) op"
  cn_addNode :: "NodeClass \<Rightarrow> NodeId \<Rightarrow> NodeId \<Rightarrow> string option \<Rightarrow> 'v ExtensionObject \<Rightarrow> NodeId \<Rightarrow> NodeId \<Rightarrow> ('w, NodeId Result) op"
  cn_addReference :: "NodeId \<Rightarrow> NodeId \<Rightarrow> NodeId \<Rightarrow> bool \<Rightarrow> ('w, u32) op"
  cn_deleteNode :: "NodeId \<Rightarrow> bool \<Rightarrow> ('w, u32) op"
  cn_deleteReference :: "NodeId \<Rightarrow> NodeId \<Rightarrow> NodeId \<Rightarrow> bool \<Rightarrow> bool \<Rightarrow> ('w, u32) op"

definition Server_connection :: "('v, 'w) server_api \<Rightarrow> ('v, 'w) connection" where
  "Server_connection s = \<lparr>cn_read = readAttribute_Server s, cn_write = writeAttribute_Server s, cn_call = call_Server s,
     cn_browse = browse_Server s, cn_browseNext = browseNext_Server s, cn_translate = translate_Server s, cn_addNode = addNode_Server s,
     cn_addReference = addReference_Server s, cn_deleteNode = deleteNode_Server s, cn_deleteReference = deleteReference_Server s\<rparr>"

definition Client_connection :: "('v, 'w) client_api \<Rightarrow> ('v, 'w) connection" where
  "Client_connection c = \<lparr>cn_read = readAttribute_Client c, cn_write = writeAttribute_Client c, cn_call = call_Client c,
     cn_browse = browse_Client c, cn_browseNext = browseNext_Client c, cn_translate = translate_Client c, cn_addNode = addNode_Client c,
     cn_addReference = addReference_Client c, cn_deleteNode = deleteNode_Client c, cn_deleteReference = deleteReference_Client c\<rparr>"

text \<open>Operations on the memory part of a world; the value written is destroyed after the call.\<close>

definition on_mem :: "(mem, 'a) op \<Rightarrow> (mem \<times> 'u, 'a) op" where
  "on_mem f w = (case f (fst w) of (r, m) \<Rightarrow> (r, (m, snd w)))"

definition destroyDV :: "attr_env \<Rightarrow> attr_value DataValue \<Rightarrow> mem \<times> 'u \<Rightarrow> mem \<times> 'u" where
  "destroyDV e d w = (free_blocks (own_variant (ae_own e) (dv_value d)) (fst w), snd w)"

type_synonym 'u attr_connection = "(attr_value, mem \<times> 'u) connection"
type_synonym 'u read_sender = "ReadRequest \<Rightarrow> (attr_value DataValue Response, mem \<times> 'u) initiation"
type_synonym 'u write_sender = "attr_value WriteValue list \<Rightarrow> (u32 Response, mem \<times> 'u) initiation"

section \<open>The functions\<close>

definition readNodeId :: "attr_env \<Rightarrow> 'u attr_connection \<Rightarrow> NodeId \<Rightarrow> (mem \<times> 'u, NodeId Result) op" where
  "readNodeId e c i = readAttributeImpl (cn_read c) (ah_from (Handler_NodeId e)) AttrNodeId i"
definition readNodeIdAsync :: "attr_env \<Rightarrow> 'u read_sender \<Rightarrow> NodeId \<Rightarrow> (NodeId Result, mem \<times> 'u, 'x) token \<Rightarrow> (mem \<times> 'u, 'x) op" where
  "readNodeIdAsync e send i tok = readAttributeAsyncImpl send (ah_from (Handler_NodeId e)) AttrNodeId i tok"

definition readNodeClass :: "attr_env \<Rightarrow> 'u attr_connection \<Rightarrow> NodeId \<Rightarrow> (mem \<times> 'u, i32 Result) op" where
  "readNodeClass e c i = readAttributeImpl (cn_read c) (from_NodeClass e) AttrNodeClass i"
definition readNodeClassAsync :: "attr_env \<Rightarrow> 'u read_sender \<Rightarrow> NodeId \<Rightarrow> (i32 Result, mem \<times> 'u, 'x) token \<Rightarrow> (mem \<times> 'u, 'x) op" where
  "readNodeClassAsync e send i tok = readAttributeAsyncImpl send (from_NodeClass e) AttrNodeClass i tok"

definition readBrowseName :: "attr_env \<Rightarrow> 'u attr_connection \<Rightarrow> NodeId \<Rightarrow> (mem \<times> 'u, QualifiedName Result) op" where
  "readBrowseName e c i = readAttributeImpl (cn_read c) (ah_from (Handler_BrowseName e)) AttrBrowseName i"
definition readBrowseNameAsync :: "attr_env \<Rightarrow> 'u read_sender \<Rightarrow> NodeId \<Rightarrow> (QualifiedName Result, mem \<times> 'u, 'x) token \<Rightarrow> (mem \<times> 'u, 'x) op" where
  "readBrowseNameAsync e send i tok = readAttributeAsyncImpl send (ah_from (Handler_BrowseName e)) AttrBrowseName i tok"
definition writeBrowseName :: "attr_env \<Rightarrow> 'u attr_connection \<Rightarrow> NodeId \<Rightarrow> QualifiedName \<Rightarrow> (mem \<times> 'u, u32) op" where
  "writeBrowseName e c i x = writeAttributeImpl (cn_write c) (\<lambda>v. on_mem (ah_to (Handler_BrowseName e) v)) (destroyDV e) AttrBrowseName i x"
definition writeBrowseNameAsync :: "attr_env \<Rightarrow> 'u write_sender \<Rightarrow> NodeId \<Rightarrow> QualifiedName \<Rightarrow> (u32, mem \<times> 'u, 'x) token \<Rightarrow> (mem \<times> 'u, 'x) op" where
  "writeBrowseNameAsync e send i x tok = writeAttributeAsyncImpl send (\<lambda>v. on_mem (ah_to (Handler_BrowseName e) v)) (destroyDV e) AttrBrowseName i x tok"

definition readDisplayName :: "attr_env \<Rightarrow> 'u attr_connection \<Rightarrow> NodeId \<Rightarrow> (mem \<times> 'u, LocalizedText Result) op" where
  "readDisplayName e c i = readAttributeImpl (cn_read c) (ah_from (Handler_DisplayName e)) AttrDisplayName i"
definition readDisplayNameAsync :: "attr_env \<Rightarrow> 'u read_sender \<Rightarrow> NodeId \<Rightarrow> (LocalizedText Result, mem \<times> 'u, 'x) token \<Rightarrow> (mem \<times> 'u, 'x) op" where
  "readDisplayNameAsync e send i tok = readAttributeAsyncImpl send (ah_from (Handler_DisplayName e)) AttrDisplayName i tok"
definition writeDisplayName :: "attr_env \<Rightarrow> 'u attr_connection \<Rightarrow> NodeId \<Rightarrow> LocalizedText \<Rightarrow> (mem \<times> 'u, u32) op" where
  "writeDisplayName e c i x = writeAttributeImpl (cn_write c) (\<lambda>v. on_mem (ah_to (Handler_DisplayName e) v)) (destroyDV e) AttrDisplayName i x"
definition writeDisplayNameAsync :: "attr_env \<Rightarrow> 'u write_sender \<Rightarrow> NodeId \<Rightarrow> LocalizedText \<Rightarrow> (u32, mem \<times> 'u, 'x) token \<Rightarrow> (mem \<times> 'u, 'x) op" where
  "writeDisplayNameAsync e send i x tok = writeAttributeAsyncImpl send (\<lambda>v. on_mem (ah_to (Handler_DisplayName e) v)) (destroyDV e) AttrDisplayName i x tok"

definition readDescription :: "attr_env \<Rightarrow> 'u attr_connection \<Rightarrow> NodeId \<Rightarrow> (mem \<times> 'u, LocalizedText Result) op" where
  "readDescription e c i = readAttributeImpl (cn_read c) (ah_from (Handler_Description e)) AttrDescription i"
definition readDescriptionAsync :: "attr_env \<Rightarrow> 'u read_sender \<Rightarrow> NodeId \<Rightarrow> (LocalizedText Result, mem \<times> 'u, 'x) token \<Rightarrow> (mem \<times> 'u, 'x) op" where
  "readDescriptionAsync e send i tok = readAttributeAsyncImpl send (ah_from (Handler_Description e)) AttrDescription i tok"
definition writeDescription :: "attr_env \<Rightarrow> 'u attr_connection \<Rightarrow> NodeId \<Rightarrow> LocalizedText \<Rightarrow> (mem \<times> 'u, u32) op" where
  "writeDescription e c i x = writeAttributeImpl (cn_write c) (\<lambda>v. on_mem (ah_to (Handler_Description e) v)) (destroyDV e) AttrDescription i x"
definition writeDescriptionAsync :: "attr_env \<Rightarrow> 'u write_sender \<Rightarrow> NodeId \<Rightarrow> LocalizedText \<Rightarrow> (u32, mem \<times> 'u, 'x) token \<Rightarrow> (mem \<times> 'u, 'x) op" where
  "writeDescriptionAsync e send i x tok = writeAttributeAsyncImpl send (\<lambda>v. on_mem (ah_to (Handler_Description e) v)) (destroyDV e) AttrDescription i x tok"

definition readWriteMask :: "attr_env \<Rightarrow> 'u attr_connection \<Rightarrow> NodeId \<Rightarrow> (mem \<times> 'u, 32 word Bitmask Result) op" where
  "readWriteMask e c i = readAttributeImpl (cn_read c) (ah_from (Handler_WriteMask e)) AttrWriteMask i"
definition readWriteMaskAsync :: "attr_env \<Rightarrow> 'u read_sender \<Rightarrow> NodeId \<Rightarrow> (32 word Bitmask Result, mem \<times> 'u, 'x) token \<Rightarrow> (mem \<times> 'u, 'x) op" where
  "readWriteMaskAsync e send i tok = readAttributeAsyncImpl send (ah_from (Handler_WriteMask e)) AttrWriteMask i tok"
definition writeWriteMask :: "attr_env \<Rightarrow> 'u attr_connection \<Rightarrow> NodeId \<Rightarrow> 32 word Bitmask \<Rightarrow> (mem \<times> 'u, u32) op" where
  "writeWriteMask e c i x = writeAttributeImpl (cn_write c) (\<lambda>v. on_mem (ah_to (Handler_WriteMask e) v)) (destroyDV e) AttrWriteMask i x"
definition writeWriteMaskAsync :: "attr_env \<Rightarrow> 'u write_sender \<Rightarrow> NodeId \<Rightarrow> 32 word Bitmask \<Rightarrow> (u32, mem \<times> 'u, 'x) token \<Rightarrow> (mem \<times> 'u, 'x) op" where
  "writeWriteMaskAsync e send i x tok = writeAttributeAsyncImpl send (\<lambda>v. on_mem (ah_to (Handler_WriteMask e) v)) (destroyDV e) AttrWriteMask i x tok"

definition readUserWriteMask :: "attr_env \<Rightarrow> 'u attr_connection \<Rightarrow> NodeId \<Rightarrow> (mem \<times> 'u, 32 word Bitmask Result) op" where
  "readUserWriteMask e c i = readAttributeImpl (cn_read c) (ah_from (Handler_UserWriteMask e)) AttrUserWriteMask i"
definition readUserWriteMaskAsync :: "attr_env \<Rightarrow> 'u read_sender \<Rightarrow> NodeId \<Rightarrow> (32 word Bitmask Result, mem \<times> 'u, 'x) token \<Rightarrow> (mem \<times> 'u, 'x) op" where
  "readUserWriteMaskAsync e send i tok = readAttributeAsyncImpl send (ah_from (Handler_UserWriteMask e)) AttrUserWriteMask i tok"
definition writeUserWriteMask :: "attr_env \<Rightarrow> 'u attr_connection \<Rightarrow> NodeId \<Rightarrow> 32 word Bitmask \<Rightarrow> (mem \<times> 'u, u32) op" where
  "writeUserWriteMask e c i x = writeAttributeImpl (cn_write c) (\<lambda>v. on_mem (ah_to (Handler_UserWriteMask e) v)) (destroyDV e) AttrUserWriteMask i x"
definition writeUserWriteMaskAsync :: "attr_env \<Rightarrow> 'u write_sender \<Rightarrow> NodeId \<Rightarrow> 32 word Bitmask \<Rightarrow> (u32, mem \<times> 'u, 'x) token \<Rightarrow> (mem \<times> 'u, 'x) op" where
  "writeUserWriteMaskAsync e send i x tok = writeAttributeAsyncImpl send (\<lambda>v. on_mem (ah_to (Handler_UserWriteMask e) v)) (destroyDV e) AttrUserWriteMask i x tok"

definition readIsAbstract :: "attr_env \<Rightarrow> 'u attr_connection \<Rightarrow> NodeId \<Rightarrow> (mem \<times> 'u, bool Result) op" where
  "readIsAbstract e c i = readAttributeImpl (cn_read c) (ah_from (Handler_IsAbstract e)) AttrIsAbstract i"
definition readIsAbstractAsync :: "attr_env \<Rightarrow> 'u read_sender \<Rightarrow> NodeId \<Rightarrow> (bool Result, mem \<times> 'u, 'x) token \<Rightarrow> (mem \<times> 'u, 'x) op" where
  "readIsAbstractAsync e send i tok = readAttributeAsyncImpl send (ah_from (Handler_IsAbstract e)) AttrIsAbstract i tok"
definition writeIsAbstract :: "attr_env \<Rightarrow> 'u attr_connection \<Rightarrow> NodeId \<Rightarrow> bool \<Rightarrow> (mem \<times> 'u, u32) op" where
  "writeIsAbstract e c i x = writeAttributeImpl (cn_write c) (\<lambda>v. on_mem (ah_to (Handler_IsAbstract e) v)) (destroyDV e) AttrIsAbstract i x"
definition writeIsAbstractAsync :: "attr_env \<Rightarrow> 'u write_sender \<Rightarrow> NodeId \<Rightarrow> bool \<Rightarrow> (u32, mem \<times> 'u, 'x) token \<Rightarrow> (mem \<times> 'u, 'x) op" where
  "writeIsAbstractAsync e send i x tok = writeAttributeAsyncImpl send (\<lambda>v. on_mem (ah_to (Handler_IsAbstract e) v)) (destroyDV e) AttrIsAbstract i x tok"

definition readSymmetric :: "attr_env \<Rightarrow> 'u attr_connection \<Rightarrow> NodeId \<Rightarrow> (mem \<times> 'u, bool Result) op" where
  "readSymmetric e c i = readAttributeImpl (cn_read c) (ah_from (Handler_Symmetric e)) AttrSymmetric i"
definition readSymmetricAsync :: "attr_env \<Rightarrow> 'u read_sender \<Rightarrow> NodeId \<Rightarrow> (bool Result, mem \<times> 'u, 'x) token \<Rightarrow> (mem \<times> 'u, 'x) op" where
  "readSymmetricAsync e send i tok = readAttributeAsyncImpl send (ah_from (Handler_Symmetric e)) AttrSymmetric i tok"
definition writeSymmetric :: "attr_env \<Rightarrow> 'u attr_connection \<Rightarrow> NodeId \<Rightarrow> bool \<Rightarrow> (mem \<times> 'u, u32) op" where
  "writeSymmetric e c i x = writeAttributeImpl (cn_write c) (\<lambda>v. on_mem (ah_to (Handler_Symmetric e) v)) (destroyDV e) AttrSymmetric i x"
definition writeSymmetricAsync :: "attr_env \<Rightarrow> 'u write_sender \<Rightarrow> NodeId \<Rightarrow> bool \<Rightarrow> (u32, mem \<times> 'u, 'x) token \<Rightarrow> (mem \<times> 'u, 'x) op" where
  "writeSymmetricAsync e send i x tok = writeAttributeAsyncImpl send (\<lambda>v. on_mem (ah_to (Handler_Symmetric e) v)) (destroyDV e) AttrSymmetric i x tok"

definition readInverseName :: "attr_env \<Rightarrow> 'u attr_connection \<Rightarrow> NodeId \<Rightarrow> (mem \<times> 'u, LocalizedText Result) op" where
  "readInverseName e c i = readAttributeImpl (cn_read c) (ah_from (Handler_InverseName e)) AttrInverseName i"
definition readInverseNameAsync :: "attr_env \<Rightarrow> 'u read_sender \<Rightarrow> NodeId \<Rightarrow> (LocalizedText Result, mem \<times> 'u, 'x) token \<Rightarrow> (mem \<times> 'u, 'x) op" where
  "readInverseNameAsync e send i tok = readAttributeAsyncImpl send (ah_from (Handler_InverseName e)) AttrInverseName i tok"
definition writeInverseName :: "attr_env \<Rightarrow> 'u attr_connection \<Rightarrow> NodeId \<Rightarrow> LocalizedText \<Rightarrow> (mem \<times> 'u, u32) op" where
  "writeInverseName e c i x = writeAttributeImpl (cn_write c) (\<lambda>v. on_mem (ah_to (Handler_InverseName e) v)) (destroyDV e) AttrInverseName i x"
definition writeInverseNameAsync :: "attr_env \<Rightarrow> 'u write_sender \<Rightarrow> NodeId \<Rightarrow> LocalizedText \<Rightarrow> (u32, mem \<times> 'u, 'x) token \<Rightarrow> (mem \<times> 'u, 'x) op" where
  "writeInverseNameAsync e send i x tok = writeAttributeAsyncImpl send (\<lambda>v. on_mem (ah_to (Handler_InverseName e) v)) (destroyDV e) AttrInverseName i x tok"

definition readContainsNoLoops :: "attr_env \<Rightarrow> 'u attr_connection \<Rightarrow> NodeId \<Rightarrow> (mem \<times> 'u, bool Result) op" where
  "readContainsNoLoops e c i = readAttributeImpl (cn_read c) (ah_from (Handler_ContainsNoLoops e)) AttrContainsNoLoops i"
definition readContainsNoLoopsAsync :: "attr_env \<Rightarrow> 'u read_sender \<Rightarrow> NodeId \<Rightarrow> (bool Result, mem \<times> 'u, 'x) token \<Rightarrow> (mem \<times> 'u, 'x) op" where
  "readContainsNoLoopsAsync e send i tok = readAttributeAsyncImpl send (ah_from (Handler_ContainsNoLoops e)) AttrContainsNoLoops i tok"
definition writeContainsNoLoops :: "attr_env \<Rightarrow> 'u attr_connection \<Rightarrow> NodeId \<Rightarrow> bool \<Rightarrow> (mem \<times> 'u, u32) op" where
  "writeContainsNoLoops e c i x = writeAttributeImpl (cn_write c) (\<lambda>v. on_mem (ah_to (Handler_ContainsNoLoops e) v)) (destroyDV e) AttrContainsNoLoops i x"
definition writeContainsNoLoopsAsync :: "attr_env \<Rightarrow> 'u write_sender \<Rightarrow> NodeId \<Rightarrow> bool \<Rightarrow> (u32, mem \<times> 'u, 'x) token \<Rightarrow> (mem \<times> 'u, 'x) op" where
  "writeContainsNoLoopsAsync e send i x tok = writeAttributeAsyncImpl send (\<lambda>v. on_mem (ah_to (Handler_ContainsNoLoops e) v)) (destroyDV e) AttrContainsNoLoops i x tok"

definition readEventNotifier :: "attr_env \<Rightarrow> 'u attr_connection \<Rightarrow> NodeId \<Rightarrow> (mem \<times> 'u, 8 word Bitmask Result) op" where
  "readEventNotifier e c i = readAttributeImpl (cn_read c) (ah_from (Handler_EventNotifier e)) AttrEventNotifier i"
definition readEventNotifierAsync :: "attr_env \<Rightarrow> 'u read_sender \<Rightarrow> NodeId \<Rightarrow> (8 word Bitmask Result, mem \<times> 'u, 'x) token \<Rightarrow> (mem \<times> 'u, 'x) op" where
  "readEventNotifierAsync e send i tok = readAttributeAsyncImpl send (ah_from (Handler_EventNotifier e)) AttrEventNotifier i tok"
definition writeEventNotifier :: "attr_env \<Rightarrow> 'u attr_connection \<Rightarrow> NodeId \<Rightarrow> 8 word Bitmask \<Rightarrow> (mem \<times> 'u, u32) op" where
  "writeEventNotifier e c i x = writeAttributeImpl (cn_write c) (\<lambda>v. on_mem (ah_to (Handler_EventNotifier e) v)) (destroyDV e) AttrEventNotifier i x"
definition writeEventNotifierAsync :: "attr_env \<Rightarrow> 'u write_sender \<Rightarrow> NodeId \<Rightarrow> 8 word Bitmask \<Rightarrow> (u32, mem \<times> 'u, 'x) token \<Rightarrow> (mem \<times> 'u, 'x) op" where
  "writeEventNotifierAsync e send i x tok = writeAttributeAsyncImpl send (\<lambda>v. on_mem (ah_to (Handler_EventNotifier e) v)) (destroyDV e) AttrEventNotifier i x tok"

definition readValue :: "attr_env \<Rightarrow> 'u attr_connection \<Rightarrow> NodeId \<Rightarrow> (mem \<times> 'u, attr_value Variant Result) op" where
  "readValue e c i = readAttributeImpl (cn_read c) (ah_from Handler_Value) AttrValue i"
definition readValueAsync :: "attr_env \<Rightarrow> 'u read_sender \<Rightarrow> NodeId \<Rightarrow> (attr_value Variant Result, mem \<times> 'u, 'x) token \<Rightarrow> (mem \<times> 'u, 'x) op" where
  "readValueAsync e send i tok = readAttributeAsyncImpl send (ah_from Handler_Value) AttrValue i tok"
definition writeValue :: "attr_env \<Rightarrow> 'u attr_connection \<Rightarrow> NodeId \<Rightarrow> attr_value Variant \<Rightarrow> (mem \<times> 'u, u32) op" where
  "writeValue e c i x = writeAttributeImpl (cn_write c) (\<lambda>v. on_mem (ah_to Handler_Value v)) (destroyDV e) AttrValue i x"
definition writeValueAsync :: "attr_env \<Rightarrow> 'u write_sender \<Rightarrow> NodeId \<Rightarrow> attr_value Variant \<Rightarrow> (u32, mem \<times> 'u, 'x) token \<Rightarrow> (mem \<times> 'u, 'x) op" where
  "writeValueAsync e send i x tok = writeAttributeAsyncImpl send (\<lambda>v. on_mem (ah_to Handler_Value v)) (destroyDV e) AttrValue i x tok"

definition readDataType :: "attr_env \<Rightarrow> 'u attr_connection \<Rightarrow> NodeId \<Rightarrow> (mem \<times> 'u, NodeId Result) op" where
  "readDataType e c i = readAttributeImpl (cn_read c) (ah_from (Handler_DataType e)) AttrDataType i"
definition readDataTypeAsync :: "attr_env \<Rightarrow> 'u read_sender \<Rightarrow> NodeId \<Rightarrow> (NodeId Result, mem \<times> 'u, 'x) token \<Rightarrow> (mem \<times> 'u, 'x) op" where
  "readDataTypeAsync e send i tok = readAttributeAsyncImpl send (ah_from (Handler_DataType e)) AttrDataType i tok"
definition writeDataType :: "attr_env \<Rightarrow> 'u attr_connection \<Rightarrow> NodeId \<Rightarrow> NodeId \<Rightarrow> (mem \<times> 'u, u32) op" where
  "writeDataType e c i x = writeAttributeImpl (cn_write c) (\<lambda>v. on_mem (ah_to (Handler_DataType e) v)) (destroyDV e) AttrDataType i x"
definition writeDataTypeAsync :: "attr_env \<Rightarrow> 'u write_sender \<Rightarrow> NodeId \<Rightarrow> NodeId \<Rightarrow> (u32, mem \<times> 'u, 'x) token \<Rightarrow> (mem \<times> 'u, 'x) op" where
  "writeDataTypeAsync e send i x tok = writeAttributeAsyncImpl send (\<lambda>v. on_mem (ah_to (Handler_DataType e) v)) (destroyDV e) AttrDataType i x tok"

definition readValueRank :: "attr_env \<Rightarrow> 'u attr_connection \<Rightarrow> NodeId \<Rightarrow> (mem \<times> 'u, i32 Result) op" where
  "readValueRank e c i = readAttributeImpl (cn_read c) (ah_from (Handler_ValueRank e)) AttrValueRank i"
definition readValueRankAsync :: "attr_env \<Rightarrow> 'u read_sender \<Rightarrow> NodeId \<Rightarrow> (i32 Result, mem \<times> 'u, 'x) token \<Rightarrow> (mem \<times> 'u, 'x) op" where
  "readValueRankAsync e send i tok = readAttributeAsyncImpl send (ah_from (Handler_ValueRank e)) AttrValueRank i tok"
definition writeValueRank :: "attr_env \<Rightarrow> 'u attr_connection \<Rightarrow> NodeId \<Rightarrow> i32 \<Rightarrow> (mem \<times> 'u, u32) op" where
  "writeValueRank e c i x = writeAttributeImpl (cn_write c) (\<lambda>v. on_mem (ah_to (Handler_ValueRank e) v)) (destroyDV e) AttrValueRank i x"
definition writeValueRankAsync :: "attr_env \<Rightarrow> 'u write_sender \<Rightarrow> NodeId \<Rightarrow> i32 \<Rightarrow> (u32, mem \<times> 'u, 'x) token \<Rightarrow> (mem \<times> 'u, 'x) op" where
  "writeValueRankAsync e send i x tok = writeAttributeAsyncImpl send (\<lambda>v. on_mem (ah_to (Handler_ValueRank e) v)) (destroyDV e) AttrValueRank i x tok"

definition readArrayDimensions :: "attr_env \<Rightarrow> 'u attr_connection \<Rightarrow> NodeId \<Rightarrow> (mem \<times> 'u, u32 list Result) op" where
  "readArrayDimensions e c i = readAttributeImpl (cn_read c) (ah_from (Handler_ArrayDimensions e)) AttrArrayDimensions i"
definition readArrayDimensionsAsync :: "attr_env \<Rightarrow> 'u read_sender \<Rightarrow> NodeId \<Rightarrow> (u32 list Result, mem \<times> 'u, 'x) token \<Rightarrow> (mem \<times> 'u, 'x) op" where
  "readArrayDimensionsAsync e send i tok = readAttributeAsyncImpl send (ah_from (Handler_ArrayDimensions e)) AttrArrayDimensions i tok"
definition writeArrayDimensions :: "attr_env \<Rightarrow> 'u attr_connection \<Rightarrow> NodeId \<Rightarrow> u32 list \<Rightarrow> (mem \<times> 'u, u32) op" where
  "writeArrayDimensions e c i x = writeAttributeImpl (cn_write c) (\<lambda>v. on_mem (ah_to (Handler_ArrayDimensions e) v)) (destroyDV e) AttrArrayDimensions i x"
definition writeArrayDimensionsAsync :: "attr_env \<Rightarrow> 'u write_sender \<Rightarrow> NodeId \<Rightarrow> u32 list \<Rightarrow> (u32, mem \<times> 'u, 'x) token \<Rightarrow> (mem \<times> 'u, 'x) op" where
  "writeArrayDimensionsAsync e send i x tok = writeAttributeAsyncImpl send (\<lambda>v. on_mem (ah_to (Handler_ArrayDimensions e) v)) (destroyDV e) AttrArrayDimensions i x tok"

definition readAccessLevel :: "attr_env \<Rightarrow> 'u attr_connection \<Rightarrow> NodeId \<Rightarrow> (mem \<times> 'u, 8 word Bitmask Result) op" where
  "readAccessLevel e c i = readAttributeImpl (cn_read c) (ah_from (Handler_AccessLevel e)) AttrAccessLevel i"
definition readAccessLevelAsync :: "attr_env \<Rightarrow> 'u read_sender \<Rightarrow> NodeId \<Rightarrow> (8 word Bitmask Result, mem \<times> 'u, 'x) token \<Rightarrow> (mem \<times> 'u, 'x) op" where
  "readAccessLevelAsync e send i tok = readAttributeAsyncImpl send (ah_from (Handler_AccessLevel e)) AttrAccessLevel i tok"
definition writeAccessLevel :: "attr_env \<Rightarrow> 'u attr_connection \<Rightarrow> NodeId \<Rightarrow> 8 word Bitmask \<Rightarrow> (mem \<times> 'u, u32) op" where
  "writeAccessLevel e c i x = writeAttributeImpl (cn_write c) (\<lambda>v. on_mem (ah_to (Handler_AccessLevel e) v)) (destroyDV e) AttrAccessLevel i x"
definition writeAccessLevelAsync :: "attr_env \<Rightarrow> 'u write_sender \<Rightarrow> NodeId \<Rightarrow> 8 word Bitmask \<Rightarrow> (u32, mem \<times> 'u, 'x) token \<Rightarrow> (mem \<times> 'u, 'x) op" where
  "writeAccessLevelAsync e send i x tok = writeAttributeAsyncImpl send (\<lambda>v. on_mem (ah_to (Handler_AccessLevel e) v)) (destroyDV e) AttrAccessLevel i x tok"

definition readUserAccessLevel :: "attr_env \<Rightarrow> 'u attr_connection \<Rightarrow> NodeId \<Rightarrow> (mem \<times> 'u, 8 word Bitmask Result) op" where
  "readUserAccessLevel e c i = readAttributeImpl (cn_read c) (ah_from (Handler_UserAccessLevel e)) AttrUserAccessLevel i"
definition readUserAccessLevelAsync :: "attr_env \<Rightarrow> 'u read_sender \<Rightarrow> NodeId \<Rightarrow> (8 word Bitmask Result, mem \<times> 'u, 'x) token \<Rightarrow> (mem \<times> 'u, 'x) op" where
  "readUserAccessLevelAsync e send i tok = readAttributeAsyncImpl send (ah_from (Handler_UserAccessLevel e)) AttrUserAccessLevel i tok"
definition writeUserAccessLevel :: "attr_env \<Rightarrow> 'u attr_connection \<Rightarrow> NodeId \<Rightarrow> 8 word Bitmask \<Rightarrow> (mem \<times> 'u, u32) op" where
  "writeUserAccessLevel e c i x = writeAttributeImpl (cn_write c) (\<lambda>v. on_mem (ah_to (Handler_UserAccessLevel e) v)) (destroyDV e) AttrUserAccessLevel i x"
definition writeUserAccessLevelAsync :: "attr_env \<Rightarrow> 'u write_sender \<Rightarrow> NodeId \<Rightarrow> 8 word Bitmask \<Rightarrow> (u32, mem \<times> 'u, 'x) token \<Rightarrow> (mem \<times> 'u, 'x) op" where
  "writeUserAccessLevelAsync e send i x tok = writeAttributeAsyncImpl send (\<lambda>v. on_mem (ah_to (Handler_UserAccessLevel e) v)) (destroyDV e) AttrUserAccessLevel i x tok"

definition readMinimumSamplingInterval :: "attr_env \<Rightarrow> 'u attr_connection \<Rightarrow> NodeId \<Rightarrow> (mem \<times> 'u, u64 Result) op" where
  "readMinimumSamplingInterval e c i = readAttributeImpl (cn_read c) (ah_from (Handler_MinimumSamplingInterval e)) AttrMinimumSamplingInterval i"
definition readMinimumSamplingIntervalAsync :: "attr_env \<Rightarrow> 'u read_sender \<Rightarrow> NodeId \<Rightarrow> (u64 Result, mem \<times> 'u, 'x) token \<Rightarrow> (mem \<times> 'u, 'x) op" where
  "readMinimumSamplingIntervalAsync e send i tok = readAttributeAsyncImpl send (ah_from (Handler_MinimumSamplingInterval e)) AttrMinimumSamplingInterval i tok"
definition writeMinimumSamplingInterval :: "attr_env \<Rightarrow> 'u attr_connection \<Rightarrow> NodeId \<Rightarrow> u64 \<Rightarrow> (mem \<times> 'u, u32) op" where
  "writeMinimumSamplingInterval e c i x = writeAttributeImpl (cn_write c) (\<lambda>v. on_mem (ah_to (Handler_MinimumSamplingInterval e) v)) (destroyDV e) AttrMinimumSamplingInterval i x"
definition writeMinimumSamplingIntervalAsync :: "attr_env \<Rightarrow> 'u write_sender \<Rightarrow> NodeId \<Rightarrow> u64 \<Rightarrow> (u32, mem \<times> 'u, 'x) token \<Rightarrow> (mem \<times> 'u, 'x) op" where
  "writeMinimumSamplingIntervalAsync e send i x tok = writeAttributeAsyncImpl send (\<lambda>v. on_mem (ah_to (Handler_MinimumSamplingInterval e) v)) (destroyDV e) AttrMinimumSamplingInterval i x tok"

definition readHistorizing :: "attr_env \<Rightarrow> 'u attr_connection \<Rightarrow> NodeId \<Rightarrow> (mem \<times> 'u, bool Result) op" where
  "readHistorizing e c i = readAttributeImpl (cn_read c) (ah_from (Handler_Historizing e)) AttrHistorizing i"
definition readHistorizingAsync :: "attr_env \<Rightarrow> 'u read_sender \<Rightarrow> NodeId \<Rightarrow> (bool Result, mem \<times> 'u, 'x) token \<Rightarrow> (mem \<times> 'u, 'x) op" where
  "readHistorizingAsync e send i tok = readAttributeAsyncImpl send (ah_from (Handler_Historizing e)) AttrHistorizing i tok"
definition writeHistorizing :: "attr_env \<Rightarrow> 'u attr_connection \<Rightarrow> NodeId \<Rightarrow> bool \<Rightarrow> (mem \<times> 'u, u32) op" where
  "writeHistorizing e c i x = writeAttributeImpl (cn_write c) (\<lambda>v. on_mem (ah_to (Handler_Historizing e) v)) (destroyDV e) AttrHistorizing i x"
definition writeHistorizingAsync :: "attr_env \<Rightarrow> 'u write_sender \<Rightarrow> NodeId \<Rightarrow> bool \<Rightarrow> (u32, mem \<times> 'u, 'x) token \<Rightarrow> (mem \<times> 'u, 'x) op" where
  "writeHistorizingAsync e send i x tok = writeAttributeAsyncImpl send (\<lambda>v. on_mem (ah_to (Handler_Historizing e) v)) (destroyDV e) AttrHistorizing i x tok"

definition readExecutable :: "attr_env \<Rightarrow> 'u attr_connection \<Rightarrow> NodeId \<Rightarrow> (mem \<times> 'u, bool Result) op" where
  "readExecutable e c i = readAttributeImpl (cn_read c) (ah_from (Handler_Executable e)) AttrExecutable i"
definition readExecutableAsync :: "attr_env \<Rightarrow> 'u read_sender \<Rightarrow> NodeId \<Rightarrow> (bool Result, mem \<times> 'u, 'x) token \<Rightarrow> (mem \<times> 'u, 'x) op" where
  "readExecutableAsync e send i tok = readAttributeAsyncImpl send (ah_from (Handler_Executable e)) AttrExecutable i tok"
definition writeExecutable :: "attr_env \<Rightarrow> 'u attr_connection \<Rightarrow> NodeId \<Rightarrow> bool \<Rightarrow> (mem \<times> 'u, u32) op" where
  "writeExecutable e c i x = writeAttributeImpl (cn_write c) (\<lambda>v. on_mem (ah_to (Handler_Executable e) v)) (destroyDV e) AttrExecutable i x"
definition writeExecutableAsync :: "attr_env \<Rightarrow> 'u write_sender \<Rightarrow> NodeId \<Rightarrow> bool \<Rightarrow> (u32, mem \<times> 'u, 'x) token \<Rightarrow> (mem \<times> 'u, 'x) op" where
  "writeExecutableAsync e send i x tok = writeAttributeAsyncImpl send (\<lambda>v. on_mem (ah_to (Handler_Executable e) v)) (destroyDV e) AttrExecutable i x tok"

definition readUserExecutable :: "attr_env \<Rightarrow> 'u attr_connection \<Rightarrow> NodeId \<Rightarrow> (mem \<times> 'u, bool Result) op" where
  "readUserExecutable e c i = readAttributeImpl (cn_read c) (ah_from (Handler_UserExecutable e)) AttrUserExecutable i"
definition readUserExecutableAsync :: "attr_env \<Rightarrow> 'u read_sender \<Rightarrow> NodeId \<Rightarrow> (bool Result, mem \<times> 'u, 'x) token \<Rightarrow> (mem \<times> 'u, 'x) op" where
  "readUserExecutableAsync e send i tok = readAttributeAsyncImpl send (ah_from (Handler_UserExecutable e)) AttrUserExecutable i tok"
definition writeUserExecutable :: "attr_env \<Rightarrow> 'u attr_connection \<Rightarrow> NodeId \<Rightarrow> bool \<Rightarrow> (mem \<times> 'u, u32) op" where
  "writeUserExecutable e c i x = writeAttributeImpl (cn_write c) (\<lambda>v. on_mem (ah_to (Handler_UserExecutable e) v)) (destroyDV e) AttrUserExecutable i x"
definition writeUserExecutableAsync :: "attr_env \<Rightarrow> 'u write_sender \<Rightarrow> NodeId \<Rightarrow> bool \<Rightarrow> (u32, mem \<times> 'u, 'x) token \<Rightarrow> (mem \<times> 'u, 'x) op" where
  "writeUserExecutableAsync e send i x tok = writeAttributeAsyncImpl send (\<lambda>v. on_mem (ah_to (Handler_UserExecutable e) v)) (destroyDV e) AttrUserExecutable i x tok"

definition readDataTypeDefinition :: "attr_env \<Rightarrow> 'u attr_connection \<Rightarrow> NodeId \<Rightarrow> (mem \<times> 'u, attr_value Variant Result) op" where
  "readDataTypeDefinition e c i = readAttributeImpl (cn_read c) (ah_from Handler_DataTypeDefinition) AttrDataTypeDefinition i"
definition readDataTypeDefinitionAsync :: "attr_env \<Rightarrow> 'u read_sender \<Rightarrow> NodeId \<Rightarrow> (attr_value Variant Result, mem \<times> 'u, 'x) token \<Rightarrow> (mem \<times> 'u, 'x) op" where
  "readDataTypeDefinitionAsync e send i tok = readAttributeAsyncImpl send (ah_from Handler_DataTypeDefinition) AttrDataTypeDefinition i tok"

text \<open>The whole data value of the \<open>Value\<close> attribute, with both timestamps.\<close>

definition readDataValue :: "('v, 'w) connection \<Rightarrow> NodeId \<Rightarrow> ('w, 'v DataValue Result) op" where
  "readDataValue c i = cn_read c i AttrValue TsBoth"
definition readDataValueAsync ::
  "(ReadRequest \<Rightarrow> ('v DataValue Response, 'w) initiation) \<Rightarrow> NodeId \<Rightarrow> ('v DataValue Result, 'w, 'x) token \<Rightarrow> ('w, 'x) op" where
  "readDataValueAsync send i tok = readAttributeAsync send i AttrValue TsBoth tok"
definition writeDataValue :: "('v, 'w) connection \<Rightarrow> NodeId \<Rightarrow> 'v DataValue \<Rightarrow> ('w, u32) op" where
  "writeDataValue c i d = cn_write c i AttrValue d"
definition writeDataValueAsync ::
  "('v WriteValue list \<Rightarrow> (u32 Response, 'w) initiation) \<Rightarrow> NodeId \<Rightarrow> 'v DataValue \<Rightarrow> (u32, 'w, 'x) token \<Rightarrow> ('w, 'x) op" where
  "writeDataValueAsync send i d tok = writeAttributeAsync send i AttrValue d tok"

section \<open>What is written is read back\<close>

text \<open>A deep copy of a variant owns its elements. A server stores what it accepts and returns it, without timestamps when none are
  asked for, until it is changed.\<close>

definition server_copy :: "'v Variant \<Rightarrow> 'v Variant" where
  "server_copy v = v\<lparr>v_storage := UA_VARIANT_DATA\<rparr>"

definition stores :: "'u attr_connection \<Rightarrow> bool" where
  "stores c = (\<forall>i a d m u k m' u'. cn_write c i a d (m, u) = (Ret k, (m', u')) \<and> \<not> isBad k \<longrightarrow>
     (\<forall>m2. \<exists>w. cn_read c i a TsNeither (m2, u')
        = (Ret (Result_of (zero_DataValue\<lparr>dv_value := server_copy (dv_value d), dv_hasValue := True\<rparr>) UA_STATUSCODE_GOOD), w)))"

definition env_ok :: "attr_env \<Rightarrow> bool" where
  "env_ok e = (variant_api (ae_api e) \<and> value_source (ae_own e) (ae_copy e) (\<lambda>x. x))"

text \<open>A handler is faithful on a value if the decoder reads the stored form of what the encoder makes of it.\<close>

definition faithful :: "'x attr_handler \<Rightarrow> 'x \<Rightarrow> bool" where
  "faithful h x = (\<forall>m d m'. ah_to h x m = (Ret d, m') \<longrightarrow>
     ah_from h (zero_DataValue\<lparr>dv_value := server_copy (dv_value d), dv_hasValue := True\<rparr>) = Ret (Result_of x UA_STATUSCODE_GOOD))"

lemma server_copy_owned: "\<not> isBorrowed v \<Longrightarrow> server_copy v = v"
  by (cases "v_storage v") (simp_all add: server_copy_def isBorrowed_def)

lemma stored_DataValue: "zero_DataValue\<lparr>dv_value := v, dv_hasValue := True\<rparr> = DataValue_of v"
  by (simp add: DataValue_of_def setValue_def)

lemma faithful_scalar:
  assumes "env_ok e" "unwrap (wrap x) = x"
  shows "faithful (HandlerScalar e t wrap unwrap) x"
proof -
  have env: "variant_api (ae_api e)" "value_source (ae_own e) (ae_copy e) (\<lambda>x. x)" using assms(1) by (simp_all add: env_ok_def)
  show ?thesis
    unfolding faithful_def
  proof (intro allI impI)
    fix m d m' assume "ah_to (HandlerScalar e t wrap unwrap) x m = (Ret d, m')"
    then have "scalar_toDataValue (ae_own e) (ae_copy e) t (wrap x) m = (Ret d, m')" by (simp add: HandlerScalar_def enum_toDataValue_def)
    from scalar_encoded[OF env this] obtain v where v: "d = DataValue_of v" "reads_scalar (ae_api e) t (wrap x) v" by auto
    then have "server_copy (dv_value d) = v" by (simp add: server_copy_owned reads_scalar_def)
    then show "ah_from (HandlerScalar e t wrap unwrap) (zero_DataValue\<lparr>dv_value := server_copy (dv_value d), dv_hasValue := True\<rparr>)
        = Ret (Result_of x UA_STATUSCODE_GOOD)"
      using scalar_decoded[OF v(2)] assms(2)
      by (simp add: stored_DataValue HandlerScalar_def enum_fromDataValue_def transform_Some Result_of_def)
  qed
qed

lemma faithful_bitmask: "env_ok e \<Longrightarrow> (\<And>w. unwrap (wrap w) = w) \<Longrightarrow> faithful (HandlerBitmask e t wrap unwrap) x"
  unfolding HandlerBitmask_def by (rule faithful_scalar) (simp_all add: bm_of_def bm_get_def)

lemma faithful_dims: "env_ok e \<Longrightarrow> faithful (Handler_ArrayDimensions e) xs"
  unfolding faithful_def
proof (intro allI impI)
  fix m d m' assume e: "env_ok e" and run: "ah_to (Handler_ArrayDimensions e) xs m = (Ret d, m')"
  have env: "variant_api (ae_api e)" "value_source (ae_own e) (ae_copy e) (\<lambda>x. x)" using e by (simp_all add: env_ok_def)
  have "array_toDataValue (ae_own e) (ae_copy e) u32_vtype (map AvUInt32 xs) m = (Ret d, m')"
    using run by (simp add: Handler_ArrayDimensions_def)
  from array_encoded[OF env this] obtain v where v: "d = DataValue_of v" "reads_array (ae_api e) u32_vtype (map AvUInt32 xs) v" by auto
  then have "server_copy (dv_value d) = v" by (simp add: server_copy_owned reads_array_def)
  then show "ah_from (Handler_ArrayDimensions e) (zero_DataValue\<lparr>dv_value := server_copy (dv_value d), dv_hasValue := True\<rparr>)
      = Ret (Result_of xs UA_STATUSCODE_GOOD)"
    using array_decoded[OF v(2)]
    by (simp add: stored_DataValue Handler_ArrayDimensions_def from_ArrayDimensions_def transform_Some Result_of_def comp_def)
qed

lemma faithful_variant: "\<not> isBorrowed v \<Longrightarrow> faithful HandlerVariant v"
  by (cases v) (simp add: faithful_def HandlerVariant_def variant_fromDataValue_def variant_toDataValue_def stored_DataValue getVariant_cases
      server_copy_def isBorrowed_def, cases "v_storage v", simp_all)

lemmas handlers_faithful = faithful_scalar faithful_bitmask

lemma write_read:
  assumes "stores c" "faithful h x" "writeAttributeImpl (cn_write c) (\<lambda>v. on_mem (ah_to h v)) (destroyDV e) a i x (m, u) = (Ret k, w)" "\<not> isBad k"
  shows "\<exists>w'. readAttributeImpl (cn_read c) (ah_from h) a i w = (Ret (Result_of x UA_STATUSCODE_GOOD), w')"
proof -
  obtain r m1 where enc: "ah_to h x m = (r, m1)" by fastforce
  then obtain d where r: "r = Ret d"
    using assms(3) by (cases r) (auto simp: writeAttributeImpl_def op_noexcept_def on_mem_def op_bind_def noexcept_def split: fault.splits)
  obtain q m2 u2 where wr: "cn_write c i a d (m1, u) = (q, (m2, u2))" by (metis surj_pair)
  have q: "q = Ret k" "w = (fst (destroyDV e d (m2, u2)), u2)"
    using assms(3) by (auto simp: writeAttributeImpl_def op_noexcept_def on_mem_def op_bind_def enc r wr destroyDV_def noexcept_def
        split: sum.splits fault.splits)
  obtain w' where "cn_read c i a TsNeither w
      = (Ret (Result_of (zero_DataValue\<lparr>dv_value := server_copy (dv_value d), dv_hasValue := True\<rparr>) UA_STATUSCODE_GOOD), w')"
    using assms(1,4) wr unfolding stores_def q by blast
  moreover have "ah_from h (zero_DataValue\<lparr>dv_value := server_copy (dv_value d), dv_hasValue := True\<rparr>) = Ret (Result_of x UA_STATUSCODE_GOOD)"
    using assms(2) enc r unfolding faithful_def by blast
  ultimately show ?thesis by (simp add: readAttributeImpl_def op_bind_def andThen_Some)
qed

section \<open>Properties\<close>

definition reads_back :: "(mem \<times> 'u, u32) op \<Rightarrow> (mem \<times> 'u, 'x Result) op \<Rightarrow> 'x \<Rightarrow> bool" where
  "reads_back wr rd x = (\<forall>w k w'. wr w = (Ret k, w') \<and> \<not> isBad k \<longrightarrow> (\<exists>w''. rd w' = (Ret (Result_of x UA_STATUSCODE_GOOD), w'')))"

lemma reads_back_handler:
  assumes "stores c" "faithful h x"
  shows "reads_back (writeAttributeImpl (cn_write c) (\<lambda>v. on_mem (ah_to h v)) (destroyDV e) a i x) (readAttributeImpl (cn_read c) (ah_from h) a i) x"
  using write_read[OF assms] by (auto simp: reads_back_def)

lemmas write_attribute_defs =
  writeBrowseName_def readBrowseName_def writeDisplayName_def readDisplayName_def writeDescription_def readDescription_def
  writeWriteMask_def readWriteMask_def writeUserWriteMask_def readUserWriteMask_def writeIsAbstract_def readIsAbstract_def
  writeSymmetric_def readSymmetric_def writeInverseName_def readInverseName_def writeContainsNoLoops_def
  readContainsNoLoops_def writeEventNotifier_def readEventNotifier_def writeDataType_def readDataType_def writeValueRank_def
  readValueRank_def writeArrayDimensions_def readArrayDimensions_def writeAccessLevel_def readAccessLevel_def
  writeUserAccessLevel_def readUserAccessLevel_def writeMinimumSamplingInterval_def readMinimumSamplingInterval_def
  writeHistorizing_def readHistorizing_def writeExecutable_def readExecutable_def writeUserExecutable_def
  readUserExecutable_def writeValue_def readValue_def

lemmas handler_defs =
  Handler_BrowseName_def Handler_DisplayName_def Handler_Description_def Handler_WriteMask_def Handler_UserWriteMask_def
  Handler_IsAbstract_def Handler_Symmetric_def Handler_InverseName_def Handler_ContainsNoLoops_def Handler_EventNotifier_def
  Handler_DataType_def Handler_ValueRank_def Handler_AccessLevel_def Handler_UserAccessLevel_def
  Handler_MinimumSamplingInterval_def Handler_Historizing_def Handler_Executable_def Handler_UserExecutable_def
  Handler_Value_def

text \<open>Over a connection that stores what it accepts, each of the twenty writable attributes is read back as it was written by
  the functions of the same name, whatever the memory: the handlers of both sides fit together in type, category and
  representation. An encoder that finds no memory ends the process, since the write functions are \<open>noexcept\<close>.\<close>

theorem attributes_written_are_read:
  assumes "stores c" "env_ok e" "\<not> isBorrowed v"
  shows "reads_back (writeBrowseName e c i q) (readBrowseName e c i) q
    \<and> reads_back (writeDisplayName e c i t) (readDisplayName e c i) t
    \<and> reads_back (writeDescription e c i t) (readDescription e c i) t
    \<and> reads_back (writeWriteMask e c i b32) (readWriteMask e c i) b32
    \<and> reads_back (writeUserWriteMask e c i b32) (readUserWriteMask e c i) b32
    \<and> reads_back (writeIsAbstract e c i b) (readIsAbstract e c i) b
    \<and> reads_back (writeSymmetric e c i b) (readSymmetric e c i) b
    \<and> reads_back (writeInverseName e c i t) (readInverseName e c i) t
    \<and> reads_back (writeContainsNoLoops e c i b) (readContainsNoLoops e c i) b
    \<and> reads_back (writeEventNotifier e c i b8) (readEventNotifier e c i) b8
    \<and> reads_back (writeDataType e c i j) (readDataType e c i) j
    \<and> reads_back (writeValueRank e c i n) (readValueRank e c i) n
    \<and> reads_back (writeArrayDimensions e c i ds) (readArrayDimensions e c i) ds
    \<and> reads_back (writeAccessLevel e c i b8) (readAccessLevel e c i) b8
    \<and> reads_back (writeUserAccessLevel e c i b8) (readUserAccessLevel e c i) b8
    \<and> reads_back (writeMinimumSamplingInterval e c i ms) (readMinimumSamplingInterval e c i) ms
    \<and> reads_back (writeHistorizing e c i b) (readHistorizing e c i) b
    \<and> reads_back (writeExecutable e c i b) (readExecutable e c i) b
    \<and> reads_back (writeUserExecutable e c i b) (readUserExecutable e c i) b
    \<and> reads_back (writeValue e c i v) (readValue e c i) v
    \<and> (\<forall>m u. (\<exists>x. fst (ah_to (Handler_DisplayName e) t m) = throw x) \<longrightarrow> fst (writeDisplayName e c i t (m, u)) = Inl Terminate)"
proof (intro conjI allI impI)
  have v: "faithful Handler_Value v" unfolding Handler_Value_def by (rule faithful_variant[OF assms(3)])
  show "reads_back (writeValue e c i v) (readValue e c i) v"
    unfolding writeValue_def readValue_def by (rule reads_back_handler[OF assms(1) v])
  show "reads_back (writeArrayDimensions e c i ds) (readArrayDimensions e c i) ds"
    unfolding writeArrayDimensions_def readArrayDimensions_def by (rule reads_back_handler[OF assms(1) faithful_dims[OF assms(2)]])
  show "fst (writeDisplayName e c i t (m, u)) = Inl Terminate" if "\<exists>x. fst (ah_to (Handler_DisplayName e) t m) = throw x" for m u
    using that by (auto simp: writeDisplayName_def writeAttributeImpl_def op_noexcept_def on_mem_def op_bind_def split: prod.splits)
qed (unfold write_attribute_defs handler_defs, (rule reads_back_handler[OF assms(1)],
    rule faithful_scalar[OF assms(2)] faithful_bitmask[OF assms(2)], simp)+)

text \<open>A server that is the table of its values.\<close>

definition table_connection :: "(NodeId \<times> AttributeId \<Rightarrow> attr_value DataValue) attr_connection" where
  "table_connection = \<lparr>cn_read = (\<lambda>i a ts w. (Ret (Result_of (snd w (i, a)) UA_STATUSCODE_GOOD), w)),
     cn_write = (\<lambda>i a d w. (Ret UA_STATUSCODE_GOOD, (fst w, (snd w)((i, a) := zero_DataValue\<lparr>dv_value := server_copy (dv_value d), dv_hasValue := True\<rparr>)))),
     cn_call = (\<lambda>_ _ _. op_ret zero_CallMethodResult), cn_browse = (\<lambda>_ _. op_ret zero_BrowseResult),
     cn_browseNext = (\<lambda>_ _. op_ret zero_BrowseResult), cn_translate = (\<lambda>_. op_ret zero_BrowsePathResult),
     cn_addNode = (\<lambda>_ _ i _ _ _ _. op_ret (Result_of i UA_STATUSCODE_GOOD)), cn_addReference = (\<lambda>_ _ _ _. op_ret UA_STATUSCODE_GOOD),
     cn_deleteNode = (\<lambda>_ _. op_ret UA_STATUSCODE_GOOD), cn_deleteReference = (\<lambda>_ _ _ _ _. op_ret UA_STATUSCODE_GOOD)\<rparr>"

definition demo_env :: attr_env where
  "demo_env = \<lparr>ae_api = doc_api, ae_store = (\<lambda>_. None), ae_own = (\<lambda>_. 0), ae_copy = copy_pointer_free\<rparr>"

lemma stores_table: "stores table_connection"
  by (simp add: stores_def table_connection_def)

lemma demo_env_ok: "env_ok demo_env"
  using flat_source.value_source_axioms by (simp add: env_ok_def demo_env_def variant_api_doc)

theorem attributes_written_are_read_witness:
  "reads_back (writeEventNotifier demo_env table_connection (ns0 85) (bm_of 5)) (readEventNotifier demo_env table_connection (ns0 85)) (bm_of 5)
   \<and> (let w = snd (writeValueRank demo_env table_connection (ns0 85) 3 (\<lparr>budget = 4, live = 0\<rparr>, \<lambda>_. zero_DataValue)) in
       fst (readValueRank demo_env table_connection (ns0 85) w) = Ret (Result_of 3 UA_STATUSCODE_GOOD))"
proof -
  have nb: "\<not> isBorrowed zero_variant" by (simp add: isBorrowed_def zero_variant_def)
  note p = attributes_written_are_read[OF stores_table demo_env_ok nb]
  have e: "reads_back (writeEventNotifier demo_env table_connection (ns0 85) (bm_of 5)) (readEventNotifier demo_env table_connection (ns0 85)) (bm_of 5)"
    "reads_back (writeValueRank demo_env table_connection (ns0 85) 3) (readValueRank demo_env table_connection (ns0 85)) 3"
    by (simp_all only: p)
  have w: "fst (writeValueRank demo_env table_connection (ns0 85) 3 (\<lparr>budget = 4, live = 0\<rparr>, \<lambda>_. zero_DataValue)) = Ret UA_STATUSCODE_GOOD"
    by code_simp
  have "\<not> isBad UA_STATUSCODE_GOOD" by (simp add: status_codes isBad_def)
  then show ?thesis using e w unfolding reads_back_def by (metis fst_conv prod.collapse)
qed

end
