(* ===== verification/Nodes.thy ===== *)
theory Nodes
  imports Attributes
begin

text \<open>
  Node management and the class \<open>Node\<close> (\<open>services/nodemanagement.hpp\<close>, \<open>services_nodemanagement.cpp\<close>, \<open>node.hpp\<close>,
  \<open>node.cpp\<close>): the functions that add nodes of each class, synchronously and asynchronously, and the methods of a node object,
  which call the service functions for its id and turn bad codes into exceptions. The descriptions of the attribute types are
  data of the C library, hence parameters; attribute structures are given by their addresses.
\<close>

section \<open>Adding nodes\<close>

record attr_types =
  ty_Object :: vtype
  ty_Variable :: vtype
  ty_Method :: vtype
  ty_ObjectType :: vtype
  ty_VariableType :: vtype
  ty_ReferenceType :: vtype
  ty_DataType :: vtype
  ty_View :: vtype

definition with_attributes :: "vtype \<Rightarrow> nat \<Rightarrow> ('v ExtensionObject \<Rightarrow> ('w, 'x) op) \<Rightarrow> ('w, 'x) op" where
  "with_attributes ty a f = op_bind (op_lift (wrapNodeAttributes (t_size ty) a ty)) f"

definition FolderType :: NodeId where "FolderType = ns0 61"
definition PropertyType :: NodeId where "PropertyType = ns0 68"
definition HasProperty :: NodeId where "HasProperty = ns0 46"
definition HasModellingRule :: NodeId where "HasModellingRule = ns0 37"

type_synonym ('v, 'w) add_sender = "'v AddNodesItem list \<Rightarrow> (AddNodesResult Response, 'w) initiation"

definition addObject :: "attr_types \<Rightarrow> ('v, 'w) connection \<Rightarrow> NodeId \<Rightarrow> NodeId \<Rightarrow> string option \<Rightarrow> nat \<Rightarrow> NodeId \<Rightarrow> NodeId \<Rightarrow> ('w, NodeId Result) op" where
  "addObject ts c parent i name a typ ref =
     with_attributes (ty_Object ts) a (\<lambda>x. cn_addNode c NcObject parent i name x typ ref)"
definition addObjectAsync :: "attr_types \<Rightarrow> ('v, 'w) add_sender \<Rightarrow> NodeId \<Rightarrow> NodeId \<Rightarrow> string option \<Rightarrow> nat \<Rightarrow> NodeId \<Rightarrow> NodeId \<Rightarrow> (NodeId Result, 'w, 'x) token \<Rightarrow> ('w, 'x) op" where
  "addObjectAsync ts send parent i name a typ ref tok =
     with_attributes (ty_Object ts) a (\<lambda>x. addNodeAsync send NcObject parent i name x typ ref tok)"

definition addFolder :: "attr_types \<Rightarrow> ('v, 'w) connection \<Rightarrow> NodeId \<Rightarrow> NodeId \<Rightarrow> string option \<Rightarrow> nat \<Rightarrow> NodeId \<Rightarrow> ('w, NodeId Result) op" where
  "addFolder ts c parent i name a ref =
     addObject ts c parent i name a FolderType ref"
definition addFolderAsync :: "attr_types \<Rightarrow> ('v, 'w) add_sender \<Rightarrow> NodeId \<Rightarrow> NodeId \<Rightarrow> string option \<Rightarrow> nat \<Rightarrow> NodeId \<Rightarrow> (NodeId Result, 'w, 'x) token \<Rightarrow> ('w, 'x) op" where
  "addFolderAsync ts send parent i name a ref tok =
     addObjectAsync ts send parent i name a FolderType ref tok"

definition addVariable :: "attr_types \<Rightarrow> ('v, 'w) connection \<Rightarrow> NodeId \<Rightarrow> NodeId \<Rightarrow> string option \<Rightarrow> nat \<Rightarrow> NodeId \<Rightarrow> NodeId \<Rightarrow> ('w, NodeId Result) op" where
  "addVariable ts c parent i name a typ ref =
     with_attributes (ty_Variable ts) a (\<lambda>x. cn_addNode c NcVariable parent i name x typ ref)"
definition addVariableAsync :: "attr_types \<Rightarrow> ('v, 'w) add_sender \<Rightarrow> NodeId \<Rightarrow> NodeId \<Rightarrow> string option \<Rightarrow> nat \<Rightarrow> NodeId \<Rightarrow> NodeId \<Rightarrow> (NodeId Result, 'w, 'x) token \<Rightarrow> ('w, 'x) op" where
  "addVariableAsync ts send parent i name a typ ref tok =
     with_attributes (ty_Variable ts) a (\<lambda>x. addNodeAsync send NcVariable parent i name x typ ref tok)"

definition addProperty :: "attr_types \<Rightarrow> ('v, 'w) connection \<Rightarrow> NodeId \<Rightarrow> NodeId \<Rightarrow> string option \<Rightarrow> nat \<Rightarrow> ('w, NodeId Result) op" where
  "addProperty ts c parent i name a =
     addVariable ts c parent i name a PropertyType HasProperty"
definition addPropertyAsync :: "attr_types \<Rightarrow> ('v, 'w) add_sender \<Rightarrow> NodeId \<Rightarrow> NodeId \<Rightarrow> string option \<Rightarrow> nat \<Rightarrow> (NodeId Result, 'w, 'x) token \<Rightarrow> ('w, 'x) op" where
  "addPropertyAsync ts send parent i name a tok =
     addVariableAsync ts send parent i name a PropertyType HasProperty tok"

text \<open>The client's \<open>addMethod\<close> ignores the callback and the arguments.\<close>

definition addMethod_Client :: "attr_types \<Rightarrow> ('v, 'w) connection \<Rightarrow> NodeId \<Rightarrow> NodeId \<Rightarrow> string option \<Rightarrow> nat \<Rightarrow> NodeId \<Rightarrow> ('w, NodeId Result) op" where
  "addMethod_Client ts c parent i name a ref =
     with_attributes (ty_Method ts) a (\<lambda>x. cn_addNode c NcMethod parent i name x null_NodeId ref)"
definition addMethodAsync :: "attr_types \<Rightarrow> ('v, 'w) add_sender \<Rightarrow> NodeId \<Rightarrow> NodeId \<Rightarrow> string option \<Rightarrow> nat \<Rightarrow> NodeId \<Rightarrow> (NodeId Result, 'w, 'x) token \<Rightarrow> ('w, 'x) op" where
  "addMethodAsync ts send parent i name a ref tok =
     with_attributes (ty_Method ts) a (\<lambda>x. addNodeAsync send NcMethod parent i name x null_NodeId ref tok)"

definition addObjectType :: "attr_types \<Rightarrow> ('v, 'w) connection \<Rightarrow> NodeId \<Rightarrow> NodeId \<Rightarrow> string option \<Rightarrow> nat \<Rightarrow> NodeId \<Rightarrow> ('w, NodeId Result) op" where
  "addObjectType ts c parent i name a ref =
     with_attributes (ty_ObjectType ts) a (\<lambda>x. cn_addNode c NcObjectType parent i name x null_NodeId ref)"
definition addObjectTypeAsync :: "attr_types \<Rightarrow> ('v, 'w) add_sender \<Rightarrow> NodeId \<Rightarrow> NodeId \<Rightarrow> string option \<Rightarrow> nat \<Rightarrow> NodeId \<Rightarrow> (NodeId Result, 'w, 'x) token \<Rightarrow> ('w, 'x) op" where
  "addObjectTypeAsync ts send parent i name a ref tok =
     with_attributes (ty_ObjectType ts) a (\<lambda>x. addNodeAsync send NcObjectType parent i name x null_NodeId ref tok)"

definition addVariableType :: "attr_types \<Rightarrow> ('v, 'w) connection \<Rightarrow> NodeId \<Rightarrow> NodeId \<Rightarrow> string option \<Rightarrow> nat \<Rightarrow> NodeId \<Rightarrow> NodeId \<Rightarrow> ('w, NodeId Result) op" where
  "addVariableType ts c parent i name a typ ref =
     with_attributes (ty_VariableType ts) a (\<lambda>x. cn_addNode c NcVariableType parent i name x typ ref)"
definition addVariableTypeAsync :: "attr_types \<Rightarrow> ('v, 'w) add_sender \<Rightarrow> NodeId \<Rightarrow> NodeId \<Rightarrow> string option \<Rightarrow> nat \<Rightarrow> NodeId \<Rightarrow> NodeId \<Rightarrow> (NodeId Result, 'w, 'x) token \<Rightarrow> ('w, 'x) op" where
  "addVariableTypeAsync ts send parent i name a typ ref tok =
     with_attributes (ty_VariableType ts) a (\<lambda>x. addNodeAsync send NcVariableType parent i name x typ ref tok)"

definition addReferenceType :: "attr_types \<Rightarrow> ('v, 'w) connection \<Rightarrow> NodeId \<Rightarrow> NodeId \<Rightarrow> string option \<Rightarrow> nat \<Rightarrow> NodeId \<Rightarrow> ('w, NodeId Result) op" where
  "addReferenceType ts c parent i name a ref =
     with_attributes (ty_ReferenceType ts) a (\<lambda>x. cn_addNode c NcReferenceType parent i name x null_NodeId ref)"
definition addReferenceTypeAsync :: "attr_types \<Rightarrow> ('v, 'w) add_sender \<Rightarrow> NodeId \<Rightarrow> NodeId \<Rightarrow> string option \<Rightarrow> nat \<Rightarrow> NodeId \<Rightarrow> (NodeId Result, 'w, 'x) token \<Rightarrow> ('w, 'x) op" where
  "addReferenceTypeAsync ts send parent i name a ref tok =
     with_attributes (ty_ReferenceType ts) a (\<lambda>x. addNodeAsync send NcReferenceType parent i name x null_NodeId ref tok)"

definition addDataType :: "attr_types \<Rightarrow> ('v, 'w) connection \<Rightarrow> NodeId \<Rightarrow> NodeId \<Rightarrow> string option \<Rightarrow> nat \<Rightarrow> NodeId \<Rightarrow> ('w, NodeId Result) op" where
  "addDataType ts c parent i name a ref =
     with_attributes (ty_DataType ts) a (\<lambda>x. cn_addNode c NcDataType parent i name x null_NodeId ref)"
definition addDataTypeAsync :: "attr_types \<Rightarrow> ('v, 'w) add_sender \<Rightarrow> NodeId \<Rightarrow> NodeId \<Rightarrow> string option \<Rightarrow> nat \<Rightarrow> NodeId \<Rightarrow> (NodeId Result, 'w, 'x) token \<Rightarrow> ('w, 'x) op" where
  "addDataTypeAsync ts send parent i name a ref tok =
     with_attributes (ty_DataType ts) a (\<lambda>x. addNodeAsync send NcDataType parent i name x null_NodeId ref tok)"

definition addView :: "attr_types \<Rightarrow> ('v, 'w) connection \<Rightarrow> NodeId \<Rightarrow> NodeId \<Rightarrow> string option \<Rightarrow> nat \<Rightarrow> NodeId \<Rightarrow> ('w, NodeId Result) op" where
  "addView ts c parent i name a ref =
     with_attributes (ty_View ts) a (\<lambda>x. cn_addNode c NcView parent i name x null_NodeId ref)"
definition addViewAsync :: "attr_types \<Rightarrow> ('v, 'w) add_sender \<Rightarrow> NodeId \<Rightarrow> NodeId \<Rightarrow> string option \<Rightarrow> nat \<Rightarrow> NodeId \<Rightarrow> (NodeId Result, 'w, 'x) token \<Rightarrow> ('w, 'x) op" where
  "addViewAsync ts send parent i name a ref tok =
     with_attributes (ty_View ts) a (\<lambda>x. addNodeAsync send NcView parent i name x null_NodeId ref tok)"

definition addModellingRule :: "('v, 'w) connection \<Rightarrow> NodeId \<Rightarrow> ModellingRule \<Rightarrow> ('w, u32) op" where
  "addModellingRule c i rule =
     cn_addReference c i (ns0 (ucast (ModellingRule_code rule))) HasModellingRule True"
definition addModellingRuleAsync :: "(AddReferencesItem list \<Rightarrow> (u32 Response, 'w) initiation) \<Rightarrow> NodeId \<Rightarrow> ModellingRule \<Rightarrow> (u32, 'w, 'x) token \<Rightarrow> ('w, 'x) op" where
  "addModellingRuleAsync send i rule tok =
     addReferenceAsync send i (ns0 (ucast (ModellingRule_code rule))) HasModellingRule True tok"

section \<open>Node objects\<close>

record ('v, 'w) Node =
  nd_connection :: "('v, 'w) connection"
  nd_id :: NodeId

definition fromId_result :: "('v, 'w) connection \<Rightarrow> NodeId Result \<Rightarrow> ('v, 'w) Node outc" where
  "fromId_result c r = outc_bind (value_of r) (\<lambda>i. Ret \<lparr>nd_connection = c, nd_id = i\<rparr>)"

definition fromId_expanded :: "('v, 'w) connection \<Rightarrow> ExpandedNodeId \<Rightarrow> ('v, 'w) Node outc" where
  "fromId_expanded c x = (if \<not> isLocal x then throw (BadStatus UA_STATUSCODE_BADNODEIDUNKNOWN)
     else Ret \<lparr>nd_connection = c, nd_id = ex_nodeId x\<rparr>)"

definition fromIdAsync :: "('v, 'w) connection \<Rightarrow> (('v, 'w) Node Result, 'u, 'x) token \<Rightarrow> (NodeId Result, 'u, 'x) token" where
  "fromIdAsync c tok = TransformToken (\<lambda>r. transform r (\<lambda>i. Ret \<lparr>nd_connection = c, nd_id = i\<rparr>)) tok"

text \<open>\<open>exists()\<close>: a client reads the node class with a request of its own; a server asks the node store, whose status is an
  argument.\<close>

definition node_exists_Client :: "('v, 'w) client_api \<Rightarrow> NodeId \<Rightarrow> ('w, bool) op" where
  "node_exists_Client c i w = (case UA_Client_Service_read c \<lparr>rr_timestampsToReturn = TsNeither,
       rr_nodesToRead = [\<lparr>rvi_nodeId = i, rvi_attributeId = AttributeId_code AttrNodeClass, rvi_indexRange = NullString,
         rvi_dataEncoding = \<lparr>qn_namespaceIndex = 0, qn_name = NullString\<rparr>\<rparr>]\<rparr> w of
     (r, w') \<Rightarrow> (if serviceResult r \<noteq> UA_STATUSCODE_GOOD \<or> resultsSize r \<noteq> 1 then Ret False
       else (case results r of
           Some (d # _) \<Rightarrow> if dv_hasStatus d \<and> dv_status d \<noteq> UA_STATUSCODE_GOOD then Ret False else Ret True
         | _ \<Rightarrow> Inl Undef), w'))"

definition node_exists_Server :: "u32 \<Rightarrow> bool" where
  "node_exists_Server status = (status = UA_STATUSCODE_GOOD)"

text \<open>\<open>value()\<close> and \<open>throwIfBad()\<close> on what a service function returns.\<close>

definition get_value :: "('w, 'x Result) op \<Rightarrow> ('w, 'x) op" where
  "get_value f = op_bind f (\<lambda>r. op_lift (value_of r))"

definition checked :: "('w, u32) op \<Rightarrow> 'n \<Rightarrow> ('w, 'n) op" where
  "checked f n = op_bind f (\<lambda>k. op_lift (outc_bind (throwIfBad k) (\<lambda>_. Ret n)))"

definition new_node :: "('v, 'w) Node \<Rightarrow> ('w, NodeId Result) op \<Rightarrow> ('w, ('v, 'w) Node) op" where
  "new_node n f = op_bind f (\<lambda>r. op_lift (fromId_result (nd_connection n) r))"

definition node_addFolder :: "attr_types \<Rightarrow> ('v, 'w) Node \<Rightarrow> NodeId \<Rightarrow> string option \<Rightarrow> nat \<Rightarrow> NodeId \<Rightarrow> ('w, ('v, 'w) Node) op" where
  "node_addFolder ts n i name a ref =
     new_node n (addFolder ts (nd_connection n) (nd_id n) i name a ref)"
definition node_addFolderAsync :: "attr_types \<Rightarrow> ('v, 'u) add_sender \<Rightarrow> ('v, 'w) Node \<Rightarrow> NodeId \<Rightarrow> string option \<Rightarrow> nat \<Rightarrow> NodeId \<Rightarrow> (('v, 'w) Node Result, 'u, 'x) token \<Rightarrow> ('u, 'x) op" where
  "node_addFolderAsync ts send n i name a ref tok =
     addFolderAsync ts send (nd_id n) i name a ref (fromIdAsync (nd_connection n) tok)"

definition node_addObject :: "attr_types \<Rightarrow> ('v, 'w) Node \<Rightarrow> NodeId \<Rightarrow> string option \<Rightarrow> nat \<Rightarrow> NodeId \<Rightarrow> NodeId \<Rightarrow> ('w, ('v, 'w) Node) op" where
  "node_addObject ts n i name a typ ref =
     new_node n (addObject ts (nd_connection n) (nd_id n) i name a typ ref)"
definition node_addObjectAsync :: "attr_types \<Rightarrow> ('v, 'u) add_sender \<Rightarrow> ('v, 'w) Node \<Rightarrow> NodeId \<Rightarrow> string option \<Rightarrow> nat \<Rightarrow> NodeId \<Rightarrow> NodeId \<Rightarrow> (('v, 'w) Node Result, 'u, 'x) token \<Rightarrow> ('u, 'x) op" where
  "node_addObjectAsync ts send n i name a typ ref tok =
     addObjectAsync ts send (nd_id n) i name a typ ref (fromIdAsync (nd_connection n) tok)"

definition node_addVariable :: "attr_types \<Rightarrow> ('v, 'w) Node \<Rightarrow> NodeId \<Rightarrow> string option \<Rightarrow> nat \<Rightarrow> NodeId \<Rightarrow> NodeId \<Rightarrow> ('w, ('v, 'w) Node) op" where
  "node_addVariable ts n i name a typ ref =
     new_node n (addVariable ts (nd_connection n) (nd_id n) i name a typ ref)"
definition node_addVariableAsync :: "attr_types \<Rightarrow> ('v, 'u) add_sender \<Rightarrow> ('v, 'w) Node \<Rightarrow> NodeId \<Rightarrow> string option \<Rightarrow> nat \<Rightarrow> NodeId \<Rightarrow> NodeId \<Rightarrow> (('v, 'w) Node Result, 'u, 'x) token \<Rightarrow> ('u, 'x) op" where
  "node_addVariableAsync ts send n i name a typ ref tok =
     addVariableAsync ts send (nd_id n) i name a typ ref (fromIdAsync (nd_connection n) tok)"

definition node_addProperty :: "attr_types \<Rightarrow> ('v, 'w) Node \<Rightarrow> NodeId \<Rightarrow> string option \<Rightarrow> nat \<Rightarrow> ('w, ('v, 'w) Node) op" where
  "node_addProperty ts n i name a =
     new_node n (addProperty ts (nd_connection n) (nd_id n) i name a)"
definition node_addPropertyAsync :: "attr_types \<Rightarrow> ('v, 'u) add_sender \<Rightarrow> ('v, 'w) Node \<Rightarrow> NodeId \<Rightarrow> string option \<Rightarrow> nat \<Rightarrow> (('v, 'w) Node Result, 'u, 'x) token \<Rightarrow> ('u, 'x) op" where
  "node_addPropertyAsync ts send n i name a tok =
     addPropertyAsync ts send (nd_id n) i name a (fromIdAsync (nd_connection n) tok)"

definition node_addMethod :: "attr_types \<Rightarrow> ('v, 'w) Node \<Rightarrow> NodeId \<Rightarrow> string option \<Rightarrow> nat \<Rightarrow> NodeId \<Rightarrow> ('w, ('v, 'w) Node) op" where
  "node_addMethod ts n i name a ref =
     new_node n (addMethod_Client ts (nd_connection n) (nd_id n) i name a ref)"
definition node_addMethodAsync :: "attr_types \<Rightarrow> ('v, 'u) add_sender \<Rightarrow> ('v, 'w) Node \<Rightarrow> NodeId \<Rightarrow> string option \<Rightarrow> nat \<Rightarrow> NodeId \<Rightarrow> (('v, 'w) Node Result, 'u, 'x) token \<Rightarrow> ('u, 'x) op" where
  "node_addMethodAsync ts send n i name a ref tok =
     addMethodAsync ts send (nd_id n) i name a ref (fromIdAsync (nd_connection n) tok)"

definition node_addObjectType :: "attr_types \<Rightarrow> ('v, 'w) Node \<Rightarrow> NodeId \<Rightarrow> string option \<Rightarrow> nat \<Rightarrow> NodeId \<Rightarrow> ('w, ('v, 'w) Node) op" where
  "node_addObjectType ts n i name a ref =
     new_node n (addObjectType ts (nd_connection n) (nd_id n) i name a ref)"
definition node_addObjectTypeAsync :: "attr_types \<Rightarrow> ('v, 'u) add_sender \<Rightarrow> ('v, 'w) Node \<Rightarrow> NodeId \<Rightarrow> string option \<Rightarrow> nat \<Rightarrow> NodeId \<Rightarrow> (('v, 'w) Node Result, 'u, 'x) token \<Rightarrow> ('u, 'x) op" where
  "node_addObjectTypeAsync ts send n i name a ref tok =
     addObjectTypeAsync ts send (nd_id n) i name a ref (fromIdAsync (nd_connection n) tok)"

definition node_addVariableType :: "attr_types \<Rightarrow> ('v, 'w) Node \<Rightarrow> NodeId \<Rightarrow> string option \<Rightarrow> nat \<Rightarrow> NodeId \<Rightarrow> NodeId \<Rightarrow> ('w, ('v, 'w) Node) op" where
  "node_addVariableType ts n i name a typ ref =
     new_node n (addVariableType ts (nd_connection n) (nd_id n) i name a typ ref)"
definition node_addVariableTypeAsync :: "attr_types \<Rightarrow> ('v, 'u) add_sender \<Rightarrow> ('v, 'w) Node \<Rightarrow> NodeId \<Rightarrow> string option \<Rightarrow> nat \<Rightarrow> NodeId \<Rightarrow> NodeId \<Rightarrow> (('v, 'w) Node Result, 'u, 'x) token \<Rightarrow> ('u, 'x) op" where
  "node_addVariableTypeAsync ts send n i name a typ ref tok =
     addVariableTypeAsync ts send (nd_id n) i name a typ ref (fromIdAsync (nd_connection n) tok)"

definition node_addReferenceType :: "attr_types \<Rightarrow> ('v, 'w) Node \<Rightarrow> NodeId \<Rightarrow> string option \<Rightarrow> nat \<Rightarrow> NodeId \<Rightarrow> ('w, ('v, 'w) Node) op" where
  "node_addReferenceType ts n i name a ref =
     new_node n (addReferenceType ts (nd_connection n) (nd_id n) i name a ref)"
definition node_addReferenceTypeAsync :: "attr_types \<Rightarrow> ('v, 'u) add_sender \<Rightarrow> ('v, 'w) Node \<Rightarrow> NodeId \<Rightarrow> string option \<Rightarrow> nat \<Rightarrow> NodeId \<Rightarrow> (('v, 'w) Node Result, 'u, 'x) token \<Rightarrow> ('u, 'x) op" where
  "node_addReferenceTypeAsync ts send n i name a ref tok =
     addReferenceTypeAsync ts send (nd_id n) i name a ref (fromIdAsync (nd_connection n) tok)"

definition node_addDataType :: "attr_types \<Rightarrow> ('v, 'w) Node \<Rightarrow> NodeId \<Rightarrow> string option \<Rightarrow> nat \<Rightarrow> NodeId \<Rightarrow> ('w, ('v, 'w) Node) op" where
  "node_addDataType ts n i name a ref =
     new_node n (addDataType ts (nd_connection n) (nd_id n) i name a ref)"
definition node_addDataTypeAsync :: "attr_types \<Rightarrow> ('v, 'u) add_sender \<Rightarrow> ('v, 'w) Node \<Rightarrow> NodeId \<Rightarrow> string option \<Rightarrow> nat \<Rightarrow> NodeId \<Rightarrow> (('v, 'w) Node Result, 'u, 'x) token \<Rightarrow> ('u, 'x) op" where
  "node_addDataTypeAsync ts send n i name a ref tok =
     addDataTypeAsync ts send (nd_id n) i name a ref (fromIdAsync (nd_connection n) tok)"

definition node_addView :: "attr_types \<Rightarrow> ('v, 'w) Node \<Rightarrow> NodeId \<Rightarrow> string option \<Rightarrow> nat \<Rightarrow> NodeId \<Rightarrow> ('w, ('v, 'w) Node) op" where
  "node_addView ts n i name a ref =
     new_node n (addView ts (nd_connection n) (nd_id n) i name a ref)"
definition node_addViewAsync :: "attr_types \<Rightarrow> ('v, 'u) add_sender \<Rightarrow> ('v, 'w) Node \<Rightarrow> NodeId \<Rightarrow> string option \<Rightarrow> nat \<Rightarrow> NodeId \<Rightarrow> (('v, 'w) Node Result, 'u, 'x) token \<Rightarrow> ('u, 'x) op" where
  "node_addViewAsync ts send n i name a ref tok =
     addViewAsync ts send (nd_id n) i name a ref (fromIdAsync (nd_connection n) tok)"

definition node_addReference :: "('v, 'w) Node \<Rightarrow> NodeId \<Rightarrow> NodeId \<Rightarrow> bool \<Rightarrow> ('w, ('v, 'w) Node) op" where
  "node_addReference n target ref forward =
     checked (cn_addReference (nd_connection n) (nd_id n) target ref forward) n"
definition node_addReferenceAsync :: "(AddReferencesItem list \<Rightarrow> (u32 Response, 'u) initiation) \<Rightarrow> ('v, 'w) Node \<Rightarrow> NodeId \<Rightarrow> NodeId \<Rightarrow> bool \<Rightarrow> (u32, 'u, 'x) token \<Rightarrow> ('u, 'x) op" where
  "node_addReferenceAsync send n target ref forward tok =
     addReferenceAsync send (nd_id n) target ref forward tok"
definition node_addModellingRule :: "('v, 'w) Node \<Rightarrow> ModellingRule \<Rightarrow> ('w, ('v, 'w) Node) op" where
  "node_addModellingRule n rule =
     checked (addModellingRule (nd_connection n) (nd_id n) rule) n"
definition node_addModellingRuleAsync :: "(AddReferencesItem list \<Rightarrow> (u32 Response, 'u) initiation) \<Rightarrow> ('v, 'w) Node \<Rightarrow> ModellingRule \<Rightarrow> (u32, 'u, 'x) token \<Rightarrow> ('u, 'x) op" where
  "node_addModellingRuleAsync send n rule tok =
     addModellingRuleAsync send (nd_id n) rule tok"
definition node_deleteNode :: "('v, 'w) Node \<Rightarrow> bool \<Rightarrow> ('w, unit) op" where
  "node_deleteNode n deleteReferences =
     checked (cn_deleteNode (nd_connection n) (nd_id n) deleteReferences) ()"
definition node_deleteNodeAsync :: "(DeleteNodesItem list \<Rightarrow> (u32 Response, 'u) initiation) \<Rightarrow> ('v, 'w) Node \<Rightarrow> bool \<Rightarrow> (u32, 'u, 'x) token \<Rightarrow> ('u, 'x) op" where
  "node_deleteNodeAsync send n deleteReferences tok =
     deleteNodeAsync send (nd_id n) deleteReferences tok"
definition node_deleteReference :: "('v, 'w) Node \<Rightarrow> NodeId \<Rightarrow> NodeId \<Rightarrow> bool \<Rightarrow> bool \<Rightarrow> ('w, ('v, 'w) Node) op" where
  "node_deleteReference n target ref isForward bidirectional =
     checked (cn_deleteReference (nd_connection n) (nd_id n) target ref isForward bidirectional) n"
definition node_deleteReferenceAsync :: "(DeleteReferencesItem list \<Rightarrow> (u32 Response, 'u) initiation) \<Rightarrow> ('v, 'w) Node \<Rightarrow> NodeId \<Rightarrow> NodeId \<Rightarrow> bool \<Rightarrow> bool \<Rightarrow> (u32, 'u, 'x) token \<Rightarrow> ('u, 'x) op" where
  "node_deleteReferenceAsync send n target ref isForward bidirectional tok =
     deleteReferenceAsync send (nd_id n) target ref isForward bidirectional tok"
definition node_callMethod :: "('v, 'w) Node \<Rightarrow> NodeId \<Rightarrow> 'v Variant list \<Rightarrow> ('w, 'v CallMethodResult) op" where
  "node_callMethod n method args =
     cn_call (nd_connection n) (nd_id n) method args"
definition node_callMethodAsync :: "('v CallMethodRequest list \<Rightarrow> ('v CallMethodResult Response, 'u) initiation) \<Rightarrow> ('v, 'w) Node \<Rightarrow> NodeId \<Rightarrow> 'v Variant list \<Rightarrow> ('v CallMethodResult, 'u, 'x) token \<Rightarrow> ('u, 'x) op" where
  "node_callMethodAsync send n method args tok =
     callAsync send (nd_id n) method args tok"

section \<open>Browsing from a node\<close>

definition browseAll_connection :: "('v, 'w) connection \<Rightarrow> BrowseDescription \<Rightarrow> 'w \<Rightarrow> (ReferenceDescription list Result outc \<times> 'w) option" where
  "browseAll_connection c bd = browseAll (cn_browse c bd 0) (cn_browseNext c False)"

definition UA_BROWSERESULTMASK_ALL :: u32 where "UA_BROWSERESULTMASK_ALL = 63"
definition UA_BROWSERESULTMASK_TARGETINFO :: u32 where "UA_BROWSERESULTMASK_TARGETINFO = 60"

definition browse_description :: "NodeId \<Rightarrow> BrowseDirection \<Rightarrow> NodeId \<Rightarrow> bool \<Rightarrow> u32 \<Rightarrow> u32 \<Rightarrow> BrowseDescription" where
  "browse_description i dir ref sub classes resultMask = \<lparr>bd_nodeId = i, bd_browseDirection = dir, bd_referenceTypeId = ref,
     bd_includeSubtypes = sub, bd_nodeClassMask = classes, bd_resultMask = resultMask\<rparr>"

definition browseReferences ::
  "('v, 'w) Node \<Rightarrow> BrowseDirection \<Rightarrow> NodeId \<Rightarrow> bool \<Rightarrow> u32 \<Rightarrow> 'w \<Rightarrow> (ReferenceDescription list outc \<times> 'w) option" where
  "browseReferences n dir ref sub classes w = map_option (\<lambda>(r, w'). (outc_bind r value_of, w'))
     (browseAll_connection (nd_connection n) (browse_description (nd_id n) dir ref sub classes UA_BROWSERESULTMASK_ALL) w)"

fun local_nodes :: "('v, 'w) connection \<Rightarrow> ReferenceDescription list \<Rightarrow> ('v, 'w) Node list" where
  "local_nodes c [] = []"
| "local_nodes c (ref # refs) = (if isLocal (rd_nodeId ref)
     then \<lparr>nd_connection = c, nd_id = ex_nodeId (rd_nodeId ref)\<rparr> # local_nodes c refs else local_nodes c refs)"

definition browseReferencedNodes ::
  "('v, 'w) Node \<Rightarrow> BrowseDirection \<Rightarrow> NodeId \<Rightarrow> bool \<Rightarrow> u32 \<Rightarrow> 'w \<Rightarrow> (('v, 'w) Node list outc \<times> 'w) option" where
  "browseReferencedNodes n dir ref sub classes w =
     map_option (\<lambda>(r, w'). (outc_bind r (\<lambda>x. outc_bind (value_of x) (\<lambda>refs. Ret (local_nodes (nd_connection n) refs))), w'))
       (browseAll_connection (nd_connection n) (browse_description (nd_id n) dir ref sub classes UA_BROWSERESULTMASK_TARGETINFO) w)"

definition browseChildren :: "('v, 'w) Node \<Rightarrow> NodeId \<Rightarrow> u32 \<Rightarrow> 'w \<Rightarrow> (('v, 'w) Node list outc \<times> 'w) option" where
  "browseChildren n ref classes = browseReferencedNodes n BdForward ref True classes"

fun first_local :: "('v, 'w) connection \<Rightarrow> u32 \<Rightarrow> BrowsePathTarget list \<Rightarrow> ('v, 'w) Node outc" where
  "first_local c k [] = throw (BadStatus k)"
| "first_local c k (t # ts) = (if isLocal (bpt_targetId t) then Ret \<lparr>nd_connection = c, nd_id = ex_nodeId (bpt_targetId t)\<rparr>
     else first_local c k ts)"

definition targets_of :: "('v, 'w) Node \<Rightarrow> u32 \<Rightarrow> ('w, BrowsePathResult) op \<Rightarrow> ('w, ('v, 'w) Node) op" where
  "targets_of n k f = op_bind f (\<lambda>r. op_lift (outc_bind (throwIfBad (bpr_statusCode r)) (\<lambda>_. first_local (nd_connection n) k (bpr_targets r))))"

definition browseChild :: "('v, 'w) Node \<Rightarrow> QualifiedName list \<Rightarrow> ('w, ('v, 'w) Node) op" where
  "browseChild n path = targets_of n UA_STATUSCODE_BADNOMATCH (browseSimplifiedBrowsePath (cn_translate (nd_connection n)) (nd_id n) path)"

definition browseObjectProperty :: "('v, 'w) Node \<Rightarrow> QualifiedName \<Rightarrow> ('w, ('v, 'w) Node) op" where
  "browseObjectProperty n name = targets_of n UA_STATUSCODE_BADNOTFOUND (cn_translate (nd_connection n)
     \<lparr>bp_startingNode = nd_id n, bp_relativePath = [\<lparr>rpe_referenceTypeId = HasProperty, rpe_isInverse = False,
        rpe_includeSubtypes = True, rpe_targetName = name\<rparr>]\<rparr>)"

definition browseParent :: "('v, 'w) Node \<Rightarrow> ('w, ('v, 'w) Node) op" where
  "browseParent n = op_bind (cn_browse (nd_connection n)
       (browse_description (nd_id n) BdInverse HierarchicalReferences True 0 UA_BROWSERESULTMASK_TARGETINFO) 1)
     (\<lambda>r. op_lift (outc_bind (throwIfBad (br_statusCode r)) (\<lambda>_. case br_references r of
        [] \<Rightarrow> throw (BadStatus UA_STATUSCODE_BADNOTFOUND)
      | ref # _ \<Rightarrow> fromId_expanded (nd_connection n) (rd_nodeId ref))))"

section \<open>Attributes of a node\<close>

type_synonym 'u attr_node = "(attr_value, mem \<times> 'u) Node"

definition node_readNodeClass :: "attr_env \<Rightarrow> 'u attr_node \<Rightarrow> (mem \<times> 'u, i32) op" where
  "node_readNodeClass e n =
     get_value (readNodeClass e (nd_connection n) (nd_id n))"
definition node_readNodeClassAsync :: "attr_env \<Rightarrow> 'u read_sender \<Rightarrow> 'u attr_node \<Rightarrow> (i32 Result, mem \<times> 'u, 'x) token \<Rightarrow> (mem \<times> 'u, 'x) op" where
  "node_readNodeClassAsync e send n tok =
     readNodeClassAsync e send (nd_id n) tok"

definition node_readBrowseName :: "attr_env \<Rightarrow> 'u attr_node \<Rightarrow> (mem \<times> 'u, QualifiedName) op" where
  "node_readBrowseName e n =
     get_value (readBrowseName e (nd_connection n) (nd_id n))"
definition node_readBrowseNameAsync :: "attr_env \<Rightarrow> 'u read_sender \<Rightarrow> 'u attr_node \<Rightarrow> (QualifiedName Result, mem \<times> 'u, 'x) token \<Rightarrow> (mem \<times> 'u, 'x) op" where
  "node_readBrowseNameAsync e send n tok =
     readBrowseNameAsync e send (nd_id n) tok"

definition node_readDisplayName :: "attr_env \<Rightarrow> 'u attr_node \<Rightarrow> (mem \<times> 'u, LocalizedText) op" where
  "node_readDisplayName e n =
     get_value (readDisplayName e (nd_connection n) (nd_id n))"
definition node_readDisplayNameAsync :: "attr_env \<Rightarrow> 'u read_sender \<Rightarrow> 'u attr_node \<Rightarrow> (LocalizedText Result, mem \<times> 'u, 'x) token \<Rightarrow> (mem \<times> 'u, 'x) op" where
  "node_readDisplayNameAsync e send n tok =
     readDisplayNameAsync e send (nd_id n) tok"
definition node_writeDisplayName :: "attr_env \<Rightarrow> 'u attr_node \<Rightarrow> LocalizedText \<Rightarrow> (mem \<times> 'u, 'u attr_node) op" where
  "node_writeDisplayName e n x =
     checked (writeDisplayName e (nd_connection n) (nd_id n) x) n"
definition node_writeDisplayNameAsync :: "attr_env \<Rightarrow> 'u write_sender \<Rightarrow> 'u attr_node \<Rightarrow> LocalizedText \<Rightarrow> (u32, mem \<times> 'u, 'x) token \<Rightarrow> (mem \<times> 'u, 'x) op" where
  "node_writeDisplayNameAsync e send n x tok =
     writeDisplayNameAsync e send (nd_id n) x tok"

definition node_readDescription :: "attr_env \<Rightarrow> 'u attr_node \<Rightarrow> (mem \<times> 'u, LocalizedText) op" where
  "node_readDescription e n =
     get_value (readDescription e (nd_connection n) (nd_id n))"
definition node_readDescriptionAsync :: "attr_env \<Rightarrow> 'u read_sender \<Rightarrow> 'u attr_node \<Rightarrow> (LocalizedText Result, mem \<times> 'u, 'x) token \<Rightarrow> (mem \<times> 'u, 'x) op" where
  "node_readDescriptionAsync e send n tok =
     readDescriptionAsync e send (nd_id n) tok"
definition node_writeDescription :: "attr_env \<Rightarrow> 'u attr_node \<Rightarrow> LocalizedText \<Rightarrow> (mem \<times> 'u, 'u attr_node) op" where
  "node_writeDescription e n x =
     checked (writeDescription e (nd_connection n) (nd_id n) x) n"
definition node_writeDescriptionAsync :: "attr_env \<Rightarrow> 'u write_sender \<Rightarrow> 'u attr_node \<Rightarrow> LocalizedText \<Rightarrow> (u32, mem \<times> 'u, 'x) token \<Rightarrow> (mem \<times> 'u, 'x) op" where
  "node_writeDescriptionAsync e send n x tok =
     writeDescriptionAsync e send (nd_id n) x tok"

definition node_readWriteMask :: "attr_env \<Rightarrow> 'u attr_node \<Rightarrow> (mem \<times> 'u, 32 word Bitmask) op" where
  "node_readWriteMask e n =
     get_value (readWriteMask e (nd_connection n) (nd_id n))"
definition node_readWriteMaskAsync :: "attr_env \<Rightarrow> 'u read_sender \<Rightarrow> 'u attr_node \<Rightarrow> (32 word Bitmask Result, mem \<times> 'u, 'x) token \<Rightarrow> (mem \<times> 'u, 'x) op" where
  "node_readWriteMaskAsync e send n tok =
     readWriteMaskAsync e send (nd_id n) tok"
definition node_writeWriteMask :: "attr_env \<Rightarrow> 'u attr_node \<Rightarrow> 32 word Bitmask \<Rightarrow> (mem \<times> 'u, 'u attr_node) op" where
  "node_writeWriteMask e n x =
     checked (writeWriteMask e (nd_connection n) (nd_id n) x) n"
definition node_writeWriteMaskAsync :: "attr_env \<Rightarrow> 'u write_sender \<Rightarrow> 'u attr_node \<Rightarrow> 32 word Bitmask \<Rightarrow> (u32, mem \<times> 'u, 'x) token \<Rightarrow> (mem \<times> 'u, 'x) op" where
  "node_writeWriteMaskAsync e send n x tok =
     writeWriteMaskAsync e send (nd_id n) x tok"

definition node_readUserWriteMask :: "attr_env \<Rightarrow> 'u attr_node \<Rightarrow> (mem \<times> 'u, 32 word Bitmask) op" where
  "node_readUserWriteMask e n =
     get_value (readUserWriteMask e (nd_connection n) (nd_id n))"
definition node_readUserWriteMaskAsync :: "attr_env \<Rightarrow> 'u read_sender \<Rightarrow> 'u attr_node \<Rightarrow> (32 word Bitmask Result, mem \<times> 'u, 'x) token \<Rightarrow> (mem \<times> 'u, 'x) op" where
  "node_readUserWriteMaskAsync e send n tok =
     readUserWriteMaskAsync e send (nd_id n) tok"
definition node_writeUserWriteMask :: "attr_env \<Rightarrow> 'u attr_node \<Rightarrow> 32 word Bitmask \<Rightarrow> (mem \<times> 'u, 'u attr_node) op" where
  "node_writeUserWriteMask e n x =
     checked (writeUserWriteMask e (nd_connection n) (nd_id n) x) n"
definition node_writeUserWriteMaskAsync :: "attr_env \<Rightarrow> 'u write_sender \<Rightarrow> 'u attr_node \<Rightarrow> 32 word Bitmask \<Rightarrow> (u32, mem \<times> 'u, 'x) token \<Rightarrow> (mem \<times> 'u, 'x) op" where
  "node_writeUserWriteMaskAsync e send n x tok =
     writeUserWriteMaskAsync e send (nd_id n) x tok"

definition node_readIsAbstract :: "attr_env \<Rightarrow> 'u attr_node \<Rightarrow> (mem \<times> 'u, bool) op" where
  "node_readIsAbstract e n =
     get_value (readIsAbstract e (nd_connection n) (nd_id n))"
definition node_readIsAbstractAsync :: "attr_env \<Rightarrow> 'u read_sender \<Rightarrow> 'u attr_node \<Rightarrow> (bool Result, mem \<times> 'u, 'x) token \<Rightarrow> (mem \<times> 'u, 'x) op" where
  "node_readIsAbstractAsync e send n tok =
     readIsAbstractAsync e send (nd_id n) tok"
definition node_writeIsAbstract :: "attr_env \<Rightarrow> 'u attr_node \<Rightarrow> bool \<Rightarrow> (mem \<times> 'u, 'u attr_node) op" where
  "node_writeIsAbstract e n x =
     checked (writeIsAbstract e (nd_connection n) (nd_id n) x) n"
definition node_writeIsAbstractAsync :: "attr_env \<Rightarrow> 'u write_sender \<Rightarrow> 'u attr_node \<Rightarrow> bool \<Rightarrow> (u32, mem \<times> 'u, 'x) token \<Rightarrow> (mem \<times> 'u, 'x) op" where
  "node_writeIsAbstractAsync e send n x tok =
     writeIsAbstractAsync e send (nd_id n) x tok"

definition node_readSymmetric :: "attr_env \<Rightarrow> 'u attr_node \<Rightarrow> (mem \<times> 'u, bool) op" where
  "node_readSymmetric e n =
     get_value (readSymmetric e (nd_connection n) (nd_id n))"
definition node_readSymmetricAsync :: "attr_env \<Rightarrow> 'u read_sender \<Rightarrow> 'u attr_node \<Rightarrow> (bool Result, mem \<times> 'u, 'x) token \<Rightarrow> (mem \<times> 'u, 'x) op" where
  "node_readSymmetricAsync e send n tok =
     readSymmetricAsync e send (nd_id n) tok"
definition node_writeSymmetric :: "attr_env \<Rightarrow> 'u attr_node \<Rightarrow> bool \<Rightarrow> (mem \<times> 'u, 'u attr_node) op" where
  "node_writeSymmetric e n x =
     checked (writeSymmetric e (nd_connection n) (nd_id n) x) n"
definition node_writeSymmetricAsync :: "attr_env \<Rightarrow> 'u write_sender \<Rightarrow> 'u attr_node \<Rightarrow> bool \<Rightarrow> (u32, mem \<times> 'u, 'x) token \<Rightarrow> (mem \<times> 'u, 'x) op" where
  "node_writeSymmetricAsync e send n x tok =
     writeSymmetricAsync e send (nd_id n) x tok"

definition node_readInverseName :: "attr_env \<Rightarrow> 'u attr_node \<Rightarrow> (mem \<times> 'u, LocalizedText) op" where
  "node_readInverseName e n =
     get_value (readInverseName e (nd_connection n) (nd_id n))"
definition node_readInverseNameAsync :: "attr_env \<Rightarrow> 'u read_sender \<Rightarrow> 'u attr_node \<Rightarrow> (LocalizedText Result, mem \<times> 'u, 'x) token \<Rightarrow> (mem \<times> 'u, 'x) op" where
  "node_readInverseNameAsync e send n tok =
     readInverseNameAsync e send (nd_id n) tok"
definition node_writeInverseName :: "attr_env \<Rightarrow> 'u attr_node \<Rightarrow> LocalizedText \<Rightarrow> (mem \<times> 'u, 'u attr_node) op" where
  "node_writeInverseName e n x =
     checked (writeInverseName e (nd_connection n) (nd_id n) x) n"
definition node_writeInverseNameAsync :: "attr_env \<Rightarrow> 'u write_sender \<Rightarrow> 'u attr_node \<Rightarrow> LocalizedText \<Rightarrow> (u32, mem \<times> 'u, 'x) token \<Rightarrow> (mem \<times> 'u, 'x) op" where
  "node_writeInverseNameAsync e send n x tok =
     writeInverseNameAsync e send (nd_id n) x tok"

definition node_readContainsNoLoops :: "attr_env \<Rightarrow> 'u attr_node \<Rightarrow> (mem \<times> 'u, bool) op" where
  "node_readContainsNoLoops e n =
     get_value (readContainsNoLoops e (nd_connection n) (nd_id n))"
definition node_readContainsNoLoopsAsync :: "attr_env \<Rightarrow> 'u read_sender \<Rightarrow> 'u attr_node \<Rightarrow> (bool Result, mem \<times> 'u, 'x) token \<Rightarrow> (mem \<times> 'u, 'x) op" where
  "node_readContainsNoLoopsAsync e send n tok =
     readContainsNoLoopsAsync e send (nd_id n) tok"
definition node_writeContainsNoLoops :: "attr_env \<Rightarrow> 'u attr_node \<Rightarrow> bool \<Rightarrow> (mem \<times> 'u, 'u attr_node) op" where
  "node_writeContainsNoLoops e n x =
     checked (writeContainsNoLoops e (nd_connection n) (nd_id n) x) n"
definition node_writeContainsNoLoopsAsync :: "attr_env \<Rightarrow> 'u write_sender \<Rightarrow> 'u attr_node \<Rightarrow> bool \<Rightarrow> (u32, mem \<times> 'u, 'x) token \<Rightarrow> (mem \<times> 'u, 'x) op" where
  "node_writeContainsNoLoopsAsync e send n x tok =
     writeContainsNoLoopsAsync e send (nd_id n) x tok"

definition node_readEventNotifier :: "attr_env \<Rightarrow> 'u attr_node \<Rightarrow> (mem \<times> 'u, 8 word Bitmask) op" where
  "node_readEventNotifier e n =
     get_value (readEventNotifier e (nd_connection n) (nd_id n))"
definition node_readEventNotifierAsync :: "attr_env \<Rightarrow> 'u read_sender \<Rightarrow> 'u attr_node \<Rightarrow> (8 word Bitmask Result, mem \<times> 'u, 'x) token \<Rightarrow> (mem \<times> 'u, 'x) op" where
  "node_readEventNotifierAsync e send n tok =
     readEventNotifierAsync e send (nd_id n) tok"
definition node_writeEventNotifier :: "attr_env \<Rightarrow> 'u attr_node \<Rightarrow> 8 word Bitmask \<Rightarrow> (mem \<times> 'u, 'u attr_node) op" where
  "node_writeEventNotifier e n x =
     checked (writeEventNotifier e (nd_connection n) (nd_id n) x) n"
definition node_writeEventNotifierAsync :: "attr_env \<Rightarrow> 'u write_sender \<Rightarrow> 'u attr_node \<Rightarrow> 8 word Bitmask \<Rightarrow> (u32, mem \<times> 'u, 'x) token \<Rightarrow> (mem \<times> 'u, 'x) op" where
  "node_writeEventNotifierAsync e send n x tok =
     writeEventNotifierAsync e send (nd_id n) x tok"

definition node_readValue :: "attr_env \<Rightarrow> 'u attr_node \<Rightarrow> (mem \<times> 'u, attr_value Variant) op" where
  "node_readValue e n =
     get_value (readValue e (nd_connection n) (nd_id n))"
definition node_readValueAsync :: "attr_env \<Rightarrow> 'u read_sender \<Rightarrow> 'u attr_node \<Rightarrow> (attr_value Variant Result, mem \<times> 'u, 'x) token \<Rightarrow> (mem \<times> 'u, 'x) op" where
  "node_readValueAsync e send n tok =
     readValueAsync e send (nd_id n) tok"
definition node_writeValue :: "attr_env \<Rightarrow> 'u attr_node \<Rightarrow> attr_value Variant \<Rightarrow> (mem \<times> 'u, 'u attr_node) op" where
  "node_writeValue e n x =
     checked (writeValue e (nd_connection n) (nd_id n) x) n"
definition node_writeValueAsync :: "attr_env \<Rightarrow> 'u write_sender \<Rightarrow> 'u attr_node \<Rightarrow> attr_value Variant \<Rightarrow> (u32, mem \<times> 'u, 'x) token \<Rightarrow> (mem \<times> 'u, 'x) op" where
  "node_writeValueAsync e send n x tok =
     writeValueAsync e send (nd_id n) x tok"

definition node_readDataType :: "attr_env \<Rightarrow> 'u attr_node \<Rightarrow> (mem \<times> 'u, NodeId) op" where
  "node_readDataType e n =
     get_value (readDataType e (nd_connection n) (nd_id n))"
definition node_readDataTypeAsync :: "attr_env \<Rightarrow> 'u read_sender \<Rightarrow> 'u attr_node \<Rightarrow> (NodeId Result, mem \<times> 'u, 'x) token \<Rightarrow> (mem \<times> 'u, 'x) op" where
  "node_readDataTypeAsync e send n tok =
     readDataTypeAsync e send (nd_id n) tok"
definition node_writeDataType :: "attr_env \<Rightarrow> 'u attr_node \<Rightarrow> NodeId \<Rightarrow> (mem \<times> 'u, 'u attr_node) op" where
  "node_writeDataType e n x =
     checked (writeDataType e (nd_connection n) (nd_id n) x) n"
definition node_writeDataTypeAsync :: "attr_env \<Rightarrow> 'u write_sender \<Rightarrow> 'u attr_node \<Rightarrow> NodeId \<Rightarrow> (u32, mem \<times> 'u, 'x) token \<Rightarrow> (mem \<times> 'u, 'x) op" where
  "node_writeDataTypeAsync e send n x tok =
     writeDataTypeAsync e send (nd_id n) x tok"

definition node_readValueRank :: "attr_env \<Rightarrow> 'u attr_node \<Rightarrow> (mem \<times> 'u, i32) op" where
  "node_readValueRank e n =
     get_value (readValueRank e (nd_connection n) (nd_id n))"
definition node_readValueRankAsync :: "attr_env \<Rightarrow> 'u read_sender \<Rightarrow> 'u attr_node \<Rightarrow> (i32 Result, mem \<times> 'u, 'x) token \<Rightarrow> (mem \<times> 'u, 'x) op" where
  "node_readValueRankAsync e send n tok =
     readValueRankAsync e send (nd_id n) tok"
definition node_writeValueRank :: "attr_env \<Rightarrow> 'u attr_node \<Rightarrow> i32 \<Rightarrow> (mem \<times> 'u, 'u attr_node) op" where
  "node_writeValueRank e n x =
     checked (writeValueRank e (nd_connection n) (nd_id n) x) n"
definition node_writeValueRankAsync :: "attr_env \<Rightarrow> 'u write_sender \<Rightarrow> 'u attr_node \<Rightarrow> i32 \<Rightarrow> (u32, mem \<times> 'u, 'x) token \<Rightarrow> (mem \<times> 'u, 'x) op" where
  "node_writeValueRankAsync e send n x tok =
     writeValueRankAsync e send (nd_id n) x tok"

definition node_readArrayDimensions :: "attr_env \<Rightarrow> 'u attr_node \<Rightarrow> (mem \<times> 'u, u32 list) op" where
  "node_readArrayDimensions e n =
     get_value (readArrayDimensions e (nd_connection n) (nd_id n))"
definition node_readArrayDimensionsAsync :: "attr_env \<Rightarrow> 'u read_sender \<Rightarrow> 'u attr_node \<Rightarrow> (u32 list Result, mem \<times> 'u, 'x) token \<Rightarrow> (mem \<times> 'u, 'x) op" where
  "node_readArrayDimensionsAsync e send n tok =
     readArrayDimensionsAsync e send (nd_id n) tok"
definition node_writeArrayDimensions :: "attr_env \<Rightarrow> 'u attr_node \<Rightarrow> u32 list \<Rightarrow> (mem \<times> 'u, 'u attr_node) op" where
  "node_writeArrayDimensions e n x =
     checked (writeArrayDimensions e (nd_connection n) (nd_id n) x) n"
definition node_writeArrayDimensionsAsync :: "attr_env \<Rightarrow> 'u write_sender \<Rightarrow> 'u attr_node \<Rightarrow> u32 list \<Rightarrow> (u32, mem \<times> 'u, 'x) token \<Rightarrow> (mem \<times> 'u, 'x) op" where
  "node_writeArrayDimensionsAsync e send n x tok =
     writeArrayDimensionsAsync e send (nd_id n) x tok"

definition node_readAccessLevel :: "attr_env \<Rightarrow> 'u attr_node \<Rightarrow> (mem \<times> 'u, 8 word Bitmask) op" where
  "node_readAccessLevel e n =
     get_value (readAccessLevel e (nd_connection n) (nd_id n))"
definition node_readAccessLevelAsync :: "attr_env \<Rightarrow> 'u read_sender \<Rightarrow> 'u attr_node \<Rightarrow> (8 word Bitmask Result, mem \<times> 'u, 'x) token \<Rightarrow> (mem \<times> 'u, 'x) op" where
  "node_readAccessLevelAsync e send n tok =
     readAccessLevelAsync e send (nd_id n) tok"
definition node_writeAccessLevel :: "attr_env \<Rightarrow> 'u attr_node \<Rightarrow> 8 word Bitmask \<Rightarrow> (mem \<times> 'u, 'u attr_node) op" where
  "node_writeAccessLevel e n x =
     checked (writeAccessLevel e (nd_connection n) (nd_id n) x) n"
definition node_writeAccessLevelAsync :: "attr_env \<Rightarrow> 'u write_sender \<Rightarrow> 'u attr_node \<Rightarrow> 8 word Bitmask \<Rightarrow> (u32, mem \<times> 'u, 'x) token \<Rightarrow> (mem \<times> 'u, 'x) op" where
  "node_writeAccessLevelAsync e send n x tok =
     writeAccessLevelAsync e send (nd_id n) x tok"

definition node_readUserAccessLevel :: "attr_env \<Rightarrow> 'u attr_node \<Rightarrow> (mem \<times> 'u, 8 word Bitmask) op" where
  "node_readUserAccessLevel e n =
     get_value (readUserAccessLevel e (nd_connection n) (nd_id n))"
definition node_readUserAccessLevelAsync :: "attr_env \<Rightarrow> 'u read_sender \<Rightarrow> 'u attr_node \<Rightarrow> (8 word Bitmask Result, mem \<times> 'u, 'x) token \<Rightarrow> (mem \<times> 'u, 'x) op" where
  "node_readUserAccessLevelAsync e send n tok =
     readUserAccessLevelAsync e send (nd_id n) tok"
definition node_writeUserAccessLevel :: "attr_env \<Rightarrow> 'u attr_node \<Rightarrow> 8 word Bitmask \<Rightarrow> (mem \<times> 'u, 'u attr_node) op" where
  "node_writeUserAccessLevel e n x =
     checked (writeUserAccessLevel e (nd_connection n) (nd_id n) x) n"
definition node_writeUserAccessLevelAsync :: "attr_env \<Rightarrow> 'u write_sender \<Rightarrow> 'u attr_node \<Rightarrow> 8 word Bitmask \<Rightarrow> (u32, mem \<times> 'u, 'x) token \<Rightarrow> (mem \<times> 'u, 'x) op" where
  "node_writeUserAccessLevelAsync e send n x tok =
     writeUserAccessLevelAsync e send (nd_id n) x tok"

definition node_readMinimumSamplingInterval :: "attr_env \<Rightarrow> 'u attr_node \<Rightarrow> (mem \<times> 'u, u64) op" where
  "node_readMinimumSamplingInterval e n =
     get_value (readMinimumSamplingInterval e (nd_connection n) (nd_id n))"
definition node_readMinimumSamplingIntervalAsync :: "attr_env \<Rightarrow> 'u read_sender \<Rightarrow> 'u attr_node \<Rightarrow> (u64 Result, mem \<times> 'u, 'x) token \<Rightarrow> (mem \<times> 'u, 'x) op" where
  "node_readMinimumSamplingIntervalAsync e send n tok =
     readMinimumSamplingIntervalAsync e send (nd_id n) tok"
definition node_writeMinimumSamplingInterval :: "attr_env \<Rightarrow> 'u attr_node \<Rightarrow> u64 \<Rightarrow> (mem \<times> 'u, 'u attr_node) op" where
  "node_writeMinimumSamplingInterval e n x =
     checked (writeMinimumSamplingInterval e (nd_connection n) (nd_id n) x) n"
definition node_writeMinimumSamplingIntervalAsync :: "attr_env \<Rightarrow> 'u write_sender \<Rightarrow> 'u attr_node \<Rightarrow> u64 \<Rightarrow> (u32, mem \<times> 'u, 'x) token \<Rightarrow> (mem \<times> 'u, 'x) op" where
  "node_writeMinimumSamplingIntervalAsync e send n x tok =
     writeMinimumSamplingIntervalAsync e send (nd_id n) x tok"

definition node_readHistorizing :: "attr_env \<Rightarrow> 'u attr_node \<Rightarrow> (mem \<times> 'u, bool) op" where
  "node_readHistorizing e n =
     get_value (readHistorizing e (nd_connection n) (nd_id n))"
definition node_readHistorizingAsync :: "attr_env \<Rightarrow> 'u read_sender \<Rightarrow> 'u attr_node \<Rightarrow> (bool Result, mem \<times> 'u, 'x) token \<Rightarrow> (mem \<times> 'u, 'x) op" where
  "node_readHistorizingAsync e send n tok =
     readHistorizingAsync e send (nd_id n) tok"
definition node_writeHistorizing :: "attr_env \<Rightarrow> 'u attr_node \<Rightarrow> bool \<Rightarrow> (mem \<times> 'u, 'u attr_node) op" where
  "node_writeHistorizing e n x =
     checked (writeHistorizing e (nd_connection n) (nd_id n) x) n"
definition node_writeHistorizingAsync :: "attr_env \<Rightarrow> 'u write_sender \<Rightarrow> 'u attr_node \<Rightarrow> bool \<Rightarrow> (u32, mem \<times> 'u, 'x) token \<Rightarrow> (mem \<times> 'u, 'x) op" where
  "node_writeHistorizingAsync e send n x tok =
     writeHistorizingAsync e send (nd_id n) x tok"

definition node_readExecutable :: "attr_env \<Rightarrow> 'u attr_node \<Rightarrow> (mem \<times> 'u, bool) op" where
  "node_readExecutable e n =
     get_value (readExecutable e (nd_connection n) (nd_id n))"
definition node_readExecutableAsync :: "attr_env \<Rightarrow> 'u read_sender \<Rightarrow> 'u attr_node \<Rightarrow> (bool Result, mem \<times> 'u, 'x) token \<Rightarrow> (mem \<times> 'u, 'x) op" where
  "node_readExecutableAsync e send n tok =
     readExecutableAsync e send (nd_id n) tok"
definition node_writeExecutable :: "attr_env \<Rightarrow> 'u attr_node \<Rightarrow> bool \<Rightarrow> (mem \<times> 'u, 'u attr_node) op" where
  "node_writeExecutable e n x =
     checked (writeExecutable e (nd_connection n) (nd_id n) x) n"
definition node_writeExecutableAsync :: "attr_env \<Rightarrow> 'u write_sender \<Rightarrow> 'u attr_node \<Rightarrow> bool \<Rightarrow> (u32, mem \<times> 'u, 'x) token \<Rightarrow> (mem \<times> 'u, 'x) op" where
  "node_writeExecutableAsync e send n x tok =
     writeExecutableAsync e send (nd_id n) x tok"

definition node_readUserExecutable :: "attr_env \<Rightarrow> 'u attr_node \<Rightarrow> (mem \<times> 'u, bool) op" where
  "node_readUserExecutable e n =
     get_value (readUserExecutable e (nd_connection n) (nd_id n))"
definition node_readUserExecutableAsync :: "attr_env \<Rightarrow> 'u read_sender \<Rightarrow> 'u attr_node \<Rightarrow> (bool Result, mem \<times> 'u, 'x) token \<Rightarrow> (mem \<times> 'u, 'x) op" where
  "node_readUserExecutableAsync e send n tok =
     readUserExecutableAsync e send (nd_id n) tok"
definition node_writeUserExecutable :: "attr_env \<Rightarrow> 'u attr_node \<Rightarrow> bool \<Rightarrow> (mem \<times> 'u, 'u attr_node) op" where
  "node_writeUserExecutable e n x =
     checked (writeUserExecutable e (nd_connection n) (nd_id n) x) n"
definition node_writeUserExecutableAsync :: "attr_env \<Rightarrow> 'u write_sender \<Rightarrow> 'u attr_node \<Rightarrow> bool \<Rightarrow> (u32, mem \<times> 'u, 'x) token \<Rightarrow> (mem \<times> 'u, 'x) op" where
  "node_writeUserExecutableAsync e send n x tok =
     writeUserExecutableAsync e send (nd_id n) x tok"

definition node_readDataTypeDefinition :: "attr_env \<Rightarrow> 'u attr_node \<Rightarrow> (mem \<times> 'u, attr_value Variant) op" where
  "node_readDataTypeDefinition e n =
     get_value (readDataTypeDefinition e (nd_connection n) (nd_id n))"
definition node_readDataTypeDefinitionAsync :: "attr_env \<Rightarrow> 'u read_sender \<Rightarrow> 'u attr_node \<Rightarrow> (attr_value Variant Result, mem \<times> 'u, 'x) token \<Rightarrow> (mem \<times> 'u, 'x) op" where
  "node_readDataTypeDefinitionAsync e send n tok =
     readDataTypeDefinitionAsync e send (nd_id n) tok"

definition node_readDataValue :: "('v, 'w) Node \<Rightarrow> ('w, 'v DataValue) op" where
  "node_readDataValue n =
     get_value (readDataValue (nd_connection n) (nd_id n))"
definition node_readDataValueAsync :: "(ReadRequest \<Rightarrow> ('v DataValue Response, 'u) initiation) \<Rightarrow> ('v, 'w) Node \<Rightarrow> ('v DataValue Result, 'u, 'x) token \<Rightarrow> ('u, 'x) op" where
  "node_readDataValueAsync send n tok =
     readDataValueAsync send (nd_id n) tok"
definition node_writeDataValue :: "('v, 'w) Node \<Rightarrow> 'v DataValue \<Rightarrow> ('w, ('v, 'w) Node) op" where
  "node_writeDataValue n x =
     checked (writeDataValue (nd_connection n) (nd_id n) x) n"
definition node_writeDataValueAsync :: "('v WriteValue list \<Rightarrow> (u32 Response, 'u) initiation) \<Rightarrow> ('v, 'w) Node \<Rightarrow> 'v DataValue \<Rightarrow> (u32, 'u, 'x) token \<Rightarrow> ('u, 'x) op" where
  "node_writeDataValueAsync send n x tok =
     writeDataValueAsync send (nd_id n) x tok"
definition readObjectProperty :: "attr_env \<Rightarrow> 'u attr_node \<Rightarrow> QualifiedName \<Rightarrow> (mem \<times> 'u, attr_value Variant) op" where
  "readObjectProperty e n name =
     op_bind (browseObjectProperty n name) (node_readValue e)"
definition writeObjectProperty :: "attr_env \<Rightarrow> 'u attr_node \<Rightarrow> QualifiedName \<Rightarrow> attr_value Variant \<Rightarrow> (mem \<times> 'u, 'u attr_node) op" where
  "writeObjectProperty e n name x =
     op_bind (browseObjectProperty n name) (\<lambda>p. op_bind (node_writeValue e p x) (\<lambda>_. op_ret n))"


section \<open>Errors become exceptions\<close>

text \<open>An operation that fails with an exception of the given code, from every world.\<close>

definition fails :: "u32 \<Rightarrow> ('w, 'a) op \<Rightarrow> bool" where
  "fails k f = (\<forall>w. \<exists>x. fst (f w) = throw x \<and> getStatusCode (Some x) = k)"

lemma value_of_bad: "isBad k \<Longrightarrow> \<exists>x. value_of (Result_bad \<lparr>br_code = k\<rparr>) = throw x \<and> getStatusCode (Some x) = k"
  using throwIfBad_throws[of k] by (auto simp: value_of_def checkIsBad_def Result_bad_def)

lemma fails_bindI: "fails k f \<Longrightarrow> fails k (op_bind f g)"
  unfolding fails_def
proof
  fix w assume "\<forall>w. \<exists>x. fst (f w) = throw x \<and> getStatusCode (Some x) = k"
  then show "\<exists>x. fst (op_bind f g w) = throw x \<and> getStatusCode (Some x) = k"
    by (cases "f w") (metis fst_conv op_bind_apply(1))
qed

lemma fails_lifted:
  assumes "\<And>w. fst (f w) = Ret r" "\<exists>x. g r = throw x \<and> getStatusCode (Some x) = k"
  shows "fails k (op_bind f (\<lambda>r. op_lift (g r)))"
proof -
  have "fst (op_bind f (\<lambda>r. op_lift (g r)) w) = g r" for w
    using assms(1)[of w] by (cases "f w") (simp add: op_bind_def)
  then show ?thesis using assms(2) by (simp add: fails_def)
qed

lemma fails_value: "(\<And>w. fst (f w) = Ret (Result_bad \<lparr>br_code = k\<rparr>)) \<Longrightarrow> isBad k \<Longrightarrow> fails k (get_value f)"
  unfolding get_value_def by (rule fails_lifted[where r = "Result_bad \<lparr>br_code = k\<rparr>"]) (simp_all add: value_of_bad)

lemma fails_checked: "(\<And>w. fst (f w) = Ret k) \<Longrightarrow> isBad k \<Longrightarrow> fails k (checked f n)"
  unfolding checked_def using throwIfBad_throws[of k] by (intro fails_lifted[where r = k]) auto

lemma fails_new:
  assumes "\<And>w. fst (f w) = Ret (Result_bad \<lparr>br_code = k\<rparr>)" "isBad k"
  shows "fails k (new_node n f)"
proof -
  obtain x where x: "value_of (Result_bad \<lparr>br_code = k\<rparr> :: NodeId Result) = throw x" "getStatusCode (Some x) = k"
    using value_of_bad[OF assms(2)] by blast
  then show ?thesis
    unfolding new_node_def using assms(1)
    by (intro fails_lifted[where r = "Result_bad \<lparr>br_code = k\<rparr>"]) (simp_all add: fromId_result_def)
qed

lemma with_attributes_runs: "\<exists>x. with_attributes ty a f = f x"
  by (auto simp: with_attributes_def wrapNodeAttributes_def eo_of_pointer_def op_bind_def fun_eq_iff)

lemma connections_agree: "connected c s \<Longrightarrow> Client_connection c = Server_connection s"
  by (simp add: Client_connection_def Server_connection_def connected_agree)

lemma add_down:
  assumes "down d k"
  shows "fst (with_attributes ty a (\<lambda>x. cn_addNode (Client_connection d) cls p i nm x td rt) w) = Ret (Result_bad \<lparr>br_code = k\<rparr>)"
  using with_attributes_runs[of ty a "\<lambda>x. cn_addNode (Client_connection d) cls p i nm x td rt"]
  by (auto simp: Client_connection_def down_results[OF assms])

lemmas add_defs = addFolder_def addObject_def addProperty_def addVariable_def addMethod_Client_def addObjectType_def
  addVariableType_def addReferenceType_def addDataType_def addView_def

lemmas node_add_defs = node_addFolder_def node_addObject_def node_addVariable_def node_addProperty_def node_addMethod_def
  node_addObjectType_def node_addVariableType_def node_addReferenceType_def node_addDataType_def node_addView_def

lemma read_down: "down d k \<Longrightarrow> fst (readAttributeImpl (cn_read (Client_connection d)) f a i w) = Ret (Result_bad \<lparr>br_code = k\<rparr>)"
  using down_results(1)[of d k i a TsNeither w] down_results(11)[of d k]
  by (cases "readAttribute_Client d i a TsNeither w")
    (auto simp: readAttributeImpl_def op_bind_def Client_connection_def andThen_def hasValue_def Result_bad_def mkBadResult_def)

lemma node_adds_down:
  assumes "down d k" "nd_connection n = Client_connection d"
  shows "fails k (node_addFolder ts n i nm a ref) \<and> fails k (node_addObject ts n i nm a typ ref)
    \<and> fails k (node_addVariable ts n i nm a typ ref) \<and> fails k (node_addProperty ts n i nm a)
    \<and> fails k (node_addMethod ts n i nm a ref) \<and> fails k (node_addObjectType ts n i nm a ref)
    \<and> fails k (node_addVariableType ts n i nm a typ ref) \<and> fails k (node_addReferenceType ts n i nm a ref)
    \<and> fails k (node_addDataType ts n i nm a ref) \<and> fails k (node_addView ts n i nm a ref)"
  unfolding node_add_defs add_defs assms(2)
  by (intro conjI fails_new) (simp_all add: add_down[OF assms(1)] down_results(11)[OF assms(1)])

lemma targets_down:
  assumes "down d k" "\<And>w. fst (f w) = Ret (zero_BrowsePathResult\<lparr>bpr_statusCode := k\<rparr>)"
  shows "fails k (targets_of n b f)"
  unfolding targets_of_def using throwIfBad_throws[OF down_results(11)[OF assms(1)]] assms(2)
  by (intro fails_lifted[where r = "zero_BrowsePathResult\<lparr>bpr_statusCode := k\<rparr>"]) auto

lemma browse_down:
  assumes "down d k" "nd_connection n = Client_connection d"
  shows "\<exists>x w'. browseReferences n dir ref sub cs w = Some (throw x, w') \<and> getStatusCode (Some x) = k"
    "\<exists>x w'. browseReferencedNodes n dir ref sub cs w = Some (throw x, w') \<and> getStatusCode (Some x) = k"
proof -
  obtain x where x: "throwIfBad k = throw x" "getStatusCode (Some x) = k"
    using throwIfBad_throws[OF down_results(11)[OF assms(1)]] by auto
  have "\<exists>w'. browseAll_connection (Client_connection d) bd w = Some (Ret (Result_of [] k), w')" for bd
    using down_results(3)[OF assms(1), of bd 0 w]
    by (cases "browse_Client d bd 0 w") (auto simp: browseAll_connection_def browseAll_def Client_connection_def browse_loop.simps
        zero_BrowseResult_def str_empty_def str_size_def)
  then obtain v where v: "browseAll_connection (Client_connection d) bd w = Some (Ret (Result_of [] k), v bd)" for bd by metis
  have "value_of (Result_of ([] :: ReferenceDescription list) k) = throw x" using x by (simp add: value_of_def checkIsBad_def)
  then show "\<exists>x w'. browseReferences n dir ref sub cs w = Some (throw x, w') \<and> getStatusCode (Some x) = k"
    "\<exists>x w'. browseReferencedNodes n dir ref sub cs w = Some (throw x, w') \<and> getStatusCode (Some x) = k"
    using x by (simp_all add: browseReferences_def browseReferencedNodes_def assms(2) v)
qed

section \<open>Local nodes\<close>

abbreviation node_at :: "('v, 'w) connection \<Rightarrow> ExpandedNodeId \<Rightarrow> ('v, 'w) Node" where
  "node_at c x \<equiv> \<lparr>nd_connection = c, nd_id = ex_nodeId x\<rparr>"

lemma local_nodes_filter: "local_nodes c refs = map (node_at c) (filter isLocal (map rd_nodeId refs))"
  by (induction refs) simp_all

lemma first_local_find: "first_local c k ts = (case List.find isLocal (map bpt_targetId ts) of None \<Rightarrow> throw (BadStatus k) | Some x \<Rightarrow> Ret (node_at c x))"
  by (induction ts) simp_all

text \<open>The code of \<open>browseAll\<close> is that of one of the results it got.\<close>

lemma browse_loop_good:
  assumes nxt: "\<And>cp w r w'. nxt cp w = (Ret r, w') \<Longrightarrow> \<not> isBad (br_statusCode r)"
  shows "browse_loop nxt refs r w = Some (Ret y, w') \<Longrightarrow> \<not> isBad (br_statusCode r) \<Longrightarrow> \<not> isBad (code y)"
proof -
  have "n = nxt \<longrightarrow> \<not> isBad (br_statusCode r) \<longrightarrow> (\<forall>y. fst z = Ret y \<longrightarrow> \<not> isBad (code y))" if eq: "browse_loop n refs r w = Some z" for n refs r w z
  proof (rule browse_loop.raw_induct[of "\<lambda>n _ r _ z. n = nxt \<longrightarrow> \<not> isBad (br_statusCode r) \<longrightarrow> (\<forall>y. fst z = Ret y \<longrightarrow> \<not> isBad (code y))", OF _ eq],
      intro impI allI)
    fix loop n refs r w z y
    assume ih: "\<And>n refs r w z. loop n refs r w = Some z \<Longrightarrow> n = nxt \<longrightarrow> \<not> isBad (br_statusCode r) \<longrightarrow> (\<forall>y. fst z = Ret y \<longrightarrow> \<not> isBad (code y))"
      and body: "(if str_empty (br_continuationPoint r) then Some (Ret (Result_of refs (br_statusCode r)), w)
        else case n (br_continuationPoint r) w of (Inl e, w') \<Rightarrow> Some (Inl e, w')
          | (Inr r', w') \<Rightarrow> loop n (refs @ br_references r') r' w') = Some z"
      and good: "n = nxt" "\<not> isBad (br_statusCode r)" "fst z = Ret y"
    show "\<not> isBad (code y)"
    proof (cases "str_empty (br_continuationPoint r)")
      case True
      then show ?thesis using body good by auto
    next
      case False
      then obtain r' w' where n: "n (br_continuationPoint r) w = (Ret r', w')" and l: "loop n (refs @ br_references r') r' w' = Some z"
        using body good(3) by (auto split: prod.splits sum.splits)
      then show ?thesis using ih[OF l] nxt[of "br_continuationPoint r" w] good(1,3) by blast
    qed
  qed
  then show "browse_loop nxt refs r w = Some (Ret y, w') \<Longrightarrow> \<not> isBad (br_statusCode r) \<Longrightarrow> \<not> isBad (code y)" by fastforce
qed

lemma browseAll_pages:
  assumes "pages (cn_browseNext c False) rest" "cn_browse c bd 0 w = (Ret r, w1)"
    and "\<not> isBad (br_statusCode r)" "\<And>cp w r w'. cn_browseNext c False cp w = (Ret r, w') \<Longrightarrow> \<not> isBad (br_statusCode r)"
  shows "\<exists>k w'. browseAll_connection c bd w = Some (Ret (Result_of
      (br_references r @ (if str_empty (br_continuationPoint r) then [] else rest w1 (br_continuationPoint r))) k), w') \<and> \<not> isBad k"
proof -
  obtain k w' where run: "browse_loop (cn_browseNext c False) (br_references r) r w1 = Some (Ret (Result_of
      (br_references r @ (if str_empty (br_continuationPoint r) then [] else rest w1 (br_continuationPoint r))) k), w')"
    using browse_loop_pages[OF assms(1), of "br_references r" r w1] by blast
  from browse_loop_good[OF assms(4) run assms(3)] have "\<not> isBad k" by simp
  with run show ?thesis by (auto simp: browseAll_connection_def browseAll_def assms(2))
qed

lemma value_of_good: "\<not> isBad k \<Longrightarrow> value_of (Result_of x k) = Ret x"
  by (simp add: value_of_def checkIsBad_def deref_def)

section \<open>Writing and reading through a node\<close>

definition node_reads_back :: "(mem \<times> 'u, 'n) op \<Rightarrow> (mem \<times> 'u, 'x) op \<Rightarrow> 'x \<Rightarrow> bool" where
  "node_reads_back wr rd x = (\<forall>w n w'. wr w = (Ret n, w') \<longrightarrow> (\<exists>w''. rd w' = (Ret x, w'')))"

lemma checked_Ret: "checked f n w = (Ret m, w') \<longleftrightarrow> (\<exists>k. f w = (Ret k, w') \<and> \<not> isBad k \<and> m = n)"
  by (auto simp: checked_def op_bind_def outc_bind_eq_Ret split: prod.splits sum.splits)

lemma node_reads_backI: "reads_back wr rd x \<Longrightarrow> node_reads_back (checked wr n) (get_value rd) x"
  by (fastforce simp: reads_back_def node_reads_back_def checked_Ret get_value_def op_bind_def value_of_good)

lemmas node_write_defs =
  node_writeUserWriteMask_def node_readUserWriteMask_def node_writeDisplayName_def node_readDisplayName_def node_writeDescription_def node_readDescription_def node_writeWriteMask_def
  node_readWriteMask_def node_writeIsAbstract_def node_readIsAbstract_def node_writeSymmetric_def node_readSymmetric_def
  node_writeInverseName_def node_readInverseName_def node_writeContainsNoLoops_def node_readContainsNoLoops_def
  node_writeEventNotifier_def node_readEventNotifier_def node_writeDataType_def node_readDataType_def node_writeValueRank_def
  node_readValueRank_def node_writeArrayDimensions_def node_readArrayDimensions_def node_writeAccessLevel_def
  node_readAccessLevel_def node_writeUserAccessLevel_def node_readUserAccessLevel_def node_writeMinimumSamplingInterval_def
  node_readMinimumSamplingInterval_def node_writeHistorizing_def node_readHistorizing_def node_writeExecutable_def
  node_readExecutable_def node_writeUserExecutable_def node_readUserExecutable_def node_writeValue_def node_readValue_def

lemma node_value_back: "stores c \<Longrightarrow> \<not> isBorrowed v \<Longrightarrow> nd_connection n = c \<Longrightarrow> node_reads_back (node_writeValue e n v) (node_readValue e n) v"
  unfolding node_write_defs writeValue_def readValue_def Handler_Value_def
  by (intro node_reads_backI, simp, rule reads_back_handler) (simp_all add: faithful_variant)

section \<open>Properties\<close>


definition demo_types :: attr_types where
  "demo_types = (let t = (\<lambda>n. \<lparr>t_id = n, t_size = 8 * n\<rparr>) in \<lparr>ty_Object = t 21, ty_Variable = t 22, ty_Method = t 23,
     ty_ObjectType = t 24, ty_VariableType = t 25, ty_ReferenceType = t 26, ty_DataType = t 27, ty_View = t 28\<rparr>)"


text \<open>C16. Browsing from a node. On a server whose pages are good, \<open>browseReferencedNodes\<close> ends and returns the local
  targets of all pages in their order, and \<open>browseChildren\<close> those of the forward references. \<open>browseChild\<close> and
  \<open>browseObjectProperty\<close> return the first local target, throw the code of a bad result, and a code of their own
  when no target is local. \<open>browseParent\<close> returns the first reference, and throws when there is none or it is not
  local, even if a later one is.\<close>

theorem node_browse_correct:
  assumes "pages (cn_browseNext c False) rest" "nd_connection n = c" "\<not> isBad (br_statusCode r)"
    and "\<And>cp w r w'. cn_browseNext c False cp w = (Ret r, w') \<Longrightarrow> \<not> isBad (br_statusCode r)"
    and "cn_browse c (browse_description (nd_id n) dir ref sub cs UA_BROWSERESULTMASK_TARGETINFO) 0 w = (Ret r, w1)"
    and "cn_translate c (makeBrowsePath (nd_id n) path) w = (Ret t, w2)"
    and "cn_browse c (browse_description (nd_id n) BdInverse HierarchicalReferences True 0 UA_BROWSERESULTMASK_TARGETINFO) 1 w = (Ret p, w3)"
  shows "(\<exists>w'. browseReferencedNodes n dir ref sub cs w = Some (Ret (map (node_at c) (filter isLocal (map rd_nodeId
        (br_references r @ (if str_empty (br_continuationPoint r) then [] else rest w1 (br_continuationPoint r)))))), w'))
    \<and> (dir = BdForward \<and> sub \<longrightarrow> browseChildren n ref cs w = browseReferencedNodes n dir ref sub cs w)
    \<and> browseChild n path w = (if isBad (bpr_statusCode t) then outc_map (\<lambda>_. n) (throwIfBad (bpr_statusCode t))
        else case List.find isLocal (map bpt_targetId (bpr_targets t)) of
            None \<Rightarrow> throw (BadStatus UA_STATUSCODE_BADNOMATCH) | Some x \<Rightarrow> Ret (node_at c x), w2)
    \<and> browseParent n w = (if isBad (br_statusCode p) then outc_map (\<lambda>_. n) (throwIfBad (br_statusCode p))
        else if br_references p = [] then throw (BadStatus UA_STATUSCODE_BADNOTFOUND)
        else if \<not> isLocal (rd_nodeId (hd (br_references p))) then throw (BadStatus UA_STATUSCODE_BADNODEIDUNKNOWN)
        else Ret (node_at c (rd_nodeId (hd (br_references p)))), w3)"
proof (intro conjI impI)
  obtain k w' where "browseAll_connection c (browse_description (nd_id n) dir ref sub cs UA_BROWSERESULTMASK_TARGETINFO) w = Some (Ret (Result_of
      (br_references r @ (if str_empty (br_continuationPoint r) then [] else rest w1 (br_continuationPoint r))) k), w')" "\<not> isBad k"
    by (rule exE[OF browseAll_pages[OF assms(1,5,3)]]) (erule assms(4), blast)
  then show "\<exists>w'. browseReferencedNodes n dir ref sub cs w = Some (Ret (map (node_at c) (filter isLocal (map rd_nodeId
        (br_references r @ (if str_empty (br_continuationPoint r) then [] else rest w1 (br_continuationPoint r)))))), w')"
    unfolding browseReferencedNodes_def assms(2) by (simp add: value_of_good local_nodes_filter)
  show "browseChildren n ref cs w = browseReferencedNodes n dir ref sub cs w" if "dir = BdForward \<and> sub"
    using that by (simp add: browseChildren_def)
  show "browseChild n path w = (if isBad (bpr_statusCode t) then outc_map (\<lambda>_. n) (throwIfBad (bpr_statusCode t))
      else case List.find isLocal (map bpt_targetId (bpr_targets t)) of
          None \<Rightarrow> throw (BadStatus UA_STATUSCODE_BADNOMATCH) | Some x \<Rightarrow> Ret (node_at c x), w2)"
    by (simp add: browseChild_def browseSimplifiedBrowsePath_def targets_of_def op_bind_def assms(2,6) throwIfBad_def first_local_find)
  show "browseParent n w = (if isBad (br_statusCode p) then outc_map (\<lambda>_. n) (throwIfBad (br_statusCode p))
      else if br_references p = [] then throw (BadStatus UA_STATUSCODE_BADNOTFOUND)
      else if \<not> isLocal (rd_nodeId (hd (br_references p))) then throw (BadStatus UA_STATUSCODE_BADNODEIDUNKNOWN)
      else Ret (node_at c (rd_nodeId (hd (br_references p)))), w3)"
    by (cases "br_references p") (simp_all add: browseParent_def op_bind_def assms(2,7) throwIfBad_def fromId_expanded_def)
qed

theorem node_browse_correct_witness:
  "\<exists>w'. browseReferencedNodes \<lparr>nd_connection = Server_connection paging_server, nd_id = ns0 84\<rparr> BdBoth HierarchicalReferences True 0
       [some_reference 1, some_reference 2] = Some (Ret (map (node_at (Server_connection paging_server) \<circ> rd_nodeId)
         [some_reference 1, some_reference 2]), w')"
proof -
  let ?c = "Server_connection paging_server" and ?rs = "[some_reference 1, some_reference 2]"
  let ?n = "\<lparr>nd_connection = ?c, nd_id = ns0 84\<rparr>"
  have nxt: "cn_browseNext ?c False = browseNext_Server paging_server False" by (simp add: Server_connection_def)
  have pg: "pages (cn_browseNext ?c False) (\<lambda>w _. w)" unfolding nxt by (rule paging_pages)
  have good: "\<not> isBad (br_statusCode r)" if "cn_browseNext ?c False cp w = (Ret r, w')" for cp w r w'
    using that unfolding nxt by (auto simp: browseNext_Server_def direct_def paging_server_def page_def)
  have b: "cn_browse ?c bd k ?rs = (Ret (fst (page ?rs)), snd (page ?rs))" for bd k
    by (simp add: Server_connection_def browse_Server_def direct_def paging_server_def page_def)
  have t: "cn_translate ?c p ?rs = (Ret zero_BrowsePathResult, ?rs)" for p
    by (simp add: Server_connection_def translate_Server_def direct_def paging_server_def)
  have n: "nd_connection ?n = ?c" and g: "\<not> isBad (br_statusCode (fst (page ?rs)))" by (simp_all add: page_def)
  have l: "isLocal (ExpandedNodeId_of i)" for i by (simp add: ExpandedNodeId_of_def isLocal_def str_empty_def str_size_def)
  from node_browse_correct[OF pg n g good b t b, THEN conjunct1] show ?thesis
    by (simp add: page_def str_empty_def str_size_def some_reference_def l)
qed

text \<open>C29. What a node writes without an exception it reads back: its nineteen typed attributes and its value; and
  \<open>writeObjectProperty\<close> followed by \<open>readObjectProperty\<close> gives the value, provided that the path still leads to the
  same property. Both throw when the path leads to no local node, and nothing is written.\<close>

theorem node_writes_are_read:
  assumes "stores c" "env_ok e" "\<not> isBorrowed v" "nd_connection n = c"
    and "\<And>w. browseObjectProperty n q w = (Ret p, w)" "nd_connection p = c" "\<And>w. browseObjectProperty n q' w = (throw x, w)"
  shows "node_reads_back (node_writeDisplayName e n t) (node_readDisplayName e n) t
    \<and> node_reads_back (node_writeDescription e n t) (node_readDescription e n) t
    \<and> node_reads_back (node_writeWriteMask e n b32) (node_readWriteMask e n) b32
    \<and> node_reads_back (node_writeUserWriteMask e n b32) (node_readUserWriteMask e n) b32
    \<and> node_reads_back (node_writeIsAbstract e n b) (node_readIsAbstract e n) b
    \<and> node_reads_back (node_writeSymmetric e n b) (node_readSymmetric e n) b
    \<and> node_reads_back (node_writeInverseName e n t) (node_readInverseName e n) t
    \<and> node_reads_back (node_writeContainsNoLoops e n b) (node_readContainsNoLoops e n) b
    \<and> node_reads_back (node_writeEventNotifier e n b8) (node_readEventNotifier e n) b8
    \<and> node_reads_back (node_writeDataType e n j) (node_readDataType e n) j
    \<and> node_reads_back (node_writeValueRank e n i) (node_readValueRank e n) i
    \<and> node_reads_back (node_writeArrayDimensions e n ds) (node_readArrayDimensions e n) ds
    \<and> node_reads_back (node_writeAccessLevel e n b8) (node_readAccessLevel e n) b8
    \<and> node_reads_back (node_writeUserAccessLevel e n b8) (node_readUserAccessLevel e n) b8
    \<and> node_reads_back (node_writeMinimumSamplingInterval e n ms) (node_readMinimumSamplingInterval e n) ms
    \<and> node_reads_back (node_writeHistorizing e n b) (node_readHistorizing e n) b
    \<and> node_reads_back (node_writeExecutable e n b) (node_readExecutable e n) b
    \<and> node_reads_back (node_writeUserExecutable e n b) (node_readUserExecutable e n) b
    \<and> node_reads_back (node_writeValue e n v) (node_readValue e n) v
    \<and> node_reads_back (writeObjectProperty e n q v) (readObjectProperty e n q) v
    \<and> writeObjectProperty e n q' v w = (throw x, w) \<and> readObjectProperty e n q' w = (throw x, w)"
proof (intro conjI)
  show "node_reads_back (node_writeValue e n v) (node_readValue e n) v" by (rule node_value_back[OF assms(1,3,4)])
  show "node_reads_back (writeObjectProperty e n q v) (readObjectProperty e n q) v"
    using node_value_back[OF assms(1,3,6), of e]
    by (auto simp: node_reads_back_def writeObjectProperty_def readObjectProperty_def op_bind_def assms(5) split: prod.splits sum.splits)
  show "node_reads_back (node_writeArrayDimensions e n ds) (node_readArrayDimensions e n) ds"
    unfolding node_write_defs assms(4) writeArrayDimensions_def readArrayDimensions_def
    by (rule node_reads_backI[OF reads_back_handler[OF assms(1) faithful_dims[OF assms(2)]]])
  show "writeObjectProperty e n q' v w = (throw x, w)" "readObjectProperty e n q' w = (throw x, w)"
    by (simp_all add: writeObjectProperty_def readObjectProperty_def op_bind_def assms(7))
qed (unfold node_write_defs assms(4) write_attribute_defs handler_defs, (rule node_reads_backI[OF reads_back_handler[OF assms(1)]],
    rule faithful_scalar[OF assms(2)] faithful_bitmask[OF assms(2)], simp)+)

text \<open>The table server with one property, which paths of one element with the name \<open>p\<close> lead to.\<close>

definition property_connection :: "(NodeId \<times> AttributeId \<Rightarrow> attr_value DataValue) attr_connection" where
  "property_connection = table_connection\<lparr>cn_translate := (\<lambda>p. op_ret (
     if map rpe_targetName (bp_relativePath p) = [\<lparr>qn_namespaceIndex = 0, qn_name = Str ''p''\<rparr>]
     then \<lparr>bpr_statusCode = UA_STATUSCODE_GOOD, bpr_targets = [\<lparr>bpt_targetId = ExpandedNodeId_of (ns0 99), bpt_remainingPathIndex = 0\<rparr>]\<rparr>
     else zero_BrowsePathResult))\<rparr>"

lemma stores_property: "stores property_connection"
  using stores_table by (simp add: stores_def property_connection_def)

theorem node_writes_are_read_witness:
  "node_reads_back (writeObjectProperty demo_env \<lparr>nd_connection = property_connection, nd_id = ns0 85\<rparr> \<lparr>qn_namespaceIndex = 0, qn_name = Str ''p''\<rparr> zero_variant)
     (readObjectProperty demo_env \<lparr>nd_connection = property_connection, nd_id = ns0 85\<rparr> \<lparr>qn_namespaceIndex = 0, qn_name = Str ''p''\<rparr>) zero_variant"
proof -
  let ?n = "\<lparr>nd_connection = property_connection, nd_id = ns0 85\<rparr>" and ?q = "\<lambda>s. \<lparr>qn_namespaceIndex = 0, qn_name = Str s\<rparr>"
  have nb: "\<not> isBorrowed zero_variant" by (simp add: isBorrowed_def zero_variant_def)
  have l: "isLocal (ExpandedNodeId_of i)" for i by (simp add: ExpandedNodeId_of_def isLocal_def str_empty_def str_size_def)
  have p: "browseObjectProperty ?n (?q ''p'') w = (Ret \<lparr>nd_connection = property_connection, nd_id = ns0 99\<rparr>, w)" for w
    by (simp add: browseObjectProperty_def targets_of_def property_connection_def l) (simp add: ExpandedNodeId_of_def)
  have x: "browseObjectProperty ?n (?q ''x'') w = (throw (BadStatus UA_STATUSCODE_BADNOTFOUND), w)" for w
    by (simp add: browseObjectProperty_def targets_of_def property_connection_def zero_BrowsePathResult_def)
  have c: "nd_connection ?n = property_connection" "nd_connection \<lparr>nd_connection = property_connection, nd_id = ns0 99\<rparr> = property_connection" by simp_all
  show ?thesis using node_writes_are_read[OF stores_property demo_env_ok nb c(1) p c(2) x] by blast
qed

end
