(* ===== verification/Clients.thy ===== *)
theory Clients
  imports Callbacks
begin

text \<open>
  Clients (\<open>client.cpp\<close>, \<open>detail/client_context.hpp\<close>): the state callback that turns changes of channel and session into
  the user's callbacks, the run loop, and the life cycle of the \<open>Client\<close> objects with the native client that points back
  to them.
\<close>

section \<open>State notifications\<close>

datatype ClientState = Disconnected | Connected | SessionActivated | SessionClosed

text \<open>The states of channels and sessions of the C library from version 1.1 on.\<close>

datatype channel_state = ChFresh | ChHelSent | ChHelReceived | ChAckSent | ChAckReceived | ChOpnSent | ChOpen | ChClosing | ChClosed

datatype session_state = SsClosed | SsCreateRequested | SsCreated | SsActivateRequested | SsActivated | SsClosing

text \<open>The fields of \<open>ClientContext\<close> used here; \<open>cc_log\<close> records the state callbacks that were run, oldest first. A user
  function is given by its outcome.\<close>

record client_ctx =
  cc_catcher :: "exn option"
  cc_running :: bool
  cc_lastSession :: session_state
  cc_lastChannel :: channel_state
  cc_callbacks :: "ClientState \<Rightarrow> (unit outc) option"
  cc_log :: "ClientState list"

definition setStateCallback :: "ClientState \<Rightarrow> (unit outc) option \<Rightarrow> client_ctx \<Rightarrow> client_ctx" where
  "setStateCallback st cb ctx = ctx\<lparr>cc_callbacks := (cc_callbacks ctx)(st := cb)\<rparr>"

definition onConnected :: "(unit outc) option \<Rightarrow> client_ctx \<Rightarrow> client_ctx" where
  "onConnected cb = setStateCallback Connected cb"

definition onDisconnected :: "(unit outc) option \<Rightarrow> client_ctx \<Rightarrow> client_ctx" where
  "onDisconnected cb = setStateCallback Disconnected cb"

definition onSessionActivated :: "(unit outc) option \<Rightarrow> client_ctx \<Rightarrow> client_ctx" where
  "onSessionActivated cb = setStateCallback SessionActivated cb"

definition onSessionClosed :: "(unit outc) option \<Rightarrow> client_ctx \<Rightarrow> client_ctx" where
  "onSessionClosed cb = setStateCallback SessionClosed cb"

definition invokeStateCallback :: "ClientState \<Rightarrow> (client_ctx, unit) op" where
  "invokeStateCallback st ctx = (case cc_callbacks ctx st of
      None \<Rightarrow> (Ret (), ctx)
    | Some cb \<Rightarrow> (case catcher_invoke cb (cc_catcher ctx) of
        (r, c) \<Rightarrow> (r, ctx\<lparr>cc_catcher := c, cc_log := cc_log ctx @ [st]\<rparr>)))"

text \<open>\<open>stateCallback\<close>, with what it calls as an argument; \<open>None\<close> is a client without context.\<close>

definition session_change :: "(ClientState \<Rightarrow> (client_ctx, unit) op) \<Rightarrow> session_state \<Rightarrow> (client_ctx, unit) op" where
  "session_change call ss ctx = (if ss \<noteq> cc_lastSession ctx
     then (case ss of SsActivated \<Rightarrow> call SessionActivated ctx | SsClosed \<Rightarrow> call SessionClosed ctx | _ \<Rightarrow> (Ret (), ctx))
     else (Ret (), ctx))"

definition channel_change :: "(ClientState \<Rightarrow> (client_ctx, unit) op) \<Rightarrow> channel_state \<Rightarrow> (client_ctx, unit) op" where
  "channel_change call ch ctx = (if ch \<noteq> cc_lastChannel ctx
     then (case ch of ChOpen \<Rightarrow> call Connected ctx | ChClosed \<Rightarrow> call Disconnected ctx | _ \<Rightarrow> (Ret (), ctx))
     else (Ret (), ctx))"

definition stateCallback_via :: "(ClientState \<Rightarrow> (client_ctx, unit) op) \<Rightarrow> channel_state \<Rightarrow> session_state \<Rightarrow> (client_ctx, unit) op" where
  "stateCallback_via call ch ss = op_bind (session_change call ss) (\<lambda>_. op_bind (channel_change call ch)
     (\<lambda>_ ctx. (Ret (), ctx\<lparr>cc_lastChannel := ch, cc_lastSession := ss\<rparr>)))"

definition stateCallback :: "channel_state \<Rightarrow> session_state \<Rightarrow> client_ctx option \<Rightarrow> unit outc \<times> client_ctx option" where
  "stateCallback ch ss context = (case context of
      None \<Rightarrow> (Ret (), None)
    | Some ctx \<Rightarrow> (case stateCallback_via invokeStateCallback ch ss ctx of (r, ctx') \<Rightarrow> (r, Some ctx')))"

fun notify_all :: "(channel_state \<times> session_state) list \<Rightarrow> client_ctx \<Rightarrow> unit outc \<times> client_ctx" where
  "notify_all [] ctx = (Ret (), ctx)"
| "notify_all ((ch, ss) # ns) ctx = (case stateCallback ch ss (Some ctx) of
      (Inl f, c) \<Rightarrow> (Inl f, ctx)
    | (Inr _, c) \<Rightarrow> notify_all ns (case c of None \<Rightarrow> ctx | Some ctx' \<Rightarrow> ctx'))"

text \<open>The inactivity callbacks.\<close>

definition inactivityCallback :: "(unit outc) option \<Rightarrow> client_ctx option \<Rightarrow> unit outc \<times> client_ctx option" where
  "inactivityCallback cb context = (case context of
      None \<Rightarrow> (Ret (), None)
    | Some ctx \<Rightarrow> (case cb of
        None \<Rightarrow> (Ret (), Some ctx)
      | Some f \<Rightarrow> (case catcher_invoke f (cc_catcher ctx) of (r, c) \<Rightarrow> (r, Some (ctx\<lparr>cc_catcher := c\<rparr>)))))"

definition isConnected :: "channel_state \<Rightarrow> bool" where
  "isConnected ch = (ch = ChOpen)"

section \<open>The events of a sequence of notifications\<close>

text \<open>What is to be reported: entering the states activated and closed of the session and open and closed of the channel.\<close>

definition session_event :: "session_state \<Rightarrow> session_state \<Rightarrow> ClientState list" where
  "session_event old new = (if new = old then [] else if new = SsActivated then [SessionActivated]
     else if new = SsClosed then [SessionClosed] else [])"

definition channel_event :: "channel_state \<Rightarrow> channel_state \<Rightarrow> ClientState list" where
  "channel_event old new = (if new = old then [] else if new = ChOpen then [Connected]
     else if new = ChClosed then [Disconnected] else [])"

fun events :: "channel_state \<Rightarrow> session_state \<Rightarrow> (channel_state \<times> session_state) list \<Rightarrow> ClientState list" where
  "events ch ss [] = []"
| "events ch ss ((ch', ss') # ns) = session_event ss ss' @ channel_event ch ch' @ events ch' ss' ns"

fun entries :: "'a \<Rightarrow> 'a \<Rightarrow> 'a list \<Rightarrow> nat" where
  "entries t p [] = 0"
| "entries t p (x # xs) = (if x = t \<and> x \<noteq> p then 1 else 0) + entries t x xs"

definition benign :: "unit outc \<Rightarrow> bool" where
  "benign cb = (case cb of Inl (Throw _) \<Rightarrow> True | Inl _ \<Rightarrow> False | Inr _ \<Rightarrow> True)"

definition installed :: "client_ctx \<Rightarrow> ClientState \<Rightarrow> bool" where
  "installed ctx st = (cc_callbacks ctx st \<noteq> None)"

definition outcome :: "client_ctx \<Rightarrow> ClientState \<Rightarrow> unit outc" where
  "outcome ctx st = (case cc_callbacks ctx st of None \<Rightarrow> Ret () | Some cb \<Rightarrow> cb)"

text \<open>Invoking the callbacks of a list of states, and what it does to catcher and log.\<close>

definition catch_last :: "exn option \<Rightarrow> unit outc \<Rightarrow> exn option" where
  "catch_last st cb = (case cb of Inl (Throw e) \<Rightarrow> Some e | _ \<Rightarrow> st)"

definition fire :: "ClientState list \<Rightarrow> client_ctx \<Rightarrow> client_ctx" where
  "fire sts ctx = ctx\<lparr>cc_catcher := foldl catch_last (cc_catcher ctx) (map (outcome ctx) sts),
     cc_log := cc_log ctx @ filter (installed ctx) sts\<rparr>"

definition all_benign :: "client_ctx \<Rightarrow> bool" where
  "all_benign ctx = (\<forall>st \<in> {Disconnected, Connected, SessionActivated, SessionClosed}. benign (outcome ctx st))"

lemma fire_simps [simp]:
  "cc_running (fire sts ctx) = cc_running ctx" "cc_lastSession (fire sts ctx) = cc_lastSession ctx"
  "cc_lastChannel (fire sts ctx) = cc_lastChannel ctx" "cc_callbacks (fire sts ctx) = cc_callbacks ctx"
  "installed (fire sts ctx) = installed ctx" "outcome (fire sts ctx) = outcome ctx" "all_benign (fire sts ctx) = all_benign ctx"
  "fire [] ctx = ctx"
  by (simp_all add: fire_def installed_def[abs_def] outcome_def[abs_def] all_benign_def)

lemma fire_append: "fire ys (fire xs ctx) = fire (xs @ ys) ctx"
  by (simp add: fire_def installed_def[abs_def] outcome_def[abs_def])

lemma invoke_fire: "all_benign ctx \<Longrightarrow> invokeStateCallback st ctx = (Ret (), fire [st] ctx)"
proof -
  assume "all_benign ctx"
  then have "benign (outcome ctx st)" by (cases st) (simp_all add: all_benign_def)
  then show ?thesis
    by (cases "cc_callbacks ctx st")
      (auto simp: invokeStateCallback_def fire_def installed_def outcome_def catch_last_def benign_def catcher_invoke_def
        setException_def split: sum.splits fault.splits)
qed

lemma stateCallback_fire:
  assumes "all_benign ctx"
  shows "stateCallback ch ss (Some ctx) = (Ret (), Some ((fire (session_event (cc_lastSession ctx) ss @ channel_event (cc_lastChannel ctx) ch) ctx)
    \<lparr>cc_lastChannel := ch, cc_lastSession := ss\<rparr>))"
proof -
  have "session_change invokeStateCallback ss ctx = (Ret (), fire (session_event (cc_lastSession ctx) ss) ctx)"
    by (cases ss) (simp_all add: session_change_def session_event_def invoke_fire[OF assms])
  moreover have "channel_change invokeStateCallback ch c = (Ret (), fire (channel_event (cc_lastChannel c) ch) c)" if "all_benign c" for c
    by (cases ch) (simp_all add: channel_change_def channel_event_def invoke_fire[OF that])
  ultimately show ?thesis using assms
    by (simp add: stateCallback_def stateCallback_via_def op_bind_apply fire_append)
qed

lemma fire_update [simp]:
  "fire xs (ctx\<lparr>cc_lastChannel := ch, cc_lastSession := ss\<rparr>) = (fire xs ctx)\<lparr>cc_lastChannel := ch, cc_lastSession := ss\<rparr>"
  "all_benign (ctx\<lparr>cc_lastChannel := ch, cc_lastSession := ss\<rparr>) = all_benign ctx"
  by (simp_all add: fire_def installed_def[abs_def] outcome_def[abs_def] all_benign_def)

lemma notify_fire:
  assumes "all_benign ctx"
  shows "notify_all ns ctx = (Ret (), (fire (events (cc_lastChannel ctx) (cc_lastSession ctx) ns) ctx)
    \<lparr>cc_lastChannel := last (cc_lastChannel ctx # map fst ns), cc_lastSession := last (cc_lastSession ctx # map snd ns)\<rparr>)"
  using assms
proof (induction ns arbitrary: ctx)
  case (Cons n ns)
  obtain ch ss where n: "n = (ch, ss)" by fastforce
  show ?case by (simp add: n stateCallback_fire[OF Cons.prems] Cons.IH Cons.prems fire_append)
qed simp

lemma events_entries:
  "count_list (events ch ss ns) Connected = entries ChOpen ch (map fst ns)"
  "count_list (events ch ss ns) Disconnected = entries ChClosed ch (map fst ns)"
  "count_list (events ch ss ns) SessionActivated = entries SsActivated ss (map snd ns)"
  "count_list (events ch ss ns) SessionClosed = entries SsClosed ss (map snd ns)"
  by (induction ch ss ns rule: events.induct) (auto simp: session_event_def channel_event_def)


definition fresh_ctx :: "(ClientState \<Rightarrow> (unit outc) option) \<Rightarrow> client_ctx" where
  "fresh_ctx cbs = \<lparr>cc_catcher = None, cc_running = False, cc_lastSession = SsClosed, cc_lastChannel = ChFresh,
     cc_callbacks = cbs, cc_log = []\<rparr>"


text \<open>A callback that itself makes the native client report changes: the last states are stored only after it returns, so
  that disconnecting in \<open>onSessionActivated\<close> is followed by a call of \<open>onConnected\<close> and leaves the client with the states
  of the outer notification.\<close>

definition disconnecting :: "ClientState \<Rightarrow> (client_ctx, unit) op" where
  "disconnecting st = (if st = SessionActivated
     then op_bind (invokeStateCallback st) (\<lambda>_. op_bind (stateCallback_via invokeStateCallback ChOpen SsClosing)
       (\<lambda>_. stateCallback_via invokeStateCallback ChClosed SsClosed))
     else invokeStateCallback st)"

lemma reentrant_disconnect:
  "\<exists>ctx'. stateCallback_via disconnecting ChOpen SsActivated
       ((fresh_ctx (\<lambda>_. Some (Ret ())))\<lparr>cc_lastChannel := ChOpen, cc_lastSession := SsActivateRequested\<rparr>) = (Ret (), ctx')
     \<and> cc_log ctx' = [SessionActivated, SessionClosed, Disconnected, Connected] \<and> cc_lastChannel ctx' = ChOpen"
  by (simp add: stateCallback_via_def disconnecting_def session_change_def channel_change_def invokeStateCallback_def fresh_ctx_def
      op_bind_apply catcher_invoke_def)

text \<open>A session that ends because the server died is not reported as closed: the session state goes from activated to created.\<close>

lemma killed_server_events: "events ChOpen SsActivated [(ChClosed, SsCreated), (ChFresh, SsCreated)] = [Disconnected]"
  by (simp add: session_event_def channel_event_def)

section \<open>The run loop\<close>

text \<open>One native iteration: its status, the exception user callbacks left in the catcher, and whether \<open>stop()\<close> was called
  meanwhile, by a callback or another thread.\<close>

type_synonym 'w iteration = "'w \<Rightarrow> (u32 \<times> exn option \<times> bool) \<times> 'w"

definition client_runIterate :: "'w iteration \<Rightarrow> (client_ctx \<times> 'w, unit) op" where
  "client_runIterate it s = (case s of (ctx, w) \<Rightarrow> (case it w of ((status, ex, stopped), w') \<Rightarrow>
     (let ctx1 = ctx\<lparr>cc_catcher := (case ex of None \<Rightarrow> cc_catcher ctx | Some e \<Rightarrow> setException e (cc_catcher ctx)),
            cc_running := cc_running ctx \<and> \<not> stopped\<rparr>
      in case throwIfBad status of
          Inl f \<Rightarrow> (Inl f, (ctx1, w'))
        | Inr _ \<Rightarrow> (case rethrow (cc_catcher ctx1) of (r, c) \<Rightarrow> (r, (ctx1\<lparr>cc_catcher := c\<rparr>, w'))))))"

definition client_rethrow :: "(client_ctx \<times> 'w, unit) op" where
  "client_rethrow s = (case s of (ctx, w) \<Rightarrow> (case rethrow (cc_catcher ctx) of (r, c) \<Rightarrow> (r, (ctx\<lparr>cc_catcher := c\<rparr>, w))))"

partial_function (option) run_loop :: "'w iteration \<Rightarrow> client_ctx \<times> 'w \<Rightarrow> (unit outc \<times> (client_ctx \<times> 'w)) option" where
  "run_loop it s =
     (if \<not> cc_running (fst s) then Some (Ret (), s)
      else (case op_bind (client_runIterate it) (\<lambda>_. client_rethrow) s of
          (Inl f, s') \<Rightarrow> Some (Inl f, s')
        | (Inr _, s') \<Rightarrow> run_loop it s'))"

definition client_run :: "'w iteration \<Rightarrow> client_ctx \<times> 'w \<Rightarrow> (unit outc \<times> (client_ctx \<times> 'w)) option" where
  "client_run it s = (case s of (ctx, w) \<Rightarrow>
     if cc_running ctx then Some (Ret (), s)
     else (case run_loop it (ctx\<lparr>cc_running := True\<rparr>, w) of
         None \<Rightarrow> None
       | Some (Inl (Throw e), (ctx', w')) \<Rightarrow> Some (throw e, (ctx'\<lparr>cc_running := False\<rparr>, w'))
       | Some r \<Rightarrow> Some r))"

definition client_stop :: "client_ctx \<Rightarrow> client_ctx" where
  "client_stop ctx = ctx\<lparr>cc_running := False\<rparr>"

definition client_isRunning :: "client_ctx \<Rightarrow> bool" where
  "client_isRunning ctx = cc_running ctx"

fun world_at :: "'w iteration \<Rightarrow> nat \<Rightarrow> 'w \<Rightarrow> 'w" where
  "world_at it 0 w = w"
| "world_at it (Suc n) w = world_at it n (snd (it w))"

definition ends :: "'w iteration \<Rightarrow> 'w \<Rightarrow> bool" where
  "ends it w = (case fst (it w) of (status, ex, stopped) \<Rightarrow> isBad status \<or> ex \<noteq> None \<or> stopped)"

definition final :: "u32 \<times> exn option \<times> bool \<Rightarrow> unit outc" where
  "final o3 = (case o3 of (status, ex, stopped) \<Rightarrow>
     outc_bind (throwIfBad status) (\<lambda>_. case ex of None \<Rightarrow> Ret () | Some e \<Rightarrow> throw e))"

lemma run_loop_continue:
  assumes "cc_running ctx" "cc_catcher ctx = None" "\<not> ends it w"
  shows "run_loop it (ctx, w) = run_loop it (ctx, snd (it w))"
proof -
  obtain status w' where it: "it w = ((status, None, False), w')" "\<not> isBad status"
    using assms(3) by (cases "it w") (auto simp: ends_def split: prod.splits)
  have "op_bind (client_runIterate it) (\<lambda>_. client_rethrow) (ctx, w) = (Ret (), (ctx, w'))"
    using assms(1,2) it by (cases ctx) (simp add: op_bind_apply client_runIterate_def client_rethrow_def rethrow_def Let_def)
  then show ?thesis using assms(1) it by (subst run_loop.simps) simp
qed

lemma run_loop_last:
  assumes "cc_running ctx" "cc_catcher ctx = None" "ends it w"
  shows "\<exists>ctx'. run_loop it (ctx, w) = Some (final (fst (it w)), (ctx', snd (it w)))
    \<and> (returns (final (fst (it w))) \<longrightarrow> \<not> cc_running ctx')"
proof -
  obtain status ex stopped w' where it: "it w = ((status, ex, stopped), w')" by (metis prod_cases3 surj_pair)
  show ?thesis
  proof (cases "\<exists>f. final (status, ex, stopped) = Inl f")
    case True
    then obtain f where f: "final (status, ex, stopped) = Inl f" by blast
    then obtain ctx' where "op_bind (client_runIterate it) (\<lambda>_. client_rethrow) (ctx, w) = (Inl f, (ctx', w'))"
      using assms it by (cases "throwIfBad status"; cases ex)
        (auto simp: final_def op_bind_apply client_runIterate_def client_rethrow_def rethrow_def setException_def Let_def)
    then show ?thesis using assms(1) it f by (subst run_loop.simps) simp
  next
    case False
    then have good: "\<not> isBad status" "ex = None"
      by (cases "throwIfBad status"; auto simp: final_def throwIfBad_def split: if_splits option.splits)+
    then have stop: "stopped" using assms(3) it by (simp add: ends_def)
    have "op_bind (client_runIterate it) (\<lambda>_. client_rethrow) (ctx, w) = (Ret (), (ctx\<lparr>cc_running := False\<rparr>, w'))"
      using assms(1,2) it good stop by (cases ctx) (simp add: op_bind_apply client_runIterate_def client_rethrow_def rethrow_def Let_def)
    then show ?thesis using assms(1) it good
      by (subst run_loop.simps) (simp add: run_loop.simps[of it "(ctx\<lparr>cc_running := False\<rparr>, w')"] final_def)
  qed
qed

lemma run_loop_at:
  assumes "cc_running ctx" "cc_catcher ctx = None" "\<And>j. j < k \<Longrightarrow> \<not> ends it (world_at it j w)"
  shows "run_loop it (ctx, w) = run_loop it (ctx, world_at it k w)"
  using assms(3)
proof (induction k arbitrary: w)
  case (Suc k)
  have "run_loop it (ctx, w) = run_loop it (ctx, snd (it w))"
    using Suc.prems[of 0] by (simp add: run_loop_continue[OF assms(1,2)])
  also have "\<dots> = run_loop it (ctx, world_at it k (snd (it w)))"
    using Suc.prems[of "Suc j" for j] by (intro Suc.IH) force
  finally show ?case by simp
qed simp

lemma run_loop_endless:
  assumes "cc_running ctx" "cc_catcher ctx = None" "\<And>k. \<not> ends it (world_at it k w)"
  shows "run_loop it (ctx, w) = None"
proof -
  define endless where "endless = (\<lambda>(i :: 'a iteration) (s :: client_ctx \<times> 'a).
    cc_running (fst s) \<and> cc_catcher (fst s) = None \<and> (\<forall>k. \<not> ends i (world_at i k (snd s))))"
  have False if eq: "run_loop it (ctx, w) = Some y" for y
  proof -
    have "\<not> endless it (ctx, w)"
    proof (rule run_loop.raw_induct[of "\<lambda>i s _. \<not> endless i s", OF _ eq], rule notI)
      fix loop i s y
      assume ih: "\<And>i s y. loop i s = Some y \<Longrightarrow> \<not> endless i s" and s: "endless i s"
        and body: "(if \<not> cc_running (fst s) then Some (Ret (), s)
          else case op_bind (client_runIterate i) (\<lambda>_. client_rethrow) s of (Inl f, s') \<Rightarrow> Some (Inl f, s') | (Inr _, s') \<Rightarrow> loop i s') = Some y"
      obtain c v where cv: "s = (c, v)" by fastforce
      have now: "\<not> ends i v" using s cv spec[of "\<lambda>k. \<not> ends i (world_at i k v)" 0] by (simp add: endless_def)
      then obtain status v' where it: "i v = ((status, None, False), v')" "\<not> isBad status"
        by (cases "i v") (auto simp: ends_def split: prod.splits)
      have "op_bind (client_runIterate i) (\<lambda>_. client_rethrow) (c, v) = (Ret (), (c, v'))"
        using s cv it by (cases c) (simp add: endless_def op_bind_apply client_runIterate_def client_rethrow_def rethrow_def Let_def)
      then have "loop i (c, v') = Some y" using body s cv by (simp add: endless_def)
      moreover have "endless i (c, v')"
        using s cv it spec[of "\<lambda>k. \<not> ends i (world_at i k v)" "Suc k" for k] by (simp add: endless_def)
      ultimately show False using ih by blast
    qed
    then show False using assms by (simp add: endless_def)
  qed
  then show ?thesis by (cases "run_loop it (ctx, w)") auto
qed

text \<open>C24. \<open>Client::run\<close> ends with the first iteration that fails, leaves an exception or in which \<open>stop()\<close> is called, and not
  before: it throws the iteration's bad status, else the exception, else it returns, and the running flag is cleared in each
  case, so that \<open>run\<close> can be called again. Without such an iteration it does not return. While a loop is running a second call
  returns at once.\<close>

theorem client_run_ends:
  assumes "\<not> cc_running ctx" "cc_catcher ctx = None"
  shows "(\<forall>k. ends it (world_at it k w) \<and> (\<forall>j < k. \<not> ends it (world_at it j w)) \<longrightarrow>
        (\<exists>ctx'. client_run it (ctx, w) = Some (final (fst (it (world_at it k w))), (ctx', snd (it (world_at it k w))))
          \<and> \<not> client_isRunning ctx'))
    \<and> ((\<forall>k. \<not> ends it (world_at it k w)) \<longrightarrow> client_run it (ctx, w) = None)
    \<and> client_run it (ctx\<lparr>cc_running := True\<rparr>, w) = Some (Ret (), (ctx\<lparr>cc_running := True\<rparr>, w))
    \<and> \<not> client_isRunning (client_stop ctx)"
proof (intro conjI allI impI)
  let ?on = "ctx\<lparr>cc_running := True\<rparr>"
  have on: "cc_running ?on" "cc_catcher ?on = None" using assms by simp_all
  show "\<exists>ctx'. client_run it (ctx, w) = Some (final (fst (it (world_at it k w))), (ctx', snd (it (world_at it k w))))
      \<and> \<not> client_isRunning ctx'"
    if k: "ends it (world_at it k w) \<and> (\<forall>j < k. \<not> ends it (world_at it j w))" for k
  proof -
    let ?r = "final (fst (it (world_at it k w)))"
    obtain ctx' where l: "run_loop it (?on, w) = Some (?r, (ctx', snd (it (world_at it k w))))"
      "returns ?r \<longrightarrow> \<not> cc_running ctx'"
      using run_loop_at[OF on, of k it w] run_loop_last[OF on, of it "world_at it k w"] k by auto
    show ?thesis
    proof (cases "\<exists>e. ?r = throw e")
      case True
      then show ?thesis using l assms by (auto simp: client_run_def client_isRunning_def)
    next
      case False
      then have "?r = Ret ()"
        by (auto simp: final_def throwIfBad_def split: prod.splits option.splits if_splits)
      then show ?thesis using l assms by (simp add: client_run_def client_isRunning_def)
    qed
  qed
  show "client_run it (ctx, w) = None" if "\<forall>k. \<not> ends it (world_at it k w)"
    using run_loop_endless[OF on, of it w] that assms(1) by (simp add: client_run_def)
qed (simp_all add: client_run_def client_isRunning_def client_stop_def)

text \<open>The third iteration throws through the catcher.\<close>

theorem client_run_ends_witness:
  "\<exists>ctx'. client_run (\<lambda>n. ((UA_STATUSCODE_GOOD, if n = 2 then Some BadAlloc else None, False), n + 1)) (fresh_ctx (\<lambda>_. None), 0 :: nat)
     = Some (throw BadAlloc, (ctx', 3)) \<and> \<not> client_isRunning ctx'"
proof -
  let ?it = "\<lambda>n. ((UA_STATUSCODE_GOOD, if n = 2 then Some BadAlloc else None, False), n + 1 :: nat)"
  have at: "world_at ?it k n = n + k" for k n by (induction k arbitrary: n) simp_all
  have c: "\<not> cc_running (fresh_ctx (\<lambda>_. None))" "cc_catcher (fresh_ctx (\<lambda>_. None)) = None" by (simp_all add: fresh_ctx_def)
  have k: "ends ?it (world_at ?it 2 0) \<and> (\<forall>j < 2. \<not> ends ?it (world_at ?it j 0))" unfolding at by (auto simp: ends_def)
  have "\<exists>ctx'. client_run ?it (fresh_ctx (\<lambda>_. None), 0) = Some (final (fst (?it (world_at ?it 2 0))), (ctx', snd (?it (world_at ?it 2 0))))
      \<and> \<not> client_isRunning ctx'"
    by (rule client_run_ends[OF c, of ?it 0, THEN conjunct1, rule_format, OF k])
  then show ?thesis unfolding at by (simp add: final_def numeral_3_eq_3)
qed

section \<open>Client objects\<close>

text \<open>\<open>Client\<close> objects, contexts and native clients by address. A native client points back to the \<open>Client\<close> object and, from
  each of its subscriptions, to a \<open>SubscriptionContext\<close> owned by the client context at the given address. Deleting it calls
  the state callback and the delete callback of every subscription: \<open>cw_notified\<close> collects the contexts whose callbacks were
  run, \<open>cw_freed_access\<close> is set when a destroyed context is accessed.\<close>

record client_obj =
  co_context :: "nat option"
  co_native :: "nat option"

record native_client =
  nc_back :: nat
  nc_subscriptions :: "nat list"

record client_world =
  cw_objects :: "nat \<Rightarrow> client_obj option"
  cw_contexts :: "nat set"
  cw_natives :: "nat \<Rightarrow> native_client option"
  cw_notified :: "nat list"
  cw_freed_access :: bool

definition client_context_of :: "client_world \<Rightarrow> nat \<Rightarrow> nat outc" where
  "client_context_of w s = (case cw_natives w s of
      None \<Rightarrow> Inl Undef
    | Some n \<Rightarrow> (case cw_objects w (nc_back n) of
        None \<Rightarrow> Inl Undef
      | Some ob \<Rightarrow> (case co_context ob of None \<Rightarrow> Inl Undef | Some c \<Rightarrow> Ret c)))"

definition deleteClient :: "nat option \<Rightarrow> (client_world, unit) op" where
  "deleteClient client w = (case client of
      None \<Rightarrow> (Ret (), w)
    | Some s \<Rightarrow> (case cw_natives w s of
        None \<Rightarrow> (Inl Undef, w)
      | Some n \<Rightarrow> (case client_context_of w s of
          Inl f \<Rightarrow> (Inl f, w)
        | Inr c \<Rightarrow> (Ret (), w\<lparr>cw_natives := (cw_natives w)(s := None), cw_notified := c # cw_notified w,
            cw_freed_access := cw_freed_access w \<or> c \<notin> cw_contexts w \<or> \<not> set (nc_subscriptions n) \<subseteq> cw_contexts w\<rparr>))))"

definition client_setWrapper :: "nat \<Rightarrow> (client_world, unit) op" where
  "client_setWrapper a w = (case cw_objects w a of
      None \<Rightarrow> (Inl Undef, w)
    | Some ob \<Rightarrow> (case co_native ob of
        None \<Rightarrow> (Inl Undef, w)
      | Some s \<Rightarrow> (case cw_natives w s of
          None \<Rightarrow> (Inl Undef, w)
        | Some n \<Rightarrow> (Ret (), w\<lparr>cw_natives := (cw_natives w)(s \<mapsto> n\<lparr>nc_back := a\<rparr>)\<rparr>))))"

text \<open>The constructors; \<open>native\<close> is null when the C library returned no client.\<close>

definition client_construct :: "nat \<Rightarrow> nat \<Rightarrow> nat option \<Rightarrow> (client_world, unit) op" where
  "client_construct a c native w = (case native of
      None \<Rightarrow> (throw (BadStatus UA_STATUSCODE_BADOUTOFMEMORY), w)
    | Some s \<Rightarrow> client_setWrapper a (w\<lparr>cw_contexts := insert c (cw_contexts w),
         cw_objects := (cw_objects w)(a \<mapsto> \<lparr>co_context = Some c, co_native = Some s\<rparr>)\<rparr>))"

definition client_drop_context :: "nat option \<Rightarrow> client_world \<Rightarrow> client_world" where
  "client_drop_context c w = (case c of None \<Rightarrow> w | Some k \<Rightarrow> w\<lparr>cw_contexts := cw_contexts w - {k}\<rparr>)"

definition client_destroy :: "nat \<Rightarrow> (client_world, unit) op" where
  "client_destroy a w = (case cw_objects w a of
      None \<Rightarrow> (Inl Undef, w)
    | Some ob \<Rightarrow> (case deleteClient (co_native ob) w of
        (Inl f, w') \<Rightarrow> (Inl f, w')
      | (Inr _, w') \<Rightarrow> (Ret (), (client_drop_context (co_context ob) w')\<lparr>cw_objects := (cw_objects w')(a := None)\<rparr>)))"

definition client_move_construct :: "nat \<Rightarrow> nat \<Rightarrow> (client_world, unit) op" where
  "client_move_construct a other w = (case cw_objects w other of
      None \<Rightarrow> (Inl Undef, w)
    | Some ob \<Rightarrow> client_setWrapper a
        (w\<lparr>cw_objects := (cw_objects w)(other \<mapsto> \<lparr>co_context = None, co_native = None\<rparr>, a \<mapsto> ob)\<rparr>))"

text \<open>Move assignment in the order of its statements: \<open>context_\<close> first, then \<open>client_\<close>, whose old native client is deleted while
  this object already has the new context and the old one is gone.\<close>

definition client_move_assign :: "nat \<Rightarrow> nat \<Rightarrow> (client_world, unit) op" where
  "client_move_assign a other w =
     (if a = other then (Ret (), w)
      else case (cw_objects w a, cw_objects w other) of
        (Some self, Some ob) \<Rightarrow>
          (let w1 = client_drop_context (co_context self) w
           in op_bind (deleteClient (co_native self)) (\<lambda>_. client_setWrapper a)
             (w1\<lparr>cw_objects := (cw_objects w)(a \<mapsto> ob, other \<mapsto> \<lparr>co_context = None, co_native = None\<rparr>)\<rparr>))
      | _ \<Rightarrow> (Inl Undef, w))"

definition client_owns :: "client_world \<Rightarrow> nat \<Rightarrow> nat \<Rightarrow> nat \<Rightarrow> bool" where
  "client_owns w a c s = (cw_objects w a = Some \<lparr>co_context = Some c, co_native = Some s\<rparr> \<and> c \<in> cw_contexts w
     \<and> (\<exists>n. cw_natives w s = Some n \<and> nc_back n = a \<and> set (nc_subscriptions n) \<subseteq> {c}))"

text \<open>Destruction runs the callbacks of the object's own context and touches nothing freed; move construction keeps the
  context and re-points the native client.\<close>

lemma client_destroy_safe:
  assumes "client_owns w a c s"
  shows "\<exists>w'. client_destroy a w = (Ret (), w') \<and> cw_freed_access w' = cw_freed_access w \<and> cw_notified w' = c # cw_notified w
    \<and> cw_objects w' a = None \<and> c \<notin> cw_contexts w' \<and> cw_natives w' s = None"
  using assms by (auto simp: client_owns_def client_destroy_def deleteClient_def client_context_of_def client_drop_context_def)

lemma client_move_construct_safe:
  assumes "client_owns w a c s" "cw_objects w b = None"
  shows "\<exists>w'. client_move_construct b a w = (Ret (), w') \<and> client_owns w' b c s \<and> cw_freed_access w' = cw_freed_access w"
  using assms by (auto simp: client_owns_def client_move_construct_def client_setWrapper_def)

text \<open>Move assignment to a live client runs the state callbacks of the client that moved in, and accesses the freed
  subscription contexts of the old one if it had any.\<close>

lemma client_move_assign_dangles:
  assumes "client_owns w a c s" "client_owns w b d t" "a \<noteq> b" "c \<noteq> d" "s \<noteq> t" "cw_natives w s = Some n" "nc_subscriptions n \<noteq> []"
  shows "\<exists>w'. client_move_assign a b w = (Ret (), w') \<and> cw_freed_access w' \<and> cw_notified w' = d # cw_notified w \<and> client_owns w' a d t"
proof -
  have "\<not> set (nc_subscriptions n) \<subseteq> cw_contexts w - {c}"
    using assms(1,6,7) by (cases "nc_subscriptions n") (auto simp: client_owns_def)
  then show ?thesis using assms(1-6)
    by (auto simp: client_owns_def client_move_assign_def client_drop_context_def deleteClient_def client_context_of_def
        client_setWrapper_def op_bind_apply Let_def)
qed

end
