(* ===== verification/Subscriptions.thy ===== *)
theory Subscriptions
  imports Monitored_Items Nodes
begin

text \<open>
  Subscriptions and monitored items as the user sees them (\<open>services/subscription.hpp\<close>, \<open>services_subscription.cpp\<close>,
  \<open>services/monitoreditem.hpp\<close>, \<open>services_monitoreditem.cpp\<close>, \<open>subscription.hpp\<close>, \<open>subscription.cpp\<close>,
  \<open>monitoreditem.hpp\<close>, \<open>monitoreditem.cpp\<close>): the service functions with the contexts they make, hand out and store, their
  asynchronous forms, and the classes \<open>Subscription\<close> and \<open>MonitoredItem\<close>. The native functions are the fields of a
  record, over a world that holds the contexts of the client (or server) and whatever is behind the connection.
\<close>

section \<open>Responses\<close>

record ('d, 'v) MonitoredItemCreateResult =
  mir_statusCode :: u32
  mir_monitoredItemId :: u32
  mir_revisedSamplingInterval :: 'd
  mir_revisedQueueSize :: u32
  mir_filterResult :: "'v ExtensionObject"

record ('d, 'v) MonitoredItemModifyResult =
  mmo_statusCode :: u32
  mmo_revisedSamplingInterval :: 'd
  mmo_revisedQueueSize :: u32
  mmo_filterResult :: "'v ExtensionObject"

record SetTriggeringResponse =
  stp_serviceResult :: u32
  stp_addResults :: "u32 list"
  stp_removeResults :: "u32 list"

record 'd CreateSubscriptionResponse =
  csp_serviceResult :: u32
  csp_subscriptionId :: u32
  csp_revisedPublishingInterval :: 'd
  csp_revisedLifetimeCount :: u32
  csp_revisedMaxKeepAliveCount :: u32

record 'd ModifySubscriptionResponse =
  msp_serviceResult :: u32
  msp_revisedPublishingInterval :: 'd
  msp_revisedLifetimeCount :: u32
  msp_revisedMaxKeepAliveCount :: u32

definition zero_create_result :: "'d \<Rightarrow> ('d, 'v) MonitoredItemCreateResult" where
  "zero_create_result z = \<lparr>mir_statusCode = 0, mir_monitoredItemId = 0, mir_revisedSamplingInterval = z, mir_revisedQueueSize = 0,
     mir_filterResult = EncodedNoBody\<rparr>"

definition zero_modify_result :: "'d \<Rightarrow> ('d, 'v) MonitoredItemModifyResult" where
  "zero_modify_result z = \<lparr>mmo_statusCode = 0, mmo_revisedSamplingInterval = z, mmo_revisedQueueSize = 0, mmo_filterResult = EncodedNoBody\<rparr>"

section \<open>The native functions and the world\<close>

text \<open>Contexts are handed out as raw pointers, with the native callbacks.\<close>

datatype native_callback = DataChangeNative | EventNative | DeleteNative

record ('d, 'v, 'w) subscription_api =
  UA_Client_Subscriptions_create :: "'d CreateSubscriptionRequest \<Rightarrow> nat \<Rightarrow> 'w \<Rightarrow> 'd CreateSubscriptionResponse \<times> 'w"
  UA_Client_Subscriptions_modify :: "'d ModifySubscriptionRequest \<Rightarrow> 'w \<Rightarrow> 'd ModifySubscriptionResponse \<times> 'w"
  UA_Client_Subscriptions_setPublishingMode :: "SetPublishingModeRequest \<Rightarrow> 'w \<Rightarrow> u32 Response \<times> 'w"
  UA_Client_Subscriptions_delete :: "u32 list \<Rightarrow> 'w \<Rightarrow> u32 Response \<times> 'w"
  UA_Client_MonitoredItems_createDataChanges :: "('d, 'v) CreateMonitoredItemsRequest \<Rightarrow> nat list \<Rightarrow> native_callback list \<Rightarrow>
    native_callback list \<Rightarrow> 'w \<Rightarrow> ('d, 'v) MonitoredItemCreateResult Response \<times> 'w"
  UA_Client_MonitoredItems_createEvents :: "('d, 'v) CreateMonitoredItemsRequest \<Rightarrow> nat list \<Rightarrow> native_callback list \<Rightarrow>
    native_callback list \<Rightarrow> 'w \<Rightarrow> ('d, 'v) MonitoredItemCreateResult Response \<times> 'w"
  UA_Client_MonitoredItems_modify :: "('d, 'v) ModifyMonitoredItemsRequest \<Rightarrow> 'w \<Rightarrow> ('d, 'v) MonitoredItemModifyResult Response \<times> 'w"
  UA_Client_MonitoredItems_setMonitoringMode :: "SetMonitoringModeRequest \<Rightarrow> 'w \<Rightarrow> u32 Response \<times> 'w"
  UA_Client_MonitoredItems_setTriggering :: "SetTriggeringRequest \<Rightarrow> 'w \<Rightarrow> SetTriggeringResponse \<times> 'w"
  UA_Client_MonitoredItems_delete :: "DeleteMonitoredItemsRequest \<Rightarrow> 'w \<Rightarrow> u32 Response \<times> 'w"
  UA_Server_createDataChangeMonitoredItem :: "TimestampsToReturn \<Rightarrow> ('d, 'v) MonitoredItemCreateRequest \<Rightarrow> nat \<Rightarrow> native_callback \<Rightarrow>
    'w \<Rightarrow> ('d, 'v) MonitoredItemCreateResult \<times> 'w"
  UA_Server_deleteMonitoredItem :: "u32 \<Rightarrow> 'w \<Rightarrow> u32 \<times> 'w"

text \<open>The contexts of subscriptions: those in creation are pending, the others are owned by the map.\<close>

record sub_state =
  su_ctx :: "nat \<Rightarrow> sub_context"
  su_map :: "(nat, nat) cmap"
  su_pending :: "nat set"
  su_next :: nat

record 'u sub_world =
  sw_items :: "ReadValueId mi_state"
  sw_subs :: sub_state
  sw_rest :: 'u

text \<open>The key of a monitored item is the pair of the ids, in lexicographic order.\<close>

definition mi_key :: "u32 \<Rightarrow> u32 \<Rightarrow> nat" where
  "mi_key subId monId = unat subId * 2 ^ 32 + unat monId"

definition key_sub :: "nat \<Rightarrow> u32" where "key_sub k = of_nat (k div 2 ^ 32)"
definition key_mon :: "nat \<Rightarrow> u32" where "key_mon k = of_nat (k mod 2 ^ 32)"

section \<open>Creating monitored items\<close>

fun makeMonitoredItemContexts ::
  "ReadValueId list \<Rightarrow> (unit outc) option \<Rightarrow> (unit outc) option \<Rightarrow> (unit outc) option \<Rightarrow> ReadValueId mi_state \<Rightarrow>
    nat list \<times> ReadValueId mi_state" where
  "makeMonitoredItemContexts [] dc ev del s = ([], s)"
| "makeMonitoredItemContexts (item # items) dc ev del s =
     (case makeMonitoredItemContexts items dc ev del (mi_make (makeMonitoredItemContext item dc ev del) s) of
        (as, s') \<Rightarrow> (mi_next s # as, s'))"

text \<open>\<open>convertMonitoredItemContexts\<close> fills the three arrays whose sizes are given; an empty one stays empty, and any other
  size than that of the contexts fails an assertion of a \<open>noexcept\<close> function.\<close>

definition convertMonitoredItemContexts ::
  "nat list \<Rightarrow> nat \<Rightarrow> nat \<Rightarrow> nat \<Rightarrow> nat \<Rightarrow> (nat list \<times> native_callback list \<times> native_callback list \<times> native_callback list) outc" where
  "convertMonitoredItemContexts contexts nPtr nData nEvent nDelete =
     (if nPtr \<noteq> List.length contexts \<or> (nData \<noteq> 0 \<and> nData \<noteq> List.length contexts) \<or> (nEvent \<noteq> 0 \<and> nEvent \<noteq> List.length contexts)
         \<or> (nDelete \<noteq> 0 \<and> nDelete \<noteq> List.length contexts) then Inl Terminate
      else Ret (contexts, replicate nData DataChangeNative, replicate nEvent EventNative, replicate nDelete DeleteNative))"

text \<open>Results are matched with contexts by their position; more results than contexts are outside the array.\<close>

fun store_results ::
  "u32 \<Rightarrow> ('d, 'v) MonitoredItemCreateResult list \<Rightarrow> nat list \<Rightarrow> 'i mi_state \<Rightarrow> unit outc \<times> 'i mi_state" where
  "store_results sub [] as s = (Ret (), s)"
| "store_results sub (r # rs) [] s = (Inl Undef, s)"
| "store_results sub (r # rs) (a # as) s =
     store_results sub rs as (storeMonitoredItemContext (mi_key sub (mir_monitoredItemId r)) (mir_statusCode r) a s)"

definition store_response ::
  "u32 \<Rightarrow> ('d, 'v) MonitoredItemCreateResult Response \<Rightarrow> nat list \<Rightarrow> 'i mi_state \<Rightarrow> unit outc \<times> 'i mi_state" where
  "store_response sub response as s = (if isGood (getServiceResult response)
     then store_results sub (case results response of None \<Rightarrow> [] | Some rs \<Rightarrow> rs) as s else (Ret (), s))"

text \<open>The end of the vector that owns the contexts which were not moved into the map.\<close>

definition free_contexts :: "nat list \<Rightarrow> 'i mi_state \<Rightarrow> 'i mi_state" where
  "free_contexts as s = s\<lparr>mi_pending := mi_pending s - set as\<rparr>"

definition with_items :: "(ReadValueId mi_state \<Rightarrow> 'a \<times> ReadValueId mi_state) \<Rightarrow> 'u sub_world \<Rightarrow> 'a \<times> 'u sub_world" where
  "with_items f w = (case f (sw_items w) of (x, s) \<Rightarrow> (x, w\<lparr>sw_items := s\<rparr>))"

text \<open>The creation of items with one of the two native functions: a function for data changes passes an array of data change
  callbacks, one for events an array of event callbacks.\<close>

type_synonym ('d, 'v, 'w) native_create =
  "('d, 'v) CreateMonitoredItemsRequest \<Rightarrow> nat list \<Rightarrow> native_callback list \<Rightarrow> native_callback list \<Rightarrow> 'w \<Rightarrow>
    ('d, 'v) MonitoredItemCreateResult Response \<times> 'w"

definition native_arrays :: "bool \<Rightarrow> nat list \<Rightarrow> (nat list \<times> native_callback list \<times> native_callback list) outc" where
  "native_arrays data as = (let n = List.length as in
     outc_bind (convertMonitoredItemContexts as n (if data then n else 0) (if data then 0 else n) n)
       (\<lambda>(ptrs, dcs, evs, dels). Ret (ptrs, if data then dcs else evs, dels)))"

definition create_items ::
  "bool \<Rightarrow> ('d, 'v, 'u sub_world) native_create \<Rightarrow> ('d, 'v) CreateMonitoredItemsRequest \<Rightarrow>
    (unit outc) option \<Rightarrow> (unit outc) option \<Rightarrow> (unit outc) option \<Rightarrow> ('u sub_world, ('d, 'v) MonitoredItemCreateResult Response) op" where
  "create_items data native request dc ev del w =
     (case with_items (makeMonitoredItemContexts (map mcr_itemToMonitor (cmi_itemsToCreate request)) dc ev del) w of (as, w1) \<Rightarrow>
       (case native_arrays data as of
          Inl f \<Rightarrow> (Inl f, w1)
        | Inr (ptrs, cbs, dels) \<Rightarrow> (case native request ptrs cbs dels w1 of (response, w2) \<Rightarrow>
            (case with_items (store_response (cmi_subscriptionId request) response as) w2 of
               (r, w3) \<Rightarrow> (outc_bind r (\<lambda>_. Ret response), w3\<lparr>sw_items := free_contexts as (sw_items w3)\<rparr>)))))"

definition createMonitoredItemsDataChange ::
  "('d, 'v, 'u sub_world) subscription_api \<Rightarrow> ('d, 'v) CreateMonitoredItemsRequest \<Rightarrow> (unit outc) option \<Rightarrow> (unit outc) option \<Rightarrow>
    ('u sub_world, ('d, 'v) MonitoredItemCreateResult Response) op" where
  "createMonitoredItemsDataChange api request dc del =
     create_items True (UA_Client_MonitoredItems_createDataChanges api) request dc None del"

definition createMonitoredItemsEvent ::
  "('d, 'v, 'u sub_world) subscription_api \<Rightarrow> ('d, 'v) CreateMonitoredItemsRequest \<Rightarrow> (unit outc) option \<Rightarrow> (unit outc) option \<Rightarrow>
    ('u sub_world, ('d, 'v) MonitoredItemCreateResult Response) op" where
  "createMonitoredItemsEvent api request ev del =
     create_items False (UA_Client_MonitoredItems_createEvents api) request None ev del"

definition wrap_created :: "'d \<Rightarrow> ('d, 'v) MonitoredItemCreateResult Response \<Rightarrow> ('d, 'v) MonitoredItemCreateResult outc" where
  "wrap_created z = wrapSingleResultWithStatus (zero_create_result z) (\<lambda>x k. x\<lparr>mir_statusCode := k\<rparr>)"

definition single_item ::
  "'d \<Rightarrow> u32 \<Rightarrow> ReadValueId \<Rightarrow> MonitoringMode \<Rightarrow> ('d, 'v) MonitoringParametersEx \<Rightarrow> ('d, 'v) CreateMonitoredItemsRequest" where
  "single_item z sub item mode ps =
     makeCreateMonitoredItemsRequest sub (mp_timestamps ps) [makeMonitoredItemCreateRequest z item mode ps]"

definition createMonitoredItemDataChange_Client ::
  "'d \<Rightarrow> ('d, 'v, 'u sub_world) subscription_api \<Rightarrow> u32 \<Rightarrow> ReadValueId \<Rightarrow> MonitoringMode \<Rightarrow> ('d, 'v) MonitoringParametersEx \<Rightarrow>
    (unit outc) option \<Rightarrow> (unit outc) option \<Rightarrow> ('u sub_world, ('d, 'v) MonitoredItemCreateResult) op" where
  "createMonitoredItemDataChange_Client z api sub item mode ps dc del =
     op_bind (createMonitoredItemsDataChange api (single_item z sub item mode ps) dc del) (\<lambda>r. op_lift (wrap_created z r))"

definition createMonitoredItemEvent ::
  "'d \<Rightarrow> ('d, 'v, 'u sub_world) subscription_api \<Rightarrow> u32 \<Rightarrow> ReadValueId \<Rightarrow> MonitoringMode \<Rightarrow> ('d, 'v) MonitoringParametersEx \<Rightarrow>
    (unit outc) option \<Rightarrow> (unit outc) option \<Rightarrow> ('u sub_world, ('d, 'v) MonitoredItemCreateResult) op" where
  "createMonitoredItemEvent z api sub item mode ps ev del =
     op_bind (createMonitoredItemsEvent api (single_item z sub item mode ps) ev del) (\<lambda>r. op_lift (wrap_created z r))"

text \<open>The server has one native function for one item, and stores the context under the subscription id 0.\<close>

definition createMonitoredItemDataChange_Server ::
  "'d \<Rightarrow> ('d, 'v, 'u sub_world) subscription_api \<Rightarrow> u32 \<Rightarrow> ReadValueId \<Rightarrow> MonitoringMode \<Rightarrow> ('d, 'v) MonitoringParametersEx \<Rightarrow>
    (unit outc) option \<Rightarrow> (unit outc) option \<Rightarrow> ('u sub_world, ('d, 'v) MonitoredItemCreateResult) op" where
  "createMonitoredItemDataChange_Server z api sub item mode ps dc del w =
     (let a = mi_next (sw_items w);
          w1 = w\<lparr>sw_items := mi_make (makeMonitoredItemContext item dc None del) (sw_items w)\<rparr> in
      case UA_Server_createDataChangeMonitoredItem api (mp_timestamps ps) (makeMonitoredItemCreateRequest z item mode ps) a DataChangeNative w1 of
        (result, w2) \<Rightarrow> (Ret result, w2\<lparr>sw_items := storeMonitoredItemContext (mi_key 0 (mir_monitoredItemId result))
           (mir_statusCode result) a (sw_items w2)\<rparr>))"

section \<open>Modifying and deleting monitored items\<close>

definition modifyMonitoredItems ::
  "('d, 'v, 'w) subscription_api \<Rightarrow> ('d, 'v) ModifyMonitoredItemsRequest \<Rightarrow> 'w \<Rightarrow> ('d, 'v) MonitoredItemModifyResult Response \<times> 'w" where
  "modifyMonitoredItems api = UA_Client_MonitoredItems_modify api"

definition wrap_modified :: "'d \<Rightarrow> ('d, 'v) MonitoredItemModifyResult Response \<Rightarrow> ('d, 'v) MonitoredItemModifyResult outc" where
  "wrap_modified z = wrapSingleResultWithStatus (zero_modify_result z) (\<lambda>x k. x\<lparr>mmo_statusCode := k\<rparr>)"

definition modifyMonitoredItem ::
  "'d \<Rightarrow> ('d, 'v, 'w) subscription_api \<Rightarrow> u32 \<Rightarrow> u32 \<Rightarrow> ('d, 'v) MonitoringParametersEx \<Rightarrow> ('w, ('d, 'v) MonitoredItemModifyResult) op" where
  "modifyMonitoredItem z api sub mon ps = with_response (modifyMonitoredItems api
     (makeModifyMonitoredItemsRequest sub ps (makeMonitoredItemModifyRequest z mon ps))) (wrap_modified z)"

definition setMonitoringMode_request :: "('d, 'v, 'w) subscription_api \<Rightarrow> SetMonitoringModeRequest \<Rightarrow> 'w \<Rightarrow> u32 Response \<times> 'w" where
  "setMonitoringMode_request api = UA_Client_MonitoredItems_setMonitoringMode api"

definition setMonitoringMode :: "('d, 'v, 'w) subscription_api \<Rightarrow> u32 \<Rightarrow> u32 \<Rightarrow> MonitoringMode \<Rightarrow> ('w, u32) op" where
  "setMonitoringMode api sub mon mode = with_response (setMonitoringMode_request api (makeSetMonitoringModeRequest sub [mon] mode)) getSingleStatus"

definition setTriggering :: "('d, 'v, 'w) subscription_api \<Rightarrow> SetTriggeringRequest \<Rightarrow> 'w \<Rightarrow> SetTriggeringResponse \<times> 'w" where
  "setTriggering api = UA_Client_MonitoredItems_setTriggering api"

definition deleteMonitoredItems :: "('d, 'v, 'w) subscription_api \<Rightarrow> DeleteMonitoredItemsRequest \<Rightarrow> 'w \<Rightarrow> u32 Response \<times> 'w" where
  "deleteMonitoredItems api = UA_Client_MonitoredItems_delete api"

definition deleteMonitoredItem_Client :: "('d, 'v, 'w) subscription_api \<Rightarrow> u32 \<Rightarrow> u32 \<Rightarrow> ('w, u32) op" where
  "deleteMonitoredItem_Client api sub mon = with_response (deleteMonitoredItems api (makeDeleteMonitoredItemsRequest sub [mon])) getSingleStatus"

definition deleteMonitoredItem_Server :: "('d, 'v, 'u sub_world) subscription_api \<Rightarrow> u32 \<Rightarrow> u32 \<Rightarrow> ('u sub_world, u32) op" where
  "deleteMonitoredItem_Server api sub mon w = (case UA_Server_deleteMonitoredItem api mon w of (status, w1) \<Rightarrow>
     (case deleteMonitoredItem_server status (mi_key 0 mon) (sw_items w1) of (k, s) \<Rightarrow> (Ret k, w1\<lparr>sw_items := s\<rparr>)))"

section \<open>Subscriptions\<close>

definition su_make :: "sub_context \<Rightarrow> sub_state \<Rightarrow> sub_state" where
  "su_make c s = s\<lparr>su_ctx := (su_ctx s)(su_next s := c), su_pending := insert (su_next s) (su_pending s), su_next := Suc (su_next s)\<rparr>"

text \<open>A good response moves the context into the map; otherwise it is freed with the pointer that owns it.\<close>

definition su_store :: "'d CreateSubscriptionResponse \<Rightarrow> nat \<Rightarrow> sub_state \<Rightarrow> sub_state" where
  "su_store response a s = s\<lparr>su_map := storeSubscription (su_ctx s) (csp_serviceResult response) (unat (csp_subscriptionId response)) a (su_map s),
     su_pending := su_pending s - {a}\<rparr>"

definition createSubscription_request ::
  "('d, 'v, 'u sub_world) subscription_api \<Rightarrow> 'd CreateSubscriptionRequest \<Rightarrow> (unit outc) option \<Rightarrow> (unit outc) option \<Rightarrow>
    'u sub_world \<Rightarrow> 'd CreateSubscriptionResponse \<times> 'u sub_world" where
  "createSubscription_request api request sc del w =
     (let a = su_next (sw_subs w); w1 = w\<lparr>sw_subs := su_make (createSubscriptionContext sc del) (sw_subs w)\<rparr> in
      case UA_Client_Subscriptions_create api request a w1 of
        (response, w2) \<Rightarrow> (response, w2\<lparr>sw_subs := su_store response a (sw_subs w2)\<rparr>))"

definition createSubscription ::
  "('d, 'v, 'u sub_world) subscription_api \<Rightarrow> 'd SubscriptionParameters \<Rightarrow> bool \<Rightarrow> (unit outc) option \<Rightarrow> (unit outc) option \<Rightarrow>
    'u sub_world \<Rightarrow> 'd CreateSubscriptionResponse \<times> 'u sub_world" where
  "createSubscription api parameters publishingEnabled sc del =
     createSubscription_request api (makeCreateSubscriptionRequest parameters publishingEnabled) sc del"

definition modifySubscription_request ::
  "('d, 'v, 'w) subscription_api \<Rightarrow> 'd ModifySubscriptionRequest \<Rightarrow> 'w \<Rightarrow> 'd ModifySubscriptionResponse \<times> 'w" where
  "modifySubscription_request api = UA_Client_Subscriptions_modify api"

definition modifySubscription ::
  "('d, 'v, 'w) subscription_api \<Rightarrow> u32 \<Rightarrow> 'd SubscriptionParameters \<Rightarrow> 'w \<Rightarrow> 'd ModifySubscriptionResponse \<times> 'w" where
  "modifySubscription api sub parameters = modifySubscription_request api (makeModifySubscriptionRequest sub parameters)"

definition setPublishingMode_request :: "('d, 'v, 'w) subscription_api \<Rightarrow> SetPublishingModeRequest \<Rightarrow> 'w \<Rightarrow> u32 Response \<times> 'w" where
  "setPublishingMode_request api = UA_Client_Subscriptions_setPublishingMode api"

definition setPublishingMode :: "('d, 'v, 'w) subscription_api \<Rightarrow> u32 \<Rightarrow> bool \<Rightarrow> ('w, u32) op" where
  "setPublishingMode api sub publishing =
     with_response (setPublishingMode_request api (makeSetPublishingModeRequest publishing [sub])) getSingleStatus"

definition deleteSubscriptions :: "('d, 'v, 'w) subscription_api \<Rightarrow> u32 list \<Rightarrow> 'w \<Rightarrow> u32 Response \<times> 'w" where
  "deleteSubscriptions api = UA_Client_Subscriptions_delete api"

definition deleteSubscription :: "('d, 'v, 'w) subscription_api \<Rightarrow> u32 \<Rightarrow> ('w, u32) op" where
  "deleteSubscription api sub = with_response (deleteSubscriptions api (makeDeleteSubscriptionsRequest sub)) getSingleStatus"

section \<open>Asynchronous forms\<close>

text \<open>\<open>send\<close> is the adapter with the native asynchronous function. The contexts belong to the hook, which runs before the
  completion handler, and are freed with it.\<close>

definition create_items_async ::
  "bool \<Rightarrow> (('d, 'v) CreateMonitoredItemsRequest \<Rightarrow> nat list \<Rightarrow> native_callback list \<Rightarrow> native_callback list \<Rightarrow>
      (('d, 'v) MonitoredItemCreateResult Response, 'u sub_world) initiation) \<Rightarrow>
    ('d, 'v) CreateMonitoredItemsRequest \<Rightarrow> (unit outc) option \<Rightarrow> (unit outc) option \<Rightarrow> (unit outc) option \<Rightarrow>
    (('d, 'v) MonitoredItemCreateResult Response, 'u sub_world, 'x) token \<Rightarrow> ('u sub_world, 'x) op" where
  "create_items_async data send request dc ev del tok w =
     (case with_items (makeMonitoredItemContexts (map mcr_itemToMonitor (cmi_itemsToCreate request)) dc ev del) w of (as, w1) \<Rightarrow>
       (case native_arrays data as of
          Inl f \<Rightarrow> (Inl f, w1)
        | Inr (ptrs, cbs, dels) \<Rightarrow> HookToken (\<lambda>response v.
            case with_items (store_response (cmi_subscriptionId request) response as) v of
              (r, v') \<Rightarrow> (r, v'\<lparr>sw_items := free_contexts as (sw_items v')\<rparr>)) tok (send request ptrs cbs dels) w1))"

definition createMonitoredItemsDataChangeAsync where
  "createMonitoredItemsDataChangeAsync send request dc del tok = create_items_async True send request dc None del tok"

definition createMonitoredItemsEventAsync where
  "createMonitoredItemsEventAsync send request ev del tok = create_items_async False send request None ev del tok"

definition createMonitoredItemDataChangeAsync where
  "createMonitoredItemDataChangeAsync z send sub item mode ps dc del tok =
     createMonitoredItemsDataChangeAsync send (single_item z sub item mode ps) dc del (TransformToken (wrap_created z) tok)"

definition createMonitoredItemEventAsync where
  "createMonitoredItemEventAsync z send sub item mode ps ev del tok =
     createMonitoredItemsEventAsync send (single_item z sub item mode ps) ev del (TransformToken (wrap_created z) tok)"

definition modifyMonitoredItemsAsync ::
  "(('d, 'v) ModifyMonitoredItemsRequest \<Rightarrow> (('d, 'v) MonitoredItemModifyResult Response, 'w) initiation) \<Rightarrow>
    ('d, 'v) ModifyMonitoredItemsRequest \<Rightarrow> (('d, 'v) MonitoredItemModifyResult Response, 'w, 'x) token \<Rightarrow> ('w, 'x) op" where
  "modifyMonitoredItemsAsync send request tok = tok (send request)"

definition modifyMonitoredItemAsync where
  "modifyMonitoredItemAsync z send sub mon ps tok = modifyMonitoredItemsAsync send
     (makeModifyMonitoredItemsRequest sub ps (makeMonitoredItemModifyRequest z mon ps)) (TransformToken (wrap_modified z) tok)"

definition setMonitoringModeAsync_request ::
  "(SetMonitoringModeRequest \<Rightarrow> (u32 Response, 'w) initiation) \<Rightarrow> SetMonitoringModeRequest \<Rightarrow> (u32 Response, 'w, 'x) token \<Rightarrow> ('w, 'x) op" where
  "setMonitoringModeAsync_request send request tok = tok (send request)"

definition setMonitoringModeAsync where
  "setMonitoringModeAsync send sub mon mode tok =
     setMonitoringModeAsync_request send (makeSetMonitoringModeRequest sub [mon] mode) (TransformToken getSingleStatus tok)"

definition setTriggeringAsync ::
  "(SetTriggeringRequest \<Rightarrow> (SetTriggeringResponse, 'w) initiation) \<Rightarrow> SetTriggeringRequest \<Rightarrow> (SetTriggeringResponse, 'w, 'x) token \<Rightarrow> ('w, 'x) op" where
  "setTriggeringAsync send request tok = tok (send request)"

definition deleteMonitoredItemsAsync ::
  "(DeleteMonitoredItemsRequest \<Rightarrow> (u32 Response, 'w) initiation) \<Rightarrow> DeleteMonitoredItemsRequest \<Rightarrow> (u32 Response, 'w, 'x) token \<Rightarrow> ('w, 'x) op" where
  "deleteMonitoredItemsAsync send request tok = tok (send request)"

definition deleteMonitoredItemAsync where
  "deleteMonitoredItemAsync send sub mon tok =
     deleteMonitoredItemsAsync send (makeDeleteMonitoredItemsRequest sub [mon]) (TransformToken getSingleStatus tok)"

definition createSubscriptionAsync_request ::
  "('d CreateSubscriptionRequest \<Rightarrow> nat \<Rightarrow> ('d CreateSubscriptionResponse, 'u sub_world) initiation) \<Rightarrow>
    'd CreateSubscriptionRequest \<Rightarrow> (unit outc) option \<Rightarrow> (unit outc) option \<Rightarrow>
    ('d CreateSubscriptionResponse, 'u sub_world, 'x) token \<Rightarrow> ('u sub_world, 'x) op" where
  "createSubscriptionAsync_request send request sc del tok w =
     (let a = su_next (sw_subs w); w1 = w\<lparr>sw_subs := su_make (createSubscriptionContext sc del) (sw_subs w)\<rparr> in
      HookToken (\<lambda>response v. (Ret (), v\<lparr>sw_subs := su_store response a (sw_subs v)\<rparr>)) tok (send request a) w1)"

definition createSubscriptionAsync where
  "createSubscriptionAsync send parameters publishingEnabled sc del tok =
     createSubscriptionAsync_request send (makeCreateSubscriptionRequest parameters publishingEnabled) sc del tok"

definition modifySubscriptionAsync_request ::
  "('d ModifySubscriptionRequest \<Rightarrow> ('d ModifySubscriptionResponse, 'w) initiation) \<Rightarrow> 'd ModifySubscriptionRequest \<Rightarrow>
    ('d ModifySubscriptionResponse, 'w, 'x) token \<Rightarrow> ('w, 'x) op" where
  "modifySubscriptionAsync_request send request tok = tok (send request)"

definition modifySubscriptionAsync where
  "modifySubscriptionAsync send sub parameters tok = modifySubscriptionAsync_request send (makeModifySubscriptionRequest sub parameters) tok"

definition setPublishingModeAsync_request ::
  "(SetPublishingModeRequest \<Rightarrow> (u32 Response, 'w) initiation) \<Rightarrow> SetPublishingModeRequest \<Rightarrow> (u32 Response, 'w, 'x) token \<Rightarrow> ('w, 'x) op" where
  "setPublishingModeAsync_request send request tok = tok (send request)"

definition setPublishingModeAsync where
  "setPublishingModeAsync send sub publishing tok =
     setPublishingModeAsync_request send (makeSetPublishingModeRequest publishing [sub]) (TransformToken getSingleStatus tok)"

definition deleteSubscriptionsAsync ::
  "(u32 list \<Rightarrow> (u32 Response, 'w) initiation) \<Rightarrow> u32 list \<Rightarrow> (u32 Response, 'w, 'x) token \<Rightarrow> ('w, 'x) op" where
  "deleteSubscriptionsAsync send request tok = tok (send request)"

definition deleteSubscriptionAsync where
  "deleteSubscriptionAsync send sub tok =
     deleteSubscriptionsAsync send (makeDeleteSubscriptionsRequest sub) (TransformToken getSingleStatus tok)"

section \<open>The classes Subscription and MonitoredItem\<close>

text \<open>An object refers to its connection, a server or a client with a handle; the ids of a server's items have subscription 0.\<close>

record Subscription =
  sb_server :: bool
  sb_handle :: nat
  sb_id :: u32

record MonitoredItem =
  mo_server :: bool
  mo_handle :: nat
  mo_sub :: u32
  mo_id :: u32

definition Subscription_of :: "bool \<Rightarrow> nat \<Rightarrow> u32 \<Rightarrow> Subscription" where
  "Subscription_of server h sub = \<lparr>sb_server = server, sb_handle = h, sb_id = (if server then 0 else sub)\<rparr>"

definition MonitoredItem_of :: "bool \<Rightarrow> nat \<Rightarrow> u32 \<Rightarrow> u32 \<Rightarrow> MonitoredItem" where
  "MonitoredItem_of server h sub mon = \<lparr>mo_server = server, mo_handle = h, mo_sub = (if server then 0 else sub), mo_id = mon\<rparr>"

definition Subscription_Client :: "('d, 'v, 'u sub_world) subscription_api \<Rightarrow> nat \<Rightarrow> 'd SubscriptionParameters \<Rightarrow> ('u sub_world, Subscription) op" where
  "Subscription_Client api h parameters w = (case createSubscription api parameters True None None w of (response, w') \<Rightarrow>
     (outc_bind (throwIfBad (csp_serviceResult response)) (\<lambda>_. Ret (Subscription_of False h (csp_subscriptionId response))), w'))"

definition Subscription_Server :: "nat \<Rightarrow> Subscription" where
  "Subscription_Server h = Subscription_of True h 0"

text \<open>\<open>monitoredItems()\<close> sweeps the map of the connection and collects the items of the subscription.\<close>

definition monitoredItems :: "Subscription \<Rightarrow> 'u sub_world \<Rightarrow> MonitoredItem list \<times> 'u sub_world" where
  "monitoredItems S w = (let s = sw_items w; m = cm_sweep (mi_stale s) (mi_map s) in
     (cm_iterate (\<lambda>(k, a) result. if key_sub k = sb_id S
          then result @ [MonitoredItem_of (sb_server S) (sb_handle S) (key_sub k) (key_mon k)] else result) m [],
      w\<lparr>sw_items := s\<lparr>mi_map := m\<rparr>\<rparr>))"

definition setSubscriptionParameters :: "('d, 'v, 'w) subscription_api \<Rightarrow> Subscription \<Rightarrow> 'd SubscriptionParameters \<Rightarrow> ('w, unit) op" where
  "setSubscriptionParameters api S parameters w = (case modifySubscription api (sb_id S) parameters w of
     (response, w') \<Rightarrow> (throwIfBad (msp_serviceResult response), w'))"

definition sub_setPublishingMode :: "('d, 'v, 'w) subscription_api \<Rightarrow> Subscription \<Rightarrow> bool \<Rightarrow> ('w, unit) op" where
  "sub_setPublishingMode api S publishing = checked (setPublishingMode api (sb_id S) publishing) ()"

text \<open>The item to monitor is an attribute of a node, without range and encoding.\<close>

definition item_of :: "NodeId \<Rightarrow> AttributeId \<Rightarrow> ReadValueId" where
  "item_of i attr = \<lparr>rvi_nodeId = i, rvi_attributeId = AttributeId_code attr, rvi_indexRange = NullString,
     rvi_dataEncoding = \<lparr>qn_namespaceIndex = 0, qn_name = NullString\<rparr>\<rparr>"

definition created_item :: "Subscription \<Rightarrow> ('w, ('d, 'v) MonitoredItemCreateResult) op \<Rightarrow> ('w, MonitoredItem) op" where
  "created_item S f = op_bind f (\<lambda>r. op_lift (outc_bind (throwIfBad (mir_statusCode r))
     (\<lambda>_. Ret (MonitoredItem_of (sb_server S) (sb_handle S) (sb_id S) (mir_monitoredItemId r)))))"

definition subscribeDataChange ::
  "'d \<Rightarrow> ('d, 'v, 'u sub_world) subscription_api \<Rightarrow> Subscription \<Rightarrow> NodeId \<Rightarrow> AttributeId \<Rightarrow> MonitoringMode \<Rightarrow>
    ('d, 'v) MonitoringParametersEx \<Rightarrow> (unit outc) option \<Rightarrow> ('u sub_world, MonitoredItem) op" where
  "subscribeDataChange z api S i attr mode ps onDataChange = created_item S (if sb_server S
     then createMonitoredItemDataChange_Server z api (sb_id S) (item_of i attr) mode ps onDataChange None
     else createMonitoredItemDataChange_Client z api (sb_id S) (item_of i attr) mode ps onDataChange None)"

definition subscribeEvent ::
  "'d \<Rightarrow> ('d, 'v, 'u sub_world) subscription_api \<Rightarrow> Subscription \<Rightarrow> NodeId \<Rightarrow> MonitoringMode \<Rightarrow>
    ('d, 'v) MonitoringParametersEx \<Rightarrow> (unit outc) option \<Rightarrow> ('u sub_world, MonitoredItem) op" where
  "subscribeEvent z api S i mode ps onEvent =
     created_item S (createMonitoredItemEvent z api (sb_id S) (item_of i AttrEventNotifier) mode ps onEvent None)"

text \<open>The overloads with default parameters; \<open>d\<close> is the sampling interval 250.0, and the filter is wrapped in an extension object.\<close>

definition MonitoringParametersEx_default :: "'d \<Rightarrow> ('d, 'v) MonitoringParametersEx" where
  "MonitoringParametersEx_default d = \<lparr>mp_samplingInterval = d, mp_filter = EncodedNoBody, mp_queueSize = 1, mp_discardOldest = True,
     mp_timestamps = TsBoth\<rparr>"

definition SubscriptionParameters_default :: "'d \<Rightarrow> 'd SubscriptionParameters" where
  "SubscriptionParameters_default d = \<lparr>sp_publishingInterval = d, sp_lifetimeCount = 10000, sp_maxKeepAliveCount = 10,
     sp_maxNotificationsPerPublish = 0, sp_priority = 0\<rparr>"

definition subscribeDataChange_default ::
  "'d \<Rightarrow> 'd \<Rightarrow> ('d, 'v, 'u sub_world) subscription_api \<Rightarrow> Subscription \<Rightarrow> NodeId \<Rightarrow> AttributeId \<Rightarrow> (unit outc) option \<Rightarrow>
    ('u sub_world, MonitoredItem) op" where
  "subscribeDataChange_default z d api S i attr onDataChange =
     subscribeDataChange z api S i attr MmReporting (MonitoringParametersEx_default d) onDataChange"

definition subscribeEvent_filter ::
  "'d \<Rightarrow> 'd \<Rightarrow> ('d, 'v, 'u sub_world) subscription_api \<Rightarrow> Subscription \<Rightarrow> NodeId \<Rightarrow> 'v ExtensionObject \<Rightarrow> (unit outc) option \<Rightarrow>
    ('u sub_world, MonitoredItem) op" where
  "subscribeEvent_filter z d api S i eventFilter onEvent =
     subscribeEvent z api S i MmReporting ((MonitoringParametersEx_default d)\<lparr>mp_filter := eventFilter\<rparr>) onEvent"

definition sub_deleteSubscription :: "('d, 'v, 'w) subscription_api \<Rightarrow> Subscription \<Rightarrow> ('w, unit) op" where
  "sub_deleteSubscription api S = checked (deleteSubscription api (sb_id S)) ()"

definition Subscription_eq :: "Subscription \<Rightarrow> Subscription \<Rightarrow> bool" where
  "Subscription_eq a b = (sb_handle a = sb_handle b \<and> sb_id a = sb_id b)"

definition getMonitoredItemContext :: "MonitoredItem \<Rightarrow> 'u sub_world \<Rightarrow> ReadValueId mon_context outc" where
  "getMonitoredItemContext M w = (case cm_find (mi_map (sw_items w)) (mi_key (mo_sub M) (mo_id M)) of
      None \<Rightarrow> throw (BadStatus UA_STATUSCODE_BADMONITOREDITEMIDINVALID)
    | Some a \<Rightarrow> Ret (mi_ctx (sw_items w) a))"

definition item_nodeId :: "MonitoredItem \<Rightarrow> 'u sub_world \<Rightarrow> NodeId outc" where
  "item_nodeId M w = outc_map (\<lambda>c. rvi_nodeId (m_item c)) (getMonitoredItemContext M w)"

definition item_attributeId :: "MonitoredItem \<Rightarrow> 'u sub_world \<Rightarrow> u32 outc" where
  "item_attributeId M w = outc_map (\<lambda>c. rvi_attributeId (m_item c)) (getMonitoredItemContext M w)"

definition setMonitoringParameters ::
  "'d \<Rightarrow> ('d, 'v, 'w) subscription_api \<Rightarrow> MonitoredItem \<Rightarrow> ('d, 'v) MonitoringParametersEx \<Rightarrow> ('w, unit) op" where
  "setMonitoringParameters z api M ps =
     op_bind (modifyMonitoredItem z api (mo_sub M) (mo_id M) ps) (\<lambda>r. op_lift (throwIfBad (mmo_statusCode r)))"

definition item_setMonitoringMode :: "('d, 'v, 'w) subscription_api \<Rightarrow> MonitoredItem \<Rightarrow> MonitoringMode \<Rightarrow> ('w, unit) op" where
  "item_setMonitoringMode api M mode = checked (setMonitoringMode api (mo_sub M) (mo_id M) mode) ()"

definition item_deleteMonitoredItem :: "('d, 'v, 'u sub_world) subscription_api \<Rightarrow> MonitoredItem \<Rightarrow> ('u sub_world, unit) op" where
  "item_deleteMonitoredItem api M = checked (if mo_server M
     then deleteMonitoredItem_Server api (mo_sub M) (mo_id M) else deleteMonitoredItem_Client api (mo_sub M) (mo_id M)) ()"

definition MonitoredItem_eq :: "MonitoredItem \<Rightarrow> MonitoredItem \<Rightarrow> bool" where
  "MonitoredItem_eq a b = (mo_handle a = mo_handle b \<and> mo_sub a = mo_sub b \<and> mo_id a = mo_id b)"

section \<open>Contexts of created items\<close>

text \<open>What the native client does during a request: it registers pointers of items in creation, delivers notifications and
  deletes items.\<close>

inductive native_step :: "'i mi_state \<Rightarrow> 'i mi_state \<Rightarrow> bool" where
  native_register: "a \<in> mi_pending s \<Longrightarrow> mi_native s key = None \<Longrightarrow> a \<notin> ran (mi_native s) \<Longrightarrow>
     native_step s (s\<lparr>mi_native := (mi_native s)(key \<mapsto> a)\<rparr>)"
| native_notify: "mi_native s key = Some a \<Longrightarrow> native_step s (mi_notify key a s)"
| native_delete: "mi_native s key = Some a \<Longrightarrow> a \<notin> mi_pending s \<Longrightarrow> native_step s (mi_delete key a s)"

definition results_of :: "'r Response \<Rightarrow> 'r list" where
  "results_of r = (case results r of None \<Rightarrow> [] | Some rs \<Rightarrow> rs)"

definition answered :: "u32 \<Rightarrow> 'i mi_state \<Rightarrow> ('d, 'v) MonitoredItemCreateResult \<Rightarrow> nat \<Rightarrow> bool" where
  "answered sub s r a = (if isGood (mir_statusCode r) then mi_native s (mi_key sub (mir_monitoredItemId r)) = Some a
     else a \<notin> ran (mi_native s))"

text \<open>The documented behaviour of the native create functions: a good response has one result for each item, and exactly the
  pointers of items with a good result are registered, under their ids; any other response is bad and registers none.\<close>

definition creates_items :: "('d, 'v, 'u sub_world) native_create \<Rightarrow> bool" where
  "creates_items f = (\<forall>req as cbs dels w resp w'. f req as cbs dels w = (resp, w') \<and> distinct as \<and> set as \<subseteq> mi_pending (sw_items w)
       \<and> List.length as = List.length (cmi_itemsToCreate req) \<and> (\<forall>a \<in> set as. a \<notin> ran (mi_native (sw_items w))) \<longrightarrow>
     native_step\<^sup>*\<^sup>* (sw_items w) (sw_items w') \<and> wf_response resp \<and> (isGood (serviceResult resp) \<or> isBad (serviceResult resp))
     \<and> (if isGood (serviceResult resp) then list_all2 (answered (cmi_subscriptionId req) (sw_items w')) (results_of resp) as
        else \<forall>a \<in> set as. a \<notin> ran (mi_native (sw_items w'))))"

text \<open>The fields of a context that do not change.\<close>

definition fixed_part :: "'i mon_context \<Rightarrow> 'i \<times> (unit outc) option \<times> (unit outc) option \<times> (unit outc) option" where
  "fixed_part c = (m_item c, m_dataChange c, m_event c, m_delete c)"

lemma native_step_mi: "native_step s s' \<Longrightarrow> mi_step s s'"
  by (induction rule: native_step.induct) (auto intro: mi_register mi_notification mi_deletion)

lemma native_step_keeps:
  "native_step s s' \<Longrightarrow> mi_pending s' = mi_pending s \<and> mi_next s' = mi_next s \<and> fixed_part (mi_ctx s' a) = fixed_part (mi_ctx s a)"
  by (induction rule: native_step.induct)
    (auto simp: mi_notify_def mi_delete_def Let_def deleteCallbackNative_def fixed_part_def split: prod.splits)

lemma native_steps:
  assumes "native_step\<^sup>*\<^sup>* s s'"
  shows "mi_reachable s \<Longrightarrow> mi_reachable s'" "mi_pending s' = mi_pending s" "mi_next s' = mi_next s"
    "fixed_part (mi_ctx s' a) = fixed_part (mi_ctx s a)"
  using assms by (induction rule: rtranclp_induct) (auto dest: native_step_keeps[of _ _ a] native_step_mi intro: mi_more)

lemma made_contexts:
  "makeMonitoredItemContexts items dc ev del s = (as, s') \<Longrightarrow>
     as = [mi_next s..<mi_next s + List.length items] \<and> mi_pending s' = mi_pending s \<union> set as \<and> mi_native s' = mi_native s
     \<and> (mi_reachable s \<longrightarrow> mi_reachable s') \<and> (\<forall>a < mi_next s. mi_ctx s' a = mi_ctx s a)
     \<and> (\<forall>i < List.length items. mi_ctx s' (mi_next s + i) = makeMonitoredItemContext (items ! i) dc ev del)"
proof (induction items arbitrary: s as)
  case Nil
  then show ?case by simp
next
  case (Cons item items)
  let ?t = "mi_make (makeMonitoredItemContext item dc ev del) s"
  obtain bs where run: "makeMonitoredItemContexts items dc ev del ?t = (bs, s')" "as = mi_next s # bs"
    using Cons.prems by (auto split: prod.splits)
  note ih = Cons.IH[OF run(1)]
  have t: "mi_next ?t = Suc (mi_next s)" "mi_native ?t = mi_native s" "mi_pending ?t = insert (mi_next s) (mi_pending s)"
    "mi_ctx ?t = (mi_ctx s)(mi_next s := makeMonitoredItemContext item dc ev del)"
    by (simp_all add: mi_make_def)
  have "mi_reachable s \<Longrightarrow> mi_reachable ?t" by (rule mi_more[OF _ mi_create])
  moreover have "mi_ctx s' (mi_next s + i) = makeMonitoredItemContext ((item # items) ! i) dc ev del" if "i < Suc (List.length items)" for i
    using ih that t by (cases i) auto
  ultimately show ?case using ih run(2) t by (simp add: upt_conv_Cons del: upt_Suc)
qed

lemma stored_results:
  "list_all2 (answered sub s) rs as \<Longrightarrow> mi_reachable s \<Longrightarrow> set as \<subseteq> mi_pending s \<Longrightarrow> distinct as \<Longrightarrow>
    \<exists>s'. store_results sub rs as s = (Ret (), s') \<and> mi_reachable s' \<and> mi_pending s' = mi_pending s - set as \<and> mi_native s' = mi_native s
      \<and> (\<forall>a. fixed_part (mi_ctx s' a) = fixed_part (mi_ctx s a))"
proof (induction "as" arbitrary: s rs)
  case Nil
  then show ?case by simp
next
  case (Cons a "as")
  then obtain r rs' where rs: "rs = r # rs'" "answered sub s r a" "list_all2 (answered sub s) rs' as" by (auto simp: list_all2_Cons2)
  let ?t = "storeMonitoredItemContext (mi_key sub (mir_monitoredItemId r)) (mir_statusCode r) a s"
  have t: "mi_pending ?t = mi_pending s - {a}" "mi_native ?t = mi_native s" "\<And>b. fixed_part (mi_ctx ?t b) = fixed_part (mi_ctx s b)"
    by (auto simp: storeMonitoredItemContext_def fixed_part_def)
  have "mi_reachable ?t"
    by (rule mi_more[OF Cons.prems(2) mi_result]) (use rs(2) Cons.prems in \<open>simp_all add: answered_def\<close>)
  moreover have "answered sub ?t = answered sub s" by (simp add: answered_def t(2) fun_eq_iff)
  moreover have "set as \<subseteq> mi_pending ?t" "distinct as" using Cons.prems by (auto simp: t(1))
  ultimately obtain s' where "store_results sub rs' as ?t = (Ret (), s')" "mi_reachable s'" "mi_pending s' = mi_pending ?t - set as"
    "mi_native s' = mi_native ?t" "\<forall>b. fixed_part (mi_ctx s' b) = fixed_part (mi_ctx ?t b)"
    using Cons.IH[of ?t rs'] rs(3) by metis
  then show ?case using t by (auto simp: rs(1))
qed

lemma freed_contexts: "mi_reachable s \<Longrightarrow> \<forall>a \<in> set as. a \<notin> ran (mi_native s) \<Longrightarrow> mi_reachable (free_contexts as s)"
proof (induction as arbitrary: s)
  case (Cons a as)
  have bad: "\<not> isGood UA_STATUSCODE_BADINTERNALERROR" by (simp add: isGood_def status_codes)
  let ?t = "storeMonitoredItemContext 0 UA_STATUSCODE_BADINTERNALERROR a s"
  show ?case
  proof (cases "a \<in> mi_pending s")
    case True
    have "mi_reachable ?t" by (rule mi_more[OF Cons.prems(1) mi_result]) (use True bad Cons.prems(2) in auto)
    moreover have "free_contexts (a # as) s = free_contexts as ?t"
      by (simp add: free_contexts_def storeMonitoredItemContext_def bad Diff_insert2[symmetric])
    ultimately show ?thesis using Cons by (simp add: storeMonitoredItemContext_def bad)
  next
    case False
    then have "free_contexts (a # as) s = free_contexts as s" by (simp add: free_contexts_def)
    then show ?thesis using Cons by simp
  qed
qed (simp add: free_contexts_def)

text \<open>An item is stored under a key if the native client uses a live context, which will be inserted and found.\<close>

definition stored_item ::
  "nat \<Rightarrow> 'i \<Rightarrow> (unit outc) option \<Rightarrow> (unit outc) option \<Rightarrow> (unit outc) option \<Rightarrow> 'i mi_state \<Rightarrow> bool" where
  "stored_item key item dc ev del s = (\<exists>a. mi_native s key = Some a \<and> cm_find (mi_map s) key = Some a \<and> a \<notin> mi_pending s
     \<and> \<not> mi_stale s a \<and> m_inserted (mi_ctx s a) \<and> fixed_part (mi_ctx s a) = (item, dc, ev, del))"

lemma stored_itemI:
  assumes "mi_reachable s" "mi_native s key = Some a" "a \<notin> mi_pending s" "fixed_part (mi_ctx s a) = (item, dc, ev, del)"
  shows "stored_item key item dc ev del s"
proof -
  note f = mi_inv_facts[OF mi_reachable_inv[OF assms(1)]]
  have "mi_stored s key = Some a" using assms(2,3) by (simp add: mi_stored_Some)
  from backed_find[OF f(2) this] have "cm_find (mi_map s) key = Some a" "\<not> mi_stale s a" by simp_all
  then show ?thesis using assms f(8) unfolding stored_item_def by blast
qed

lemma native_arrays_Ret: "\<exists>cbs dels. native_arrays data as = Ret (as, cbs, dels)"
  by (cases data) (simp_all add: native_arrays_def convertMonitoredItemContexts_def Let_def)

lemma free_none: "mi_pending s \<inter> set as = {} \<Longrightarrow> free_contexts as s = s"
  by (cases s) (auto simp: free_contexts_def)

lemma items_created:
  assumes "creates_items native" "mi_reachable (sw_items w)"
  shows "\<exists>resp w'. create_items data native req dc ev del w = (Ret resp, w') \<and> mi_reachable (sw_items w')
    \<and> mi_pending (sw_items w') = mi_pending (sw_items w)
    \<and> wf_response resp \<and> (isGood (serviceResult resp) \<or> isBad (serviceResult resp))
    \<and> (isGood (serviceResult resp) \<longrightarrow> List.length (results_of resp) = List.length (cmi_itemsToCreate req)
        \<and> (\<forall>i < List.length (cmi_itemsToCreate req). isGood (mir_statusCode (results_of resp ! i)) \<longrightarrow>
             stored_item (mi_key (cmi_subscriptionId req) (mir_monitoredItemId (results_of resp ! i)))
               (mcr_itemToMonitor (cmi_itemsToCreate req ! i)) dc ev del (sw_items w')))"
proof -
  let ?s = "sw_items w" and ?items = "map mcr_itemToMonitor (cmi_itemsToCreate req)"
  obtain "as" s1 where make: "makeMonitoredItemContexts ?items dc ev del ?s = (as, s1)" by fastforce
  obtain cbs dels where arr: "native_arrays data as = Ret (as, cbs, dels)" using native_arrays_Ret by blast
  obtain resp w2 where nat: "native req as cbs dels (w\<lparr>sw_items := s1\<rparr>) = (resp, w2)" by fastforce
  note m = made_contexts[OF make]
  note f = mi_inv_facts[OF mi_reachable_inv[OF assms(2)]]
  have old: "\<forall>a \<in> mi_pending ?s. a < mi_next ?s" "\<forall>a \<in> ran (mi_native ?s). a < mi_next ?s"
    using f(3,14) by (auto simp: ran_def)
  have "as": "as = [mi_next ?s..<mi_next ?s + List.length (cmi_itemsToCreate req)]" "distinct as" "set as \<inter> mi_pending ?s = {}"
    "\<forall>a \<in> set as. a \<notin> ran (mi_native ?s)" "List.length as = List.length (cmi_itemsToCreate req)" using m old by auto
  have made: "mi_reachable s1" "mi_native s1 = mi_native ?s" "mi_pending s1 = mi_pending ?s \<union> set as" using m assms(2) by auto
  have con: "native_step\<^sup>*\<^sup>* s1 (sw_items w2)" "wf_response resp" "isGood (serviceResult resp) \<or> isBad (serviceResult resp)"
    "if isGood (serviceResult resp) then list_all2 (answered (cmi_subscriptionId req) (sw_items w2)) (results_of resp) as
       else \<forall>a \<in> set as. a \<notin> ran (mi_native (sw_items w2))"
    using assms(1)[unfolded creates_items_def, rule_format, of req "as" cbs dels "w\<lparr>sw_items := s1\<rparr>" resp w2] nat "as" made by auto
  note n = native_steps[OF con(1)]
  have pend: "set as \<subseteq> mi_pending (sw_items w2)" "mi_pending (sw_items w2) - set as = mi_pending ?s" using n(2) made(3) "as"(3) by auto
  show ?thesis
  proof (cases "isGood (serviceResult resp)")
    case True
    then obtain s3 where st: "store_results (cmi_subscriptionId req) (results_of resp) as (sw_items w2) = (Ret (), s3)" "mi_reachable s3"
      "mi_pending s3 = mi_pending ?s" "mi_native s3 = mi_native (sw_items w2)"
      "\<forall>a. fixed_part (mi_ctx s3 a) = fixed_part (mi_ctx (sw_items w2) a)"
      using stored_results[of "cmi_subscriptionId req" "sw_items w2" "results_of resp" "as"] con(4) n(1)[OF made(1)] pend "as"(2) by auto
    have free: "free_contexts as s3 = s3" by (rule free_none) (use st(3) "as"(3) in auto)
    have run: "create_items data native req dc ev del w = (Ret resp, w2\<lparr>sw_items := s3\<rparr>)"
      using True st(1) free
      by (simp add: create_items_def with_items_def make arr nat store_response_def getServiceResult_def results_of_def[symmetric])
    have all: "list_all2 (answered (cmi_subscriptionId req) (sw_items w2)) (results_of resp) as" using con(4) True by simp
    have "stored_item (mi_key (cmi_subscriptionId req) (mir_monitoredItemId (results_of resp ! i)))
        (mcr_itemToMonitor (cmi_itemsToCreate req ! i)) dc ev del s3"
      if i: "i < List.length (cmi_itemsToCreate req)" "isGood (mir_statusCode (results_of resp ! i))" for i
    proof (rule stored_itemI[OF st(2)])
      have ai: "as ! i = mi_next ?s + i" "as ! i \<in> set as" using i(1) "as"(1,5) by (simp, metis nth_mem)
      show "mi_native s3 (mi_key (cmi_subscriptionId req) (mir_monitoredItemId (results_of resp ! i))) = Some (as ! i)"
        using list_all2_nthD2[OF all, of i] i "as"(5) st(4) by (simp add: answered_def)
      show "as ! i \<notin> mi_pending s3" using ai(2) "as"(3) st(3) by auto
      have "mi_ctx s1 (as ! i) = makeMonitoredItemContext (mcr_itemToMonitor (cmi_itemsToCreate req ! i)) dc ev del"
        using m i(1) ai(1) by simp
      then show "fixed_part (mi_ctx s3 (as ! i)) = (mcr_itemToMonitor (cmi_itemsToCreate req ! i), dc, ev, del)"
        using st(5) n(4)[of "as ! i"] by (simp add: fixed_part_def makeMonitoredItemContext_def)
    qed
    then show ?thesis using run st(2,3) list_all2_lengthD[OF all] "as"(5) con(2,3) by simp
  next
    case False
    then have run: "create_items data native req dc ev del w = (Ret resp, w2\<lparr>sw_items := free_contexts as (sw_items w2)\<rparr>)"
      by (simp add: create_items_def with_items_def make arr nat store_response_def getServiceResult_def)
    have "mi_reachable (free_contexts as (sw_items w2))" by (rule freed_contexts[OF n(1)[OF made(1)]]) (use con(4) False in simp)
    then show ?thesis using run False pend(2) con(2,3) by (simp add: free_contexts_def)
  qed
qed

section \<open>Subscribing\<close>

lemma key_parts [simp]: "key_sub (mi_key s m) = s" "key_mon (mi_key s m) = m"
proof -
  have "unat m < 4294967296" using unat_bound[of m] by simp
  then show "key_sub (mi_key s m) = s" "key_mon (mi_key s m) = m" by (simp_all add: key_sub_def key_mon_def mi_key_def)
qed

lemma monitoredItems_list: "fst (monitoredItems S w) =
  map (\<lambda>(k, a). MonitoredItem_of (sb_server S) (sb_handle S) (key_sub k) (key_mon k))
    (filter (\<lambda>(k, a). key_sub k = sb_id S) (cm_sweep (mi_stale (sw_items w)) (mi_map (sw_items w))))"
proof -
  have "fold (\<lambda>(k, a) result. if key_sub k = sb_id S
        then result @ [MonitoredItem_of (sb_server S) (sb_handle S) (key_sub k) (key_mon k)] else result) m xs
      = xs @ map (\<lambda>(k, a). MonitoredItem_of (sb_server S) (sb_handle S) (key_sub k) (key_mon k)) (filter (\<lambda>(k, a). key_sub k = sb_id S) m)"
    for m :: "(nat \<times> nat) list" and xs by (induction m arbitrary: xs) auto
  then show ?thesis by (simp add: monitoredItems_def Let_def cm_iterate_def)
qed

lemma stored_item_listed:
  assumes "stored_item (mi_key (sb_id S) mon) item dc ev del (sw_items w)" "mi_reachable (sw_items w)"
  shows "MonitoredItem_of (sb_server S) (sb_handle S) (sb_id S) mon \<in> set (fst (monitoredItems S w))"
proof -
  obtain a where a: "cm_find (mi_map (sw_items w)) (mi_key (sb_id S) mon) = Some a" "\<not> mi_stale (sw_items w) a"
    using assms(1) by (auto simp: stored_item_def)
  have "cm_inv (mi_map (sw_items w))" using mi_inv_facts(2)[OF mi_reachable_inv[OF assms(2)]] by (simp add: backed_def)
  then have "cm_find (cm_sweep (mi_stale (sw_items w)) (mi_map (sw_items w))) (mi_key (sb_id S) mon) = Some a"
    using a by (simp add: ctx.find_sweep)
  then have "(mi_key (sb_id S) mon, a) \<in> set (cm_sweep (mi_stale (sw_items w)) (mi_map (sw_items w)))"
    by (auto simp: cm_find_def dest: map_of_SomeD)
  then show ?thesis unfolding monitoredItems_list by force
qed

lemma stored_item_seen:
  assumes "stored_item (mi_key sub mon) (item_of i attr) dc ev del (sw_items w)"
  shows "item_nodeId (MonitoredItem_of False h sub mon) w = Ret i"
    "item_attributeId (MonitoredItem_of False h sub mon) w = Ret (AttributeId_code attr)"
    "\<exists>a. mi_native (sw_items w) (mi_key sub mon) = Some a \<and> mi_calls (mi_notify (mi_key sub mon) a (sw_items w)) =
      (if dc = None then mi_calls (sw_items w) else (mi_key sub mon, a) # mi_calls (sw_items w))"
proof -
  obtain a where a: "mi_native (sw_items w) (mi_key sub mon) = Some a" "cm_find (mi_map (sw_items w)) (mi_key sub mon) = Some a"
      "m_inserted (mi_ctx (sw_items w) a)" "fixed_part (mi_ctx (sw_items w) a) = (item_of i attr, dc, ev, del)"
    using assms by (auto simp: stored_item_def)
  then show "item_nodeId (MonitoredItem_of False h sub mon) w = Ret i"
    "item_attributeId (MonitoredItem_of False h sub mon) w = Ret (AttributeId_code attr)"
    by (simp_all add: item_nodeId_def item_attributeId_def getMonitoredItemContext_def MonitoredItem_of_def fixed_part_def item_of_def)
  have "mi_alive (sw_items w) a" using a(2) by (auto simp: mi_alive_def)
  then show "\<exists>a. mi_native (sw_items w) (mi_key sub mon) = Some a \<and> mi_calls (mi_notify (mi_key sub mon) a (sw_items w)) =
      (if dc = None then mi_calls (sw_items w) else (mi_key sub mon, a) # mi_calls (sw_items w))"
    using a by (simp add: mi_notify_def Let_def fixed_part_def)
qed

text \<open>A well-formed response to a request for one item, as the wrapper sees it.\<close>

lemma wrap_item: "getSingleResultRef r = Ret (Result_of x UA_STATUSCODE_GOOD) \<Longrightarrow> wrapSingleResultWithStatus z setCode r = Ret x"
  by (simp add: eval_defs hasValue_def deref_def orElse_def Result_of_def)

lemma single_created:
  assumes "wf_response resp" "isGood (serviceResult resp) \<or> isBad (serviceResult resp)"
    "isGood (serviceResult resp) \<Longrightarrow> List.length (results_of resp) = 1"
  shows "isGood (serviceResult resp) \<and> wrap_created z resp = Ret (results_of resp ! 0)
    \<or> (\<exists>k. isBad k \<and> wrap_created z resp = Ret ((zero_create_result z)\<lparr>mir_statusCode := k\<rparr>))"
proof (cases "isGood (serviceResult resp)")
  case True
  then obtain x where x: "results resp = Some [x]"
    using assms(3) by (cases "results resp") (auto simp: results_of_def length_Suc_conv)
  then have "resultsSize resp = 1" using assms(1) by (simp add: wf_response_def)
  then have "getSingleResultRef resp = Ret (Result_of x UA_STATUSCODE_GOOD)"
    using True x by (simp add: getSingleResultRef_def getServiceResult_def wrd)
  then show ?thesis using True x by (simp add: wrap_created_def wrap_item results_of_def)
next
  case False
  then have "broken resp (serviceResult resp)" using assms(2) by (simp add: broken_def getServiceResult_def)
  from eval_broken(2)[OF this] show ?thesis using assms(2) False by (auto simp: wrap_created_def)
qed

section \<open>Properties\<close>

lemma single_item_created:
  assumes "mi_reachable (sw_items w)" "creates_items (UA_Client_MonitoredItems_createDataChanges api)"
  shows "\<exists>res w'. createMonitoredItemDataChange_Client z api sub item mode ps dc del w = (Ret res, w')
    \<and> mi_reachable (sw_items w') \<and> mi_pending (sw_items w') = mi_pending (sw_items w)
    \<and> (isGood (mir_statusCode res) \<longrightarrow> stored_item (mi_key sub (mir_monitoredItemId res)) item dc None del (sw_items w'))"
proof -
  let ?req = "single_item z sub item mode ps"
  have one: "cmi_itemsToCreate ?req = [makeMonitoredItemCreateRequest z item mode ps]" "cmi_subscriptionId ?req = sub"
    "mcr_itemToMonitor (makeMonitoredItemCreateRequest z item mode ps) = item"
    by (simp_all add: single_item_def makeCreateMonitoredItemsRequest_def makeMonitoredItemCreateRequest_def)
  obtain resp w' where c: "createMonitoredItemsDataChange api ?req dc del w = (Ret resp, w')" "mi_reachable (sw_items w')"
    "mi_pending (sw_items w') = mi_pending (sw_items w)" "wf_response resp" "isGood (serviceResult resp) \<or> isBad (serviceResult resp)"
    "isGood (serviceResult resp) \<Longrightarrow> List.length (results_of resp) = 1"
    "isGood (serviceResult resp) \<Longrightarrow> isGood (mir_statusCode (results_of resp ! 0)) \<Longrightarrow>
      stored_item (mi_key sub (mir_monitoredItemId (results_of resp ! 0))) item dc None del (sw_items w')"
    using items_created[OF assms(2,1), where data = True and req = ?req and dc = dc and ev = None and del = del] unfolding createMonitoredItemsDataChange_def one(1,2)
    by (auto simp: one(3))
  have bad: "\<not> isGood k" if "isBad k" for k using that by (simp add: wrd)
  obtain res where "wrap_created z resp = Ret res"
    "isGood (mir_statusCode res) \<longrightarrow> stored_item (mi_key sub (mir_monitoredItemId res)) item dc None del (sw_items w')"
    using single_created[OF c(4-6), of z] c(7) bad by force
  then show ?thesis using c(2,3) by (auto simp: createMonitoredItemDataChange_Client_def op_bind_def c(1))
qed

lemma subscribed_good:
  assumes "createMonitoredItemDataChange_Client z api (sb_id S) (item_of i attr) mode ps dc None w = (Ret res, w')" "\<not> sb_server S"
    and st: "stored_item (mi_key (sb_id S) (mir_monitoredItemId res)) (item_of i attr) dc None None (sw_items w')"
    and "mi_reachable (sw_items w')" "isGood (mir_statusCode res)"
  shows "\<exists>M a. subscribeDataChange z api S i attr mode ps dc w = (Ret M, w')
    \<and> mo_sub M = sb_id S \<and> mo_id M = mir_monitoredItemId res \<and> item_nodeId M w' = Ret i
    \<and> item_attributeId M w' = Ret (AttributeId_code attr) \<and> M \<in> set (fst (monitoredItems S w'))
    \<and> mi_native (sw_items w') (mi_key (mo_sub M) (mo_id M)) = Some a
    \<and> mi_calls (mi_notify (mi_key (mo_sub M) (mo_id M)) a (sw_items w'))
      = (if dc = None then mi_calls (sw_items w') else (mi_key (mo_sub M) (mo_id M), a) # mi_calls (sw_items w'))"
proof -
  let ?M = "MonitoredItem_of False (sb_handle S) (sb_id S) (mir_monitoredItemId res)"
  have "\<not> isBad (mir_statusCode res)" using assms(5) by (simp add: wrd)
  then have "subscribeDataChange z api S i attr mode ps dc w = (Ret ?M, w')"
    using assms(1,2) by (simp add: subscribeDataChange_def created_item_def op_bind_def)
  moreover have "mo_sub ?M = sb_id S" "mo_id ?M = mir_monitoredItemId res" by (simp_all add: MonitoredItem_of_def)
  moreover have "?M \<in> set (fst (monitoredItems S w'))" using stored_item_listed[OF st assms(4)] assms(2) by simp
  ultimately show ?thesis using stored_item_seen(1,2)[OF st, of "sb_handle S"] stored_item_seen(3)[OF st] by (metis (no_types, lifting))
qed

lemma subscribed_bad:
  assumes "createMonitoredItemDataChange_Client z api (sb_id S) (item_of i attr) mode ps dc None w = (Ret res, w')" "\<not> sb_server S"
    "isBad (mir_statusCode res)"
  shows "\<exists>x. subscribeDataChange z api S i attr mode ps dc w = (throw x, w') \<and> getStatusCode (Some x) = mir_statusCode res"
  using assms(1,2) throwIfBad_throws[OF assms(3)] by (auto simp: subscribeDataChange_def created_item_def op_bind_def)

text \<open>C5. Items that are created are found again, and no context is lost or dangling: from every reachable state and with every
  number of items, the create functions end with all contexts either stored or freed, in a reachable state; each item with a
  good result is stored under its key, with the item, the functions and the native pointer of its position in the request. A
  subscription returns such an item with an id under which \<open>nodeId()\<close>, \<open>attributeId()\<close> and \<open>monitoredItems()\<close> find
  it, and the next notification runs the user's function; a bad result is thrown.\<close>

theorem subscribed_items_are_found:
  assumes "mi_reachable (sw_items w)" "creates_items (UA_Client_MonitoredItems_createDataChanges api)"
    "creates_items (UA_Client_MonitoredItems_createEvents api)" "\<not> sb_server S"
  shows "(\<exists>resp w'. createMonitoredItemsDataChange api req dc del w = (Ret resp, w') \<and> mi_reachable (sw_items w')
      \<and> mi_pending (sw_items w') = mi_pending (sw_items w)
      \<and> (isGood (serviceResult resp) \<longrightarrow> (\<forall>i < List.length (cmi_itemsToCreate req). isGood (mir_statusCode (results_of resp ! i)) \<longrightarrow>
           stored_item (mi_key (cmi_subscriptionId req) (mir_monitoredItemId (results_of resp ! i)))
             (mcr_itemToMonitor (cmi_itemsToCreate req ! i)) dc None del (sw_items w'))))
    \<and> (\<exists>resp w'. createMonitoredItemsEvent api req ev del w = (Ret resp, w') \<and> mi_reachable (sw_items w')
      \<and> mi_pending (sw_items w') = mi_pending (sw_items w)
      \<and> (isGood (serviceResult resp) \<longrightarrow> (\<forall>i < List.length (cmi_itemsToCreate req). isGood (mir_statusCode (results_of resp ! i)) \<longrightarrow>
           stored_item (mi_key (cmi_subscriptionId req) (mir_monitoredItemId (results_of resp ! i)))
             (mcr_itemToMonitor (cmi_itemsToCreate req ! i)) None ev del (sw_items w'))))
    \<and> (\<exists>res w'. createMonitoredItemDataChange_Client z api (sb_id S) (item_of i attr) mode ps dc None w = (Ret res, w')
      \<and> mi_reachable (sw_items w') \<and> mi_pending (sw_items w') = mi_pending (sw_items w)
      \<and> (isBad (mir_statusCode res) \<longrightarrow> (\<exists>x. subscribeDataChange z api S i attr mode ps dc w = (throw x, w')
           \<and> getStatusCode (Some x) = mir_statusCode res))
      \<and> (isGood (mir_statusCode res) \<longrightarrow> (\<exists>M a. subscribeDataChange z api S i attr mode ps dc w = (Ret M, w')
           \<and> mo_sub M = sb_id S \<and> mo_id M = mir_monitoredItemId res \<and> item_nodeId M w' = Ret i
           \<and> item_attributeId M w' = Ret (AttributeId_code attr) \<and> M \<in> set (fst (monitoredItems S w'))
           \<and> mi_native (sw_items w') (mi_key (mo_sub M) (mo_id M)) = Some a
           \<and> mi_calls (mi_notify (mi_key (mo_sub M) (mo_id M)) a (sw_items w'))
             = (if dc = None then mi_calls (sw_items w') else (mi_key (mo_sub M) (mo_id M), a) # mi_calls (sw_items w')))))"
proof (intro conjI)
  obtain res w' where run: "createMonitoredItemDataChange_Client z api (sb_id S) (item_of i attr) mode ps dc None w = (Ret res, w')"
    "mi_reachable (sw_items w')" "mi_pending (sw_items w') = mi_pending (sw_items w)"
    "isGood (mir_statusCode res) \<longrightarrow> stored_item (mi_key (sb_id S) (mir_monitoredItemId res)) (item_of i attr) dc None None (sw_items w')"
    using single_item_created[OF assms(1,2)] by blast
  note bad = subscribed_bad[OF run(1) assms(4)] and good = subscribed_good[OF run(1) assms(4) _ run(2)]
  show "\<exists>res w'. createMonitoredItemDataChange_Client z api (sb_id S) (item_of i attr) mode ps dc None w = (Ret res, w')
      \<and> mi_reachable (sw_items w') \<and> mi_pending (sw_items w') = mi_pending (sw_items w)
      \<and> (isBad (mir_statusCode res) \<longrightarrow> (\<exists>x. subscribeDataChange z api S i attr mode ps dc w = (throw x, w')
           \<and> getStatusCode (Some x) = mir_statusCode res))
      \<and> (isGood (mir_statusCode res) \<longrightarrow> (\<exists>M a. subscribeDataChange z api S i attr mode ps dc w = (Ret M, w')
           \<and> mo_sub M = sb_id S \<and> mo_id M = mir_monitoredItemId res \<and> item_nodeId M w' = Ret i
           \<and> item_attributeId M w' = Ret (AttributeId_code attr) \<and> M \<in> set (fst (monitoredItems S w'))
           \<and> mi_native (sw_items w') (mi_key (mo_sub M) (mo_id M)) = Some a
           \<and> mi_calls (mi_notify (mi_key (mo_sub M) (mo_id M)) a (sw_items w'))
             = (if dc = None then mi_calls (sw_items w') else (mi_key (mo_sub M) (mo_id M), a) # mi_calls (sw_items w'))))"
    using run bad good by blast
qed (use items_created[OF assms(2,1), where data = True and req = req and dc = dc and ev = None and del = del]
    items_created[OF assms(3,1), where data = False and req = req and dc = None and ev = ev and del = del] in
    \<open>auto simp: createMonitoredItemsDataChange_def createMonitoredItemsEvent_def\<close>)

text \<open>A client that accepts one item at a time, under the id 1, if that is free.\<close>

definition demo_create :: "(nat, nat, unit sub_world) native_create" where
  "demo_create req as cbs dels w = (case as of
      [a] \<Rightarrow> if mi_native (sw_items w) (mi_key (cmi_subscriptionId req) 1) = None
        then (answer ((zero_create_result 0)\<lparr>mir_monitoredItemId := 1\<rparr>),
          w\<lparr>sw_items := (sw_items w)\<lparr>mi_native := (mi_native (sw_items w))(mi_key (cmi_subscriptionId req) 1 \<mapsto> a)\<rparr>\<rparr>)
        else (closed UA_STATUSCODE_BADINTERNALERROR, w)
    | _ \<Rightarrow> (closed UA_STATUSCODE_BADINTERNALERROR, w))"

lemma isGood_zero: "isGood 0"
  by (simp add: wrd)

lemma answer_parts: "serviceResult (answer x) = UA_STATUSCODE_GOOD" "results (answer x) = Some [x]"
  by (simp_all add: answer_def)

lemma demo_creates: "creates_items demo_create"
  unfolding creates_items_def
proof (intro allI impI)
  fix req :: "(nat, nat) CreateMonitoredItemsRequest" and "as" cbs dels and resp :: "(nat, nat) MonitoredItemCreateResult Response" and w w' :: "unit sub_world"
  let ?s = "sw_items w" and ?k = "mi_key (cmi_subscriptionId req) 1"
  let ?goal = "\<lambda>resp w'. native_step\<^sup>*\<^sup>* ?s (sw_items w') \<and> wf_response resp \<and> (isGood (serviceResult resp) \<or> isBad (serviceResult resp))
      \<and> (if isGood (serviceResult resp) then list_all2 (answered (cmi_subscriptionId req) (sw_items w')) (results_of resp) as
         else \<forall>a \<in> set as. a \<notin> ran (mi_native (sw_items w')))"
  assume run: "demo_create req as cbs dels w = (resp, w') \<and> distinct as \<and> set as \<subseteq> mi_pending ?s
      \<and> List.length as = List.length (cmi_itemsToCreate req) \<and> (\<forall>a \<in> set as. a \<notin> ran (mi_native ?s))"
  have closed: "?goal (closed UA_STATUSCODE_BADINTERNALERROR) w"
    using run by (simp add: closed_def wf_response_def) (simp add: wrd status_codes)
  show "?goal resp w'"
  proof (cases "\<exists>a. as = [a] \<and> mi_native ?s ?k = None")
    case True
    then obtain a where a: "as = [a]" "mi_native ?s ?k = None" by blast
    then have w': "resp = answer ((zero_create_result 0)\<lparr>mir_monitoredItemId := 1\<rparr>)" "sw_items w' = ?s\<lparr>mi_native := (mi_native ?s)(?k \<mapsto> a)\<rparr>"
      using run by (auto simp: demo_create_def)
    have "native_step ?s (sw_items w')" unfolding w'(2) using a run by (intro native_register) auto
    then show ?thesis
      unfolding w'(1) using a(1) w'(2) by (simp add: answer_def wf_response_def results_of_def answered_def zero_create_result_def r_into_rtranclp isGood_zero)
  next
    case False
    then have eq: "resp = closed UA_STATUSCODE_BADINTERNALERROR" "w' = w"
      using run by (auto simp: demo_create_def split: list.splits if_splits)
    show ?thesis unfolding eq by (rule closed)
  qed
qed

definition demo_subscription_api :: "(nat, nat, unit sub_world) subscription_api" where
  "demo_subscription_api = \<lparr>UA_Client_Subscriptions_create = (\<lambda>_ _ w. (\<lparr>csp_serviceResult = 0, csp_subscriptionId = 7,
       csp_revisedPublishingInterval = 500, csp_revisedLifetimeCount = 10000, csp_revisedMaxKeepAliveCount = 10\<rparr>, w)),
     UA_Client_Subscriptions_modify = (\<lambda>_ w. (\<lparr>msp_serviceResult = 0, msp_revisedPublishingInterval = 500,
       msp_revisedLifetimeCount = 10000, msp_revisedMaxKeepAliveCount = 10\<rparr>, w)),
     UA_Client_Subscriptions_setPublishingMode = (\<lambda>_. Pair (answer 0)), UA_Client_Subscriptions_delete = (\<lambda>_. Pair (answer 0)),
     UA_Client_MonitoredItems_createDataChanges = demo_create, UA_Client_MonitoredItems_createEvents = demo_create,
     UA_Client_MonitoredItems_modify = (\<lambda>_. Pair (answer (zero_modify_result 0))),
     UA_Client_MonitoredItems_setMonitoringMode = (\<lambda>_. Pair (answer 0)),
     UA_Client_MonitoredItems_setTriggering = (\<lambda>_. Pair \<lparr>stp_serviceResult = 0, stp_addResults = [], stp_removeResults = []\<rparr>),
     UA_Client_MonitoredItems_delete = (\<lambda>_. Pair (answer 0)),
     UA_Server_createDataChangeMonitoredItem = (\<lambda>_ _ _ _. Pair (zero_create_result 0)), UA_Server_deleteMonitoredItem = (\<lambda>_. Pair 0)\<rparr>"

definition demo_parameters :: "(nat, nat) MonitoringParametersEx" where
  "demo_parameters = \<lparr>mp_samplingInterval = 250, mp_filter = EncodedNoBody, mp_queueSize = 1, mp_discardOldest = True, mp_timestamps = TsBoth\<rparr>"

definition demo_world :: "unit sub_world" where
  "demo_world = \<lparr>sw_items = mi_init (\<lambda>_. makeMonitoredItemContext (item_of (ns0 0) AttrValue) None None None),
     sw_subs = \<lparr>su_ctx = (\<lambda>_. createSubscriptionContext None None), su_map = [], su_pending = {}, su_next = 0\<rparr>, sw_rest = ()\<rparr>"

theorem subscribed_items_are_found_witness:
  "\<exists>M w'. subscribeDataChange 0 demo_subscription_api (Subscription_of False 0 7) (ns0 85) AttrValue MmReporting demo_parameters (Some (Ret ())) demo_world
     = (Ret M, w') \<and> item_nodeId M w' = Ret (ns0 85) \<and> M \<in> set (fst (monitoredItems (Subscription_of False 0 7) w'))"
proof -
  let ?S = "Subscription_of False 0 7"
  have r: "mi_reachable (sw_items demo_world)" by (simp add: demo_world_def mi_start)
  have c: "creates_items (UA_Client_MonitoredItems_createDataChanges demo_subscription_api)"
    "creates_items (UA_Client_MonitoredItems_createEvents demo_subscription_api)"
    by (simp_all add: demo_subscription_api_def demo_creates)
  have S: "\<not> sb_server ?S" "sb_id ?S = 7" by (simp_all add: Subscription_of_def)
  have g: "\<exists>res. fst (createMonitoredItemDataChange_Client 0 demo_subscription_api 7 (item_of (ns0 85) AttrValue) MmReporting demo_parameters
      (Some (Ret ())) None demo_world) = Ret res \<and> isGood (mir_statusCode res)"
    by (simp add: createMonitoredItemDataChange_Client_def createMonitoredItemsDataChange_def create_items_def with_items_def
        native_arrays_def convertMonitoredItemContexts_def op_bind_def demo_subscription_api_def demo_world_def mi_init_def demo_create_def
        single_item_def makeCreateMonitoredItemsRequest_def makeMonitoredItemCreateRequest_def mi_make_def store_response_def
        getServiceResult_def wrap_created_def isGood_zero zero_create_result_def Let_def answer_parts)
  show ?thesis
    using subscribed_items_are_found[OF r c S(1), THEN conjunct2, THEN conjunct2, of 0 "ns0 85" AttrValue MmReporting demo_parameters "Some (Ret ())"] g
    unfolding S(2) by (elim exE conjE) (metis (no_types, lifting) fst_conv sum.inject(2))
qed

text \<open>A client whose requests are all answered with the same bad service result.\<close>

definition subscriptions_down :: "('d, 'v, 'w) subscription_api \<Rightarrow> u32 \<Rightarrow> bool" where
  "subscriptions_down api k = (isBad k \<and> (\<forall>q a w. csp_serviceResult (fst (UA_Client_Subscriptions_create api q a w)) = k)
     \<and> (\<forall>q w. msp_serviceResult (fst (UA_Client_Subscriptions_modify api q w)) = k)
     \<and> (\<forall>q w. serviceResult (fst (UA_Client_Subscriptions_setPublishingMode api q w)) = k)
     \<and> (\<forall>q w. serviceResult (fst (UA_Client_Subscriptions_delete api q w)) = k)
     \<and> (\<forall>q as cs ds w. serviceResult (fst (UA_Client_MonitoredItems_createDataChanges api q as cs ds w)) = k)
     \<and> (\<forall>q as cs ds w. serviceResult (fst (UA_Client_MonitoredItems_createEvents api q as cs ds w)) = k)
     \<and> (\<forall>q w. serviceResult (fst (UA_Client_MonitoredItems_modify api q w)) = k)
     \<and> (\<forall>q w. serviceResult (fst (UA_Client_MonitoredItems_setMonitoringMode api q w)) = k)
     \<and> (\<forall>q w. serviceResult (fst (UA_Client_MonitoredItems_delete api q w)) = k))"

lemma find_put_same: "cm_find (cm_put k v m) k = Some v"
  by (induction k v m rule: cm_put.induct) (auto simp: cm_find_def)

lemma bad_is_broken: "isBad k \<Longrightarrow> serviceResult r = k \<Longrightarrow> broken r k"
  by (simp add: broken_def)

lemma status_down: "isBad k \<Longrightarrow> (\<And>w. serviceResult (fst (f w)) = k) \<Longrightarrow> fails k (checked (with_response f getSingleStatus) n)"
  by (rule fails_checked) (simp_all add: with_broken[where k = k] bad_is_broken status_broken)

lemma items_down:
  assumes "isBad k" "\<And>req ptrs cbs dels v. serviceResult (fst (native req ptrs cbs dels v)) = k"
  shows "\<exists>resp. fst (create_items data native req dc ev del w) = Ret resp \<and> serviceResult resp = k"
proof -
  obtain "as" w1 where m: "with_items (makeMonitoredItemContexts (map mcr_itemToMonitor (cmi_itemsToCreate req)) dc ev del) w = (as, w1)"
    by fastforce
  obtain cbs dels where arr: "native_arrays data as = Ret (as, cbs, dels)" using native_arrays_Ret by blast
  obtain resp w2 where nat: "native req as cbs dels w1 = (resp, w2)" by fastforce
  have k: "serviceResult resp = k" "\<not> isGood k" using assms(2)[of req "as" cbs dels w1] nat assms(1) by (simp_all add: wrd)
  then show ?thesis by (simp add: create_items_def m arr nat) (simp add: with_items_def store_response_def getServiceResult_def)
qed

lemma created_down:
  assumes "isBad k" "\<And>w. \<exists>resp. fst (f w) = Ret resp \<and> serviceResult resp = k"
  shows "fails k (created_item S (op_bind f (\<lambda>r. op_lift (wrap_created z r))))"
  unfolding fails_def
proof
  fix w
  obtain resp where "fst (f w) = Ret resp" "serviceResult resp = k" using assms(2) by blast
  then have "fst (op_bind f (\<lambda>r. op_lift (wrap_created z r)) w) = Ret ((zero_create_result z)\<lparr>mir_statusCode := k\<rparr>)"
    using eval_broken(2)[OF bad_is_broken[OF assms(1)], of resp] by (cases "f w") (simp add: op_bind_def wrap_created_def)
  then show "\<exists>x. fst (created_item S (op_bind f (\<lambda>r. op_lift (wrap_created z r))) w) = throw x \<and> getStatusCode (Some x) = k"
    using throwIfBad_throws[OF assms(1)] unfolding created_item_def
    by (cases "op_bind f (\<lambda>r. op_lift (wrap_created z r)) w") (auto simp: op_bind_def[of "op_bind _ _"])
qed

lemma throw_down: "isBad k \<Longrightarrow> (\<And>w. g (fst (f w)) = k) \<Longrightarrow> fails k (\<lambda>w. case f w of (r, w') \<Rightarrow> (outc_bind (throwIfBad (g r)) (h r), w'))"
  using throwIfBad_throws[of k] by (auto simp: fails_def split: prod.splits) (metis fst_conv outc_bind_simps(1))


definition closed_subscriptions :: "u32 \<Rightarrow> (nat, nat, unit sub_world) subscription_api" where
  "closed_subscriptions k = demo_subscription_api\<lparr>UA_Client_Subscriptions_create := (\<lambda>_ _. Pair \<lparr>csp_serviceResult = k, csp_subscriptionId = 0,
       csp_revisedPublishingInterval = 0, csp_revisedLifetimeCount = 0, csp_revisedMaxKeepAliveCount = 0\<rparr>),
     UA_Client_Subscriptions_modify := (\<lambda>_. Pair \<lparr>msp_serviceResult = k, msp_revisedPublishingInterval = 0,
       msp_revisedLifetimeCount = 0, msp_revisedMaxKeepAliveCount = 0\<rparr>),
     UA_Client_Subscriptions_setPublishingMode := (\<lambda>_. Pair (closed k)), UA_Client_Subscriptions_delete := (\<lambda>_. Pair (closed k)),
     UA_Client_MonitoredItems_createDataChanges := (\<lambda>_ _ _ _. Pair (closed k)),
     UA_Client_MonitoredItems_createEvents := (\<lambda>_ _ _ _. Pair (closed k)), UA_Client_MonitoredItems_modify := (\<lambda>_. Pair (closed k)),
     UA_Client_MonitoredItems_setMonitoringMode := (\<lambda>_. Pair (closed k)), UA_Client_MonitoredItems_delete := (\<lambda>_. Pair (closed k))\<rparr>"


text \<open>The asynchronous forms do what the synchronous ones do, over a transport that answers at once: those without contexts for
  every token, and those that make contexts for a completion handler, which runs after the contexts are stored. A deferred
  operation has made its contexts before it is started.\<close>

theorem subscription_async_agrees:
  "createMonitoredItemsDataChangeAsync (\<lambda>q as cs ds. immediate (\<lambda>_. UA_Client_MonitoredItems_createDataChanges api q as cs ds) ()) req dc del (use_handler h1)
      = op_bind (createMonitoredItemsDataChange api req dc del) h1
    \<and> createMonitoredItemsEventAsync (\<lambda>q as cs ds. immediate (\<lambda>_. UA_Client_MonitoredItems_createEvents api q as cs ds) ()) req ev del (use_handler h1)
      = op_bind (createMonitoredItemsEvent api req ev del) h1
    \<and> createMonitoredItemDataChangeAsync z (\<lambda>q as cs ds. immediate (\<lambda>_. UA_Client_MonitoredItems_createDataChanges api q as cs ds) ())
        sub item mode ps dc del (use_handler h2) = op_bind (createMonitoredItemDataChange_Client z api sub item mode ps dc del) h2
    \<and> createMonitoredItemEventAsync z (\<lambda>q as cs ds. immediate (\<lambda>_. UA_Client_MonitoredItems_createEvents api q as cs ds) ())
        sub item mode ps ev del (use_handler h2) = op_bind (createMonitoredItemEvent z api sub item mode ps ev del) h2
    \<and> createSubscriptionAsync (\<lambda>q a. immediate (\<lambda>_. UA_Client_Subscriptions_create api q a) ()) sps b sc del (use_handler h3)
      = (\<lambda>w. case createSubscription api sps b sc del w of (resp, w') \<Rightarrow> h3 resp w')
    \<and> modifyMonitoredItemAsync z (immediate (UA_Client_MonitoredItems_modify api)) sub mon ps tok1 = tok1 (after (modifyMonitoredItem z api sub mon ps))
    \<and> setMonitoringModeAsync (immediate (UA_Client_MonitoredItems_setMonitoringMode api)) sub mon mode tok2
      = tok2 (after (setMonitoringMode api sub mon mode))
    \<and> deleteMonitoredItemAsync (immediate (UA_Client_MonitoredItems_delete api)) sub mon tok2 = tok2 (after (deleteMonitoredItem_Client api sub mon))
    \<and> setPublishingModeAsync (immediate (UA_Client_Subscriptions_setPublishingMode api)) sub b tok2 = tok2 (after (setPublishingMode api sub b))
    \<and> deleteSubscriptionAsync (immediate (UA_Client_Subscriptions_delete api)) sub tok2 = tok2 (after (deleteSubscription api sub))
    \<and> modifySubscriptionAsync (immediate (UA_Client_Subscriptions_modify api)) sub sps (use_handler h4)
      = (\<lambda>w. case modifySubscription api sub sps w of (resp, w') \<Rightarrow> h4 resp w')
    \<and> setTriggeringAsync (immediate (UA_Client_MonitoredItems_setTriggering api)) treq (use_handler h5)
      = (\<lambda>w. case setTriggering api treq w of (resp, w') \<Rightarrow> h5 resp w')
    \<and> su_next (sw_subs w) \<in> su_pending (sw_subs (snd (createSubscriptionAsync send sps b sc del use_deferred w)))"
proof -
  have items: "create_items_async data (\<lambda>q as cs ds. immediate (\<lambda>_. f q as cs ds) ()) req dc ev del (use_handler h)
      = op_bind (create_items data f req dc ev del) h" for data f req dc ev del h
    by (rule ext) (auto simp: create_items_async_def create_items_def HookToken_def use_handler_def immediate_def op_bind_def with_items_def
        split: prod.splits sum.splits)
  have trans: "TransformToken f (use_handler h) = use_handler (asyncTransform h f)" for f and h :: "('r, 's) handler"
    by (rule ext) (simp add: TransformToken_def use_handler_def)
  have lift: "op_bind m (asyncTransform h f) = op_bind (op_bind m (\<lambda>r. op_lift (f r))) h" for m f h
    unfolding op_bind_assoc by (rule arg_cong[where f = "op_bind m"], rule ext) (simp add: asyncTransform_def)
  have sync: "setPublishingModeAsync (immediate (UA_Client_Subscriptions_setPublishingMode api)) sub b tok2 = tok2 (after (setPublishingMode api sub b))"
    "deleteSubscriptionAsync (immediate (UA_Client_Subscriptions_delete api)) sub tok2 = tok2 (after (deleteSubscription api sub))"
    "setMonitoringModeAsync (immediate (UA_Client_MonitoredItems_setMonitoringMode api)) sub mon mode tok2
      = tok2 (after (setMonitoringMode api sub mon mode))"
    "deleteMonitoredItemAsync (immediate (UA_Client_MonitoredItems_delete api)) sub mon tok2 = tok2 (after (deleteMonitoredItem_Client api sub mon))"
    "modifyMonitoredItemAsync z (immediate (UA_Client_MonitoredItems_modify api)) sub mon ps tok1 = tok1 (after (modifyMonitoredItem z api sub mon ps))"
    unfolding setPublishingModeAsync_def setPublishingModeAsync_request_def setPublishingMode_def setPublishingMode_request_def
      deleteSubscriptionAsync_def deleteSubscriptionsAsync_def deleteSubscription_def deleteSubscriptions_def
      setMonitoringModeAsync_def setMonitoringModeAsync_request_def setMonitoringMode_def setMonitoringMode_request_def
      deleteMonitoredItemAsync_def deleteMonitoredItemsAsync_def deleteMonitoredItem_Client_def deleteMonitoredItems_def
      modifyMonitoredItemAsync_def modifyMonitoredItemsAsync_def modifyMonitoredItem_def modifyMonitoredItems_def transform_immediate by simp_all
  show ?thesis
    by (simp add: sync createMonitoredItemsDataChangeAsync_def createMonitoredItemsEventAsync_def createMonitoredItemDataChangeAsync_def
        createMonitoredItemEventAsync_def items trans lift createMonitoredItemsDataChange_def createMonitoredItemsEvent_def
        createMonitoredItemDataChange_Client_def createMonitoredItemEvent_def)
      (auto simp: createSubscriptionAsync_def createSubscriptionAsync_request_def createSubscription_def createSubscription_request_def
        HookToken_def use_handler_def use_deferred_def immediate_def op_bind_def su_make_def Let_def fun_eq_iff modifySubscriptionAsync_def
        modifySubscriptionAsync_request_def modifySubscription_def modifySubscription_request_def setTriggeringAsync_def setTriggering_def
        split: prod.splits)
qed

end
