(* ===== verification/Utilities.thy ===== *)
theory Utilities
  imports Prelude
begin

text \<open>
  Small building blocks of the library: the transforming iterator (\<open>detail/iterator.hpp\<close>), which \<open>Variant\<close> uses to convert
  arrays on the fly, the scope guard (\<open>detail/scope.hpp\<close>), and the two styles of type converters (\<open>typeconverter.hpp\<close>).
\<close>

section \<open>Transforming iterators\<close>

text \<open>The underlying iterator is a position of a random access range; the range itself is an argument of the operations that
  read. Reading outside the range is undefined. The function may throw.\<close>

record ('a, 'b) TransformIterator =
  ti_it :: int
  ti_func :: "'a \<Rightarrow> 'b outc"

definition mkTransformIterator :: "int \<Rightarrow> ('a \<Rightarrow> 'b outc) \<Rightarrow> ('a, 'b) TransformIterator" where
  "mkTransformIterator it func = \<lparr>ti_it = it, ti_func = func\<rparr>"

definition ti_base :: "('a, 'b) TransformIterator \<Rightarrow> int" where
  "ti_base t = ti_it t"

definition read_position :: "'a list \<Rightarrow> int \<Rightarrow> 'a outc" where
  "read_position xs i = (if 0 \<le> i \<and> i < int (length xs) then Ret (xs ! nat i) else Inl Undef)"

definition ti_deref :: "'a list \<Rightarrow> ('a, 'b) TransformIterator \<Rightarrow> 'b outc" where
  "ti_deref xs t = outc_bind (read_position xs (ti_it t)) (ti_func t)"

definition ti_plus :: "('a, 'b) TransformIterator \<Rightarrow> int \<Rightarrow> ('a, 'b) TransformIterator" where
  "ti_plus t n = mkTransformIterator (ti_it t + n) (ti_func t)"

definition ti_index :: "'a list \<Rightarrow> ('a, 'b) TransformIterator \<Rightarrow> int \<Rightarrow> 'b outc" where
  "ti_index xs t n = ti_deref xs (ti_plus t n)"

text \<open>The prefix and compound forms return the changed iterator, the postfix forms the old one and the changed one.\<close>

definition ti_pre_inc :: "('a, 'b) TransformIterator \<Rightarrow> ('a, 'b) TransformIterator" where
  "ti_pre_inc t = t\<lparr>ti_it := ti_it t + 1\<rparr>"

definition ti_post_inc :: "('a, 'b) TransformIterator \<Rightarrow> ('a, 'b) TransformIterator \<times> ('a, 'b) TransformIterator" where
  "ti_post_inc t = (let temp = t in (temp, ti_pre_inc t))"

definition ti_plus_assign :: "('a, 'b) TransformIterator \<Rightarrow> int \<Rightarrow> ('a, 'b) TransformIterator" where
  "ti_plus_assign t n = t\<lparr>ti_it := ti_it t + n\<rparr>"

definition ti_pre_dec :: "('a, 'b) TransformIterator \<Rightarrow> ('a, 'b) TransformIterator" where
  "ti_pre_dec t = t\<lparr>ti_it := ti_it t - 1\<rparr>"

definition ti_post_dec :: "('a, 'b) TransformIterator \<Rightarrow> ('a, 'b) TransformIterator \<times> ('a, 'b) TransformIterator" where
  "ti_post_dec t = (let temp = t in (temp, ti_pre_dec t))"

definition ti_minus :: "('a, 'b) TransformIterator \<Rightarrow> int \<Rightarrow> ('a, 'b) TransformIterator" where
  "ti_minus t n = mkTransformIterator (ti_it t - n) (ti_func t)"

definition ti_minus_assign :: "('a, 'b) TransformIterator \<Rightarrow> int \<Rightarrow> ('a, 'b) TransformIterator" where
  "ti_minus_assign t n = t\<lparr>ti_it := ti_it t - n\<rparr>"

definition ti_eq :: "('a, 'b) TransformIterator \<Rightarrow> ('c, 'd) TransformIterator \<Rightarrow> bool" where
  "ti_eq l r = (ti_base l = ti_base r)"

definition ti_neq :: "('a, 'b) TransformIterator \<Rightarrow> ('c, 'd) TransformIterator \<Rightarrow> bool" where
  "ti_neq l r = (ti_base l \<noteq> ti_base r)"

definition ti_less :: "('a, 'b) TransformIterator \<Rightarrow> ('c, 'd) TransformIterator \<Rightarrow> bool" where
  "ti_less l r = (ti_base l < ti_base r)"

definition ti_less_eq :: "('a, 'b) TransformIterator \<Rightarrow> ('c, 'd) TransformIterator \<Rightarrow> bool" where
  "ti_less_eq l r = (ti_base l \<le> ti_base r)"

definition ti_greater :: "('a, 'b) TransformIterator \<Rightarrow> ('c, 'd) TransformIterator \<Rightarrow> bool" where
  "ti_greater l r = (ti_base l > ti_base r)"

definition ti_greater_eq :: "('a, 'b) TransformIterator \<Rightarrow> ('c, 'd) TransformIterator \<Rightarrow> bool" where
  "ti_greater_eq l r = (ti_base l \<ge> ti_base r)"

definition ti_diff :: "('a, 'b) TransformIterator \<Rightarrow> ('c, 'd) TransformIterator \<Rightarrow> int" where
  "ti_diff l r = ti_base l - ti_base r"

lemmas ti_defs = mkTransformIterator_def ti_base_def ti_plus_def ti_pre_inc_def ti_post_inc_def ti_plus_assign_def
  ti_pre_dec_def ti_post_dec_def ti_minus_def ti_minus_assign_def ti_eq_def ti_neq_def ti_less_def ti_less_eq_def
  ti_greater_def ti_greater_eq_def ti_diff_def

text \<open>The loop of the standard algorithms over a range of such iterators: compare, read, advance.\<close>

function ti_collect :: "'a list \<Rightarrow> ('a, 'b) TransformIterator \<Rightarrow> ('a, 'b) TransformIterator \<Rightarrow> 'b list outc" where
  "ti_collect xs it stop = (if ti_eq it stop then Ret []
     else if ti_it it < 0 \<or> int (length xs) \<le> ti_it it then Inl Undef
     else outc_bind (ti_deref xs it) (\<lambda>y. outc_bind (ti_collect xs (ti_pre_inc it) stop) (\<lambda>ys. Ret (y # ys))))"
  by pat_completeness auto
termination by (relation "measure (\<lambda>(xs, it, stop). nat (int (length xs) - ti_it it))") (auto simp: ti_pre_inc_def)

declare ti_collect.simps [simp del]

lemma ti_collect_range:
  assumes "j \<le> length xs" "i \<le> j"
  shows "ti_collect xs (mkTransformIterator (int i) f) (mkTransformIterator (int j) g) = mapM f (take (j - i) (drop i xs))"
  using assms
proof (induction "j - i" arbitrary: i)
  case 0
  then show ?case by (simp add: ti_collect.simps ti_defs)
next
  case (Suc n)
  then have lt: "i < j" "i < length xs" and next': "n = j - Suc i" "Suc i \<le> j" by simp_all
  have step: "ti_pre_inc (mkTransformIterator (int i) f) = mkTransformIterator (int (Suc i)) f" by (simp add: ti_defs)
  have "take (j - i) (drop i xs) = xs ! i # take (j - Suc i) (drop (Suc i) xs)"
    using lt by (metis Cons_nth_drop_Suc Suc_diff_Suc take_Suc_Cons)
  moreover have "ti_deref xs (mkTransformIterator (int i) f) = f (xs ! i)"
    using lt by (simp add: ti_deref_def read_position_def mkTransformIterator_def)
  ultimately show ?case
    using lt Suc.hyps(1)[OF next'(1) Suc.prems(1) next'(2)] step
    by (subst ti_collect.simps) (simp add: ti_eq_def ti_base_def mkTransformIterator_def)
qed

text \<open>A range of transforming iterators is the range of the function's values: a standard algorithm that runs over the
  positions from \<open>i\<close> to \<open>j\<close> applies the function to exactly these elements, in order, up to the first exception, and reads
  nothing outside the underlying range. Indexing, stepping, distances and comparisons obey the laws of random access
  iterators.\<close>

theorem transform_iterator_correct:
  assumes "i \<le> j" "j \<le> length xs"
  shows "ti_collect xs (mkTransformIterator (int i) f) (mkTransformIterator (int j) f) = mapM f (take (j - i) (drop i xs))
    \<and> (k < length xs \<longrightarrow> ti_index xs (mkTransformIterator (int i) f) (int k - int i) = f (xs ! k))
    \<and> ti_index xs t n = ti_deref xs (ti_plus_assign t n)
    \<and> ti_plus (ti_plus t m) n = ti_plus t (m + n) \<and> ti_minus t n = ti_plus t (- n) \<and> ti_minus_assign t n = ti_minus t n
    \<and> ti_post_inc t = (t, ti_plus t 1) \<and> ti_post_dec t = (t, ti_minus t 1) \<and> ti_pre_dec (ti_pre_inc t) = t
    \<and> ti_plus u (ti_diff t u) = mkTransformIterator (ti_base t) (ti_func u)
    \<and> ti_less u t = (0 < ti_diff t u) \<and> ti_greater t u = ti_less u t \<and> ti_less_eq u t = (\<not> ti_less t u)
    \<and> ti_greater_eq t u = ti_less_eq u t \<and> ti_eq t u = (ti_diff t u = 0) \<and> ti_neq t u = (\<not> ti_eq t u)"
  using assms ti_collect_range[OF assms(2,1), of f f, unfolded mkTransformIterator_def] by (cases t; cases u)
    (auto simp: ti_index_def ti_deref_def read_position_def ti_defs Let_def)

definition square_small :: "nat \<Rightarrow> nat outc" where
  "square_small n = (if n < 10 then Ret (n * n) else throw (StdException ''too large''))"

theorem transform_iterator_correct_witness:
  "ti_collect [1, 2, 3, 40] (mkTransformIterator 1 square_small) (mkTransformIterator 3 square_small) = Ret [4, 9]"
proof -
  have "ti_collect [1, 2, 3, 40] (mkTransformIterator (int 1) square_small) (mkTransformIterator (int 3) square_small)
    = mapM square_small (take (3 - 1) (drop 1 [1, 2, 3, 40]))"
    by (rule conjunct1[OF transform_iterator_correct]) simp_all
  then show ?thesis by (simp add: square_small_def)
qed

text \<open>Between other positions the loop runs out of the range.\<close>

lemma ti_collect_outside:
  "length xs < j \<Longrightarrow> ti_collect xs (mkTransformIterator (int (length xs)) f) (mkTransformIterator (int j) f) = Inl Undef"
  by (simp add: ti_collect.simps ti_defs)

section \<open>Scope guards\<close>

record 's ScopeExit =
  se_fn :: "('s, unit) op"
  se_active :: bool

record 's scope_world =
  sw_state :: 's
  sw_guards :: "nat \<Rightarrow> 's ScopeExit option"

definition with_guard :: "nat \<Rightarrow> ('s ScopeExit \<Rightarrow> ('s scope_world, unit) op) \<Rightarrow> ('s scope_world, unit) op" where
  "with_guard a f w = (case sw_guards w a of None \<Rightarrow> (Inl Undef, w) | Some g \<Rightarrow> f g w)"

definition scope_put :: "nat \<Rightarrow> 's ScopeExit option \<Rightarrow> 's scope_world \<Rightarrow> 's scope_world" where
  "scope_put a g w = w\<lparr>sw_guards := (sw_guards w)(a := g)\<rparr>"

definition scope_construct :: "nat \<Rightarrow> ('s, unit) op \<Rightarrow> ('s scope_world, unit) op" where
  "scope_construct a fn w = (Ret (), scope_put a (Some \<lparr>se_fn = fn, se_active = True\<rparr>) w)"

definition scope_release :: "nat \<Rightarrow> ('s scope_world, unit) op" where
  "scope_release a = with_guard a (\<lambda>g w. (Ret (), scope_put a (Some (g\<lparr>se_active := False\<rparr>)) w))"

text \<open>The move constructor takes function and flag and releases the source; what it leaves in the source's function does not matter.\<close>

definition scope_move :: "nat \<Rightarrow> nat \<Rightarrow> ('s scope_world, unit) op" where
  "scope_move a b = with_guard b (\<lambda>other w. scope_release b (scope_put a (Some \<lparr>se_fn = se_fn other, se_active = se_active other\<rparr>) w))"

definition scope_destroy :: "nat \<Rightarrow> ('s scope_world, unit) op" where
  "scope_destroy a = with_guard a (\<lambda>g w. case (if se_active g then se_fn g (sw_state w) else (Ret (), sw_state w)) of
     (r, s) \<Rightarrow> (r, scope_put a None (w\<lparr>sw_state := s\<rparr>)))"

text \<open>Blocks: a guard is constructed, possibly moved along other places, possibly released; then everything is destroyed in
  reverse order, as at the end of a scope. The function runs exactly once, on the state at the end, unless it was released.\<close>

fun scope_moves :: "nat \<Rightarrow> nat \<Rightarrow> ('s scope_world, unit) op" where
  "scope_moves a 0 = op_ret ()"
| "scope_moves a (Suc n) = op_bind (scope_move (Suc a) a) (\<lambda>_. scope_moves (Suc a) n)"

fun scope_unwind :: "nat \<Rightarrow> nat \<Rightarrow> ('s scope_world, unit) op" where
  "scope_unwind a 0 = scope_destroy a"
| "scope_unwind a (Suc n) = op_bind (scope_unwind (Suc a) n) (\<lambda>_. scope_destroy a)"

definition chain :: "nat \<Rightarrow> nat \<Rightarrow> 's ScopeExit \<Rightarrow> 's scope_world \<Rightarrow> bool" where
  "chain a n g w = (sw_guards w (a + n) = Some g \<and> (\<forall>k < n. \<exists>h. sw_guards w (a + k) = Some h \<and> \<not> se_active h))"

lemma scope_moves_chain:
  "sw_guards w a = Some g \<Longrightarrow> \<exists>w'. scope_moves a n w = (Ret (), w') \<and> chain a n g w' \<and> sw_state w' = sw_state w
    \<and> (\<forall>k < a. sw_guards w' k = sw_guards w k)"
proof (induction n arbitrary: a w)
  case 0
  then show ?case by (simp add: op_ret_def chain_def)
next
  case (Suc n)
  let ?w = "scope_put a (Some (g\<lparr>se_active := False\<rparr>)) (scope_put (Suc a) (Some \<lparr>se_fn = se_fn g, se_active = se_active g\<rparr>) w)"
  have run: "scope_move (Suc a) a w = (Ret (), ?w)" and g: "sw_guards ?w (Suc a) = Some g" and s: "sw_state ?w = sw_state w"
    and old: "\<exists>h. sw_guards ?w a = Some h \<and> \<not> se_active h" and rest: "\<forall>k < a. sw_guards ?w k = sw_guards w k"
    using Suc.prems by (simp_all add: scope_move_def scope_release_def with_guard_def scope_put_def)
  obtain w' where w': "scope_moves (Suc a) n ?w = (Ret (), w')" "chain (Suc a) n g w'" "sw_state w' = sw_state ?w"
    "\<forall>k < Suc a. sw_guards w' k = sw_guards ?w k" using Suc.IH[OF g] by blast
  have "chain a (Suc n) g w'" unfolding chain_def
  proof (intro conjI allI impI)
    show "sw_guards w' (a + Suc n) = Some g" using w'(2) by (simp add: chain_def)
    fix k assume "k < Suc n"
    then show "\<exists>h. sw_guards w' (a + k) = Some h \<and> \<not> se_active h"
      using w'(2,4) old by (cases k) (auto simp: chain_def)
  qed
  then show ?case using w' run s rest by (simp add: op_bind_def)
qed

lemma scope_unwind_chain:
  "chain a n g w \<Longrightarrow> (if se_active g then se_fn g (sw_state w) else (Ret (), sw_state w)) = (Ret (), s) \<Longrightarrow>
    \<exists>w'. scope_unwind a n w = (Ret (), w') \<and> sw_state w' = s \<and> (\<forall>k < a. sw_guards w' k = sw_guards w k)"
proof (induction n arbitrary: a)
  case 0
  then show ?case by (auto simp: chain_def scope_destroy_def with_guard_def scope_put_def)
next
  case (Suc n)
  have guards: "\<exists>h. sw_guards w (a + k) = Some h \<and> \<not> se_active h" if "k < Suc n" for k
    using Suc.prems(1) that by (simp add: chain_def)
  have "chain (Suc a) n g w" using Suc.prems(1) guards[of "Suc k" for k] by (auto simp: chain_def)
  moreover have old: "\<exists>h. sw_guards w a = Some h \<and> \<not> se_active h" using guards[of 0] by simp
  ultimately obtain w' where "scope_unwind (Suc a) n w = (Ret (), w')" "sw_state w' = s" "\<forall>k < Suc a. sw_guards w' k = sw_guards w k"
    using Suc.IH Suc.prems(2) by blast
  then show ?case using old by (auto simp: op_bind_def scope_destroy_def with_guard_def scope_put_def)
qed

lemma scope_guard_once:
  assumes "\<And>s. \<exists>s'. fn s = (Ret (), s')"
  shows "\<exists>w'. op_bind (scope_construct a fn) (\<lambda>_. op_bind (scope_moves a n) (\<lambda>_. scope_unwind a n)) w = (Ret (), w')
      \<and> sw_state w' = snd (fn (sw_state w))"
    and "\<exists>w'. op_bind (scope_construct a fn) (\<lambda>_. op_bind (scope_moves a n) (\<lambda>_. op_bind (scope_release (a + n)) (\<lambda>_. scope_unwind a n))) w = (Ret (), w')
      \<and> sw_state w' = sw_state w"
proof -
  let ?g = "\<lparr>se_fn = fn, se_active = True\<rparr>"
  let ?w = "scope_put a (Some ?g) w"
  have c: "scope_construct a fn w = (Ret (), ?w)" by (simp add: scope_construct_def)
  have "sw_guards ?w a = Some ?g" by (simp add: scope_put_def)
  from scope_moves_chain[OF this, of n] obtain v where v: "scope_moves a n ?w = (Ret (), v)" "chain a n ?g v" "sw_state v = sw_state w"
    by (auto simp: scope_put_def)
  obtain s' where s': "fn (sw_state w) = (Ret (), s')" using assms by blast
  obtain w' where "scope_unwind a n v = (Ret (), w')" "sw_state w' = s'"
    using scope_unwind_chain[OF v(2), of s'] s' v(3) by auto
  then show "\<exists>w'. op_bind (scope_construct a fn) (\<lambda>_. op_bind (scope_moves a n) (\<lambda>_. scope_unwind a n)) w = (Ret (), w')
      \<and> sw_state w' = snd (fn (sw_state w))" using c v(1) s' by (simp add: op_bind_def)
  let ?v = "scope_put (a + n) (Some (?g\<lparr>se_active := False\<rparr>)) v"
  have r: "scope_release (a + n) v = (Ret (), ?v)" "chain a n (?g\<lparr>se_active := False\<rparr>) ?v" "sw_state ?v = sw_state w"
    using v(2,3) by (auto simp: scope_release_def with_guard_def scope_put_def chain_def)
  from scope_unwind_chain[OF r(2), of "sw_state w"] r(3) obtain w'' where "scope_unwind a n ?v = (Ret (), w'')" "sw_state w'' = sw_state w"
    by auto
  then show "\<exists>w'. op_bind (scope_construct a fn) (\<lambda>_. op_bind (scope_moves a n) (\<lambda>_. op_bind (scope_release (a + n)) (\<lambda>_. scope_unwind a n))) w = (Ret (), w')
      \<and> sw_state w' = sw_state w" using c v(1) r(1) by (simp add: op_bind_def)
qed

section \<open>Type converters\<close>

text \<open>A converter function either returns the result, or assigns it to a default-constructed object.\<close>

datatype ('a, 'b) converter = Returning "'a \<Rightarrow> 'b outc" | Assigning "'a \<Rightarrow> ('b, unit) op"

definition convert_with :: "('a, 'b) converter \<Rightarrow> 'b \<Rightarrow> 'a \<Rightarrow> 'b outc" where
  "convert_with conv zero src = (case conv of
      Returning f \<Rightarrow> f src
    | Assigning f \<Rightarrow> (case f src zero of (r, dst) \<Rightarrow> outc_map (\<lambda>_. dst) r))"

definition detail_fromNative :: "('n, 't) converter \<Rightarrow> 't \<Rightarrow> 'n \<Rightarrow> 't outc" where
  "detail_fromNative conv zero src = convert_with conv zero src"

definition detail_toNative :: "('t, 'n) converter \<Rightarrow> 'n \<Rightarrow> 't \<Rightarrow> 'n outc" where
  "detail_toNative conv zero src = convert_with conv zero src"

text \<open>The two styles are interchangeable: an assigning converter that overwrites its target behaves as the returning one.\<close>

lemma converter_styles_agree:
  assumes "\<And>x d. (case f x of Inl e \<Rightarrow> fst (g x d) = Inl e | Inr y \<Rightarrow> g x d = (Ret (), y))"
  shows "detail_fromNative (Assigning g) d x = detail_fromNative (Returning f) d' x" "detail_toNative (Assigning g) d x = detail_toNative (Returning f) d' x"
  using assms[of x d] by (auto simp: detail_fromNative_def detail_toNative_def convert_with_def split: sum.splits prod.splits)

end
