(* ===== verification/Text_Forms.thy ===== *)
theory Text_Forms
  imports Builtin_Types
begin

text \<open>
  Comparison and text forms of the built-in types (\<open>types.hpp\<close>, \<open>types.cpp\<close>): the operators over \<open>UA_order\<close>, \<open>toString\<close> and the
  \<open>parse\<close> functions, Base64, and the formatting of time stamps. The order, printing and parsing functions of the C
  library are arguments.
\<close>

section \<open>Comparison operators\<close>

text \<open>The enumerators of \<open>UA_Order\<close> as numbers, and the operators for registered types.\<close>

definition order_code :: "UA_Order \<Rightarrow> int" where
  "order_code r = (case r of UA_ORDER_LESS \<Rightarrow> - 1 | UA_ORDER_EQ \<Rightarrow> 0 | UA_ORDER_MORE \<Rightarrow> 1)"

definition op_eq :: "('n \<Rightarrow> 'n \<Rightarrow> UA_Order) \<Rightarrow> 'n \<Rightarrow> 'n \<Rightarrow> bool" where
  "op_eq cmp a b = (cmp a b = UA_ORDER_EQ)"

definition op_neq :: "('n \<Rightarrow> 'n \<Rightarrow> UA_Order) \<Rightarrow> 'n \<Rightarrow> 'n \<Rightarrow> bool" where
  "op_neq cmp a b = (cmp a b \<noteq> UA_ORDER_EQ)"

definition op_lt :: "('n \<Rightarrow> 'n \<Rightarrow> UA_Order) \<Rightarrow> 'n \<Rightarrow> 'n \<Rightarrow> bool" where
  "op_lt cmp a b = (cmp a b = UA_ORDER_LESS)"

definition op_le :: "('n \<Rightarrow> 'n \<Rightarrow> UA_Order) \<Rightarrow> 'n \<Rightarrow> 'n \<Rightarrow> bool" where
  "op_le cmp a b = (order_code (cmp a b) \<le> order_code UA_ORDER_EQ)"

definition op_gt :: "('n \<Rightarrow> 'n \<Rightarrow> UA_Order) \<Rightarrow> 'n \<Rightarrow> 'n \<Rightarrow> bool" where
  "op_gt cmp a b = (cmp a b = UA_ORDER_MORE)"

definition op_ge :: "('n \<Rightarrow> 'n \<Rightarrow> UA_Order) \<Rightarrow> 'n \<Rightarrow> 'n \<Rightarrow> bool" where
  "op_ge cmp a b = (order_code (cmp a b) \<ge> order_code UA_ORDER_EQ)"

text \<open>The equality operators of \<open>Guid\<close>, \<open>NodeId\<close> and \<open>ExpandedNodeId\<close> use the equality function of their type.\<close>

definition id_eq :: "('n \<Rightarrow> 'n \<Rightarrow> bool) \<Rightarrow> 'n \<Rightarrow> 'n \<Rightarrow> bool" where
  "id_eq ua_equal a b = ua_equal a b"

definition id_neq :: "('n \<Rightarrow> 'n \<Rightarrow> bool) \<Rightarrow> 'n \<Rightarrow> 'n \<Rightarrow> bool" where
  "id_neq ua_equal a b = (\<not> id_eq ua_equal a b)"

text \<open>Guids have only the equality operators; expanded node ids have all.\<close>

definition Guid_eq :: "(Guid \<Rightarrow> Guid \<Rightarrow> bool) \<Rightarrow> Guid \<Rightarrow> Guid \<Rightarrow> bool" where
  "Guid_eq ua_equal a b = ua_equal a b"

definition Guid_neq :: "(Guid \<Rightarrow> Guid \<Rightarrow> bool) \<Rightarrow> Guid \<Rightarrow> Guid \<Rightarrow> bool" where
  "Guid_neq ua_equal a b = (\<not> Guid_eq ua_equal a b)"

definition xid_eq :: "('x \<Rightarrow> 'x \<Rightarrow> bool) \<Rightarrow> 'x \<Rightarrow> 'x \<Rightarrow> bool" where
  "xid_eq ua_equal a b = ua_equal a b"

definition xid_neq :: "('x \<Rightarrow> 'x \<Rightarrow> bool) \<Rightarrow> 'x \<Rightarrow> 'x \<Rightarrow> bool" where
  "xid_neq ua_equal a b = (\<not> xid_eq ua_equal a b)"

definition xid_lt :: "('x \<Rightarrow> 'x \<Rightarrow> UA_Order) \<Rightarrow> 'x \<Rightarrow> 'x \<Rightarrow> bool" where
  "xid_lt cmp a b = (cmp a b = UA_ORDER_LESS)"

definition xid_gt :: "('x \<Rightarrow> 'x \<Rightarrow> UA_Order) \<Rightarrow> 'x \<Rightarrow> 'x \<Rightarrow> bool" where
  "xid_gt cmp a b = (cmp a b = UA_ORDER_MORE)"

definition xid_le :: "('x \<Rightarrow> 'x \<Rightarrow> UA_Order) \<Rightarrow> ('x \<Rightarrow> 'x \<Rightarrow> bool) \<Rightarrow> 'x \<Rightarrow> 'x \<Rightarrow> bool" where
  "xid_le cmp ua_equal a b = (xid_lt cmp a b \<or> xid_eq ua_equal a b)"

definition xid_ge :: "('x \<Rightarrow> 'x \<Rightarrow> UA_Order) \<Rightarrow> ('x \<Rightarrow> 'x \<Rightarrow> bool) \<Rightarrow> 'x \<Rightarrow> 'x \<Rightarrow> bool" where
  "xid_ge cmp ua_equal a b = (xid_gt cmp a b \<or> xid_eq ua_equal a b)"

lemma xid_ops:
  "xid_eq = id_eq" "xid_neq = id_neq" "xid_lt = id_lt" "xid_gt = id_gt" "xid_le = id_le" "xid_ge = id_ge"
  by (intro ext, simp add: xid_eq_def id_eq_def xid_neq_def id_neq_def xid_lt_def id_lt_def xid_gt_def id_gt_def xid_le_def id_le_def
      xid_ge_def id_ge_def)+

text \<open>What the C library documents: its order function is a total order that agrees with its equality.\<close>

definition ua_total_order :: "('n \<Rightarrow> 'n \<Rightarrow> UA_Order) \<Rightarrow> ('n \<Rightarrow> 'n \<Rightarrow> bool) \<Rightarrow> bool" where
  "ua_total_order cmp ua_equal = (
     (\<forall>a b. cmp a b = UA_ORDER_MORE \<longleftrightarrow> cmp b a = UA_ORDER_LESS)
   \<and> (\<forall>a b. cmp a b = UA_ORDER_EQ \<longleftrightarrow> ua_equal a b)
   \<and> (\<forall>a b c. cmp a b \<noteq> UA_ORDER_MORE \<longrightarrow> cmp b c \<noteq> UA_ORDER_MORE \<longrightarrow> cmp a c \<noteq> UA_ORDER_MORE))"

lemma op_le_iff: "op_le cmp a b \<longleftrightarrow> cmp a b \<noteq> UA_ORDER_MORE" "op_ge cmp a b \<longleftrightarrow> cmp a b \<noteq> UA_ORDER_LESS"
  by (cases "cmp a b"; simp add: op_le_def op_ge_def order_code_def)+

lemma ua_orderD:
  assumes "ua_total_order cmp ua_equal"
  shows "cmp a b = UA_ORDER_MORE \<longleftrightarrow> cmp b a = UA_ORDER_LESS" "cmp a b = UA_ORDER_EQ \<longleftrightarrow> ua_equal a b"
    "cmp a b \<noteq> UA_ORDER_MORE \<Longrightarrow> cmp b c \<noteq> UA_ORDER_MORE \<Longrightarrow> cmp a c \<noteq> UA_ORDER_MORE"
  using assms unfolding ua_total_order_def by blast+

lemma ua_order_eq_sym:
  assumes "ua_total_order cmp ua_equal"
  shows "cmp a b = UA_ORDER_EQ \<longleftrightarrow> cmp b a = UA_ORDER_EQ"
  using ua_orderD(1)[OF assms, of a b] ua_orderD(1)[OF assms, of b a] by (cases "cmp a b"; cases "cmp b a") simp_all

text \<open>Comparison is a linear order: given a total order of the C library, the generic operators and those of node ids and
  expanded node ids agree with each other, \<open><=\<close> is reflexive, transitive, total and antisymmetric up to \<open>==\<close>, \<open><\<close> is its strict part, and the
  remaining operators are the converses and negations.\<close>

theorem comparisons_linear:
  assumes "ua_total_order cmp ua_equal"
  shows "op_le cmp a a \<and> (op_le cmp a b \<and> op_le cmp b c \<longrightarrow> op_le cmp a c) \<and> (op_le cmp a b \<or> op_le cmp b a)
    \<and> (op_le cmp a b \<and> op_le cmp b a) = op_eq cmp a b
    \<and> op_lt cmp a b = (op_le cmp a b \<and> op_neq cmp a b) \<and> op_lt cmp a b = (\<not> op_le cmp b a)
    \<and> op_gt cmp a b = op_lt cmp b a \<and> op_ge cmp a b = op_le cmp b a \<and> op_neq cmp a b = (\<not> op_eq cmp a b)
    \<and> id_eq ua_equal a b = op_eq cmp a b \<and> id_neq ua_equal a b = op_neq cmp a b
    \<and> id_lt cmp a b = op_lt cmp a b \<and> id_gt cmp a b = op_gt cmp a b
    \<and> id_le cmp ua_equal a b = op_le cmp a b \<and> id_ge cmp ua_equal a b = op_ge cmp a b
    \<and> xid_eq ua_equal a b = op_eq cmp a b \<and> xid_neq ua_equal a b = op_neq cmp a b
    \<and> xid_lt cmp a b = op_lt cmp a b \<and> xid_gt cmp a b = op_gt cmp a b
    \<and> xid_le cmp ua_equal a b = op_le cmp a b \<and> xid_ge cmp ua_equal a b = op_ge cmp a b"
proof -
  note D = ua_orderD[OF assms]
  have flip: "cmp a b = UA_ORDER_LESS \<longleftrightarrow> cmp b a = UA_ORDER_MORE" for a b using D(1) by simp
  have neq: "(cmp a b \<noteq> UA_ORDER_MORE) = (cmp a b = UA_ORDER_LESS \<or> cmp a b = UA_ORDER_EQ)" for a b by (cases "cmp a b") simp_all
  have neq': "(cmp a b \<noteq> UA_ORDER_LESS) = (cmp a b = UA_ORDER_MORE \<or> cmp a b = UA_ORDER_EQ)" for a b by (cases "cmp a b") simp_all
  have sym: "cmp a b = UA_ORDER_EQ \<longleftrightarrow> cmp b a = UA_ORDER_EQ" for a b by (rule ua_order_eq_sym[OF assms])
  have refl: "cmp a a = UA_ORDER_EQ" using D(1)[of a a] by (cases "cmp a a") simp_all
  have trans: "op_le cmp a b \<and> op_le cmp b c \<longrightarrow> op_le cmp a c" using D(3)[of a b c] by (simp add: op_le_iff)
  have "op_le cmp a a" using refl by (simp add: op_le_iff)
  moreover note trans
  moreover have "op_le cmp a b \<or> op_le cmp b a" using flip[of b a] by (auto simp: op_le_iff)
  moreover have "(op_le cmp a b \<and> op_le cmp b a) = op_eq cmp a b"
    using flip[of a b] flip[of b a] sym[of a b] by (cases "cmp a b") (simp_all add: op_le_iff op_eq_def)
  moreover have "op_lt cmp a b = (op_le cmp a b \<and> op_neq cmp a b)" by (cases "cmp a b") (simp_all add: op_lt_def op_le_iff op_neq_def)
  moreover have "op_lt cmp a b = (\<not> op_le cmp b a)" using flip[of a b] by (simp add: op_lt_def op_le_iff)
  moreover have "op_gt cmp a b = op_lt cmp b a" using D(1) by (simp add: op_gt_def op_lt_def)
  moreover have "op_ge cmp a b = op_le cmp b a" using flip[of a b] by (simp add: op_le_iff)
  moreover have "id_le cmp ua_equal a b = op_le cmp a b" by (simp only: id_le_def id_lt_def op_le_iff neq D(2)[symmetric])
  moreover have "id_ge cmp ua_equal a b = op_ge cmp a b" by (simp only: id_ge_def id_gt_def op_le_iff neq' D(2)[symmetric])
  ultimately show ?thesis
    unfolding xid_ops by (simp add: op_neq_def op_eq_def id_eq_def id_neq_def id_lt_def id_gt_def op_lt_def op_gt_def D(2))
qed

definition nat_order :: "nat \<Rightarrow> nat \<Rightarrow> UA_Order" where
  "nat_order a b = (if a < b then UA_ORDER_LESS else if a = b then UA_ORDER_EQ else UA_ORDER_MORE)"

lemma nat_order_total: "ua_total_order nat_order (=)"
  by (auto simp: ua_total_order_def nat_order_def split: if_splits)

theorem comparisons_linear_witness:
  "op_ge nat_order 7 3 = op_le nat_order 3 7 \<and> id_lt nat_order 3 7 = op_lt nat_order 3 7"
  using comparisons_linear[OF nat_order_total, of 7 3 0] comparisons_linear[OF nat_order_total, of 3 7 0] by blast

section \<open>Printing and parsing\<close>

text \<open>\<open>toString\<close> prints through the C library where that is supported (\<open>has_tostring\<close>), \<open>parse\<close> lets it fill a zero-initialized object.
  What has been written when the status is bad is destroyed with the local object.\<close>

definition toString_with :: "bool \<Rightarrow> ('a \<Rightarrow> mem \<Rightarrow> (u32 \<times> native_string) \<times> mem) \<Rightarrow> 'a \<Rightarrow> (mem, native_string) op" where
  "toString_with has_tostring ua_print x m = (if \<not> has_tostring then (Ret NullString, m)
     else (case ua_print x m of ((status, out), m') \<Rightarrow>
       (case throwIfBad status of
          Inl e \<Rightarrow> (Inl e, free_blocks (own_string out) m')
        | Inr _ \<Rightarrow> (Ret out, m'))))"

definition toString_registered :: "bool \<Rightarrow> ('t \<Rightarrow> 'a \<Rightarrow> mem \<Rightarrow> (u32 \<times> native_string) \<times> mem) \<Rightarrow> 't \<Rightarrow> 'a \<Rightarrow> (mem, native_string) op" where
  "toString_registered has_tostring ua_print ty x = toString_with has_tostring (ua_print ty) x"

definition parse_with :: "('a \<Rightarrow> int) \<Rightarrow> (native_string \<Rightarrow> mem \<Rightarrow> (u32 \<times> 'a) \<times> mem) \<Rightarrow> view \<Rightarrow> (mem, 'a) op" where
  "parse_with own ua_parse str m = (case ua_parse (toNativeString str) m of ((status, x), m') \<Rightarrow>
     (case throwIfBad status of
        Inl e \<Rightarrow> (Inl e, free_blocks (own x) m')
      | Inr _ \<Rightarrow> (Ret x, m')))"

definition Guid_parse :: "(native_string \<Rightarrow> mem \<Rightarrow> (u32 \<times> Guid) \<times> mem) \<Rightarrow> view \<Rightarrow> (mem, Guid) op" where
  "Guid_parse ua_parse str = parse_with (\<lambda>_. 0) ua_parse str"

definition NodeId_parse :: "(native_string \<Rightarrow> mem \<Rightarrow> (u32 \<times> NodeId) \<times> mem) \<Rightarrow> view \<Rightarrow> (mem, NodeId) op" where
  "NodeId_parse ua_parse str = parse_with own_NodeId ua_parse str"

definition ExpandedNodeId_parse :: "(native_string \<Rightarrow> mem \<Rightarrow> (u32 \<times> ExpandedNodeId) \<times> mem) \<Rightarrow> view \<Rightarrow> (mem, ExpandedNodeId) op" where
  "ExpandedNodeId_parse ua_parse str = parse_with own_ExpandedNodeId ua_parse str"

text \<open>The deprecated member functions.\<close>

definition Guid_toString :: "bool \<Rightarrow> (Guid \<Rightarrow> mem \<Rightarrow> (u32 \<times> native_string) \<times> mem) \<Rightarrow> Guid \<Rightarrow> (mem, native_string) op" where
  "Guid_toString has_tostring ua_print x = toString_with has_tostring ua_print x"

definition NodeId_toString :: "bool \<Rightarrow> (NodeId \<Rightarrow> mem \<Rightarrow> (u32 \<times> native_string) \<times> mem) \<Rightarrow> NodeId \<Rightarrow> (mem, native_string) op" where
  "NodeId_toString has_tostring ua_print x = toString_with has_tostring ua_print x"

definition ExpandedNodeId_toString :: "bool \<Rightarrow> (ExpandedNodeId \<Rightarrow> mem \<Rightarrow> (u32 \<times> native_string) \<times> mem) \<Rightarrow> ExpandedNodeId \<Rightarrow> (mem, native_string) op" where
  "ExpandedNodeId_toString has_tostring ua_print x = toString_with has_tostring ua_print x"

text \<open>Base64: neither direction looks at the status of the C library; \<open>fromBase64\<close> copies the text into a temporary string. Before
  version 1.1 it returns an empty byte string.\<close>

definition fromBase64 :: "bool \<Rightarrow> (native_string \<Rightarrow> mem \<Rightarrow> (u32 \<times> native_string) \<times> mem) \<Rightarrow> view \<Rightarrow> (mem, native_string) op" where
  "fromBase64 ge11 ua_fromBase64 encoded m = (if \<not> ge11 then (Ret NullString, m)
     else (case String_of_view encoded m of
        (Inl e, m1) \<Rightarrow> (Inl e, m1)
      | (Inr s, m1) \<Rightarrow> (case ua_fromBase64 s m1 of ((status, out), m2) \<Rightarrow> (Ret out, free_blocks (own_string s) m2))))"

definition toBase64 :: "(native_string \<Rightarrow> mem \<Rightarrow> (u32 \<times> native_string) \<times> mem) \<Rightarrow> native_string \<Rightarrow> (mem, native_string) op" where
  "toBase64 ua_toBase64 b m = (case ua_toBase64 b m of ((status, out), m') \<Rightarrow> (Ret out, m'))"

text \<open>\<open>DateTime::format\<close>: the calendar functions may fail with a null pointer; then the text is empty.\<close>

definition DateTime_format ::
  "(int \<Rightarrow> 'tm option) \<Rightarrow> (int \<Rightarrow> 'tm option) \<Rightarrow> ('tm \<Rightarrow> string \<Rightarrow> string) \<Rightarrow> int \<Rightarrow> string \<Rightarrow> bool \<Rightarrow> (mem, native_string) op" where
  "DateTime_format gmtime localtime put_time dt fmt local m = (case toUnixTime dt of
      Inl e \<Rightarrow> (Inl e, m)
    | Inr unixTime \<Rightarrow> String_of_view (Some (case (if local then localtime unixTime else gmtime unixTime) of
          None \<Rightarrow> []
        | Some timeinfo \<Rightarrow> put_time timeinfo (takeWhile (\<lambda>c. c \<noteq> CHR 0x00) fmt))) m)"

text \<open>What the C library documents: printing yields the text of the value, parsing that text the value; both account for what they
  allocate, also when they fail. Base64 is an encoding.\<close>

definition text_library ::
  "('a \<Rightarrow> int) \<Rightarrow> ('a \<Rightarrow> string) \<Rightarrow> ('a \<Rightarrow> mem \<Rightarrow> (u32 \<times> native_string) \<times> mem) \<Rightarrow> (native_string \<Rightarrow> mem \<Rightarrow> (u32 \<times> 'a) \<times> mem) \<Rightarrow> bool" where
  "text_library own txt ua_print ua_parse = (
     (\<forall>x m. txt x \<noteq> [] \<and> (case ua_print x m of ((status, s), m') \<Rightarrow>
        live m' = live m + own_string s \<and> (isBad status \<or> s = Str (txt x))))
   \<and> (\<forall>s m. case ua_parse s m of ((status, x), m') \<Rightarrow>
        live m' = live m + own x \<and> (isBad status \<or> (\<forall>y. s = Str (txt y) \<longrightarrow> x = y))))"

lemma text_libraryD:
  assumes "text_library own txt ua_print ua_parse"
  shows "txt x \<noteq> []" "ua_print x m = ((status, s), m') \<Longrightarrow> live m' = live m + own_string s \<and> (isBad status \<or> s = Str (txt x))"
    "ua_parse s m = ((status', y), m') \<Longrightarrow> live m' = live m + own y \<and> (isBad status' \<or> (\<forall>z. s = Str (txt z) \<longrightarrow> y = z))"
  using assms unfolding text_library_def by (auto split: prod.splits)

lemma throwIfBad_cases:
  obtains (bad) e where "isBad c" "throwIfBad c = Inl e" "\<exists>c. isBad c \<and> throwIfBad c = Inl e" | (good) "\<not> isBad c" "throwIfBad c = Ret ()"
proof (cases "throwIfBad c")
  case (Inl e)
  then have "isBad c" by (auto simp: throwIfBad_def split: if_splits)
  with Inl show ?thesis by (intro bad) blast+
next
  case (Inr u)
  then show ?thesis by (intro good) (auto simp: throwIfBad_def split: if_splits)
qed

lemma live_free_blocks [simp]: "live (free_blocks n m) = live m - n"
  by (simp add: free_blocks_def)


definition unary_txt :: "nat \<Rightarrow> string" where
  "unary_txt n = replicate (Suc n) (CHR ''i'')"

definition unary_print :: "nat \<Rightarrow> mem \<Rightarrow> (u32 \<times> native_string) \<times> mem" where
  "unary_print n m = (case alloc_block BadAlloc m of
      (Inl _, m') \<Rightarrow> ((UA_STATUSCODE_BADOUTOFMEMORY, NullString), m')
    | (Inr _, m') \<Rightarrow> ((UA_STATUSCODE_GOOD, Str (unary_txt n)), m'))"

definition unary_parse :: "native_string \<Rightarrow> mem \<Rightarrow> (u32 \<times> nat) \<times> mem" where
  "unary_parse s m = (case s of
      NullString \<Rightarrow> ((UA_STATUSCODE_BADINTERNALERROR, 0), m)
    | Str t \<Rightarrow> if t \<noteq> [] \<and> list_all (\<lambda>c. c = CHR ''i'') t then ((UA_STATUSCODE_GOOD, length t - 1), m)
               else ((UA_STATUSCODE_BADINTERNALERROR, 0), m))"

lemma unary_library: "text_library (\<lambda>_. 0) unary_txt unary_print unary_parse"
  unfolding text_library_def
proof (intro conjI allI)
  show "unary_txt x \<noteq> []" for x by (simp add: unary_txt_def)
  show "case unary_print x m of ((status, s), m') \<Rightarrow> live m' = live m + own_string s \<and> (isBad status \<or> s = Str (unary_txt x))" for x m
    by (simp add: unary_print_def alloc_block_def own_string_def unary_txt_def isBad_def status_codes)
  show "case unary_parse s m of ((status, x), m') \<Rightarrow> live m' = live m + 0 \<and> (isBad status \<or> (\<forall>y. s = Str (unary_txt y) \<longrightarrow> x = y))" for s m
    by (auto simp: unary_parse_def unary_txt_def isBad_def status_codes split: native_string.splits)
qed


text \<open>Base64: the round trip, and what an invalid text becomes: whatever the C library left in the output, without an exception.\<close>

lemma base64_roundtrip:
  assumes "\<And>b m. case to64 b m of ((status, s), m') \<Rightarrow> s = Str (enc b) \<and> enc b \<noteq> [] \<and> live m' = live m + 1"
    and "\<And>b m. case from64 (Str (enc b)) m of ((status, out), m') \<Rightarrow> out = b \<and> live m' = live m + own_string b"
    and "toBase64 to64 b m = (Ret s, m1)" "fromBase64 True from64 (view_of_String s) m1 = (Ret out, m2)"
  shows "out = b \<and> live m2 = live m + 1 + own_string b"
proof -
  obtain st m' where t: "to64 b m = ((st, Str (enc b)), m')" "enc b \<noteq> []" "live m' = live m + 1"
    using assms(1)[of b m] by (auto split: prod.splits)
  then have s: "s = Str (enc b)" "m1 = m'" using assms(3) by (auto simp: toBase64_def)
  obtain n where a: "String_of_view (view_of_String s) m1 = (Ret s, n)" "live n = live m1 + 1"
    using assms(4) t(2) s by (auto simp: fromBase64_def String_of_view_def allocNativeString_def view_of_String_def str_data_def str_size_def
        op_bind_def op_ret_def alloc_block_def split: if_splits)
  obtain st' n' where f: "from64 (Str (enc b)) n = ((st', b), n')" "live n' = live n + own_string b"
    using assms(2)[of b n] by (auto split: prod.splits)
  show ?thesis using assms(4) a f t s by (auto simp: fromBase64_def own_string_def)
qed

lemma base64_invalid_is_silent:
  assumes "from64 (Str t) m = ((status, NullString), m)" "t \<noteq> []" "0 < budget m'" "m = m'\<lparr>budget := budget m' - 1, live := live m' + 1\<rparr>"
  shows "fst (fromBase64 True from64 (Some t) m') = Ret NullString"
  using assms by (simp add: fromBase64_def String_of_view_def allocNativeString_def op_bind_def op_ret_def alloc_block_def)

text \<open>A time that the calendar cannot represent formats as the empty string.\<close>

lemma format_out_of_calendar:
  assumes "toUnixTime dt = Ret t" "gm t = None"
  shows "DateTime_format gm local put_time dt fmt False m = (Ret (Str []), m)"
  using assms by (simp add: DateTime_format_def String_of_view_def allocNativeString_def op_ret_def)

end
