(* ===== verification/Variant_Extraction.thy ===== *)
theory Variant_Extraction
  imports Variants
begin

text \<open>
  Taking values out of temporary variants (\<open>scalar() &&\<close>, \<open>scalar() const &&\<close>, \<open>to() &&\<close> of \<open>types.hpp\<close>): an owned value is moved out, a borrowed
  one copied, because the variant must not change what it does not own.
\<close>

text \<open>The element a scalar points to is replaced by what a move leaves behind.\<close>

definition leave_scalar :: "'v \<Rightarrow> 'v Variant \<Rightarrow> 'v Variant" where
  "leave_scalar z v = v\<lparr>v_data := (case v_data v of OwnPtr (x # xs) \<Rightarrow> OwnPtr (z # xs) | d \<Rightarrow> d)\<rparr>"

text \<open>\<open>T\<close> is copied by \<open>copy\<close> and moved leaving \<open>left\<close>; for wrapper types these are \<open>UA_copy\<close> and the zero-initialized object, for
  structs of the C library both are the copy of the bytes.\<close>

definition scalar_rvalue ::
  "'v api \<Rightarrow> (nat \<Rightarrow> 'v list option) \<Rightarrow> ('v \<Rightarrow> (mem, 'v) op) \<Rightarrow> ('v \<Rightarrow> 'v) \<Rightarrow> vtype \<Rightarrow> ('v vworld, 'v) op" where
  "scalar_rvalue a store copy left t w =
     (if isBorrowed (vw_var w)
      then (case v_scalar a store t (vw_var w) of Inl e \<Rightarrow> (Inl e, w) | Inr x \<Rightarrow> in_mem (copy x) w)
      else (case v_scalar a store t (vw_var w) of Inl e \<Rightarrow> (Inl e, w)
        | Inr x \<Rightarrow> (Ret x, w\<lparr>vw_var := leave_scalar (left x) (vw_var w)\<rparr>)))"

text \<open>A const value cannot be moved from: both branches copy.\<close>

definition scalar_const_rvalue ::
  "'v api \<Rightarrow> (nat \<Rightarrow> 'v list option) \<Rightarrow> ('v \<Rightarrow> (mem, 'v) op) \<Rightarrow> vtype \<Rightarrow> ('v vworld, 'v) op" where
  "scalar_const_rvalue a store copy t w =
     (if isBorrowed (vw_var w)
      then (case v_scalar a store t (vw_var w) of Inl e \<Rightarrow> (Inl e, w) | Inr x \<Rightarrow> in_mem (copy x) w)
      else (case v_scalar a store t (vw_var w) of Inl e \<Rightarrow> (Inl e, w) | Inr x \<Rightarrow> in_mem (copy x) w))"

text \<open>\<open>to() &&\<close> for registered types, and for converted ones, where the native value is a temporary that is destroyed after the conversion.\<close>

definition to_reg_scalar_rvalue ::
  "'v api \<Rightarrow> (nat \<Rightarrow> 'v list option) \<Rightarrow> ('v \<Rightarrow> (mem, 'v) op) \<Rightarrow> ('v \<Rightarrow> 'v) \<Rightarrow> vtype \<Rightarrow> ('v vworld, 'v) op" where
  "to_reg_scalar_rvalue a store copy left t = scalar_rvalue a store copy left t"

definition to_conv_scalar_rvalue ::
  "('v \<Rightarrow> int) \<Rightarrow> 'v api \<Rightarrow> (nat \<Rightarrow> 'v list option) \<Rightarrow> ('v \<Rightarrow> (mem, 'v) op) \<Rightarrow> ('v \<Rightarrow> 'v) \<Rightarrow> ('v \<Rightarrow> 't) \<Rightarrow> vtype \<Rightarrow> ('v vworld, 't) op" where
  "to_conv_scalar_rvalue own a store copy left fromNative t w = (case scalar_rvalue a store copy left t w of
      (Inl e, w') \<Rightarrow> (Inl e, w')
    | (Inr x, w') \<Rightarrow> (Ret (fromNative x), w'\<lparr>vw_mem := free_blocks (own x) (vw_mem w')\<rparr>))"

text \<open>A variant that owns its data holds no foreign pointer.\<close>

definition owns_data :: "'v Variant \<Rightarrow> bool" where
  "owns_data v = (\<not> isBorrowed v \<longrightarrow> (case v_data v of ExtPtr _ \<Rightarrow> False | _ \<Rightarrow> True))"

lemma v_scalar_head:
  "v_scalar a store t v = Ret x \<Longrightarrow> \<exists>xs. v_elems store v = Some (x # xs)"
  by (auto simp: v_scalar_def outc_bind_eq_Ret split: option.splits list.splits)

lemma own_leave:
  assumes "\<not> isBorrowed v" "owns_data v" "v_scalar a store t v = Ret x" "own z = 0"
  shows "own_variant own (leave_scalar z v) = own_variant own v - own x"
  using v_scalar_head[OF assms(3)] assms(1,2,4)
  by (cases "v_storage v") (auto simp: isBorrowed_def owns_data_def v_elems_def leave_scalar_def own_variant_def split: vdata.splits)

lemma in_mem_copy:
  assumes "value_source own copy (\<lambda>x. x)" "in_mem (copy x) w = (r, w')"
  shows "vw_var w' = vw_var w" "(\<exists>ex. r = throw ex \<and> live (vw_mem w') = live (vw_mem w)) \<or> (r = Ret x \<and> live (vw_mem w') = live (vw_mem w) + own x)"
proof -
  obtain q m where c: "copy x (vw_mem w) = (q, m)" by fastforce
  then have r: "r = q" "w' = w\<lparr>vw_mem := m\<rparr>" using assms(2) by (simp_all add: in_mem_def)
  then show "vw_var w' = vw_var w" by simp
  show "(\<exists>ex. r = throw ex \<and> live (vw_mem w') = live (vw_mem w)) \<or> (r = Ret x \<and> live (vw_mem w') = live (vw_mem w) + own x)"
    using value_source.produced[OF assms(1), of x "vw_mem w"] value_source.failed[OF assms(1), of x "vw_mem w"] c r by (cases q) auto
qed


definition owned_string :: "native_string vworld" where
  "owned_string = \<lparr>vw_mem = \<lparr>budget = 4, live = 2\<rparr>,
     vw_var = \<lparr>v_type = Some string_vtype, v_storage = UA_VARIANT_DATA, v_data = OwnPtr [Str ''abc''], v_length = 0, v_dims = []\<rparr>\<rparr>"


text \<open>With a struct of the C library instead of a wrapper the bytes are copied: the result and the variant both refer to the
  storage of the value, and the destruction of the temporary frees it.\<close>

lemma native_extraction_dangles:
  assumes "v_scalar a store t (vw_var w) = Ret x" "\<not> isBorrowed (vw_var w)" "owns_data (vw_var w)"
  shows "\<exists>w'. scalar_rvalue a store (\<lambda>x m. (Ret x, m)) (\<lambda>x. x) t w = (Ret x, w')
    \<and> live (vw_mem (variant_clear own w')) = live (vw_mem w) - own_variant own (vw_var w)"
proof -
  obtain xs where "v_elems store (vw_var w) = Some (x # xs)" using v_scalar_head[OF assms(1)] by blast
  then have "leave_scalar x (vw_var w) = vw_var w" by (simp add: leave_scalar_def v_elems_def split: vdata.splits list.splits)
  then show ?thesis using assms by (simp add: scalar_rvalue_def variant_clear_def free_blocks_def)
qed

end
