(* ===== verification/Ua_Construct.thy ===== *)
theory Ua_Construct
  imports Requests
begin

text \<open>
  How the wrapper classes of \<open>ua/types.hpp\<close> are constructed, with the helpers of \<open>detail/types_conversion.hpp\<close>. A constructor
  starts from the zero-initialized native struct of its base class \<open>Wrapper\<close> and assigns the members one after the other.
  String arguments are allocated, arguments taken by value are moved from, spans are copied into new arrays. When a
  statement throws, the base class destructor clears the struct as filled so far, and the arguments not yet
  moved from are destroyed. \<open>sound_ctor\<close> states what every constructor has to guarantee, and the \<open>member\<close> rules
  prove it statement by statement.
\<close>

section \<open>Conversion to native members\<close>

text \<open>Nested values whose own structure is described elsewhere carry the number of allocations they own.\<close>

record 'a nested =
  nested_value :: 'a
  nested_blocks :: int

definition own_nested :: "'a nested \<Rightarrow> int" where
  "own_nested x = nested_blocks x"

text \<open>\<open>makeNative\<close> of a \<open>string_view\<close>, and of a wrapper passed as an rvalue: a zero-initialized native value takes over the
  contents by move assignment, the wrapper is left zero-initialized.\<close>

definition makeNative_view :: "view \<Rightarrow> (mem, native_string) op" where
  "makeNative_view v = allocNativeString v"

definition makeNative_wrapper :: "'a \<Rightarrow> 'a \<Rightarrow> 'a \<times> 'a" where
  "makeNative_wrapper zero x = (x, zero)"

definition makeNativeArray :: "('a \<Rightarrow> int) \<Rightarrow> ('a \<Rightarrow> (mem, 'a) op) \<Rightarrow> 'a list \<Rightarrow> (mem, 'a vdata) op" where
  "makeNativeArray own ua_copy xs = op_bind (vcopyArray own ua_copy xs) (\<lambda>(p, n). op_ret p)"

text \<open>The span returned by \<open>UAPP_GETTER_SPAN\<close> and \<open>UAPP_GETTER_SPAN_WRAPPER\<close>, read to its end.\<close>

definition getter_span :: "nat \<Rightarrow> 'a vdata \<Rightarrow> 'a list outc" where
  "getter_span n p = (case p of
      OwnPtr xs \<Rightarrow> if n \<le> length xs then Ret (take n xs) else Inl Undef
    | _ \<Rightarrow> if n = 0 then Ret [] else Inl Undef)"

definition own_array :: "('a \<Rightarrow> int) \<Rightarrow> 'a vdata \<Rightarrow> int" where
  "own_array own p = (case p of OwnPtr xs \<Rightarrow> 1 + (\<Sum>x \<leftarrow> xs. own x) | _ \<Rightarrow> 0)"

definition array_of :: "'a list \<Rightarrow> 'a vdata" where
  "array_of xs = (if xs = [] then SentinelPtr else OwnPtr xs)"

lemma array_of_simps [simp]:
  "array_of xs \<noteq> NullPtr" "own_array own NullPtr = 0" "own_array own SentinelPtr = 0"
  by (simp_all add: array_of_def own_array_def)

lemma getter_span_array [simp]: "getter_span (length xs) (array_of xs) = Ret xs"
  by (simp add: getter_span_def array_of_def)

lemma makeNativeArray_cases:
  assumes "value_source own ua_copy (\<lambda>x. x)" "makeNativeArray own ua_copy xs m = (r, m')"
  obtains (failure) ex where "r = throw ex" "live m' = live m"
    | (success) "r = Ret (array_of xs)" "live m' = live m + own_array own (array_of xs)"
proof -
  obtain q k where c: "vcopyArray own ua_copy xs m = (q, k)" by fastforce
  show thesis
  proof (cases rule: value_source.vcopyArray_spec[OF assms(1) c])
    case 1
    with assms(2) c show thesis by (intro failure) (auto simp: makeNativeArray_def op_bind_def)
  next
    case 2
    with assms(2) c show thesis by (intro success) (auto simp: makeNativeArray_def op_bind_def array_of_def)
  next
    case (3 ys)
    with assms(2) c show thesis by (intro success) (auto simp: makeNativeArray_def op_bind_def array_of_def own_array_def)
  qed
qed

section \<open>Objects of built-in type\<close>

definition own_QualifiedName :: "QualifiedName \<Rightarrow> int" where
  "own_QualifiedName q = own_string (qn_name q)"

definition own_LocalizedText :: "LocalizedText \<Rightarrow> int" where
  "own_LocalizedText t = own_string (lt_locale t) + own_string (lt_text t)"

definition null_ExpandedNodeId :: ExpandedNodeId where
  "null_ExpandedNodeId = \<lparr>ex_nodeId = null_NodeId, ex_namespaceUri = NullString, ex_serverIndex = 0\<rparr>"

definition null_QualifiedName :: QualifiedName where
  "null_QualifiedName = \<lparr>qn_namespaceIndex = 0, qn_name = NullString\<rparr>"

definition null_LocalizedText :: LocalizedText where
  "null_LocalizedText = \<lparr>lt_locale = NullString, lt_text = NullString\<rparr>"

definition empty_nested :: "'a \<Rightarrow> 'a nested" where
  "empty_nested z = \<lparr>nested_value = z, nested_blocks = 0\<rparr>"

lemma own_null [simp]:
  "own_string NullString = 0" "own_NodeId null_NodeId = 0" "own_ExpandedNodeId null_ExpandedNodeId = 0"
  "own_QualifiedName null_QualifiedName = 0" "own_LocalizedText null_LocalizedText = 0" "own_nested (empty_nested z) = 0"
  by (simp_all add: own_string_def own_NodeId_def own_ExpandedNodeId_def own_QualifiedName_def own_LocalizedText_def
      own_nested_def null_NodeId_def null_ExpandedNodeId_def null_QualifiedName_def null_LocalizedText_def empty_nested_def)

section \<open>Constructors\<close>

text \<open>The memory, the native struct of the object under construction, and the allocations the arguments passed by value still
  own. A constructor is the list of its statements.\<close>

record 'r ctor =
  c_mem :: mem
  c_this :: 'r
  c_args :: int

type_synonym 'r stmt = "('r ctor, unit) op"

definition put :: "('r \<Rightarrow> 'r) \<Rightarrow> 'r stmt" where
  "put f s = (Ret (), s\<lparr>c_this := f (c_this s)\<rparr>)"

definition put_view :: "(native_string \<Rightarrow> 'r \<Rightarrow> 'r) \<Rightarrow> view \<Rightarrow> 'r stmt" where
  "put_view f v s = (case makeNative_view v (c_mem s) of
      (Inl e, m) \<Rightarrow> (Inl e, s\<lparr>c_mem := m\<rparr>)
    | (Inr x, m) \<Rightarrow> (Ret (), s\<lparr>c_mem := m, c_this := f x (c_this s)\<rparr>))"

definition put_moved :: "('a \<Rightarrow> 'r \<Rightarrow> 'r) \<Rightarrow> ('a \<Rightarrow> int) \<Rightarrow> 'a \<Rightarrow> 'a \<Rightarrow> 'r stmt" where
  "put_moved f own zero x s = (case makeNative_wrapper zero x of (native, rest) \<Rightarrow>
     (Ret (), s\<lparr>c_this := f native (c_this s), c_args := c_args s - own x + own rest\<rparr>))"

definition put_array :: "('a vdata \<Rightarrow> 'r \<Rightarrow> 'r) \<Rightarrow> ('a \<Rightarrow> int) \<Rightarrow> ('a \<Rightarrow> (mem, 'a) op) \<Rightarrow> 'a list \<Rightarrow> 'r stmt" where
  "put_array f own ua_copy xs s = (case makeNativeArray own ua_copy xs (c_mem s) of
      (Inl e, m) \<Rightarrow> (Inl e, s\<lparr>c_mem := m\<rparr>)
    | (Inr p, m) \<Rightarrow> (Ret (), s\<lparr>c_mem := m, c_this := f p (c_this s)\<rparr>))"

fun run_stmts :: "'r stmt list \<Rightarrow> 'r stmt" where
  "run_stmts [] s = (Ret (), s)"
| "run_stmts (c # cs) s = (case c s of (Inl e, s') \<Rightarrow> (Inl e, s') | (Inr _, s') \<Rightarrow> run_stmts cs s')"

text \<open>\<open>own\<close> counts what \<open>UA_clear\<close> frees. The C library expects of an array member that its size is zero when its pointer is null;
  clearing a struct that breaks this (\<open>bad\<close>) is undefined.\<close>

definition construct_wrapper :: "('r \<Rightarrow> int) \<Rightarrow> ('r \<Rightarrow> bool) \<Rightarrow> 'r \<Rightarrow> int \<Rightarrow> 'r stmt list \<Rightarrow> (mem, 'r) op" where
  "construct_wrapper own bad zero given body m =
     (case run_stmts body \<lparr>c_mem = m, c_this = zero, c_args = given\<rparr> of
        (Inr _, s) \<Rightarrow> (Ret (c_this s), free_blocks (c_args s) (c_mem s))
      | (Inl (Throw e), s) \<Rightarrow> if bad (c_this s) then (Inl Undef, c_mem s)
          else (throw e, free_blocks (own (c_this s) + c_args s) (c_mem s))
      | (Inl e, s) \<Rightarrow> (Inl e, c_mem s))"

section \<open>Soundness\<close>

text \<open>In every memory the constructor returns the expected object, which then owns what the by-value arguments (\<open>given\<close>) gave up and what
  was allocated, or throws and has released all of it. Undefined behaviour occurs at most under \<open>risk\<close>.\<close>

definition sound_ctor :: "bool \<Rightarrow> ('r \<Rightarrow> int) \<Rightarrow> int \<Rightarrow> (mem, 'r) op \<Rightarrow> 'r \<Rightarrow> bool" where
  "sound_ctor risk own given c expected = (\<forall>m. case c m of
      (Inr r, m') \<Rightarrow> r = expected \<and> live m' = live m - given + own r
    | (Inl (Throw e), m') \<Rightarrow> live m' = live m - given
    | (Inl Undef, m') \<Rightarrow> risk
    | (Inl Terminate, m') \<Rightarrow> False)"

definition settled :: "bool \<Rightarrow> ('r \<Rightarrow> int) \<Rightarrow> ('r \<Rightarrow> bool) \<Rightarrow> int \<Rightarrow> 'r \<Rightarrow> unit outc \<times> 'r ctor \<Rightarrow> bool" where
  "settled risk own bad k expected res = (case res of
      (Inr _, s) \<Rightarrow> c_this s = expected \<and> live (c_mem s) = k + own expected + c_args s
    | (Inl (Throw e), s) \<Rightarrow> (bad (c_this s) \<longrightarrow> risk) \<and> live (c_mem s) = k + own (c_this s) + c_args s
    | _ \<Rightarrow> False)"

definition sound_body :: "bool \<Rightarrow> ('r \<Rightarrow> int) \<Rightarrow> ('r \<Rightarrow> bool) \<Rightarrow> 'r \<Rightarrow> int \<Rightarrow> 'r stmt list \<Rightarrow> 'r \<Rightarrow> bool" where
  "sound_body risk own bad r a body expected =
     (\<forall>m. settled risk own bad (live m - a - own r) expected (run_stmts body \<lparr>c_mem = m, c_this = r, c_args = a\<rparr>))"

lemma sound_bodyD:
  "sound_body risk own bad r a body expected \<Longrightarrow> k = live m - a - own r \<Longrightarrow>
   settled risk own bad k expected (run_stmts body \<lparr>c_mem = m, c_this = r, c_args = a\<rparr>)"
  by (simp add: sound_body_def)

lemma settled_ctor:
  assumes "settled risk own bad (live m - given) expected (run_stmts body \<lparr>c_mem = m, c_this = zero, c_args = given\<rparr>)"
  shows "case construct_wrapper own bad zero given body m of
      (Inr r, m') \<Rightarrow> r = expected \<and> live m' = live m - given + own r
    | (Inl (Throw e), m') \<Rightarrow> live m' = live m - given
    | (Inl Undef, m') \<Rightarrow> risk
    | (Inl Terminate, m') \<Rightarrow> False"
  using assms unfolding settled_def construct_wrapper_def
  by (auto simp: free_blocks_def split: prod.splits sum.splits fault.splits)

lemma sound_body_ctor:
  assumes "sound_body risk own bad zero given body expected" "own zero = 0"
  shows "sound_ctor risk own given (construct_wrapper own bad zero given body) expected"
  unfolding sound_ctor_def
proof
  fix m
  show "case construct_wrapper own bad zero given body m of
      (Inr r, m') \<Rightarrow> r = expected \<and> live m' = live m - given + own r
    | (Inl (Throw e), m') \<Rightarrow> live m' = live m - given
    | (Inl Undef, m') \<Rightarrow> risk
    | (Inl Terminate, m') \<Rightarrow> False"
    by (rule settled_ctor, rule sound_bodyD[OF assms(1)]) (simp add: assms(2))
qed

named_theorems member "rules for the statements of a constructor"

lemma member_nil [member]: "r = expected \<Longrightarrow> sound_body risk own bad r a [] expected"
  by (simp add: sound_body_def settled_def)

lemma member_put [member]:
  assumes "own (f r) = own r" "sound_body risk own bad (f r) a cs expected"
  shows "sound_body risk own bad r a (put f # cs) expected"
  using assms by (auto simp: sound_body_def put_def)

lemma member_moved [member]:
  assumes "own_x zero = 0" "own (f x r) = own r + own_x x" "sound_body risk own bad (f x r) (a - own_x x) cs expected"
  shows "sound_body risk own bad r a (put_moved f own_x zero x # cs) expected"
  using assms by (simp add: sound_body_def put_moved_def makeNative_wrapper_def algebra_simps)

lemma member_view [member]:
  assumes "bad r \<longrightarrow> risk" "own (f (toNativeString v) r) = own r + own_string (toNativeString v)"
    "sound_body risk own bad (f (toNativeString v) r) a cs expected"
  shows "sound_body risk own bad r a (put_view f v # cs) expected"
  unfolding sound_body_def
proof
  fix m
  obtain q k where c: "allocNativeString v m = (q, k)" by fastforce
  show "settled risk own bad (live m - a - own r) expected (run_stmts (put_view f v # cs) \<lparr>c_mem = m, c_this = r, c_args = a\<rparr>)"
  proof (cases q)
    case (Inl e)
    with c have "k = m" "\<exists>x. e = Throw x"
      by (auto simp: allocNativeString_def alloc_block_def op_bind_def split: option.splits if_splits)
    with c Inl assms(1) show ?thesis by (auto simp: put_view_def makeNative_view_def settled_def)
  next
    case (Inr x)
    with c have x: "x = toNativeString v" "live k = live m + own_string x"
      by (auto simp: allocNativeString_def alloc_block_def op_bind_def toNativeString_def own_string_def split: option.splits if_splits)
    have "settled risk own bad (live m - a - own r) expected (run_stmts cs \<lparr>c_mem = k, c_this = f x r, c_args = a\<rparr>)"
      unfolding x(1) by (rule sound_bodyD[OF assms(3)]) (simp add: assms(2) x)
    with c Inr show ?thesis by (simp add: put_view_def makeNative_view_def)
  qed
qed

lemma member_array [member]:
  assumes "value_source own_x ua_copy (\<lambda>x. x)" "bad r \<longrightarrow> risk" "own (f (array_of xs) r) = own r + own_array own_x (array_of xs)"
    "sound_body risk own bad (f (array_of xs) r) a cs expected"
  shows "sound_body risk own bad r a (put_array f own_x ua_copy xs # cs) expected"
  unfolding sound_body_def
proof
  fix m
  obtain q k where c: "makeNativeArray own_x ua_copy xs m = (q, k)" by fastforce
  show "settled risk own bad (live m - a - own r) expected
    (run_stmts (put_array f own_x ua_copy xs # cs) \<lparr>c_mem = m, c_this = r, c_args = a\<rparr>)"
  proof (cases rule: makeNativeArray_cases[OF assms(1) c])
    case 1
    with c assms(2) show ?thesis by (auto simp: put_array_def settled_def)
  next
    case 2
    have "settled risk own bad (live m - a - own r) expected (run_stmts cs \<lparr>c_mem = k, c_this = f (array_of xs) r, c_args = a\<rparr>)"
      by (rule sound_bodyD[OF assms(4)]) (simp add: assms(3) 2)
    with c 2 show ?thesis by (simp add: put_array_def)
  qed
qed

lemma sound_ctor_bind:
  assumes "sound_ctor False own_t 0 pre t" "sound_ctor risk own (own_t t) (c t) expected"
  shows "sound_ctor risk own 0 (op_bind pre c) expected"
  unfolding sound_ctor_def
proof
  fix m
  obtain q k where p: "pre m = (q, k)" by fastforce
  have pre: "case (q, k) of (Inr r, m') \<Rightarrow> r = t \<and> live m' = live m - 0 + own_t r
    | (Inl (Throw e), m') \<Rightarrow> live m' = live m - 0 | (Inl Undef, m') \<Rightarrow> False | (Inl Terminate, m') \<Rightarrow> False"
    using assms(1) unfolding sound_ctor_def p [symmetric] by (rule spec)
  have post: "case c t k of (Inr r, m') \<Rightarrow> r = expected \<and> live m' = live k - own_t t + own r
    | (Inl (Throw e), m') \<Rightarrow> live m' = live k - own_t t | (Inl Undef, m') \<Rightarrow> risk | (Inl Terminate, m') \<Rightarrow> False"
    using assms(2) unfolding sound_ctor_def by (rule spec)
  show "case op_bind pre c m of (Inr r, m') \<Rightarrow> r = expected \<and> live m' = live m - 0 + own r
    | (Inl (Throw e), m') \<Rightarrow> live m' = live m - 0 | (Inl Undef, m') \<Rightarrow> risk | (Inl Terminate, m') \<Rightarrow> False"
  proof (cases q)
    case (Inl e)
    with p pre show ?thesis by (cases e) (simp_all add: op_bind_def)
  next
    case (Inr x)
    with pre have "x = t" "live k = live m + own_t t" by simp_all
    with p post Inr show ?thesis by (simp add: op_bind_def split: prod.splits sum.splits fault.splits)
  qed
qed

lemma mkLocalizedText_sound:
  "sound_ctor False own_LocalizedText 0 (mkLocalizedText loc txt) \<lparr>lt_locale = toNativeString loc, lt_text = toNativeString txt\<rparr>"
  by (auto simp: sound_ctor_def mkLocalizedText_def op_bind_def op_on_throw_def allocNativeString_def alloc_block_def toNativeString_def
      own_string_def own_LocalizedText_def free_blocks_def split: option.splits if_splits)

text \<open>Scalars are copied with \<open>memcpy\<close>.\<close>

lemma flat_copy: "value_source (\<lambda>_. 0) copy_pointer_free (\<lambda>x. x)"
  by (rule flat_source.value_source_axioms)

text \<open>A deep copy that allocates one block per owned allocation: an instance of what the constructors expect of \<open>UA_copy\<close>.\<close>

definition deep_copy :: "('a \<Rightarrow> int) \<Rightarrow> 'a \<Rightarrow> (mem, 'a) op" where
  "deep_copy own x m = (if int (budget m) < own x then (throw (BadStatus UA_STATUSCODE_BADOUTOFMEMORY), m)
     else (Ret x, \<lparr>budget = budget m - nat (own x), live = live m + own x\<rparr>))"

lemma deep_copy_source: "value_source own (deep_copy own) (\<lambda>x. x)"
  by unfold_locales (auto simp: deep_copy_def split: if_splits)

end
