(* ===== verification/Ua_Types.thy ===== *)
theory Ua_Types
  imports Ua_Construct
begin

text \<open>
  The wrapper classes of \<open>ua/types.hpp\<close> for descriptions, identity tokens, node management, views, attributes and methods: the
  members of the native structs that the getters read, and the constructors. Classes without a constructor of their own
  (responses and results) are not repeated here; the node attribute classes are in \<open>Node_Attributes\<close>.
\<close>

section \<open>Enumerations\<close>

datatype ApplicationType = AtServer | AtClient | AtClientAndServer | AtDiscoveryServer

fun ApplicationType_code :: "ApplicationType \<Rightarrow> u32" where
  "ApplicationType_code AtServer = 0"
| "ApplicationType_code AtClient = 1"
| "ApplicationType_code AtClientAndServer = 2"
| "ApplicationType_code AtDiscoveryServer = 3"

datatype UserTokenType = UtAnonymous | UtUsername | UtCertificate | UtIssuedToken

fun UserTokenType_code :: "UserTokenType \<Rightarrow> u32" where
  "UserTokenType_code UtAnonymous = 0"
| "UserTokenType_code UtUsername = 1"
| "UserTokenType_code UtCertificate = 2"
| "UserTokenType_code UtIssuedToken = 3"

fun BrowseDirection_code :: "BrowseDirection \<Rightarrow> u32" where
  "BrowseDirection_code BdForward = 0"
| "BrowseDirection_code BdInverse = 1"
| "BrowseDirection_code BdBoth = 2"
| "BrowseDirection_code BdInvalid = 3"

fun TimestampsToReturn_code :: "TimestampsToReturn \<Rightarrow> u32" where
  "TimestampsToReturn_code TsSource = 0"
| "TimestampsToReturn_code TsServer = 1"
| "TimestampsToReturn_code TsBoth = 2"
| "TimestampsToReturn_code TsNeither = 3"
| "TimestampsToReturn_code TsInvalid = 4"

definition native_ValueRank :: "ValueRank \<Rightarrow> 32 word" where
  "native_ValueRank r = word_of_int (ValueRank_code r)"

section \<open>Classes\<close>

record UA_EnumValueType =
  EnumValueType_value :: "64 word"
  EnumValueType_displayName :: LocalizedText
  EnumValueType_description :: LocalizedText

definition EnumValueType_zero :: "UA_EnumValueType" where
  "EnumValueType_zero = \<lparr>EnumValueType_value = 0, EnumValueType_displayName = null_LocalizedText,
     EnumValueType_description = null_LocalizedText\<rparr>"

definition own_EnumValueType :: "UA_EnumValueType \<Rightarrow> int" where
  "own_EnumValueType r = own_LocalizedText (EnumValueType_displayName r) + own_LocalizedText (EnumValueType_description r)"

definition mkEnumValueType :: "64 word \<Rightarrow> LocalizedText \<Rightarrow> LocalizedText \<Rightarrow> (mem, UA_EnumValueType) op" where
  "mkEnumValueType val displayName description =
     construct_wrapper own_EnumValueType (\<lambda>_. False) EnumValueType_zero (own_LocalizedText displayName +
     own_LocalizedText description)
       [put (\<lambda>r. r\<lparr>EnumValueType_value := val\<rparr>),
        put_moved (\<lambda>x r. r\<lparr>EnumValueType_displayName := x\<rparr>) own_LocalizedText null_LocalizedText displayName,
        put_moved (\<lambda>x r. r\<lparr>EnumValueType_description := x\<rparr>) own_LocalizedText null_LocalizedText description]"

lemma mkEnumValueType_sound:
  "sound_ctor False own_EnumValueType (own_LocalizedText displayName + own_LocalizedText description)
    (mkEnumValueType val displayName description)
    \<lparr>EnumValueType_value = val, EnumValueType_displayName = displayName, EnumValueType_description = description\<rparr>"
  unfolding mkEnumValueType_def by (intro member sound_body_ctor)
    (simp_all add: EnumValueType_zero_def own_EnumValueType_def)

lemma EnumValueType_zero_owns [simp]: "own_EnumValueType EnumValueType_zero = 0"
  by (simp add: own_EnumValueType_def EnumValueType_zero_def)

record UA_ApplicationDescription =
  ApplicationDescription_applicationUri :: native_string
  ApplicationDescription_productUri :: native_string
  ApplicationDescription_applicationName :: LocalizedText
  ApplicationDescription_applicationType :: "32 word"
  ApplicationDescription_gatewayServerUri :: native_string
  ApplicationDescription_discoveryProfileUri :: native_string
  ApplicationDescription_discoveryUrlsSize :: nat
  ApplicationDescription_discoveryUrls :: "native_string vdata"

definition ApplicationDescription_zero :: "UA_ApplicationDescription" where
  "ApplicationDescription_zero = \<lparr>ApplicationDescription_applicationUri = NullString, ApplicationDescription_productUri = NullString,
     ApplicationDescription_applicationName = null_LocalizedText, ApplicationDescription_applicationType = 0,
     ApplicationDescription_gatewayServerUri = NullString, ApplicationDescription_discoveryProfileUri = NullString,
     ApplicationDescription_discoveryUrlsSize = 0, ApplicationDescription_discoveryUrls = NullPtr\<rparr>"

definition own_ApplicationDescription :: "UA_ApplicationDescription \<Rightarrow> int" where
  "own_ApplicationDescription r = own_string (ApplicationDescription_applicationUri r) + own_string (ApplicationDescription_productUri r) +
     own_LocalizedText (ApplicationDescription_applicationName r) + own_string (ApplicationDescription_gatewayServerUri r) +
     own_string (ApplicationDescription_discoveryProfileUri r) + own_array own_string (ApplicationDescription_discoveryUrls r)"

definition bad_ApplicationDescription :: "UA_ApplicationDescription \<Rightarrow> bool" where
  "bad_ApplicationDescription r = (ApplicationDescription_discoveryUrlsSize r \<noteq> 0 \<and> ApplicationDescription_discoveryUrls r = NullPtr)"

definition mkApplicationDescription :: "(native_string \<Rightarrow> (mem, native_string) op) \<Rightarrow> view \<Rightarrow>
     view \<Rightarrow> LocalizedText \<Rightarrow> ApplicationType \<Rightarrow> view \<Rightarrow> view \<Rightarrow> native_string list \<Rightarrow> (mem, UA_ApplicationDescription) op" where
  "mkApplicationDescription copy_discoveryUrls applicationUri productUri applicationName applicationType gatewayServerUri discoveryProfileUri discoveryUrls =
     construct_wrapper own_ApplicationDescription bad_ApplicationDescription ApplicationDescription_zero (own_LocalizedText applicationName)
       [put_view (\<lambda>x r. r\<lparr>ApplicationDescription_applicationUri := x\<rparr>) applicationUri,
        put_view (\<lambda>x r. r\<lparr>ApplicationDescription_productUri := x\<rparr>) productUri,
        put_moved (\<lambda>x r. r\<lparr>ApplicationDescription_applicationName := x\<rparr>) own_LocalizedText null_LocalizedText applicationName,
        put (\<lambda>r. r\<lparr>ApplicationDescription_applicationType := ApplicationType_code applicationType\<rparr>),
        put_view (\<lambda>x r. r\<lparr>ApplicationDescription_gatewayServerUri := x\<rparr>) gatewayServerUri,
        put_view (\<lambda>x r. r\<lparr>ApplicationDescription_discoveryProfileUri := x\<rparr>) discoveryProfileUri,
        put (\<lambda>r. r\<lparr>ApplicationDescription_discoveryUrlsSize := length discoveryUrls\<rparr>),
        put_array (\<lambda>x r. r\<lparr>ApplicationDescription_discoveryUrls := x\<rparr>) own_string copy_discoveryUrls discoveryUrls]"

lemma mkApplicationDescription_sound:
  assumes "value_source own_string copy_discoveryUrls (\<lambda>x. x)"
  shows "sound_ctor (discoveryUrls \<noteq> []) own_ApplicationDescription (own_LocalizedText applicationName)
    (mkApplicationDescription copy_discoveryUrls applicationUri productUri applicationName applicationType gatewayServerUri discoveryProfileUri discoveryUrls)
    \<lparr>ApplicationDescription_applicationUri = toNativeString applicationUri,
     ApplicationDescription_productUri = toNativeString productUri, ApplicationDescription_applicationName = applicationName,
     ApplicationDescription_applicationType = ApplicationType_code applicationType,
     ApplicationDescription_gatewayServerUri = toNativeString gatewayServerUri,
     ApplicationDescription_discoveryProfileUri = toNativeString discoveryProfileUri,
     ApplicationDescription_discoveryUrlsSize = length discoveryUrls,
     ApplicationDescription_discoveryUrls = array_of discoveryUrls\<rparr>"
  unfolding mkApplicationDescription_def by (intro member sound_body_ctor)
    (simp_all add: ApplicationDescription_zero_def own_ApplicationDescription_def bad_ApplicationDescription_def assms)

lemma ApplicationDescription_zero_owns [simp]: "own_ApplicationDescription ApplicationDescription_zero = 0"
  by (simp add: own_ApplicationDescription_def ApplicationDescription_zero_def)

record 'v UA_RequestHeader =
  RequestHeader_authenticationToken :: NodeId
  RequestHeader_timestamp :: int
  RequestHeader_requestHandle :: u32
  RequestHeader_returnDiagnostics :: u32
  RequestHeader_auditEntryId :: native_string
  RequestHeader_timeoutHint :: u32
  RequestHeader_additionalHeader :: "'v ExtensionObject nested"

definition RequestHeader_zero :: "'v UA_RequestHeader" where
  "RequestHeader_zero = \<lparr>RequestHeader_authenticationToken = null_NodeId, RequestHeader_timestamp = 0,
     RequestHeader_requestHandle = 0, RequestHeader_returnDiagnostics = 0, RequestHeader_auditEntryId = NullString,
     RequestHeader_timeoutHint = 0, RequestHeader_additionalHeader = (empty_nested EncodedNoBody)\<rparr>"

definition own_RequestHeader :: "'v UA_RequestHeader \<Rightarrow> int" where
  "own_RequestHeader r = own_NodeId (RequestHeader_authenticationToken r) + own_string (RequestHeader_auditEntryId r) +
     own_nested (RequestHeader_additionalHeader r)"

definition mkRequestHeader :: "NodeId \<Rightarrow> int \<Rightarrow> u32 \<Rightarrow> u32 \<Rightarrow> view \<Rightarrow>
     u32 \<Rightarrow> 'v ExtensionObject nested \<Rightarrow> (mem, 'v UA_RequestHeader) op" where
  "mkRequestHeader authenticationToken timestamp requestHandle returnDiagnostics auditEntryId timeoutHint additionalHeader =
     construct_wrapper own_RequestHeader (\<lambda>_. False) RequestHeader_zero (own_NodeId authenticationToken +
     own_nested additionalHeader)
       [put_moved (\<lambda>x r. r\<lparr>RequestHeader_authenticationToken := x\<rparr>) own_NodeId null_NodeId authenticationToken,
        put (\<lambda>r. r\<lparr>RequestHeader_timestamp := timestamp\<rparr>),
        put (\<lambda>r. r\<lparr>RequestHeader_requestHandle := requestHandle\<rparr>),
        put (\<lambda>r. r\<lparr>RequestHeader_returnDiagnostics := returnDiagnostics\<rparr>),
        put_view (\<lambda>x r. r\<lparr>RequestHeader_auditEntryId := x\<rparr>) auditEntryId,
        put (\<lambda>r. r\<lparr>RequestHeader_timeoutHint := timeoutHint\<rparr>),
        put_moved (\<lambda>x r. r\<lparr>RequestHeader_additionalHeader := x\<rparr>) own_nested (empty_nested EncodedNoBody) additionalHeader]"

lemma mkRequestHeader_sound:
  "sound_ctor False own_RequestHeader (own_NodeId authenticationToken + own_nested additionalHeader)
    (mkRequestHeader authenticationToken timestamp requestHandle returnDiagnostics auditEntryId timeoutHint additionalHeader)
    \<lparr>RequestHeader_authenticationToken = authenticationToken, RequestHeader_timestamp = timestamp,
     RequestHeader_requestHandle = requestHandle, RequestHeader_returnDiagnostics = returnDiagnostics,
     RequestHeader_auditEntryId = toNativeString auditEntryId, RequestHeader_timeoutHint = timeoutHint,
     RequestHeader_additionalHeader = additionalHeader\<rparr>"
  unfolding mkRequestHeader_def by (intro member sound_body_ctor)
    (simp_all add: RequestHeader_zero_def own_RequestHeader_def)

lemma RequestHeader_zero_owns [simp]: "own_RequestHeader RequestHeader_zero = 0"
  by (simp add: own_RequestHeader_def RequestHeader_zero_def)

record UA_UserTokenPolicy =
  UserTokenPolicy_policyId :: native_string
  UserTokenPolicy_tokenType :: "32 word"
  UserTokenPolicy_issuedTokenType :: native_string
  UserTokenPolicy_issuerEndpointUrl :: native_string
  UserTokenPolicy_securityPolicyUri :: native_string

definition UserTokenPolicy_zero :: "UA_UserTokenPolicy" where
  "UserTokenPolicy_zero = \<lparr>UserTokenPolicy_policyId = NullString, UserTokenPolicy_tokenType = 0,
     UserTokenPolicy_issuedTokenType = NullString, UserTokenPolicy_issuerEndpointUrl = NullString,
     UserTokenPolicy_securityPolicyUri = NullString\<rparr>"

definition own_UserTokenPolicy :: "UA_UserTokenPolicy \<Rightarrow> int" where
  "own_UserTokenPolicy r = own_string (UserTokenPolicy_policyId r) + own_string (UserTokenPolicy_issuedTokenType r) +
     own_string (UserTokenPolicy_issuerEndpointUrl r) + own_string (UserTokenPolicy_securityPolicyUri r)"

definition mkUserTokenPolicy :: "view \<Rightarrow> UserTokenType \<Rightarrow> view \<Rightarrow> view \<Rightarrow> view \<Rightarrow> (mem, UA_UserTokenPolicy) op" where
  "mkUserTokenPolicy policyId tokenType issuedTokenType issuerEndpointUrl securityPolicyUri =
     construct_wrapper own_UserTokenPolicy (\<lambda>_. False) UserTokenPolicy_zero 0
       [put_view (\<lambda>x r. r\<lparr>UserTokenPolicy_policyId := x\<rparr>) policyId,
        put (\<lambda>r. r\<lparr>UserTokenPolicy_tokenType := UserTokenType_code tokenType\<rparr>),
        put_view (\<lambda>x r. r\<lparr>UserTokenPolicy_issuedTokenType := x\<rparr>) issuedTokenType,
        put_view (\<lambda>x r. r\<lparr>UserTokenPolicy_issuerEndpointUrl := x\<rparr>) issuerEndpointUrl,
        put_view (\<lambda>x r. r\<lparr>UserTokenPolicy_securityPolicyUri := x\<rparr>) securityPolicyUri]"

lemma mkUserTokenPolicy_sound:
  "sound_ctor False own_UserTokenPolicy 0
    (mkUserTokenPolicy policyId tokenType issuedTokenType issuerEndpointUrl securityPolicyUri)
    \<lparr>UserTokenPolicy_policyId = toNativeString policyId, UserTokenPolicy_tokenType = UserTokenType_code tokenType,
     UserTokenPolicy_issuedTokenType = toNativeString issuedTokenType, UserTokenPolicy_issuerEndpointUrl = toNativeString issuerEndpointUrl,
     UserTokenPolicy_securityPolicyUri = toNativeString securityPolicyUri\<rparr>"
  unfolding mkUserTokenPolicy_def by (intro member sound_body_ctor)
    (simp_all add: UserTokenPolicy_zero_def own_UserTokenPolicy_def)

lemma UserTokenPolicy_zero_owns [simp]: "own_UserTokenPolicy UserTokenPolicy_zero = 0"
  by (simp add: own_UserTokenPolicy_def UserTokenPolicy_zero_def)

record UA_UserNameIdentityToken =
  UserNameIdentityToken_policyId :: native_string
  UserNameIdentityToken_userName :: native_string
  UserNameIdentityToken_password :: native_string
  UserNameIdentityToken_encryptionAlgorithm :: native_string

definition UserNameIdentityToken_zero :: "UA_UserNameIdentityToken" where
  "UserNameIdentityToken_zero = \<lparr>UserNameIdentityToken_policyId = NullString, UserNameIdentityToken_userName = NullString,
     UserNameIdentityToken_password = NullString, UserNameIdentityToken_encryptionAlgorithm = NullString\<rparr>"

definition own_UserNameIdentityToken :: "UA_UserNameIdentityToken \<Rightarrow> int" where
  "own_UserNameIdentityToken r = own_string (UserNameIdentityToken_policyId r) + own_string (UserNameIdentityToken_userName r) +
     own_string (UserNameIdentityToken_password r) + own_string (UserNameIdentityToken_encryptionAlgorithm r)"

definition mkUserNameIdentityToken :: "view \<Rightarrow> view \<Rightarrow> view \<Rightarrow> (mem, UA_UserNameIdentityToken) op" where
  "mkUserNameIdentityToken userName password encryptionAlgorithm =
     construct_wrapper own_UserNameIdentityToken (\<lambda>_. False) UserNameIdentityToken_zero 0
       [put_view (\<lambda>x r. r\<lparr>UserNameIdentityToken_userName := x\<rparr>) userName,
        put_view (\<lambda>x r. r\<lparr>UserNameIdentityToken_password := x\<rparr>) password,
        put_view (\<lambda>x r. r\<lparr>UserNameIdentityToken_encryptionAlgorithm := x\<rparr>) encryptionAlgorithm]"

lemma mkUserNameIdentityToken_sound:
  "sound_ctor False own_UserNameIdentityToken 0
    (mkUserNameIdentityToken userName password encryptionAlgorithm)
    \<lparr>UserNameIdentityToken_policyId = NullString, UserNameIdentityToken_userName = toNativeString userName,
     UserNameIdentityToken_password = toNativeString password,
     UserNameIdentityToken_encryptionAlgorithm = toNativeString encryptionAlgorithm\<rparr>"
  unfolding mkUserNameIdentityToken_def by (intro member sound_body_ctor)
    (simp_all add: UserNameIdentityToken_zero_def own_UserNameIdentityToken_def)

lemma UserNameIdentityToken_zero_owns [simp]: "own_UserNameIdentityToken UserNameIdentityToken_zero = 0"
  by (simp add: own_UserNameIdentityToken_def UserNameIdentityToken_zero_def)

record UA_X509IdentityToken =
  X509IdentityToken_policyId :: native_string
  X509IdentityToken_certificateData :: native_string

definition X509IdentityToken_zero :: "UA_X509IdentityToken" where
  "X509IdentityToken_zero = \<lparr>X509IdentityToken_policyId = NullString, X509IdentityToken_certificateData = NullString\<rparr>"

definition own_X509IdentityToken :: "UA_X509IdentityToken \<Rightarrow> int" where
  "own_X509IdentityToken r = own_string (X509IdentityToken_policyId r) + own_string (X509IdentityToken_certificateData r)"

definition mkX509IdentityToken :: "native_string \<Rightarrow> (mem, UA_X509IdentityToken) op" where
  "mkX509IdentityToken certificateData =
     construct_wrapper own_X509IdentityToken (\<lambda>_. False) X509IdentityToken_zero (own_string certificateData)
       [put_moved (\<lambda>x r. r\<lparr>X509IdentityToken_certificateData := x\<rparr>) own_string NullString certificateData]"

lemma mkX509IdentityToken_sound:
  "sound_ctor False own_X509IdentityToken (own_string certificateData)
    (mkX509IdentityToken certificateData)
    \<lparr>X509IdentityToken_policyId = NullString, X509IdentityToken_certificateData = certificateData\<rparr>"
  unfolding mkX509IdentityToken_def by (intro member sound_body_ctor)
    (simp_all add: X509IdentityToken_zero_def own_X509IdentityToken_def)

lemma X509IdentityToken_zero_owns [simp]: "own_X509IdentityToken X509IdentityToken_zero = 0"
  by (simp add: own_X509IdentityToken_def X509IdentityToken_zero_def)

record UA_IssuedIdentityToken =
  IssuedIdentityToken_policyId :: native_string
  IssuedIdentityToken_tokenData :: native_string
  IssuedIdentityToken_encryptionAlgorithm :: native_string

definition IssuedIdentityToken_zero :: "UA_IssuedIdentityToken" where
  "IssuedIdentityToken_zero = \<lparr>IssuedIdentityToken_policyId = NullString, IssuedIdentityToken_tokenData = NullString,
     IssuedIdentityToken_encryptionAlgorithm = NullString\<rparr>"

definition own_IssuedIdentityToken :: "UA_IssuedIdentityToken \<Rightarrow> int" where
  "own_IssuedIdentityToken r = own_string (IssuedIdentityToken_policyId r) + own_string (IssuedIdentityToken_tokenData r) +
     own_string (IssuedIdentityToken_encryptionAlgorithm r)"

definition mkIssuedIdentityToken :: "native_string \<Rightarrow> view \<Rightarrow> (mem, UA_IssuedIdentityToken) op" where
  "mkIssuedIdentityToken tokenData encryptionAlgorithm =
     construct_wrapper own_IssuedIdentityToken (\<lambda>_. False) IssuedIdentityToken_zero (own_string tokenData)
       [put_moved (\<lambda>x r. r\<lparr>IssuedIdentityToken_tokenData := x\<rparr>) own_string NullString tokenData,
        put_view (\<lambda>x r. r\<lparr>IssuedIdentityToken_encryptionAlgorithm := x\<rparr>) encryptionAlgorithm]"

lemma mkIssuedIdentityToken_sound:
  "sound_ctor False own_IssuedIdentityToken (own_string tokenData)
    (mkIssuedIdentityToken tokenData encryptionAlgorithm)
    \<lparr>IssuedIdentityToken_policyId = NullString, IssuedIdentityToken_tokenData = tokenData,
     IssuedIdentityToken_encryptionAlgorithm = toNativeString encryptionAlgorithm\<rparr>"
  unfolding mkIssuedIdentityToken_def by (intro member sound_body_ctor)
    (simp_all add: IssuedIdentityToken_zero_def own_IssuedIdentityToken_def)

lemma IssuedIdentityToken_zero_owns [simp]: "own_IssuedIdentityToken IssuedIdentityToken_zero = 0"
  by (simp add: own_IssuedIdentityToken_def IssuedIdentityToken_zero_def)

record 'v UA_AddNodesItem =
  AddNodesItem_parentNodeId :: ExpandedNodeId
  AddNodesItem_referenceTypeId :: NodeId
  AddNodesItem_requestedNewNodeId :: ExpandedNodeId
  AddNodesItem_browseName :: QualifiedName
  AddNodesItem_nodeClass :: "32 word"
  AddNodesItem_nodeAttributes :: "'v ExtensionObject nested"
  AddNodesItem_typeDefinition :: ExpandedNodeId

definition AddNodesItem_zero :: "'v UA_AddNodesItem" where
  "AddNodesItem_zero = \<lparr>AddNodesItem_parentNodeId = null_ExpandedNodeId, AddNodesItem_referenceTypeId = null_NodeId,
     AddNodesItem_requestedNewNodeId = null_ExpandedNodeId, AddNodesItem_browseName = null_QualifiedName, AddNodesItem_nodeClass = 0,
     AddNodesItem_nodeAttributes = (empty_nested EncodedNoBody), AddNodesItem_typeDefinition = null_ExpandedNodeId\<rparr>"

definition own_AddNodesItem :: "'v UA_AddNodesItem \<Rightarrow> int" where
  "own_AddNodesItem r = own_ExpandedNodeId (AddNodesItem_parentNodeId r) + own_NodeId (AddNodesItem_referenceTypeId r) +
     own_ExpandedNodeId (AddNodesItem_requestedNewNodeId r) + own_QualifiedName (AddNodesItem_browseName r) +
     own_nested (AddNodesItem_nodeAttributes r) + own_ExpandedNodeId (AddNodesItem_typeDefinition r)"

definition mkAddNodesItem :: "ExpandedNodeId \<Rightarrow> NodeId \<Rightarrow> ExpandedNodeId \<Rightarrow> QualifiedName \<Rightarrow>
     NodeClass option \<Rightarrow> 'v ExtensionObject nested \<Rightarrow> ExpandedNodeId \<Rightarrow> (mem, 'v UA_AddNodesItem) op" where
  "mkAddNodesItem parentNodeId referenceTypeId requestedNewNodeId browseName nodeClass nodeAttributes typeDefinition =
     construct_wrapper own_AddNodesItem (\<lambda>_. False) AddNodesItem_zero (own_ExpandedNodeId parentNodeId + own_NodeId referenceTypeId +
     own_ExpandedNodeId requestedNewNodeId + own_QualifiedName browseName + own_nested nodeAttributes +
     own_ExpandedNodeId typeDefinition)
       [put_moved (\<lambda>x r. r\<lparr>AddNodesItem_parentNodeId := x\<rparr>) own_ExpandedNodeId null_ExpandedNodeId parentNodeId,
        put_moved (\<lambda>x r. r\<lparr>AddNodesItem_referenceTypeId := x\<rparr>) own_NodeId null_NodeId referenceTypeId,
        put_moved (\<lambda>x r. r\<lparr>AddNodesItem_requestedNewNodeId := x\<rparr>) own_ExpandedNodeId null_ExpandedNodeId requestedNewNodeId,
        put_moved (\<lambda>x r. r\<lparr>AddNodesItem_browseName := x\<rparr>) own_QualifiedName null_QualifiedName browseName,
        put (\<lambda>r. r\<lparr>AddNodesItem_nodeClass := NodeClass_code nodeClass\<rparr>),
        put_moved (\<lambda>x r. r\<lparr>AddNodesItem_nodeAttributes := x\<rparr>) own_nested (empty_nested EncodedNoBody) nodeAttributes,
        put_moved (\<lambda>x r. r\<lparr>AddNodesItem_typeDefinition := x\<rparr>) own_ExpandedNodeId null_ExpandedNodeId typeDefinition]"

lemma mkAddNodesItem_sound:
  "sound_ctor False own_AddNodesItem (own_ExpandedNodeId parentNodeId + own_NodeId referenceTypeId + own_ExpandedNodeId requestedNewNodeId +
     own_QualifiedName browseName + own_nested nodeAttributes + own_ExpandedNodeId typeDefinition)
    (mkAddNodesItem parentNodeId referenceTypeId requestedNewNodeId browseName nodeClass nodeAttributes typeDefinition)
    \<lparr>AddNodesItem_parentNodeId = parentNodeId, AddNodesItem_referenceTypeId = referenceTypeId,
     AddNodesItem_requestedNewNodeId = requestedNewNodeId, AddNodesItem_browseName = browseName,
     AddNodesItem_nodeClass = NodeClass_code nodeClass, AddNodesItem_nodeAttributes = nodeAttributes,
     AddNodesItem_typeDefinition = typeDefinition\<rparr>"
  unfolding mkAddNodesItem_def by (intro member sound_body_ctor)
    (simp_all add: AddNodesItem_zero_def own_AddNodesItem_def)

lemma AddNodesItem_zero_owns [simp]: "own_AddNodesItem AddNodesItem_zero = 0"
  by (simp add: own_AddNodesItem_def AddNodesItem_zero_def)

record 'v UA_AddNodesRequest =
  AddNodesRequest_requestHeader :: "'v UA_RequestHeader"
  AddNodesRequest_nodesToAddSize :: nat
  AddNodesRequest_nodesToAdd :: "('v UA_AddNodesItem) vdata"

definition AddNodesRequest_zero :: "'v UA_AddNodesRequest" where
  "AddNodesRequest_zero = \<lparr>AddNodesRequest_requestHeader = RequestHeader_zero, AddNodesRequest_nodesToAddSize = 0,
     AddNodesRequest_nodesToAdd = NullPtr\<rparr>"

definition own_AddNodesRequest :: "'v UA_AddNodesRequest \<Rightarrow> int" where
  "own_AddNodesRequest r = own_RequestHeader (AddNodesRequest_requestHeader r) +
     own_array own_AddNodesItem (AddNodesRequest_nodesToAdd r)"

definition bad_AddNodesRequest :: "'v UA_AddNodesRequest \<Rightarrow> bool" where
  "bad_AddNodesRequest r = (AddNodesRequest_nodesToAddSize r \<noteq> 0 \<and> AddNodesRequest_nodesToAdd r = NullPtr)"

definition mkAddNodesRequest :: "('v UA_AddNodesItem \<Rightarrow> (mem, 'v UA_AddNodesItem) op) \<Rightarrow>
     'v UA_RequestHeader \<Rightarrow> ('v UA_AddNodesItem) list \<Rightarrow> (mem, 'v UA_AddNodesRequest) op" where
  "mkAddNodesRequest copy_nodesToAdd requestHeader nodesToAdd =
     construct_wrapper own_AddNodesRequest bad_AddNodesRequest AddNodesRequest_zero (own_RequestHeader requestHeader)
       [put_moved (\<lambda>x r. r\<lparr>AddNodesRequest_requestHeader := x\<rparr>) own_RequestHeader RequestHeader_zero requestHeader,
        put (\<lambda>r. r\<lparr>AddNodesRequest_nodesToAddSize := length nodesToAdd\<rparr>),
        put_array (\<lambda>x r. r\<lparr>AddNodesRequest_nodesToAdd := x\<rparr>) own_AddNodesItem copy_nodesToAdd nodesToAdd]"

lemma mkAddNodesRequest_sound:
  assumes "value_source own_AddNodesItem copy_nodesToAdd (\<lambda>x. x)"
  shows "sound_ctor (nodesToAdd \<noteq> []) own_AddNodesRequest (own_RequestHeader requestHeader)
    (mkAddNodesRequest copy_nodesToAdd requestHeader nodesToAdd)
    \<lparr>AddNodesRequest_requestHeader = requestHeader, AddNodesRequest_nodesToAddSize = length nodesToAdd,
     AddNodesRequest_nodesToAdd = array_of nodesToAdd\<rparr>"
  unfolding mkAddNodesRequest_def by (intro member sound_body_ctor)
    (simp_all add: AddNodesRequest_zero_def own_AddNodesRequest_def bad_AddNodesRequest_def assms)

lemma AddNodesRequest_zero_owns [simp]: "own_AddNodesRequest AddNodesRequest_zero = 0"
  by (simp add: own_AddNodesRequest_def AddNodesRequest_zero_def)

record UA_AddReferencesItem =
  AddReferencesItem_sourceNodeId :: NodeId
  AddReferencesItem_referenceTypeId :: NodeId
  AddReferencesItem_isForward :: bool
  AddReferencesItem_targetServerUri :: native_string
  AddReferencesItem_targetNodeId :: ExpandedNodeId
  AddReferencesItem_targetNodeClass :: "32 word"

definition AddReferencesItem_zero :: "UA_AddReferencesItem" where
  "AddReferencesItem_zero = \<lparr>AddReferencesItem_sourceNodeId = null_NodeId, AddReferencesItem_referenceTypeId = null_NodeId,
     AddReferencesItem_isForward = False, AddReferencesItem_targetServerUri = NullString,
     AddReferencesItem_targetNodeId = null_ExpandedNodeId, AddReferencesItem_targetNodeClass = 0\<rparr>"

definition own_AddReferencesItem :: "UA_AddReferencesItem \<Rightarrow> int" where
  "own_AddReferencesItem r = own_NodeId (AddReferencesItem_sourceNodeId r) + own_NodeId (AddReferencesItem_referenceTypeId r) +
     own_string (AddReferencesItem_targetServerUri r) + own_ExpandedNodeId (AddReferencesItem_targetNodeId r)"

definition mkAddReferencesItem :: "NodeId \<Rightarrow> NodeId \<Rightarrow> bool \<Rightarrow> view \<Rightarrow>
     ExpandedNodeId \<Rightarrow> NodeClass option \<Rightarrow> (mem, UA_AddReferencesItem) op" where
  "mkAddReferencesItem sourceNodeId referenceTypeId isForward targetServerUri targetNodeId targetNodeClass =
     construct_wrapper own_AddReferencesItem (\<lambda>_. False) AddReferencesItem_zero (own_NodeId sourceNodeId +
     own_NodeId referenceTypeId + own_ExpandedNodeId targetNodeId)
       [put_moved (\<lambda>x r. r\<lparr>AddReferencesItem_sourceNodeId := x\<rparr>) own_NodeId null_NodeId sourceNodeId,
        put_moved (\<lambda>x r. r\<lparr>AddReferencesItem_referenceTypeId := x\<rparr>) own_NodeId null_NodeId referenceTypeId,
        put (\<lambda>r. r\<lparr>AddReferencesItem_isForward := isForward\<rparr>),
        put_view (\<lambda>x r. r\<lparr>AddReferencesItem_targetServerUri := x\<rparr>) targetServerUri,
        put_moved (\<lambda>x r. r\<lparr>AddReferencesItem_targetNodeId := x\<rparr>) own_ExpandedNodeId null_ExpandedNodeId targetNodeId,
        put (\<lambda>r. r\<lparr>AddReferencesItem_targetNodeClass := NodeClass_code targetNodeClass\<rparr>)]"

lemma mkAddReferencesItem_sound:
  "sound_ctor False own_AddReferencesItem (own_NodeId sourceNodeId + own_NodeId referenceTypeId + own_ExpandedNodeId targetNodeId)
    (mkAddReferencesItem sourceNodeId referenceTypeId isForward targetServerUri targetNodeId targetNodeClass)
    \<lparr>AddReferencesItem_sourceNodeId = sourceNodeId, AddReferencesItem_referenceTypeId = referenceTypeId,
     AddReferencesItem_isForward = isForward, AddReferencesItem_targetServerUri = toNativeString targetServerUri,
     AddReferencesItem_targetNodeId = targetNodeId, AddReferencesItem_targetNodeClass = NodeClass_code targetNodeClass\<rparr>"
  unfolding mkAddReferencesItem_def by (intro member sound_body_ctor)
    (simp_all add: AddReferencesItem_zero_def own_AddReferencesItem_def)

lemma AddReferencesItem_zero_owns [simp]: "own_AddReferencesItem AddReferencesItem_zero = 0"
  by (simp add: own_AddReferencesItem_def AddReferencesItem_zero_def)

record 'v UA_AddReferencesRequest =
  AddReferencesRequest_requestHeader :: "'v UA_RequestHeader"
  AddReferencesRequest_referencesToAddSize :: nat
  AddReferencesRequest_referencesToAdd :: "UA_AddReferencesItem vdata"

definition AddReferencesRequest_zero :: "'v UA_AddReferencesRequest" where
  "AddReferencesRequest_zero = \<lparr>AddReferencesRequest_requestHeader = RequestHeader_zero, AddReferencesRequest_referencesToAddSize = 0,
     AddReferencesRequest_referencesToAdd = NullPtr\<rparr>"

definition own_AddReferencesRequest :: "'v UA_AddReferencesRequest \<Rightarrow> int" where
  "own_AddReferencesRequest r = own_RequestHeader (AddReferencesRequest_requestHeader r) +
     own_array own_AddReferencesItem (AddReferencesRequest_referencesToAdd r)"

definition bad_AddReferencesRequest :: "'v UA_AddReferencesRequest \<Rightarrow> bool" where
  "bad_AddReferencesRequest r = (AddReferencesRequest_referencesToAddSize r \<noteq> 0 \<and> AddReferencesRequest_referencesToAdd r = NullPtr)"

definition mkAddReferencesRequest :: "(UA_AddReferencesItem \<Rightarrow> (mem, UA_AddReferencesItem) op) \<Rightarrow>
     'v UA_RequestHeader \<Rightarrow> UA_AddReferencesItem list \<Rightarrow> (mem, 'v UA_AddReferencesRequest) op" where
  "mkAddReferencesRequest copy_referencesToAdd requestHeader referencesToAdd =
     construct_wrapper own_AddReferencesRequest bad_AddReferencesRequest AddReferencesRequest_zero (own_RequestHeader requestHeader)
       [put_moved (\<lambda>x r. r\<lparr>AddReferencesRequest_requestHeader := x\<rparr>) own_RequestHeader RequestHeader_zero requestHeader,
        put (\<lambda>r. r\<lparr>AddReferencesRequest_referencesToAddSize := length referencesToAdd\<rparr>),
        put_array (\<lambda>x r. r\<lparr>AddReferencesRequest_referencesToAdd := x\<rparr>) own_AddReferencesItem copy_referencesToAdd referencesToAdd]"

lemma mkAddReferencesRequest_sound:
  assumes "value_source own_AddReferencesItem copy_referencesToAdd (\<lambda>x. x)"
  shows "sound_ctor (referencesToAdd \<noteq> []) own_AddReferencesRequest (own_RequestHeader requestHeader)
    (mkAddReferencesRequest copy_referencesToAdd requestHeader referencesToAdd)
    \<lparr>AddReferencesRequest_requestHeader = requestHeader, AddReferencesRequest_referencesToAddSize = length referencesToAdd,
     AddReferencesRequest_referencesToAdd = array_of referencesToAdd\<rparr>"
  unfolding mkAddReferencesRequest_def by (intro member sound_body_ctor)
    (simp_all add: AddReferencesRequest_zero_def own_AddReferencesRequest_def bad_AddReferencesRequest_def assms)

lemma AddReferencesRequest_zero_owns [simp]: "own_AddReferencesRequest AddReferencesRequest_zero = 0"
  by (simp add: own_AddReferencesRequest_def AddReferencesRequest_zero_def)

record UA_DeleteNodesItem =
  DeleteNodesItem_nodeId :: NodeId
  DeleteNodesItem_deleteTargetReferences :: bool

definition DeleteNodesItem_zero :: "UA_DeleteNodesItem" where
  "DeleteNodesItem_zero = \<lparr>DeleteNodesItem_nodeId = null_NodeId, DeleteNodesItem_deleteTargetReferences = False\<rparr>"

definition own_DeleteNodesItem :: "UA_DeleteNodesItem \<Rightarrow> int" where
  "own_DeleteNodesItem r = own_NodeId (DeleteNodesItem_nodeId r)"

definition mkDeleteNodesItem :: "NodeId \<Rightarrow> bool \<Rightarrow> (mem, UA_DeleteNodesItem) op" where
  "mkDeleteNodesItem nodeId deleteTargetReferences =
     construct_wrapper own_DeleteNodesItem (\<lambda>_. False) DeleteNodesItem_zero (own_NodeId nodeId)
       [put_moved (\<lambda>x r. r\<lparr>DeleteNodesItem_nodeId := x\<rparr>) own_NodeId null_NodeId nodeId,
        put (\<lambda>r. r\<lparr>DeleteNodesItem_deleteTargetReferences := deleteTargetReferences\<rparr>)]"

lemma mkDeleteNodesItem_sound:
  "sound_ctor False own_DeleteNodesItem (own_NodeId nodeId)
    (mkDeleteNodesItem nodeId deleteTargetReferences)
    \<lparr>DeleteNodesItem_nodeId = nodeId, DeleteNodesItem_deleteTargetReferences = deleteTargetReferences\<rparr>"
  unfolding mkDeleteNodesItem_def by (intro member sound_body_ctor)
    (simp_all add: DeleteNodesItem_zero_def own_DeleteNodesItem_def)

lemma DeleteNodesItem_zero_owns [simp]: "own_DeleteNodesItem DeleteNodesItem_zero = 0"
  by (simp add: own_DeleteNodesItem_def DeleteNodesItem_zero_def)

record 'v UA_DeleteNodesRequest =
  DeleteNodesRequest_requestHeader :: "'v UA_RequestHeader"
  DeleteNodesRequest_nodesToDeleteSize :: nat
  DeleteNodesRequest_nodesToDelete :: "UA_DeleteNodesItem vdata"

definition DeleteNodesRequest_zero :: "'v UA_DeleteNodesRequest" where
  "DeleteNodesRequest_zero = \<lparr>DeleteNodesRequest_requestHeader = RequestHeader_zero, DeleteNodesRequest_nodesToDeleteSize = 0,
     DeleteNodesRequest_nodesToDelete = NullPtr\<rparr>"

definition own_DeleteNodesRequest :: "'v UA_DeleteNodesRequest \<Rightarrow> int" where
  "own_DeleteNodesRequest r = own_RequestHeader (DeleteNodesRequest_requestHeader r) +
     own_array own_DeleteNodesItem (DeleteNodesRequest_nodesToDelete r)"

definition bad_DeleteNodesRequest :: "'v UA_DeleteNodesRequest \<Rightarrow> bool" where
  "bad_DeleteNodesRequest r = (DeleteNodesRequest_nodesToDeleteSize r \<noteq> 0 \<and> DeleteNodesRequest_nodesToDelete r = NullPtr)"

definition mkDeleteNodesRequest :: "(UA_DeleteNodesItem \<Rightarrow> (mem, UA_DeleteNodesItem) op) \<Rightarrow>
     'v UA_RequestHeader \<Rightarrow> UA_DeleteNodesItem list \<Rightarrow> (mem, 'v UA_DeleteNodesRequest) op" where
  "mkDeleteNodesRequest copy_nodesToDelete requestHeader nodesToDelete =
     construct_wrapper own_DeleteNodesRequest bad_DeleteNodesRequest DeleteNodesRequest_zero (own_RequestHeader requestHeader)
       [put_moved (\<lambda>x r. r\<lparr>DeleteNodesRequest_requestHeader := x\<rparr>) own_RequestHeader RequestHeader_zero requestHeader,
        put (\<lambda>r. r\<lparr>DeleteNodesRequest_nodesToDeleteSize := length nodesToDelete\<rparr>),
        put_array (\<lambda>x r. r\<lparr>DeleteNodesRequest_nodesToDelete := x\<rparr>) own_DeleteNodesItem copy_nodesToDelete nodesToDelete]"

lemma mkDeleteNodesRequest_sound:
  assumes "value_source own_DeleteNodesItem copy_nodesToDelete (\<lambda>x. x)"
  shows "sound_ctor (nodesToDelete \<noteq> []) own_DeleteNodesRequest (own_RequestHeader requestHeader)
    (mkDeleteNodesRequest copy_nodesToDelete requestHeader nodesToDelete)
    \<lparr>DeleteNodesRequest_requestHeader = requestHeader, DeleteNodesRequest_nodesToDeleteSize = length nodesToDelete,
     DeleteNodesRequest_nodesToDelete = array_of nodesToDelete\<rparr>"
  unfolding mkDeleteNodesRequest_def by (intro member sound_body_ctor)
    (simp_all add: DeleteNodesRequest_zero_def own_DeleteNodesRequest_def bad_DeleteNodesRequest_def assms)

lemma DeleteNodesRequest_zero_owns [simp]: "own_DeleteNodesRequest DeleteNodesRequest_zero = 0"
  by (simp add: own_DeleteNodesRequest_def DeleteNodesRequest_zero_def)

record UA_DeleteReferencesItem =
  DeleteReferencesItem_sourceNodeId :: NodeId
  DeleteReferencesItem_referenceTypeId :: NodeId
  DeleteReferencesItem_isForward :: bool
  DeleteReferencesItem_targetNodeId :: ExpandedNodeId
  DeleteReferencesItem_deleteBidirectional :: bool

definition DeleteReferencesItem_zero :: "UA_DeleteReferencesItem" where
  "DeleteReferencesItem_zero = \<lparr>DeleteReferencesItem_sourceNodeId = null_NodeId, DeleteReferencesItem_referenceTypeId = null_NodeId,
     DeleteReferencesItem_isForward = False, DeleteReferencesItem_targetNodeId = null_ExpandedNodeId,
     DeleteReferencesItem_deleteBidirectional = False\<rparr>"

definition own_DeleteReferencesItem :: "UA_DeleteReferencesItem \<Rightarrow> int" where
  "own_DeleteReferencesItem r = own_NodeId (DeleteReferencesItem_sourceNodeId r) + own_NodeId (DeleteReferencesItem_referenceTypeId r) +
     own_ExpandedNodeId (DeleteReferencesItem_targetNodeId r)"

definition mkDeleteReferencesItem :: "NodeId \<Rightarrow> NodeId \<Rightarrow> bool \<Rightarrow> ExpandedNodeId \<Rightarrow> bool \<Rightarrow> (mem, UA_DeleteReferencesItem) op" where
  "mkDeleteReferencesItem sourceNodeId referenceTypeId isForward targetNodeId deleteBidirectional =
     construct_wrapper own_DeleteReferencesItem (\<lambda>_. False) DeleteReferencesItem_zero (own_NodeId sourceNodeId +
     own_NodeId referenceTypeId + own_ExpandedNodeId targetNodeId)
       [put_moved (\<lambda>x r. r\<lparr>DeleteReferencesItem_sourceNodeId := x\<rparr>) own_NodeId null_NodeId sourceNodeId,
        put_moved (\<lambda>x r. r\<lparr>DeleteReferencesItem_referenceTypeId := x\<rparr>) own_NodeId null_NodeId referenceTypeId,
        put (\<lambda>r. r\<lparr>DeleteReferencesItem_isForward := isForward\<rparr>),
        put_moved (\<lambda>x r. r\<lparr>DeleteReferencesItem_targetNodeId := x\<rparr>) own_ExpandedNodeId null_ExpandedNodeId targetNodeId,
        put (\<lambda>r. r\<lparr>DeleteReferencesItem_deleteBidirectional := deleteBidirectional\<rparr>)]"

lemma mkDeleteReferencesItem_sound:
  "sound_ctor False own_DeleteReferencesItem (own_NodeId sourceNodeId + own_NodeId referenceTypeId +
     own_ExpandedNodeId targetNodeId)
    (mkDeleteReferencesItem sourceNodeId referenceTypeId isForward targetNodeId deleteBidirectional)
    \<lparr>DeleteReferencesItem_sourceNodeId = sourceNodeId, DeleteReferencesItem_referenceTypeId = referenceTypeId,
     DeleteReferencesItem_isForward = isForward, DeleteReferencesItem_targetNodeId = targetNodeId,
     DeleteReferencesItem_deleteBidirectional = deleteBidirectional\<rparr>"
  unfolding mkDeleteReferencesItem_def by (intro member sound_body_ctor)
    (simp_all add: DeleteReferencesItem_zero_def own_DeleteReferencesItem_def)

lemma DeleteReferencesItem_zero_owns [simp]: "own_DeleteReferencesItem DeleteReferencesItem_zero = 0"
  by (simp add: own_DeleteReferencesItem_def DeleteReferencesItem_zero_def)

record 'v UA_DeleteReferencesRequest =
  DeleteReferencesRequest_requestHeader :: "'v UA_RequestHeader"
  DeleteReferencesRequest_referencesToDeleteSize :: nat
  DeleteReferencesRequest_referencesToDelete :: "UA_DeleteReferencesItem vdata"

definition DeleteReferencesRequest_zero :: "'v UA_DeleteReferencesRequest" where
  "DeleteReferencesRequest_zero = \<lparr>DeleteReferencesRequest_requestHeader = RequestHeader_zero,
     DeleteReferencesRequest_referencesToDeleteSize = 0, DeleteReferencesRequest_referencesToDelete = NullPtr\<rparr>"

definition own_DeleteReferencesRequest :: "'v UA_DeleteReferencesRequest \<Rightarrow> int" where
  "own_DeleteReferencesRequest r = own_RequestHeader (DeleteReferencesRequest_requestHeader r) +
     own_array own_DeleteReferencesItem (DeleteReferencesRequest_referencesToDelete r)"

definition bad_DeleteReferencesRequest :: "'v UA_DeleteReferencesRequest \<Rightarrow> bool" where
  "bad_DeleteReferencesRequest r = (DeleteReferencesRequest_referencesToDeleteSize r \<noteq> 0 \<and> DeleteReferencesRequest_referencesToDelete r = NullPtr)"

definition mkDeleteReferencesRequest :: "(UA_DeleteReferencesItem \<Rightarrow> (mem, UA_DeleteReferencesItem) op) \<Rightarrow>
     'v UA_RequestHeader \<Rightarrow> UA_DeleteReferencesItem list \<Rightarrow> (mem, 'v UA_DeleteReferencesRequest) op" where
  "mkDeleteReferencesRequest copy_referencesToDelete requestHeader referencesToDelete =
     construct_wrapper own_DeleteReferencesRequest bad_DeleteReferencesRequest DeleteReferencesRequest_zero (own_RequestHeader requestHeader)
       [put_moved (\<lambda>x r. r\<lparr>DeleteReferencesRequest_requestHeader := x\<rparr>) own_RequestHeader RequestHeader_zero requestHeader,
        put (\<lambda>r. r\<lparr>DeleteReferencesRequest_referencesToDeleteSize := length referencesToDelete\<rparr>),
        put_array (\<lambda>x r. r\<lparr>DeleteReferencesRequest_referencesToDelete := x\<rparr>) own_DeleteReferencesItem copy_referencesToDelete referencesToDelete]"

lemma mkDeleteReferencesRequest_sound:
  assumes "value_source own_DeleteReferencesItem copy_referencesToDelete (\<lambda>x. x)"
  shows "sound_ctor (referencesToDelete \<noteq> []) own_DeleteReferencesRequest (own_RequestHeader requestHeader)
    (mkDeleteReferencesRequest copy_referencesToDelete requestHeader referencesToDelete)
    \<lparr>DeleteReferencesRequest_requestHeader = requestHeader,
     DeleteReferencesRequest_referencesToDeleteSize = length referencesToDelete,
     DeleteReferencesRequest_referencesToDelete = array_of referencesToDelete\<rparr>"
  unfolding mkDeleteReferencesRequest_def by (intro member sound_body_ctor)
    (simp_all add: DeleteReferencesRequest_zero_def own_DeleteReferencesRequest_def bad_DeleteReferencesRequest_def assms)

lemma DeleteReferencesRequest_zero_owns [simp]: "own_DeleteReferencesRequest DeleteReferencesRequest_zero = 0"
  by (simp add: own_DeleteReferencesRequest_def DeleteReferencesRequest_zero_def)

record UA_ViewDescription =
  ViewDescription_viewId :: NodeId
  ViewDescription_timestamp :: int
  ViewDescription_viewVersion :: u32

definition ViewDescription_zero :: "UA_ViewDescription" where
  "ViewDescription_zero = \<lparr>ViewDescription_viewId = null_NodeId, ViewDescription_timestamp = 0, ViewDescription_viewVersion = 0\<rparr>"

definition own_ViewDescription :: "UA_ViewDescription \<Rightarrow> int" where
  "own_ViewDescription r = own_NodeId (ViewDescription_viewId r)"

definition mkViewDescription :: "NodeId \<Rightarrow> int \<Rightarrow> u32 \<Rightarrow> (mem, UA_ViewDescription) op" where
  "mkViewDescription viewId timestamp viewVersion =
     construct_wrapper own_ViewDescription (\<lambda>_. False) ViewDescription_zero (own_NodeId viewId)
       [put_moved (\<lambda>x r. r\<lparr>ViewDescription_viewId := x\<rparr>) own_NodeId null_NodeId viewId,
        put (\<lambda>r. r\<lparr>ViewDescription_timestamp := timestamp\<rparr>),
        put (\<lambda>r. r\<lparr>ViewDescription_viewVersion := viewVersion\<rparr>)]"

lemma mkViewDescription_sound:
  "sound_ctor False own_ViewDescription (own_NodeId viewId)
    (mkViewDescription viewId timestamp viewVersion)
    \<lparr>ViewDescription_viewId = viewId, ViewDescription_timestamp = timestamp, ViewDescription_viewVersion = viewVersion\<rparr>"
  unfolding mkViewDescription_def by (intro member sound_body_ctor)
    (simp_all add: ViewDescription_zero_def own_ViewDescription_def)

lemma ViewDescription_zero_owns [simp]: "own_ViewDescription ViewDescription_zero = 0"
  by (simp add: own_ViewDescription_def ViewDescription_zero_def)

record UA_BrowseDescription =
  BrowseDescription_nodeId :: NodeId
  BrowseDescription_browseDirection :: "32 word"
  BrowseDescription_referenceTypeId :: NodeId
  BrowseDescription_includeSubtypes :: bool
  BrowseDescription_nodeClassMask :: u32
  BrowseDescription_resultMask :: u32

definition BrowseDescription_zero :: "UA_BrowseDescription" where
  "BrowseDescription_zero = \<lparr>BrowseDescription_nodeId = null_NodeId, BrowseDescription_browseDirection = 0,
     BrowseDescription_referenceTypeId = null_NodeId, BrowseDescription_includeSubtypes = False, BrowseDescription_nodeClassMask = 0,
     BrowseDescription_resultMask = 0\<rparr>"

definition own_BrowseDescription :: "UA_BrowseDescription \<Rightarrow> int" where
  "own_BrowseDescription r = own_NodeId (BrowseDescription_nodeId r) + own_NodeId (BrowseDescription_referenceTypeId r)"

definition mkBrowseDescription :: "NodeId \<Rightarrow> BrowseDirection \<Rightarrow> NodeId \<Rightarrow> bool \<Rightarrow> u32 \<Rightarrow> u32 \<Rightarrow> (mem, UA_BrowseDescription) op" where
  "mkBrowseDescription nodeId browseDirection referenceTypeId includeSubtypes nodeClassMask resultMask =
     construct_wrapper own_BrowseDescription (\<lambda>_. False) BrowseDescription_zero (own_NodeId nodeId + own_NodeId referenceTypeId)
       [put_moved (\<lambda>x r. r\<lparr>BrowseDescription_nodeId := x\<rparr>) own_NodeId null_NodeId nodeId,
        put (\<lambda>r. r\<lparr>BrowseDescription_browseDirection := BrowseDirection_code browseDirection\<rparr>),
        put_moved (\<lambda>x r. r\<lparr>BrowseDescription_referenceTypeId := x\<rparr>) own_NodeId null_NodeId referenceTypeId,
        put (\<lambda>r. r\<lparr>BrowseDescription_includeSubtypes := includeSubtypes\<rparr>),
        put (\<lambda>r. r\<lparr>BrowseDescription_nodeClassMask := nodeClassMask\<rparr>),
        put (\<lambda>r. r\<lparr>BrowseDescription_resultMask := resultMask\<rparr>)]"

lemma mkBrowseDescription_sound:
  "sound_ctor False own_BrowseDescription (own_NodeId nodeId + own_NodeId referenceTypeId)
    (mkBrowseDescription nodeId browseDirection referenceTypeId includeSubtypes nodeClassMask resultMask)
    \<lparr>BrowseDescription_nodeId = nodeId, BrowseDescription_browseDirection = BrowseDirection_code browseDirection,
     BrowseDescription_referenceTypeId = referenceTypeId, BrowseDescription_includeSubtypes = includeSubtypes,
     BrowseDescription_nodeClassMask = nodeClassMask, BrowseDescription_resultMask = resultMask\<rparr>"
  unfolding mkBrowseDescription_def by (intro member sound_body_ctor)
    (simp_all add: BrowseDescription_zero_def own_BrowseDescription_def)

lemma BrowseDescription_zero_owns [simp]: "own_BrowseDescription BrowseDescription_zero = 0"
  by (simp add: own_BrowseDescription_def BrowseDescription_zero_def)

record 'v UA_BrowseRequest =
  BrowseRequest_requestHeader :: "'v UA_RequestHeader"
  BrowseRequest_view :: UA_ViewDescription
  BrowseRequest_requestedMaxReferencesPerNode :: u32
  BrowseRequest_nodesToBrowseSize :: nat
  BrowseRequest_nodesToBrowse :: "UA_BrowseDescription vdata"

definition BrowseRequest_zero :: "'v UA_BrowseRequest" where
  "BrowseRequest_zero = \<lparr>BrowseRequest_requestHeader = RequestHeader_zero, BrowseRequest_view = ViewDescription_zero,
     BrowseRequest_requestedMaxReferencesPerNode = 0, BrowseRequest_nodesToBrowseSize = 0, BrowseRequest_nodesToBrowse = NullPtr\<rparr>"

definition own_BrowseRequest :: "'v UA_BrowseRequest \<Rightarrow> int" where
  "own_BrowseRequest r = own_RequestHeader (BrowseRequest_requestHeader r) + own_ViewDescription (BrowseRequest_view r) +
     own_array own_BrowseDescription (BrowseRequest_nodesToBrowse r)"

definition bad_BrowseRequest :: "'v UA_BrowseRequest \<Rightarrow> bool" where
  "bad_BrowseRequest r = (BrowseRequest_nodesToBrowseSize r \<noteq> 0 \<and> BrowseRequest_nodesToBrowse r = NullPtr)"

definition mkBrowseRequest :: "(UA_BrowseDescription \<Rightarrow> (mem, UA_BrowseDescription) op) \<Rightarrow>
     'v UA_RequestHeader \<Rightarrow> UA_ViewDescription \<Rightarrow> u32 \<Rightarrow> UA_BrowseDescription list \<Rightarrow> (mem, 'v UA_BrowseRequest) op" where
  "mkBrowseRequest copy_nodesToBrowse requestHeader vw requestedMaxReferencesPerNode nodesToBrowse =
     construct_wrapper own_BrowseRequest bad_BrowseRequest BrowseRequest_zero (own_RequestHeader requestHeader +
     own_ViewDescription vw)
       [put_moved (\<lambda>x r. r\<lparr>BrowseRequest_requestHeader := x\<rparr>) own_RequestHeader RequestHeader_zero requestHeader,
        put_moved (\<lambda>x r. r\<lparr>BrowseRequest_view := x\<rparr>) own_ViewDescription ViewDescription_zero vw,
        put (\<lambda>r. r\<lparr>BrowseRequest_requestedMaxReferencesPerNode := requestedMaxReferencesPerNode\<rparr>),
        put (\<lambda>r. r\<lparr>BrowseRequest_nodesToBrowseSize := length nodesToBrowse\<rparr>),
        put_array (\<lambda>x r. r\<lparr>BrowseRequest_nodesToBrowse := x\<rparr>) own_BrowseDescription copy_nodesToBrowse nodesToBrowse]"

lemma mkBrowseRequest_sound:
  assumes "value_source own_BrowseDescription copy_nodesToBrowse (\<lambda>x. x)"
  shows "sound_ctor (nodesToBrowse \<noteq> []) own_BrowseRequest (own_RequestHeader requestHeader + own_ViewDescription vw)
    (mkBrowseRequest copy_nodesToBrowse requestHeader vw requestedMaxReferencesPerNode nodesToBrowse)
    \<lparr>BrowseRequest_requestHeader = requestHeader, BrowseRequest_view = vw,
     BrowseRequest_requestedMaxReferencesPerNode = requestedMaxReferencesPerNode, BrowseRequest_nodesToBrowseSize = length nodesToBrowse,
     BrowseRequest_nodesToBrowse = array_of nodesToBrowse\<rparr>"
  unfolding mkBrowseRequest_def by (intro member sound_body_ctor)
    (simp_all add: BrowseRequest_zero_def own_BrowseRequest_def bad_BrowseRequest_def assms)

lemma BrowseRequest_zero_owns [simp]: "own_BrowseRequest BrowseRequest_zero = 0"
  by (simp add: own_BrowseRequest_def BrowseRequest_zero_def)

record 'v UA_BrowseNextRequest =
  BrowseNextRequest_requestHeader :: "'v UA_RequestHeader"
  BrowseNextRequest_releaseContinuationPoints :: bool
  BrowseNextRequest_continuationPointsSize :: nat
  BrowseNextRequest_continuationPoints :: "native_string vdata"

definition BrowseNextRequest_zero :: "'v UA_BrowseNextRequest" where
  "BrowseNextRequest_zero = \<lparr>BrowseNextRequest_requestHeader = RequestHeader_zero,
     BrowseNextRequest_releaseContinuationPoints = False, BrowseNextRequest_continuationPointsSize = 0,
     BrowseNextRequest_continuationPoints = NullPtr\<rparr>"

definition own_BrowseNextRequest :: "'v UA_BrowseNextRequest \<Rightarrow> int" where
  "own_BrowseNextRequest r = own_RequestHeader (BrowseNextRequest_requestHeader r) +
     own_array own_string (BrowseNextRequest_continuationPoints r)"

definition bad_BrowseNextRequest :: "'v UA_BrowseNextRequest \<Rightarrow> bool" where
  "bad_BrowseNextRequest r = (BrowseNextRequest_continuationPointsSize r \<noteq> 0 \<and> BrowseNextRequest_continuationPoints r = NullPtr)"

definition mkBrowseNextRequest :: "(native_string \<Rightarrow> (mem, native_string) op) \<Rightarrow> 'v UA_RequestHeader \<Rightarrow>
     bool \<Rightarrow> native_string list \<Rightarrow> (mem, 'v UA_BrowseNextRequest) op" where
  "mkBrowseNextRequest copy_continuationPoints requestHeader releaseContinuationPoints continuationPoints =
     construct_wrapper own_BrowseNextRequest bad_BrowseNextRequest BrowseNextRequest_zero (own_RequestHeader requestHeader)
       [put_moved (\<lambda>x r. r\<lparr>BrowseNextRequest_requestHeader := x\<rparr>) own_RequestHeader RequestHeader_zero requestHeader,
        put (\<lambda>r. r\<lparr>BrowseNextRequest_releaseContinuationPoints := releaseContinuationPoints\<rparr>),
        put (\<lambda>r. r\<lparr>BrowseNextRequest_continuationPointsSize := length continuationPoints\<rparr>),
        put_array (\<lambda>x r. r\<lparr>BrowseNextRequest_continuationPoints := x\<rparr>) own_string copy_continuationPoints continuationPoints]"

lemma mkBrowseNextRequest_sound:
  assumes "value_source own_string copy_continuationPoints (\<lambda>x. x)"
  shows "sound_ctor (continuationPoints \<noteq> []) own_BrowseNextRequest (own_RequestHeader requestHeader)
    (mkBrowseNextRequest copy_continuationPoints requestHeader releaseContinuationPoints continuationPoints)
    \<lparr>BrowseNextRequest_requestHeader = requestHeader, BrowseNextRequest_releaseContinuationPoints = releaseContinuationPoints,
     BrowseNextRequest_continuationPointsSize = length continuationPoints,
     BrowseNextRequest_continuationPoints = array_of continuationPoints\<rparr>"
  unfolding mkBrowseNextRequest_def by (intro member sound_body_ctor)
    (simp_all add: BrowseNextRequest_zero_def own_BrowseNextRequest_def bad_BrowseNextRequest_def assms)

lemma BrowseNextRequest_zero_owns [simp]: "own_BrowseNextRequest BrowseNextRequest_zero = 0"
  by (simp add: own_BrowseNextRequest_def BrowseNextRequest_zero_def)

record UA_RelativePathElement =
  RelativePathElement_referenceTypeId :: NodeId
  RelativePathElement_isInverse :: bool
  RelativePathElement_includeSubtypes :: bool
  RelativePathElement_targetName :: QualifiedName

definition RelativePathElement_zero :: "UA_RelativePathElement" where
  "RelativePathElement_zero = \<lparr>RelativePathElement_referenceTypeId = null_NodeId, RelativePathElement_isInverse = False,
     RelativePathElement_includeSubtypes = False, RelativePathElement_targetName = null_QualifiedName\<rparr>"

definition own_RelativePathElement :: "UA_RelativePathElement \<Rightarrow> int" where
  "own_RelativePathElement r = own_NodeId (RelativePathElement_referenceTypeId r) +
     own_QualifiedName (RelativePathElement_targetName r)"

definition mkRelativePathElement :: "NodeId \<Rightarrow> bool \<Rightarrow> bool \<Rightarrow> QualifiedName \<Rightarrow> (mem, UA_RelativePathElement) op" where
  "mkRelativePathElement referenceTypeId isInverse includeSubtypes targetName =
     construct_wrapper own_RelativePathElement (\<lambda>_. False) RelativePathElement_zero (own_NodeId referenceTypeId +
     own_QualifiedName targetName)
       [put_moved (\<lambda>x r. r\<lparr>RelativePathElement_referenceTypeId := x\<rparr>) own_NodeId null_NodeId referenceTypeId,
        put (\<lambda>r. r\<lparr>RelativePathElement_isInverse := isInverse\<rparr>),
        put (\<lambda>r. r\<lparr>RelativePathElement_includeSubtypes := includeSubtypes\<rparr>),
        put_moved (\<lambda>x r. r\<lparr>RelativePathElement_targetName := x\<rparr>) own_QualifiedName null_QualifiedName targetName]"

lemma mkRelativePathElement_sound:
  "sound_ctor False own_RelativePathElement (own_NodeId referenceTypeId + own_QualifiedName targetName)
    (mkRelativePathElement referenceTypeId isInverse includeSubtypes targetName)
    \<lparr>RelativePathElement_referenceTypeId = referenceTypeId, RelativePathElement_isInverse = isInverse,
     RelativePathElement_includeSubtypes = includeSubtypes, RelativePathElement_targetName = targetName\<rparr>"
  unfolding mkRelativePathElement_def by (intro member sound_body_ctor)
    (simp_all add: RelativePathElement_zero_def own_RelativePathElement_def)

lemma RelativePathElement_zero_owns [simp]: "own_RelativePathElement RelativePathElement_zero = 0"
  by (simp add: own_RelativePathElement_def RelativePathElement_zero_def)

record UA_RelativePath =
  RelativePath_elementsSize :: nat
  RelativePath_elements :: "UA_RelativePathElement vdata"

definition RelativePath_zero :: "UA_RelativePath" where
  "RelativePath_zero = \<lparr>RelativePath_elementsSize = 0, RelativePath_elements = NullPtr\<rparr>"

definition own_RelativePath :: "UA_RelativePath \<Rightarrow> int" where
  "own_RelativePath r = own_array own_RelativePathElement (RelativePath_elements r)"

definition bad_RelativePath :: "UA_RelativePath \<Rightarrow> bool" where
  "bad_RelativePath r = (RelativePath_elementsSize r \<noteq> 0 \<and> RelativePath_elements r = NullPtr)"

definition mkRelativePath :: "(UA_RelativePathElement \<Rightarrow> (mem, UA_RelativePathElement) op) \<Rightarrow>
     UA_RelativePathElement list \<Rightarrow> (mem, UA_RelativePath) op" where
  "mkRelativePath copy_elts elts =
     construct_wrapper own_RelativePath bad_RelativePath RelativePath_zero 0
       [put (\<lambda>r. r\<lparr>RelativePath_elementsSize := length elts\<rparr>),
        put_array (\<lambda>x r. r\<lparr>RelativePath_elements := x\<rparr>) own_RelativePathElement copy_elts elts]"

lemma mkRelativePath_sound:
  assumes "value_source own_RelativePathElement copy_elts (\<lambda>x. x)"
  shows "sound_ctor (elts \<noteq> []) own_RelativePath 0
    (mkRelativePath copy_elts elts)
    \<lparr>RelativePath_elementsSize = length elts, RelativePath_elements = array_of elts\<rparr>"
  unfolding mkRelativePath_def by (intro member sound_body_ctor)
    (simp_all add: RelativePath_zero_def own_RelativePath_def bad_RelativePath_def assms)

lemma RelativePath_zero_owns [simp]: "own_RelativePath RelativePath_zero = 0"
  by (simp add: own_RelativePath_def RelativePath_zero_def)

record UA_BrowsePath =
  BrowsePath_startingNode :: NodeId
  BrowsePath_relativePath :: UA_RelativePath

definition BrowsePath_zero :: "UA_BrowsePath" where
  "BrowsePath_zero = \<lparr>BrowsePath_startingNode = null_NodeId, BrowsePath_relativePath = RelativePath_zero\<rparr>"

definition own_BrowsePath :: "UA_BrowsePath \<Rightarrow> int" where
  "own_BrowsePath r = own_NodeId (BrowsePath_startingNode r) + own_RelativePath (BrowsePath_relativePath r)"

definition mkBrowsePath :: "NodeId \<Rightarrow> UA_RelativePath \<Rightarrow> (mem, UA_BrowsePath) op" where
  "mkBrowsePath startingNode relativePath =
     construct_wrapper own_BrowsePath (\<lambda>_. False) BrowsePath_zero (own_NodeId startingNode + own_RelativePath relativePath)
       [put_moved (\<lambda>x r. r\<lparr>BrowsePath_startingNode := x\<rparr>) own_NodeId null_NodeId startingNode,
        put_moved (\<lambda>x r. r\<lparr>BrowsePath_relativePath := x\<rparr>) own_RelativePath RelativePath_zero relativePath]"

lemma mkBrowsePath_sound:
  "sound_ctor False own_BrowsePath (own_NodeId startingNode + own_RelativePath relativePath)
    (mkBrowsePath startingNode relativePath)
    \<lparr>BrowsePath_startingNode = startingNode, BrowsePath_relativePath = relativePath\<rparr>"
  unfolding mkBrowsePath_def by (intro member sound_body_ctor)
    (simp_all add: BrowsePath_zero_def own_BrowsePath_def)

lemma BrowsePath_zero_owns [simp]: "own_BrowsePath BrowsePath_zero = 0"
  by (simp add: own_BrowsePath_def BrowsePath_zero_def)

record 'v UA_TranslateBrowsePathsToNodeIdsRequest =
  TranslateBrowsePathsToNodeIdsRequest_requestHeader :: "'v UA_RequestHeader"
  TranslateBrowsePathsToNodeIdsRequest_browsePathsSize :: nat
  TranslateBrowsePathsToNodeIdsRequest_browsePaths :: "UA_BrowsePath vdata"

definition TranslateBrowsePathsToNodeIdsRequest_zero :: "'v UA_TranslateBrowsePathsToNodeIdsRequest" where
  "TranslateBrowsePathsToNodeIdsRequest_zero = \<lparr>TranslateBrowsePathsToNodeIdsRequest_requestHeader = RequestHeader_zero,
     TranslateBrowsePathsToNodeIdsRequest_browsePathsSize = 0, TranslateBrowsePathsToNodeIdsRequest_browsePaths = NullPtr\<rparr>"

definition own_TranslateBrowsePathsToNodeIdsRequest :: "'v UA_TranslateBrowsePathsToNodeIdsRequest \<Rightarrow> int" where
  "own_TranslateBrowsePathsToNodeIdsRequest r = own_RequestHeader (TranslateBrowsePathsToNodeIdsRequest_requestHeader r) +
     own_array own_BrowsePath (TranslateBrowsePathsToNodeIdsRequest_browsePaths r)"

definition bad_TranslateBrowsePathsToNodeIdsRequest :: "'v UA_TranslateBrowsePathsToNodeIdsRequest \<Rightarrow> bool" where
  "bad_TranslateBrowsePathsToNodeIdsRequest r = (TranslateBrowsePathsToNodeIdsRequest_browsePathsSize r \<noteq> 0 \<and> TranslateBrowsePathsToNodeIdsRequest_browsePaths r = NullPtr)"

definition mkTranslateBrowsePathsToNodeIdsRequest :: "(UA_BrowsePath \<Rightarrow> (mem, UA_BrowsePath) op) \<Rightarrow>
     'v UA_RequestHeader \<Rightarrow> UA_BrowsePath list \<Rightarrow> (mem, 'v UA_TranslateBrowsePathsToNodeIdsRequest) op" where
  "mkTranslateBrowsePathsToNodeIdsRequest copy_browsePaths requestHeader browsePaths =
     construct_wrapper own_TranslateBrowsePathsToNodeIdsRequest bad_TranslateBrowsePathsToNodeIdsRequest TranslateBrowsePathsToNodeIdsRequest_zero (own_RequestHeader requestHeader)
       [put_moved (\<lambda>x r. r\<lparr>TranslateBrowsePathsToNodeIdsRequest_requestHeader := x\<rparr>) own_RequestHeader RequestHeader_zero requestHeader,
        put (\<lambda>r. r\<lparr>TranslateBrowsePathsToNodeIdsRequest_browsePathsSize := length browsePaths\<rparr>),
        put_array (\<lambda>x r. r\<lparr>TranslateBrowsePathsToNodeIdsRequest_browsePaths := x\<rparr>) own_BrowsePath copy_browsePaths browsePaths]"

lemma mkTranslateBrowsePathsToNodeIdsRequest_sound:
  assumes "value_source own_BrowsePath copy_browsePaths (\<lambda>x. x)"
  shows "sound_ctor (browsePaths \<noteq> []) own_TranslateBrowsePathsToNodeIdsRequest (own_RequestHeader requestHeader)
    (mkTranslateBrowsePathsToNodeIdsRequest copy_browsePaths requestHeader browsePaths)
    \<lparr>TranslateBrowsePathsToNodeIdsRequest_requestHeader = requestHeader,
     TranslateBrowsePathsToNodeIdsRequest_browsePathsSize = length browsePaths,
     TranslateBrowsePathsToNodeIdsRequest_browsePaths = array_of browsePaths\<rparr>"
  unfolding mkTranslateBrowsePathsToNodeIdsRequest_def by (intro member sound_body_ctor)
    (simp_all add: TranslateBrowsePathsToNodeIdsRequest_zero_def own_TranslateBrowsePathsToNodeIdsRequest_def bad_TranslateBrowsePathsToNodeIdsRequest_def assms)

lemma TranslateBrowsePathsToNodeIdsRequest_zero_owns [simp]: "own_TranslateBrowsePathsToNodeIdsRequest TranslateBrowsePathsToNodeIdsRequest_zero = 0"
  by (simp add: own_TranslateBrowsePathsToNodeIdsRequest_def TranslateBrowsePathsToNodeIdsRequest_zero_def)

record 'v UA_RegisterNodesRequest =
  RegisterNodesRequest_requestHeader :: "'v UA_RequestHeader"
  RegisterNodesRequest_nodesToRegisterSize :: nat
  RegisterNodesRequest_nodesToRegister :: "NodeId vdata"

definition RegisterNodesRequest_zero :: "'v UA_RegisterNodesRequest" where
  "RegisterNodesRequest_zero = \<lparr>RegisterNodesRequest_requestHeader = RequestHeader_zero, RegisterNodesRequest_nodesToRegisterSize = 0,
     RegisterNodesRequest_nodesToRegister = NullPtr\<rparr>"

definition own_RegisterNodesRequest :: "'v UA_RegisterNodesRequest \<Rightarrow> int" where
  "own_RegisterNodesRequest r = own_RequestHeader (RegisterNodesRequest_requestHeader r) +
     own_array own_NodeId (RegisterNodesRequest_nodesToRegister r)"

definition bad_RegisterNodesRequest :: "'v UA_RegisterNodesRequest \<Rightarrow> bool" where
  "bad_RegisterNodesRequest r = (RegisterNodesRequest_nodesToRegisterSize r \<noteq> 0 \<and> RegisterNodesRequest_nodesToRegister r = NullPtr)"

definition mkRegisterNodesRequest :: "(NodeId \<Rightarrow> (mem, NodeId) op) \<Rightarrow> 'v UA_RequestHeader \<Rightarrow>
     NodeId list \<Rightarrow> (mem, 'v UA_RegisterNodesRequest) op" where
  "mkRegisterNodesRequest copy_nodesToRegister requestHeader nodesToRegister =
     construct_wrapper own_RegisterNodesRequest bad_RegisterNodesRequest RegisterNodesRequest_zero (own_RequestHeader requestHeader)
       [put_moved (\<lambda>x r. r\<lparr>RegisterNodesRequest_requestHeader := x\<rparr>) own_RequestHeader RequestHeader_zero requestHeader,
        put (\<lambda>r. r\<lparr>RegisterNodesRequest_nodesToRegisterSize := length nodesToRegister\<rparr>),
        put_array (\<lambda>x r. r\<lparr>RegisterNodesRequest_nodesToRegister := x\<rparr>) own_NodeId copy_nodesToRegister nodesToRegister]"

lemma mkRegisterNodesRequest_sound:
  assumes "value_source own_NodeId copy_nodesToRegister (\<lambda>x. x)"
  shows "sound_ctor (nodesToRegister \<noteq> []) own_RegisterNodesRequest (own_RequestHeader requestHeader)
    (mkRegisterNodesRequest copy_nodesToRegister requestHeader nodesToRegister)
    \<lparr>RegisterNodesRequest_requestHeader = requestHeader, RegisterNodesRequest_nodesToRegisterSize = length nodesToRegister,
     RegisterNodesRequest_nodesToRegister = array_of nodesToRegister\<rparr>"
  unfolding mkRegisterNodesRequest_def by (intro member sound_body_ctor)
    (simp_all add: RegisterNodesRequest_zero_def own_RegisterNodesRequest_def bad_RegisterNodesRequest_def assms)

lemma RegisterNodesRequest_zero_owns [simp]: "own_RegisterNodesRequest RegisterNodesRequest_zero = 0"
  by (simp add: own_RegisterNodesRequest_def RegisterNodesRequest_zero_def)

record 'v UA_UnregisterNodesRequest =
  UnregisterNodesRequest_requestHeader :: "'v UA_RequestHeader"
  UnregisterNodesRequest_nodesToUnregisterSize :: nat
  UnregisterNodesRequest_nodesToUnregister :: "NodeId vdata"

definition UnregisterNodesRequest_zero :: "'v UA_UnregisterNodesRequest" where
  "UnregisterNodesRequest_zero = \<lparr>UnregisterNodesRequest_requestHeader = RequestHeader_zero,
     UnregisterNodesRequest_nodesToUnregisterSize = 0, UnregisterNodesRequest_nodesToUnregister = NullPtr\<rparr>"

definition own_UnregisterNodesRequest :: "'v UA_UnregisterNodesRequest \<Rightarrow> int" where
  "own_UnregisterNodesRequest r = own_RequestHeader (UnregisterNodesRequest_requestHeader r) +
     own_array own_NodeId (UnregisterNodesRequest_nodesToUnregister r)"

definition bad_UnregisterNodesRequest :: "'v UA_UnregisterNodesRequest \<Rightarrow> bool" where
  "bad_UnregisterNodesRequest r = (UnregisterNodesRequest_nodesToUnregisterSize r \<noteq> 0 \<and> UnregisterNodesRequest_nodesToUnregister r = NullPtr)"

definition mkUnregisterNodesRequest :: "(NodeId \<Rightarrow> (mem, NodeId) op) \<Rightarrow> 'v UA_RequestHeader \<Rightarrow>
     NodeId list \<Rightarrow> (mem, 'v UA_UnregisterNodesRequest) op" where
  "mkUnregisterNodesRequest copy_nodesToUnregister requestHeader nodesToUnregister =
     construct_wrapper own_UnregisterNodesRequest bad_UnregisterNodesRequest UnregisterNodesRequest_zero (own_RequestHeader requestHeader)
       [put_moved (\<lambda>x r. r\<lparr>UnregisterNodesRequest_requestHeader := x\<rparr>) own_RequestHeader RequestHeader_zero requestHeader,
        put (\<lambda>r. r\<lparr>UnregisterNodesRequest_nodesToUnregisterSize := length nodesToUnregister\<rparr>),
        put_array (\<lambda>x r. r\<lparr>UnregisterNodesRequest_nodesToUnregister := x\<rparr>) own_NodeId copy_nodesToUnregister nodesToUnregister]"

lemma mkUnregisterNodesRequest_sound:
  assumes "value_source own_NodeId copy_nodesToUnregister (\<lambda>x. x)"
  shows "sound_ctor (nodesToUnregister \<noteq> []) own_UnregisterNodesRequest (own_RequestHeader requestHeader)
    (mkUnregisterNodesRequest copy_nodesToUnregister requestHeader nodesToUnregister)
    \<lparr>UnregisterNodesRequest_requestHeader = requestHeader, UnregisterNodesRequest_nodesToUnregisterSize = length nodesToUnregister,
     UnregisterNodesRequest_nodesToUnregister = array_of nodesToUnregister\<rparr>"
  unfolding mkUnregisterNodesRequest_def by (intro member sound_body_ctor)
    (simp_all add: UnregisterNodesRequest_zero_def own_UnregisterNodesRequest_def bad_UnregisterNodesRequest_def assms)

lemma UnregisterNodesRequest_zero_owns [simp]: "own_UnregisterNodesRequest UnregisterNodesRequest_zero = 0"
  by (simp add: own_UnregisterNodesRequest_def UnregisterNodesRequest_zero_def)

record UA_ReadValueId =
  ReadValueId_nodeId :: NodeId
  ReadValueId_attributeId :: "32 word"
  ReadValueId_indexRange :: native_string
  ReadValueId_dataEncoding :: QualifiedName

definition ReadValueId_zero :: "UA_ReadValueId" where
  "ReadValueId_zero = \<lparr>ReadValueId_nodeId = null_NodeId, ReadValueId_attributeId = 0, ReadValueId_indexRange = NullString,
     ReadValueId_dataEncoding = null_QualifiedName\<rparr>"

definition own_ReadValueId :: "UA_ReadValueId \<Rightarrow> int" where
  "own_ReadValueId r = own_NodeId (ReadValueId_nodeId r) + own_string (ReadValueId_indexRange r) +
     own_QualifiedName (ReadValueId_dataEncoding r)"

definition mkReadValueId :: "NodeId \<Rightarrow> AttributeId \<Rightarrow> view \<Rightarrow> QualifiedName \<Rightarrow> (mem, UA_ReadValueId) op" where
  "mkReadValueId nodeId attributeId indexRange dataEncoding =
     construct_wrapper own_ReadValueId (\<lambda>_. False) ReadValueId_zero (own_NodeId nodeId + own_QualifiedName dataEncoding)
       [put_moved (\<lambda>x r. r\<lparr>ReadValueId_nodeId := x\<rparr>) own_NodeId null_NodeId nodeId,
        put (\<lambda>r. r\<lparr>ReadValueId_attributeId := AttributeId_code attributeId\<rparr>),
        put_view (\<lambda>x r. r\<lparr>ReadValueId_indexRange := x\<rparr>) indexRange,
        put_moved (\<lambda>x r. r\<lparr>ReadValueId_dataEncoding := x\<rparr>) own_QualifiedName null_QualifiedName dataEncoding]"

lemma mkReadValueId_sound:
  "sound_ctor False own_ReadValueId (own_NodeId nodeId + own_QualifiedName dataEncoding)
    (mkReadValueId nodeId attributeId indexRange dataEncoding)
    \<lparr>ReadValueId_nodeId = nodeId, ReadValueId_attributeId = AttributeId_code attributeId,
     ReadValueId_indexRange = toNativeString indexRange, ReadValueId_dataEncoding = dataEncoding\<rparr>"
  unfolding mkReadValueId_def by (intro member sound_body_ctor)
    (simp_all add: ReadValueId_zero_def own_ReadValueId_def)

lemma ReadValueId_zero_owns [simp]: "own_ReadValueId ReadValueId_zero = 0"
  by (simp add: own_ReadValueId_def ReadValueId_zero_def)

record ('d, 'v) UA_ReadRequest =
  ReadRequest_requestHeader :: "'v UA_RequestHeader"
  ReadRequest_maxAge :: 'd
  ReadRequest_timestampsToReturn :: "32 word"
  ReadRequest_nodesToReadSize :: nat
  ReadRequest_nodesToRead :: "UA_ReadValueId vdata"

definition ReadRequest_zero :: "('d::zero, 'v) UA_ReadRequest" where
  "ReadRequest_zero = \<lparr>ReadRequest_requestHeader = RequestHeader_zero, ReadRequest_maxAge = 0, ReadRequest_timestampsToReturn = 0,
     ReadRequest_nodesToReadSize = 0, ReadRequest_nodesToRead = NullPtr\<rparr>"

definition own_ReadRequest :: "('d, 'v) UA_ReadRequest \<Rightarrow> int" where
  "own_ReadRequest r = own_RequestHeader (ReadRequest_requestHeader r) + own_array own_ReadValueId (ReadRequest_nodesToRead r)"

definition bad_ReadRequest :: "('d, 'v) UA_ReadRequest \<Rightarrow> bool" where
  "bad_ReadRequest r = (ReadRequest_nodesToReadSize r \<noteq> 0 \<and> ReadRequest_nodesToRead r = NullPtr)"

definition mkReadRequest :: "(UA_ReadValueId \<Rightarrow> (mem, UA_ReadValueId) op) \<Rightarrow> 'v UA_RequestHeader \<Rightarrow>
     'd::zero \<Rightarrow> TimestampsToReturn \<Rightarrow> UA_ReadValueId list \<Rightarrow> (mem, ('d::zero, 'v) UA_ReadRequest) op" where
  "mkReadRequest copy_nodesToRead requestHeader maxAge timestampsToReturn nodesToRead =
     construct_wrapper own_ReadRequest bad_ReadRequest ReadRequest_zero (own_RequestHeader requestHeader)
       [put_moved (\<lambda>x r. r\<lparr>ReadRequest_requestHeader := x\<rparr>) own_RequestHeader RequestHeader_zero requestHeader,
        put (\<lambda>r. r\<lparr>ReadRequest_maxAge := maxAge\<rparr>),
        put (\<lambda>r. r\<lparr>ReadRequest_timestampsToReturn := TimestampsToReturn_code timestampsToReturn\<rparr>),
        put (\<lambda>r. r\<lparr>ReadRequest_nodesToReadSize := length nodesToRead\<rparr>),
        put_array (\<lambda>x r. r\<lparr>ReadRequest_nodesToRead := x\<rparr>) own_ReadValueId copy_nodesToRead nodesToRead]"

lemma mkReadRequest_sound:
  assumes "value_source own_ReadValueId copy_nodesToRead (\<lambda>x. x)"
  shows "sound_ctor (nodesToRead \<noteq> []) own_ReadRequest (own_RequestHeader requestHeader)
    (mkReadRequest copy_nodesToRead requestHeader maxAge timestampsToReturn nodesToRead)
    \<lparr>ReadRequest_requestHeader = requestHeader, ReadRequest_maxAge = maxAge,
     ReadRequest_timestampsToReturn = TimestampsToReturn_code timestampsToReturn, ReadRequest_nodesToReadSize = length nodesToRead,
     ReadRequest_nodesToRead = array_of nodesToRead\<rparr>"
  unfolding mkReadRequest_def by (intro member sound_body_ctor)
    (simp_all add: ReadRequest_zero_def own_ReadRequest_def bad_ReadRequest_def assms)

lemma ReadRequest_zero_owns [simp]: "own_ReadRequest ReadRequest_zero = 0"
  by (simp add: own_ReadRequest_def ReadRequest_zero_def)

record 'v UA_WriteValue =
  WriteValue_nodeId :: NodeId
  WriteValue_attributeId :: "32 word"
  WriteValue_indexRange :: native_string
  WriteValue_value :: "'v DataValue nested"

definition WriteValue_zero :: "'v UA_WriteValue" where
  "WriteValue_zero = \<lparr>WriteValue_nodeId = null_NodeId, WriteValue_attributeId = 0, WriteValue_indexRange = NullString,
     WriteValue_value = (empty_nested zero_DataValue)\<rparr>"

definition own_WriteValue :: "'v UA_WriteValue \<Rightarrow> int" where
  "own_WriteValue r = own_NodeId (WriteValue_nodeId r) + own_string (WriteValue_indexRange r) + own_nested (WriteValue_value r)"

definition mkWriteValue :: "NodeId \<Rightarrow> AttributeId \<Rightarrow> view \<Rightarrow> 'v DataValue nested \<Rightarrow> (mem, 'v UA_WriteValue) op" where
  "mkWriteValue nodeId attributeId indexRange val =
     construct_wrapper own_WriteValue (\<lambda>_. False) WriteValue_zero (own_NodeId nodeId + own_nested val)
       [put_moved (\<lambda>x r. r\<lparr>WriteValue_nodeId := x\<rparr>) own_NodeId null_NodeId nodeId,
        put (\<lambda>r. r\<lparr>WriteValue_attributeId := AttributeId_code attributeId\<rparr>),
        put_view (\<lambda>x r. r\<lparr>WriteValue_indexRange := x\<rparr>) indexRange,
        put_moved (\<lambda>x r. r\<lparr>WriteValue_value := x\<rparr>) own_nested (empty_nested zero_DataValue) val]"

lemma mkWriteValue_sound:
  "sound_ctor False own_WriteValue (own_NodeId nodeId + own_nested val)
    (mkWriteValue nodeId attributeId indexRange val)
    \<lparr>WriteValue_nodeId = nodeId, WriteValue_attributeId = AttributeId_code attributeId,
     WriteValue_indexRange = toNativeString indexRange, WriteValue_value = val\<rparr>"
  unfolding mkWriteValue_def by (intro member sound_body_ctor)
    (simp_all add: WriteValue_zero_def own_WriteValue_def)

lemma WriteValue_zero_owns [simp]: "own_WriteValue WriteValue_zero = 0"
  by (simp add: own_WriteValue_def WriteValue_zero_def)

record 'v UA_WriteRequest =
  WriteRequest_requestHeader :: "'v UA_RequestHeader"
  WriteRequest_nodesToWriteSize :: nat
  WriteRequest_nodesToWrite :: "('v UA_WriteValue) vdata"

definition WriteRequest_zero :: "'v UA_WriteRequest" where
  "WriteRequest_zero = \<lparr>WriteRequest_requestHeader = RequestHeader_zero, WriteRequest_nodesToWriteSize = 0,
     WriteRequest_nodesToWrite = NullPtr\<rparr>"

definition own_WriteRequest :: "'v UA_WriteRequest \<Rightarrow> int" where
  "own_WriteRequest r = own_RequestHeader (WriteRequest_requestHeader r) + own_array own_WriteValue (WriteRequest_nodesToWrite r)"

definition bad_WriteRequest :: "'v UA_WriteRequest \<Rightarrow> bool" where
  "bad_WriteRequest r = (WriteRequest_nodesToWriteSize r \<noteq> 0 \<and> WriteRequest_nodesToWrite r = NullPtr)"

definition mkWriteRequest :: "('v UA_WriteValue \<Rightarrow> (mem, 'v UA_WriteValue) op) \<Rightarrow> 'v UA_RequestHeader \<Rightarrow>
     ('v UA_WriteValue) list \<Rightarrow> (mem, 'v UA_WriteRequest) op" where
  "mkWriteRequest copy_nodesToWrite requestHeader nodesToWrite =
     construct_wrapper own_WriteRequest bad_WriteRequest WriteRequest_zero (own_RequestHeader requestHeader)
       [put_moved (\<lambda>x r. r\<lparr>WriteRequest_requestHeader := x\<rparr>) own_RequestHeader RequestHeader_zero requestHeader,
        put (\<lambda>r. r\<lparr>WriteRequest_nodesToWriteSize := length nodesToWrite\<rparr>),
        put_array (\<lambda>x r. r\<lparr>WriteRequest_nodesToWrite := x\<rparr>) own_WriteValue copy_nodesToWrite nodesToWrite]"

lemma mkWriteRequest_sound:
  assumes "value_source own_WriteValue copy_nodesToWrite (\<lambda>x. x)"
  shows "sound_ctor (nodesToWrite \<noteq> []) own_WriteRequest (own_RequestHeader requestHeader)
    (mkWriteRequest copy_nodesToWrite requestHeader nodesToWrite)
    \<lparr>WriteRequest_requestHeader = requestHeader, WriteRequest_nodesToWriteSize = length nodesToWrite,
     WriteRequest_nodesToWrite = array_of nodesToWrite\<rparr>"
  unfolding mkWriteRequest_def by (intro member sound_body_ctor)
    (simp_all add: WriteRequest_zero_def own_WriteRequest_def bad_WriteRequest_def assms)

lemma WriteRequest_zero_owns [simp]: "own_WriteRequest WriteRequest_zero = 0"
  by (simp add: own_WriteRequest_def WriteRequest_zero_def)

record UA_BuildInfo =
  BuildInfo_productUri :: native_string
  BuildInfo_manufacturerName :: native_string
  BuildInfo_productName :: native_string
  BuildInfo_softwareVersion :: native_string
  BuildInfo_buildNumber :: native_string
  BuildInfo_buildDate :: int

definition BuildInfo_zero :: "UA_BuildInfo" where
  "BuildInfo_zero = \<lparr>BuildInfo_productUri = NullString, BuildInfo_manufacturerName = NullString, BuildInfo_productName = NullString,
     BuildInfo_softwareVersion = NullString, BuildInfo_buildNumber = NullString, BuildInfo_buildDate = 0\<rparr>"

definition own_BuildInfo :: "UA_BuildInfo \<Rightarrow> int" where
  "own_BuildInfo r = own_string (BuildInfo_productUri r) + own_string (BuildInfo_manufacturerName r) + own_string (BuildInfo_productName r) +
     own_string (BuildInfo_softwareVersion r) + own_string (BuildInfo_buildNumber r)"

definition mkBuildInfo :: "view \<Rightarrow> view \<Rightarrow> view \<Rightarrow> view \<Rightarrow> view \<Rightarrow> int \<Rightarrow> (mem, UA_BuildInfo) op" where
  "mkBuildInfo productUri manufacturerName productName softwareVersion buildNumber buildDate =
     construct_wrapper own_BuildInfo (\<lambda>_. False) BuildInfo_zero 0
       [put_view (\<lambda>x r. r\<lparr>BuildInfo_productUri := x\<rparr>) productUri,
        put_view (\<lambda>x r. r\<lparr>BuildInfo_manufacturerName := x\<rparr>) manufacturerName,
        put_view (\<lambda>x r. r\<lparr>BuildInfo_productName := x\<rparr>) productName,
        put_view (\<lambda>x r. r\<lparr>BuildInfo_softwareVersion := x\<rparr>) softwareVersion,
        put_view (\<lambda>x r. r\<lparr>BuildInfo_buildNumber := x\<rparr>) buildNumber,
        put (\<lambda>r. r\<lparr>BuildInfo_buildDate := buildDate\<rparr>)]"

lemma mkBuildInfo_sound:
  "sound_ctor False own_BuildInfo 0
    (mkBuildInfo productUri manufacturerName productName softwareVersion buildNumber buildDate)
    \<lparr>BuildInfo_productUri = toNativeString productUri, BuildInfo_manufacturerName = toNativeString manufacturerName,
     BuildInfo_productName = toNativeString productName, BuildInfo_softwareVersion = toNativeString softwareVersion,
     BuildInfo_buildNumber = toNativeString buildNumber, BuildInfo_buildDate = buildDate\<rparr>"
  unfolding mkBuildInfo_def by (intro member sound_body_ctor)
    (simp_all add: BuildInfo_zero_def own_BuildInfo_def)

lemma BuildInfo_zero_owns [simp]: "own_BuildInfo BuildInfo_zero = 0"
  by (simp add: own_BuildInfo_def BuildInfo_zero_def)

record UA_Argument =
  Argument_name :: native_string
  Argument_description :: LocalizedText
  Argument_dataType :: NodeId
  Argument_valueRank :: "32 word"
  Argument_arrayDimensionsSize :: nat
  Argument_arrayDimensions :: "u32 vdata"

definition Argument_zero :: "UA_Argument" where
  "Argument_zero = \<lparr>Argument_name = NullString, Argument_description = null_LocalizedText, Argument_dataType = null_NodeId,
     Argument_valueRank = 0, Argument_arrayDimensionsSize = 0, Argument_arrayDimensions = NullPtr\<rparr>"

definition own_Argument :: "UA_Argument \<Rightarrow> int" where
  "own_Argument r = own_string (Argument_name r) + own_LocalizedText (Argument_description r) + own_NodeId (Argument_dataType r) +
     own_array (\<lambda>_. 0) (Argument_arrayDimensions r)"

definition bad_Argument :: "UA_Argument \<Rightarrow> bool" where
  "bad_Argument r = (Argument_arrayDimensionsSize r \<noteq> 0 \<and> Argument_arrayDimensions r = NullPtr)"

definition mkArgument :: "view \<Rightarrow> LocalizedText \<Rightarrow> NodeId \<Rightarrow> ValueRank \<Rightarrow> u32 list \<Rightarrow> (mem, UA_Argument) op" where
  "mkArgument nm description dataType valueRank arrayDimensions =
     construct_wrapper own_Argument bad_Argument Argument_zero (own_LocalizedText description + own_NodeId dataType)
       [put_view (\<lambda>x r. r\<lparr>Argument_name := x\<rparr>) nm,
        put_moved (\<lambda>x r. r\<lparr>Argument_description := x\<rparr>) own_LocalizedText null_LocalizedText description,
        put_moved (\<lambda>x r. r\<lparr>Argument_dataType := x\<rparr>) own_NodeId null_NodeId dataType,
        put (\<lambda>r. r\<lparr>Argument_valueRank := native_ValueRank valueRank\<rparr>),
        put (\<lambda>r. r\<lparr>Argument_arrayDimensionsSize := length arrayDimensions\<rparr>),
        put_array (\<lambda>x r. r\<lparr>Argument_arrayDimensions := x\<rparr>) (\<lambda>_. 0) copy_pointer_free arrayDimensions]"

lemma mkArgument_sound:
  "sound_ctor (arrayDimensions \<noteq> []) own_Argument (own_LocalizedText description + own_NodeId dataType)
    (mkArgument nm description dataType valueRank arrayDimensions)
    \<lparr>Argument_name = toNativeString nm, Argument_description = description, Argument_dataType = dataType,
     Argument_valueRank = native_ValueRank valueRank, Argument_arrayDimensionsSize = length arrayDimensions,
     Argument_arrayDimensions = array_of arrayDimensions\<rparr>"
  unfolding mkArgument_def by (intro member sound_body_ctor)
    (simp_all add: Argument_zero_def own_Argument_def bad_Argument_def flat_copy)

lemma Argument_zero_owns [simp]: "own_Argument Argument_zero = 0"
  by (simp add: own_Argument_def Argument_zero_def)

record 'v UA_CallMethodRequest =
  CallMethodRequest_objectId :: NodeId
  CallMethodRequest_methodId :: NodeId
  CallMethodRequest_inputArgumentsSize :: nat
  CallMethodRequest_inputArguments :: "('v Variant nested) vdata"

definition CallMethodRequest_zero :: "'v UA_CallMethodRequest" where
  "CallMethodRequest_zero = \<lparr>CallMethodRequest_objectId = null_NodeId, CallMethodRequest_methodId = null_NodeId,
     CallMethodRequest_inputArgumentsSize = 0, CallMethodRequest_inputArguments = NullPtr\<rparr>"

definition own_CallMethodRequest :: "'v UA_CallMethodRequest \<Rightarrow> int" where
  "own_CallMethodRequest r = own_NodeId (CallMethodRequest_objectId r) + own_NodeId (CallMethodRequest_methodId r) +
     own_array own_nested (CallMethodRequest_inputArguments r)"

definition bad_CallMethodRequest :: "'v UA_CallMethodRequest \<Rightarrow> bool" where
  "bad_CallMethodRequest r = (CallMethodRequest_inputArgumentsSize r \<noteq> 0 \<and> CallMethodRequest_inputArguments r = NullPtr)"

definition mkCallMethodRequest :: "('v Variant nested \<Rightarrow> (mem, 'v Variant nested) op) \<Rightarrow> NodeId \<Rightarrow>
     NodeId \<Rightarrow> ('v Variant nested) list \<Rightarrow> (mem, 'v UA_CallMethodRequest) op" where
  "mkCallMethodRequest copy_inputArguments objectId methodId inputArguments =
     construct_wrapper own_CallMethodRequest bad_CallMethodRequest CallMethodRequest_zero (own_NodeId objectId +
     own_NodeId methodId)
       [put_moved (\<lambda>x r. r\<lparr>CallMethodRequest_objectId := x\<rparr>) own_NodeId null_NodeId objectId,
        put_moved (\<lambda>x r. r\<lparr>CallMethodRequest_methodId := x\<rparr>) own_NodeId null_NodeId methodId,
        put (\<lambda>r. r\<lparr>CallMethodRequest_inputArgumentsSize := length inputArguments\<rparr>),
        put_array (\<lambda>x r. r\<lparr>CallMethodRequest_inputArguments := x\<rparr>) own_nested copy_inputArguments inputArguments]"

lemma mkCallMethodRequest_sound:
  assumes "value_source own_nested copy_inputArguments (\<lambda>x. x)"
  shows "sound_ctor (inputArguments \<noteq> []) own_CallMethodRequest (own_NodeId objectId + own_NodeId methodId)
    (mkCallMethodRequest copy_inputArguments objectId methodId inputArguments)
    \<lparr>CallMethodRequest_objectId = objectId, CallMethodRequest_methodId = methodId,
     CallMethodRequest_inputArgumentsSize = length inputArguments, CallMethodRequest_inputArguments = array_of inputArguments\<rparr>"
  unfolding mkCallMethodRequest_def by (intro member sound_body_ctor)
    (simp_all add: CallMethodRequest_zero_def own_CallMethodRequest_def bad_CallMethodRequest_def assms)

lemma CallMethodRequest_zero_owns [simp]: "own_CallMethodRequest CallMethodRequest_zero = 0"
  by (simp add: own_CallMethodRequest_def CallMethodRequest_zero_def)

record 'v UA_CallRequest =
  CallRequest_requestHeader :: "'v UA_RequestHeader"
  CallRequest_methodsToCallSize :: nat
  CallRequest_methodsToCall :: "('v UA_CallMethodRequest) vdata"

definition CallRequest_zero :: "'v UA_CallRequest" where
  "CallRequest_zero = \<lparr>CallRequest_requestHeader = RequestHeader_zero, CallRequest_methodsToCallSize = 0,
     CallRequest_methodsToCall = NullPtr\<rparr>"

definition own_CallRequest :: "'v UA_CallRequest \<Rightarrow> int" where
  "own_CallRequest r = own_RequestHeader (CallRequest_requestHeader r) +
     own_array own_CallMethodRequest (CallRequest_methodsToCall r)"

definition bad_CallRequest :: "'v UA_CallRequest \<Rightarrow> bool" where
  "bad_CallRequest r = (CallRequest_methodsToCallSize r \<noteq> 0 \<and> CallRequest_methodsToCall r = NullPtr)"

definition mkCallRequest :: "('v UA_CallMethodRequest \<Rightarrow> (mem, 'v UA_CallMethodRequest) op) \<Rightarrow>
     'v UA_RequestHeader \<Rightarrow> ('v UA_CallMethodRequest) list \<Rightarrow> (mem, 'v UA_CallRequest) op" where
  "mkCallRequest copy_methodsToCall requestHeader methodsToCall =
     construct_wrapper own_CallRequest bad_CallRequest CallRequest_zero (own_RequestHeader requestHeader)
       [put_moved (\<lambda>x r. r\<lparr>CallRequest_requestHeader := x\<rparr>) own_RequestHeader RequestHeader_zero requestHeader,
        put (\<lambda>r. r\<lparr>CallRequest_methodsToCallSize := length methodsToCall\<rparr>),
        put_array (\<lambda>x r. r\<lparr>CallRequest_methodsToCall := x\<rparr>) own_CallMethodRequest copy_methodsToCall methodsToCall]"

lemma mkCallRequest_sound:
  assumes "value_source own_CallMethodRequest copy_methodsToCall (\<lambda>x. x)"
  shows "sound_ctor (methodsToCall \<noteq> []) own_CallRequest (own_RequestHeader requestHeader)
    (mkCallRequest copy_methodsToCall requestHeader methodsToCall)
    \<lparr>CallRequest_requestHeader = requestHeader, CallRequest_methodsToCallSize = length methodsToCall,
     CallRequest_methodsToCall = array_of methodsToCall\<rparr>"
  unfolding mkCallRequest_def by (intro member sound_body_ctor)
    (simp_all add: CallRequest_zero_def own_CallRequest_def bad_CallRequest_def assms)

lemma CallRequest_zero_owns [simp]: "own_CallRequest CallRequest_zero = 0"
  by (simp add: own_CallRequest_def CallRequest_zero_def)

end
