(* ===== verification/Ua_Monitoring.thy ===== *)
theory Ua_Monitoring
  imports Ua_Types
begin

text \<open>
  The wrapper classes of \<open>ua/types.hpp\<close> for filters, monitored items, subscriptions, data access and type descriptions, with
  their constructors.
\<close>

section \<open>Enumerations\<close>

datatype DataChangeTrigger = DctStatus | DctStatusValue | DctStatusValueTimestamp

fun DataChangeTrigger_code :: "DataChangeTrigger \<Rightarrow> u32" where
  "DataChangeTrigger_code DctStatus = 0"
| "DataChangeTrigger_code DctStatusValue = 1"
| "DataChangeTrigger_code DctStatusValueTimestamp = 2"

datatype DeadbandType = DbNone | DbAbsolute | DbPercent

fun DeadbandType_code :: "DeadbandType \<Rightarrow> u32" where
  "DeadbandType_code DbNone = 0"
| "DeadbandType_code DbAbsolute = 1"
| "DeadbandType_code DbPercent = 2"

datatype AxisScaleEnumeration = AxLinear | AxLog | AxLn

fun AxisScaleEnumeration_code :: "AxisScaleEnumeration \<Rightarrow> u32" where
  "AxisScaleEnumeration_code AxLinear = 1"
| "AxisScaleEnumeration_code AxLog = 2"
| "AxisScaleEnumeration_code AxLn = 3"

fun MonitoringMode_code :: "MonitoringMode \<Rightarrow> u32" where
  "MonitoringMode_code MmDisabled = 0"
| "MonitoringMode_code MmSampling = 1"
| "MonitoringMode_code MmReporting = 2"

section \<open>Classes\<close>

record UA_ElementOperand =
  ElementOperand_index :: u32

definition ElementOperand_zero :: "UA_ElementOperand" where
  "ElementOperand_zero = \<lparr>ElementOperand_index = 0\<rparr>"

definition own_ElementOperand :: "UA_ElementOperand \<Rightarrow> int" where
  "own_ElementOperand r = 0"

definition mkElementOperand :: "u32 \<Rightarrow> (mem, UA_ElementOperand) op" where
  "mkElementOperand idx =
     construct_wrapper own_ElementOperand (\<lambda>_. False) ElementOperand_zero 0
       [put (\<lambda>r. r\<lparr>ElementOperand_index := idx\<rparr>)]"

lemma mkElementOperand_sound:
  "sound_ctor False own_ElementOperand 0
    (mkElementOperand idx)
    \<lparr>ElementOperand_index = idx\<rparr>"
  unfolding mkElementOperand_def by (intro member sound_body_ctor)
    (simp_all add: ElementOperand_zero_def own_ElementOperand_def)

lemma ElementOperand_zero_owns [simp]: "own_ElementOperand ElementOperand_zero = 0"
  by (simp add: own_ElementOperand_def ElementOperand_zero_def)

record 'v UA_LiteralOperand =
  LiteralOperand_value :: "'v Variant nested"

definition LiteralOperand_zero :: "'v UA_LiteralOperand" where
  "LiteralOperand_zero = \<lparr>LiteralOperand_value = (empty_nested zero_variant)\<rparr>"

definition own_LiteralOperand :: "'v UA_LiteralOperand \<Rightarrow> int" where
  "own_LiteralOperand r = own_nested (LiteralOperand_value r)"

definition mkLiteralOperand :: "'v Variant nested \<Rightarrow> (mem, 'v UA_LiteralOperand) op" where
  "mkLiteralOperand val =
     construct_wrapper own_LiteralOperand (\<lambda>_. False) LiteralOperand_zero (own_nested val)
       [put_moved (\<lambda>x r. r\<lparr>LiteralOperand_value := x\<rparr>) own_nested (empty_nested zero_variant) val]"

lemma mkLiteralOperand_sound:
  "sound_ctor False own_LiteralOperand (own_nested val)
    (mkLiteralOperand val)
    \<lparr>LiteralOperand_value = val\<rparr>"
  unfolding mkLiteralOperand_def by (intro member sound_body_ctor)
    (simp_all add: LiteralOperand_zero_def own_LiteralOperand_def)

lemma LiteralOperand_zero_owns [simp]: "own_LiteralOperand LiteralOperand_zero = 0"
  by (simp add: own_LiteralOperand_def LiteralOperand_zero_def)

record UA_AttributeOperand =
  AttributeOperand_nodeId :: NodeId
  AttributeOperand_alias :: native_string
  AttributeOperand_browsePath :: UA_RelativePath
  AttributeOperand_attributeId :: "32 word"
  AttributeOperand_indexRange :: native_string

definition AttributeOperand_zero :: "UA_AttributeOperand" where
  "AttributeOperand_zero = \<lparr>AttributeOperand_nodeId = null_NodeId, AttributeOperand_alias = NullString,
     AttributeOperand_browsePath = RelativePath_zero, AttributeOperand_attributeId = 0, AttributeOperand_indexRange = NullString\<rparr>"

definition own_AttributeOperand :: "UA_AttributeOperand \<Rightarrow> int" where
  "own_AttributeOperand r = own_NodeId (AttributeOperand_nodeId r) + own_string (AttributeOperand_alias r) +
     own_RelativePath (AttributeOperand_browsePath r) + own_string (AttributeOperand_indexRange r)"

definition mkAttributeOperand :: "NodeId \<Rightarrow> view \<Rightarrow> UA_RelativePath \<Rightarrow> AttributeId \<Rightarrow> view \<Rightarrow> (mem, UA_AttributeOperand) op" where
  "mkAttributeOperand nodeId als browsePath attributeId indexRange =
     construct_wrapper own_AttributeOperand (\<lambda>_. False) AttributeOperand_zero (own_NodeId nodeId + own_RelativePath browsePath)
       [put_moved (\<lambda>x r. r\<lparr>AttributeOperand_nodeId := x\<rparr>) own_NodeId null_NodeId nodeId,
        put_view (\<lambda>x r. r\<lparr>AttributeOperand_alias := x\<rparr>) als,
        put_moved (\<lambda>x r. r\<lparr>AttributeOperand_browsePath := x\<rparr>) own_RelativePath RelativePath_zero browsePath,
        put (\<lambda>r. r\<lparr>AttributeOperand_attributeId := AttributeId_code attributeId\<rparr>),
        put_view (\<lambda>x r. r\<lparr>AttributeOperand_indexRange := x\<rparr>) indexRange]"

lemma mkAttributeOperand_sound:
  "sound_ctor False own_AttributeOperand (own_NodeId nodeId + own_RelativePath browsePath)
    (mkAttributeOperand nodeId als browsePath attributeId indexRange)
    \<lparr>AttributeOperand_nodeId = nodeId, AttributeOperand_alias = toNativeString als, AttributeOperand_browsePath = browsePath,
     AttributeOperand_attributeId = AttributeId_code attributeId, AttributeOperand_indexRange = toNativeString indexRange\<rparr>"
  unfolding mkAttributeOperand_def by (intro member sound_body_ctor)
    (simp_all add: AttributeOperand_zero_def own_AttributeOperand_def)

lemma AttributeOperand_zero_owns [simp]: "own_AttributeOperand AttributeOperand_zero = 0"
  by (simp add: own_AttributeOperand_def AttributeOperand_zero_def)

record UA_SimpleAttributeOperand =
  SimpleAttributeOperand_typeDefinitionId :: NodeId
  SimpleAttributeOperand_browsePathSize :: nat
  SimpleAttributeOperand_browsePath :: "QualifiedName vdata"
  SimpleAttributeOperand_attributeId :: "32 word"
  SimpleAttributeOperand_indexRange :: native_string

definition SimpleAttributeOperand_zero :: "UA_SimpleAttributeOperand" where
  "SimpleAttributeOperand_zero = \<lparr>SimpleAttributeOperand_typeDefinitionId = null_NodeId, SimpleAttributeOperand_browsePathSize = 0,
     SimpleAttributeOperand_browsePath = NullPtr, SimpleAttributeOperand_attributeId = 0,
     SimpleAttributeOperand_indexRange = NullString\<rparr>"

definition own_SimpleAttributeOperand :: "UA_SimpleAttributeOperand \<Rightarrow> int" where
  "own_SimpleAttributeOperand r = own_NodeId (SimpleAttributeOperand_typeDefinitionId r) +
     own_array own_QualifiedName (SimpleAttributeOperand_browsePath r) + own_string (SimpleAttributeOperand_indexRange r)"

definition bad_SimpleAttributeOperand :: "UA_SimpleAttributeOperand \<Rightarrow> bool" where
  "bad_SimpleAttributeOperand r = (SimpleAttributeOperand_browsePathSize r \<noteq> 0 \<and> SimpleAttributeOperand_browsePath r = NullPtr)"

definition mkSimpleAttributeOperand :: "(QualifiedName \<Rightarrow> (mem, QualifiedName) op) \<Rightarrow> NodeId \<Rightarrow>
     QualifiedName list \<Rightarrow> AttributeId \<Rightarrow> view \<Rightarrow> (mem, UA_SimpleAttributeOperand) op" where
  "mkSimpleAttributeOperand copy_browsePath typeDefinitionId browsePath attributeId indexRange =
     construct_wrapper own_SimpleAttributeOperand bad_SimpleAttributeOperand SimpleAttributeOperand_zero (own_NodeId typeDefinitionId)
       [put_moved (\<lambda>x r. r\<lparr>SimpleAttributeOperand_typeDefinitionId := x\<rparr>) own_NodeId null_NodeId typeDefinitionId,
        put (\<lambda>r. r\<lparr>SimpleAttributeOperand_browsePathSize := length browsePath\<rparr>),
        put_array (\<lambda>x r. r\<lparr>SimpleAttributeOperand_browsePath := x\<rparr>) own_QualifiedName copy_browsePath browsePath,
        put (\<lambda>r. r\<lparr>SimpleAttributeOperand_attributeId := AttributeId_code attributeId\<rparr>),
        put_view (\<lambda>x r. r\<lparr>SimpleAttributeOperand_indexRange := x\<rparr>) indexRange]"

lemma mkSimpleAttributeOperand_sound:
  assumes "value_source own_QualifiedName copy_browsePath (\<lambda>x. x)"
  shows "sound_ctor (browsePath \<noteq> []) own_SimpleAttributeOperand (own_NodeId typeDefinitionId)
    (mkSimpleAttributeOperand copy_browsePath typeDefinitionId browsePath attributeId indexRange)
    \<lparr>SimpleAttributeOperand_typeDefinitionId = typeDefinitionId, SimpleAttributeOperand_browsePathSize = length browsePath,
     SimpleAttributeOperand_browsePath = array_of browsePath, SimpleAttributeOperand_attributeId = AttributeId_code attributeId,
     SimpleAttributeOperand_indexRange = toNativeString indexRange\<rparr>"
  unfolding mkSimpleAttributeOperand_def by (intro member sound_body_ctor)
    (simp_all add: SimpleAttributeOperand_zero_def own_SimpleAttributeOperand_def bad_SimpleAttributeOperand_def assms)

lemma SimpleAttributeOperand_zero_owns [simp]: "own_SimpleAttributeOperand SimpleAttributeOperand_zero = 0"
  by (simp add: own_SimpleAttributeOperand_def SimpleAttributeOperand_zero_def)

record 'v UA_ContentFilterElement =
  ContentFilterElement_filterOperator :: "32 word"
  ContentFilterElement_filterOperandsSize :: nat
  ContentFilterElement_filterOperands :: "('v ExtensionObject nested) vdata"

definition ContentFilterElement_zero :: "'v UA_ContentFilterElement" where
  "ContentFilterElement_zero = \<lparr>ContentFilterElement_filterOperator = 0, ContentFilterElement_filterOperandsSize = 0,
     ContentFilterElement_filterOperands = NullPtr\<rparr>"

definition own_ContentFilterElement :: "'v UA_ContentFilterElement \<Rightarrow> int" where
  "own_ContentFilterElement r = own_array own_nested (ContentFilterElement_filterOperands r)"

lemma ContentFilterElement_zero_owns [simp]: "own_ContentFilterElement ContentFilterElement_zero = 0"
  by (simp add: own_ContentFilterElement_def ContentFilterElement_zero_def)

record 'v UA_ContentFilter =
  ContentFilter_elementsSize :: nat
  ContentFilter_elements :: "('v UA_ContentFilterElement) vdata"

definition ContentFilter_zero :: "'v UA_ContentFilter" where
  "ContentFilter_zero = \<lparr>ContentFilter_elementsSize = 0, ContentFilter_elements = NullPtr\<rparr>"

definition own_ContentFilter :: "'v UA_ContentFilter \<Rightarrow> int" where
  "own_ContentFilter r = own_array own_ContentFilterElement (ContentFilter_elements r)"

lemma ContentFilter_zero_owns [simp]: "own_ContentFilter ContentFilter_zero = 0"
  by (simp add: own_ContentFilter_def ContentFilter_zero_def)

record 'd UA_DataChangeFilter =
  DataChangeFilter_trigger :: "32 word"
  DataChangeFilter_deadbandType :: "32 word"
  DataChangeFilter_deadbandValue :: 'd

definition DataChangeFilter_zero :: "('d::zero) UA_DataChangeFilter" where
  "DataChangeFilter_zero = \<lparr>DataChangeFilter_trigger = 0, DataChangeFilter_deadbandType = 0, DataChangeFilter_deadbandValue = 0\<rparr>"

definition own_DataChangeFilter :: "'d UA_DataChangeFilter \<Rightarrow> int" where
  "own_DataChangeFilter r = 0"

definition mkDataChangeFilter :: "DataChangeTrigger \<Rightarrow> DeadbandType \<Rightarrow> 'd::zero \<Rightarrow> (mem, 'd::zero UA_DataChangeFilter) op" where
  "mkDataChangeFilter trig deadbandType deadbandValue =
     construct_wrapper own_DataChangeFilter (\<lambda>_. False) DataChangeFilter_zero 0
       [put (\<lambda>r. r\<lparr>DataChangeFilter_trigger := DataChangeTrigger_code trig\<rparr>),
        put (\<lambda>r. r\<lparr>DataChangeFilter_deadbandType := DeadbandType_code deadbandType\<rparr>),
        put (\<lambda>r. r\<lparr>DataChangeFilter_deadbandValue := deadbandValue\<rparr>)]"

lemma mkDataChangeFilter_sound:
  "sound_ctor False own_DataChangeFilter 0
    (mkDataChangeFilter trig deadbandType deadbandValue)
    \<lparr>DataChangeFilter_trigger = DataChangeTrigger_code trig, DataChangeFilter_deadbandType = DeadbandType_code deadbandType,
     DataChangeFilter_deadbandValue = deadbandValue\<rparr>"
  unfolding mkDataChangeFilter_def by (intro member sound_body_ctor)
    (simp_all add: DataChangeFilter_zero_def own_DataChangeFilter_def)

lemma DataChangeFilter_zero_owns [simp]: "own_DataChangeFilter DataChangeFilter_zero = 0"
  by (simp add: own_DataChangeFilter_def DataChangeFilter_zero_def)

record 'v UA_EventFilter =
  EventFilter_selectClausesSize :: nat
  EventFilter_selectClauses :: "UA_SimpleAttributeOperand vdata"
  EventFilter_whereClause :: "'v UA_ContentFilter"

definition EventFilter_zero :: "'v UA_EventFilter" where
  "EventFilter_zero = \<lparr>EventFilter_selectClausesSize = 0, EventFilter_selectClauses = NullPtr,
     EventFilter_whereClause = ContentFilter_zero\<rparr>"

definition own_EventFilter :: "'v UA_EventFilter \<Rightarrow> int" where
  "own_EventFilter r = own_array own_SimpleAttributeOperand (EventFilter_selectClauses r) +
     own_ContentFilter (EventFilter_whereClause r)"

definition bad_EventFilter :: "'v UA_EventFilter \<Rightarrow> bool" where
  "bad_EventFilter r = (EventFilter_selectClausesSize r \<noteq> 0 \<and> EventFilter_selectClauses r = NullPtr)"

definition mkEventFilter :: "(UA_SimpleAttributeOperand \<Rightarrow> (mem, UA_SimpleAttributeOperand) op) \<Rightarrow>
     UA_SimpleAttributeOperand list \<Rightarrow> 'v UA_ContentFilter \<Rightarrow> (mem, 'v UA_EventFilter) op" where
  "mkEventFilter copy_selectClauses selectClauses whereClause =
     construct_wrapper own_EventFilter bad_EventFilter EventFilter_zero (own_ContentFilter whereClause)
       [put (\<lambda>r. r\<lparr>EventFilter_selectClausesSize := length selectClauses\<rparr>),
        put_array (\<lambda>x r. r\<lparr>EventFilter_selectClauses := x\<rparr>) own_SimpleAttributeOperand copy_selectClauses selectClauses,
        put_moved (\<lambda>x r. r\<lparr>EventFilter_whereClause := x\<rparr>) own_ContentFilter ContentFilter_zero whereClause]"

lemma mkEventFilter_sound:
  assumes "value_source own_SimpleAttributeOperand copy_selectClauses (\<lambda>x. x)"
  shows "sound_ctor (selectClauses \<noteq> []) own_EventFilter (own_ContentFilter whereClause)
    (mkEventFilter copy_selectClauses selectClauses whereClause)
    \<lparr>EventFilter_selectClausesSize = length selectClauses, EventFilter_selectClauses = array_of selectClauses,
     EventFilter_whereClause = whereClause\<rparr>"
  unfolding mkEventFilter_def by (intro member sound_body_ctor)
    (simp_all add: EventFilter_zero_def own_EventFilter_def bad_EventFilter_def assms)

lemma EventFilter_zero_owns [simp]: "own_EventFilter EventFilter_zero = 0"
  by (simp add: own_EventFilter_def EventFilter_zero_def)

record ('d, 'g) UA_AggregateFilter =
  AggregateFilter_startTime :: int
  AggregateFilter_aggregateType :: NodeId
  AggregateFilter_processingInterval :: 'd
  AggregateFilter_aggregateConfiguration :: 'g

definition AggregateFilter_zero :: "('d::zero, 'g::zero) UA_AggregateFilter" where
  "AggregateFilter_zero = \<lparr>AggregateFilter_startTime = 0, AggregateFilter_aggregateType = null_NodeId,
     AggregateFilter_processingInterval = 0, AggregateFilter_aggregateConfiguration = 0\<rparr>"

definition own_AggregateFilter :: "('d, 'g) UA_AggregateFilter \<Rightarrow> int" where
  "own_AggregateFilter r = own_NodeId (AggregateFilter_aggregateType r)"

definition mkAggregateFilter :: "int \<Rightarrow> NodeId \<Rightarrow> 'd::zero \<Rightarrow> 'g::zero \<Rightarrow> (mem, ('d::zero, 'g::zero) UA_AggregateFilter) op" where
  "mkAggregateFilter startTime aggregateType processingInterval aggregateConfiguration =
     construct_wrapper own_AggregateFilter (\<lambda>_. False) AggregateFilter_zero (own_NodeId aggregateType)
       [put (\<lambda>r. r\<lparr>AggregateFilter_startTime := startTime\<rparr>),
        put_moved (\<lambda>x r. r\<lparr>AggregateFilter_aggregateType := x\<rparr>) own_NodeId null_NodeId aggregateType,
        put (\<lambda>r. r\<lparr>AggregateFilter_processingInterval := processingInterval\<rparr>),
        put (\<lambda>r. r\<lparr>AggregateFilter_aggregateConfiguration := aggregateConfiguration\<rparr>)]"

lemma mkAggregateFilter_sound:
  "sound_ctor False own_AggregateFilter (own_NodeId aggregateType)
    (mkAggregateFilter startTime aggregateType processingInterval aggregateConfiguration)
    \<lparr>AggregateFilter_startTime = startTime, AggregateFilter_aggregateType = aggregateType,
     AggregateFilter_processingInterval = processingInterval, AggregateFilter_aggregateConfiguration = aggregateConfiguration\<rparr>"
  unfolding mkAggregateFilter_def by (intro member sound_body_ctor)
    (simp_all add: AggregateFilter_zero_def own_AggregateFilter_def)

lemma AggregateFilter_zero_owns [simp]: "own_AggregateFilter AggregateFilter_zero = 0"
  by (simp add: own_AggregateFilter_def AggregateFilter_zero_def)

record ('d, 'v) UA_MonitoringParameters =
  MonitoringParameters_samplingInterval :: 'd
  MonitoringParameters_filter :: "'v ExtensionObject nested"
  MonitoringParameters_queueSize :: u32
  MonitoringParameters_discardOldest :: bool

definition MonitoringParameters_zero :: "('d::zero, 'v) UA_MonitoringParameters" where
  "MonitoringParameters_zero = \<lparr>MonitoringParameters_samplingInterval = 0, MonitoringParameters_filter = (empty_nested EncodedNoBody),
     MonitoringParameters_queueSize = 0, MonitoringParameters_discardOldest = False\<rparr>"

definition own_MonitoringParameters :: "('d, 'v) UA_MonitoringParameters \<Rightarrow> int" where
  "own_MonitoringParameters r = own_nested (MonitoringParameters_filter r)"

definition mkMonitoringParameters :: "'d::zero \<Rightarrow> 'v ExtensionObject nested \<Rightarrow> u32 \<Rightarrow> bool \<Rightarrow>
     (mem, ('d::zero, 'v) UA_MonitoringParameters) op" where
  "mkMonitoringParameters samplingInterval filt queueSize discardOldest =
     construct_wrapper own_MonitoringParameters (\<lambda>_. False) MonitoringParameters_zero (own_nested filt)
       [put (\<lambda>r. r\<lparr>MonitoringParameters_samplingInterval := samplingInterval\<rparr>),
        put_moved (\<lambda>x r. r\<lparr>MonitoringParameters_filter := x\<rparr>) own_nested (empty_nested EncodedNoBody) filt,
        put (\<lambda>r. r\<lparr>MonitoringParameters_queueSize := queueSize\<rparr>),
        put (\<lambda>r. r\<lparr>MonitoringParameters_discardOldest := discardOldest\<rparr>)]"

lemma mkMonitoringParameters_sound:
  "sound_ctor False own_MonitoringParameters (own_nested filt)
    (mkMonitoringParameters samplingInterval filt queueSize discardOldest)
    \<lparr>MonitoringParameters_samplingInterval = samplingInterval, MonitoringParameters_filter = filt,
     MonitoringParameters_queueSize = queueSize, MonitoringParameters_discardOldest = discardOldest\<rparr>"
  unfolding mkMonitoringParameters_def by (intro member sound_body_ctor)
    (simp_all add: MonitoringParameters_zero_def own_MonitoringParameters_def)

lemma MonitoringParameters_zero_owns [simp]: "own_MonitoringParameters MonitoringParameters_zero = 0"
  by (simp add: own_MonitoringParameters_def MonitoringParameters_zero_def)

record ('d, 'v) UA_MonitoredItemCreateRequest =
  MonitoredItemCreateRequest_itemToMonitor :: UA_ReadValueId
  MonitoredItemCreateRequest_monitoringMode :: "32 word"
  MonitoredItemCreateRequest_requestedParameters :: "('d, 'v) UA_MonitoringParameters"

definition MonitoredItemCreateRequest_zero :: "('d::zero, 'v) UA_MonitoredItemCreateRequest" where
  "MonitoredItemCreateRequest_zero = \<lparr>MonitoredItemCreateRequest_itemToMonitor = ReadValueId_zero,
     MonitoredItemCreateRequest_monitoringMode = 0, MonitoredItemCreateRequest_requestedParameters = MonitoringParameters_zero\<rparr>"

definition own_MonitoredItemCreateRequest :: "('d, 'v) UA_MonitoredItemCreateRequest \<Rightarrow> int" where
  "own_MonitoredItemCreateRequest r = own_ReadValueId (MonitoredItemCreateRequest_itemToMonitor r) +
     own_MonitoringParameters (MonitoredItemCreateRequest_requestedParameters r)"

definition mkMonitoredItemCreateRequest :: "UA_ReadValueId \<Rightarrow> MonitoringMode \<Rightarrow>
     ('d::zero, 'v) UA_MonitoringParameters \<Rightarrow> (mem, ('d::zero, 'v) UA_MonitoredItemCreateRequest) op" where
  "mkMonitoredItemCreateRequest itemToMonitor monitoringMode requestedParameters =
     construct_wrapper own_MonitoredItemCreateRequest (\<lambda>_. False) MonitoredItemCreateRequest_zero (own_ReadValueId itemToMonitor +
     own_MonitoringParameters requestedParameters)
       [put_moved (\<lambda>x r. r\<lparr>MonitoredItemCreateRequest_itemToMonitor := x\<rparr>) own_ReadValueId ReadValueId_zero itemToMonitor,
        put (\<lambda>r. r\<lparr>MonitoredItemCreateRequest_monitoringMode := MonitoringMode_code monitoringMode\<rparr>),
        put_moved (\<lambda>x r. r\<lparr>MonitoredItemCreateRequest_requestedParameters := x\<rparr>) own_MonitoringParameters MonitoringParameters_zero requestedParameters]"

lemma mkMonitoredItemCreateRequest_sound:
  "sound_ctor False own_MonitoredItemCreateRequest (own_ReadValueId itemToMonitor + own_MonitoringParameters requestedParameters)
    (mkMonitoredItemCreateRequest itemToMonitor monitoringMode requestedParameters)
    \<lparr>MonitoredItemCreateRequest_itemToMonitor = itemToMonitor,
     MonitoredItemCreateRequest_monitoringMode = MonitoringMode_code monitoringMode,
     MonitoredItemCreateRequest_requestedParameters = requestedParameters\<rparr>"
  unfolding mkMonitoredItemCreateRequest_def by (intro member sound_body_ctor)
    (simp_all add: MonitoredItemCreateRequest_zero_def own_MonitoredItemCreateRequest_def)

lemma MonitoredItemCreateRequest_zero_owns [simp]: "own_MonitoredItemCreateRequest MonitoredItemCreateRequest_zero = 0"
  by (simp add: own_MonitoredItemCreateRequest_def MonitoredItemCreateRequest_zero_def)

record ('d, 'v) UA_CreateMonitoredItemsRequest =
  CreateMonitoredItemsRequest_requestHeader :: "'v UA_RequestHeader"
  CreateMonitoredItemsRequest_subscriptionId :: u32
  CreateMonitoredItemsRequest_timestampsToReturn :: "32 word"
  CreateMonitoredItemsRequest_itemsToCreateSize :: nat
  CreateMonitoredItemsRequest_itemsToCreate :: "(('d, 'v) UA_MonitoredItemCreateRequest) vdata"

definition CreateMonitoredItemsRequest_zero :: "('d::zero, 'v) UA_CreateMonitoredItemsRequest" where
  "CreateMonitoredItemsRequest_zero = \<lparr>CreateMonitoredItemsRequest_requestHeader = RequestHeader_zero,
     CreateMonitoredItemsRequest_subscriptionId = 0, CreateMonitoredItemsRequest_timestampsToReturn = 0,
     CreateMonitoredItemsRequest_itemsToCreateSize = 0, CreateMonitoredItemsRequest_itemsToCreate = NullPtr\<rparr>"

definition own_CreateMonitoredItemsRequest :: "('d, 'v) UA_CreateMonitoredItemsRequest \<Rightarrow> int" where
  "own_CreateMonitoredItemsRequest r = own_RequestHeader (CreateMonitoredItemsRequest_requestHeader r) +
     own_array own_MonitoredItemCreateRequest (CreateMonitoredItemsRequest_itemsToCreate r)"

definition bad_CreateMonitoredItemsRequest :: "('d, 'v) UA_CreateMonitoredItemsRequest \<Rightarrow> bool" where
  "bad_CreateMonitoredItemsRequest r = (CreateMonitoredItemsRequest_itemsToCreateSize r \<noteq> 0 \<and> CreateMonitoredItemsRequest_itemsToCreate r = NullPtr)"

definition mkCreateMonitoredItemsRequest :: "(('d::zero, 'v) UA_MonitoredItemCreateRequest \<Rightarrow>
     (mem, ('d::zero, 'v) UA_MonitoredItemCreateRequest) op) \<Rightarrow> 'v UA_RequestHeader \<Rightarrow> u32 \<Rightarrow>
     TimestampsToReturn \<Rightarrow> (('d::zero, 'v) UA_MonitoredItemCreateRequest) list \<Rightarrow> (mem, ('d::zero,
     'v) UA_CreateMonitoredItemsRequest) op" where
  "mkCreateMonitoredItemsRequest copy_itemsToCreate requestHeader subscriptionId timestampsToReturn itemsToCreate =
     construct_wrapper own_CreateMonitoredItemsRequest bad_CreateMonitoredItemsRequest CreateMonitoredItemsRequest_zero (own_RequestHeader requestHeader)
       [put_moved (\<lambda>x r. r\<lparr>CreateMonitoredItemsRequest_requestHeader := x\<rparr>) own_RequestHeader RequestHeader_zero requestHeader,
        put (\<lambda>r. r\<lparr>CreateMonitoredItemsRequest_subscriptionId := subscriptionId\<rparr>),
        put (\<lambda>r. r\<lparr>CreateMonitoredItemsRequest_timestampsToReturn := TimestampsToReturn_code timestampsToReturn\<rparr>),
        put (\<lambda>r. r\<lparr>CreateMonitoredItemsRequest_itemsToCreateSize := length itemsToCreate\<rparr>),
        put_array (\<lambda>x r. r\<lparr>CreateMonitoredItemsRequest_itemsToCreate := x\<rparr>) own_MonitoredItemCreateRequest copy_itemsToCreate itemsToCreate]"

lemma mkCreateMonitoredItemsRequest_sound:
  assumes "value_source own_MonitoredItemCreateRequest copy_itemsToCreate (\<lambda>x. x)"
  shows "sound_ctor (itemsToCreate \<noteq> []) own_CreateMonitoredItemsRequest (own_RequestHeader requestHeader)
    (mkCreateMonitoredItemsRequest copy_itemsToCreate requestHeader subscriptionId timestampsToReturn itemsToCreate)
    \<lparr>CreateMonitoredItemsRequest_requestHeader = requestHeader, CreateMonitoredItemsRequest_subscriptionId = subscriptionId,
     CreateMonitoredItemsRequest_timestampsToReturn = TimestampsToReturn_code timestampsToReturn,
     CreateMonitoredItemsRequest_itemsToCreateSize = length itemsToCreate,
     CreateMonitoredItemsRequest_itemsToCreate = array_of itemsToCreate\<rparr>"
  unfolding mkCreateMonitoredItemsRequest_def by (intro member sound_body_ctor)
    (simp_all add: CreateMonitoredItemsRequest_zero_def own_CreateMonitoredItemsRequest_def bad_CreateMonitoredItemsRequest_def assms)

lemma CreateMonitoredItemsRequest_zero_owns [simp]: "own_CreateMonitoredItemsRequest CreateMonitoredItemsRequest_zero = 0"
  by (simp add: own_CreateMonitoredItemsRequest_def CreateMonitoredItemsRequest_zero_def)

record ('d, 'v) UA_MonitoredItemModifyRequest =
  MonitoredItemModifyRequest_monitoredItemId :: u32
  MonitoredItemModifyRequest_requestedParameters :: "('d, 'v) UA_MonitoringParameters"

definition MonitoredItemModifyRequest_zero :: "('d::zero, 'v) UA_MonitoredItemModifyRequest" where
  "MonitoredItemModifyRequest_zero = \<lparr>MonitoredItemModifyRequest_monitoredItemId = 0,
     MonitoredItemModifyRequest_requestedParameters = MonitoringParameters_zero\<rparr>"

definition own_MonitoredItemModifyRequest :: "('d, 'v) UA_MonitoredItemModifyRequest \<Rightarrow> int" where
  "own_MonitoredItemModifyRequest r = own_MonitoringParameters (MonitoredItemModifyRequest_requestedParameters r)"

definition mkMonitoredItemModifyRequest :: "u32 \<Rightarrow> ('d::zero, 'v) UA_MonitoringParameters \<Rightarrow>
     (mem, ('d::zero, 'v) UA_MonitoredItemModifyRequest) op" where
  "mkMonitoredItemModifyRequest monitoredItemId requestedParameters =
     construct_wrapper own_MonitoredItemModifyRequest (\<lambda>_. False) MonitoredItemModifyRequest_zero (own_MonitoringParameters requestedParameters)
       [put (\<lambda>r. r\<lparr>MonitoredItemModifyRequest_monitoredItemId := monitoredItemId\<rparr>),
        put_moved (\<lambda>x r. r\<lparr>MonitoredItemModifyRequest_requestedParameters := x\<rparr>) own_MonitoringParameters MonitoringParameters_zero requestedParameters]"

lemma mkMonitoredItemModifyRequest_sound:
  "sound_ctor False own_MonitoredItemModifyRequest (own_MonitoringParameters requestedParameters)
    (mkMonitoredItemModifyRequest monitoredItemId requestedParameters)
    \<lparr>MonitoredItemModifyRequest_monitoredItemId = monitoredItemId,
     MonitoredItemModifyRequest_requestedParameters = requestedParameters\<rparr>"
  unfolding mkMonitoredItemModifyRequest_def by (intro member sound_body_ctor)
    (simp_all add: MonitoredItemModifyRequest_zero_def own_MonitoredItemModifyRequest_def)

lemma MonitoredItemModifyRequest_zero_owns [simp]: "own_MonitoredItemModifyRequest MonitoredItemModifyRequest_zero = 0"
  by (simp add: own_MonitoredItemModifyRequest_def MonitoredItemModifyRequest_zero_def)

record ('d, 'v) UA_ModifyMonitoredItemsRequest =
  ModifyMonitoredItemsRequest_requestHeader :: "'v UA_RequestHeader"
  ModifyMonitoredItemsRequest_subscriptionId :: u32
  ModifyMonitoredItemsRequest_timestampsToReturn :: "32 word"
  ModifyMonitoredItemsRequest_itemsToModifySize :: nat
  ModifyMonitoredItemsRequest_itemsToModify :: "(('d, 'v) UA_MonitoredItemModifyRequest) vdata"

definition ModifyMonitoredItemsRequest_zero :: "('d::zero, 'v) UA_ModifyMonitoredItemsRequest" where
  "ModifyMonitoredItemsRequest_zero = \<lparr>ModifyMonitoredItemsRequest_requestHeader = RequestHeader_zero,
     ModifyMonitoredItemsRequest_subscriptionId = 0, ModifyMonitoredItemsRequest_timestampsToReturn = 0,
     ModifyMonitoredItemsRequest_itemsToModifySize = 0, ModifyMonitoredItemsRequest_itemsToModify = NullPtr\<rparr>"

definition own_ModifyMonitoredItemsRequest :: "('d, 'v) UA_ModifyMonitoredItemsRequest \<Rightarrow> int" where
  "own_ModifyMonitoredItemsRequest r = own_RequestHeader (ModifyMonitoredItemsRequest_requestHeader r) +
     own_array own_MonitoredItemModifyRequest (ModifyMonitoredItemsRequest_itemsToModify r)"

definition bad_ModifyMonitoredItemsRequest :: "('d, 'v) UA_ModifyMonitoredItemsRequest \<Rightarrow> bool" where
  "bad_ModifyMonitoredItemsRequest r = (ModifyMonitoredItemsRequest_itemsToModifySize r \<noteq> 0 \<and> ModifyMonitoredItemsRequest_itemsToModify r = NullPtr)"

definition mkModifyMonitoredItemsRequest :: "(('d::zero, 'v) UA_MonitoredItemModifyRequest \<Rightarrow>
     (mem, ('d::zero, 'v) UA_MonitoredItemModifyRequest) op) \<Rightarrow> 'v UA_RequestHeader \<Rightarrow> u32 \<Rightarrow>
     TimestampsToReturn \<Rightarrow> (('d::zero, 'v) UA_MonitoredItemModifyRequest) list \<Rightarrow> (mem, ('d::zero,
     'v) UA_ModifyMonitoredItemsRequest) op" where
  "mkModifyMonitoredItemsRequest copy_itemsToModify requestHeader subscriptionId timestampsToReturn itemsToModify =
     construct_wrapper own_ModifyMonitoredItemsRequest bad_ModifyMonitoredItemsRequest ModifyMonitoredItemsRequest_zero (own_RequestHeader requestHeader)
       [put_moved (\<lambda>x r. r\<lparr>ModifyMonitoredItemsRequest_requestHeader := x\<rparr>) own_RequestHeader RequestHeader_zero requestHeader,
        put (\<lambda>r. r\<lparr>ModifyMonitoredItemsRequest_subscriptionId := subscriptionId\<rparr>),
        put (\<lambda>r. r\<lparr>ModifyMonitoredItemsRequest_timestampsToReturn := TimestampsToReturn_code timestampsToReturn\<rparr>),
        put (\<lambda>r. r\<lparr>ModifyMonitoredItemsRequest_itemsToModifySize := length itemsToModify\<rparr>),
        put_array (\<lambda>x r. r\<lparr>ModifyMonitoredItemsRequest_itemsToModify := x\<rparr>) own_MonitoredItemModifyRequest copy_itemsToModify itemsToModify]"

lemma mkModifyMonitoredItemsRequest_sound:
  assumes "value_source own_MonitoredItemModifyRequest copy_itemsToModify (\<lambda>x. x)"
  shows "sound_ctor (itemsToModify \<noteq> []) own_ModifyMonitoredItemsRequest (own_RequestHeader requestHeader)
    (mkModifyMonitoredItemsRequest copy_itemsToModify requestHeader subscriptionId timestampsToReturn itemsToModify)
    \<lparr>ModifyMonitoredItemsRequest_requestHeader = requestHeader, ModifyMonitoredItemsRequest_subscriptionId = subscriptionId,
     ModifyMonitoredItemsRequest_timestampsToReturn = TimestampsToReturn_code timestampsToReturn,
     ModifyMonitoredItemsRequest_itemsToModifySize = length itemsToModify,
     ModifyMonitoredItemsRequest_itemsToModify = array_of itemsToModify\<rparr>"
  unfolding mkModifyMonitoredItemsRequest_def by (intro member sound_body_ctor)
    (simp_all add: ModifyMonitoredItemsRequest_zero_def own_ModifyMonitoredItemsRequest_def bad_ModifyMonitoredItemsRequest_def assms)

lemma ModifyMonitoredItemsRequest_zero_owns [simp]: "own_ModifyMonitoredItemsRequest ModifyMonitoredItemsRequest_zero = 0"
  by (simp add: own_ModifyMonitoredItemsRequest_def ModifyMonitoredItemsRequest_zero_def)

record 'v UA_SetMonitoringModeRequest =
  SetMonitoringModeRequest_requestHeader :: "'v UA_RequestHeader"
  SetMonitoringModeRequest_subscriptionId :: u32
  SetMonitoringModeRequest_monitoringMode :: "32 word"
  SetMonitoringModeRequest_monitoredItemIdsSize :: nat
  SetMonitoringModeRequest_monitoredItemIds :: "u32 vdata"

definition SetMonitoringModeRequest_zero :: "'v UA_SetMonitoringModeRequest" where
  "SetMonitoringModeRequest_zero = \<lparr>SetMonitoringModeRequest_requestHeader = RequestHeader_zero,
     SetMonitoringModeRequest_subscriptionId = 0, SetMonitoringModeRequest_monitoringMode = 0,
     SetMonitoringModeRequest_monitoredItemIdsSize = 0, SetMonitoringModeRequest_monitoredItemIds = NullPtr\<rparr>"

definition own_SetMonitoringModeRequest :: "'v UA_SetMonitoringModeRequest \<Rightarrow> int" where
  "own_SetMonitoringModeRequest r = own_RequestHeader (SetMonitoringModeRequest_requestHeader r) +
     own_array (\<lambda>_. 0) (SetMonitoringModeRequest_monitoredItemIds r)"

definition bad_SetMonitoringModeRequest :: "'v UA_SetMonitoringModeRequest \<Rightarrow> bool" where
  "bad_SetMonitoringModeRequest r = (SetMonitoringModeRequest_monitoredItemIdsSize r \<noteq> 0 \<and> SetMonitoringModeRequest_monitoredItemIds r = NullPtr)"

definition mkSetMonitoringModeRequest :: "'v UA_RequestHeader \<Rightarrow> u32 \<Rightarrow> MonitoringMode \<Rightarrow>
     u32 list \<Rightarrow> (mem, 'v UA_SetMonitoringModeRequest) op" where
  "mkSetMonitoringModeRequest requestHeader subscriptionId monitoringMode monitoredItemIds =
     construct_wrapper own_SetMonitoringModeRequest bad_SetMonitoringModeRequest SetMonitoringModeRequest_zero (own_RequestHeader requestHeader)
       [put_moved (\<lambda>x r. r\<lparr>SetMonitoringModeRequest_requestHeader := x\<rparr>) own_RequestHeader RequestHeader_zero requestHeader,
        put (\<lambda>r. r\<lparr>SetMonitoringModeRequest_subscriptionId := subscriptionId\<rparr>),
        put (\<lambda>r. r\<lparr>SetMonitoringModeRequest_monitoringMode := MonitoringMode_code monitoringMode\<rparr>),
        put (\<lambda>r. r\<lparr>SetMonitoringModeRequest_monitoredItemIdsSize := length monitoredItemIds\<rparr>),
        put_array (\<lambda>x r. r\<lparr>SetMonitoringModeRequest_monitoredItemIds := x\<rparr>) (\<lambda>_. 0) copy_pointer_free monitoredItemIds]"

lemma mkSetMonitoringModeRequest_sound:
  "sound_ctor (monitoredItemIds \<noteq> []) own_SetMonitoringModeRequest (own_RequestHeader requestHeader)
    (mkSetMonitoringModeRequest requestHeader subscriptionId monitoringMode monitoredItemIds)
    \<lparr>SetMonitoringModeRequest_requestHeader = requestHeader, SetMonitoringModeRequest_subscriptionId = subscriptionId,
     SetMonitoringModeRequest_monitoringMode = MonitoringMode_code monitoringMode,
     SetMonitoringModeRequest_monitoredItemIdsSize = length monitoredItemIds,
     SetMonitoringModeRequest_monitoredItemIds = array_of monitoredItemIds\<rparr>"
  unfolding mkSetMonitoringModeRequest_def by (intro member sound_body_ctor)
    (simp_all add: SetMonitoringModeRequest_zero_def own_SetMonitoringModeRequest_def bad_SetMonitoringModeRequest_def flat_copy)

lemma SetMonitoringModeRequest_zero_owns [simp]: "own_SetMonitoringModeRequest SetMonitoringModeRequest_zero = 0"
  by (simp add: own_SetMonitoringModeRequest_def SetMonitoringModeRequest_zero_def)

record 'v UA_SetTriggeringRequest =
  SetTriggeringRequest_requestHeader :: "'v UA_RequestHeader"
  SetTriggeringRequest_subscriptionId :: u32
  SetTriggeringRequest_triggeringItemId :: u32
  SetTriggeringRequest_linksToAddSize :: nat
  SetTriggeringRequest_linksToAdd :: "u32 vdata"
  SetTriggeringRequest_linksToRemoveSize :: nat
  SetTriggeringRequest_linksToRemove :: "u32 vdata"

definition SetTriggeringRequest_zero :: "'v UA_SetTriggeringRequest" where
  "SetTriggeringRequest_zero = \<lparr>SetTriggeringRequest_requestHeader = RequestHeader_zero, SetTriggeringRequest_subscriptionId = 0,
     SetTriggeringRequest_triggeringItemId = 0, SetTriggeringRequest_linksToAddSize = 0, SetTriggeringRequest_linksToAdd = NullPtr,
     SetTriggeringRequest_linksToRemoveSize = 0, SetTriggeringRequest_linksToRemove = NullPtr\<rparr>"

definition own_SetTriggeringRequest :: "'v UA_SetTriggeringRequest \<Rightarrow> int" where
  "own_SetTriggeringRequest r = own_RequestHeader (SetTriggeringRequest_requestHeader r) +
     own_array (\<lambda>_. 0) (SetTriggeringRequest_linksToAdd r) + own_array (\<lambda>_. 0) (SetTriggeringRequest_linksToRemove r)"

definition bad_SetTriggeringRequest :: "'v UA_SetTriggeringRequest \<Rightarrow> bool" where
  "bad_SetTriggeringRequest r = (SetTriggeringRequest_linksToAddSize r \<noteq> 0 \<and> SetTriggeringRequest_linksToAdd r = NullPtr \<or> SetTriggeringRequest_linksToRemoveSize r \<noteq> 0 \<and> SetTriggeringRequest_linksToRemove r = NullPtr)"

definition mkSetTriggeringRequest :: "'v UA_RequestHeader \<Rightarrow> u32 \<Rightarrow> u32 \<Rightarrow> u32 list \<Rightarrow>
     u32 list \<Rightarrow> (mem, 'v UA_SetTriggeringRequest) op" where
  "mkSetTriggeringRequest requestHeader subscriptionId triggeringItemId linksToAdd linksToRemove =
     construct_wrapper own_SetTriggeringRequest bad_SetTriggeringRequest SetTriggeringRequest_zero (own_RequestHeader requestHeader)
       [put_moved (\<lambda>x r. r\<lparr>SetTriggeringRequest_requestHeader := x\<rparr>) own_RequestHeader RequestHeader_zero requestHeader,
        put (\<lambda>r. r\<lparr>SetTriggeringRequest_subscriptionId := subscriptionId\<rparr>),
        put (\<lambda>r. r\<lparr>SetTriggeringRequest_triggeringItemId := triggeringItemId\<rparr>),
        put (\<lambda>r. r\<lparr>SetTriggeringRequest_linksToAddSize := length linksToAdd\<rparr>),
        put_array (\<lambda>x r. r\<lparr>SetTriggeringRequest_linksToAdd := x\<rparr>) (\<lambda>_. 0) copy_pointer_free linksToAdd,
        put (\<lambda>r. r\<lparr>SetTriggeringRequest_linksToRemoveSize := length linksToRemove\<rparr>),
        put_array (\<lambda>x r. r\<lparr>SetTriggeringRequest_linksToRemove := x\<rparr>) (\<lambda>_. 0) copy_pointer_free linksToRemove]"

lemma mkSetTriggeringRequest_sound:
  "sound_ctor (linksToAdd \<noteq> [] \<or> linksToRemove \<noteq> []) own_SetTriggeringRequest (own_RequestHeader requestHeader)
    (mkSetTriggeringRequest requestHeader subscriptionId triggeringItemId linksToAdd linksToRemove)
    \<lparr>SetTriggeringRequest_requestHeader = requestHeader, SetTriggeringRequest_subscriptionId = subscriptionId,
     SetTriggeringRequest_triggeringItemId = triggeringItemId, SetTriggeringRequest_linksToAddSize = length linksToAdd,
     SetTriggeringRequest_linksToAdd = array_of linksToAdd, SetTriggeringRequest_linksToRemoveSize = length linksToRemove,
     SetTriggeringRequest_linksToRemove = array_of linksToRemove\<rparr>"
  unfolding mkSetTriggeringRequest_def by (intro member sound_body_ctor)
    (simp_all add: SetTriggeringRequest_zero_def own_SetTriggeringRequest_def bad_SetTriggeringRequest_def flat_copy)

lemma SetTriggeringRequest_zero_owns [simp]: "own_SetTriggeringRequest SetTriggeringRequest_zero = 0"
  by (simp add: own_SetTriggeringRequest_def SetTriggeringRequest_zero_def)

record 'v UA_DeleteMonitoredItemsRequest =
  DeleteMonitoredItemsRequest_requestHeader :: "'v UA_RequestHeader"
  DeleteMonitoredItemsRequest_subscriptionId :: u32
  DeleteMonitoredItemsRequest_monitoredItemIdsSize :: nat
  DeleteMonitoredItemsRequest_monitoredItemIds :: "u32 vdata"

definition DeleteMonitoredItemsRequest_zero :: "'v UA_DeleteMonitoredItemsRequest" where
  "DeleteMonitoredItemsRequest_zero = \<lparr>DeleteMonitoredItemsRequest_requestHeader = RequestHeader_zero,
     DeleteMonitoredItemsRequest_subscriptionId = 0, DeleteMonitoredItemsRequest_monitoredItemIdsSize = 0,
     DeleteMonitoredItemsRequest_monitoredItemIds = NullPtr\<rparr>"

definition own_DeleteMonitoredItemsRequest :: "'v UA_DeleteMonitoredItemsRequest \<Rightarrow> int" where
  "own_DeleteMonitoredItemsRequest r = own_RequestHeader (DeleteMonitoredItemsRequest_requestHeader r) +
     own_array (\<lambda>_. 0) (DeleteMonitoredItemsRequest_monitoredItemIds r)"

definition bad_DeleteMonitoredItemsRequest :: "'v UA_DeleteMonitoredItemsRequest \<Rightarrow> bool" where
  "bad_DeleteMonitoredItemsRequest r = (DeleteMonitoredItemsRequest_monitoredItemIdsSize r \<noteq> 0 \<and> DeleteMonitoredItemsRequest_monitoredItemIds r = NullPtr)"

definition mkDeleteMonitoredItemsRequest :: "'v UA_RequestHeader \<Rightarrow> u32 \<Rightarrow> u32 list \<Rightarrow>
     (mem, 'v UA_DeleteMonitoredItemsRequest) op" where
  "mkDeleteMonitoredItemsRequest requestHeader subscriptionId monitoredItemIds =
     construct_wrapper own_DeleteMonitoredItemsRequest bad_DeleteMonitoredItemsRequest DeleteMonitoredItemsRequest_zero (own_RequestHeader requestHeader)
       [put_moved (\<lambda>x r. r\<lparr>DeleteMonitoredItemsRequest_requestHeader := x\<rparr>) own_RequestHeader RequestHeader_zero requestHeader,
        put (\<lambda>r. r\<lparr>DeleteMonitoredItemsRequest_subscriptionId := subscriptionId\<rparr>),
        put (\<lambda>r. r\<lparr>DeleteMonitoredItemsRequest_monitoredItemIdsSize := length monitoredItemIds\<rparr>),
        put_array (\<lambda>x r. r\<lparr>DeleteMonitoredItemsRequest_monitoredItemIds := x\<rparr>) (\<lambda>_. 0) copy_pointer_free monitoredItemIds]"

lemma mkDeleteMonitoredItemsRequest_sound:
  "sound_ctor (monitoredItemIds \<noteq> []) own_DeleteMonitoredItemsRequest (own_RequestHeader requestHeader)
    (mkDeleteMonitoredItemsRequest requestHeader subscriptionId monitoredItemIds)
    \<lparr>DeleteMonitoredItemsRequest_requestHeader = requestHeader, DeleteMonitoredItemsRequest_subscriptionId = subscriptionId,
     DeleteMonitoredItemsRequest_monitoredItemIdsSize = length monitoredItemIds,
     DeleteMonitoredItemsRequest_monitoredItemIds = array_of monitoredItemIds\<rparr>"
  unfolding mkDeleteMonitoredItemsRequest_def by (intro member sound_body_ctor)
    (simp_all add: DeleteMonitoredItemsRequest_zero_def own_DeleteMonitoredItemsRequest_def bad_DeleteMonitoredItemsRequest_def flat_copy)

lemma DeleteMonitoredItemsRequest_zero_owns [simp]: "own_DeleteMonitoredItemsRequest DeleteMonitoredItemsRequest_zero = 0"
  by (simp add: own_DeleteMonitoredItemsRequest_def DeleteMonitoredItemsRequest_zero_def)

record ('d, 'v) UA_CreateSubscriptionRequest =
  CreateSubscriptionRequest_requestHeader :: "'v UA_RequestHeader"
  CreateSubscriptionRequest_requestedPublishingInterval :: 'd
  CreateSubscriptionRequest_requestedLifetimeCount :: u32
  CreateSubscriptionRequest_requestedMaxKeepAliveCount :: u32
  CreateSubscriptionRequest_maxNotificationsPerPublish :: u32
  CreateSubscriptionRequest_publishingEnabled :: bool
  CreateSubscriptionRequest_priority :: u8

definition CreateSubscriptionRequest_zero :: "('d::zero, 'v) UA_CreateSubscriptionRequest" where
  "CreateSubscriptionRequest_zero = \<lparr>CreateSubscriptionRequest_requestHeader = RequestHeader_zero,
     CreateSubscriptionRequest_requestedPublishingInterval = 0, CreateSubscriptionRequest_requestedLifetimeCount = 0,
     CreateSubscriptionRequest_requestedMaxKeepAliveCount = 0, CreateSubscriptionRequest_maxNotificationsPerPublish = 0,
     CreateSubscriptionRequest_publishingEnabled = False, CreateSubscriptionRequest_priority = 0\<rparr>"

definition own_CreateSubscriptionRequest :: "('d, 'v) UA_CreateSubscriptionRequest \<Rightarrow> int" where
  "own_CreateSubscriptionRequest r = own_RequestHeader (CreateSubscriptionRequest_requestHeader r)"

definition mkCreateSubscriptionRequest :: "'v UA_RequestHeader \<Rightarrow> 'd::zero \<Rightarrow> u32 \<Rightarrow> u32 \<Rightarrow>
     u32 \<Rightarrow> bool \<Rightarrow> u8 \<Rightarrow> (mem, ('d::zero, 'v) UA_CreateSubscriptionRequest) op" where
  "mkCreateSubscriptionRequest requestHeader requestedPublishingInterval requestedLifetimeCount requestedMaxKeepAliveCount maxNotificationsPerPublish publishingEnabled prio =
     construct_wrapper own_CreateSubscriptionRequest (\<lambda>_. False) CreateSubscriptionRequest_zero (own_RequestHeader requestHeader)
       [put_moved (\<lambda>x r. r\<lparr>CreateSubscriptionRequest_requestHeader := x\<rparr>) own_RequestHeader RequestHeader_zero requestHeader,
        put (\<lambda>r. r\<lparr>CreateSubscriptionRequest_requestedPublishingInterval := requestedPublishingInterval\<rparr>),
        put (\<lambda>r. r\<lparr>CreateSubscriptionRequest_requestedLifetimeCount := requestedLifetimeCount\<rparr>),
        put (\<lambda>r. r\<lparr>CreateSubscriptionRequest_requestedMaxKeepAliveCount := requestedMaxKeepAliveCount\<rparr>),
        put (\<lambda>r. r\<lparr>CreateSubscriptionRequest_maxNotificationsPerPublish := maxNotificationsPerPublish\<rparr>),
        put (\<lambda>r. r\<lparr>CreateSubscriptionRequest_publishingEnabled := publishingEnabled\<rparr>),
        put (\<lambda>r. r\<lparr>CreateSubscriptionRequest_priority := prio\<rparr>)]"

lemma mkCreateSubscriptionRequest_sound:
  "sound_ctor False own_CreateSubscriptionRequest (own_RequestHeader requestHeader)
    (mkCreateSubscriptionRequest requestHeader requestedPublishingInterval requestedLifetimeCount requestedMaxKeepAliveCount maxNotificationsPerPublish publishingEnabled prio)
    \<lparr>CreateSubscriptionRequest_requestHeader = requestHeader,
     CreateSubscriptionRequest_requestedPublishingInterval = requestedPublishingInterval,
     CreateSubscriptionRequest_requestedLifetimeCount = requestedLifetimeCount,
     CreateSubscriptionRequest_requestedMaxKeepAliveCount = requestedMaxKeepAliveCount,
     CreateSubscriptionRequest_maxNotificationsPerPublish = maxNotificationsPerPublish,
     CreateSubscriptionRequest_publishingEnabled = publishingEnabled, CreateSubscriptionRequest_priority = prio\<rparr>"
  unfolding mkCreateSubscriptionRequest_def by (intro member sound_body_ctor)
    (simp_all add: CreateSubscriptionRequest_zero_def own_CreateSubscriptionRequest_def)

lemma CreateSubscriptionRequest_zero_owns [simp]: "own_CreateSubscriptionRequest CreateSubscriptionRequest_zero = 0"
  by (simp add: own_CreateSubscriptionRequest_def CreateSubscriptionRequest_zero_def)

record ('d, 'v) UA_ModifySubscriptionRequest =
  ModifySubscriptionRequest_requestHeader :: "'v UA_RequestHeader"
  ModifySubscriptionRequest_subscriptionId :: u32
  ModifySubscriptionRequest_requestedPublishingInterval :: 'd
  ModifySubscriptionRequest_requestedLifetimeCount :: u32
  ModifySubscriptionRequest_requestedMaxKeepAliveCount :: u32
  ModifySubscriptionRequest_maxNotificationsPerPublish :: u32
  ModifySubscriptionRequest_priority :: u8

definition ModifySubscriptionRequest_zero :: "('d::zero, 'v) UA_ModifySubscriptionRequest" where
  "ModifySubscriptionRequest_zero = \<lparr>ModifySubscriptionRequest_requestHeader = RequestHeader_zero,
     ModifySubscriptionRequest_subscriptionId = 0, ModifySubscriptionRequest_requestedPublishingInterval = 0,
     ModifySubscriptionRequest_requestedLifetimeCount = 0, ModifySubscriptionRequest_requestedMaxKeepAliveCount = 0,
     ModifySubscriptionRequest_maxNotificationsPerPublish = 0, ModifySubscriptionRequest_priority = 0\<rparr>"

definition own_ModifySubscriptionRequest :: "('d, 'v) UA_ModifySubscriptionRequest \<Rightarrow> int" where
  "own_ModifySubscriptionRequest r = own_RequestHeader (ModifySubscriptionRequest_requestHeader r)"

definition mkModifySubscriptionRequest :: "'v UA_RequestHeader \<Rightarrow> u32 \<Rightarrow> 'd::zero \<Rightarrow> u32 \<Rightarrow>
     u32 \<Rightarrow> u32 \<Rightarrow> u8 \<Rightarrow> (mem, ('d::zero, 'v) UA_ModifySubscriptionRequest) op" where
  "mkModifySubscriptionRequest requestHeader subscriptionId requestedPublishingInterval requestedLifetimeCount requestedMaxKeepAliveCount maxNotificationsPerPublish prio =
     construct_wrapper own_ModifySubscriptionRequest (\<lambda>_. False) ModifySubscriptionRequest_zero (own_RequestHeader requestHeader)
       [put_moved (\<lambda>x r. r\<lparr>ModifySubscriptionRequest_requestHeader := x\<rparr>) own_RequestHeader RequestHeader_zero requestHeader,
        put (\<lambda>r. r\<lparr>ModifySubscriptionRequest_subscriptionId := subscriptionId\<rparr>),
        put (\<lambda>r. r\<lparr>ModifySubscriptionRequest_requestedPublishingInterval := requestedPublishingInterval\<rparr>),
        put (\<lambda>r. r\<lparr>ModifySubscriptionRequest_requestedLifetimeCount := requestedLifetimeCount\<rparr>),
        put (\<lambda>r. r\<lparr>ModifySubscriptionRequest_requestedMaxKeepAliveCount := requestedMaxKeepAliveCount\<rparr>),
        put (\<lambda>r. r\<lparr>ModifySubscriptionRequest_maxNotificationsPerPublish := maxNotificationsPerPublish\<rparr>),
        put (\<lambda>r. r\<lparr>ModifySubscriptionRequest_priority := prio\<rparr>)]"

lemma mkModifySubscriptionRequest_sound:
  "sound_ctor False own_ModifySubscriptionRequest (own_RequestHeader requestHeader)
    (mkModifySubscriptionRequest requestHeader subscriptionId requestedPublishingInterval requestedLifetimeCount requestedMaxKeepAliveCount maxNotificationsPerPublish prio)
    \<lparr>ModifySubscriptionRequest_requestHeader = requestHeader, ModifySubscriptionRequest_subscriptionId = subscriptionId,
     ModifySubscriptionRequest_requestedPublishingInterval = requestedPublishingInterval,
     ModifySubscriptionRequest_requestedLifetimeCount = requestedLifetimeCount,
     ModifySubscriptionRequest_requestedMaxKeepAliveCount = requestedMaxKeepAliveCount,
     ModifySubscriptionRequest_maxNotificationsPerPublish = maxNotificationsPerPublish, ModifySubscriptionRequest_priority = prio\<rparr>"
  unfolding mkModifySubscriptionRequest_def by (intro member sound_body_ctor)
    (simp_all add: ModifySubscriptionRequest_zero_def own_ModifySubscriptionRequest_def)

lemma ModifySubscriptionRequest_zero_owns [simp]: "own_ModifySubscriptionRequest ModifySubscriptionRequest_zero = 0"
  by (simp add: own_ModifySubscriptionRequest_def ModifySubscriptionRequest_zero_def)

record 'v UA_SetPublishingModeRequest =
  SetPublishingModeRequest_requestHeader :: "'v UA_RequestHeader"
  SetPublishingModeRequest_publishingEnabled :: bool
  SetPublishingModeRequest_subscriptionIdsSize :: nat
  SetPublishingModeRequest_subscriptionIds :: "u32 vdata"

definition SetPublishingModeRequest_zero :: "'v UA_SetPublishingModeRequest" where
  "SetPublishingModeRequest_zero = \<lparr>SetPublishingModeRequest_requestHeader = RequestHeader_zero,
     SetPublishingModeRequest_publishingEnabled = False, SetPublishingModeRequest_subscriptionIdsSize = 0,
     SetPublishingModeRequest_subscriptionIds = NullPtr\<rparr>"

definition own_SetPublishingModeRequest :: "'v UA_SetPublishingModeRequest \<Rightarrow> int" where
  "own_SetPublishingModeRequest r = own_RequestHeader (SetPublishingModeRequest_requestHeader r) +
     own_array (\<lambda>_. 0) (SetPublishingModeRequest_subscriptionIds r)"

definition bad_SetPublishingModeRequest :: "'v UA_SetPublishingModeRequest \<Rightarrow> bool" where
  "bad_SetPublishingModeRequest r = (SetPublishingModeRequest_subscriptionIdsSize r \<noteq> 0 \<and> SetPublishingModeRequest_subscriptionIds r = NullPtr)"

definition mkSetPublishingModeRequest :: "'v UA_RequestHeader \<Rightarrow> bool \<Rightarrow> u32 list \<Rightarrow> (mem, 'v UA_SetPublishingModeRequest) op" where
  "mkSetPublishingModeRequest requestHeader publishingEnabled subscriptionIds =
     construct_wrapper own_SetPublishingModeRequest bad_SetPublishingModeRequest SetPublishingModeRequest_zero (own_RequestHeader requestHeader)
       [put_moved (\<lambda>x r. r\<lparr>SetPublishingModeRequest_requestHeader := x\<rparr>) own_RequestHeader RequestHeader_zero requestHeader,
        put (\<lambda>r. r\<lparr>SetPublishingModeRequest_publishingEnabled := publishingEnabled\<rparr>),
        put (\<lambda>r. r\<lparr>SetPublishingModeRequest_subscriptionIdsSize := length subscriptionIds\<rparr>),
        put_array (\<lambda>x r. r\<lparr>SetPublishingModeRequest_subscriptionIds := x\<rparr>) (\<lambda>_. 0) copy_pointer_free subscriptionIds]"

lemma mkSetPublishingModeRequest_sound:
  "sound_ctor (subscriptionIds \<noteq> []) own_SetPublishingModeRequest (own_RequestHeader requestHeader)
    (mkSetPublishingModeRequest requestHeader publishingEnabled subscriptionIds)
    \<lparr>SetPublishingModeRequest_requestHeader = requestHeader, SetPublishingModeRequest_publishingEnabled = publishingEnabled,
     SetPublishingModeRequest_subscriptionIdsSize = length subscriptionIds,
     SetPublishingModeRequest_subscriptionIds = array_of subscriptionIds\<rparr>"
  unfolding mkSetPublishingModeRequest_def by (intro member sound_body_ctor)
    (simp_all add: SetPublishingModeRequest_zero_def own_SetPublishingModeRequest_def bad_SetPublishingModeRequest_def flat_copy)

lemma SetPublishingModeRequest_zero_owns [simp]: "own_SetPublishingModeRequest SetPublishingModeRequest_zero = 0"
  by (simp add: own_SetPublishingModeRequest_def SetPublishingModeRequest_zero_def)

record 'v UA_DeleteSubscriptionsRequest =
  DeleteSubscriptionsRequest_requestHeader :: "'v UA_RequestHeader"
  DeleteSubscriptionsRequest_subscriptionIdsSize :: nat
  DeleteSubscriptionsRequest_subscriptionIds :: "u32 vdata"

definition DeleteSubscriptionsRequest_zero :: "'v UA_DeleteSubscriptionsRequest" where
  "DeleteSubscriptionsRequest_zero = \<lparr>DeleteSubscriptionsRequest_requestHeader = RequestHeader_zero,
     DeleteSubscriptionsRequest_subscriptionIdsSize = 0, DeleteSubscriptionsRequest_subscriptionIds = NullPtr\<rparr>"

definition own_DeleteSubscriptionsRequest :: "'v UA_DeleteSubscriptionsRequest \<Rightarrow> int" where
  "own_DeleteSubscriptionsRequest r = own_RequestHeader (DeleteSubscriptionsRequest_requestHeader r) +
     own_array (\<lambda>_. 0) (DeleteSubscriptionsRequest_subscriptionIds r)"

definition bad_DeleteSubscriptionsRequest :: "'v UA_DeleteSubscriptionsRequest \<Rightarrow> bool" where
  "bad_DeleteSubscriptionsRequest r = (DeleteSubscriptionsRequest_subscriptionIdsSize r \<noteq> 0 \<and> DeleteSubscriptionsRequest_subscriptionIds r = NullPtr)"

definition mkDeleteSubscriptionsRequest :: "'v UA_RequestHeader \<Rightarrow> u32 list \<Rightarrow> (mem, 'v UA_DeleteSubscriptionsRequest) op" where
  "mkDeleteSubscriptionsRequest requestHeader subscriptionIds =
     construct_wrapper own_DeleteSubscriptionsRequest bad_DeleteSubscriptionsRequest DeleteSubscriptionsRequest_zero (own_RequestHeader requestHeader)
       [put_moved (\<lambda>x r. r\<lparr>DeleteSubscriptionsRequest_requestHeader := x\<rparr>) own_RequestHeader RequestHeader_zero requestHeader,
        put (\<lambda>r. r\<lparr>DeleteSubscriptionsRequest_subscriptionIdsSize := length subscriptionIds\<rparr>),
        put_array (\<lambda>x r. r\<lparr>DeleteSubscriptionsRequest_subscriptionIds := x\<rparr>) (\<lambda>_. 0) copy_pointer_free subscriptionIds]"

lemma mkDeleteSubscriptionsRequest_sound:
  "sound_ctor (subscriptionIds \<noteq> []) own_DeleteSubscriptionsRequest (own_RequestHeader requestHeader)
    (mkDeleteSubscriptionsRequest requestHeader subscriptionIds)
    \<lparr>DeleteSubscriptionsRequest_requestHeader = requestHeader,
     DeleteSubscriptionsRequest_subscriptionIdsSize = length subscriptionIds,
     DeleteSubscriptionsRequest_subscriptionIds = array_of subscriptionIds\<rparr>"
  unfolding mkDeleteSubscriptionsRequest_def by (intro member sound_body_ctor)
    (simp_all add: DeleteSubscriptionsRequest_zero_def own_DeleteSubscriptionsRequest_def bad_DeleteSubscriptionsRequest_def flat_copy)

lemma DeleteSubscriptionsRequest_zero_owns [simp]: "own_DeleteSubscriptionsRequest DeleteSubscriptionsRequest_zero = 0"
  by (simp add: own_DeleteSubscriptionsRequest_def DeleteSubscriptionsRequest_zero_def)

record 'd UA_Range =
  Range_low :: 'd
  Range_high :: 'd

definition Range_zero :: "('d::zero) UA_Range" where
  "Range_zero = \<lparr>Range_low = 0, Range_high = 0\<rparr>"

definition own_Range :: "'d UA_Range \<Rightarrow> int" where
  "own_Range r = 0"

definition mkRange :: "'d::zero \<Rightarrow> 'd::zero \<Rightarrow> (mem, 'd::zero UA_Range) op" where
  "mkRange lo hi =
     construct_wrapper own_Range (\<lambda>_. False) Range_zero 0
       [put (\<lambda>r. r\<lparr>Range_low := lo\<rparr>),
        put (\<lambda>r. r\<lparr>Range_high := hi\<rparr>)]"

lemma mkRange_sound:
  "sound_ctor False own_Range 0
    (mkRange lo hi)
    \<lparr>Range_low = lo, Range_high = hi\<rparr>"
  unfolding mkRange_def by (intro member sound_body_ctor)
    (simp_all add: Range_zero_def own_Range_def)

lemma Range_zero_owns [simp]: "own_Range Range_zero = 0"
  by (simp add: own_Range_def Range_zero_def)

record UA_EUInformation =
  EUInformation_namespaceUri :: native_string
  EUInformation_unitId :: "32 word"
  EUInformation_displayName :: LocalizedText
  EUInformation_description :: LocalizedText

definition EUInformation_zero :: "UA_EUInformation" where
  "EUInformation_zero = \<lparr>EUInformation_namespaceUri = NullString, EUInformation_unitId = 0,
     EUInformation_displayName = null_LocalizedText, EUInformation_description = null_LocalizedText\<rparr>"

definition own_EUInformation :: "UA_EUInformation \<Rightarrow> int" where
  "own_EUInformation r = own_string (EUInformation_namespaceUri r) + own_LocalizedText (EUInformation_displayName r) +
     own_LocalizedText (EUInformation_description r)"

definition mkEUInformation :: "view \<Rightarrow> 32 word \<Rightarrow> LocalizedText \<Rightarrow> LocalizedText \<Rightarrow> (mem, UA_EUInformation) op" where
  "mkEUInformation namespaceUri unitId displayName description =
     construct_wrapper own_EUInformation (\<lambda>_. False) EUInformation_zero (own_LocalizedText displayName +
     own_LocalizedText description)
       [put_view (\<lambda>x r. r\<lparr>EUInformation_namespaceUri := x\<rparr>) namespaceUri,
        put (\<lambda>r. r\<lparr>EUInformation_unitId := unitId\<rparr>),
        put_moved (\<lambda>x r. r\<lparr>EUInformation_displayName := x\<rparr>) own_LocalizedText null_LocalizedText displayName,
        put_moved (\<lambda>x r. r\<lparr>EUInformation_description := x\<rparr>) own_LocalizedText null_LocalizedText description]"

lemma mkEUInformation_sound:
  "sound_ctor False own_EUInformation (own_LocalizedText displayName + own_LocalizedText description)
    (mkEUInformation namespaceUri unitId displayName description)
    \<lparr>EUInformation_namespaceUri = toNativeString namespaceUri, EUInformation_unitId = unitId, EUInformation_displayName = displayName,
     EUInformation_description = description\<rparr>"
  unfolding mkEUInformation_def by (intro member sound_body_ctor)
    (simp_all add: EUInformation_zero_def own_EUInformation_def)

lemma EUInformation_zero_owns [simp]: "own_EUInformation EUInformation_zero = 0"
  by (simp add: own_EUInformation_def EUInformation_zero_def)

record 'd UA_ComplexNumberType =
  ComplexNumberType_real :: 'd
  ComplexNumberType_imaginary :: 'd

definition ComplexNumberType_zero :: "('d::zero) UA_ComplexNumberType" where
  "ComplexNumberType_zero = \<lparr>ComplexNumberType_real = 0, ComplexNumberType_imaginary = 0\<rparr>"

definition own_ComplexNumberType :: "'d UA_ComplexNumberType \<Rightarrow> int" where
  "own_ComplexNumberType r = 0"

definition mkComplexNumberType :: "'d::zero \<Rightarrow> 'd::zero \<Rightarrow> (mem, 'd::zero UA_ComplexNumberType) op" where
  "mkComplexNumberType re im =
     construct_wrapper own_ComplexNumberType (\<lambda>_. False) ComplexNumberType_zero 0
       [put (\<lambda>r. r\<lparr>ComplexNumberType_real := re\<rparr>),
        put (\<lambda>r. r\<lparr>ComplexNumberType_imaginary := im\<rparr>)]"

lemma mkComplexNumberType_sound:
  "sound_ctor False own_ComplexNumberType 0
    (mkComplexNumberType re im)
    \<lparr>ComplexNumberType_real = re, ComplexNumberType_imaginary = im\<rparr>"
  unfolding mkComplexNumberType_def by (intro member sound_body_ctor)
    (simp_all add: ComplexNumberType_zero_def own_ComplexNumberType_def)

lemma ComplexNumberType_zero_owns [simp]: "own_ComplexNumberType ComplexNumberType_zero = 0"
  by (simp add: own_ComplexNumberType_def ComplexNumberType_zero_def)

record 'd UA_DoubleComplexNumberType =
  DoubleComplexNumberType_real :: 'd
  DoubleComplexNumberType_imaginary :: 'd

definition DoubleComplexNumberType_zero :: "('d::zero) UA_DoubleComplexNumberType" where
  "DoubleComplexNumberType_zero = \<lparr>DoubleComplexNumberType_real = 0, DoubleComplexNumberType_imaginary = 0\<rparr>"

definition own_DoubleComplexNumberType :: "'d UA_DoubleComplexNumberType \<Rightarrow> int" where
  "own_DoubleComplexNumberType r = 0"

definition mkDoubleComplexNumberType :: "'d::zero \<Rightarrow> 'd::zero \<Rightarrow> (mem, 'd::zero UA_DoubleComplexNumberType) op" where
  "mkDoubleComplexNumberType re im =
     construct_wrapper own_DoubleComplexNumberType (\<lambda>_. False) DoubleComplexNumberType_zero 0
       [put (\<lambda>r. r\<lparr>DoubleComplexNumberType_real := re\<rparr>),
        put (\<lambda>r. r\<lparr>DoubleComplexNumberType_imaginary := im\<rparr>)]"

lemma mkDoubleComplexNumberType_sound:
  "sound_ctor False own_DoubleComplexNumberType 0
    (mkDoubleComplexNumberType re im)
    \<lparr>DoubleComplexNumberType_real = re, DoubleComplexNumberType_imaginary = im\<rparr>"
  unfolding mkDoubleComplexNumberType_def by (intro member sound_body_ctor)
    (simp_all add: DoubleComplexNumberType_zero_def own_DoubleComplexNumberType_def)

lemma DoubleComplexNumberType_zero_owns [simp]: "own_DoubleComplexNumberType DoubleComplexNumberType_zero = 0"
  by (simp add: own_DoubleComplexNumberType_def DoubleComplexNumberType_zero_def)

record 'd UA_AxisInformation =
  AxisInformation_engineeringUnits :: UA_EUInformation
  AxisInformation_eURange :: "'d UA_Range"
  AxisInformation_title :: LocalizedText
  AxisInformation_axisScaleType :: "32 word"
  AxisInformation_axisStepsSize :: nat
  AxisInformation_axisSteps :: "'d vdata"

definition AxisInformation_zero :: "('d::zero) UA_AxisInformation" where
  "AxisInformation_zero = \<lparr>AxisInformation_engineeringUnits = EUInformation_zero, AxisInformation_eURange = Range_zero,
     AxisInformation_title = null_LocalizedText, AxisInformation_axisScaleType = 0, AxisInformation_axisStepsSize = 0,
     AxisInformation_axisSteps = NullPtr\<rparr>"

definition own_AxisInformation :: "'d UA_AxisInformation \<Rightarrow> int" where
  "own_AxisInformation r = own_EUInformation (AxisInformation_engineeringUnits r) + own_Range (AxisInformation_eURange r) +
     own_LocalizedText (AxisInformation_title r) + own_array (\<lambda>_. 0) (AxisInformation_axisSteps r)"

definition bad_AxisInformation :: "'d UA_AxisInformation \<Rightarrow> bool" where
  "bad_AxisInformation r = (AxisInformation_axisStepsSize r \<noteq> 0 \<and> AxisInformation_axisSteps r = NullPtr)"

definition mkAxisInformation :: "UA_EUInformation \<Rightarrow> 'd::zero UA_Range \<Rightarrow> LocalizedText \<Rightarrow>
     AxisScaleEnumeration \<Rightarrow> 'd::zero list \<Rightarrow> (mem, 'd::zero UA_AxisInformation) op" where
  "mkAxisInformation engineeringUnits eURange titl axisScaleType axisSteps =
     construct_wrapper own_AxisInformation bad_AxisInformation AxisInformation_zero (own_EUInformation engineeringUnits + own_Range eURange +
     own_LocalizedText titl)
       [put_moved (\<lambda>x r. r\<lparr>AxisInformation_engineeringUnits := x\<rparr>) own_EUInformation EUInformation_zero engineeringUnits,
        put_moved (\<lambda>x r. r\<lparr>AxisInformation_eURange := x\<rparr>) own_Range Range_zero eURange,
        put_moved (\<lambda>x r. r\<lparr>AxisInformation_title := x\<rparr>) own_LocalizedText null_LocalizedText titl,
        put (\<lambda>r. r\<lparr>AxisInformation_axisScaleType := AxisScaleEnumeration_code axisScaleType\<rparr>),
        put (\<lambda>r. r\<lparr>AxisInformation_axisStepsSize := length axisSteps\<rparr>),
        put_array (\<lambda>x r. r\<lparr>AxisInformation_axisSteps := x\<rparr>) (\<lambda>_. 0) copy_pointer_free axisSteps]"

lemma mkAxisInformation_sound:
  "sound_ctor (axisSteps \<noteq> []) own_AxisInformation (own_EUInformation engineeringUnits + own_Range eURange +
     own_LocalizedText titl)
    (mkAxisInformation engineeringUnits eURange titl axisScaleType axisSteps)
    \<lparr>AxisInformation_engineeringUnits = engineeringUnits, AxisInformation_eURange = eURange, AxisInformation_title = titl,
     AxisInformation_axisScaleType = AxisScaleEnumeration_code axisScaleType, AxisInformation_axisStepsSize = length axisSteps,
     AxisInformation_axisSteps = array_of axisSteps\<rparr>"
  unfolding mkAxisInformation_def by (intro member sound_body_ctor)
    (simp_all add: AxisInformation_zero_def own_AxisInformation_def bad_AxisInformation_def flat_copy)

lemma AxisInformation_zero_owns [simp]: "own_AxisInformation AxisInformation_zero = 0"
  by (simp add: own_AxisInformation_def AxisInformation_zero_def)

record 'd UA_XVType =
  XVType_x :: 'd
  XVType_value :: 'd

definition XVType_zero :: "('d::zero) UA_XVType" where
  "XVType_zero = \<lparr>XVType_x = 0, XVType_value = 0\<rparr>"

definition own_XVType :: "'d UA_XVType \<Rightarrow> int" where
  "own_XVType r = 0"

definition mkXVType :: "'d::zero \<Rightarrow> 'd::zero \<Rightarrow> (mem, 'd::zero UA_XVType) op" where
  "mkXVType x val =
     construct_wrapper own_XVType (\<lambda>_. False) XVType_zero 0
       [put (\<lambda>r. r\<lparr>XVType_x := x\<rparr>),
        put (\<lambda>r. r\<lparr>XVType_value := val\<rparr>)]"

lemma mkXVType_sound:
  "sound_ctor False own_XVType 0
    (mkXVType x val)
    \<lparr>XVType_x = x, XVType_value = val\<rparr>"
  unfolding mkXVType_def by (intro member sound_body_ctor)
    (simp_all add: XVType_zero_def own_XVType_def)

lemma XVType_zero_owns [simp]: "own_XVType XVType_zero = 0"
  by (simp add: own_XVType_def XVType_zero_def)

record UA_EnumField =
  EnumField_value :: "64 word"
  EnumField_displayName :: LocalizedText
  EnumField_description :: LocalizedText
  EnumField_name :: native_string

definition EnumField_zero :: "UA_EnumField" where
  "EnumField_zero = \<lparr>EnumField_value = 0, EnumField_displayName = null_LocalizedText, EnumField_description = null_LocalizedText,
     EnumField_name = NullString\<rparr>"

definition own_EnumField :: "UA_EnumField \<Rightarrow> int" where
  "own_EnumField r = own_LocalizedText (EnumField_displayName r) + own_LocalizedText (EnumField_description r) +
     own_string (EnumField_name r)"

definition mkEnumField :: "64 word \<Rightarrow> LocalizedText \<Rightarrow> LocalizedText \<Rightarrow> view \<Rightarrow> (mem, UA_EnumField) op" where
  "mkEnumField val displayName description nm =
     construct_wrapper own_EnumField (\<lambda>_. False) EnumField_zero (own_LocalizedText displayName + own_LocalizedText description)
       [put (\<lambda>r. r\<lparr>EnumField_value := val\<rparr>),
        put_moved (\<lambda>x r. r\<lparr>EnumField_displayName := x\<rparr>) own_LocalizedText null_LocalizedText displayName,
        put_moved (\<lambda>x r. r\<lparr>EnumField_description := x\<rparr>) own_LocalizedText null_LocalizedText description,
        put_view (\<lambda>x r. r\<lparr>EnumField_name := x\<rparr>) nm]"

lemma mkEnumField_sound:
  "sound_ctor False own_EnumField (own_LocalizedText displayName + own_LocalizedText description)
    (mkEnumField val displayName description nm)
    \<lparr>EnumField_value = val, EnumField_displayName = displayName, EnumField_description = description,
     EnumField_name = toNativeString nm\<rparr>"
  unfolding mkEnumField_def by (intro member sound_body_ctor)
    (simp_all add: EnumField_zero_def own_EnumField_def)

lemma EnumField_zero_owns [simp]: "own_EnumField EnumField_zero = 0"
  by (simp add: own_EnumField_def EnumField_zero_def)

record UA_EnumDefinition =
  EnumDefinition_fieldsSize :: nat
  EnumDefinition_fields :: "UA_EnumField vdata"

definition EnumDefinition_zero :: "UA_EnumDefinition" where
  "EnumDefinition_zero = \<lparr>EnumDefinition_fieldsSize = 0, EnumDefinition_fields = NullPtr\<rparr>"

definition own_EnumDefinition :: "UA_EnumDefinition \<Rightarrow> int" where
  "own_EnumDefinition r = own_array own_EnumField (EnumDefinition_fields r)"

definition bad_EnumDefinition :: "UA_EnumDefinition \<Rightarrow> bool" where
  "bad_EnumDefinition r = (EnumDefinition_fieldsSize r \<noteq> 0 \<and> EnumDefinition_fields r = NullPtr)"

definition mkEnumDefinition :: "(UA_EnumField \<Rightarrow> (mem, UA_EnumField) op) \<Rightarrow> UA_EnumField list \<Rightarrow> (mem, UA_EnumDefinition) op" where
  "mkEnumDefinition copy_flds flds =
     construct_wrapper own_EnumDefinition bad_EnumDefinition EnumDefinition_zero 0
       [put (\<lambda>r. r\<lparr>EnumDefinition_fieldsSize := length flds\<rparr>),
        put_array (\<lambda>x r. r\<lparr>EnumDefinition_fields := x\<rparr>) own_EnumField copy_flds flds]"

lemma mkEnumDefinition_sound:
  assumes "value_source own_EnumField copy_flds (\<lambda>x. x)"
  shows "sound_ctor (flds \<noteq> []) own_EnumDefinition 0
    (mkEnumDefinition copy_flds flds)
    \<lparr>EnumDefinition_fieldsSize = length flds, EnumDefinition_fields = array_of flds\<rparr>"
  unfolding mkEnumDefinition_def by (intro member sound_body_ctor)
    (simp_all add: EnumDefinition_zero_def own_EnumDefinition_def bad_EnumDefinition_def assms)

lemma EnumDefinition_zero_owns [simp]: "own_EnumDefinition EnumDefinition_zero = 0"
  by (simp add: own_EnumDefinition_def EnumDefinition_zero_def)
section \<open>All constructors\<close>

lemmas plain_sound =
  mkEnumValueType_sound mkRequestHeader_sound mkUserTokenPolicy_sound mkUserNameIdentityToken_sound
  mkX509IdentityToken_sound mkIssuedIdentityToken_sound mkAddNodesItem_sound mkAddReferencesItem_sound
  mkDeleteNodesItem_sound mkDeleteReferencesItem_sound mkViewDescription_sound mkBrowseDescription_sound
  mkRelativePathElement_sound mkBrowsePath_sound mkReadValueId_sound mkWriteValue_sound mkBuildInfo_sound
  mkElementOperand_sound mkLiteralOperand_sound mkAttributeOperand_sound mkDataChangeFilter_sound mkAggregateFilter_sound
  mkMonitoringParameters_sound mkMonitoredItemCreateRequest_sound mkMonitoredItemModifyRequest_sound
  mkCreateSubscriptionRequest_sound mkModifySubscriptionRequest_sound mkRange_sound mkEUInformation_sound
  mkComplexNumberType_sound mkDoubleComplexNumberType_sound mkXVType_sound mkEnumField_sound

lemmas array_sound =
  mkApplicationDescription_sound mkAddNodesRequest_sound mkAddReferencesRequest_sound mkDeleteNodesRequest_sound
  mkDeleteReferencesRequest_sound mkBrowseRequest_sound mkBrowseNextRequest_sound mkRelativePath_sound
  mkTranslateBrowsePathsToNodeIdsRequest_sound mkRegisterNodesRequest_sound mkUnregisterNodesRequest_sound
  mkReadRequest_sound mkWriteRequest_sound mkArgument_sound mkCallMethodRequest_sound mkCallRequest_sound
  mkSimpleAttributeOperand_sound mkEventFilter_sound mkCreateMonitoredItemsRequest_sound
  mkModifyMonitoredItemsRequest_sound mkSetMonitoringModeRequest_sound mkSetTriggeringRequest_sound
  mkDeleteMonitoredItemsRequest_sound mkSetPublishingModeRequest_sound mkDeleteSubscriptionsRequest_sound
  mkAxisInformation_sound mkEnumDefinition_sound

text \<open>The shorter constructor of \<open>EnumField\<close> makes the display name from an empty locale and the name.\<close>

definition mkEnumField_name :: "64 word \<Rightarrow> view \<Rightarrow> (mem, UA_EnumField) op" where
  "mkEnumField_name val nm = op_bind (mkLocalizedText (Some []) nm) (\<lambda>t. mkEnumField val t null_LocalizedText nm)"

lemma mkEnumField_name_sound:
  "sound_ctor False own_EnumField 0 (mkEnumField_name val nm)
    \<lparr>EnumField_value = val, EnumField_displayName = \<lparr>lt_locale = Str [], lt_text = toNativeString nm\<rparr>,
     EnumField_description = null_LocalizedText, EnumField_name = toNativeString nm\<rparr>"
proof -
  let ?t = "\<lparr>lt_locale = Str [], lt_text = toNativeString nm\<rparr>"
  have t: "sound_ctor False own_LocalizedText 0 (mkLocalizedText (Some []) nm) ?t"
    using mkLocalizedText_sound[of "Some []" nm] by (simp add: toNativeString_def)
  show ?thesis
    unfolding mkEnumField_name_def by (rule sound_ctor_bind[OF t]) (use mkEnumField_sound[of ?t null_LocalizedText] in simp)
qed

text \<open>The size of an array member is set before its elements are copied. When the copy throws, the destructor of the base class is left
  with a size but no array.\<close>

lemma failed_array_copy_undefined:
  "fst (mkRelativePath copy_elements [e] \<lparr>budget = 0, live = l\<rparr>) = Inl Undef"
  by (simp add: mkRelativePath_def construct_wrapper_def put_def put_array_def makeNativeArray_def vcopyArray_def alloc_block_def
      op_bind_def bad_RelativePath_def RelativePath_zero_def)

text \<open>C30. Every constructor of a wrapper class without array members stores each argument in its member; the object returned owns exactly
  what its by-value arguments owned and what was allocated for its strings. When an allocation fails the constructor throws and everything,
  the arguments included, has been released.\<close>

theorem plain_constructors_sound:
  "(\<forall>val displayName description.
      sound_ctor False own_EnumValueType (own_LocalizedText displayName + own_LocalizedText description)
    (mkEnumValueType val displayName description)
    \<lparr>EnumValueType_value = val, EnumValueType_displayName = displayName, EnumValueType_description = description\<rparr>)
   \<and> (\<forall>authenticationToken timestamp requestHandle returnDiagnostics auditEntryId timeoutHint additionalHeader.
      sound_ctor False own_RequestHeader (own_NodeId authenticationToken + own_nested additionalHeader)
    (mkRequestHeader authenticationToken timestamp requestHandle returnDiagnostics auditEntryId timeoutHint additionalHeader)
    \<lparr>RequestHeader_authenticationToken = authenticationToken, RequestHeader_timestamp = timestamp,
      RequestHeader_requestHandle = requestHandle, RequestHeader_returnDiagnostics = returnDiagnostics,
      RequestHeader_auditEntryId = toNativeString auditEntryId, RequestHeader_timeoutHint = timeoutHint,
      RequestHeader_additionalHeader = additionalHeader\<rparr>)
   \<and> (\<forall>policyId tokenType issuedTokenType issuerEndpointUrl securityPolicyUri.
      sound_ctor False own_UserTokenPolicy 0
    (mkUserTokenPolicy policyId tokenType issuedTokenType issuerEndpointUrl securityPolicyUri)
    \<lparr>UserTokenPolicy_policyId = toNativeString policyId, UserTokenPolicy_tokenType = UserTokenType_code tokenType,
      UserTokenPolicy_issuedTokenType = toNativeString issuedTokenType, UserTokenPolicy_issuerEndpointUrl = toNativeString issuerEndpointUrl,
      UserTokenPolicy_securityPolicyUri = toNativeString securityPolicyUri\<rparr>)
   \<and> (\<forall>userName password encryptionAlgorithm.
      sound_ctor False own_UserNameIdentityToken 0
    (mkUserNameIdentityToken userName password encryptionAlgorithm)
    \<lparr>UserNameIdentityToken_policyId = NullString, UserNameIdentityToken_userName = toNativeString userName,
      UserNameIdentityToken_password = toNativeString password,
      UserNameIdentityToken_encryptionAlgorithm = toNativeString encryptionAlgorithm\<rparr>)
   \<and> (\<forall>certificateData.
      sound_ctor False own_X509IdentityToken (own_string certificateData)
    (mkX509IdentityToken certificateData)
    \<lparr>X509IdentityToken_policyId = NullString, X509IdentityToken_certificateData = certificateData\<rparr>)
   \<and> (\<forall>tokenData encryptionAlgorithm.
      sound_ctor False own_IssuedIdentityToken (own_string tokenData)
    (mkIssuedIdentityToken tokenData encryptionAlgorithm)
    \<lparr>IssuedIdentityToken_policyId = NullString, IssuedIdentityToken_tokenData = tokenData,
      IssuedIdentityToken_encryptionAlgorithm = toNativeString encryptionAlgorithm\<rparr>)
   \<and> (\<forall>parentNodeId referenceTypeId requestedNewNodeId browseName nodeClass nodeAttributes typeDefinition.
      sound_ctor False own_AddNodesItem (own_ExpandedNodeId parentNodeId + own_NodeId referenceTypeId +
      own_ExpandedNodeId requestedNewNodeId + own_QualifiedName browseName + own_nested nodeAttributes +
      own_ExpandedNodeId typeDefinition)
    (mkAddNodesItem parentNodeId referenceTypeId requestedNewNodeId browseName nodeClass nodeAttributes typeDefinition)
    \<lparr>AddNodesItem_parentNodeId = parentNodeId, AddNodesItem_referenceTypeId = referenceTypeId,
      AddNodesItem_requestedNewNodeId = requestedNewNodeId, AddNodesItem_browseName = browseName,
      AddNodesItem_nodeClass = NodeClass_code nodeClass, AddNodesItem_nodeAttributes = nodeAttributes,
      AddNodesItem_typeDefinition = typeDefinition\<rparr>)
   \<and> (\<forall>sourceNodeId referenceTypeId isForward targetServerUri targetNodeId targetNodeClass.
      sound_ctor False own_AddReferencesItem (own_NodeId sourceNodeId + own_NodeId referenceTypeId +
      own_ExpandedNodeId targetNodeId)
    (mkAddReferencesItem sourceNodeId referenceTypeId isForward targetServerUri targetNodeId targetNodeClass)
    \<lparr>AddReferencesItem_sourceNodeId = sourceNodeId, AddReferencesItem_referenceTypeId = referenceTypeId,
      AddReferencesItem_isForward = isForward, AddReferencesItem_targetServerUri = toNativeString targetServerUri,
      AddReferencesItem_targetNodeId = targetNodeId, AddReferencesItem_targetNodeClass = NodeClass_code targetNodeClass\<rparr>)
   \<and> (\<forall>nodeId deleteTargetReferences.
      sound_ctor False own_DeleteNodesItem (own_NodeId nodeId)
    (mkDeleteNodesItem nodeId deleteTargetReferences)
    \<lparr>DeleteNodesItem_nodeId = nodeId, DeleteNodesItem_deleteTargetReferences = deleteTargetReferences\<rparr>)
   \<and> (\<forall>sourceNodeId referenceTypeId isForward targetNodeId deleteBidirectional.
      sound_ctor False own_DeleteReferencesItem (own_NodeId sourceNodeId + own_NodeId referenceTypeId +
      own_ExpandedNodeId targetNodeId)
    (mkDeleteReferencesItem sourceNodeId referenceTypeId isForward targetNodeId deleteBidirectional)
    \<lparr>DeleteReferencesItem_sourceNodeId = sourceNodeId, DeleteReferencesItem_referenceTypeId = referenceTypeId,
      DeleteReferencesItem_isForward = isForward, DeleteReferencesItem_targetNodeId = targetNodeId,
      DeleteReferencesItem_deleteBidirectional = deleteBidirectional\<rparr>)
   \<and> (\<forall>viewId timestamp viewVersion.
      sound_ctor False own_ViewDescription (own_NodeId viewId)
    (mkViewDescription viewId timestamp viewVersion)
    \<lparr>ViewDescription_viewId = viewId, ViewDescription_timestamp = timestamp, ViewDescription_viewVersion = viewVersion\<rparr>)
   \<and> (\<forall>nodeId browseDirection referenceTypeId includeSubtypes nodeClassMask resultMask.
      sound_ctor False own_BrowseDescription (own_NodeId nodeId + own_NodeId referenceTypeId)
    (mkBrowseDescription nodeId browseDirection referenceTypeId includeSubtypes nodeClassMask resultMask)
    \<lparr>BrowseDescription_nodeId = nodeId, BrowseDescription_browseDirection = BrowseDirection_code browseDirection,
      BrowseDescription_referenceTypeId = referenceTypeId, BrowseDescription_includeSubtypes = includeSubtypes,
      BrowseDescription_nodeClassMask = nodeClassMask, BrowseDescription_resultMask = resultMask\<rparr>)
   \<and> (\<forall>referenceTypeId isInverse includeSubtypes targetName.
      sound_ctor False own_RelativePathElement (own_NodeId referenceTypeId + own_QualifiedName targetName)
    (mkRelativePathElement referenceTypeId isInverse includeSubtypes targetName)
    \<lparr>RelativePathElement_referenceTypeId = referenceTypeId, RelativePathElement_isInverse = isInverse,
      RelativePathElement_includeSubtypes = includeSubtypes, RelativePathElement_targetName = targetName\<rparr>)
   \<and> (\<forall>startingNode relativePath.
      sound_ctor False own_BrowsePath (own_NodeId startingNode + own_RelativePath relativePath)
    (mkBrowsePath startingNode relativePath)
    \<lparr>BrowsePath_startingNode = startingNode, BrowsePath_relativePath = relativePath\<rparr>)
   \<and> (\<forall>nodeId attributeId indexRange dataEncoding.
      sound_ctor False own_ReadValueId (own_NodeId nodeId + own_QualifiedName dataEncoding)
    (mkReadValueId nodeId attributeId indexRange dataEncoding)
    \<lparr>ReadValueId_nodeId = nodeId, ReadValueId_attributeId = AttributeId_code attributeId,
      ReadValueId_indexRange = toNativeString indexRange, ReadValueId_dataEncoding = dataEncoding\<rparr>)
   \<and> (\<forall>nodeId attributeId indexRange val.
      sound_ctor False own_WriteValue (own_NodeId nodeId + own_nested val)
    (mkWriteValue nodeId attributeId indexRange val)
    \<lparr>WriteValue_nodeId = nodeId, WriteValue_attributeId = AttributeId_code attributeId,
      WriteValue_indexRange = toNativeString indexRange, WriteValue_value = val\<rparr>)
   \<and> (\<forall>productUri manufacturerName productName softwareVersion buildNumber buildDate.
      sound_ctor False own_BuildInfo 0
    (mkBuildInfo productUri manufacturerName productName softwareVersion buildNumber buildDate)
    \<lparr>BuildInfo_productUri = toNativeString productUri, BuildInfo_manufacturerName = toNativeString manufacturerName,
      BuildInfo_productName = toNativeString productName, BuildInfo_softwareVersion = toNativeString softwareVersion,
      BuildInfo_buildNumber = toNativeString buildNumber, BuildInfo_buildDate = buildDate\<rparr>)
   \<and> (\<forall>idx.
      sound_ctor False own_ElementOperand 0
    (mkElementOperand idx)
    \<lparr>ElementOperand_index = idx\<rparr>)
   \<and> (\<forall>val.
      sound_ctor False own_LiteralOperand (own_nested val)
    (mkLiteralOperand val)
    \<lparr>LiteralOperand_value = val\<rparr>)
   \<and> (\<forall>nodeId als browsePath attributeId indexRange.
      sound_ctor False own_AttributeOperand (own_NodeId nodeId + own_RelativePath browsePath)
    (mkAttributeOperand nodeId als browsePath attributeId indexRange)
    \<lparr>AttributeOperand_nodeId = nodeId, AttributeOperand_alias = toNativeString als, AttributeOperand_browsePath = browsePath,
      AttributeOperand_attributeId = AttributeId_code attributeId, AttributeOperand_indexRange = toNativeString indexRange\<rparr>)
   \<and> (\<forall>trig deadbandType deadbandValue.
      sound_ctor False own_DataChangeFilter 0
    (mkDataChangeFilter trig deadbandType deadbandValue)
    \<lparr>DataChangeFilter_trigger = DataChangeTrigger_code trig, DataChangeFilter_deadbandType = DeadbandType_code deadbandType,
      DataChangeFilter_deadbandValue = deadbandValue\<rparr>)
   \<and> (\<forall>startTime aggregateType processingInterval aggregateConfiguration.
      sound_ctor False own_AggregateFilter (own_NodeId aggregateType)
    (mkAggregateFilter startTime aggregateType processingInterval aggregateConfiguration)
    \<lparr>AggregateFilter_startTime = startTime, AggregateFilter_aggregateType = aggregateType,
      AggregateFilter_processingInterval = processingInterval, AggregateFilter_aggregateConfiguration = aggregateConfiguration\<rparr>)
   \<and> (\<forall>samplingInterval filt queueSize discardOldest.
      sound_ctor False own_MonitoringParameters (own_nested filt)
    (mkMonitoringParameters samplingInterval filt queueSize discardOldest)
    \<lparr>MonitoringParameters_samplingInterval = samplingInterval, MonitoringParameters_filter = filt,
      MonitoringParameters_queueSize = queueSize, MonitoringParameters_discardOldest = discardOldest\<rparr>)
   \<and> (\<forall>itemToMonitor monitoringMode requestedParameters.
      sound_ctor False own_MonitoredItemCreateRequest (own_ReadValueId itemToMonitor + own_MonitoringParameters requestedParameters)
    (mkMonitoredItemCreateRequest itemToMonitor monitoringMode requestedParameters)
    \<lparr>MonitoredItemCreateRequest_itemToMonitor = itemToMonitor,
      MonitoredItemCreateRequest_monitoringMode = MonitoringMode_code monitoringMode,
      MonitoredItemCreateRequest_requestedParameters = requestedParameters\<rparr>)
   \<and> (\<forall>monitoredItemId requestedParameters.
      sound_ctor False own_MonitoredItemModifyRequest (own_MonitoringParameters requestedParameters)
    (mkMonitoredItemModifyRequest monitoredItemId requestedParameters)
    \<lparr>MonitoredItemModifyRequest_monitoredItemId = monitoredItemId,
      MonitoredItemModifyRequest_requestedParameters = requestedParameters\<rparr>)
   \<and> (\<forall>requestHeader requestedPublishingInterval requestedLifetimeCount requestedMaxKeepAliveCount maxNotificationsPerPublish publishingEnabled prio.
      sound_ctor False own_CreateSubscriptionRequest (own_RequestHeader requestHeader)
    (mkCreateSubscriptionRequest requestHeader requestedPublishingInterval requestedLifetimeCount requestedMaxKeepAliveCount maxNotificationsPerPublish publishingEnabled prio)
    \<lparr>CreateSubscriptionRequest_requestHeader = requestHeader,
      CreateSubscriptionRequest_requestedPublishingInterval = requestedPublishingInterval,
      CreateSubscriptionRequest_requestedLifetimeCount = requestedLifetimeCount,
      CreateSubscriptionRequest_requestedMaxKeepAliveCount = requestedMaxKeepAliveCount,
      CreateSubscriptionRequest_maxNotificationsPerPublish = maxNotificationsPerPublish,
      CreateSubscriptionRequest_publishingEnabled = publishingEnabled, CreateSubscriptionRequest_priority = prio\<rparr>)
   \<and> (\<forall>requestHeader subscriptionId requestedPublishingInterval requestedLifetimeCount requestedMaxKeepAliveCount maxNotificationsPerPublish prio.
      sound_ctor False own_ModifySubscriptionRequest (own_RequestHeader requestHeader)
    (mkModifySubscriptionRequest requestHeader subscriptionId requestedPublishingInterval requestedLifetimeCount requestedMaxKeepAliveCount maxNotificationsPerPublish prio)
    \<lparr>ModifySubscriptionRequest_requestHeader = requestHeader, ModifySubscriptionRequest_subscriptionId = subscriptionId,
      ModifySubscriptionRequest_requestedPublishingInterval = requestedPublishingInterval,
      ModifySubscriptionRequest_requestedLifetimeCount = requestedLifetimeCount,
      ModifySubscriptionRequest_requestedMaxKeepAliveCount = requestedMaxKeepAliveCount,
      ModifySubscriptionRequest_maxNotificationsPerPublish = maxNotificationsPerPublish, ModifySubscriptionRequest_priority = prio\<rparr>)
   \<and> (\<forall>lo hi.
      sound_ctor False own_Range 0
    (mkRange lo hi)
    \<lparr>Range_low = lo, Range_high = hi\<rparr>)
   \<and> (\<forall>namespaceUri unitId displayName description.
      sound_ctor False own_EUInformation (own_LocalizedText displayName + own_LocalizedText description)
    (mkEUInformation namespaceUri unitId displayName description)
    \<lparr>EUInformation_namespaceUri = toNativeString namespaceUri, EUInformation_unitId = unitId, EUInformation_displayName = displayName,
      EUInformation_description = description\<rparr>)
   \<and> (\<forall>re im.
      sound_ctor False own_ComplexNumberType 0
    (mkComplexNumberType re im)
    \<lparr>ComplexNumberType_real = re, ComplexNumberType_imaginary = im\<rparr>)
   \<and> (\<forall>re im.
      sound_ctor False own_DoubleComplexNumberType 0
    (mkDoubleComplexNumberType re im)
    \<lparr>DoubleComplexNumberType_real = re, DoubleComplexNumberType_imaginary = im\<rparr>)
   \<and> (\<forall>x val.
      sound_ctor False own_XVType 0
    (mkXVType x val)
    \<lparr>XVType_x = x, XVType_value = val\<rparr>)
   \<and> (\<forall>val displayName description nm.
      sound_ctor False own_EnumField (own_LocalizedText displayName + own_LocalizedText description)
    (mkEnumField val displayName description nm)
    \<lparr>EnumField_value = val, EnumField_displayName = displayName, EnumField_description = description,
      EnumField_name = toNativeString nm\<rparr>)
   \<and> (\<forall>val nm.
      sound_ctor False own_EnumField 0 (mkEnumField_name val nm)
    \<lparr>EnumField_value = val, EnumField_displayName = \<lparr>lt_locale = Str [], lt_text = toNativeString nm\<rparr>,
      EnumField_description = null_LocalizedText, EnumField_name = toNativeString nm\<rparr>)"
  by (intro conjI allI plain_sound mkEnumField_name_sound)



end
