(* ===== verification/Loggers.thy ===== *)
theory Loggers
  imports Prelude
begin

text \<open>
  The logger plugin (\<open>plugin/log.cpp\<close>, \<open>plugin/log_default.hpp\<close>) and \<open>setLogger\<close> of the server and client configuration. A native
  \<open>UA_Logger\<close> holds a pointer to its adapter and a clear function; since version 1.4 of the C library it lives on the heap, other
  components point to it, and its clear function frees it. Adapters are allocated by address; deleting one that is not
  alive, and freeing a struct that is not there, are undefined. The second part is the conversion of a log message
  into the thread-local buffer.
\<close>

section \<open>Native loggers\<close>

text \<open>The clear functions: none, those installed by \<open>create\<close>, and the one of a logger made by the C library.\<close>

datatype clear_fn = ClearNone | ClearOwned | ClearBorrowed | ClearNative

record UA_Logger =
  lg_log :: bool
  lg_context :: "nat option"
  lg_clear :: clear_fn

definition zero_Logger :: UA_Logger where
  "zero_Logger = \<lparr>lg_log = False, lg_context = None, lg_clear = ClearNone\<rparr>"

text \<open>\<open>ge14\<close>: version 1.4 or later. \<open>mallocs\<close> is the number of allocations that succeed.\<close>

record log_state =
  loggers :: "nat \<Rightarrow> UA_Logger option"
  adapters :: "nat set"
  mallocs :: nat

definition LoggerBase_create :: "bool \<Rightarrow> bool \<Rightarrow> nat \<Rightarrow> UA_Logger" where
  "LoggerBase_create ge14 ownsAdapter a = \<lparr>lg_log = True, lg_context = Some a,
     lg_clear = (if ownsAdapter then ClearOwned else if ge14 then ClearBorrowed else ClearNone)\<rparr>"

definition delete_adapter :: "nat option \<Rightarrow> (log_state, unit) op" where
  "delete_adapter a s = (case a of
      None \<Rightarrow> (Ret (), s)
    | Some k \<Rightarrow> if k \<in> adapters s then (Ret (), s\<lparr>adapters := adapters s - {k}\<rparr>) else (Inl Undef, s))"

definition free_logger :: "nat \<Rightarrow> (log_state, unit) op" where
  "free_logger p s = (case loggers s p of
      None \<Rightarrow> (Inl Undef, s)
    | Some _ \<Rightarrow> (Ret (), s\<lparr>loggers := (loggers s)(p := None)\<rparr>))"

text \<open>The clear functions, called with a pointer to a logger (1.4), or with its context (before); what the C library's own clear function
  does is the parameter \<open>ua_clear\<close>.\<close>

definition clear14 :: "(nat \<Rightarrow> (log_state, unit) op) \<Rightarrow> clear_fn \<Rightarrow> nat \<Rightarrow> (log_state, unit) op" where
  "clear14 ua_clear fn p s = (case fn of
      ClearNone \<Rightarrow> (Inl Undef, s)
    | ClearOwned \<Rightarrow> (case loggers s p of
        None \<Rightarrow> (Inl Undef, s)
      | Some l \<Rightarrow> op_bind (delete_adapter (lg_context l)) (\<lambda>_.
          op_bind (\<lambda>s. (Ret (), s\<lparr>loggers := (loggers s)(p \<mapsto> l\<lparr>lg_context := None\<rparr>)\<rparr>)) (\<lambda>_. free_logger p)) s)
    | ClearBorrowed \<Rightarrow> free_logger p s
    | ClearNative \<Rightarrow> ua_clear p s)"

definition clear13 :: "(nat option \<Rightarrow> (log_state, unit) op) \<Rightarrow> clear_fn \<Rightarrow> nat option \<Rightarrow> (log_state, unit) op" where
  "clear13 ua_clear fn ctx s = (case fn of
      ClearNone \<Rightarrow> (Inl Undef, s)
    | ClearOwned \<Rightarrow> delete_adapter ctx s
    | ClearBorrowed \<Rightarrow> (Ret (), s)
    | ClearNative \<Rightarrow> ua_clear ctx s)"

text \<open>\<open>detail::clear\<close>. With 1.4 the clear function gets a heap copy (at the fresh address \<open>q\<close>), so that the instance itself survives; the
  result of \<open>UA_malloc\<close> is not checked.\<close>

definition detail_clear14 :: "(nat \<Rightarrow> (log_state, unit) op) \<Rightarrow> nat \<Rightarrow> nat \<Rightarrow> (log_state, unit) op" where
  "detail_clear14 ua_clear q p s = (case loggers s p of
      None \<Rightarrow> (Inl Undef, s)
    | Some l \<Rightarrow> if lg_clear l = ClearNone then (Ret (), s)
        else if mallocs s = 0 then (Inl Undef, s)
        else op_bind (clear14 ua_clear (lg_clear l) q)
          (\<lambda>_ s. (Ret (), s\<lparr>loggers := (loggers s)(p \<mapsto> zero_Logger)\<rparr>))
          (s\<lparr>loggers := (loggers s)(q \<mapsto> l), mallocs := mallocs s - 1\<rparr>))"

definition detail_clear13 :: "(nat option \<Rightarrow> (log_state, unit) op) \<Rightarrow> nat \<Rightarrow> (log_state, unit) op" where
  "detail_clear13 ua_clear p s = (case loggers s p of
      None \<Rightarrow> (Inl Undef, s)
    | Some l \<Rightarrow> if lg_clear l = ClearNone then (Ret (), s)
        else op_bind (clear13 ua_clear (lg_clear l) (lg_context l))
          (\<lambda>_ s. (Ret (), s\<lparr>loggers := (loggers s)(p \<mapsto> zero_Logger)\<rparr>)) s)"

text \<open>\<open>setLogger\<close>: \<open>func\<close> tells whether the function is callable, \<open>logger\<close> is the result of \<open>getLogger\<close>, \<open>a\<close> the address of the new adapter, which the
  \<open>unique_ptr\<close> holds until \<open>release\<close>.\<close>

definition setLogger_with :: "bool \<Rightarrow> (nat \<Rightarrow> (log_state, unit) op) \<Rightarrow> bool \<Rightarrow> nat option \<Rightarrow> nat \<Rightarrow> (log_state, unit) op" where
  "setLogger_with ge14 detail_clear func logger a s =
     (if \<not> func then (Ret (), s)
      else case logger of
          None \<Rightarrow> (Inl Terminate, s\<lparr>adapters := insert a (adapters s)\<rparr>)
        | Some p \<Rightarrow> op_bind (detail_clear p) (\<lambda>_ s. case loggers s p of
              None \<Rightarrow> (Inl Undef, s)
            | Some _ \<Rightarrow> (Ret (), s\<lparr>loggers := (loggers s)(p \<mapsto> LoggerBase_create ge14 True a)\<rparr>))
          (s\<lparr>adapters := insert a (adapters s)\<rparr>))"

definition ServerConfig_setLogger14 :: "(nat \<Rightarrow> (log_state, unit) op) \<Rightarrow> bool \<Rightarrow> nat option \<Rightarrow> nat \<Rightarrow> nat \<Rightarrow> (log_state, unit) op" where
  "ServerConfig_setLogger14 ua_clear func logger q a = setLogger_with True (detail_clear14 ua_clear q) func logger a"

definition ServerConfig_setLogger13 :: "(nat option \<Rightarrow> (log_state, unit) op) \<Rightarrow> bool \<Rightarrow> nat option \<Rightarrow> nat \<Rightarrow> (log_state, unit) op" where
  "ServerConfig_setLogger13 ua_clear func logger a = setLogger_with False (detail_clear13 ua_clear) func logger a"

definition ClientConfig_setLogger14 :: "(nat \<Rightarrow> (log_state, unit) op) \<Rightarrow> bool \<Rightarrow> nat option \<Rightarrow> nat \<Rightarrow> nat \<Rightarrow> (log_state, unit) op" where
  "ClientConfig_setLogger14 ua_clear func logger q a = setLogger_with True (detail_clear14 ua_clear q) func logger a"

definition ClientConfig_setLogger13 :: "(nat option \<Rightarrow> (log_state, unit) op) \<Rightarrow> bool \<Rightarrow> nat option \<Rightarrow> nat \<Rightarrow> (log_state, unit) op" where
  "ClientConfig_setLogger13 ua_clear func logger a = setLogger_with False (detail_clear13 ua_clear) func logger a"

text \<open>A sequence of calls on one configuration; each call brings its adapter and, for 1.4, the address of its copy.\<close>

fun set_loggers14 :: "(nat \<Rightarrow> (log_state, unit) op) \<Rightarrow> nat \<Rightarrow> (bool \<times> nat \<times> nat) list \<Rightarrow> (log_state, unit) op" where
  "set_loggers14 ua_clear p [] = op_ret ()"
| "set_loggers14 ua_clear p ((func, q, a) # cs) =
     op_bind (ServerConfig_setLogger14 ua_clear func (Some p) q a) (\<lambda>_. set_loggers14 ua_clear p cs)"

fun set_loggers13 :: "(nat option \<Rightarrow> (log_state, unit) op) \<Rightarrow> nat \<Rightarrow> (bool \<times> nat) list \<Rightarrow> (log_state, unit) op" where
  "set_loggers13 ua_clear p [] = op_ret ()"
| "set_loggers13 ua_clear p ((func, a) # cs) =
     op_bind (ServerConfig_setLogger13 ua_clear func (Some p) a) (\<lambda>_. set_loggers13 ua_clear p cs)"

section \<open>Ownership\<close>

text \<open>The instance at \<open>p\<close> is the only logger, and the adapter it refers to is the only one; the C library's clear function touches
  no adapter and, with 1.4, frees the struct.\<close>

definition owner_ok :: "nat \<Rightarrow> log_state \<Rightarrow> bool" where
  "owner_ok p s = (\<exists>l. loggers s = [p \<mapsto> l] \<and>
     (case lg_clear l of ClearOwned \<Rightarrow> (\<exists>a. lg_context l = Some a \<and> adapters s = {a}) | ClearBorrowed \<Rightarrow> False | _ \<Rightarrow> adapters s = {}))"

definition frees_struct :: "(nat \<Rightarrow> (log_state, unit) op) \<Rightarrow> bool" where
  "frees_struct ua_clear = (\<forall>p s. loggers s p \<noteq> None \<longrightarrow> ua_clear p s = (Ret (), s\<lparr>loggers := (loggers s)(p := None)\<rparr>))"

definition frees_context :: "(nat option \<Rightarrow> (log_state, unit) op) \<Rightarrow> bool" where
  "frees_context ua_clear = (\<forall>c s. ua_clear c s = (Ret (), s))"

lemma owner_okE:
  assumes "owner_ok p s"
  obtains (owned) l a n where "s = \<lparr>loggers = [p \<mapsto> l], adapters = {a}, mallocs = n\<rparr>" "lg_clear l = ClearOwned" "lg_context l = Some a"
    | (none) l n where "s = \<lparr>loggers = [p \<mapsto> l], adapters = {}, mallocs = n\<rparr>" "lg_clear l = ClearNone"
    | (native) l n where "s = \<lparr>loggers = [p \<mapsto> l], adapters = {}, mallocs = n\<rparr>" "lg_clear l = ClearNative"
proof -
  obtain l ad n where s: "s = \<lparr>loggers = [p \<mapsto> l], adapters = ad, mallocs = n\<rparr>"
    and c: "case lg_clear l of ClearOwned \<Rightarrow> (\<exists>a. lg_context l = Some a \<and> ad = {a}) | ClearBorrowed \<Rightarrow> False | _ \<Rightarrow> ad = {}"
  proof -
    from assms obtain l where "loggers s = [p \<mapsto> l]"
      "case lg_clear l of ClearOwned \<Rightarrow> (\<exists>a. lg_context l = Some a \<and> adapters s = {a}) | ClearBorrowed \<Rightarrow> False | _ \<Rightarrow> adapters s = {}"
      unfolding owner_ok_def by blast
    then show thesis by (intro that[of l "adapters s" "mallocs s"]) simp_all
  qed
  show thesis
  proof (cases "lg_clear l")
    case ClearOwned
    with c s show thesis by (auto intro: owned)
  next
    case ClearNone
    with c s show thesis by (auto intro: none)
  next
    case ClearNative
    with c s show thesis by (auto intro: native)
  qed (use c in simp)
qed

definition owned_state :: "nat \<Rightarrow> bool \<Rightarrow> nat \<Rightarrow> nat \<Rightarrow> log_state" where
  "owned_state p ge14 a n = \<lparr>loggers = [p \<mapsto> LoggerBase_create ge14 True a], adapters = {a}, mallocs = n\<rparr>"

lemma owner_ok_owned: "owner_ok p (owned_state p ge14 a n)"
  unfolding owner_ok_def owned_state_def by (rule exI[of _ "LoggerBase_create ge14 True a"]) (simp add: LoggerBase_create_def)

lemma copy_freed: "q \<noteq> p \<Longrightarrow> ([p \<mapsto> l](q \<mapsto> m))(q := None) = [p \<mapsto> l]"
  by (auto simp: fun_eq_iff)

lemmas logger_step = setLogger_with_def detail_clear14_def detail_clear13_def clear14_def clear13_def
  delete_adapter_def free_logger_def op_bind_def owned_state_def copy_freed insert_Diff_if

lemma setLogger14_effect:
  assumes "frees_struct ua_clear" "owner_ok p s" "q \<noteq> p" "a \<notin> adapters s" "0 < mallocs s"
  shows "\<exists>n. mallocs s \<le> Suc n \<and> ServerConfig_setLogger14 ua_clear True (Some p) q a s = (Ret (), owned_state p True a n)"
  using assms(2)
proof (cases rule: owner_okE)
  case (owned l b n)
  then show ?thesis using assms
    by (intro exI[of _ "n - 1"]) (simp add: ServerConfig_setLogger14_def logger_step)
next
  case (none l n)
  then show ?thesis using assms by (intro exI[of _ n]) (simp add: ServerConfig_setLogger14_def logger_step)
next
  case (native l n)
  then show ?thesis using assms
    by (intro exI[of _ "n - 1"]) (simp add: ServerConfig_setLogger14_def logger_step frees_struct_def)
qed

lemma setLogger13_effect:
  assumes "frees_context ua_clear" "owner_ok p s" "a \<notin> adapters s"
  shows "ServerConfig_setLogger13 ua_clear True (Some p) a s = (Ret (), owned_state p False a (mallocs s))"
  using assms(2)
proof (cases rule: owner_okE)
  case (owned l b n)
  then show ?thesis using assms by (simp add: ServerConfig_setLogger13_def logger_step)
next
  case (none l n)
  then show ?thesis using assms by (simp add: ServerConfig_setLogger13_def logger_step)
next
  case (native l n)
  then show ?thesis using assms by (simp add: ServerConfig_setLogger13_def logger_step frees_context_def)
qed

text \<open>The adapters alive after a sequence of calls: the one of the last call with a function.\<close>

fun adapters_after :: "nat set \<Rightarrow> (bool \<times> nat) list \<Rightarrow> nat set" where
  "adapters_after A [] = A"
| "adapters_after A ((func, a) # cs) = adapters_after (if func then {a} else A) cs"

lemma set_loggers14_ok:
  assumes "frees_struct ua_clear"
  shows "owner_ok p s \<Longrightarrow> p \<notin> fst ` snd ` set cs \<Longrightarrow> distinct (map (snd \<circ> snd) cs) \<Longrightarrow>
    adapters s \<inter> snd ` snd ` set cs = {} \<Longrightarrow> length cs \<le> mallocs s \<Longrightarrow>
    \<exists>s'. set_loggers14 ua_clear p cs s = (Ret (), s') \<and> owner_ok p s' \<and>
      adapters s' = adapters_after (adapters s) (map (\<lambda>(func, q, a). (func, a)) cs)"
proof (induction cs arbitrary: s)
  case (Cons c cs)
  obtain func q a where c: "c = (func, q, a)" by (cases c)
  show ?case
  proof (cases func)
    case True
    from Cons.prems c have "q \<noteq> p" "a \<notin> adapters s" "0 < mallocs s" by auto
    from setLogger14_effect[OF assms Cons.prems(1) this] obtain n where n: "mallocs s \<le> Suc n"
      "ServerConfig_setLogger14 ua_clear True (Some p) q a s = (Ret (), owned_state p True a n)" by blast
    have "\<exists>s'. set_loggers14 ua_clear p cs (owned_state p True a n) = (Ret (), s') \<and> owner_ok p s' \<and>
        adapters s' = adapters_after (adapters (owned_state p True a n)) (map (\<lambda>(func, q, a). (func, a)) cs)"
      using Cons.prems c n(1) by (intro Cons.IH owner_ok_owned) (auto simp: owned_state_def, force)
    with n(2) c True show ?thesis by (simp add: op_bind_def owned_state_def)
  next
    case False
    have "\<exists>s'. set_loggers14 ua_clear p cs s = (Ret (), s') \<and> owner_ok p s' \<and>
        adapters s' = adapters_after (adapters s) (map (\<lambda>(func, q, a). (func, a)) cs)"
      using Cons.prems by (intro Cons.IH) auto
    with c False show ?thesis by (simp add: op_bind_def ServerConfig_setLogger14_def setLogger_with_def)
  qed
qed simp

lemma set_loggers13_ok:
  assumes "frees_context ua_clear"
  shows "owner_ok p s \<Longrightarrow> distinct (map snd cs) \<Longrightarrow> adapters s \<inter> snd ` set cs = {} \<Longrightarrow>
    \<exists>s'. set_loggers13 ua_clear p cs s = (Ret (), s') \<and> owner_ok p s' \<and> adapters s' = adapters_after (adapters s) cs"
proof (induction cs arbitrary: s)
  case (Cons c cs)
  obtain func a where c: "c = (func, a)" by (cases c)
  show ?case
  proof (cases func)
    case True
    from Cons.prems c have "a \<notin> adapters s" by auto
    note step = setLogger13_effect[OF assms Cons.prems(1) this]
    have "\<exists>s'. set_loggers13 ua_clear p cs (owned_state p False a (mallocs s)) = (Ret (), s') \<and> owner_ok p s' \<and>
        adapters s' = adapters_after (adapters (owned_state p False a (mallocs s))) cs"
      using Cons.prems c by (intro Cons.IH owner_ok_owned) (auto simp: owned_state_def)
    with step c True show ?thesis by (simp add: op_bind_def owned_state_def)
  next
    case False
    have "\<exists>s'. set_loggers13 ua_clear p cs s = (Ret (), s') \<and> owner_ok p s' \<and> adapters s' = adapters_after (adapters s) cs"
      using Cons.prems by (intro Cons.IH) auto
    with c False show ?thesis by (simp add: op_bind_def ServerConfig_setLogger13_def setLogger_with_def)
  qed
qed simp

text \<open>What the C library does with the logger of a configuration it cleans: it calls the clear function, if there is one.\<close>

definition clean14 :: "(nat \<Rightarrow> (log_state, unit) op) \<Rightarrow> nat \<Rightarrow> (log_state, unit) op" where
  "clean14 ua_clear p s = (case loggers s p of
      None \<Rightarrow> (Inl Undef, s)
    | Some l \<Rightarrow> if lg_clear l = ClearNone then (Ret (), s) else clear14 ua_clear (lg_clear l) p s)"

definition clean13 :: "(nat option \<Rightarrow> (log_state, unit) op) \<Rightarrow> nat \<Rightarrow> (log_state, unit) op" where
  "clean13 ua_clear p s = (case loggers s p of
      None \<Rightarrow> (Inl Undef, s)
    | Some l \<Rightarrow> if lg_clear l = ClearNone then (Ret (), s) else clear13 ua_clear (lg_clear l) (lg_context l) s)"

lemma clean14_ok:
  assumes "frees_struct ua_clear" "owner_ok p s"
  shows "\<exists>s'. clean14 ua_clear p s = (Ret (), s') \<and> adapters s' = {}"
  using assms(2)
proof (cases rule: owner_okE)
  case (owned l a n)
  then show ?thesis by (simp add: clean14_def logger_step)
next
  case (none l n)
  then show ?thesis by (simp add: clean14_def)
next
  case (native l n)
  with assms(1) show ?thesis by (simp add: clean14_def clear14_def frees_struct_def)
qed

lemma clean13_ok:
  assumes "frees_context ua_clear" "owner_ok p s"
  shows "\<exists>s'. clean13 ua_clear p s = (Ret (), s') \<and> adapters s' = {}"
  using assms(2)
proof (cases rule: owner_okE)
  case (owned l a n)
  then show ?thesis by (simp add: clean13_def logger_step)
next
  case (none l n)
  then show ?thesis by (simp add: clean13_def)
next
  case (native l n)
  with assms(1) show ?thesis by (simp add: clean13_def clear13_def frees_context_def)
qed

text \<open>The result of \<open>UA_malloc\<close> is dereferenced without a check.\<close>

lemma clear_without_memory_undefined:
  "fst (ServerConfig_setLogger14 ua_clear True (Some p) q a (owned_state p True b 0)) = Inl Undef"
  by (simp add: ServerConfig_setLogger14_def setLogger_with_def detail_clear14_def owned_state_def LoggerBase_create_def op_bind_def)

text \<open>C19. Setting loggers any number of times, with a C library before or since version 1.4, keeps the instance the configuration points to, never
  deletes an adapter twice, and leaves exactly the adapter of the last call alive; cleaning the configuration deletes that one too. With 1.4 every
  call needs one allocation.\<close>

theorem loggers_single_owner:
  assumes "frees_struct ua_clear" "frees_context ua_clear13"
    and "owner_ok p s" "p \<notin> fst ` snd ` set cs" "distinct (map (snd \<circ> snd) cs)"
    and "adapters s \<inter> snd ` snd ` set cs = {}" "length cs \<le> mallocs s"
  shows "(\<exists>s' s''. set_loggers14 ua_clear p cs s = (Ret (), s')
      \<and> adapters s' = adapters_after (adapters s) (map (\<lambda>(func, q, a). (func, a)) cs) \<and> dom (loggers s') = {p}
      \<and> clean14 ua_clear p s' = (Ret (), s'') \<and> adapters s'' = {})
    \<and> (\<exists>s' s''. set_loggers13 ua_clear13 p (map (\<lambda>(func, q, a). (func, a)) cs) s = (Ret (), s')
      \<and> adapters s' = adapters_after (adapters s) (map (\<lambda>(func, q, a). (func, a)) cs) \<and> dom (loggers s') = {p}
      \<and> clean13 ua_clear13 p s' = (Ret (), s'') \<and> adapters s'' = {})"
proof -
  let ?cs = "map (\<lambda>(func, q, a). (func, a)) cs"
  have dom: "dom (loggers t) = {p}" if "owner_ok p t" for t
    using that unfolding owner_ok_def by (elim exE conjE) simp
  have snds: "map snd ?cs = map (snd \<circ> snd) cs" by (auto simp: case_prod_beta)
  have "distinct (map snd ?cs)" using assms(5) unfolding snds .
  moreover have "adapters s \<inter> snd ` set ?cs = {}"
    using assms(6) by (force simp: image_iff)
  ultimately have "\<exists>s'. set_loggers13 ua_clear13 p ?cs s = (Ret (), s') \<and> owner_ok p s' \<and> adapters s' = adapters_after (adapters s) ?cs"
    by (rule set_loggers13_ok[OF assms(2,3)])
  with clean13_ok[OF assms(2)] dom
  have "\<exists>s' s''. set_loggers13 ua_clear13 p ?cs s = (Ret (), s') \<and> adapters s' = adapters_after (adapters s) ?cs
      \<and> dom (loggers s') = {p} \<and> clean13 ua_clear13 p s' = (Ret (), s'') \<and> adapters s'' = {}" by blast
  moreover from set_loggers14_ok[OF assms(1,3-7)] clean14_ok[OF assms(1)] dom
  have "\<exists>s' s''. set_loggers14 ua_clear p cs s = (Ret (), s') \<and> adapters s' = adapters_after (adapters s) ?cs
      \<and> dom (loggers s') = {p} \<and> clean14 ua_clear p s' = (Ret (), s'') \<and> adapters s'' = {}" by blast
  ultimately show ?thesis by (rule conjI[rotated])
qed

theorem loggers_single_owner_witness:
  "\<exists>s' s''. set_loggers14 (\<lambda>p s. (Ret (), s\<lparr>loggers := (loggers s)(p := None)\<rparr>)) 0 [(True, 1, 7), (False, 2, 8), (True, 3, 9)]
      \<lparr>loggers = [0 \<mapsto> \<lparr>lg_log = True, lg_context = None, lg_clear = ClearNative\<rparr>], adapters = {}, mallocs = 5\<rparr> = (Ret (), s')
    \<and> adapters s' = {9} \<and> dom (loggers s') = {0}
    \<and> clean14 (\<lambda>p s. (Ret (), s\<lparr>loggers := (loggers s)(p := None)\<rparr>)) 0 s' = (Ret (), s'') \<and> adapters s'' = {}"
proof -
  let ?l = "\<lparr>lg_log = True, lg_context = None, lg_clear = ClearNative\<rparr>"
  let ?s = "\<lparr>loggers = [0 \<mapsto> ?l], adapters = {}, mallocs = 5\<rparr>"
  have ok: "owner_ok 0 ?s" unfolding owner_ok_def by (rule exI[of _ ?l]) simp
  show ?thesis
    using loggers_single_owner[of "\<lambda>p s. (Ret (), s\<lparr>loggers := (loggers s)(p := None)\<rparr>)" "\<lambda>c s. (Ret (), s)" 0 ?s
        "[(True, 1, 7), (False, 2, 8), (True, 3, 9)]", THEN conjunct1] ok
    by (simp add: frees_struct_def frees_context_def)
qed

section \<open>Messages\<close>

text \<open>The thread-local buffer: its characters, its capacity, and a generation that changes when it is reallocated. A \<open>string_view\<close> into it
  is its generation and length; a view into freed storage must not be read.\<close>

record log_buffer =
  lb_text :: string
  lb_capacity :: nat
  lb_generation :: nat

record log_view =
  lv_generation :: nat
  lv_length :: nat

definition read_view :: "log_view \<Rightarrow> log_buffer \<Rightarrow> string outc" where
  "read_view v b = (if lv_generation v = lb_generation b \<and> lv_length v \<le> length (lb_text b)
     then Ret (take (lv_length v) (lb_text b)) else Inl Undef)"

definition buffer_resize :: "nat \<Rightarrow> log_buffer \<Rightarrow> log_buffer" where
  "buffer_resize n b =
     \<lparr>lb_text = take n (lb_text b) @ replicate (n - length (lb_text b)) (CHR 0x00),
      lb_capacity = max n (lb_capacity b),
      lb_generation = (if n \<le> lb_capacity b then lb_generation b else Suc (lb_generation b))\<rparr>"

text \<open>\<open>vsnprintf\<close> gets the size of the buffer and returns the number of characters of the whole message, negative for an error, and
  what it writes (without the terminator).\<close>

type_synonym 'a printf = "string \<Rightarrow> 'a \<Rightarrow> nat \<Rightarrow> int \<times> string"

definition log_toString :: "'a printf \<Rightarrow> string \<Rightarrow> 'a \<Rightarrow> log_buffer \<Rightarrow> log_buffer" where
  "log_toString vsn fmt args b0 =
     (let b = b0\<lparr>lb_text := []\<rparr>; charsToWrite = fst (vsn fmt args 0)
      in if charsToWrite < 0 then b
         else let b' = buffer_resize (nat charsToWrite) b;
                  (charsWritten, out) = vsn fmt args (Suc (nat charsToWrite));
                  b'' = b'\<lparr>lb_text := take (nat charsToWrite) (out @ drop (length out) (lb_text b'))\<rparr>
              in if charsWritten < 0 \<or> charsToWrite < charsWritten then b''\<lparr>lb_text := []\<rparr> else b'')"

text \<open>The user's function gets level, category and the view. It runs on the user's state and the buffer, which it changes when it logs itself.\<close>

type_synonym 's log_function = "u32 \<Rightarrow> u32 \<Rightarrow> log_view \<Rightarrow> ('s \<times> log_buffer, unit) op"

definition LoggerDefault_log :: "'s log_function option \<Rightarrow> 's log_function" where
  "LoggerDefault_log func level category msg = (case func of None \<Rightarrow> op_ret () | Some f \<Rightarrow> f level category msg)"

definition logNative :: "'a printf \<Rightarrow> 's log_function option \<Rightarrow> u32 \<Rightarrow> u32 \<Rightarrow> string \<Rightarrow> 'a \<Rightarrow> ('s \<times> log_buffer, unit) op" where
  "logNative vsn adapter level category msg args sb = (case adapter of
      None \<Rightarrow> (Inl Terminate, sb)
    | Some log \<Rightarrow> (let b = log_toString vsn msg args (snd sb)
        in log level category \<lparr>lv_generation = lb_generation b, lv_length = length (lb_text b)\<rparr> (fst sb, b)))"

definition formats :: "'a printf \<Rightarrow> (string \<Rightarrow> 'a \<Rightarrow> string option) \<Rightarrow> bool" where
  "formats vsn message = (\<forall>fmt args n. case message fmt args of
      None \<Rightarrow> fst (vsn fmt args n) < 0
    | Some t \<Rightarrow> vsn fmt args n = (int (length t), take (n - 1) t))"

lemma formatsD:
  "formats vsn message \<Longrightarrow> case message fmt args of
      None \<Rightarrow> fst (vsn fmt args n) < 0 | Some t \<Rightarrow> vsn fmt args n = (int (length t), take (n - 1) t)"
  unfolding formats_def by blast

lemma log_toString_formats:
  assumes "formats vsn message"
  shows "lb_text (log_toString vsn fmt args b) = (case message fmt args of None \<Rightarrow> [] | Some t \<Rightarrow> t)"
proof (cases "message fmt args")
  case None
  with formatsD[OF assms, of fmt args 0] have "fst (vsn fmt args 0) < 0" by simp
  with None show ?thesis by (simp add: log_toString_def Let_def)
next
  case (Some t)
  with formatsD[OF assms, of fmt args] have v: "vsn fmt args n = (int (length t), take (n - 1) t)" for n by simp
  show ?thesis by (simp add: log_toString_def Let_def v Some)
qed

text \<open>Given a \<open>vsnprintf\<close> as the standard describes it, a native log call passes level and category on, and the view the user's function gets reads as
  the whole formatted message, whatever the buffer held before; a message that cannot be formatted is passed on as empty.\<close>

theorem log_message_complete:
  assumes "formats vsn message"
  shows "\<exists>v b'. logNative vsn (Some (LoggerDefault_log func)) level category msg args (s, b)
        = (case func of None \<Rightarrow> (Ret (), s, b') | Some f \<Rightarrow> f level category v (s, b'))
      \<and> read_view v b' = Ret (case message msg args of None \<Rightarrow> [] | Some t \<Rightarrow> t)
      \<and> lb_capacity b \<le> lb_capacity b'"
proof -
  let ?b = "log_toString vsn msg args b"
  let ?v = "\<lparr>lv_generation = lb_generation ?b, lv_length = length (lb_text ?b)\<rparr>"
  have "lb_capacity b \<le> lb_capacity ?b"
    by (simp add: log_toString_def Let_def buffer_resize_def split: prod.splits)
  moreover have "read_view ?v ?b = Ret (case message msg args of None \<Rightarrow> [] | Some t \<Rightarrow> t)"
    using log_toString_formats[OF assms, of msg args b] by (simp add: read_view_def)
  moreover have "logNative vsn (Some (LoggerDefault_log func)) level category msg args (s, b)
      = (case func of None \<Rightarrow> (Ret (), s, ?b) | Some f \<Rightarrow> f level category ?v (s, ?b))"
    by (simp add: logNative_def LoggerDefault_log_def Let_def split: option.splits)
  ultimately show ?thesis by blast
qed

definition echo_printf :: "unit printf" where
  "echo_printf fmt args n = (int (length fmt), take (n - 1) fmt)"

lemma echo_formats: "formats echo_printf (\<lambda>fmt args. Some fmt)"
  by (simp add: formats_def echo_printf_def)

definition reading_log :: "string list log_function" where
  "reading_log l c v = (\<lambda>(s, b). case read_view v b of Inl e \<Rightarrow> (Inl e, s, b) | Inr t \<Rightarrow> (Ret (), t # s, b))"

theorem log_message_complete_witness:
  "\<exists>v b'. logNative echo_printf (Some (LoggerDefault_log (Some reading_log))) 3 4 ''hello'' ()
        ([], \<lparr>lb_text = ''a longer message'', lb_capacity = 256, lb_generation = 0\<rparr>)
      = reading_log 3 4 v ([], b') \<and> read_view v b' = Ret ''hello'' \<and> 256 \<le> lb_capacity b'"
  using log_message_complete[OF echo_formats, where func = "Some reading_log" and level = 3 and category = 4 and msg = "''hello''"
      and args = "()" and s = "[]" and b = "\<lparr>lb_text = ''a longer message'', lb_capacity = 256, lb_generation = 0\<rparr>"]
  unfolding option.case log_buffer.select_convs .

text \<open>A log function that itself causes a message to be logged on the same thread: the buffer is the same, so the view of the outer message
  reads as the inner one, or dangles when the buffer had to grow.\<close>

definition reentrant_log :: "string \<Rightarrow> string list log_function" where
  "reentrant_log inner l c v = op_bind
     (logNative echo_printf (Some (\<lambda>l c w (s, b). (Ret (), s, b))) l c inner ())
     (\<lambda>_ (s, b). case read_view v b of Inl e \<Rightarrow> (Inl e, s, b) | Inr t \<Rightarrow> (Ret (), t # s, b))"

lemma reentrant_log_overwrites:
  "\<exists>b. logNative echo_printf (Some (reentrant_log ''INNER'')) l c ''outer'' () ([], \<lparr>lb_text = [], lb_capacity = 256, lb_generation = 0\<rparr>)
     = (Ret (), [''INNER''], b)"
  "fst (logNative echo_printf (Some (reentrant_log ''a long inner message'')) l c ''outer'' () ([], \<lparr>lb_text = [], lb_capacity = 8, lb_generation = 0\<rparr>))
     = Inl Undef"
  by (simp_all add: logNative_def reentrant_log_def log_toString_def echo_printf_def buffer_resize_def read_view_def op_bind_def Let_def)

end
