(* ===== verification/Certificates.thy ===== *)
theory Certificates
  imports Loggers Builtin_Types
begin

text \<open>
  \<open>plugin/create_certificate.cpp\<close> and \<open>plugin/nodesetloader.cpp\<close>. The C library reports the reason of a failure only in its log; so
  \<open>createCertificate\<close> hands it a logger of its own that keeps the first error message. The library's work is an argument: the log calls it
  makes, its status, the two byte strings it fills, and its memory.
\<close>

datatype CertificateFormat = DER | PEM

record CreateCertificateResult =
  privateKey :: native_string
  certificate :: native_string

definition own_certificate :: "CreateCertificateResult \<Rightarrow> int" where
  "own_certificate r = own_string (privateKey r) + own_string (certificate r)"

text \<open>The lambda of the logger; \<open>error_level\<close> is the value of \<open>LogLevel::Error\<close> in the version at hand.\<close>

definition keep_first_error :: "u32 \<Rightarrow> string option log_function" where
  "keep_first_error error_level level category msg = (\<lambda>(error, b).
     if error_level \<le> level \<and> error = None
     then (case read_view msg b of Inl e \<Rightarrow> (Inl e, error, b) | Inr t \<Rightarrow> (Ret (), Some t, b))
     else (Ret (), error, b))"

text \<open>The log calls of the C library, one after the other: level, category, format and arguments.\<close>

fun log_calls :: "'a printf \<Rightarrow> 's log_function \<Rightarrow> (u32 \<times> u32 \<times> string \<times> 'a) list \<Rightarrow> ('s \<times> log_buffer, unit) op" where
  "log_calls vsn log [] = op_ret ()"
| "log_calls vsn log ((level, category, fmt, args) # cs) =
     op_bind (logNative vsn (Some log) level category fmt args) (\<lambda>_. log_calls vsn log cs)"

text \<open>\<open>CreateCertificateError\<close> is derived from \<open>std::runtime_error\<close>.\<close>

definition createCertificate ::
  "'a printf \<Rightarrow> u32 \<Rightarrow>
   (native_string list \<Rightarrow> native_string list \<Rightarrow> CertificateFormat \<Rightarrow> mem \<Rightarrow>
      ((u32 \<times> u32 \<times> string \<times> 'a) list \<times> u32 \<times> CreateCertificateResult) \<times> mem) \<Rightarrow>
   native_string list \<Rightarrow> native_string list \<Rightarrow> CertificateFormat \<Rightarrow> (mem \<times> log_buffer, CreateCertificateResult) op" where
  "createCertificate vsn error_level ua_create subject subjectAltName fmt mb = (case mb of (m, b) \<Rightarrow>
     if subject = [] \<or> subjectAltName = []
     then (throw (StdException ''Argument subject or subjectAltName is empty''), m, b)
     else (case ua_create subject subjectAltName fmt m of ((calls, status, result), m') \<Rightarrow>
       (case log_calls vsn (LoggerDefault_log (Some (keep_first_error error_level))) calls (None, b) of
          (Inl e, _, b') \<Rightarrow> (Inl e, m', b')
        | (Inr _, error, b') \<Rightarrow> (case error of
              Some t \<Rightarrow> (throw (StdException t), free_blocks (own_certificate result) m', b')
            | None \<Rightarrow> (case throwIfBad status of
                Inl e \<Rightarrow> (Inl e, free_blocks (own_certificate result) m', b')
              | Inr _ \<Rightarrow> (Ret result, m', b'))))))"

definition loadNodeset :: "(string \<Rightarrow> 's \<Rightarrow> u32 \<times> 's) \<Rightarrow> string \<Rightarrow> 's \<Rightarrow> u32 \<times> 's" where
  "loadNodeset ua_loadNodeset path s = ua_loadNodeset (takeWhile (\<lambda>c. c \<noteq> CHR 0x00) path) s"

section \<open>The first error\<close>

definition call_text :: "(string \<Rightarrow> 'a \<Rightarrow> string option) \<Rightarrow> u32 \<times> u32 \<times> string \<times> 'a \<Rightarrow> string" where
  "call_text message c = (case c of (_, _, fmt, args) \<Rightarrow> case message fmt args of None \<Rightarrow> [] | Some t \<Rightarrow> t)"

definition error_texts :: "(string \<Rightarrow> 'a \<Rightarrow> string option) \<Rightarrow> u32 \<Rightarrow> (u32 \<times> u32 \<times> string \<times> 'a) list \<Rightarrow> string list" where
  "error_texts message error_level calls = map (call_text message) (filter (\<lambda>c. error_level \<le> fst c) calls)"

lemma logNative_keep:
  assumes "formats vsn message"
  shows "\<exists>b'. logNative vsn (Some (LoggerDefault_log (Some (keep_first_error lv)))) level category fmt args (e, b)
    = (Ret (), (if lv \<le> level \<and> e = None then Some (call_text message (level, category, fmt, args)) else e), b')"
proof -
  let ?b = "log_toString vsn fmt args b"
  have "read_view \<lparr>lv_generation = lb_generation ?b, lv_length = length (lb_text ?b)\<rparr> ?b
      = Ret (call_text message (level, category, fmt, args))"
    using log_toString_formats[OF assms, of fmt args b] by (simp add: read_view_def call_text_def)
  then show ?thesis by (simp add: logNative_def LoggerDefault_log_def keep_first_error_def Let_def)
qed

lemma log_calls_keep:
  assumes "formats vsn message"
  shows "\<exists>b'. log_calls vsn (LoggerDefault_log (Some (keep_first_error lv))) calls (e, b)
    = (Ret (), (case e of Some t \<Rightarrow> Some t | None \<Rightarrow> (case error_texts message lv calls of [] \<Rightarrow> None | t # _ \<Rightarrow> Some t)), b')"
proof (induction calls arbitrary: e b)
  case Nil
  then show ?case by (cases e) (simp_all add: error_texts_def op_ret_def)
next
  case (Cons c cs)
  obtain level category fmt args where c: "c = (level, category, fmt, args)" by (cases c)
  let ?log = "LoggerDefault_log (Some (keep_first_error lv))"
  let ?e = "if lv \<le> level \<and> e = None then Some (call_text message c) else e"
  obtain b1 where one: "logNative vsn (Some ?log) level category fmt args (e, b) = (Ret (), ?e, b1)"
    using logNative_keep[OF assms] c by blast
  obtain b' where rest: "log_calls vsn ?log cs (?e, b1)
      = (Ret (), (case ?e of Some t \<Rightarrow> Some t | None \<Rightarrow> (case error_texts message lv cs of [] \<Rightarrow> None | t # _ \<Rightarrow> Some t)), b')"
    using Cons.IH by blast
  have "log_calls vsn ?log (c # cs) (e, b) = log_calls vsn ?log cs (?e, b1)" by (simp add: c op_bind_def one[unfolded c])
  moreover have "(case ?e of Some t \<Rightarrow> Some t | None \<Rightarrow> (case error_texts message lv cs of [] \<Rightarrow> None | t # _ \<Rightarrow> Some t))
      = (case e of Some t \<Rightarrow> Some t | None \<Rightarrow> (case error_texts message lv (c # cs) of [] \<Rightarrow> None | t # _ \<Rightarrow> Some t))"
    by (cases e) (simp_all add: error_texts_def c)
  ultimately show ?case using rest by simp
qed

text \<open>C23. \<open>createCertificate\<close> reports failures by the first error message: empty arguments are rejected before the C library is called;
  otherwise the exception carries the text of the first message logged with level error or above, whatever is logged besides and even
  when the status is good; without such a message a bad status is thrown; only else the two byte strings are returned. A failure
  frees what the library had filled in.\<close>

theorem certificate_errors_reported:
  assumes "formats vsn message"
    and "ua_create subject alt fmt m = ((calls, status, result), m1)" "live m1 = live m + own_certificate result"
  shows "\<exists>r m2 b2. createCertificate vsn error_level ua_create subject alt fmt (m, b) = (r, m2, b2)
    \<and> (if subject = [] \<or> alt = [] then r = throw (StdException ''Argument subject or subjectAltName is empty'') \<and> m2 = m \<and> b2 = b
       else case error_texts message error_level calls of
           t # _ \<Rightarrow> r = throw (StdException t) \<and> live m2 = live m
         | [] \<Rightarrow> if isBad status then outc_map (\<lambda>_. ()) r = throwIfBad status \<and> live m2 = live m
                 else r = Ret result \<and> m2 = m1)"
proof (cases "subject = [] \<or> alt = []")
  case True
  then show ?thesis by (simp add: createCertificate_def)
next
  case False
  obtain b' where log: "log_calls vsn (LoggerDefault_log (Some (keep_first_error error_level))) calls (None, b)
    = (Ret (), (case error_texts message error_level calls of [] \<Rightarrow> None | t # _ \<Rightarrow> Some t), b')"
    using log_calls_keep[OF assms(1), of error_level calls None b] by auto
  show ?thesis
  proof (cases "error_texts message error_level calls")
    case Nil
    then show ?thesis using False assms(2,3) log by (auto simp: createCertificate_def throwIfBad_def free_blocks_def)
  next
    case (Cons t ts)
    then show ?thesis using False assms(2,3) log by (simp add: createCertificate_def free_blocks_def)
  qed
qed

definition demo_create ::
  "native_string list \<Rightarrow> native_string list \<Rightarrow> CertificateFormat \<Rightarrow> mem \<Rightarrow> ((u32 \<times> u32 \<times> string \<times> unit) list \<times> u32 \<times> CreateCertificateResult) \<times> mem" where
  "demo_create subject alt fmt m =
     (([(3, 0, ''generating'', ()), (4, 0, ''no entropy'', ()), (5, 0, ''giving up'', ())], UA_STATUSCODE_BADINTERNALERROR,
       \<lparr>privateKey = NullString, certificate = NullString\<rparr>), m)"

theorem certificate_errors_reported_witness:
  "\<exists>r m2 b2. createCertificate echo_printf 4 demo_create [Str ''C=DE''] [Str ''DNS:localhost''] DER
      (\<lparr>budget = 9, live = 0\<rparr>, \<lparr>lb_text = [], lb_capacity = 256, lb_generation = 0\<rparr>) = (r, m2, b2)
    \<and> r = throw (StdException ''no entropy'') \<and> live m2 = 0"
proof -
  let ?m = "\<lparr>budget = 9, live = 0\<rparr>"
  have run: "demo_create [Str ''C=DE''] [Str ''DNS:localhost''] DER ?m =
     (([(3, 0, ''generating'', ()), (4, 0, ''no entropy'', ()), (5, 0, ''giving up'', ())], UA_STATUSCODE_BADINTERNALERROR,
       \<lparr>privateKey = NullString, certificate = NullString\<rparr>), ?m)" by (simp add: demo_create_def)
  have "live ?m = live ?m + own_certificate \<lparr>privateKey = NullString, certificate = NullString\<rparr>"
    by (simp add: own_certificate_def own_string_def)
  from certificate_errors_reported[where ua_create = demo_create and error_level = 4
      and b = "\<lparr>lb_text = [], lb_capacity = 256, lb_generation = 0\<rparr>", OF echo_formats run this]
  obtain r m2 b2 where "createCertificate echo_printf 4 demo_create [Str ''C=DE''] [Str ''DNS:localhost''] DER
      (?m, \<lparr>lb_text = [], lb_capacity = 256, lb_generation = 0\<rparr>) = (r, m2, b2)"
    "r = throw (StdException ''no entropy'') \<and> live m2 = live ?m"
    by (auto simp: error_texts_def call_text_def)
  then show ?thesis by auto
qed

text \<open>A path is passed as a C string: it ends at its first null character.\<close>

lemma loadNodeset_path: "loadNodeset ld (p @ CHR 0x00 # q) s = loadNodeset ld p s"
proof -
  have "takeWhile (\<lambda>c. c \<noteq> CHR 0x00) (p @ CHR 0x00 # q) = takeWhile (\<lambda>c. c \<noteq> CHR 0x00) p"
    by (induction p) simp_all
  then show ?thesis by (simp only: loadNodeset_def)
qed

end
