(* ===== verification/Sessions_Events.thy ===== *)
theory Sessions_Events
  imports Variants
begin

text \<open>
  \<open>Session\<close> (\<open>session.cpp\<close>) and \<open>Event\<close> (\<open>event.cpp\<close>). A session and an event refer to a server object, which is taken to outlive them. The functions of the C library are the fields of \<open>session_api\<close> and
  \<open>event_api\<close>, acting on a server state of any type. An event object owns the node that represents the event: its destructor
  deletes the node unless the event was moved from or released.
\<close>

section \<open>Sessions\<close>

datatype ua_version = Before13 | V13 | Since14

record ('s, 'v) session_api =
  getParameter13 :: "nat \<Rightarrow> NodeId \<Rightarrow> string \<Rightarrow> 's \<Rightarrow> (u32 \<times> 'v Variant) \<times> 's"
  setParameter13 :: "nat \<Rightarrow> NodeId \<Rightarrow> string \<Rightarrow> 'v Variant \<Rightarrow> 's \<Rightarrow> u32 \<times> 's"
  deleteParameter13 :: "nat \<Rightarrow> NodeId \<Rightarrow> string \<Rightarrow> 's \<Rightarrow> 's"
  getAttributeCopy14 :: "nat \<Rightarrow> NodeId \<Rightarrow> QualifiedName \<Rightarrow> 's \<Rightarrow> (u32 \<times> 'v Variant) \<times> 's"
  setAttribute14 :: "nat \<Rightarrow> NodeId \<Rightarrow> QualifiedName \<Rightarrow> 'v Variant \<Rightarrow> 's \<Rightarrow> u32 \<times> 's"
  deleteAttribute14 :: "nat \<Rightarrow> NodeId \<Rightarrow> QualifiedName \<Rightarrow> 's \<Rightarrow> u32 \<times> 's"
  closeSession13 :: "nat \<Rightarrow> NodeId \<Rightarrow> 's \<Rightarrow> u32 \<times> 's"

record Session =
  session_connection :: nat
  session_id :: NodeId
  session_context :: nat

definition mkSession :: "nat \<Rightarrow> NodeId \<Rightarrow> nat \<Rightarrow> Session" where
  "mkSession connection sessionId sessionContext =
     \<lparr>session_connection = connection, session_id = sessionId, session_context = sessionContext\<rparr>"

definition checked :: "u32 \<times> 's \<Rightarrow> unit outc \<times> 's" where
  "checked r = (throwIfBad (fst r), snd r)"

text \<open>\<open>unqualify\<close> drops the namespace; the name is passed as a C string.\<close>

definition c_str :: "string \<Rightarrow> string" where
  "c_str s = takeWhile (\<lambda>c. c \<noteq> CHR 0x00) s"

definition unqualify :: "QualifiedName \<Rightarrow> string" where
  "unqualify key = string_fromNative (qn_name key)"

definition getSessionAttribute :: "ua_version \<Rightarrow> ('s, 'v) session_api \<Rightarrow> Session \<Rightarrow> QualifiedName \<Rightarrow> ('s, 'v Variant) op" where
  "getSessionAttribute ver api x key s = (case ver of
      Before13 \<Rightarrow> (Ret zero_variant, s)
    | V13 \<Rightarrow> (case getParameter13 api (session_connection x) (session_id x) (c_str (unqualify key)) s of
        ((status, v), s') \<Rightarrow> (outc_map (\<lambda>_. v) (throwIfBad status), s'))
    | Since14 \<Rightarrow> (case getAttributeCopy14 api (session_connection x) (session_id x) key s of
        ((status, v), s') \<Rightarrow> (outc_map (\<lambda>_. v) (throwIfBad status), s')))"

definition setSessionAttribute :: "ua_version \<Rightarrow> ('s, 'v) session_api \<Rightarrow> Session \<Rightarrow> QualifiedName \<Rightarrow> 'v Variant \<Rightarrow> ('s, unit) op" where
  "setSessionAttribute ver api x key v s = (case ver of
      Before13 \<Rightarrow> (Ret (), s)
    | V13 \<Rightarrow> checked (setParameter13 api (session_connection x) (session_id x) (c_str (unqualify key)) v s)
    | Since14 \<Rightarrow> checked (setAttribute14 api (session_connection x) (session_id x) key v s))"

definition deleteSessionAttribute :: "ua_version \<Rightarrow> ('s, 'v) session_api \<Rightarrow> Session \<Rightarrow> QualifiedName \<Rightarrow> ('s, unit) op" where
  "deleteSessionAttribute ver api x key s = (case ver of
      Before13 \<Rightarrow> (Ret (), s)
    | V13 \<Rightarrow> (Ret (), deleteParameter13 api (session_connection x) (session_id x) (c_str (unqualify key)) s)
    | Since14 \<Rightarrow> checked (deleteAttribute14 api (session_connection x) (session_id x) key s))"

definition session_close :: "ua_version \<Rightarrow> ('s, 'v) session_api \<Rightarrow> Session \<Rightarrow> ('s, unit) op" where
  "session_close ver api x s = (case ver of
      Before13 \<Rightarrow> (Ret (), s)
    | _ \<Rightarrow> checked (closeSession13 api (session_connection x) (session_id x) s))"

definition session_eq :: "(nat \<Rightarrow> nat) \<Rightarrow> (NodeId \<Rightarrow> NodeId \<Rightarrow> bool) \<Rightarrow> Session \<Rightarrow> Session \<Rightarrow> bool" where
  "session_eq handle ua_equal a b =
     (handle (session_connection a) = handle (session_connection b) \<and> ua_equal (session_id a) (session_id b))"

definition session_neq :: "(nat \<Rightarrow> nat) \<Rightarrow> (NodeId \<Rightarrow> NodeId \<Rightarrow> bool) \<Rightarrow> Session \<Rightarrow> Session \<Rightarrow> bool" where
  "session_neq handle ua_equal a b = (\<not> session_eq handle ua_equal a b)"

text \<open>An attribute store as the documentation describes it: a map from keys to values per session. \<open>key_of\<close> is how the version at hand
  identifies an attribute: before 1.4 by the name alone.\<close>

definition key_of :: "ua_version \<Rightarrow> QualifiedName \<Rightarrow> u16 \<times> string" where
  "key_of ver key = (if ver = V13 then (0, c_str (unqualify key)) else (qn_namespaceIndex key, string_fromNative (qn_name key)))"

type_synonym 'v attribute_store = "nat \<times> NodeId \<Rightarrow> (u16 \<times> string \<Rightarrow> 'v Variant option) option"

definition store_get :: "nat \<Rightarrow> NodeId \<Rightarrow> u16 \<times> string \<Rightarrow> 'v attribute_store \<Rightarrow> (u32 \<times> 'v Variant) \<times> 'v attribute_store" where
  "store_get c i k s = ((case s (c, i) of
      None \<Rightarrow> (UA_STATUSCODE_BADINTERNALERROR, zero_variant)
    | Some m \<Rightarrow> (case m k of None \<Rightarrow> (UA_STATUSCODE_BADINTERNALERROR, zero_variant) | Some v \<Rightarrow> (UA_STATUSCODE_GOOD, v))), s)"

definition store_set :: "nat \<Rightarrow> NodeId \<Rightarrow> u16 \<times> string \<Rightarrow> 'v Variant \<Rightarrow> 'v attribute_store \<Rightarrow> u32 \<times> 'v attribute_store" where
  "store_set c i k v s = (case s (c, i) of
      None \<Rightarrow> (UA_STATUSCODE_BADINTERNALERROR, s)
    | Some m \<Rightarrow> (UA_STATUSCODE_GOOD, s((c, i) \<mapsto> m(k \<mapsto> v))))"

definition store_delete :: "nat \<Rightarrow> NodeId \<Rightarrow> u16 \<times> string \<Rightarrow> 'v attribute_store \<Rightarrow> u32 \<times> 'v attribute_store" where
  "store_delete c i k s = (case s (c, i) of
      None \<Rightarrow> (UA_STATUSCODE_BADINTERNALERROR, s)
    | Some m \<Rightarrow> if m k = None then (UA_STATUSCODE_BADINTERNALERROR, s) else (UA_STATUSCODE_GOOD, s((c, i) \<mapsto> m(k := None))))"

definition store_close :: "nat \<Rightarrow> NodeId \<Rightarrow> 'v attribute_store \<Rightarrow> u32 \<times> 'v attribute_store" where
  "store_close c i s = (case s (c, i) of
      None \<Rightarrow> (UA_STATUSCODE_BADINTERNALERROR, s)
    | Some m \<Rightarrow> (UA_STATUSCODE_GOOD, s((c, i) := None)))"

definition store_api :: "('v attribute_store, 'v) session_api" where
  "store_api =
     \<lparr>getParameter13 = (\<lambda>c i k. store_get c i (0, k)), setParameter13 = (\<lambda>c i k. store_set c i (0, k)),
      deleteParameter13 = (\<lambda>c i k s. snd (store_delete c i (0, k) s)),
      getAttributeCopy14 = (\<lambda>c i q. store_get c i (qn_namespaceIndex q, string_fromNative (qn_name q))),
      setAttribute14 = (\<lambda>c i q. store_set c i (qn_namespaceIndex q, string_fromNative (qn_name q))),
      deleteAttribute14 = (\<lambda>c i q. store_delete c i (qn_namespaceIndex q, string_fromNative (qn_name q))),
      closeSession13 = store_close\<rparr>"

text \<open>What a session relies on of the library: every function of \<open>api\<close> acts on the attribute store \<open>st s\<close> of the server state.\<close>

definition api_keeps_store :: "('s, 'v) session_api \<Rightarrow> ('s \<Rightarrow> 'v attribute_store) \<Rightarrow> bool" where
  "api_keeps_store api st = (\<forall>c i k q v s.
     (fst (getParameter13 api c i k s), st (snd (getParameter13 api c i k s))) = getParameter13 store_api c i k (st s)
   \<and> (fst (setParameter13 api c i k v s), st (snd (setParameter13 api c i k v s))) = setParameter13 store_api c i k v (st s)
   \<and> st (deleteParameter13 api c i k s) = deleteParameter13 store_api c i k (st s)
   \<and> (fst (getAttributeCopy14 api c i q s), st (snd (getAttributeCopy14 api c i q s))) = getAttributeCopy14 store_api c i q (st s)
   \<and> (fst (setAttribute14 api c i q v s), st (snd (setAttribute14 api c i q v s))) = setAttribute14 store_api c i q v (st s)
   \<and> (fst (deleteAttribute14 api c i q s), st (snd (deleteAttribute14 api c i q s))) = deleteAttribute14 store_api c i q (st s)
   \<and> (fst (closeSession13 api c i s), st (snd (closeSession13 api c i s))) = closeSession13 store_api c i (st s))"

lemma throwIfBad_codes [simp]:
  "throwIfBad UA_STATUSCODE_GOOD = Ret ()"
  "throwIfBad UA_STATUSCODE_BADINTERNALERROR = throw (BadStatus UA_STATUSCODE_BADINTERNALERROR)"
  by (simp_all add: throwIfBad_def isBad_def UA_STATUSCODE_GOOD_def UA_STATUSCODE_BADINTERNALERROR_def UA_STATUSCODE_BADDISCONNECT_def)

lemma keeps_storeD:
  assumes "api_keeps_store api st"
  shows "(fst (getParameter13 api c i k s), st (snd (getParameter13 api c i k s))) = store_get c i (0, k) (st s)"
    and "(fst (setParameter13 api c i k v s), st (snd (setParameter13 api c i k v s))) = store_set c i (0, k) v (st s)"
    and "st (deleteParameter13 api c i k s) = snd (store_delete c i (0, k) (st s))"
    and "(fst (getAttributeCopy14 api c i q s), st (snd (getAttributeCopy14 api c i q s)))
      = store_get c i (qn_namespaceIndex q, string_fromNative (qn_name q)) (st s)"
    and "(fst (setAttribute14 api c i q v s), st (snd (setAttribute14 api c i q v s)))
      = store_set c i (qn_namespaceIndex q, string_fromNative (qn_name q)) v (st s)"
    and "(fst (deleteAttribute14 api c i q s), st (snd (deleteAttribute14 api c i q s)))
      = store_delete c i (qn_namespaceIndex q, string_fromNative (qn_name q)) (st s)"
    and "(fst (closeSession13 api c i s), st (snd (closeSession13 api c i s))) = store_close c i (st s)"
  using assms by (simp_all add: api_keeps_store_def store_api_def)

text \<open>The operations of a session on the abstract store: a lookup, an update, a removal, the removal of the session.\<close>

definition abstract_get :: "Session \<Rightarrow> u16 \<times> string \<Rightarrow> 'v attribute_store \<Rightarrow> 'v Variant outc" where
  "abstract_get x k s = (case s (session_connection x, session_id x) of
      None \<Rightarrow> throw (BadStatus UA_STATUSCODE_BADINTERNALERROR)
    | Some m \<Rightarrow> (case m k of None \<Rightarrow> throw (BadStatus UA_STATUSCODE_BADINTERNALERROR) | Some v \<Rightarrow> Ret v))"

definition abstract_update :: "Session \<Rightarrow> ((u16 \<times> string \<Rightarrow> 'v Variant option) \<Rightarrow> u16 \<times> string \<Rightarrow> 'v Variant option) \<Rightarrow>
    'v attribute_store \<Rightarrow> 'v attribute_store" where
  "abstract_update x f s = (case s (session_connection x, session_id x) of
      None \<Rightarrow> s | Some m \<Rightarrow> s((session_connection x, session_id x) \<mapsto> f m))"

definition known :: "Session \<Rightarrow> 'v attribute_store \<Rightarrow> unit outc" where
  "known x s = (if s (session_connection x, session_id x) = None then throw (BadStatus UA_STATUSCODE_BADINTERNALERROR) else Ret ())"

lemma get_refines:
  assumes "api_keeps_store api st" "ver \<noteq> Before13"
  shows "fst (getSessionAttribute ver api x key s) = abstract_get x (key_of ver key) (st s)"
    "st (snd (getSessionAttribute ver api x key s)) = st s"
  using assms(2) keeps_storeD(1)[OF assms(1), of "session_connection x" "session_id x" "c_str (unqualify key)" s]
    keeps_storeD(4)[OF assms(1), of "session_connection x" "session_id x" key s]
  by (auto simp: getSessionAttribute_def key_of_def abstract_get_def store_get_def split: ua_version.splits prod.splits option.splits)

lemma set_refines:
  assumes "api_keeps_store api st" "ver \<noteq> Before13"
  shows "fst (setSessionAttribute ver api x key v s) = known x (st s)"
    "st (snd (setSessionAttribute ver api x key v s)) = abstract_update x (\<lambda>m. m(key_of ver key \<mapsto> v)) (st s)"
  using assms(2) keeps_storeD(2)[OF assms(1), of "session_connection x" "session_id x" "c_str (unqualify key)" v s]
    keeps_storeD(5)[OF assms(1), of "session_connection x" "session_id x" key v s]
  by (auto simp: setSessionAttribute_def checked_def key_of_def known_def abstract_update_def store_set_def
      split: ua_version.splits option.splits)

lemma delete_refines:
  assumes "api_keeps_store api st" "ver \<noteq> Before13"
  shows "fst (deleteSessionAttribute ver api x key s)
      = (if ver = V13 then Ret () else outc_map (\<lambda>_. ()) (abstract_get x (key_of ver key) (st s)))"
    "st (snd (deleteSessionAttribute ver api x key s)) = abstract_update x (\<lambda>m. m(key_of ver key := None)) (st s)"
  using assms(2) keeps_storeD(3)[OF assms(1), of "session_connection x" "session_id x" "c_str (unqualify key)" s]
    keeps_storeD(6)[OF assms(1), of "session_connection x" "session_id x" key s]
  by (auto simp: deleteSessionAttribute_def checked_def key_of_def abstract_get_def abstract_update_def store_delete_def fun_upd_idem
      split: ua_version.splits option.splits if_splits)

lemma close_refines:
  assumes "api_keeps_store api st" "ver \<noteq> Before13"
  shows "fst (session_close ver api x s) = known x (st s)"
    "st (snd (session_close ver api x s)) = (st s)((session_connection x, session_id x) := None)"
  using assms(2) keeps_storeD(7)[OF assms(1), of "session_connection x" "session_id x" s]
  by (auto simp: session_close_def checked_def known_def store_close_def fun_upd_idem split: ua_version.splits option.splits)


lemma store_api_keeps: "api_keeps_store store_api (\<lambda>s. s)"
  by (simp add: api_keeps_store_def)


section \<open>Events\<close>

record ('s, 'v) event_api =
  UA_Server_createEvent :: "nat \<Rightarrow> NodeId \<Rightarrow> 's \<Rightarrow> (u32 \<times> NodeId) \<times> 's"
  UA_Server_deleteNode :: "nat \<Rightarrow> NodeId \<Rightarrow> bool \<Rightarrow> 's \<Rightarrow> u32 \<times> 's"
  UA_Server_writeObjectProperty :: "nat \<Rightarrow> NodeId \<Rightarrow> QualifiedName \<Rightarrow> 'v Variant \<Rightarrow> 's \<Rightarrow> u32 \<times> 's"
  UA_Server_triggerEvent :: "nat \<Rightarrow> NodeId \<Rightarrow> NodeId \<Rightarrow> bool \<Rightarrow> 's \<Rightarrow> (u32 \<times> native_string) \<times> 's"
  UA_NodeId_isNull :: "NodeId \<Rightarrow> bool"
  UA_NodeId_copy :: "NodeId \<Rightarrow> u32 \<times> NodeId"

record Event =
  ev_connection :: nat
  ev_id :: NodeId

record 's event_world =
  ew_server :: 's
  ew_mem :: mem
  ew_objects :: "nat \<Rightarrow> Event option"

definition ew_put :: "nat \<Rightarrow> Event \<Rightarrow> 's event_world \<Rightarrow> 's event_world" where
  "ew_put a e w = w\<lparr>ew_objects := (ew_objects w)(a \<mapsto> e)\<rparr>"

definition with_event :: "nat \<Rightarrow> (Event \<Rightarrow> ('s event_world, 'a) op) \<Rightarrow> ('s event_world, 'a) op" where
  "with_event a f w = (case ew_objects w a of None \<Rightarrow> (Inl Undef, w) | Some e \<Rightarrow> f e w)"

definition event_construct :: "('s, 'v) event_api \<Rightarrow> nat \<Rightarrow> nat \<Rightarrow> NodeId \<Rightarrow> ('s event_world, unit) op" where
  "event_construct api a connection eventType w =
     (case UA_Server_createEvent api connection eventType (ew_server w) of ((status, i), s') \<Rightarrow>
       (case throwIfBad status of
          Inl e \<Rightarrow> (Inl e, w\<lparr>ew_server := s'\<rparr>)
        | Inr _ \<Rightarrow> (Ret (), ew_put a \<lparr>ev_connection = connection, ev_id = i\<rparr> (w\<lparr>ew_server := s'\<rparr>))))"

definition event_destroy :: "('s, 'v) event_api \<Rightarrow> nat \<Rightarrow> ('s event_world, unit) op" where
  "event_destroy api a = with_event a (\<lambda>e w.
     (Ret (), w\<lparr>ew_server := (if \<not> UA_NodeId_isNull api (ev_id e)
           then snd (UA_Server_deleteNode api (ev_connection e) (ev_id e) True (ew_server w)) else ew_server w),
        ew_objects := (ew_objects w)(a := None)\<rparr>))"

text \<open>The copy and move constructors are defaulted: they copy, or move, the connection and the id.\<close>

definition event_copy_construct :: "('s, 'v) event_api \<Rightarrow> nat \<Rightarrow> nat \<Rightarrow> ('s event_world, unit) op" where
  "event_copy_construct api a b = with_event b (\<lambda>e w. case UA_NodeId_copy api (ev_id e) of (status, i) \<Rightarrow>
     (case throwIfBad status of Inl f \<Rightarrow> (Inl f, w) | Inr _ \<Rightarrow> (Ret (), ew_put a (e\<lparr>ev_id := i\<rparr>) w)))"

definition event_move_construct :: "nat \<Rightarrow> nat \<Rightarrow> ('s event_world, unit) op" where
  "event_move_construct a b = with_event b (\<lambda>e w. (Ret (), ew_put a e (ew_put b (e\<lparr>ev_id := null_NodeId\<rparr>) w)))"

definition event_release :: "nat \<Rightarrow> ('s event_world, NodeId) op" where
  "event_release a = with_event a (\<lambda>e w. (Ret (ev_id e), ew_put a (e\<lparr>ev_id := null_NodeId\<rparr>) w))"

definition event_writeProperty :: "('s, 'v) event_api \<Rightarrow> nat \<Rightarrow> QualifiedName \<Rightarrow> 'v Variant \<Rightarrow> ('s event_world, unit) op" where
  "event_writeProperty api a propertyName v = with_event a (\<lambda>e w.
     case UA_Server_writeObjectProperty api (ev_connection e) (ev_id e) propertyName v (ew_server w) of
       (status, s') \<Rightarrow> (throwIfBad status, w\<lparr>ew_server := s'\<rparr>))"

definition event_trigger :: "('s, 'v) event_api \<Rightarrow> nat \<Rightarrow> NodeId \<Rightarrow> ('s event_world, native_string) op" where
  "event_trigger api a originId = with_event a (\<lambda>e w.
     case UA_Server_triggerEvent api (ev_connection e) (ev_id e) originId False (ew_server w) of
       ((status, eventId), s') \<Rightarrow> (outc_map (\<lambda>_. eventId) (throwIfBad status), w\<lparr>ew_server := s'\<rparr>))"

text \<open>The named writers build a qualified name and a variant as temporaries, destroyed at the end of the call or when it throws.\<close>

definition mk_variant :: "('v \<Rightarrow> int) \<Rightarrow> ('v \<Rightarrow> (mem, 'v) op) \<Rightarrow> ('a \<Rightarrow> (mem, 'v) op) \<Rightarrow> vtype \<Rightarrow> ('a, 'v) source \<Rightarrow> (mem, 'v Variant) op" where
  "mk_variant own ua_copy toNative ty src m = (case assign own ua_copy toNative ty src \<lparr>vw_mem = m, vw_var = zero_variant\<rparr> of
      (Inl e, w) \<Rightarrow> (Inl e, vw_mem w) | (Inr _, w) \<Rightarrow> (Ret (vw_var w), vw_mem w))"

definition write_named :: "('s, 'v) event_api \<Rightarrow> ('v \<Rightarrow> int) \<Rightarrow> string \<Rightarrow> (mem, 'v Variant) op \<Rightarrow> nat \<Rightarrow> ('s event_world, unit) op" where
  "write_named api own name mk a w = (case mkQualifiedName 0 (Some name) (ew_mem w) of
      (Inl e, m) \<Rightarrow> (Inl e, w\<lparr>ew_mem := m\<rparr>)
    | (Inr q, m) \<Rightarrow> (case mk m of
        (Inl e, m') \<Rightarrow> (Inl e, w\<lparr>ew_mem := free_blocks (own_string (qn_name q)) m'\<rparr>)
      | (Inr v, m') \<Rightarrow> (case event_writeProperty api a q v (w\<lparr>ew_mem := m'\<rparr>) of
          (r, w') \<Rightarrow> (r, w'\<lparr>ew_mem := free_blocks (own_string (qn_name q) + own_variant own v) (ew_mem w')\<rparr>))))"

datatype event_value = EvString native_string | EvDateTime int | EvUInt16 u16 | EvText LocalizedText

definition own_event_value :: "event_value \<Rightarrow> int" where
  "own_event_value v = (case v of EvString s \<Rightarrow> own_string s | EvText t \<Rightarrow> own_string (lt_locale t) + own_string (lt_text t) | _ \<Rightarrow> 0)"

definition datetime_vtype :: vtype where "datetime_vtype = \<lparr>t_id = 13, t_size = 8\<rparr>"
definition uint16_vtype :: vtype where "uint16_vtype = \<lparr>t_id = 5, t_size = 2\<rparr>"
definition localizedtext_vtype :: vtype where "localizedtext_vtype = \<lparr>t_id = 21, t_size = 32\<rparr>"

definition view_toNative :: "view \<Rightarrow> (mem, event_value) op" where
  "view_toNative v = op_bind (string_toNative (case v of None \<Rightarrow> [] | Some s \<Rightarrow> s)) (\<lambda>s. op_ret (EvString s))"

definition writeSourceName :: "('s, event_value) event_api \<Rightarrow> nat \<Rightarrow> view \<Rightarrow> ('s event_world, unit) op" where
  "writeSourceName api a sourceName = write_named api own_event_value ''SourceName''
     (mk_variant own_event_value copy_pointer_free view_toNative string_vtype (ConvScalar sourceName)) a"

definition writeTime :: "('s, event_value) event_api \<Rightarrow> nat \<Rightarrow> int \<Rightarrow> ('s event_world, unit) op" where
  "writeTime api a time = write_named api own_event_value ''Time''
     (mk_variant own_event_value copy_pointer_free view_toNative datetime_vtype (RegScalar (EvDateTime time))) a"

definition writeSeverity :: "('s, event_value) event_api \<Rightarrow> nat \<Rightarrow> u16 \<Rightarrow> ('s event_world, unit) op" where
  "writeSeverity api a severity = write_named api own_event_value ''Severity''
     (mk_variant own_event_value copy_pointer_free view_toNative uint16_vtype (RegScalar (EvUInt16 severity))) a"

definition writeMessage :: "('s, event_value) event_api \<Rightarrow> (event_value \<Rightarrow> (mem, event_value) op) \<Rightarrow> nat \<Rightarrow> LocalizedText \<Rightarrow> ('s event_world, unit) op" where
  "writeMessage api ua_copy a message = write_named api own_event_value ''Message''
     (mk_variant own_event_value ua_copy view_toNative localizedtext_vtype (RegScalar (EvText message))) a"

definition event_eq :: "(nat \<Rightarrow> nat) \<Rightarrow> (NodeId \<Rightarrow> NodeId \<Rightarrow> bool) \<Rightarrow> Event \<Rightarrow> Event \<Rightarrow> bool" where
  "event_eq handle ua_equal a b = (handle (ev_connection a) = handle (ev_connection b) \<and> ua_equal (ev_id a) (ev_id b))"

definition event_neq :: "(nat \<Rightarrow> nat) \<Rightarrow> (NodeId \<Rightarrow> NodeId \<Rightarrow> bool) \<Rightarrow> Event \<Rightarrow> Event \<Rightarrow> bool" where
  "event_neq handle ua_equal a b = (\<not> event_eq handle ua_equal a b)"

section \<open>Ownership of event nodes\<close>

text \<open>Programs over events that do not copy them, and the nodes that \<open>release\<close> gives away on the way. A statement that throws is caught by the caller.\<close>

datatype event_op = EvCreate nat nat NodeId | EvMove nat nat | EvRelease nat | EvDestroy nat
  | EvWrite nat QualifiedName "event_value Variant" | EvTrigger nat NodeId

fun event_run :: "('s, event_value) event_api \<Rightarrow> event_op \<Rightarrow> (nat \<times> NodeId) list \<times> 's event_world \<Rightarrow> (nat \<times> NodeId) list \<times> 's event_world" where
  "event_run api (EvCreate a c t) (rs, w) = (rs, snd (event_construct api a c t w))"
| "event_run api (EvMove a b) (rs, w) = (rs, snd (event_move_construct a b w))"
| "event_run api (EvRelease a) (rs, w) = (case ew_objects w a of
      None \<Rightarrow> (rs, w)
    | Some e \<Rightarrow> (case event_release a w of (Inr i, w') \<Rightarrow> ((ev_connection e, i) # rs, w') | (_, w') \<Rightarrow> (rs, w')))"
| "event_run api (EvDestroy a) (rs, w) = (rs, snd (event_destroy api a w))"
| "event_run api (EvWrite a q v) (rs, w) = (rs, snd (event_writeProperty api a q v w))"
| "event_run api (EvTrigger a i) (rs, w) = (rs, snd (event_trigger api a i w))"

fun event_legal :: "event_op \<Rightarrow> 's event_world \<Rightarrow> bool" where
  "event_legal (EvCreate a c t) w = (ew_objects w a = None)"
| "event_legal (EvMove a b) w = (ew_objects w a = None \<and> ew_objects w b \<noteq> None)"
| "event_legal (EvRelease a) w = (ew_objects w a \<noteq> None)"
| "event_legal (EvDestroy a) w = (ew_objects w a \<noteq> None)"
| "event_legal (EvWrite a q v) w = (ew_objects w a \<noteq> None)"
| "event_legal (EvTrigger a i) w = (ew_objects w a \<noteq> None)"

fun event_runs :: "('s, event_value) event_api \<Rightarrow> event_op list \<Rightarrow> (nat \<times> NodeId) list \<times> 's event_world \<Rightarrow> (nat \<times> NodeId) list \<times> 's event_world" where
  "event_runs api [] rw = rw"
| "event_runs api (x # xs) rw = event_runs api xs (event_run api x rw)"

fun events_legal :: "('s, event_value) event_api \<Rightarrow> event_op list \<Rightarrow> (nat \<times> NodeId) list \<times> 's event_world \<Rightarrow> bool" where
  "events_legal api [] rw \<longleftrightarrow> True"
| "events_legal api (x # xs) rw \<longleftrightarrow> event_legal x (snd rw) \<and> events_legal api xs (event_run api x rw)"

text \<open>What the library promises, \<open>nodes s\<close> being the nodes (of any server) in state \<open>s\<close>: an event node is new and not null; deleting removes a
  node and is good when it was there; writing and triggering (without deletion) keep the nodes.\<close>

definition event_library :: "('s, 'v) event_api \<Rightarrow> ('s \<Rightarrow> (nat \<times> NodeId) set) \<Rightarrow> bool" where
  "event_library api nodes = (UA_NodeId_isNull api null_NodeId \<and> (\<forall>c i j q t v b s.
     (let (r, s') = UA_Server_createEvent api c t s in
        if isBad (fst r) then nodes s' = nodes s
        else (c, snd r) \<notin> nodes s \<and> \<not> UA_NodeId_isNull api (snd r) \<and> nodes s' = insert (c, snd r) (nodes s))
   \<and> nodes (snd (UA_Server_deleteNode api c i b s)) = nodes s - {(c, i)}
   \<and> (isGood (fst (UA_Server_deleteNode api c i b s)) \<longleftrightarrow> (c, i) \<in> nodes s)
   \<and> nodes (snd (UA_Server_writeObjectProperty api c i q v s)) = nodes s
   \<and> nodes (snd (UA_Server_triggerEvent api c i j False s)) = nodes s))"

text \<open>The nodes held by event objects.\<close>

definition held :: "('s, 'v) event_api \<Rightarrow> 's event_world \<Rightarrow> nat \<Rightarrow> (nat \<times> NodeId) set" where
  "held api w a = (case ew_objects w a of None \<Rightarrow> {}
     | Some e \<Rightarrow> if UA_NodeId_isNull api (ev_id e) then {} else {(ev_connection e, ev_id e)})"

definition released :: "('s, 'v) event_api \<Rightarrow> (nat \<times> NodeId) list \<Rightarrow> (nat \<times> NodeId) set" where
  "released api rs = {(c, i) \<in> set rs. \<not> UA_NodeId_isNull api i}"

text \<open>The nodes of the server are those it had at the start, those held by event objects and those released; no node is in two places.\<close>

definition event_inv ::
  "('s, 'v) event_api \<Rightarrow> ('s \<Rightarrow> (nat \<times> NodeId) set) \<Rightarrow> (nat \<times> NodeId) set \<Rightarrow> (nat \<times> NodeId) list \<times> 's event_world \<Rightarrow> bool" where
  "event_inv api nodes base rw = (case rw of (rs, w) \<Rightarrow>
     nodes (ew_server w) = base \<union> (\<Union>a. held api w a) \<union> released api rs
     \<and> (\<forall>a b. a \<noteq> b \<longrightarrow> held api w a \<inter> held api w b = {})
     \<and> (\<forall>a. held api w a \<inter> (base \<union> released api rs) = {}))"

lemma event_libraryD:
  assumes "event_library api nodes"
  shows "UA_NodeId_isNull api null_NodeId"
    and "UA_Server_createEvent api c t s = ((status, i), s') \<Longrightarrow> isBad status \<Longrightarrow> nodes s' = nodes s"
    and "UA_Server_createEvent api c t s = ((status, i), s') \<Longrightarrow> \<not> isBad status \<Longrightarrow>
      (c, i) \<notin> nodes s \<and> \<not> UA_NodeId_isNull api i \<and> nodes s' = insert (c, i) (nodes s)"
    and "nodes (snd (UA_Server_deleteNode api c i b s)) = nodes s - {(c, i)}"
    and "isGood (fst (UA_Server_deleteNode api c i b s)) \<longleftrightarrow> (c, i) \<in> nodes s"
    and "nodes (snd (UA_Server_writeObjectProperty api c i q v s)) = nodes s"
    and "nodes (snd (UA_Server_triggerEvent api c i j False s)) = nodes s"
proof -
  have lib: "UA_NodeId_isNull api null_NodeId \<and> (let (r, s') = UA_Server_createEvent api c t s in
        if isBad (fst r) then nodes s' = nodes s
        else (c, snd r) \<notin> nodes s \<and> \<not> UA_NodeId_isNull api (snd r) \<and> nodes s' = insert (c, snd r) (nodes s))
   \<and> nodes (snd (UA_Server_deleteNode api c i b s)) = nodes s - {(c, i)}
   \<and> (isGood (fst (UA_Server_deleteNode api c i b s)) \<longleftrightarrow> (c, i) \<in> nodes s)
   \<and> nodes (snd (UA_Server_writeObjectProperty api c i q v s)) = nodes s
   \<and> nodes (snd (UA_Server_triggerEvent api c i j False s)) = nodes s" for c t s i b q v j
    using assms unfolding event_library_def by blast
  show "UA_NodeId_isNull api null_NodeId" "nodes (snd (UA_Server_deleteNode api c i b s)) = nodes s - {(c, i)}"
    "isGood (fst (UA_Server_deleteNode api c i b s)) \<longleftrightarrow> (c, i) \<in> nodes s"
    "nodes (snd (UA_Server_writeObjectProperty api c i q v s)) = nodes s"
    "nodes (snd (UA_Server_triggerEvent api c i j False s)) = nodes s"
    using lib by blast+
  { assume "UA_Server_createEvent api c t s = ((status, i), s')" "isBad status"
    with lib[of c t s] show "nodes s' = nodes s" by simp }
  { assume "UA_Server_createEvent api c t s = ((status, i), s')" "\<not> isBad status"
    with lib[of c t s] show "(c, i) \<notin> nodes s \<and> \<not> UA_NodeId_isNull api i \<and> nodes s' = insert (c, i) (nodes s)" by simp }
qed

lemma event_invD:
  assumes "event_inv api nodes base (rs, w)"
  shows "nodes (ew_server w) = base \<union> (\<Union>a. held api w a) \<union> released api rs"
    and "a \<noteq> b \<Longrightarrow> held api w a \<inter> held api w b = {}"
    and "held api w a \<inter> (base \<union> released api rs) = {}"
  using assms unfolding event_inv_def by blast+

lemma event_inv_server:
  assumes "event_inv api nodes base (rs, w)" "nodes s' = nodes (ew_server w)"
  shows "event_inv api nodes base (rs, w\<lparr>ew_server := s'\<rparr>)"
  using assms unfolding event_inv_def held_def by simp

lemma held_upd:
  "held api (w\<lparr>ew_server := s', ew_objects := (ew_objects w)(a := x)\<rparr>) b =
     (if b = a then (case x of None \<Rightarrow> {} | Some e \<Rightarrow> if UA_NodeId_isNull api (ev_id e) then {} else {(ev_connection e, ev_id e)}) else held api w b)"
  "held api (ew_put a e w) b =
     (if b = a then (if UA_NodeId_isNull api (ev_id e) then {} else {(ev_connection e, ev_id e)}) else held api w b)"
  "held api (w\<lparr>ew_server := s'\<rparr>) b = held api w b"
  by (simp_all add: held_def ew_put_def)

lemma union_split: "(\<Union>b. if b = a then X else h b) = X \<union> (\<Union>b \<in> - {a}. h b)"
  by auto

lemma union_insert: "(\<Union>b. h b) = h a \<union> (\<Union>b \<in> - {a}. h b)"
  by auto

text \<open>Replacing what one address holds.\<close>

lemma event_inv_replace:
  assumes "event_inv api nodes base (rs, w)"
    and "\<And>b. held api w' b = (if b = a then X else held api w b)"
    and "nodes (ew_server w') = nodes (ew_server w) - held api w a \<union> X \<union> Y" "released api rs' = released api rs \<union> Y"
    and "X \<inter> (nodes (ew_server w) - held api w a) = {}" "X \<inter> Y = {}" "Y \<subseteq> held api w a"
  shows "event_inv api nodes base (rs', w')"
proof -
  let ?O = "\<Union>b \<in> - {a}. held api w b"
  note inv = event_invD[OF assms(1)]
  have un: "(\<Union>b. held api w' b) = X \<union> ?O" by (simp only: assms(2) union_split)
  have others: "held api w a \<inter> ?O = {}" using inv(2) by blast
  have nodes: "nodes (ew_server w) = base \<union> held api w a \<union> ?O \<union> released api rs"
    using inv(1) union_insert[of "held api w" a] by blast
  have rest: "nodes (ew_server w) - held api w a = base \<union> ?O \<union> released api rs"
    unfolding nodes using inv(3)[of a] others by blast
  have "nodes (ew_server w') = base \<union> (\<Union>b. held api w' b) \<union> released api rs'"
    unfolding assms(3) rest un assms(4) by blast
  moreover have "held api w' b \<inter> held api w' c = {}" if "b \<noteq> c" for b c
  proof -
    have "X \<inter> held api w d = {}" if "d \<noteq> a" for d
      using that assms(5) unfolding rest by blast
    with that inv(2)[OF that] show ?thesis by (auto simp: assms(2) split: if_splits)
  qed
  moreover have "held api w' b \<inter> (base \<union> released api rs') = {}" for b
  proof (cases "b = a")
    case True
    with assms(5,6) show ?thesis unfolding rest assms(2,4) by auto
  next
    case False
    with inv(2)[of b a] inv(3)[of b] assms(7) show ?thesis unfolding assms(4) by (auto simp: assms(2))
  qed
  ultimately show ?thesis unfolding event_inv_def by simp
qed

lemma event_inv_transfer:
  assumes "event_inv api nodes base (rs, w)" "held api w a = {}" "a \<noteq> b"
    and "\<And>d. held api w' d = (if d = a then held api w b else if d = b then {} else held api w d)"
    and "nodes (ew_server w') = nodes (ew_server w)"
  shows "event_inv api nodes base (rs, w')"
proof -
  note inv = event_invD[OF assms(1)]
  have "(\<Union>d. held api w' d) = (\<Union>d. held api w d)"
  proof
    show "(\<Union>d. held api w' d) \<subseteq> (\<Union>d. held api w d)" by (auto simp: assms(4) split: if_splits)
    show "(\<Union>d. held api w d) \<subseteq> (\<Union>d. held api w' d)"
    proof
      fix x assume "x \<in> (\<Union>d. held api w d)"
      then obtain d where "x \<in> held api w d" by blast
      with assms(2,3) have "x \<in> held api w' (if d = b then a else d)" by (auto simp: assms(4))
      then show "x \<in> (\<Union>d. held api w' d)" by blast
    qed
  qed
  moreover have "held api w' d \<inter> held api w' e = {}" if "d \<noteq> e" for d e
    using that inv(2)[of d e] inv(2)[of b d] inv(2)[of b e] by (auto simp: assms(4) split: if_splits)
  moreover have "held api w' d \<inter> (base \<union> released api rs) = {}" for d
    using inv(3)[of d] inv(3)[of b] by (auto simp: assms(4) split: if_splits)
  ultimately show ?thesis
    using inv(1) assms(5) unfolding event_inv_def by simp
qed

lemma event_step_inv:
  assumes "event_library api nodes" "event_inv api nodes base (rs, w)" "event_legal x w"
  shows "event_inv api nodes base (event_run api x (rs, w))"
proof (cases x)
  case (EvCreate a c t)
  obtain status i s' where r: "UA_Server_createEvent api c t (ew_server w) = ((status, i), s')" by (metis prod.exhaust)
  show ?thesis
  proof (cases "isBad status")
    case True
    with event_libraryD(2)[OF assms(1) r] event_inv_server[OF assms(2)] r EvCreate show ?thesis
      by (auto simp: event_construct_def throwIfBad_def split: if_splits)
  next
    case False
    note new = event_libraryD(3)[OF assms(1) r False]
    have empty: "held api w a = {}" using assms(3) EvCreate by (simp add: held_def)
    let ?w = "ew_put a \<lparr>ev_connection = c, ev_id = i\<rparr> (w\<lparr>ew_server := s'\<rparr>)"
    have "event_inv api nodes base (rs, ?w)"
    proof (rule event_inv_replace[OF assms(2), where X = "{(c, i)}" and Y = "{}" and a = a])
      show "held api ?w b = (if b = a then {(c, i)} else held api w b)" for b
        using new by (simp add: held_upd)
    qed (use new empty in \<open>auto simp: ew_put_def\<close>)
    with EvCreate r False show ?thesis by (simp add: event_construct_def)
  qed
next
  case (EvMove a b)
  then obtain e where e: "ew_objects w b = Some e" "ew_objects w a = None" using assms(3) by auto
  then have ne: "a \<noteq> b" by auto
  have "event_inv api nodes base (rs, ew_put a e (ew_put b (e\<lparr>ev_id := null_NodeId\<rparr>) w))"
  proof (rule event_inv_transfer[OF assms(2), of a b])
    show "held api (ew_put a e (ew_put b (e\<lparr>ev_id := null_NodeId\<rparr>) w)) d =
        (if d = a then held api w b else if d = b then {} else held api w d)" for d
      using e ne event_libraryD(1)[OF assms(1)] by (simp add: held_upd) (simp add: held_def)
  qed (use e ne in \<open>auto simp: held_def ew_put_def\<close>)
  with EvMove e show ?thesis by (simp add: event_move_construct_def with_event_def)
next
  case (EvRelease a)
  then obtain e where e: "ew_objects w a = Some e" using assms(3) by auto
  let ?w = "ew_put a (e\<lparr>ev_id := null_NodeId\<rparr>) w"
  have h: "held api w a = (if UA_NodeId_isNull api (ev_id e) then {} else {(ev_connection e, ev_id e)})"
    using e by (simp add: held_def)
  have "event_inv api nodes base ((ev_connection e, ev_id e) # rs, ?w)"
  proof (rule event_inv_replace[OF assms(2), where X = "{}" and Y = "held api w a" and a = a])
    show "held api ?w b = (if b = a then {} else held api w b)" for b
      using event_libraryD(1)[OF assms(1)] by (simp add: held_upd)
    show "nodes (ew_server ?w) = nodes (ew_server w) - held api w a \<union> {} \<union> held api w a"
      using event_invD(1)[OF assms(2)] by (auto simp: ew_put_def)
  qed (auto simp: released_def h)
  with EvRelease e show ?thesis by (simp add: event_release_def with_event_def)
next
  case (EvDestroy a)
  then obtain e where e: "ew_objects w a = Some e" using assms(3) by auto
  let ?s = "if \<not> UA_NodeId_isNull api (ev_id e)
     then snd (UA_Server_deleteNode api (ev_connection e) (ev_id e) True (ew_server w)) else ew_server w"
  let ?w = "w\<lparr>ew_server := ?s, ew_objects := (ew_objects w)(a := None)\<rparr>"
  have "event_inv api nodes base (rs, ?w)"
  proof (rule event_inv_replace[OF assms(2), where X = "{}" and Y = "{}" and a = a])
    show "held api ?w b = (if b = a then {} else held api w b)" for b
      by (simp add: held_upd(1))
    show "nodes (ew_server ?w) = nodes (ew_server w) - held api w a \<union> {} \<union> {}"
      using e event_libraryD(4)[OF assms(1)] by (simp add: held_def)
  qed auto
  with EvDestroy e show ?thesis by (simp add: event_destroy_def with_event_def)
next
  case (EvWrite a q v)
  then obtain e where e: "ew_objects w a = Some e" using assms(3) by auto
  obtain status s' where r: "UA_Server_writeObjectProperty api (ev_connection e) (ev_id e) q v (ew_server w) = (status, s')" by fastforce
  have "nodes s' = nodes (ew_server w)"
    using event_libraryD(6)[OF assms(1), of "ev_connection e" "ev_id e" q v "ew_server w"] r by simp
  from event_inv_server[OF assms(2) this] EvWrite e r show ?thesis
    by (simp add: event_writeProperty_def with_event_def)
next
  case (EvTrigger a i)
  then obtain e where e: "ew_objects w a = Some e" using assms(3) by auto
  obtain r s' where r: "UA_Server_triggerEvent api (ev_connection e) (ev_id e) i False (ew_server w) = (r, s')" by fastforce
  have "nodes s' = nodes (ew_server w)"
    using event_libraryD(7)[OF assms(1), of "ev_connection e" "ev_id e" i "ew_server w"] r by simp
  from event_inv_server[OF assms(2) this] EvTrigger e r show ?thesis
    by (simp add: event_trigger_def with_event_def split: prod.splits)
qed

lemma event_runs_inv:
  assumes "event_library api nodes"
  shows "event_inv api nodes base rw \<Longrightarrow> events_legal api xs rw \<Longrightarrow> event_inv api nodes base (event_runs api xs rw)"
proof (induction xs arbitrary: rw)
  case (Cons x xs)
  obtain rs w where "rw = (rs, w)" by (cases rw)
  with Cons event_step_inv[OF assms] show ?case by auto
qed simp

text \<open>C9. In every program that creates, moves, writes, triggers, releases and destroys events without copying them, the nodes of the server are always
  those it had before, those held by exactly one live event, and those released; so destroying an event deletes its own node, which is still there, and
  nothing else, and once all events are destroyed only the released nodes remain.\<close>

theorem events_own_nodes:
  assumes "event_library api nodes" "ew_objects w = (\<lambda>_. None)" "events_legal api xs ([], w)" "event_runs api xs ([], w) = (rs, w')"
  shows "nodes (ew_server w') = nodes (ew_server w) \<union> (\<Union>a. held api w' a) \<union> released api rs
    \<and> (\<forall>a b. a \<noteq> b \<longrightarrow> held api w' a \<inter> held api w' b = {})
    \<and> (\<forall>a e. ew_objects w' a = Some e \<and> \<not> UA_NodeId_isNull api (ev_id e) \<longrightarrow>
         isGood (fst (UA_Server_deleteNode api (ev_connection e) (ev_id e) True (ew_server w')))
         \<and> (ev_connection e, ev_id e) \<notin> nodes (ew_server w)
         \<and> nodes (ew_server (snd (event_destroy api a w'))) = nodes (ew_server w') - {(ev_connection e, ev_id e)})
    \<and> (ew_objects w' = (\<lambda>_. None) \<longrightarrow> nodes (ew_server w') = nodes (ew_server w) \<union> released api rs)"
proof -
  have "event_inv api nodes (nodes (ew_server w)) ([], w)"
    using assms(2) by (simp add: event_inv_def held_def released_def)
  from event_runs_inv[OF assms(1) this assms(3)] have "event_inv api nodes (nodes (ew_server w)) (rs, w')"
    unfolding assms(4) .
  note inv = event_invD[OF this]
  have del: "isGood (fst (UA_Server_deleteNode api (ev_connection e) (ev_id e) True (ew_server w')))
         \<and> (ev_connection e, ev_id e) \<notin> nodes (ew_server w)
         \<and> nodes (ew_server (snd (event_destroy api a w'))) = nodes (ew_server w') - {(ev_connection e, ev_id e)}"
    if "ew_objects w' a = Some e" "\<not> UA_NodeId_isNull api (ev_id e)" for a e
  proof -
    from that have h: "held api w' a = {(ev_connection e, ev_id e)}" by (simp add: held_def)
    with inv(1) have "(ev_connection e, ev_id e) \<in> nodes (ew_server w')" by blast
    moreover from h inv(3)[of a] have "(ev_connection e, ev_id e) \<notin> nodes (ew_server w)" by auto
    ultimately show ?thesis
      using that event_libraryD(4,5)[OF assms(1)] by (simp add: event_destroy_def with_event_def)
  qed
  have all: "nodes (ew_server w') = nodes (ew_server w) \<union> released api rs" if "ew_objects w' = (\<lambda>_. None)"
  proof -
    from that have "(\<Union>a. held api w' a) = {}" by (simp add: held_def)
    with inv(1) show ?thesis by simp
  qed
  show ?thesis
    by (intro conjI allI impI; (elim conjE)?)
      (erule inv(2) all del[THEN conjunct1] del[THEN conjunct2, THEN conjunct1] del[THEN conjunct2, THEN conjunct2] | assumption | rule inv(1))+
qed

text \<open>A library with event nodes in namespace 1, for the witness: the server state is a counter and the list of nodes.\<close>

definition demo_event_api :: "(nat \<times> (nat \<times> NodeId) list, 'v) event_api" where
  "demo_event_api =
     \<lparr>UA_Server_createEvent = (\<lambda>c t (n, xs). let i = NodeId_numeric 1 (of_nat n) in
        if (c, i) \<in> set xs then ((UA_STATUSCODE_BADINTERNALERROR, null_NodeId), n, xs) else ((UA_STATUSCODE_GOOD, i), Suc n, (c, i) # xs)),
      UA_Server_deleteNode = (\<lambda>c i b (n, xs). (if (c, i) \<in> set xs then UA_STATUSCODE_GOOD else UA_STATUSCODE_BADINTERNALERROR,
        n, filter (\<lambda>x. x \<noteq> (c, i)) xs)),
      UA_Server_writeObjectProperty = (\<lambda>c i q v s. (UA_STATUSCODE_GOOD, s)),
      UA_Server_triggerEvent = (\<lambda>c i j b s. ((UA_STATUSCODE_GOOD, Str ''id''), s)),
      UA_NodeId_isNull = (\<lambda>i. i = null_NodeId),
      UA_NodeId_copy = (\<lambda>i. (UA_STATUSCODE_GOOD, i))\<rparr>"

lemma demo_event_library: "event_library demo_event_api (\<lambda>s. set (snd s))"
  by (auto simp: event_library_def demo_event_api_def Let_def isBad_def isGood_def UA_STATUSCODE_GOOD_def UA_STATUSCODE_BADINTERNALERROR_def
      null_NodeId_def NodeId_numeric_def split: if_splits)

theorem events_own_nodes_witness:
  "set (snd (ew_server (snd (event_runs demo_event_api
      [EvCreate 0 7 null_NodeId, EvMove 1 0, EvRelease 1, EvDestroy 0, EvDestroy 1]
      ([], \<lparr>ew_server = (1, []), ew_mem = \<lparr>budget = 9, live = 0\<rparr>, ew_objects = (\<lambda>_. None)\<rparr>)))))
    = {(7, NodeId_numeric 1 1)}"
proof -
  let ?w = "\<lparr>ew_server = (1 :: nat, [] :: (nat \<times> NodeId) list), ew_mem = \<lparr>budget = 9, live = 0\<rparr>, ew_objects = (\<lambda>_. None)\<rparr>"
  let ?xs = "[EvCreate 0 7 null_NodeId, EvMove 1 0, EvRelease 1, EvDestroy 0, EvDestroy 1]"
  let ?r = "event_runs demo_event_api ?xs ([], ?w)"
  let ?e = "\<lparr>ev_connection = 7, ev_id = NodeId_numeric 1 1\<rparr>" and ?n = "\<lparr>ev_connection = 7, ev_id = null_NodeId\<rparr>"
  let ?v = "\<lambda>f. \<lparr>ew_server = (2 :: nat, [(7, NodeId_numeric 1 1)]), ew_mem = \<lparr>budget = 9, live = 0\<rparr>, ew_objects = f\<rparr>"
  have ne: "NodeId_numeric 1 1 \<noteq> null_NodeId" by (simp add: NodeId_numeric_def null_NodeId_def)
  have s1: "event_run demo_event_api (EvCreate 0 7 null_NodeId) ([], ?w) = ([], ?v [0 \<mapsto> ?e])"
    by (simp add: event_construct_def demo_event_api_def ew_put_def Let_def numeral_2_eq_2)
  have s2: "event_run demo_event_api (EvMove 1 0) ([], ?v [0 \<mapsto> ?e]) = ([], ?v [0 \<mapsto> ?n, 1 \<mapsto> ?e])"
    by (simp add: event_move_construct_def with_event_def ew_put_def)
  have s3: "event_run demo_event_api (EvRelease 1) ([], ?v [0 \<mapsto> ?n, 1 \<mapsto> ?e]) = ([(7, NodeId_numeric 1 1)], ?v [0 \<mapsto> ?n, 1 \<mapsto> ?n])"
    by (simp add: event_release_def with_event_def ew_put_def)
  have s4: "event_run demo_event_api (EvDestroy 0) (rs, ?v [0 \<mapsto> ?n, 1 \<mapsto> ?n]) = (rs, ?v [1 \<mapsto> ?n])" for rs
    by (simp add: event_destroy_def with_event_def demo_event_api_def fun_upd_twist)
  have s5: "event_run demo_event_api (EvDestroy 1) (rs, ?v [1 \<mapsto> ?n]) = (rs, ?v (\<lambda>_. None))" for rs
    by (simp add: event_destroy_def with_event_def demo_event_api_def)
  have run: "?r = ([(7, NodeId_numeric 1 1)], ?v (\<lambda>_. None))"
    unfolding event_runs.simps s1 s2 s3 s4 s5 ..
  have legal: "events_legal demo_event_api ?xs ([], ?w)"
    unfolding events_legal.simps s1 s2 s3 s4 by simp
  show ?thesis
    using events_own_nodes[OF demo_event_library _ legal run, THEN conjunct2, THEN conjunct2, THEN conjunct2] ne
    unfolding run by (auto simp: released_def demo_event_api_def)
qed

text \<open>A copied event shares the node: destroying the original deletes it, the copy is left with an id that denotes nothing, and its own destructor's
  deletion fails.\<close>

lemma copied_event_loses_node:
  assumes "event_library api nodes" "ew_objects w b = Some e" "\<not> UA_NodeId_isNull api (ev_id e)" "a \<noteq> b"
    and "UA_NodeId_copy api (ev_id e) = (UA_STATUSCODE_GOOD, ev_id e)"
    and "w' = snd (event_destroy api b (snd (event_copy_construct api a b w)))"
  shows "ew_objects w' a = Some e" "(ev_connection e, ev_id e) \<notin> nodes (ew_server w')"
    "\<not> isGood (fst (UA_Server_deleteNode api (ev_connection e) (ev_id e) True (ew_server w')))"
  using assms event_libraryD(4,5)[OF assms(1)]
  by (simp_all add: event_copy_construct_def event_destroy_def with_event_def ew_put_def)

section \<open>Writing properties\<close>

text \<open>The effect of a named writer on an event object \<open>e\<close>: either an allocation failed and nothing happened, or the library was asked once to write a
  scalar \<open>x\<close> of type \<open>ty\<close> to the property of namespace 0 with that name, and its status is thrown if bad. The temporaries are gone.\<close>

definition property_written :: "('s, 'v) event_api \<Rightarrow> Event \<Rightarrow> string \<Rightarrow> vtype \<Rightarrow> 'v \<Rightarrow> 's event_world \<Rightarrow> unit outc \<times> 's event_world \<Rightarrow> bool" where
  "property_written api e name ty x w res = (\<exists>m. live m = live (ew_mem w) \<and>
     ((\<exists>ex. res = (throw ex, w\<lparr>ew_mem := m\<rparr>))
      \<or> (\<exists>status s' v. UA_Server_writeObjectProperty api (ev_connection e) (ev_id e) \<lparr>qn_namespaceIndex = 0, qn_name = Str name\<rparr> v (ew_server w)
            = (status, s')
          \<and> reads_scalar doc_api ty x v \<and> res = (throwIfBad status, w\<lparr>ew_server := s', ew_mem := m\<rparr>))))"

definition makes_scalar :: "('v \<Rightarrow> int) \<Rightarrow> vtype \<Rightarrow> 'v \<Rightarrow> (mem, 'v Variant) op \<Rightarrow> bool" where
  "makes_scalar own ty x mk = (\<forall>m. case mk m of
      (Inl e, m') \<Rightarrow> (\<exists>ex. e = Throw ex) \<and> live m' = live m
    | (Inr v, m') \<Rightarrow> reads_scalar doc_api ty x v \<and> live m' = live m + own_variant own v)"

lemma write_named_ok:
  assumes "makes_scalar own ty x mk" "ew_objects w a = Some e" "name \<noteq> []"
  shows "property_written api e name ty x w (write_named api own name mk a w)"
proof (cases "budget (ew_mem w) = 0")
  case True
  with assms(3) have q: "mkQualifiedName 0 (Some name) (ew_mem w) = (throw (BadStatus UA_STATUSCODE_BADOUTOFMEMORY), ew_mem w)"
    by (simp add: mkQualifiedName_def allocNativeString_def alloc_block_def op_bind_def)
  show ?thesis unfolding property_written_def write_named_def q by (auto intro!: exI[of _ "ew_mem w"])
next
  case False
  let ?q = "\<lparr>qn_namespaceIndex = 0, qn_name = Str name\<rparr>"
  from False assms(3) obtain k where q: "mkQualifiedName 0 (Some name) (ew_mem w) = (Ret ?q, k)" "live k = live (ew_mem w) + 1"
    by (simp add: mkQualifiedName_def allocNativeString_def alloc_block_def op_bind_def)
  have one: "own_string (Str name) = 1" using assms(3) by (simp add: own_string_def)
  obtain r m' where mk: "mk k = (r, m')" by fastforce
  from assms(1) have spec: "case (r, m') of
      (Inl e, m') \<Rightarrow> (\<exists>ex. e = Throw ex) \<and> live m' = live k
    | (Inr v, m') \<Rightarrow> reads_scalar doc_api ty x v \<and> live m' = live k + own_variant own v"
    unfolding makes_scalar_def mk [symmetric] by (rule spec)
  show ?thesis
  proof (cases r)
    case (Inl f)
    with spec q(2) obtain ex where f: "f = Throw ex" "live m' = live (ew_mem w) + 1" by auto
    show ?thesis
      unfolding property_written_def write_named_def q(1) prod.case sum.case mk Inl
      by (rule exI[of _ "free_blocks 1 m'"]) (auto simp: f one free_blocks_def)
  next
    case (Inr v)
    with spec q(2) have v: "reads_scalar doc_api ty x v" "live m' = live (ew_mem w) + 1 + own_variant own v" by auto
    obtain status s' where n: "UA_Server_writeObjectProperty api (ev_connection e) (ev_id e) ?q v (ew_server w) = (status, s')" by fastforce
    have "write_named api own name mk a w
        = (throwIfBad status, w\<lparr>ew_server := s', ew_mem := free_blocks (1 + own_variant own v) m'\<rparr>)"
      by (simp add: write_named_def q(1) mk Inr event_writeProperty_def with_event_def assms(2) n one)
    moreover have "live (free_blocks (1 + own_variant own v) m') = live (ew_mem w)" using v(2) by (simp add: free_blocks_def)
    ultimately show ?thesis unfolding property_written_def using n v(1) by blast
  qed
qed

lemma reads_scalar_own: "reads_scalar doc_api ty x
    \<lparr>v_type = Some ty, v_storage = UA_VARIANT_DATA, v_data = OwnPtr [x], v_length = 0, v_dims = []\<rparr>"
  by (simp add: reads_scalar_def v_isScalar_def v_isArray_def v_empty_def doc_api_def isBorrowed_def v_elems_def)

lemmas mk_variant_defs = mk_variant_def setScalarCopyImpl_def setScalarCopyConvertImpl_def setScalarImpl_def setArrayImpl_def
  in_mem_def op_bind_def variant_clear_def

lemma mk_copy_scalar:
  assumes "value_source own ua_copy (\<lambda>x. x)"
  shows "makes_scalar own ty x (mk_variant own ua_copy toNative ty (RegScalar x))"
  unfolding makes_scalar_def
proof
  fix m
  obtain r m' where n: "new_scalar ua_copy x m = (r, m')" by fastforce
  show "case mk_variant own ua_copy toNative ty (RegScalar x) m of
      (Inl e, m') \<Rightarrow> (\<exists>ex. e = Throw ex) \<and> live m' = live m
    | (Inr v, m') \<Rightarrow> reads_scalar doc_api ty x v \<and> live m' = live m + own_variant own v"
    by (cases rule: value_source.new_scalar_spec[OF assms n])
      (simp_all add: mk_variant_defs n reads_scalar_own free_blocks_def own_variant_def zero_variant_def)
qed

lemma mk_flat_scalar:
  assumes "own x = 0"
  shows "makes_scalar own ty x (mk_variant own copy_pointer_free toNative ty (RegScalar x))"
  using assms unfolding makes_scalar_def
  by (auto simp: mk_variant_defs new_scalar_def alloc_block_def op_on_throw_def copy_pointer_free_def reads_scalar_own free_blocks_def
      own_variant_def zero_variant_def)

lemma mk_string_scalar:
  "makes_scalar own_event_value string_vtype (EvString (Str (case sourceName of None \<Rightarrow> [] | Some s \<Rightarrow> s)))
    (mk_variant own_event_value copy_pointer_free view_toNative string_vtype (ConvScalar sourceName))"
  unfolding makes_scalar_def
  by (auto simp: mk_variant_defs new_scalar_def alloc_block_def op_on_throw_def view_toNative_def string_toNative_def str_init_def
      reads_scalar_own free_blocks_def own_variant_def zero_variant_def own_event_value_def own_string_def)

text \<open>The writers of an event's standard properties write a scalar of the right type to the property of that name in namespace 0, throw exactly
  the bad status of the library or the failure of an allocation, and leave no temporary behind.\<close>

theorem event_properties_written:
  assumes "value_source own_event_value ua_copy (\<lambda>x. x)" "ew_objects w a = Some e"
  shows "property_written api e ''SourceName'' string_vtype (EvString (Str (case sourceName of None \<Rightarrow> [] | Some s \<Rightarrow> s))) w
      (writeSourceName api a sourceName w)
    \<and> property_written api e ''Time'' datetime_vtype (EvDateTime time) w (writeTime api a time w)
    \<and> property_written api e ''Severity'' uint16_vtype (EvUInt16 severity) w (writeSeverity api a severity w)
    \<and> property_written api e ''Message'' localizedtext_vtype (EvText message) w (writeMessage api ua_copy a message w)"
  unfolding writeSourceName_def writeTime_def writeSeverity_def writeMessage_def
  by (intro conjI write_named_ok[OF mk_string_scalar assms(2)] write_named_ok[OF mk_flat_scalar assms(2)]
      write_named_ok[OF mk_copy_scalar[OF assms(1)] assms(2)]) (simp_all add: own_event_value_def)

definition event_value_copy :: "event_value \<Rightarrow> (mem, event_value) op" where
  "event_value_copy x m = (if int (budget m) < own_event_value x then (throw BadAlloc, m)
     else (Ret x, \<lparr>budget = budget m - nat (own_event_value x), live = live m + own_event_value x\<rparr>))"

theorem event_properties_written_witness:
  "property_written demo_event_api \<lparr>ev_connection = 7, ev_id = NodeId_numeric 1 1\<rparr> ''Severity'' uint16_vtype (EvUInt16 500)
     \<lparr>ew_server = (2, [(7, NodeId_numeric 1 1)]), ew_mem = \<lparr>budget = 9, live = 0\<rparr>, ew_objects = [0 \<mapsto> \<lparr>ev_connection = 7, ev_id = NodeId_numeric 1 1\<rparr>]\<rparr>
     (writeSeverity demo_event_api 0 500
       \<lparr>ew_server = (2, [(7, NodeId_numeric 1 1)]), ew_mem = \<lparr>budget = 9, live = 0\<rparr>, ew_objects = [0 \<mapsto> \<lparr>ev_connection = 7, ev_id = NodeId_numeric 1 1\<rparr>]\<rparr>)"
proof -
  have "value_source own_event_value event_value_copy (\<lambda>x. x)"
    by unfold_locales (auto simp: event_value_copy_def split: if_splits)
  from event_properties_written[OF this, of
      "\<lparr>ew_server = (2, [(7, NodeId_numeric 1 1)]), ew_mem = \<lparr>budget = 9, live = 0\<rparr>, ew_objects = [0 \<mapsto> \<lparr>ev_connection = 7, ev_id = NodeId_numeric 1 1\<rparr>]\<rparr>"
      0 "\<lparr>ev_connection = 7, ev_id = NodeId_numeric 1 1\<rparr>" demo_event_api]
  show ?thesis by simp
qed

end
