(* ===== verification/Connections.thy ===== *)
theory Connections
  imports Ua_Construct Data_Types Context_Maps
begin

text \<open>
  What is left of \<open>client.cpp\<close> and \<open>server.cpp\<close>: construction, move and destruction of configurations, the identity token, discovery
  (\<open>findServers\<close>, \<open>getEndpoints\<close>), namespaces, the list of subscriptions, connecting, and the queue of asynchronous operations.
  Functions of the C library are arguments; memory is the counting memory of \<open>Wrappers\<close>.
\<close>

section \<open>Configurations\<close>

text \<open>A native configuration: the custom data types that the wrapper allocates, and the rest, which belongs to the C library.\<close>

record ('i, 'c) native_config =
  cf_types :: "'i DataTypeArray list"
  cf_rest :: 'c

definition own_arrays :: "'i DataTypeArray list \<Rightarrow> int" where
  "own_arrays cs = (\<Sum>c \<leftarrow> cs. if arr_cleanup c then 1 + free_array (arr_types c) + (\<Sum>d \<leftarrow> arr_types c. own_type d) else 0)"

definition own_config :: "('c \<Rightarrow> int) \<Rightarrow> ('i, 'c) native_config \<Rightarrow> int" where
  "own_config own cfg = own_arrays (cf_types cfg) + own (cf_rest cfg)"

definition ServerConfig_move :: "'c \<Rightarrow> ('i, 'c) native_config \<Rightarrow> ('i, 'c) native_config \<times> ('i, 'c) native_config" where
  "ServerConfig_move zero cfg = (cfg, \<lparr>cf_types = [], cf_rest = zero\<rparr>)"

definition ClientConfig_move :: "'c \<Rightarrow> ('i, 'c) native_config \<Rightarrow> ('i, 'c) native_config \<times> ('i, 'c) native_config" where
  "ClientConfig_move zero cfg = (cfg, \<lparr>cf_types = [], cf_rest = zero\<rparr>)"

text \<open>\<open>clean\<close> is \<open>UA_ServerConfig_clean\<close> or \<open>UA_ClientConfig_clear\<close>: what it leaves and how many allocations it frees.\<close>

definition ServerConfig_clear :: "'i \<Rightarrow> ('c \<Rightarrow> 'c \<times> int) \<Rightarrow> ('i, 'c) native_config \<Rightarrow> mem \<Rightarrow> ('i, 'c) native_config \<times> mem" where
  "ServerConfig_clear null_id clean cfg m = (case clean (cf_rest cfg) of (c, n) \<Rightarrow>
     (\<lparr>cf_types = [], cf_rest = c\<rparr>, free_blocks n (deallocate_types null_id (cf_types cfg) m)))"

definition ClientConfig_clear14 :: "'i \<Rightarrow> ('c \<Rightarrow> 'c \<times> int) \<Rightarrow> ('i, 'c) native_config \<Rightarrow> mem \<Rightarrow> ('i, 'c) native_config \<times> mem" where
  "ClientConfig_clear14 null_id clean cfg m = (case clean (cf_rest cfg) of (c, n) \<Rightarrow>
     (\<lparr>cf_types = [], cf_rest = c\<rparr>, free_blocks n (deallocate_types null_id (cf_types cfg) m)))"

text \<open>Before 1.4 a temporary client takes the configuration, and is deleted with it (\<open>delete_rest\<close> counts what \<open>UA_Client_delete\<close> frees of it);
  \<open>allocates\<close> tells whether \<open>UA_Client_newWithConfig\<close> succeeds, \<open>silence\<close> resets the callbacks.\<close>

definition temporary_client :: "bool \<Rightarrow> ('c \<Rightarrow> int) \<Rightarrow> 'c \<Rightarrow> mem \<Rightarrow> mem" where
  "temporary_client allocates delete_rest c m = (if allocates then free_blocks (delete_rest c) m else m)"

definition ClientConfig_clear13 ::
  "'i \<Rightarrow> bool \<Rightarrow> ('c \<Rightarrow> 'c) \<Rightarrow> ('c \<Rightarrow> int) \<Rightarrow> ('i, 'c) native_config \<Rightarrow> mem \<Rightarrow> ('i, 'c) native_config \<times> mem" where
  "ClientConfig_clear13 null_id allocates silence delete_rest cfg m =
     (\<lparr>cf_types = [], cf_rest = silence (cf_rest cfg)\<rparr>,
      temporary_client allocates delete_rest (silence (cf_rest cfg)) (deallocate_types null_id (cf_types cfg) m))"

text \<open>Constructors: the base class holds the zero-initialized struct, the library fills it; a bad status is thrown and the base class destructor
  clears what has been filled in.\<close>

definition construct_config ::
  "(('i, 'c) native_config \<Rightarrow> mem \<Rightarrow> ('i, 'c) native_config \<times> mem) \<Rightarrow> 'c \<Rightarrow> ('c \<Rightarrow> mem \<Rightarrow> (u32 \<times> 'c) \<times> mem) \<Rightarrow> (mem, ('i, 'c) native_config) op" where
  "construct_config clear zero fill m = (case fill zero m of ((status, c), m') \<Rightarrow>
     (case throwIfBad status of
        Inr _ \<Rightarrow> (Ret \<lparr>cf_types = [], cf_rest = c\<rparr>, m')
      | Inl e \<Rightarrow> (Inl e, snd (clear \<lparr>cf_types = [], cf_rest = c\<rparr> m'))))"

definition mkServerConfig where
  "mkServerConfig null_id clean zero setDefault = construct_config (ServerConfig_clear null_id clean) zero setDefault"

text \<open>\<open>setMinimal\<close> gets the port, and the certificate unless it is empty.\<close>

definition mkServerConfig_minimal where
  "mkServerConfig_minimal null_id clean zero setMinimal port certificate =
     construct_config (ServerConfig_clear null_id clean) zero (setMinimal (port :: u16) (if str_empty certificate then None else Some certificate))"

definition mkServerConfig_secure where
  "mkServerConfig_secure null_id clean zero setSecure port certificate privateKey trustList issuerList revocationList =
     construct_config (ServerConfig_clear null_id clean) zero
       (setSecure (port :: u16) (certificate :: native_string) (privateKey :: native_string) (trustList :: native_string list)
         (issuerList :: native_string list) (revocationList :: native_string list))"

definition mkClientConfig where
  "mkClientConfig clear zero setDefault = construct_config clear zero setDefault"

definition mkClientConfig_secure where
  "mkClientConfig_secure clear zero setEncryption certificate privateKey trustList revocationList =
     construct_config clear zero (setEncryption (certificate :: native_string) (privateKey :: native_string) (trustList :: native_string list)
       (revocationList :: native_string list))"

definition config_addCustomDataTypes :: "'i DataType list \<Rightarrow> (mem \<times> ('i, 'c) native_config, unit) op" where
  "config_addCustomDataTypes ts mc = (case mc of (m, cfg) \<Rightarrow> (case addDataTypes (cf_types cfg) ts m of
      (Inl e, m') \<Rightarrow> (Inl e, m', cfg)
    | (Inr cs, m') \<Rightarrow> (Ret (), m', cfg\<lparr>cf_types := cs\<rparr>)))"

section \<open>Identity tokens\<close>

definition own_eo :: "('v \<Rightarrow> int) \<Rightarrow> 'v ExtensionObject \<Rightarrow> int" where
  "own_eo own e = (case e of Decoded ty x \<Rightarrow> 1 + own x | EncodedByteString i b \<Rightarrow> own_NodeId i + own_string b
     | EncodedXml i b \<Rightarrow> own_NodeId i + own_string b | _ \<Rightarrow> 0)"

text \<open>The token is copied into an extension object, which is then moved into the configuration.\<close>

definition setUserIdentityTokenHelper ::
  "('v \<Rightarrow> int) \<Rightarrow> ('v \<Rightarrow> (mem, 'v) op) \<Rightarrow> vtype \<Rightarrow> 'v \<Rightarrow> (mem \<times> 'v ExtensionObject, unit) op" where
  "setUserIdentityTokenHelper own ua_copy ty token me = (case me of (m, old) \<Rightarrow> (case eo_of_copy ua_copy token ty m of
      (Inl e, m') \<Rightarrow> (Inl e, m', old)
    | (Inr eo, m') \<Rightarrow> (Ret (), free_blocks (own_eo own old) m', eo)))"

record token_types =
  tt_anonymous :: vtype
  tt_userName :: vtype
  tt_x509 :: vtype
  tt_issued :: vtype

definition setUserIdentityToken_anonymous where
  "setUserIdentityToken_anonymous tt own ua_copy token = setUserIdentityTokenHelper own ua_copy (tt_anonymous tt) token"

definition setUserIdentityToken_userName where
  "setUserIdentityToken_userName tt own ua_copy token = setUserIdentityTokenHelper own ua_copy (tt_userName tt) token"

definition setUserIdentityToken_x509 where
  "setUserIdentityToken_x509 tt own ua_copy token = setUserIdentityTokenHelper own ua_copy (tt_x509 tt) token"

definition setUserIdentityToken_issued where
  "setUserIdentityToken_issued tt own ua_copy token = setUserIdentityTokenHelper own ua_copy (tt_issued tt) token"

section \<open>Discovery\<close>

text \<open>The library returns a status and an array (null, or a block with the descriptions). They are moved into a vector, whose storage is one
  allocation unless it is empty; then the array, now of zero-initialized elements, is deleted and the status checked. If the
  vector cannot be allocated, the array is lost.\<close>

definition discover :: "('d \<Rightarrow> int) \<Rightarrow> (string \<Rightarrow> mem \<Rightarrow> (u32 \<times> 'd list option) \<times> mem) \<Rightarrow> string \<Rightarrow> (mem, 'd list) op" where
  "discover own ask url m = (case ask url m of ((status, array), m1) \<Rightarrow>
     (let ds = (case array of None \<Rightarrow> [] | Some ds \<Rightarrow> ds) in
      case (if ds = [] then (Ret (), m1) else alloc_block BadAlloc m1) of
        (Inl e, m2) \<Rightarrow> (Inl e, m2)
      | (Inr _, m2) \<Rightarrow>
         (let m3 = (if array = None then m2 else free_blocks 1 m2) in
          case throwIfBad status of
            Inl e \<Rightarrow> (Inl e, free_blocks ((if ds = [] then 0 else 1) + (\<Sum>d \<leftarrow> ds. own d)) m3)
          | Inr _ \<Rightarrow> (Ret ds, m3))))"

definition findServers :: "('d \<Rightarrow> int) \<Rightarrow> (string \<Rightarrow> mem \<Rightarrow> (u32 \<times> 'd list option) \<times> mem) \<Rightarrow> string \<Rightarrow> (mem, 'd list) op" where
  "findServers own ua_findServers serverUrl = discover own ua_findServers serverUrl"

definition getEndpoints :: "('d \<Rightarrow> int) \<Rightarrow> (string \<Rightarrow> mem \<Rightarrow> (u32 \<times> 'd list option) \<times> mem) \<Rightarrow> string \<Rightarrow> (mem, 'd list) op" where
  "getEndpoints own ua_getEndpoints serverUrl = discover own ua_getEndpoints serverUrl"

section \<open>Namespaces\<close>

text \<open>\<open>namespaceIndex\<close> passes the view with its length, \<open>registerNamespace\<close> a C string.\<close>

definition namespaceIndex_of :: "(native_string \<Rightarrow> 's \<Rightarrow> u32 \<times> nat) \<Rightarrow> string \<Rightarrow> 's \<Rightarrow> u16 option" where
  "namespaceIndex_of getNamespaceByName uri s = (case getNamespaceByName (toNativeString (Some uri)) s of (status, ns) \<Rightarrow>
     if status = UA_STATUSCODE_GOOD then Some (of_nat ns) else None)"

definition registerNamespace :: "(string \<Rightarrow> 's \<Rightarrow> u16 \<times> 's) \<Rightarrow> string \<Rightarrow> ('s, u16) op" where
  "registerNamespace addNamespace uri s = (case addNamespace (takeWhile (\<lambda>c. c \<noteq> CHR 0x00) uri) s of (i, s') \<Rightarrow> (Ret i, s'))"

text \<open>\<open>namespaceArray\<close> of servers and clients reads the value of the variable and converts it.\<close>

definition namespaceArray :: "'v api \<Rightarrow> (nat \<Rightarrow> 'v list option) \<Rightarrow> ('v \<Rightarrow> 'a) \<Rightarrow> vtype \<Rightarrow> (NodeId \<Rightarrow> ('s, 'v Variant Result) op) \<Rightarrow> ('s, 'a list) op" where
  "namespaceArray a store fromNative ty readValue s = (case readValue (NodeId_numeric 0 2255) s of
      (Inl e, s') \<Rightarrow> (Inl e, s')
    | (Inr r, s') \<Rightarrow> (outc_bind (value_of r) (to_conv_array a store fromNative ty), s'))"

section \<open>Connections and subscriptions of a client\<close>

definition client_connect :: "(string \<Rightarrow> 's \<Rightarrow> u32 \<times> 's) \<Rightarrow> string \<Rightarrow> ('s, unit) op" where
  "client_connect ua_connect url s = (case ua_connect (takeWhile (\<lambda>c. c \<noteq> CHR 0x00) url) s of (status, s') \<Rightarrow> (throwIfBad status, s'))"

definition client_disconnect :: "('s \<Rightarrow> u32 \<times> 's) \<Rightarrow> ('s, unit) op" where
  "client_disconnect ua_disconnect s = (case ua_disconnect s of (status, s') \<Rightarrow> (throwIfBad status, s'))"

text \<open>\<open>subscriptions()\<close> sweeps the stale contexts and lists the remaining keys.\<close>

definition client_subscriptions :: "('i \<Rightarrow> bool) \<Rightarrow> (u32, 'i) cmap \<Rightarrow> u32 list \<times> (u32, 'i) cmap" where
  "client_subscriptions stale m = (case cm_eraseStale stale m of (n, m') \<Rightarrow>
     (cm_iterate (\<lambda>pair result. result @ [fst pair]) m' [], m'))"

section \<open>Asynchronous operations of a server\<close>

record ('q, 'c) AsyncOperation =
  ao_call :: bool
  ao_request :: "'q option"
  ao_context :: 'c

definition getAsyncOperation :: "('s \<Rightarrow> ('q, 'c) AsyncOperation option \<times> 's) \<Rightarrow> 's \<Rightarrow> ('q, 'c) AsyncOperation option \<times> 's" where
  "getAsyncOperation nonBlocking s = nonBlocking s"

definition setAsyncOperationResult :: "('c \<Rightarrow> 'r \<Rightarrow> 's \<Rightarrow> 's) \<Rightarrow> 'r \<Rightarrow> 'c \<Rightarrow> 's \<Rightarrow> 's" where
  "setAsyncOperationResult setResult response context s = setResult context response s"

definition runAsyncOperation :: "('q \<Rightarrow> 's \<Rightarrow> 'r \<times> 's) \<Rightarrow> ('c \<Rightarrow> 'r \<Rightarrow> 's \<Rightarrow> 's) \<Rightarrow> ('q, 'c) AsyncOperation \<Rightarrow> 's \<Rightarrow> 's" where
  "runAsyncOperation call setResult operation s = (case ao_request operation of
      None \<Rightarrow> s
    | Some q \<Rightarrow> if ao_call operation then (case call q s of (r, s') \<Rightarrow> setAsyncOperationResult setResult r (ao_context operation) s') else s)"

definition useAsyncOperation :: "(NodeId \<Rightarrow> bool \<Rightarrow> 's \<Rightarrow> u32 \<times> 's) \<Rightarrow> NodeId \<Rightarrow> bool \<Rightarrow> ('s, unit) op" where
  "useAsyncOperation setAsync i enabled s = (case setAsync i enabled s of (status, s') \<Rightarrow> (throwIfBad status, s'))"

definition client_connectAsync :: "(string \<Rightarrow> 's \<Rightarrow> u32 \<times> 's) \<Rightarrow> string \<Rightarrow> ('s, unit) op" where
  "client_connectAsync ua_connectAsync url s =
     (case ua_connectAsync (takeWhile (\<lambda>c. c \<noteq> CHR 0x00) url) s of (status, s') \<Rightarrow> (throwIfBad status, s'))"

definition client_disconnectAsync :: "('s \<Rightarrow> u32 \<times> 's) \<Rightarrow> ('s, unit) op" where
  "client_disconnectAsync ua_disconnectAsync s = (case ua_disconnectAsync s of (status, s') \<Rightarrow> (throwIfBad status, s'))"

definition client_namespaceArray ::
  "'v api \<Rightarrow> (nat \<Rightarrow> 'v list option) \<Rightarrow> ('v \<Rightarrow> 'a) \<Rightarrow> vtype \<Rightarrow> (NodeId \<Rightarrow> ('s, 'v Variant Result) op) \<Rightarrow> ('s, 'a list) op" where
  "client_namespaceArray a store fromNative ty readValue s = (case readValue (NodeId_numeric 0 2255) s of
      (Inl e, s') \<Rightarrow> (Inl e, s')
    | (Inr r, s') \<Rightarrow> (outc_bind (value_of r) (to_conv_array a store fromNative ty), s'))"

definition client_addCustomDataTypes :: "'i DataType list \<Rightarrow> (mem \<times> ('i, 'c) native_config, unit) op" where
  "client_addCustomDataTypes ts mc = (case mc of (m, cfg) \<Rightarrow> (case addDataTypes (cf_types cfg) ts m of
      (Inl e, m') \<Rightarrow> (Inl e, m', cfg)
    | (Inr cs, m') \<Rightarrow> (Ret (), m', cfg\<lparr>cf_types := cs\<rparr>)))"

section \<open>Logger pointers of a configuration\<close>

text \<open>\<open>getLogger\<close>: \<open>config\<close> is the address of the configuration, with the address of its \<open>logger\<close> member (before 1.4) and its \<open>logging\<close> pointer.\<close>

definition getLogger_server :: "bool \<Rightarrow> (nat \<times> nat option) option \<Rightarrow> nat option" where
  "getLogger_server ge14 config = (case config of None \<Rightarrow> None | Some (member, logging) \<Rightarrow> if ge14 then logging else Some member)"

definition getLogger_client :: "bool \<Rightarrow> (nat \<times> nat option) option \<Rightarrow> nat option" where
  "getLogger_client ge14 config = (case config of None \<Rightarrow> None | Some (member, logging) \<Rightarrow> if ge14 then logging else Some member)"

text \<open>\<open>updateLoggerStackPointer\<close>: up to 1.2 network layers and security policies point to the logger inside the configuration, which
  has been moved to a new address.\<close>

definition updateLoggerStackPointer_server :: "bool \<Rightarrow> nat \<Rightarrow> nat option list \<times> nat option list \<Rightarrow> nat option list \<times> nat option list" where
  "updateLoggerStackPointer_server le12 logger lp = (if le12 then (map (\<lambda>_. Some logger) (fst lp), map (\<lambda>_. Some logger) (snd lp)) else lp)"

definition updateLoggerStackPointer_client :: "bool \<Rightarrow> nat \<Rightarrow> nat option list \<Rightarrow> nat option list" where
  "updateLoggerStackPointer_client le12 logger policies = (if le12 then map (\<lambda>_. Some logger) policies else policies)"

lemma logger_pointers_updated:
  "p \<in> set (fst (updateLoggerStackPointer_server True l lp)) \<union> set (snd (updateLoggerStackPointer_server True l lp)) \<Longrightarrow> p = getLogger_server False (Some (l, g))"
  "p \<in> set (updateLoggerStackPointer_client True l ps) \<Longrightarrow> p = getLogger_client False (Some (l, g))"
  by (auto simp: updateLoggerStackPointer_server_def updateLoggerStackPointer_client_def getLogger_server_def getLogger_client_def)

text \<open>\<open>setBuildInfo\<close> moves the argument into the configuration; the old value is cleared, the argument left empty.\<close>

definition setBuildInfo :: "('b \<Rightarrow> int) \<Rightarrow> 'b \<Rightarrow> mem \<times> 'b \<Rightarrow> mem \<times> 'b" where
  "setBuildInfo own buildInfo mo = (case mo of (m, old) \<Rightarrow> (free_blocks (own old) m, buildInfo))"

section \<open>Balance of configurations\<close>

text \<open>What the code relies on: a failed or successful initialisation leaves a struct that owns what was allocated, and clearing frees it.\<close>

definition config_library :: "('c \<Rightarrow> int) \<Rightarrow> 'c \<Rightarrow> ('c \<Rightarrow> 'c \<times> int) \<Rightarrow> bool" where
  "config_library own zero clean = (own zero = 0 \<and> (\<forall>c. snd (clean c) = own c \<and> own (fst (clean c)) = 0))"

definition fills :: "('c \<Rightarrow> int) \<Rightarrow> 'c \<Rightarrow> ('c \<Rightarrow> mem \<Rightarrow> (u32 \<times> 'c) \<times> mem) \<Rightarrow> bool" where
  "fills own zero fill = (\<forall>m. live (snd (fill zero m)) = live m + own (snd (fst (fill zero m))))"

definition frees_config :: "('c \<Rightarrow> int) \<Rightarrow> (('i, 'c) native_config \<Rightarrow> mem \<Rightarrow> ('i, 'c) native_config \<times> mem) \<Rightarrow> bool" where
  "frees_config own clear = (\<forall>cfg m. own_config own (fst (clear cfg m)) = 0 \<and> live (snd (clear cfg m)) = live m - own_config own cfg)"

lemma live_deallocate: "live (deallocate_types null_id cs m) = live m - own_arrays cs"
proof (induction cs arbitrary: m)
  case (Cons c cs)
  then show ?case by (simp add: own_arrays_def free_blocks_def clear_array_def clear_types_own)
qed (simp add: own_arrays_def)

lemma own_config_simps [simp]: "own_config own \<lparr>cf_types = [], cf_rest = c\<rparr> = own c"
  by (simp add: own_config_def own_arrays_def)

lemma construct_config_balanced:
  assumes "frees_config own clear" "fills own zero fill" "construct_config clear zero fill m = (r, m')"
  shows "case r of Inr cfg \<Rightarrow> live m' = live m + own_config own cfg \<and> cf_types cfg = [] | Inl e \<Rightarrow> (\<exists>ex. e = Throw ex) \<and> live m' = live m"
proof -
  obtain status c k where f: "fill zero m = ((status, c), k)" by (metis prod.exhaust)
  from assms(2) f have k: "live k = live m + own c" unfolding fills_def by (metis fst_conv snd_conv)
  show ?thesis
  proof (cases "isBad status")
    case True
    from assms(1) have "live (snd (clear \<lparr>cf_types = [], cf_rest = c\<rparr> k)) = live k - own c"
      unfolding frees_config_def by simp
    with True assms(3) f k show ?thesis by (auto simp: construct_config_def throwIfBad_def split: if_splits)
  next
    case False
    with assms(3) f k show ?thesis by (auto simp: construct_config_def)
  qed
qed

lemma clears_free:
  assumes "config_library own zero clean"
  shows "frees_config own (ServerConfig_clear null_id clean)" "frees_config own (ClientConfig_clear14 null_id clean)"
  using assms by (simp_all add: config_library_def frees_config_def ServerConfig_clear_def ClientConfig_clear14_def case_prod_beta
      free_blocks_def live_deallocate own_config_def own_arrays_def)

lemma moves_balanced:
  assumes "config_library own zero clean"
  shows "fst (ServerConfig_move zero cfg) = cfg" "own_config own (snd (ServerConfig_move zero cfg)) = 0"
    "fst (ClientConfig_move zero cfg) = cfg" "own_config own (snd (ClientConfig_move zero cfg)) = 0"
  using assms by (simp_all add: config_library_def ServerConfig_move_def ClientConfig_move_def)

text \<open>A library's part of a configuration, taken as the number of allocations it owns.\<close>

lemma counted_config: "config_library (\<lambda>n :: nat. int n) 0 (\<lambda>n. (0, int n))"
  by (simp add: config_library_def)

text \<open>Before 1.4: the temporary client takes over and frees the rest, unless it cannot be allocated; then the rest is lost.\<close>

lemma ClientConfig_clear13_live:
  "live (snd (ClientConfig_clear13 null_id allocates silence delete_rest cfg m))
    = live m - own_arrays (cf_types cfg) - (if allocates then delete_rest (silence (cf_rest cfg)) else 0)"
  by (simp add: ClientConfig_clear13_def temporary_client_def free_blocks_def live_deallocate)

lemma addCustomDataTypes_balanced:
  assumes "config_addCustomDataTypes ts (m, cfg) = (Ret (), m', cfg')"
  shows "live m' - own_config own cfg' = live m - own_config own cfg" "cf_rest cfg' = cf_rest cfg"
    "\<exists>a. cf_types cfg' = a # cf_types cfg \<and> arr_types a = map copied_type ts \<and> arr_cleanup a"
proof -
  obtain r k where a: "addDataTypes (cf_types cfg) ts m = (r, k)" by fastforce
  have "r = Ret (\<lparr>arr_types = map copied_type ts, arr_cleanup = True\<rparr> # cf_types cfg)
      \<and> live k = live m + 1 + free_array ts + (\<Sum>d \<leftarrow> map copied_type ts. own_type d)"
    using assms a by (cases rule: addDataTypes_cases[OF a]) (auto simp: config_addCustomDataTypes_def)
  with assms a show "live m' - own_config own cfg' = live m - own_config own cfg" "cf_rest cfg' = cf_rest cfg"
    "\<exists>a. cf_types cfg' = a # cf_types cfg \<and> arr_types a = map copied_type ts \<and> arr_cleanup a"
    by (auto simp: config_addCustomDataTypes_def own_config_def own_arrays_def free_array_def)
qed



text \<open>When no temporary client can be allocated, everything but the custom data types leaks.\<close>

lemma client_config_leaks:
  "live (snd (ClientConfig_clear13 null_id False silence delete_rest \<lparr>cf_types = [], cf_rest = c\<rparr> m)) = live m"
  by (simp add: ClientConfig_clear13_live own_arrays_def)

section \<open>Identity tokens are replaced as a whole\<close>

text \<open>Setting a token either replaces the old one by a copy and frees the old, or throws and leaves it.\<close>

definition token_replaced :: "('v \<Rightarrow> int) \<Rightarrow> vtype \<Rightarrow> 'v \<Rightarrow> mem \<Rightarrow> 'v ExtensionObject \<Rightarrow> unit outc \<times> mem \<times> 'v ExtensionObject \<Rightarrow> bool" where
  "token_replaced own ty token m old res = (case res of
      (Inr _, m', new) \<Rightarrow> new = Decoded ty token \<and> live m' = live m - own_eo own old + own_eo own new
    | (Inl e, m', new) \<Rightarrow> (\<exists>ex. e = Throw ex) \<and> new = old \<and> live m' = live m)"

lemma user_token_replaced:
  assumes "value_source own ua_copy (\<lambda>x. x)"
  shows "token_replaced own ty token m old (setUserIdentityTokenHelper own ua_copy ty token (m, old))"
proof -
  obtain r m' where n: "new_scalar ua_copy token m = (r, m')" by fastforce
  show ?thesis
    by (cases rule: value_source.new_scalar_spec[OF assms n])
      (simp_all add: token_replaced_def setUserIdentityTokenHelper_def eo_of_copy_def op_bind_def n own_eo_def free_blocks_def)
qed

section \<open>Discovery\<close>

definition fills_array :: "('d \<Rightarrow> int) \<Rightarrow> (string \<Rightarrow> mem \<Rightarrow> (u32 \<times> 'd list option) \<times> mem) \<Rightarrow> bool" where
  "fills_array own ask = (\<forall>url m. case ask url m of ((status, array), m') \<Rightarrow>
     live m' = live m + (case array of None \<Rightarrow> 0 | Some ds \<Rightarrow> 1 + (\<Sum>d \<leftarrow> ds. own d)))"

lemma discover_balanced:
  assumes "fills_array own ask" "ask url m = ((status, array), m1)" "discover own ask url m = (r, m')"
    and "ds = (case array of None \<Rightarrow> [] | Some ds \<Rightarrow> ds)"
  shows "if ds \<noteq> [] \<and> budget m1 = 0 then r = throw BadAlloc \<and> live m' = live m + 1 + (\<Sum>d \<leftarrow> ds. own d)
    else if isBad status then r = map_sum id (\<lambda>_. undefined) (throwIfBad status) \<and> live m' = live m
    else r = Ret ds \<and> live m' = live m + (if ds = [] then 0 else 1) + (\<Sum>d \<leftarrow> ds. own d)"
proof -
  have "case ask url m of ((status, array), m') \<Rightarrow>
     live m' = live m + (case array of None \<Rightarrow> 0 | Some ds \<Rightarrow> 1 + (\<Sum>d \<leftarrow> ds. own d))"
    using assms(1) unfolding fills_array_def by (elim allE)
  then have "live m1 = live m + (case array of None \<Rightarrow> 0 | Some ds \<Rightarrow> 1 + (\<Sum>d \<leftarrow> ds. own d))" by (simp add: assms(2))
  with assms(2-4) show ?thesis
    by (cases array) (auto simp: discover_def alloc_block_def throwIfBad_def free_blocks_def Let_def split: if_splits)
qed

text \<open>Discovery returns the descriptions the library found, which the caller then owns, or throws the library's bad status with the array released;
  only when the vector for the result cannot be allocated is the array lost.\<close>

theorem discovery_balanced:
  assumes "fills_array own ask" "ask url m = ((status, array), m1)"
    and "findServers own ask url m = (r, m')" "ds = (case array of None \<Rightarrow> [] | Some ds \<Rightarrow> ds)"
  shows "(isBad status \<longrightarrow> (\<exists>ex. r = throw ex) \<and> (ds = [] \<or> 0 < budget m1 \<longrightarrow> throwIfBad status = outc_map (\<lambda>_. ()) r \<and> live m' = live m))
    \<and> (\<not> isBad status \<and> (ds = [] \<or> 0 < budget m1) \<longrightarrow> r = Ret ds \<and> live m' = live m + (if ds = [] then 0 else 1) + (\<Sum>d \<leftarrow> ds. own d))
    \<and> (ds \<noteq> [] \<and> budget m1 = 0 \<longrightarrow> r = throw BadAlloc \<and> live m' = live m + 1 + (\<Sum>d \<leftarrow> ds. own d))
    \<and> getEndpoints own ask url m = (r, m')"
proof -
  have e: "discover own ask url m = (r, m')" using assms(3) by (simp add: findServers_def)
  from discover_balanced[OF assms(1,2) e assms(4)] e show ?thesis
    by (auto simp: getEndpoints_def throwIfBad_def split: if_splits)
qed

theorem discovery_balanced_witness:
  "findServers (\<lambda>d :: string. 1) (\<lambda>url m. ((UA_STATUSCODE_GOOD, Some [url, url]), \<lparr>budget = 2, live = live m + 3\<rparr>)) ''opc'' \<lparr>budget = 9, live = 0\<rparr>
     = (Ret [''opc'', ''opc''], \<lparr>budget = 1, live = 3\<rparr>)
   \<and> live \<lparr>budget = 1, live = 3\<rparr> = live \<lparr>budget = 9, live = 0\<rparr> + 1 + (\<Sum>d \<leftarrow> [''opc'', ''opc'']. 1)"
proof -
  let ?ask = "\<lambda>url m. ((UA_STATUSCODE_GOOD, Some [url, url]), \<lparr>budget = 2, live = live m + 3\<rparr>)"
  have run: "findServers (\<lambda>d :: string. 1) ?ask ''opc'' \<lparr>budget = 9, live = 0\<rparr> = (Ret [''opc'', ''opc''], \<lparr>budget = 1, live = 3\<rparr>)"
    by (simp add: findServers_def discover_def alloc_block_def free_blocks_def isBad_def UA_STATUSCODE_GOOD_def)
  have "fills_array (\<lambda>d. 1) ?ask" by (simp add: fills_array_def)
  from discovery_balanced[OF this refl run refl] run show ?thesis
    by (simp add: isBad_def UA_STATUSCODE_GOOD_def)
qed

section \<open>Namespaces\<close>

definition position :: "string \<Rightarrow> string list \<Rightarrow> nat" where
  "position u us = length (takeWhile (\<lambda>x. x \<noteq> u) us)"

text \<open>The namespace table of the library: looking a name up finds its position, adding a name appends it unless it is there.\<close>

definition namespace_library :: "(native_string \<Rightarrow> 's \<Rightarrow> u32 \<times> nat) \<Rightarrow> (string \<Rightarrow> 's \<Rightarrow> u16 \<times> 's) \<Rightarrow> ('s \<Rightarrow> string list) \<Rightarrow> bool" where
  "namespace_library getName addName tab = (\<forall>u s.
     (if u \<in> set (tab s) then getName (Str u) s = (UA_STATUSCODE_GOOD, position u (tab s))
      else fst (getName (Str u) s) \<noteq> UA_STATUSCODE_GOOD)
   \<and> tab (snd (addName u s)) = (if u \<in> set (tab s) then tab s else tab s @ [u])
   \<and> fst (addName u s) = of_nat (position u (tab s)))"

lemma position_append: "u \<in> set us \<Longrightarrow> position u (us @ vs) = position u us"
  by (simp add: position_def takeWhile_append1)

lemma position_new: "u \<notin> set us \<Longrightarrow> position u (us @ [u]) = length us \<and> position u us = length us"
  unfolding position_def by (induction us) auto

lemma position_less: "u \<in> set us \<Longrightarrow> position u us < length us \<and> us ! position u us = u"
  unfolding position_def by (induction us) auto

text \<open>A namespace registered under a name without null characters is found under that name with the index that the registration returned, which denotes
  it in the table as long as the table has fewer than 65536 entries; registering again returns the same index, and no other name's index changes.\<close>

theorem namespaces_registered:
  assumes "namespace_library getName addName tab" "CHR 0x00 \<notin> set uri" "registerNamespace addName uri s = (r, s')"
  shows "\<exists>i. r = Ret i \<and> namespaceIndex_of getName uri s' = Some i
    \<and> (length (tab s') \<le> 2 ^ 16 \<longrightarrow> unat i < length (tab s') \<and> tab s' ! unat i = uri)
    \<and> registerNamespace addName uri s' = (Ret i, snd (addName uri s')) \<and> tab (snd (addName uri s')) = tab s'
    \<and> (\<forall>u. u \<noteq> uri \<longrightarrow> namespaceIndex_of getName u s' = namespaceIndex_of getName u s)"
proof -
  have lib: "(if u \<in> set (tab s) then getName (Str u) s = (UA_STATUSCODE_GOOD, position u (tab s))
      else fst (getName (Str u) s) \<noteq> UA_STATUSCODE_GOOD)
   \<and> tab (snd (addName u s)) = (if u \<in> set (tab s) then tab s else tab s @ [u])
   \<and> fst (addName u s) = of_nat (position u (tab s))" for u s
    using assms(1) unfolding namespace_library_def by blast
  have whole: "takeWhile (\<lambda>c. c \<noteq> CHR 0x00) uri = uri"
    using assms(2) by (auto simp: takeWhile_eq_all_conv)
  have idx: "namespaceIndex_of getName u s = (if u \<in> set (tab s) then Some (of_nat (position u (tab s))) else None)" for u s
    using lib[of u s] by (auto simp: namespaceIndex_of_def toNativeString_def split: prod.splits if_splits)
  define i where "i = (of_nat (position uri (tab s)) :: u16)"
  have r: "r = Ret i" and s': "s' = snd (addName uri s)"
    using assms(3) lib[of uri s] by (auto simp: registerNamespace_def whole i_def split: prod.splits)
  have tab: "tab s' = (if uri \<in> set (tab s) then tab s else tab s @ [uri])" unfolding s' using lib[of uri s] by blast
  have pos: "position uri (tab s') = position uri (tab s)"
    unfolding tab using position_new by simp
  have mem: "uri \<in> set (tab s')" unfolding tab by simp
  have "namespaceIndex_of getName uri s' = Some i" using idx[of uri s'] mem by (simp add: pos i_def)
  moreover have "unat i < length (tab s') \<and> tab s' ! unat i = uri" if "length (tab s') \<le> 2 ^ 16"
  proof -
    have p: "position uri (tab s') < length (tab s') \<and> tab s' ! position uri (tab s') = uri" using position_less[OF mem] .
    then have "unat i = position uri (tab s')"
      unfolding i_def pos [symmetric] using that by (intro unat_of_nat_fit) simp
    with p show ?thesis by simp
  qed
  moreover have "registerNamespace addName uri s' = (Ret i, snd (addName uri s'))"
    using lib[of uri s'] by (cases "addName uri s'") (simp add: registerNamespace_def whole pos i_def)
  moreover have "tab (snd (addName uri s')) = tab s'" using lib[of uri s'] mem by simp
  moreover have "namespaceIndex_of getName u s' = namespaceIndex_of getName u s" if "u \<noteq> uri" for u
    using that position_append[of u "tab s" "[uri]"] unfolding idx tab by auto
  ultimately show ?thesis using r by blast
qed

definition demo_getName :: "native_string \<Rightarrow> string list \<Rightarrow> u32 \<times> nat" where
  "demo_getName n us = (case n of
      Str u \<Rightarrow> if u \<in> set us then (UA_STATUSCODE_GOOD, position u us) else (UA_STATUSCODE_BADINTERNALERROR, 0)
    | NullString \<Rightarrow> (UA_STATUSCODE_BADINTERNALERROR, 0))"

definition demo_addName :: "string \<Rightarrow> string list \<Rightarrow> u16 \<times> string list" where
  "demo_addName u us = (of_nat (position u us), if u \<in> set us then us else us @ [u])"

lemma demo_namespace_library: "namespace_library demo_getName demo_addName (\<lambda>us. us)"
  by (simp add: namespace_library_def demo_getName_def demo_addName_def UA_STATUSCODE_GOOD_def UA_STATUSCODE_BADINTERNALERROR_def)

theorem namespaces_registered_witness:
  "namespaceIndex_of demo_getName ''urn:b'' (snd (registerNamespace demo_addName ''urn:b'' [''urn:0'', ''urn:a''])) = Some 2"
proof -
  have run: "registerNamespace demo_addName ''urn:b'' [''urn:0'', ''urn:a''] = (Ret 2, [''urn:0'', ''urn:a'', ''urn:b''])"
    by (simp add: registerNamespace_def demo_addName_def position_def)
  from namespaces_registered[OF demo_namespace_library _ run] run show ?thesis by auto
qed

text \<open>A name with a null character is registered up to it, and then not found under the full name.\<close>

lemma namespace_with_null:
  "registerNamespace demo_addName [CHR ''a'', CHR 0x00, CHR ''b''] [] = (Ret 0, [''a''])"
  "namespaceIndex_of demo_getName [CHR ''a'', CHR 0x00, CHR ''b''] [''a''] = None"
  by (simp_all add: registerNamespace_def demo_addName_def position_def namespaceIndex_of_def demo_getName_def toNativeString_def
      UA_STATUSCODE_GOOD_def UA_STATUSCODE_BADINTERNALERROR_def)

section \<open>Subscriptions and asynchronous operations\<close>

text \<open>\<open>subscriptions()\<close> returns the ids of the subscriptions that are not stale, in the order of the map, and drops the contexts of the others.\<close>

lemma fold_collect: "fold (\<lambda>pair result. result @ [f pair]) xs acc = acc @ map f xs"
  by (induction xs arbitrary: acc) simp_all

lemma client_subscriptions_correct:
  "client_subscriptions stale m = (map fst (filter (\<lambda>e. \<not> stale (snd e)) m), cm_sweep stale m)"
  by (simp add: client_subscriptions_def cm_eraseStale_def cm_iterate_def cm_sweep_def fold_collect Let_def)

text \<open>An asynchronous call is run once and its response reported under the context of the operation; an operation without request, or of another
  kind, changes nothing.\<close>

lemma async_operation_answered:
  "ao_call operation \<Longrightarrow> ao_request operation = Some q \<Longrightarrow> call q s = (r, s') \<Longrightarrow>
     runAsyncOperation call setResult operation s = setResult (ao_context operation) r s'"
  "\<not> ao_call operation \<or> ao_request operation = None \<Longrightarrow> runAsyncOperation call setResult operation s = s"
  by (auto simp: runAsyncOperation_def setAsyncOperationResult_def split: option.splits)

end
