(* ===== verification/Client_Versions.thy ===== *)
theory Client_Versions
  imports Clients
begin

text \<open>
  The state callback of clients for version 1.0 of the C library, which knows a single state instead of one for the channel and one for
  the session (\<open>client.cpp\<close>), and the inactivity callback of subscriptions. The last state is kept next to the rest of the context.
\<close>

section \<open>The state callback of version 1.0\<close>

text \<open>The enumerators the code names; all others are \<open>OtherState\<close>.\<close>

datatype ua_client_state = StDisconnected | StConnected | StSession | StSessionDisconnected | OtherState nat

definition state_change :: "ua_client_state \<Rightarrow> ua_client_state \<Rightarrow> (client_ctx, unit) op" where
  "state_change prev st ctx = (if st \<noteq> prev
     then (case st of
         StDisconnected \<Rightarrow> invokeStateCallback Disconnected ctx
       | StConnected \<Rightarrow> invokeStateCallback Connected ctx
       | StSession \<Rightarrow> invokeStateCallback SessionActivated ctx
       | StSessionDisconnected \<Rightarrow> invokeStateCallback SessionClosed ctx
       | OtherState _ \<Rightarrow> (Ret (), ctx))
     else (Ret (), ctx))"

definition stateCallback10 ::
  "ua_client_state \<Rightarrow> (client_ctx \<times> ua_client_state) option \<Rightarrow> unit outc \<times> (client_ctx \<times> ua_client_state) option" where
  "stateCallback10 st context = (case context of
      None \<Rightarrow> (Ret (), None)
    | Some (ctx, prev) \<Rightarrow> (case state_change prev st ctx of
          (Inl e, ctx') \<Rightarrow> (Inl e, Some (ctx', prev))
        | (Inr _, ctx') \<Rightarrow> (Ret (), Some (ctx', st))))"

fun notify_all10 :: "ua_client_state list \<Rightarrow> (client_ctx \<times> ua_client_state) \<Rightarrow> unit outc \<times> (client_ctx \<times> ua_client_state)" where
  "notify_all10 [] c = (Ret (), c)"
| "notify_all10 (st # sts) c = (case stateCallback10 st (Some c) of
      (Inl e, d) \<Rightarrow> (Inl e, c)
    | (Inr _, d) \<Rightarrow> notify_all10 sts (case d of None \<Rightarrow> c | Some c' \<Rightarrow> c'))"

text \<open>What is to be reported: entering one of the four states.\<close>

definition event10 :: "ua_client_state \<Rightarrow> ua_client_state \<Rightarrow> ClientState list" where
  "event10 old new = (if new = old then [] else case new of
       StDisconnected \<Rightarrow> [Disconnected] | StConnected \<Rightarrow> [Connected] | StSession \<Rightarrow> [SessionActivated]
     | StSessionDisconnected \<Rightarrow> [SessionClosed] | OtherState _ \<Rightarrow> [])"

fun events10 :: "ua_client_state \<Rightarrow> ua_client_state list \<Rightarrow> ClientState list" where
  "events10 st [] = []"
| "events10 st (st' # sts) = event10 st st' @ events10 st' sts"

lemma stateCallback10_fire:
  assumes "all_benign ctx"
  shows "stateCallback10 st (Some (ctx, old)) = (Ret (), Some (fire (event10 old st) ctx, st))"
  by (cases st) (simp_all add: stateCallback10_def state_change_def event10_def invoke_fire[OF assms])

lemma notify10_fire:
  "all_benign ctx \<Longrightarrow> notify_all10 sts (ctx, old) = (Ret (), fire (events10 old sts) ctx, last (old # sts))"
  by (induction sts arbitrary: ctx old) (simp_all add: stateCallback10_fire fire_append)

lemma events10_entries:
  "count_list (events10 old sts) Connected = entries StConnected old sts"
  "count_list (events10 old sts) Disconnected = entries StDisconnected old sts"
  "count_list (events10 old sts) SessionActivated = entries StSession old sts"
  "count_list (events10 old sts) SessionClosed = entries StSessionDisconnected old sts"
  by (induction old sts rule: events10.induct) (auto simp: event10_def split: ua_client_state.splits)

text \<open>With version 1.0 of the C library, too, the user's callbacks run exactly as the state notifications demand: each of the four callbacks
  runs once for every time its state is entered, in order, and the exception catcher holds the exception of the last one that
  threw; nothing escapes to the native client.\<close>

theorem client_notifications_v10:
  assumes "all_benign ctx"
  shows "\<exists>ctx' evs. notify_all10 sts (ctx, old) = (Ret (), ctx', last (old # sts))
    \<and> cc_log ctx' = cc_log ctx @ filter (installed ctx) evs
    \<and> cc_catcher ctx' = foldl catch_last (cc_catcher ctx) (map (outcome ctx) evs)
    \<and> count_list evs Connected = entries StConnected old sts
    \<and> count_list evs Disconnected = entries StDisconnected old sts
    \<and> count_list evs SessionActivated = entries StSession old sts
    \<and> count_list evs SessionClosed = entries StSessionDisconnected old sts
    \<and> stateCallback10 st None = (Ret (), None)"
  using notify10_fire[OF assms, of sts old]
  by (intro exI[of _ "fire (events10 old sts) ctx"] exI[of _ "events10 old sts"])
     (simp add: events10_entries fire_def stateCallback10_def)

definition demo_ctx10 :: client_ctx where
  "demo_ctx10 = \<lparr>cc_catcher = None, cc_running = False, cc_lastSession = SsClosed, cc_lastChannel = ChFresh,
     cc_callbacks = (\<lambda>_. Some (Ret ())), cc_log = []\<rparr>"

theorem client_notifications_v10_witness:
  "\<exists>ctx'. notify_all10 [StConnected, OtherState 3, StSession, StDisconnected] (demo_ctx10, StDisconnected) = (Ret (), ctx', StDisconnected)
    \<and> length (cc_log ctx') = 3"
proof -
  have "all_benign demo_ctx10" by (simp add: all_benign_def benign_def outcome_def demo_ctx10_def)
  note t = client_notifications_v10[OF this, of "[StConnected, OtherState 3, StSession, StDisconnected]" StDisconnected]
  have "notify_all10 [StConnected, OtherState 3, StSession, StDisconnected] (demo_ctx10, StDisconnected)
      = (Ret (), fire [Connected, SessionActivated, Disconnected] demo_ctx10, StDisconnected)"
    using notify10_fire[OF \<open>all_benign demo_ctx10\<close>, of "[StConnected, OtherState 3, StSession, StDisconnected]" StDisconnected]
    by (simp add: event10_def)
  moreover have "length (cc_log (fire [Connected, SessionActivated, Disconnected] demo_ctx10)) = 3"
    by (simp add: fire_def demo_ctx10_def installed_def)
  ultimately show ?thesis using t by auto
qed

text \<open>The versions differ when a client disconnects: the notifications that the code's tables list for 1.0 do not report the closed session.\<close>

lemma disconnect_differs:
  assumes "all_benign ctx" "cc_callbacks ctx SessionClosed \<noteq> None" "cc_callbacks ctx Disconnected \<noteq> None"
    "cc_lastChannel ctx = ChOpen" "cc_lastSession ctx = SsActivated"
  shows "cc_log (snd (notify_all [(ChOpen, SsClosing), (ChClosed, SsClosed)] ctx)) = cc_log ctx @ [SessionClosed, Disconnected]"
    "cc_log (fst (snd (notify_all10 [StDisconnected] (ctx, StSession)))) = cc_log ctx @ [Disconnected]"
  using assms notify_fire[OF assms(1), of "[(ChOpen, SsClosing), (ChClosed, SsClosed)]"]
    notify10_fire[OF assms(1), of "[StDisconnected]" StSession]
  by (simp_all add: event10_def session_event_def channel_event_def fire_def installed_def del: notify_all.simps notify_all10.simps)

section \<open>Inactive subscriptions\<close>

text \<open>The lambda of \<open>onSubscriptionInactive\<close>: \<open>cb\<close> is the stored callback, \<open>None\<close> when it is empty.\<close>

definition subscriptionInactivityCallback ::
  "(u32 \<Rightarrow> unit outc) option \<Rightarrow> u32 \<Rightarrow> client_ctx option \<Rightarrow> unit outc \<times> client_ctx option" where
  "subscriptionInactivityCallback cb subscriptionId context = (case context of
      None \<Rightarrow> (Ret (), None)
    | Some ctx \<Rightarrow> (case cb of
        None \<Rightarrow> (Ret (), Some ctx)
      | Some f \<Rightarrow> (case catcher_invoke (f subscriptionId) (cc_catcher ctx) of (r, c) \<Rightarrow> (r, Some (ctx\<lparr>cc_catcher := c\<rparr>)))))"

lemma subscription_inactivity_caught:
  assumes "benign (f i)"
  shows "subscriptionInactivityCallback (Some f) i (Some ctx)
    = (Ret (), Some (ctx\<lparr>cc_catcher := catch_last (cc_catcher ctx) (f i)\<rparr>))"
  using assms by (auto simp: subscriptionInactivityCallback_def catcher_invoke_def setException_def catch_last_def benign_def
      split: sum.splits fault.splits)

end
