(* ===== verification/Service_Requests.thy ===== *)
theory Service_Requests
  imports Async
begin

text \<open>
  The service functions that take a complete request (\<open>services/*.hpp\<close>, \<open>services_*.cpp\<close>, \<open>services/detail/client_service.hpp\<close>): they pass the request
  to the C library and the response back, or initiate the request for a completion token. The C library's service is a function
  from request and world to response and world; the functions of \<open>Services\<close> and \<open>Async\<close> for single items are built on the same
  requests.
\<close>

type_synonym ('q, 'r, 'w) service = "'q \<Rightarrow> 'w \<Rightarrow> 'r \<times> 'w"

definition sendRequest :: "('q, 'r, 'w) service \<Rightarrow> 'q \<Rightarrow> 'w \<Rightarrow> 'r \<times> 'w" where
  "sendRequest UA_Client_Service request w = UA_Client_Service request w"

text \<open>\<open>send\<close> initiates a request for a handler; \<open>Async\<close> models what becomes of the handler.\<close>

definition sendRequestAsync :: "('q \<Rightarrow> ('r, 'w) initiation) \<Rightarrow> 'q \<Rightarrow> ('r, 'w, 'x) token \<Rightarrow> ('w, 'x) op" where
  "sendRequestAsync send request tok = tok (send request)"

section \<open>Requests\<close>

definition addNodes_request :: "('q, 'r, 'w) service \<Rightarrow> 'q \<Rightarrow> 'w \<Rightarrow> 'r \<times> 'w" where
  "addNodes_request UA_Client_Service request w = UA_Client_Service request w"

definition addReferences_request :: "('q, 'r, 'w) service \<Rightarrow> 'q \<Rightarrow> 'w \<Rightarrow> 'r \<times> 'w" where
  "addReferences_request UA_Client_Service request w = UA_Client_Service request w"

definition deleteNodes_request :: "('q, 'r, 'w) service \<Rightarrow> 'q \<Rightarrow> 'w \<Rightarrow> 'r \<times> 'w" where
  "deleteNodes_request UA_Client_Service request w = UA_Client_Service request w"

definition deleteReferences_request :: "('q, 'r, 'w) service \<Rightarrow> 'q \<Rightarrow> 'w \<Rightarrow> 'r \<times> 'w" where
  "deleteReferences_request UA_Client_Service request w = UA_Client_Service request w"

definition browse_request :: "('q, 'r, 'w) service \<Rightarrow> 'q \<Rightarrow> 'w \<Rightarrow> 'r \<times> 'w" where
  "browse_request UA_Client_Service request w = UA_Client_Service request w"

definition browseNext_request :: "('q, 'r, 'w) service \<Rightarrow> 'q \<Rightarrow> 'w \<Rightarrow> 'r \<times> 'w" where
  "browseNext_request UA_Client_Service request w = UA_Client_Service request w"

definition translateBrowsePathsToNodeIds_request :: "('q, 'r, 'w) service \<Rightarrow> 'q \<Rightarrow> 'w \<Rightarrow> 'r \<times> 'w" where
  "translateBrowsePathsToNodeIds_request UA_Client_Service request w = UA_Client_Service request w"

definition registerNodes_request :: "('q, 'r, 'w) service \<Rightarrow> 'q \<Rightarrow> 'w \<Rightarrow> 'r \<times> 'w" where
  "registerNodes_request UA_Client_Service request w = UA_Client_Service request w"

definition unregisterNodes_request :: "('q, 'r, 'w) service \<Rightarrow> 'q \<Rightarrow> 'w \<Rightarrow> 'r \<times> 'w" where
  "unregisterNodes_request UA_Client_Service request w = UA_Client_Service request w"

definition read_request :: "('q, 'r, 'w) service \<Rightarrow> 'q \<Rightarrow> 'w \<Rightarrow> 'r \<times> 'w" where
  "read_request UA_Client_Service request w = UA_Client_Service request w"

definition write_request :: "('q, 'r, 'w) service \<Rightarrow> 'q \<Rightarrow> 'w \<Rightarrow> 'r \<times> 'w" where
  "write_request UA_Client_Service request w = UA_Client_Service request w"

definition call_request :: "('q, 'r, 'w) service \<Rightarrow> 'q \<Rightarrow> 'w \<Rightarrow> 'r \<times> 'w" where
  "call_request UA_Client_Service request w = UA_Client_Service request w"


text \<open>Reading and writing lists of nodes makes the request first.\<close>

definition read_span :: "(ReadRequest, 'r, 'w) service \<Rightarrow> ReadValueId list \<Rightarrow> TimestampsToReturn \<Rightarrow> 'w \<Rightarrow> 'r \<times> 'w" where
  "read_span UA_Client_Service nodesToRead timestamps = read_request UA_Client_Service (makeReadRequest_span timestamps nodesToRead)"

definition write_span :: "('v WriteValue list, 'r, 'w) service \<Rightarrow> 'v WriteValue list \<Rightarrow> 'w \<Rightarrow> 'r \<times> 'w" where
  "write_span UA_Client_Service nodesToWrite = write_request UA_Client_Service (makeWriteRequest_span nodesToWrite)"

section \<open>With completion tokens\<close>

definition addNodesAsync_request :: "('q \<Rightarrow> ('r, 'w) initiation) \<Rightarrow> 'q \<Rightarrow> ('r, 'w, 'x) token \<Rightarrow> ('w, 'x) op" where
  "addNodesAsync_request send request tok = sendRequestAsync send request tok"

definition addReferencesAsync_request :: "('q \<Rightarrow> ('r, 'w) initiation) \<Rightarrow> 'q \<Rightarrow> ('r, 'w, 'x) token \<Rightarrow> ('w, 'x) op" where
  "addReferencesAsync_request send request tok = sendRequestAsync send request tok"

definition deleteNodesAsync_request :: "('q \<Rightarrow> ('r, 'w) initiation) \<Rightarrow> 'q \<Rightarrow> ('r, 'w, 'x) token \<Rightarrow> ('w, 'x) op" where
  "deleteNodesAsync_request send request tok = sendRequestAsync send request tok"

definition deleteReferencesAsync_request :: "('q \<Rightarrow> ('r, 'w) initiation) \<Rightarrow> 'q \<Rightarrow> ('r, 'w, 'x) token \<Rightarrow> ('w, 'x) op" where
  "deleteReferencesAsync_request send request tok = sendRequestAsync send request tok"

definition browseAsync_request :: "('q \<Rightarrow> ('r, 'w) initiation) \<Rightarrow> 'q \<Rightarrow> ('r, 'w, 'x) token \<Rightarrow> ('w, 'x) op" where
  "browseAsync_request send request tok = sendRequestAsync send request tok"

definition browseNextAsync_request :: "('q \<Rightarrow> ('r, 'w) initiation) \<Rightarrow> 'q \<Rightarrow> ('r, 'w, 'x) token \<Rightarrow> ('w, 'x) op" where
  "browseNextAsync_request send request tok = sendRequestAsync send request tok"

definition translateBrowsePathsToNodeIdsAsync_request :: "('q \<Rightarrow> ('r, 'w) initiation) \<Rightarrow> 'q \<Rightarrow> ('r, 'w, 'x) token \<Rightarrow> ('w, 'x) op" where
  "translateBrowsePathsToNodeIdsAsync_request send request tok = sendRequestAsync send request tok"

definition registerNodesAsync_request :: "('q \<Rightarrow> ('r, 'w) initiation) \<Rightarrow> 'q \<Rightarrow> ('r, 'w, 'x) token \<Rightarrow> ('w, 'x) op" where
  "registerNodesAsync_request send request tok = sendRequestAsync send request tok"

definition unregisterNodesAsync_request :: "('q \<Rightarrow> ('r, 'w) initiation) \<Rightarrow> 'q \<Rightarrow> ('r, 'w, 'x) token \<Rightarrow> ('w, 'x) op" where
  "unregisterNodesAsync_request send request tok = sendRequestAsync send request tok"

definition readAsync_request :: "('q \<Rightarrow> ('r, 'w) initiation) \<Rightarrow> 'q \<Rightarrow> ('r, 'w, 'x) token \<Rightarrow> ('w, 'x) op" where
  "readAsync_request send request tok = sendRequestAsync send request tok"

definition writeAsync_request :: "('q \<Rightarrow> ('r, 'w) initiation) \<Rightarrow> 'q \<Rightarrow> ('r, 'w, 'x) token \<Rightarrow> ('w, 'x) op" where
  "writeAsync_request send request tok = sendRequestAsync send request tok"

definition callAsync_request :: "('q \<Rightarrow> ('r, 'w) initiation) \<Rightarrow> 'q \<Rightarrow> ('r, 'w, 'x) token \<Rightarrow> ('w, 'x) op" where
  "callAsync_request send request tok = sendRequestAsync send request tok"


definition readAsync_span :: "(ReadRequest \<Rightarrow> ('r, 'w) initiation) \<Rightarrow> ReadValueId list \<Rightarrow> TimestampsToReturn \<Rightarrow> ('r, 'w, 'x) token \<Rightarrow> ('w, 'x) op" where
  "readAsync_span send nodesToRead timestamps tok = readAsync_request send (makeReadRequest_span timestamps nodesToRead) tok"

definition writeAsync_span :: "('v WriteValue list \<Rightarrow> ('r, 'w) initiation) \<Rightarrow> 'v WriteValue list \<Rightarrow> ('r, 'w, 'x) token \<Rightarrow> ('w, 'x) op" where
  "writeAsync_span send nodesToWrite tok = writeAsync_request send (makeWriteRequest_span nodesToWrite) tok"

lemmas request_service_defs =
  addNodes_request_def addNodesAsync_request_def
  addReferences_request_def addReferencesAsync_request_def
  deleteNodes_request_def deleteNodesAsync_request_def
  deleteReferences_request_def deleteReferencesAsync_request_def
  browse_request_def browseAsync_request_def
  browseNext_request_def browseNextAsync_request_def
  translateBrowsePathsToNodeIds_request_def translateBrowsePathsToNodeIdsAsync_request_def
  registerNodes_request_def registerNodesAsync_request_def
  unregisterNodes_request_def unregisterNodesAsync_request_def
  read_request_def readAsync_request_def
  write_request_def writeAsync_request_def
  call_request_def callAsync_request_def
  read_span_def write_span_def readAsync_span_def writeAsync_span_def sendRequestAsync_def use_handler_def immediate_def

text \<open>Every request service hands the same response to the handler that its synchronous form returns, in the same world.\<close>

lemma request_services_agree:
  "addNodesAsync_request (immediate srv) q (use_handler h) w = (case addNodes_request srv q w of (r, w') \<Rightarrow> h r w')"
  "addReferencesAsync_request (immediate srv) q (use_handler h) w = (case addReferences_request srv q w of (r, w') \<Rightarrow> h r w')"
  "deleteNodesAsync_request (immediate srv) q (use_handler h) w = (case deleteNodes_request srv q w of (r, w') \<Rightarrow> h r w')"
  "deleteReferencesAsync_request (immediate srv) q (use_handler h) w = (case deleteReferences_request srv q w of (r, w') \<Rightarrow> h r w')"
  "browseAsync_request (immediate srv) q (use_handler h) w = (case browse_request srv q w of (r, w') \<Rightarrow> h r w')"
  "browseNextAsync_request (immediate srv) q (use_handler h) w = (case browseNext_request srv q w of (r, w') \<Rightarrow> h r w')"
  "translateBrowsePathsToNodeIdsAsync_request (immediate srv) q (use_handler h) w = (case translateBrowsePathsToNodeIds_request srv q w of (r, w') \<Rightarrow> h r w')"
  "registerNodesAsync_request (immediate srv) q (use_handler h) w = (case registerNodes_request srv q w of (r, w') \<Rightarrow> h r w')"
  "unregisterNodesAsync_request (immediate srv) q (use_handler h) w = (case unregisterNodes_request srv q w of (r, w') \<Rightarrow> h r w')"
  "readAsync_request (immediate srv) q (use_handler h) w = (case read_request srv q w of (r, w') \<Rightarrow> h r w')"
  "writeAsync_request (immediate srv) q (use_handler h) w = (case write_request srv q w of (r, w') \<Rightarrow> h r w')"
  "callAsync_request (immediate srv) q (use_handler h) w = (case call_request srv q w of (r, w') \<Rightarrow> h r w')"
  "readAsync_span (immediate rsrv) ns ts (use_handler h) w = (case read_span rsrv ns ts w of (r, w') \<Rightarrow> h r w')"
  "writeAsync_span (immediate wsrv) vs (use_handler h) w = (case write_span wsrv vs w of (r, w') \<Rightarrow> h r w')"
  by (simp_all add: request_service_defs)

text \<open>A list of one node is the single read that \<open>readAttribute\<close> makes.\<close>

lemma read_span_single:
  "readAsync_span send [makeReadValueId i a] ts (TransformToken (\<lambda>r. fst (wrapSingleResult zero_DataValue r)) tok) = readAttributeAsync send i a ts tok"
  "writeAsync_span wsend [makeWriteValue i a v] (TransformToken getSingleStatus stok) = writeAttributeAsync wsend i a v stok"
  by (simp_all add: request_service_defs readAttributeAsync_def writeAttributeAsync_def makeReadRequest_span_def makeReadRequest_def
      makeWriteRequest_span_def makeWriteRequest_def)

end
