(* ===== verification/Type_Tables.thy ===== *)
theory Type_Tables
  imports Builtin_Types "HOL-Library.Char_ord" "HOL-Library.List_Lexorder"
begin

text \<open>
  The generated tables: the type registry (\<open>ua/typeregistry.hpp\<close>, \<open>typeregistry.hpp\<close>), which relates native types to indices of \<open>UA_TYPES\<close>, and the
  enumerations of the node ids of data types and of the types of references, objects and variables (\<open>ua/nodeids.hpp\<close>). The
  tables are lists in the order of the source; macros and enumerators are their names, because the values of the macros belong to the C
  library.
\<close>

section \<open>The type registry\<close>

text \<open>An entry has the macro that guards it, the native type and the index macro.\<close>

type_synonym registry_entry = "string \<times> string \<times> string"

definition registry_1 :: "registry_entry list" where
  "registry_1 = [
  (''UA_TYPES_ACTIVATESESSIONREQUEST'', ''UA_ActivateSessionRequest'', ''UA_TYPES_ACTIVATESESSIONREQUEST''),
  (''UA_TYPES_ACTIVATESESSIONRESPONSE'', ''UA_ActivateSessionResponse'', ''UA_TYPES_ACTIVATESESSIONRESPONSE''),
  (''UA_TYPES_ADDNODESITEM'', ''UA_AddNodesItem'', ''UA_TYPES_ADDNODESITEM''),
  (''UA_TYPES_ADDNODESREQUEST'', ''UA_AddNodesRequest'', ''UA_TYPES_ADDNODESREQUEST''),
  (''UA_TYPES_ADDNODESRESPONSE'', ''UA_AddNodesResponse'', ''UA_TYPES_ADDNODESRESPONSE''),
  (''UA_TYPES_ADDNODESRESULT'', ''UA_AddNodesResult'', ''UA_TYPES_ADDNODESRESULT''),
  (''UA_TYPES_ADDREFERENCESITEM'', ''UA_AddReferencesItem'', ''UA_TYPES_ADDREFERENCESITEM''),
  (''UA_TYPES_ADDREFERENCESREQUEST'', ''UA_AddReferencesRequest'', ''UA_TYPES_ADDREFERENCESREQUEST''),
  (''UA_TYPES_ADDREFERENCESRESPONSE'', ''UA_AddReferencesResponse'', ''UA_TYPES_ADDREFERENCESRESPONSE''),
  (''UA_TYPES_AGGREGATECONFIGURATION'', ''UA_AggregateConfiguration'', ''UA_TYPES_AGGREGATECONFIGURATION''),
  (''UA_TYPES_AGGREGATEFILTER'', ''UA_AggregateFilter'', ''UA_TYPES_AGGREGATEFILTER''),
  (''UA_TYPES_ANONYMOUSIDENTITYTOKEN'', ''UA_AnonymousIdentityToken'', ''UA_TYPES_ANONYMOUSIDENTITYTOKEN''),
  (''UA_TYPES_APPLICATIONDESCRIPTION'', ''UA_ApplicationDescription'', ''UA_TYPES_APPLICATIONDESCRIPTION''),
  (''UA_TYPES_APPLICATIONTYPE'', ''UA_ApplicationType'', ''UA_TYPES_APPLICATIONTYPE''),
  (''UA_TYPES_ARGUMENT'', ''UA_Argument'', ''UA_TYPES_ARGUMENT''),
  (''UA_TYPES_ASYMMETRICALGORITHMSECURITYHEADER'', ''UA_AsymmetricAlgorithmSecurityHeader'', ''UA_TYPES_ASYMMETRICALGORITHMSECURITYHEADER''),
  (''UA_TYPES_ATTRIBUTEOPERAND'', ''UA_AttributeOperand'', ''UA_TYPES_ATTRIBUTEOPERAND''),
  (''UA_TYPES_AXISINFORMATION'', ''UA_AxisInformation'', ''UA_TYPES_AXISINFORMATION''),
  (''UA_TYPES_AXISSCALEENUMERATION'', ''UA_AxisScaleEnumeration'', ''UA_TYPES_AXISSCALEENUMERATION''),
  (''UA_TYPES_BROKERCONNECTIONTRANSPORTDATATYPE'', ''UA_BrokerConnectionTransportDataType'', ''UA_TYPES_BROKERCONNECTIONTRANSPORTDATATYPE''),
  (''UA_TYPES_BROKERDATASETREADERTRANSPORTDATATYPE'', ''UA_BrokerDataSetReaderTransportDataType'', ''UA_TYPES_BROKERDATASETREADERTRANSPORTDATATYPE''),
  (''UA_TYPES_BROKERDATASETWRITERTRANSPORTDATATYPE'', ''UA_BrokerDataSetWriterTransportDataType'', ''UA_TYPES_BROKERDATASETWRITERTRANSPORTDATATYPE''),
  (''UA_TYPES_BROKERTRANSPORTQUALITYOFSERVICE'', ''UA_BrokerTransportQualityOfService'', ''UA_TYPES_BROKERTRANSPORTQUALITYOFSERVICE''),
  (''UA_TYPES_BROKERWRITERGROUPTRANSPORTDATATYPE'', ''UA_BrokerWriterGroupTransportDataType'', ''UA_TYPES_BROKERWRITERGROUPTRANSPORTDATATYPE''),
  (''UA_TYPES_BROKERWRITERGROUPTRANSPORTTYPE'', ''UA_BrokerWriterGroupTransportType'', ''UA_TYPES_BROKERWRITERGROUPTRANSPORTTYPE''),
  (''UA_TYPES_BROWSEDESCRIPTION'', ''UA_BrowseDescription'', ''UA_TYPES_BROWSEDESCRIPTION''),
  (''UA_TYPES_BROWSEDIRECTION'', ''UA_BrowseDirection'', ''UA_TYPES_BROWSEDIRECTION''),
  (''UA_TYPES_BROWSENEXTREQUEST'', ''UA_BrowseNextRequest'', ''UA_TYPES_BROWSENEXTREQUEST''),
  (''UA_TYPES_BROWSENEXTRESPONSE'', ''UA_BrowseNextResponse'', ''UA_TYPES_BROWSENEXTRESPONSE''),
  (''UA_TYPES_BROWSEPATH'', ''UA_BrowsePath'', ''UA_TYPES_BROWSEPATH''),
  (''UA_TYPES_BROWSEPATHRESULT'', ''UA_BrowsePathResult'', ''UA_TYPES_BROWSEPATHRESULT''),
  (''UA_TYPES_BROWSEPATHTARGET'', ''UA_BrowsePathTarget'', ''UA_TYPES_BROWSEPATHTARGET''),
  (''UA_TYPES_BROWSEREQUEST'', ''UA_BrowseRequest'', ''UA_TYPES_BROWSEREQUEST''),
  (''UA_TYPES_BROWSERESPONSE'', ''UA_BrowseResponse'', ''UA_TYPES_BROWSERESPONSE''),
  (''UA_TYPES_BROWSERESULT'', ''UA_BrowseResult'', ''UA_TYPES_BROWSERESULT''),
  (''UA_TYPES_BROWSERESULTMASK'', ''UA_BrowseResultMask'', ''UA_TYPES_BROWSERESULTMASK''),
  (''UA_TYPES_BUILDINFO'', ''UA_BuildInfo'', ''UA_TYPES_BUILDINFO''),
  (''UA_TYPES_CALLMETHODREQUEST'', ''UA_CallMethodRequest'', ''UA_TYPES_CALLMETHODREQUEST''),
  (''UA_TYPES_CALLMETHODRESULT'', ''UA_CallMethodResult'', ''UA_TYPES_CALLMETHODRESULT''),
  (''UA_TYPES_CALLREQUEST'', ''UA_CallRequest'', ''UA_TYPES_CALLREQUEST''),
  (''UA_TYPES_CALLRESPONSE'', ''UA_CallResponse'', ''UA_TYPES_CALLRESPONSE''),
  (''UA_TYPES_CANCELREQUEST'', ''UA_CancelRequest'', ''UA_TYPES_CANCELREQUEST''),
  (''UA_TYPES_CANCELRESPONSE'', ''UA_CancelResponse'', ''UA_TYPES_CANCELRESPONSE'')]"

definition registry_2 :: "registry_entry list" where
  "registry_2 = [
  (''UA_TYPES_CHANNELSECURITYTOKEN'', ''UA_ChannelSecurityToken'', ''UA_TYPES_CHANNELSECURITYTOKEN''),
  (''UA_TYPES_CHUNKTYPE'', ''UA_ChunkType'', ''UA_TYPES_CHUNKTYPE''),
  (''UA_TYPES_CLOSESECURECHANNELREQUEST'', ''UA_CloseSecureChannelRequest'', ''UA_TYPES_CLOSESECURECHANNELREQUEST''),
  (''UA_TYPES_CLOSESECURECHANNELRESPONSE'', ''UA_CloseSecureChannelResponse'', ''UA_TYPES_CLOSESECURECHANNELRESPONSE''),
  (''UA_TYPES_CLOSESESSIONREQUEST'', ''UA_CloseSessionRequest'', ''UA_TYPES_CLOSESESSIONREQUEST''),
  (''UA_TYPES_CLOSESESSIONRESPONSE'', ''UA_CloseSessionResponse'', ''UA_TYPES_CLOSESESSIONRESPONSE''),
  (''UA_TYPES_COMPLEXNUMBERTYPE'', ''UA_ComplexNumberType'', ''UA_TYPES_COMPLEXNUMBERTYPE''),
  (''UA_TYPES_CONFIGURATIONVERSIONDATATYPE'', ''UA_ConfigurationVersionDataType'', ''UA_TYPES_CONFIGURATIONVERSIONDATATYPE''),
  (''UA_TYPES_CONTENTFILTER'', ''UA_ContentFilter'', ''UA_TYPES_CONTENTFILTER''),
  (''UA_TYPES_CONTENTFILTERELEMENT'', ''UA_ContentFilterElement'', ''UA_TYPES_CONTENTFILTERELEMENT''),
  (''UA_TYPES_CONTENTFILTERELEMENTRESULT'', ''UA_ContentFilterElementResult'', ''UA_TYPES_CONTENTFILTERELEMENTRESULT''),
  (''UA_TYPES_CONTENTFILTERRESULT'', ''UA_ContentFilterResult'', ''UA_TYPES_CONTENTFILTERRESULT''),
  (''UA_TYPES_CREATEMONITOREDITEMSREQUEST'', ''UA_CreateMonitoredItemsRequest'', ''UA_TYPES_CREATEMONITOREDITEMSREQUEST''),
  (''UA_TYPES_CREATEMONITOREDITEMSRESPONSE'', ''UA_CreateMonitoredItemsResponse'', ''UA_TYPES_CREATEMONITOREDITEMSRESPONSE''),
  (''UA_TYPES_CREATESESSIONREQUEST'', ''UA_CreateSessionRequest'', ''UA_TYPES_CREATESESSIONREQUEST''),
  (''UA_TYPES_CREATESESSIONRESPONSE'', ''UA_CreateSessionResponse'', ''UA_TYPES_CREATESESSIONRESPONSE''),
  (''UA_TYPES_CREATESUBSCRIPTIONREQUEST'', ''UA_CreateSubscriptionRequest'', ''UA_TYPES_CREATESUBSCRIPTIONREQUEST''),
  (''UA_TYPES_CREATESUBSCRIPTIONRESPONSE'', ''UA_CreateSubscriptionResponse'', ''UA_TYPES_CREATESUBSCRIPTIONRESPONSE''),
  (''UA_TYPES_DATACHANGEFILTER'', ''UA_DataChangeFilter'', ''UA_TYPES_DATACHANGEFILTER''),
  (''UA_TYPES_DATACHANGENOTIFICATION'', ''UA_DataChangeNotification'', ''UA_TYPES_DATACHANGENOTIFICATION''),
  (''UA_TYPES_DATACHANGETRIGGER'', ''UA_DataChangeTrigger'', ''UA_TYPES_DATACHANGETRIGGER''),
  (''UA_TYPES_DATASETMETADATATYPE'', ''UA_DataSetMetaDataType'', ''UA_TYPES_DATASETMETADATATYPE''),
  (''UA_TYPES_DATASETORDERINGTYPE'', ''UA_DataSetOrderingType'', ''UA_TYPES_DATASETORDERINGTYPE''),
  (''UA_TYPES_DATASETREADERDATATYPE'', ''UA_DataSetReaderDataType'', ''UA_TYPES_DATASETREADERDATATYPE''),
  (''UA_TYPES_DATASETWRITERDATATYPE'', ''UA_DataSetWriterDataType'', ''UA_TYPES_DATASETWRITERDATATYPE''),
  (''UA_TYPES_DATATYPEATTRIBUTES'', ''UA_DataTypeAttributes'', ''UA_TYPES_DATATYPEATTRIBUTES''),
  (''UA_TYPES_DATAGRAMCONNECTIONTRANSPORT2DATATYPE'', ''UA_DatagramConnectionTransport2DataType'', ''UA_TYPES_DATAGRAMCONNECTIONTRANSPORT2DATATYPE''),
  (''UA_TYPES_DATAGRAMCONNECTIONTRANSPORTDATATYPE'', ''UA_DatagramConnectionTransportDataType'', ''UA_TYPES_DATAGRAMCONNECTIONTRANSPORTDATATYPE''),
  (''UA_TYPES_DATAGRAMWRITERGROUPTRANSPORT2DATATYPE'', ''UA_DatagramWriterGroupTransport2DataType'', ''UA_TYPES_DATAGRAMWRITERGROUPTRANSPORT2DATATYPE''),
  (''UA_TYPES_DATAGRAMWRITERGROUPTRANSPORTDATATYPE'', ''UA_DatagramWriterGroupTransportDataType'', ''UA_TYPES_DATAGRAMWRITERGROUPTRANSPORTDATATYPE''),
  (''UA_TYPES_DEADBANDTYPE'', ''UA_DeadbandType'', ''UA_TYPES_DEADBANDTYPE''),
  (''UA_TYPES_DELETEMONITOREDITEMSREQUEST'', ''UA_DeleteMonitoredItemsRequest'', ''UA_TYPES_DELETEMONITOREDITEMSREQUEST''),
  (''UA_TYPES_DELETEMONITOREDITEMSRESPONSE'', ''UA_DeleteMonitoredItemsResponse'', ''UA_TYPES_DELETEMONITOREDITEMSRESPONSE''),
  (''UA_TYPES_DELETENODESITEM'', ''UA_DeleteNodesItem'', ''UA_TYPES_DELETENODESITEM''),
  (''UA_TYPES_DELETENODESREQUEST'', ''UA_DeleteNodesRequest'', ''UA_TYPES_DELETENODESREQUEST''),
  (''UA_TYPES_DELETENODESRESPONSE'', ''UA_DeleteNodesResponse'', ''UA_TYPES_DELETENODESRESPONSE''),
  (''UA_TYPES_DELETERAWMODIFIEDDETAILS'', ''UA_DeleteRawModifiedDetails'', ''UA_TYPES_DELETERAWMODIFIEDDETAILS''),
  (''UA_TYPES_DELETEREFERENCESITEM'', ''UA_DeleteReferencesItem'', ''UA_TYPES_DELETEREFERENCESITEM''),
  (''UA_TYPES_DELETEREFERENCESREQUEST'', ''UA_DeleteReferencesRequest'', ''UA_TYPES_DELETEREFERENCESREQUEST''),
  (''UA_TYPES_DELETEREFERENCESRESPONSE'', ''UA_DeleteReferencesResponse'', ''UA_TYPES_DELETEREFERENCESRESPONSE''),
  (''UA_TYPES_DELETESUBSCRIPTIONSREQUEST'', ''UA_DeleteSubscriptionsRequest'', ''UA_TYPES_DELETESUBSCRIPTIONSREQUEST''),
  (''UA_TYPES_DELETESUBSCRIPTIONSRESPONSE'', ''UA_DeleteSubscriptionsResponse'', ''UA_TYPES_DELETESUBSCRIPTIONSRESPONSE''),
  (''UA_TYPES_DOUBLECOMPLEXNUMBERTYPE'', ''UA_DoubleComplexNumberType'', ''UA_TYPES_DOUBLECOMPLEXNUMBERTYPE'')]"

definition registry_3 :: "registry_entry list" where
  "registry_3 = [
  (''UA_TYPES_EUINFORMATION'', ''UA_EUInformation'', ''UA_TYPES_EUINFORMATION''),
  (''UA_TYPES_ELEMENTOPERAND'', ''UA_ElementOperand'', ''UA_TYPES_ELEMENTOPERAND''),
  (''UA_TYPES_ENDPOINTDESCRIPTION'', ''UA_EndpointDescription'', ''UA_TYPES_ENDPOINTDESCRIPTION''),
  (''UA_TYPES_ENUMDEFINITION'', ''UA_EnumDefinition'', ''UA_TYPES_ENUMDEFINITION''),
  (''UA_TYPES_ENUMDESCRIPTION'', ''UA_EnumDescription'', ''UA_TYPES_ENUMDESCRIPTION''),
  (''UA_TYPES_ENUMFIELD'', ''UA_EnumField'', ''UA_TYPES_ENUMFIELD''),
  (''UA_TYPES_ENUMVALUETYPE'', ''UA_EnumValueType'', ''UA_TYPES_ENUMVALUETYPE''),
  (''UA_TYPES_EVENTFIELDLIST'', ''UA_EventFieldList'', ''UA_TYPES_EVENTFIELDLIST''),
  (''UA_TYPES_EVENTFILTER'', ''UA_EventFilter'', ''UA_TYPES_EVENTFILTER''),
  (''UA_TYPES_EVENTFILTERRESULT'', ''UA_EventFilterResult'', ''UA_TYPES_EVENTFILTERRESULT''),
  (''UA_TYPES_EVENTNOTIFICATIONLIST'', ''UA_EventNotificationList'', ''UA_TYPES_EVENTNOTIFICATIONLIST''),
  (''UA_TYPES_FIELDMETADATA'', ''UA_FieldMetaData'', ''UA_TYPES_FIELDMETADATA''),
  (''UA_TYPES_FIELDTARGETDATATYPE'', ''UA_FieldTargetDataType'', ''UA_TYPES_FIELDTARGETDATATYPE''),
  (''UA_TYPES_FILTEROPERATOR'', ''UA_FilterOperator'', ''UA_TYPES_FILTEROPERATOR''),
  (''UA_TYPES_FINDSERVERSONNETWORKREQUEST'', ''UA_FindServersOnNetworkRequest'', ''UA_TYPES_FINDSERVERSONNETWORKREQUEST''),
  (''UA_TYPES_FINDSERVERSONNETWORKRESPONSE'', ''UA_FindServersOnNetworkResponse'', ''UA_TYPES_FINDSERVERSONNETWORKRESPONSE''),
  (''UA_TYPES_FINDSERVERSREQUEST'', ''UA_FindServersRequest'', ''UA_TYPES_FINDSERVERSREQUEST''),
  (''UA_TYPES_FINDSERVERSRESPONSE'', ''UA_FindServersResponse'', ''UA_TYPES_FINDSERVERSRESPONSE''),
  (''UA_TYPES_GETENDPOINTSREQUEST'', ''UA_GetEndpointsRequest'', ''UA_TYPES_GETENDPOINTSREQUEST''),
  (''UA_TYPES_GETENDPOINTSRESPONSE'', ''UA_GetEndpointsResponse'', ''UA_TYPES_GETENDPOINTSRESPONSE''),
  (''UA_TYPES_HISTORYDATA'', ''UA_HistoryData'', ''UA_TYPES_HISTORYDATA''),
  (''UA_TYPES_HISTORYEVENT'', ''UA_HistoryEvent'', ''UA_TYPES_HISTORYEVENT''),
  (''UA_TYPES_HISTORYEVENTFIELDLIST'', ''UA_HistoryEventFieldList'', ''UA_TYPES_HISTORYEVENTFIELDLIST''),
  (''UA_TYPES_HISTORYMODIFIEDDATA'', ''UA_HistoryModifiedData'', ''UA_TYPES_HISTORYMODIFIEDDATA''),
  (''UA_TYPES_HISTORYREADREQUEST'', ''UA_HistoryReadRequest'', ''UA_TYPES_HISTORYREADREQUEST''),
  (''UA_TYPES_HISTORYREADRESPONSE'', ''UA_HistoryReadResponse'', ''UA_TYPES_HISTORYREADRESPONSE''),
  (''UA_TYPES_HISTORYREADRESULT'', ''UA_HistoryReadResult'', ''UA_TYPES_HISTORYREADRESULT''),
  (''UA_TYPES_HISTORYREADVALUEID'', ''UA_HistoryReadValueId'', ''UA_TYPES_HISTORYREADVALUEID''),
  (''UA_TYPES_HISTORYUPDATEREQUEST'', ''UA_HistoryUpdateRequest'', ''UA_TYPES_HISTORYUPDATEREQUEST''),
  (''UA_TYPES_HISTORYUPDATERESPONSE'', ''UA_HistoryUpdateResponse'', ''UA_TYPES_HISTORYUPDATERESPONSE''),
  (''UA_TYPES_HISTORYUPDATERESULT'', ''UA_HistoryUpdateResult'', ''UA_TYPES_HISTORYUPDATERESULT''),
  (''UA_TYPES_HISTORYUPDATETYPE'', ''UA_HistoryUpdateType'', ''UA_TYPES_HISTORYUPDATETYPE''),
  (''UA_TYPES_ISSUEDIDENTITYTOKEN'', ''UA_IssuedIdentityToken'', ''UA_TYPES_ISSUEDIDENTITYTOKEN''),
  (''UA_TYPES_JSONDATASETREADERMESSAGEDATATYPE'', ''UA_JsonDataSetReaderMessageDataType'', ''UA_TYPES_JSONDATASETREADERMESSAGEDATATYPE''),
  (''UA_TYPES_JSONDATASETWRITERMESSAGEDATATYPE'', ''UA_JsonDataSetWriterMessageDataType'', ''UA_TYPES_JSONDATASETWRITERMESSAGEDATATYPE''),
  (''UA_TYPES_JSONWRITERGROUPMESSAGEDATATYPE'', ''UA_JsonWriterGroupMessageDataType'', ''UA_TYPES_JSONWRITERGROUPMESSAGEDATATYPE''),
  (''UA_TYPES_KEYVALUEPAIR'', ''UA_KeyValuePair'', ''UA_TYPES_KEYVALUEPAIR''),
  (''UA_TYPES_LITERALOPERAND'', ''UA_LiteralOperand'', ''UA_TYPES_LITERALOPERAND''),
  (''UA_TYPES_MDNSDISCOVERYCONFIGURATION'', ''UA_MdnsDiscoveryConfiguration'', ''UA_TYPES_MDNSDISCOVERYCONFIGURATION''),
  (''UA_TYPES_MESSAGESECURITYMODE'', ''UA_MessageSecurityMode'', ''UA_TYPES_MESSAGESECURITYMODE''),
  (''UA_TYPES_MESSAGETYPE'', ''UA_MessageType'', ''UA_TYPES_MESSAGETYPE''),
  (''UA_TYPES_METHODATTRIBUTES'', ''UA_MethodAttributes'', ''UA_TYPES_METHODATTRIBUTES''),
  (''UA_TYPES_MODIFICATIONINFO'', ''UA_ModificationInfo'', ''UA_TYPES_MODIFICATIONINFO'')]"

definition registry_4 :: "registry_entry list" where
  "registry_4 = [
  (''UA_TYPES_MODIFYMONITOREDITEMSREQUEST'', ''UA_ModifyMonitoredItemsRequest'', ''UA_TYPES_MODIFYMONITOREDITEMSREQUEST''),
  (''UA_TYPES_MODIFYMONITOREDITEMSRESPONSE'', ''UA_ModifyMonitoredItemsResponse'', ''UA_TYPES_MODIFYMONITOREDITEMSRESPONSE''),
  (''UA_TYPES_MODIFYSUBSCRIPTIONREQUEST'', ''UA_ModifySubscriptionRequest'', ''UA_TYPES_MODIFYSUBSCRIPTIONREQUEST''),
  (''UA_TYPES_MODIFYSUBSCRIPTIONRESPONSE'', ''UA_ModifySubscriptionResponse'', ''UA_TYPES_MODIFYSUBSCRIPTIONRESPONSE''),
  (''UA_TYPES_MONITOREDITEMCREATEREQUEST'', ''UA_MonitoredItemCreateRequest'', ''UA_TYPES_MONITOREDITEMCREATEREQUEST''),
  (''UA_TYPES_MONITOREDITEMCREATERESULT'', ''UA_MonitoredItemCreateResult'', ''UA_TYPES_MONITOREDITEMCREATERESULT''),
  (''UA_TYPES_MONITOREDITEMMODIFYREQUEST'', ''UA_MonitoredItemModifyRequest'', ''UA_TYPES_MONITOREDITEMMODIFYREQUEST''),
  (''UA_TYPES_MONITOREDITEMMODIFYRESULT'', ''UA_MonitoredItemModifyResult'', ''UA_TYPES_MONITOREDITEMMODIFYRESULT''),
  (''UA_TYPES_MONITOREDITEMNOTIFICATION'', ''UA_MonitoredItemNotification'', ''UA_TYPES_MONITOREDITEMNOTIFICATION''),
  (''UA_TYPES_MONITORINGMODE'', ''UA_MonitoringMode'', ''UA_TYPES_MONITORINGMODE''),
  (''UA_TYPES_MONITORINGPARAMETERS'', ''UA_MonitoringParameters'', ''UA_TYPES_MONITORINGPARAMETERS''),
  (''UA_TYPES_NAMINGRULETYPE'', ''UA_NamingRuleType'', ''UA_TYPES_NAMINGRULETYPE''),
  (''UA_TYPES_NETWORKADDRESSURLDATATYPE'', ''UA_NetworkAddressUrlDataType'', ''UA_TYPES_NETWORKADDRESSURLDATATYPE''),
  (''UA_TYPES_NODEATTRIBUTES'', ''UA_NodeAttributes'', ''UA_TYPES_NODEATTRIBUTES''),
  (''UA_TYPES_NODEATTRIBUTESMASK'', ''UA_NodeAttributesMask'', ''UA_TYPES_NODEATTRIBUTESMASK''),
  (''UA_TYPES_NODECLASS'', ''UA_NodeClass'', ''UA_TYPES_NODECLASS''),
  (''UA_TYPES_NODETYPEDESCRIPTION'', ''UA_NodeTypeDescription'', ''UA_TYPES_NODETYPEDESCRIPTION''),
  (''UA_TYPES_NOTIFICATIONMESSAGE'', ''UA_NotificationMessage'', ''UA_TYPES_NOTIFICATIONMESSAGE''),
  (''UA_TYPES_OBJECTATTRIBUTES'', ''UA_ObjectAttributes'', ''UA_TYPES_OBJECTATTRIBUTES''),
  (''UA_TYPES_OBJECTTYPEATTRIBUTES'', ''UA_ObjectTypeAttributes'', ''UA_TYPES_OBJECTTYPEATTRIBUTES''),
  (''UA_TYPES_OPENSECURECHANNELREQUEST'', ''UA_OpenSecureChannelRequest'', ''UA_TYPES_OPENSECURECHANNELREQUEST''),
  (''UA_TYPES_OPENSECURECHANNELRESPONSE'', ''UA_OpenSecureChannelResponse'', ''UA_TYPES_OPENSECURECHANNELRESPONSE''),
  (''UA_TYPES_OVERRIDEVALUEHANDLING'', ''UA_OverrideValueHandling'', ''UA_TYPES_OVERRIDEVALUEHANDLING''),
  (''UA_TYPES_PARSINGRESULT'', ''UA_ParsingResult'', ''UA_TYPES_PARSINGRESULT''),
  (''UA_TYPES_PERFORMUPDATETYPE'', ''UA_PerformUpdateType'', ''UA_TYPES_PERFORMUPDATETYPE''),
  (''UA_TYPES_PUBSUBCONFIGURATIONDATATYPE'', ''UA_PubSubConfigurationDataType'', ''UA_TYPES_PUBSUBCONFIGURATIONDATATYPE''),
  (''UA_TYPES_PUBSUBCONNECTIONDATATYPE'', ''UA_PubSubConnectionDataType'', ''UA_TYPES_PUBSUBCONNECTIONDATATYPE''),
  (''UA_TYPES_PUBSUBSTATE'', ''UA_PubSubState'', ''UA_TYPES_PUBSUBSTATE''),
  (''UA_TYPES_PUBLISHREQUEST'', ''UA_PublishRequest'', ''UA_TYPES_PUBLISHREQUEST''),
  (''UA_TYPES_PUBLISHRESPONSE'', ''UA_PublishResponse'', ''UA_TYPES_PUBLISHRESPONSE''),
  (''UA_TYPES_PUBLISHEDDATAITEMSDATATYPE'', ''UA_PublishedDataItemsDataType'', ''UA_TYPES_PUBLISHEDDATAITEMSDATATYPE''),
  (''UA_TYPES_PUBLISHEDDATASETDATATYPE'', ''UA_PublishedDataSetDataType'', ''UA_TYPES_PUBLISHEDDATASETDATATYPE''),
  (''UA_TYPES_PUBLISHEDEVENTSDATATYPE'', ''UA_PublishedEventsDataType'', ''UA_TYPES_PUBLISHEDEVENTSDATATYPE''),
  (''UA_TYPES_PUBLISHEDVARIABLEDATATYPE'', ''UA_PublishedVariableDataType'', ''UA_TYPES_PUBLISHEDVARIABLEDATATYPE''),
  (''UA_TYPES_QUERYDATADESCRIPTION'', ''UA_QueryDataDescription'', ''UA_TYPES_QUERYDATADESCRIPTION''),
  (''UA_TYPES_QUERYDATASET'', ''UA_QueryDataSet'', ''UA_TYPES_QUERYDATASET''),
  (''UA_TYPES_QUERYFIRSTREQUEST'', ''UA_QueryFirstRequest'', ''UA_TYPES_QUERYFIRSTREQUEST''),
  (''UA_TYPES_QUERYFIRSTRESPONSE'', ''UA_QueryFirstResponse'', ''UA_TYPES_QUERYFIRSTRESPONSE''),
  (''UA_TYPES_QUERYNEXTREQUEST'', ''UA_QueryNextRequest'', ''UA_TYPES_QUERYNEXTREQUEST''),
  (''UA_TYPES_QUERYNEXTRESPONSE'', ''UA_QueryNextResponse'', ''UA_TYPES_QUERYNEXTRESPONSE''),
  (''UA_TYPES_RANGE'', ''UA_Range'', ''UA_TYPES_RANGE''),
  (''UA_TYPES_READATTIMEDETAILS'', ''UA_ReadAtTimeDetails'', ''UA_TYPES_READATTIMEDETAILS''),
  (''UA_TYPES_READEVENTDETAILS'', ''UA_ReadEventDetails'', ''UA_TYPES_READEVENTDETAILS'')]"

definition registry_5 :: "registry_entry list" where
  "registry_5 = [
  (''UA_TYPES_READPROCESSEDDETAILS'', ''UA_ReadProcessedDetails'', ''UA_TYPES_READPROCESSEDDETAILS''),
  (''UA_TYPES_READRAWMODIFIEDDETAILS'', ''UA_ReadRawModifiedDetails'', ''UA_TYPES_READRAWMODIFIEDDETAILS''),
  (''UA_TYPES_READREQUEST'', ''UA_ReadRequest'', ''UA_TYPES_READREQUEST''),
  (''UA_TYPES_READRESPONSE'', ''UA_ReadResponse'', ''UA_TYPES_READRESPONSE''),
  (''UA_TYPES_READVALUEID'', ''UA_ReadValueId'', ''UA_TYPES_READVALUEID''),
  (''UA_TYPES_READERGROUPDATATYPE'', ''UA_ReaderGroupDataType'', ''UA_TYPES_READERGROUPDATATYPE''),
  (''UA_TYPES_REDUNDANCYSUPPORT'', ''UA_RedundancySupport'', ''UA_TYPES_REDUNDANCYSUPPORT''),
  (''UA_TYPES_REFERENCEDESCRIPTION'', ''UA_ReferenceDescription'', ''UA_TYPES_REFERENCEDESCRIPTION''),
  (''UA_TYPES_REFERENCETYPEATTRIBUTES'', ''UA_ReferenceTypeAttributes'', ''UA_TYPES_REFERENCETYPEATTRIBUTES''),
  (''UA_TYPES_REGISTERNODESREQUEST'', ''UA_RegisterNodesRequest'', ''UA_TYPES_REGISTERNODESREQUEST''),
  (''UA_TYPES_REGISTERNODESRESPONSE'', ''UA_RegisterNodesResponse'', ''UA_TYPES_REGISTERNODESRESPONSE''),
  (''UA_TYPES_REGISTERSERVER2REQUEST'', ''UA_RegisterServer2Request'', ''UA_TYPES_REGISTERSERVER2REQUEST''),
  (''UA_TYPES_REGISTERSERVER2RESPONSE'', ''UA_RegisterServer2Response'', ''UA_TYPES_REGISTERSERVER2RESPONSE''),
  (''UA_TYPES_REGISTERSERVERREQUEST'', ''UA_RegisterServerRequest'', ''UA_TYPES_REGISTERSERVERREQUEST''),
  (''UA_TYPES_REGISTERSERVERRESPONSE'', ''UA_RegisterServerResponse'', ''UA_TYPES_REGISTERSERVERRESPONSE''),
  (''UA_TYPES_REGISTEREDSERVER'', ''UA_RegisteredServer'', ''UA_TYPES_REGISTEREDSERVER''),
  (''UA_TYPES_RELATIVEPATH'', ''UA_RelativePath'', ''UA_TYPES_RELATIVEPATH''),
  (''UA_TYPES_RELATIVEPATHELEMENT'', ''UA_RelativePathElement'', ''UA_TYPES_RELATIVEPATHELEMENT''),
  (''UA_TYPES_REPUBLISHREQUEST'', ''UA_RepublishRequest'', ''UA_TYPES_REPUBLISHREQUEST''),
  (''UA_TYPES_REPUBLISHRESPONSE'', ''UA_RepublishResponse'', ''UA_TYPES_REPUBLISHRESPONSE''),
  (''UA_TYPES_REQUESTHEADER'', ''UA_RequestHeader'', ''UA_TYPES_REQUESTHEADER''),
  (''UA_TYPES_RESPONSEHEADER'', ''UA_ResponseHeader'', ''UA_TYPES_RESPONSEHEADER''),
  (''UA_TYPES_ROLEPERMISSIONTYPE'', ''UA_RolePermissionType'', ''UA_TYPES_ROLEPERMISSIONTYPE''),
  (''UA_TYPES_SECURITYTOKENREQUESTTYPE'', ''UA_SecurityTokenRequestType'', ''UA_TYPES_SECURITYTOKENREQUESTTYPE''),
  (''UA_TYPES_SEQUENCEHEADER'', ''UA_SequenceHeader'', ''UA_TYPES_SEQUENCEHEADER''),
  (''UA_TYPES_SERVERDIAGNOSTICSSUMMARYDATATYPE'', ''UA_ServerDiagnosticsSummaryDataType'', ''UA_TYPES_SERVERDIAGNOSTICSSUMMARYDATATYPE''),
  (''UA_TYPES_SERVERONNETWORK'', ''UA_ServerOnNetwork'', ''UA_TYPES_SERVERONNETWORK''),
  (''UA_TYPES_SERVERSTATE'', ''UA_ServerState'', ''UA_TYPES_SERVERSTATE''),
  (''UA_TYPES_SERVERSTATUSDATATYPE'', ''UA_ServerStatusDataType'', ''UA_TYPES_SERVERSTATUSDATATYPE''),
  (''UA_TYPES_SERVICECOUNTERDATATYPE'', ''UA_ServiceCounterDataType'', ''UA_TYPES_SERVICECOUNTERDATATYPE''),
  (''UA_TYPES_SERVICEFAULT'', ''UA_ServiceFault'', ''UA_TYPES_SERVICEFAULT''),
  (''UA_TYPES_SESSIONDIAGNOSTICSDATATYPE'', ''UA_SessionDiagnosticsDataType'', ''UA_TYPES_SESSIONDIAGNOSTICSDATATYPE''),
  (''UA_TYPES_SESSIONSECURITYDIAGNOSTICSDATATYPE'', ''UA_SessionSecurityDiagnosticsDataType'', ''UA_TYPES_SESSIONSECURITYDIAGNOSTICSDATATYPE''),
  (''UA_TYPES_SETMONITORINGMODEREQUEST'', ''UA_SetMonitoringModeRequest'', ''UA_TYPES_SETMONITORINGMODEREQUEST''),
  (''UA_TYPES_SETMONITORINGMODERESPONSE'', ''UA_SetMonitoringModeResponse'', ''UA_TYPES_SETMONITORINGMODERESPONSE''),
  (''UA_TYPES_SETPUBLISHINGMODEREQUEST'', ''UA_SetPublishingModeRequest'', ''UA_TYPES_SETPUBLISHINGMODEREQUEST''),
  (''UA_TYPES_SETPUBLISHINGMODERESPONSE'', ''UA_SetPublishingModeResponse'', ''UA_TYPES_SETPUBLISHINGMODERESPONSE''),
  (''UA_TYPES_SETTRIGGERINGREQUEST'', ''UA_SetTriggeringRequest'', ''UA_TYPES_SETTRIGGERINGREQUEST''),
  (''UA_TYPES_SETTRIGGERINGRESPONSE'', ''UA_SetTriggeringResponse'', ''UA_TYPES_SETTRIGGERINGRESPONSE''),
  (''UA_TYPES_SIGNATUREDATA'', ''UA_SignatureData'', ''UA_TYPES_SIGNATUREDATA''),
  (''UA_TYPES_SIGNEDSOFTWARECERTIFICATE'', ''UA_SignedSoftwareCertificate'', ''UA_TYPES_SIGNEDSOFTWARECERTIFICATE''),
  (''UA_TYPES_SIMPLEATTRIBUTEOPERAND'', ''UA_SimpleAttributeOperand'', ''UA_TYPES_SIMPLEATTRIBUTEOPERAND''),
  (''UA_TYPES_SIMPLETYPEDESCRIPTION'', ''UA_SimpleTypeDescription'', ''UA_TYPES_SIMPLETYPEDESCRIPTION'')]"

definition registry_6 :: "registry_entry list" where
  "registry_6 = [
  (''UA_TYPES_STATUSCHANGENOTIFICATION'', ''UA_StatusChangeNotification'', ''UA_TYPES_STATUSCHANGENOTIFICATION''),
  (''UA_TYPES_STRUCTUREDEFINITION'', ''UA_StructureDefinition'', ''UA_TYPES_STRUCTUREDEFINITION''),
  (''UA_TYPES_STRUCTUREDESCRIPTION'', ''UA_StructureDescription'', ''UA_TYPES_STRUCTUREDESCRIPTION''),
  (''UA_TYPES_STRUCTUREFIELD'', ''UA_StructureField'', ''UA_TYPES_STRUCTUREFIELD''),
  (''UA_TYPES_STRUCTURETYPE'', ''UA_StructureType'', ''UA_TYPES_STRUCTURETYPE''),
  (''UA_TYPES_SUBSCRIBEDDATASETMIRRORDATATYPE'', ''UA_SubscribedDataSetMirrorDataType'', ''UA_TYPES_SUBSCRIBEDDATASETMIRRORDATATYPE''),
  (''UA_TYPES_SUBSCRIPTIONACKNOWLEDGEMENT'', ''UA_SubscriptionAcknowledgement'', ''UA_TYPES_SUBSCRIPTIONACKNOWLEDGEMENT''),
  (''UA_TYPES_SUBSCRIPTIONDIAGNOSTICSDATATYPE'', ''UA_SubscriptionDiagnosticsDataType'', ''UA_TYPES_SUBSCRIPTIONDIAGNOSTICSDATATYPE''),
  (''UA_TYPES_TARGETVARIABLESDATATYPE'', ''UA_TargetVariablesDataType'', ''UA_TYPES_TARGETVARIABLESDATATYPE''),
  (''UA_TYPES_TCPACKNOWLEDGEMESSAGE'', ''UA_TcpAcknowledgeMessage'', ''UA_TYPES_TCPACKNOWLEDGEMESSAGE''),
  (''UA_TYPES_TCPERRORMESSAGE'', ''UA_TcpErrorMessage'', ''UA_TYPES_TCPERRORMESSAGE''),
  (''UA_TYPES_TCPHELLOMESSAGE'', ''UA_TcpHelloMessage'', ''UA_TYPES_TCPHELLOMESSAGE''),
  (''UA_TYPES_TCPMESSAGEHEADER'', ''UA_TcpMessageHeader'', ''UA_TYPES_TCPMESSAGEHEADER''),
  (''UA_TYPES_TCPREVERSEHELLOMESSAGE'', ''UA_TcpReverseHelloMessage'', ''UA_TYPES_TCPREVERSEHELLOMESSAGE''),
  (''UA_TYPES_TIMEZONEDATATYPE'', ''UA_TimeZoneDataType'', ''UA_TYPES_TIMEZONEDATATYPE''),
  (''UA_TYPES_TIMESTAMPSTORETURN'', ''UA_TimestampsToReturn'', ''UA_TYPES_TIMESTAMPSTORETURN''),
  (''UA_TYPES_TRANSFERRESULT'', ''UA_TransferResult'', ''UA_TYPES_TRANSFERRESULT''),
  (''UA_TYPES_TRANSFERSUBSCRIPTIONSREQUEST'', ''UA_TransferSubscriptionsRequest'', ''UA_TYPES_TRANSFERSUBSCRIPTIONSREQUEST''),
  (''UA_TYPES_TRANSFERSUBSCRIPTIONSRESPONSE'', ''UA_TransferSubscriptionsResponse'', ''UA_TYPES_TRANSFERSUBSCRIPTIONSRESPONSE''),
  (''UA_TYPES_TRANSLATEBROWSEPATHSTONODEIDSREQUEST'', ''UA_TranslateBrowsePathsToNodeIdsRequest'', ''UA_TYPES_TRANSLATEBROWSEPATHSTONODEIDSREQUEST''),
  (''UA_TYPES_TRANSLATEBROWSEPATHSTONODEIDSRESPONSE'', ''UA_TranslateBrowsePathsToNodeIdsResponse'', ''UA_TYPES_TRANSLATEBROWSEPATHSTONODEIDSRESPONSE''),
  (''UA_TYPES_UABINARYFILEDATATYPE'', ''UA_UABinaryFileDataType'', ''UA_TYPES_UABINARYFILEDATATYPE''),
  (''UA_TYPES_UADPDATASETREADERMESSAGEDATATYPE'', ''UA_UadpDataSetReaderMessageDataType'', ''UA_TYPES_UADPDATASETREADERMESSAGEDATATYPE''),
  (''UA_TYPES_UADPDATASETWRITERMESSAGEDATATYPE'', ''UA_UadpDataSetWriterMessageDataType'', ''UA_TYPES_UADPDATASETWRITERMESSAGEDATATYPE''),
  (''UA_TYPES_UADPWRITERGROUPMESSAGEDATATYPE'', ''UA_UadpWriterGroupMessageDataType'', ''UA_TYPES_UADPWRITERGROUPMESSAGEDATATYPE''),
  (''UA_TYPES_UNREGISTERNODESREQUEST'', ''UA_UnregisterNodesRequest'', ''UA_TYPES_UNREGISTERNODESREQUEST''),
  (''UA_TYPES_UNREGISTERNODESRESPONSE'', ''UA_UnregisterNodesResponse'', ''UA_TYPES_UNREGISTERNODESRESPONSE''),
  (''UA_TYPES_UPDATEDATADETAILS'', ''UA_UpdateDataDetails'', ''UA_TYPES_UPDATEDATADETAILS''),
  (''UA_TYPES_USERIDENTITYTOKEN'', ''UA_UserIdentityToken'', ''UA_TYPES_USERIDENTITYTOKEN''),
  (''UA_TYPES_USERNAMEIDENTITYTOKEN'', ''UA_UserNameIdentityToken'', ''UA_TYPES_USERNAMEIDENTITYTOKEN''),
  (''UA_TYPES_USERTOKENPOLICY'', ''UA_UserTokenPolicy'', ''UA_TYPES_USERTOKENPOLICY''),
  (''UA_TYPES_USERTOKENTYPE'', ''UA_UserTokenType'', ''UA_TYPES_USERTOKENTYPE''),
  (''UA_TYPES_VARIABLEATTRIBUTES'', ''UA_VariableAttributes'', ''UA_TYPES_VARIABLEATTRIBUTES''),
  (''UA_TYPES_VARIABLETYPEATTRIBUTES'', ''UA_VariableTypeAttributes'', ''UA_TYPES_VARIABLETYPEATTRIBUTES''),
  (''UA_TYPES_VIEWATTRIBUTES'', ''UA_ViewAttributes'', ''UA_TYPES_VIEWATTRIBUTES''),
  (''UA_TYPES_VIEWDESCRIPTION'', ''UA_ViewDescription'', ''UA_TYPES_VIEWDESCRIPTION''),
  (''UA_TYPES_WRITEREQUEST'', ''UA_WriteRequest'', ''UA_TYPES_WRITEREQUEST''),
  (''UA_TYPES_WRITERESPONSE'', ''UA_WriteResponse'', ''UA_TYPES_WRITERESPONSE''),
  (''UA_TYPES_WRITEVALUE'', ''UA_WriteValue'', ''UA_TYPES_WRITEVALUE''),
  (''UA_TYPES_WRITERGROUPDATATYPE'', ''UA_WriterGroupDataType'', ''UA_TYPES_WRITERGROUPDATATYPE''),
  (''UA_TYPES_X509IDENTITYTOKEN'', ''UA_X509IdentityToken'', ''UA_TYPES_X509IDENTITYTOKEN''),
  (''UA_TYPES_XVTYPE'', ''UA_XVType'', ''UA_TYPES_XVTYPE'')]"

definition registry :: "registry_entry list" where
  "registry = registry_1 @ registry_2 @ registry_3 @ registry_4 @ registry_5 @ registry_6"

text \<open>The builtin types are registered unconditionally; \<open>UA_String\<close>, an alias of two other types, and other aliases are not.\<close>

definition basic_registry :: "(string \<times> string) list" where
  "basic_registry = [
  (''UA_Boolean'', ''UA_TYPES_BOOLEAN''),
  (''UA_SByte'', ''UA_TYPES_SBYTE''),
  (''UA_Byte'', ''UA_TYPES_BYTE''),
  (''UA_Int16'', ''UA_TYPES_INT16''),
  (''UA_UInt16'', ''UA_TYPES_UINT16''),
  (''UA_Int32'', ''UA_TYPES_INT32''),
  (''UA_UInt32'', ''UA_TYPES_UINT32''),
  (''UA_Int64'', ''UA_TYPES_INT64''),
  (''UA_UInt64'', ''UA_TYPES_UINT64''),
  (''UA_Float'', ''UA_TYPES_FLOAT''),
  (''UA_Double'', ''UA_TYPES_DOUBLE''),
  (''UA_Guid'', ''UA_TYPES_GUID''),
  (''UA_NodeId'', ''UA_TYPES_NODEID''),
  (''UA_ExpandedNodeId'', ''UA_TYPES_EXPANDEDNODEID''),
  (''UA_QualifiedName'', ''UA_TYPES_QUALIFIEDNAME''),
  (''UA_LocalizedText'', ''UA_TYPES_LOCALIZEDTEXT''),
  (''UA_ExtensionObject'', ''UA_TYPES_EXTENSIONOBJECT''),
  (''UA_DataValue'', ''UA_TYPES_DATAVALUE''),
  (''UA_Variant'', ''UA_TYPES_VARIANT''),
  (''UA_DiagnosticInfo'', ''UA_TYPES_DIAGNOSTICINFO'')]"

section \<open>Node ids\<close>

definition DataTypeId_1 :: "(string \<times> int) list" where
  "DataTypeId_1 = [
  (''Boolean'', 1),
  (''SByte'', 2),
  (''Byte'', 3),
  (''Int16'', 4),
  (''UInt16'', 5),
  (''Int32'', 6),
  (''UInt32'', 7),
  (''Int64'', 8),
  (''UInt64'', 9),
  (''Float'', 10),
  (''Double'', 11),
  (''String'', 12),
  (''DateTime'', 13),
  (''Guid'', 14),
  (''ByteString'', 15),
  (''XmlElement'', 16),
  (''NodeId'', 17),
  (''ExpandedNodeId'', 18),
  (''StatusCode'', 19),
  (''QualifiedName'', 20),
  (''LocalizedText'', 21),
  (''Structure'', 22),
  (''DataValue'', 23),
  (''BaseDataType'', 24),
  (''DiagnosticInfo'', 25),
  (''Number'', 26),
  (''Integer'', 27),
  (''UInteger'', 28),
  (''Enumeration'', 29),
  (''Image'', 30),
  (''Decimal'', 50),
  (''PermissionType'', 94),
  (''AccessRestrictionType'', 95),
  (''RolePermissionType'', 96),
  (''DataTypeDefinition'', 97),
  (''StructureType'', 98),
  (''StructureDefinition'', 99),
  (''EnumDefinition'', 100),
  (''StructureField'', 101),
  (''EnumField'', 102),
  (''NamingRuleType'', 120),
  (''IdType'', 256),
  (''NodeClass'', 257),
  (''Node'', 258),
  (''ObjectNode'', 261),
  (''ObjectTypeNode'', 264),
  (''VariableNode'', 267),
  (''VariableTypeNode'', 270),
  (''ReferenceTypeNode'', 273),
  (''MethodNode'', 276),
  (''ViewNode'', 279),
  (''DataTypeNode'', 282),
  (''ReferenceNode'', 285),
  (''IntegerId'', 288),
  (''Counter'', 289),
  (''Duration'', 290),
  (''NumericRange'', 291),
  (''Time'', 292),
  (''Date'', 293),
  (''UtcTime'', 294),
  (''LocaleId'', 295),
  (''Argument'', 296),
  (''StatusResult'', 299),
  (''MessageSecurityMode'', 302),
  (''UserTokenType'', 303),
  (''UserTokenPolicy'', 304),
  (''ApplicationType'', 307),
  (''ApplicationDescription'', 308),
  (''ApplicationInstanceCertificate'', 311),
  (''EndpointDescription'', 312),
  (''SecurityTokenRequestType'', 315),
  (''UserIdentityToken'', 316),
  (''AnonymousIdentityToken'', 319),
  (''UserNameIdentityToken'', 322),
  (''X509IdentityToken'', 325),
  (''EndpointConfiguration'', 331),
  (''BuildInfo'', 338),
  (''SignedSoftwareCertificate'', 344),
  (''AttributeWriteMask'', 347),
  (''NodeAttributesMask'', 348),
  (''NodeAttributes'', 349),
  (''ObjectAttributes'', 352),
  (''VariableAttributes'', 355),
  (''MethodAttributes'', 358),
  (''ObjectTypeAttributes'', 361),
  (''VariableTypeAttributes'', 364),
  (''ReferenceTypeAttributes'', 367),
  (''DataTypeAttributes'', 370),
  (''ViewAttributes'', 373),
  (''AddNodesItem'', 376),
  (''AddReferencesItem'', 379),
  (''DeleteNodesItem'', 382),
  (''DeleteReferencesItem'', 385),
  (''SessionAuthenticationToken'', 388),
  (''RequestHeader'', 389),
  (''ResponseHeader'', 392),
  (''ServiceFault'', 395),
  (''FindServersRequest'', 420),
  (''FindServersResponse'', 423),
  (''GetEndpointsRequest'', 426),
  (''GetEndpointsResponse'', 429),
  (''RegisteredServer'', 432),
  (''RegisterServerRequest'', 435),
  (''RegisterServerResponse'', 438),
  (''ChannelSecurityToken'', 441),
  (''OpenSecureChannelRequest'', 444),
  (''OpenSecureChannelResponse'', 447),
  (''CloseSecureChannelRequest'', 450),
  (''CloseSecureChannelResponse'', 453),
  (''SignatureData'', 456),
  (''CreateSessionRequest'', 459),
  (''CreateSessionResponse'', 462),
  (''ActivateSessionRequest'', 465),
  (''ActivateSessionResponse'', 468),
  (''CloseSessionRequest'', 471),
  (''CloseSessionResponse'', 474),
  (''CancelRequest'', 477),
  (''CancelResponse'', 480),
  (''AddNodesResult'', 483),
  (''AddNodesRequest'', 486),
  (''AddNodesResponse'', 489),
  (''AddReferencesRequest'', 492),
  (''AddReferencesResponse'', 495),
  (''DeleteNodesRequest'', 498),
  (''DeleteNodesResponse'', 501),
  (''DeleteReferencesRequest'', 504),
  (''DeleteReferencesResponse'', 507),
  (''BrowseDirection'', 510),
  (''ViewDescription'', 511),
  (''BrowseDescription'', 514),
  (''BrowseResultMask'', 517),
  (''ReferenceDescription'', 518),
  (''ContinuationPoint'', 521),
  (''BrowseResult'', 522),
  (''BrowseRequest'', 525),
  (''BrowseResponse'', 528),
  (''BrowseNextRequest'', 531),
  (''BrowseNextResponse'', 534),
  (''RelativePathElement'', 537),
  (''RelativePath'', 540),
  (''BrowsePath'', 543),
  (''BrowsePathTarget'', 546),
  (''BrowsePathResult'', 549),
  (''TranslateBrowsePathsToNodeIdsRequest'', 552),
  (''TranslateBrowsePathsToNodeIdsResponse'', 555),
  (''RegisterNodesRequest'', 558),
  (''RegisterNodesResponse'', 561),
  (''UnregisterNodesRequest'', 564)]"

definition DataTypeId_2 :: "(string \<times> int) list" where
  "DataTypeId_2 = [
  (''UnregisterNodesResponse'', 567),
  (''QueryDataDescription'', 570),
  (''NodeTypeDescription'', 573),
  (''FilterOperator'', 576),
  (''QueryDataSet'', 577),
  (''NodeReference'', 580),
  (''ContentFilterElement'', 583),
  (''ContentFilter'', 586),
  (''FilterOperand'', 589),
  (''ElementOperand'', 592),
  (''LiteralOperand'', 595),
  (''AttributeOperand'', 598),
  (''SimpleAttributeOperand'', 601),
  (''ContentFilterElementResult'', 604),
  (''ContentFilterResult'', 607),
  (''ParsingResult'', 610),
  (''QueryFirstRequest'', 613),
  (''QueryFirstResponse'', 616),
  (''QueryNextRequest'', 619),
  (''QueryNextResponse'', 622),
  (''TimestampsToReturn'', 625),
  (''ReadValueId'', 626),
  (''ReadRequest'', 629),
  (''ReadResponse'', 632),
  (''HistoryReadValueId'', 635),
  (''HistoryReadResult'', 638),
  (''HistoryReadDetails'', 641),
  (''ReadEventDetails'', 644),
  (''ReadRawModifiedDetails'', 647),
  (''ReadProcessedDetails'', 650),
  (''ReadAtTimeDetails'', 653),
  (''HistoryData'', 656),
  (''HistoryEvent'', 659),
  (''HistoryReadRequest'', 662),
  (''HistoryReadResponse'', 665),
  (''WriteValue'', 668),
  (''WriteRequest'', 671),
  (''WriteResponse'', 674),
  (''HistoryUpdateDetails'', 677),
  (''UpdateDataDetails'', 680),
  (''UpdateEventDetails'', 683),
  (''DeleteRawModifiedDetails'', 686),
  (''DeleteAtTimeDetails'', 689),
  (''DeleteEventDetails'', 692),
  (''HistoryUpdateResult'', 695),
  (''HistoryUpdateRequest'', 698),
  (''HistoryUpdateResponse'', 701),
  (''CallMethodRequest'', 704),
  (''CallMethodResult'', 707),
  (''CallRequest'', 710),
  (''CallResponse'', 713),
  (''MonitoringMode'', 716),
  (''DataChangeTrigger'', 717),
  (''DeadbandType'', 718),
  (''MonitoringFilter'', 719),
  (''DataChangeFilter'', 722),
  (''EventFilter'', 725),
  (''AggregateFilter'', 728),
  (''MonitoringFilterResult'', 731),
  (''EventFilterResult'', 734),
  (''AggregateFilterResult'', 737),
  (''MonitoringParameters'', 740),
  (''MonitoredItemCreateRequest'', 743),
  (''MonitoredItemCreateResult'', 746),
  (''CreateMonitoredItemsRequest'', 749),
  (''CreateMonitoredItemsResponse'', 752),
  (''MonitoredItemModifyRequest'', 755),
  (''MonitoredItemModifyResult'', 758),
  (''ModifyMonitoredItemsRequest'', 761),
  (''ModifyMonitoredItemsResponse'', 764),
  (''SetMonitoringModeRequest'', 767),
  (''SetMonitoringModeResponse'', 770),
  (''SetTriggeringRequest'', 773),
  (''SetTriggeringResponse'', 776),
  (''DeleteMonitoredItemsRequest'', 779),
  (''DeleteMonitoredItemsResponse'', 782),
  (''CreateSubscriptionRequest'', 785),
  (''CreateSubscriptionResponse'', 788),
  (''ModifySubscriptionRequest'', 791),
  (''ModifySubscriptionResponse'', 794),
  (''SetPublishingModeRequest'', 797),
  (''SetPublishingModeResponse'', 800),
  (''NotificationMessage'', 803),
  (''MonitoredItemNotification'', 806),
  (''DataChangeNotification'', 809),
  (''StatusChangeNotification'', 818),
  (''SubscriptionAcknowledgement'', 821),
  (''PublishRequest'', 824),
  (''PublishResponse'', 827),
  (''RepublishRequest'', 830),
  (''RepublishResponse'', 833),
  (''TransferResult'', 836),
  (''TransferSubscriptionsRequest'', 839),
  (''TransferSubscriptionsResponse'', 842),
  (''DeleteSubscriptionsRequest'', 845),
  (''DeleteSubscriptionsResponse'', 848),
  (''RedundancySupport'', 851),
  (''ServerState'', 852),
  (''RedundantServerDataType'', 853),
  (''SamplingIntervalDiagnosticsDataType'', 856),
  (''ServerDiagnosticsSummaryDataType'', 859),
  (''ServerStatusDataType'', 862),
  (''SessionDiagnosticsDataType'', 865),
  (''SessionSecurityDiagnosticsDataType'', 868),
  (''ServiceCounterDataType'', 871),
  (''SubscriptionDiagnosticsDataType'', 874),
  (''ModelChangeStructureDataType'', 877),
  (''Range'', 884),
  (''EUInformation'', 887),
  (''ExceptionDeviationFormat'', 890),
  (''Annotation'', 891),
  (''ProgramDiagnosticDataType'', 894),
  (''SemanticChangeStructureDataType'', 897),
  (''EventNotificationList'', 914),
  (''EventFieldList'', 917),
  (''HistoryEventFieldList'', 920),
  (''IssuedIdentityToken'', 938),
  (''NotificationData'', 945),
  (''AggregateConfiguration'', 948),
  (''ImageBMP'', 2000),
  (''ImageGIF'', 2001),
  (''ImageJPG'', 2002),
  (''ImagePNG'', 2003),
  (''EnumValueType'', 7594),
  (''TimeZoneDataType'', 8912),
  (''ModificationInfo'', 11216),
  (''HistoryModifiedData'', 11217),
  (''HistoryUpdateType'', 11234),
  (''PerformUpdateType'', 11293),
  (''UpdateStructureDataDetails'', 11295),
  (''BitFieldMaskDataType'', 11737),
  (''InstanceNode'', 11879),
  (''TypeNode'', 11880),
  (''OpenFileMode'', 11939),
  (''ModelChangeStructureVerbMask'', 11941),
  (''EndpointUrlListDataType'', 11943),
  (''NetworkGroupDataType'', 11944),
  (''AxisScaleEnumeration'', 12077),
  (''AxisInformation'', 12079),
  (''XVType'', 12080),
  (''ComplexNumberType'', 12171),
  (''DoubleComplexNumberType'', 12172),
  (''ServerOnNetwork'', 12189),
  (''FindServersOnNetworkRequest'', 12190),
  (''FindServersOnNetworkResponse'', 12191),
  (''RegisterServer2Request'', 12193),
  (''RegisterServer2Response'', 12194),
  (''TrustListMasks'', 12552)]"

definition DataTypeId_3 :: "(string \<times> int) list" where
  "DataTypeId_3 = [
  (''TrustListDataType'', 12554),
  (''OptionSet'', 12755),
  (''Union'', 12756),
  (''NormalizedString'', 12877),
  (''DecimalString'', 12878),
  (''DurationString'', 12879),
  (''TimeString'', 12880),
  (''DateString'', 12881),
  (''DiscoveryConfiguration'', 12890),
  (''MdnsDiscoveryConfiguration'', 12891),
  (''PublishedVariableDataType'', 14273),
  (''DataSetMetaDataType'', 14523),
  (''FieldMetaData'', 14524),
  (''DataTypeDescription'', 14525),
  (''KeyValuePair'', 14533),
  (''ConfigurationVersionDataType'', 14593),
  (''PubSubState'', 14647),
  (''FieldTargetDataType'', 14744),
  (''SimpleTypeDescription'', 15005),
  (''UABinaryFileDataType'', 15006),
  (''BrokerConnectionTransportDataType'', 15007),
  (''BrokerTransportQualityOfService'', 15008),
  (''AccessLevelType'', 15031),
  (''EventNotifierType'', 15033),
  (''AccessLevelExType'', 15406),
  (''WriterGroupDataType'', 15480),
  (''StructureDescription'', 15487),
  (''EnumDescription'', 15488),
  (''NetworkAddressDataType'', 15502),
  (''NetworkAddressUrlDataType'', 15510),
  (''ReaderGroupDataType'', 15520),
  (''EndpointType'', 15528),
  (''PubSubConfigurationDataType'', 15530),
  (''DatagramWriterGroupTransportDataType'', 15532),
  (''DataTypeSchemaHeader'', 15534),
  (''PublishedDataSetDataType'', 15578),
  (''PublishedDataSetSourceDataType'', 15580),
  (''PublishedDataItemsDataType'', 15581),
  (''PublishedEventsDataType'', 15582),
  (''DataSetFieldContentMask'', 15583),
  (''DataSetWriterDataType'', 15597),
  (''DataSetWriterTransportDataType'', 15598),
  (''DataSetWriterMessageDataType'', 15605),
  (''PubSubGroupDataType'', 15609),
  (''WriterGroupTransportDataType'', 15611),
  (''WriterGroupMessageDataType'', 15616),
  (''PubSubConnectionDataType'', 15617),
  (''ConnectionTransportDataType'', 15618),
  (''ReaderGroupTransportDataType'', 15621),
  (''ReaderGroupMessageDataType'', 15622),
  (''DataSetReaderDataType'', 15623),
  (''DataSetReaderTransportDataType'', 15628),
  (''DataSetReaderMessageDataType'', 15629),
  (''SubscribedDataSetDataType'', 15630),
  (''TargetVariablesDataType'', 15631),
  (''IdentityCriteriaType'', 15632),
  (''IdentityMappingRuleType'', 15634),
  (''SubscribedDataSetMirrorDataType'', 15635),
  (''UadpNetworkMessageContentMask'', 15642),
  (''UadpWriterGroupMessageDataType'', 15645),
  (''UadpDataSetMessageContentMask'', 15646),
  (''UadpDataSetWriterMessageDataType'', 15652),
  (''UadpDataSetReaderMessageDataType'', 15653),
  (''JsonNetworkMessageContentMask'', 15654),
  (''JsonWriterGroupMessageDataType'', 15657),
  (''JsonDataSetMessageContentMask'', 15658),
  (''JsonDataSetWriterMessageDataType'', 15664),
  (''JsonDataSetReaderMessageDataType'', 15665),
  (''BrokerWriterGroupTransportDataType'', 15667),
  (''BrokerDataSetWriterTransportDataType'', 15669),
  (''BrokerDataSetReaderTransportDataType'', 15670),
  (''OverrideValueHandling'', 15874),
  (''SessionlessInvokeRequestType'', 15901),
  (''DataSetFieldFlags'', 15904),
  (''AudioDataType'', 16307),
  (''AdditionalParametersType'', 16313),
  (''DatagramConnectionTransportDataType'', 17467),
  (''RsaEncryptedSecret'', 17545),
  (''EccEncryptedSecret'', 17546),
  (''EphemeralKeyType'', 17548),
  (''Index'', 17588),
  (''GenericAttributeValue'', 17606),
  (''GenericAttributes'', 17607),
  (''DecimalDataType'', 17861),
  (''RationalNumber'', 18806),
  (''Vector'', 18807),
  (''ThreeDVector'', 18808),
  (''CartesianCoordinates'', 18809),
  (''ThreeDCartesianCoordinates'', 18810),
  (''Orientation'', 18811),
  (''ThreeDOrientation'', 18812),
  (''Frame'', 18813),
  (''ThreeDFrame'', 18814),
  (''DiagnosticsLevel'', 19723),
  (''PubSubDiagnosticsCounterClassification'', 19730),
  (''DataSetOrderingType'', 20408),
  (''VersionTime'', 20998),
  (''SessionlessInvokeResponseType'', 20999),
  (''AliasNameDataType'', 23468),
  (''ReadAnnotationDataDetails'', 23497),
  (''CurrencyUnitType'', 23498),
  (''ProgramDiagnostic2DataType'', 24033),
  (''UnsignedRationalNumber'', 24107),
  (''Duplex'', 24210),
  (''InterfaceAdminStatus'', 24212),
  (''InterfaceOperStatus'', 24214),
  (''NegotiationStatus'', 24216),
  (''TsnFailureCode'', 24218),
  (''TsnStreamState'', 24220),
  (''TsnTalkerStatus'', 24222),
  (''TsnListenerStatus'', 24224)]"

definition DataTypeId :: "(string \<times> int) list" where
  "DataTypeId = DataTypeId_1 @ DataTypeId_2 @ DataTypeId_3"

definition ReferenceTypeId :: "(string \<times> int) list" where
  "ReferenceTypeId = [
  (''References'', 31),
  (''NonHierarchicalReferences'', 32),
  (''HierarchicalReferences'', 33),
  (''HasChild'', 34),
  (''Organizes'', 35),
  (''HasEventSource'', 36),
  (''HasModellingRule'', 37),
  (''HasEncoding'', 38),
  (''HasDescription'', 39),
  (''HasTypeDefinition'', 40),
  (''GeneratesEvent'', 41),
  (''Aggregates'', 44),
  (''HasSubtype'', 45),
  (''HasProperty'', 46),
  (''HasComponent'', 47),
  (''HasNotifier'', 48),
  (''HasOrderedComponent'', 49),
  (''FromState'', 51),
  (''ToState'', 52),
  (''HasCause'', 53),
  (''HasEffect'', 54),
  (''HasHistoricalConfiguration'', 56),
  (''HasSubStateMachine'', 117),
  (''HasArgumentDescription'', 129),
  (''HasOptionalInputArgumentDescription'', 131),
  (''AlwaysGeneratesEvent'', 3065),
  (''HasTrueSubState'', 9004),
  (''HasFalseSubState'', 9005),
  (''HasCondition'', 9006),
  (''HasPubSubConnection'', 14476),
  (''DataSetToWriter'', 14936),
  (''HasGuard'', 15112),
  (''HasDataSetWriter'', 15296),
  (''HasDataSetReader'', 15297),
  (''HasAlarmSuppressionGroup'', 16361),
  (''AlarmGroupMember'', 16362),
  (''HasEffectDisable'', 17276),
  (''HasDictionaryEntry'', 17597),
  (''HasInterface'', 17603),
  (''HasAddIn'', 17604),
  (''HasEffectEnable'', 17983),
  (''HasEffectSuppressed'', 17984),
  (''HasEffectUnsuppressed'', 17985),
  (''HasWriterGroup'', 18804),
  (''HasReaderGroup'', 18805),
  (''AliasFor'', 23469)]"

definition ObjectTypeId_1 :: "(string \<times> int) list" where
  "ObjectTypeId_1 = [
  (''BaseObjectType'', 58),
  (''FolderType'', 61),
  (''DataTypeSystemType'', 75),
  (''DataTypeEncodingType'', 76),
  (''ModellingRuleType'', 77),
  (''ServerType'', 2004),
  (''ServerCapabilitiesType'', 2013),
  (''ServerDiagnosticsType'', 2020),
  (''SessionsDiagnosticsSummaryType'', 2026),
  (''SessionDiagnosticsObjectType'', 2029),
  (''VendorServerInfoType'', 2033),
  (''ServerRedundancyType'', 2034),
  (''TransparentRedundancyType'', 2036),
  (''NonTransparentRedundancyType'', 2039),
  (''BaseEventType'', 2041),
  (''AuditEventType'', 2052),
  (''AuditSecurityEventType'', 2058),
  (''AuditChannelEventType'', 2059),
  (''AuditOpenSecureChannelEventType'', 2060),
  (''AuditSessionEventType'', 2069),
  (''AuditCreateSessionEventType'', 2071),
  (''AuditActivateSessionEventType'', 2075),
  (''AuditCancelEventType'', 2078),
  (''AuditCertificateEventType'', 2080),
  (''AuditCertificateDataMismatchEventType'', 2082),
  (''AuditCertificateExpiredEventType'', 2085),
  (''AuditCertificateInvalidEventType'', 2086),
  (''AuditCertificateUntrustedEventType'', 2087),
  (''AuditCertificateRevokedEventType'', 2088),
  (''AuditCertificateMismatchEventType'', 2089),
  (''AuditNodeManagementEventType'', 2090),
  (''AuditAddNodesEventType'', 2091),
  (''AuditDeleteNodesEventType'', 2093),
  (''AuditAddReferencesEventType'', 2095),
  (''AuditDeleteReferencesEventType'', 2097),
  (''AuditUpdateEventType'', 2099),
  (''AuditWriteUpdateEventType'', 2100),
  (''AuditHistoryUpdateEventType'', 2104),
  (''AuditUpdateMethodEventType'', 2127),
  (''SystemEventType'', 2130),
  (''DeviceFailureEventType'', 2131),
  (''BaseModelChangeEventType'', 2132),
  (''GeneralModelChangeEventType'', 2133),
  (''StateMachineType'', 2299),
  (''StateType'', 2307),
  (''InitialStateType'', 2309),
  (''TransitionType'', 2310),
  (''TransitionEventType'', 2311),
  (''AuditUpdateStateEventType'', 2315),
  (''HistoricalDataConfigurationType'', 2318),
  (''HistoryServerCapabilitiesType'', 2330),
  (''AggregateFunctionType'', 2340),
  (''ProgramTransitionEventType'', 2378),
  (''ProgramStateMachineType'', 2391),
  (''SemanticChangeEventType'', 2738),
  (''AuditUrlMismatchEventType'', 2748),
  (''FiniteStateMachineType'', 2771),
  (''ConditionType'', 2782),
  (''RefreshStartEventType'', 2787),
  (''RefreshEndEventType'', 2788),
  (''RefreshRequiredEventType'', 2789),
  (''AuditConditionEventType'', 2790),
  (''AuditConditionEnableEventType'', 2803),
  (''AuditConditionCommentEventType'', 2829),
  (''DialogConditionType'', 2830),
  (''AcknowledgeableConditionType'', 2881),
  (''AlarmConditionType'', 2915),
  (''ShelvedStateMachineType'', 2929),
  (''LimitAlarmType'', 2955),
  (''AuditHistoryEventUpdateEventType'', 2999),
  (''AuditHistoryValueUpdateEventType'', 3006),
  (''AuditHistoryDeleteEventType'', 3012),
  (''AuditHistoryRawModifyDeleteEventType'', 3014),
  (''AuditHistoryAtTimeDeleteEventType'', 3019),
  (''AuditHistoryEventDeleteEventType'', 3022),
  (''EventQueueOverflowEventType'', 3035),
  (''ProgramTransitionAuditEventType'', 3806),
  (''AuditConditionRespondEventType'', 8927),
  (''AuditConditionAcknowledgeEventType'', 8944),
  (''AuditConditionConfirmEventType'', 8961),
  (''ExclusiveLimitStateMachineType'', 9318),
  (''ExclusiveLimitAlarmType'', 9341),
  (''ExclusiveLevelAlarmType'', 9482),
  (''ExclusiveRateOfChangeAlarmType'', 9623),
  (''ExclusiveDeviationAlarmType'', 9764),
  (''NonExclusiveLimitAlarmType'', 9906),
  (''NonExclusiveLevelAlarmType'', 10060),
  (''NonExclusiveRateOfChangeAlarmType'', 10214),
  (''NonExclusiveDeviationAlarmType'', 10368),
  (''DiscreteAlarmType'', 10523),
  (''OffNormalAlarmType'', 10637),
  (''TripAlarmType'', 10751),
  (''AuditConditionShelvingEventType'', 11093),
  (''BaseConditionClassType'', 11163),
  (''ProcessConditionClassType'', 11164),
  (''MaintenanceConditionClassType'', 11165),
  (''SystemConditionClassType'', 11166),
  (''AggregateConfigurationType'', 11187),
  (''ProgressEventType'', 11436),
  (''SystemStatusChangeEventType'', 11446),
  (''OperationLimitsType'', 11564),
  (''FileType'', 11575),
  (''AddressSpaceFileType'', 11595),
  (''NamespaceMetadataType'', 11616),
  (''NamespacesType'', 11645),
  (''SystemOffNormalAlarmType'', 11753),
  (''AuditProgramTransitionEventType'', 11856),
  (''NonTransparentNetworkRedundancyType'', 11945),
  (''TrustListType'', 12522),
  (''CertificateGroupType'', 12555),
  (''CertificateType'', 12556),
  (''ApplicationCertificateType'', 12557),
  (''HttpsCertificateType'', 12558),
  (''RsaMinApplicationCertificateType'', 12559),
  (''RsaSha256ApplicationCertificateType'', 12560),
  (''TrustListUpdatedAuditEventType'', 12561),
  (''ServerConfigurationType'', 12581),
  (''CertificateUpdatedAuditEventType'', 12620),
  (''CertificateExpirationAlarmType'', 13225),
  (''FileDirectoryType'', 13353),
  (''CertificateGroupFolderType'', 13813),
  (''PubSubConnectionType'', 14209),
  (''PubSubGroupType'', 14232),
  (''PublishSubscribeType'', 14416),
  (''DataSetFolderType'', 14477),
  (''PublishedDataSetType'', 14509),
  (''PublishedDataItemsType'', 14534),
  (''PublishedEventsType'', 14572),
  (''PubSubStatusType'', 14643),
  (''AuditConditionResetEventType'', 15013),
  (''DatagramConnectionTransportType'', 15064),
  (''SubscribedDataSetType'', 15108),
  (''ChoiceStateType'', 15109),
  (''TargetVariablesType'', 15111),
  (''SubscribedDataSetMirrorType'', 15127),
  (''BrokerConnectionTransportType'', 15155),
  (''UserCredentialCertificateType'', 15181),
  (''DataSetWriterType'', 15298),
  (''DataSetWriterTransportType'', 15305),
  (''DataSetReaderType'', 15306),
  (''DataSetReaderTransportType'', 15319),
  (''SecurityGroupFolderType'', 15452),
  (''SecurityGroupType'', 15471),
  (''ExtensionFieldsType'', 15489),
  (''PubSubStatusEventType'', 15535),
  (''PubSubTransportLimitsExceedEventType'', 15548),
  (''PubSubCommunicationFailureEventType'', 15563),
  (''RoleSetType'', 15607)]"

definition ObjectTypeId_2 :: "(string \<times> int) list" where
  "ObjectTypeId_2 = [
  (''RoleType'', 15620),
  (''TemporaryFileTransferType'', 15744),
  (''FileTransferStateMachineType'', 15803),
  (''PubSubKeyServiceType'', 15906),
  (''AlarmGroupType'', 16405),
  (''DiscrepancyAlarmType'', 17080),
  (''SafetyConditionClassType'', 17218),
  (''HighlyManagedAlarmConditionClassType'', 17219),
  (''TrainingConditionClassType'', 17220),
  (''TestingConditionClassType'', 17221),
  (''AuditConditionSuppressionEventType'', 17225),
  (''AuditConditionSilenceEventType'', 17242),
  (''AuditConditionOutOfServiceEventType'', 17259),
  (''AlarmMetricsType'', 17279),
  (''KeyCredentialConfigurationFolderType'', 17496),
  (''DictionaryEntryType'', 17589),
  (''DictionaryFolderType'', 17591),
  (''IrdiDictionaryEntryType'', 17598),
  (''UriDictionaryEntryType'', 17600),
  (''BaseInterfaceType'', 17602),
  (''RoleMappingRuleChangedAuditEventType'', 17641),
  (''ConnectionTransportType'', 17721),
  (''WriterGroupType'', 17725),
  (''AuthorizationServiceConfigurationType'', 17852),
  (''WriterGroupTransportType'', 17997),
  (''WriterGroupMessageType'', 17998),
  (''ReaderGroupType'', 17999),
  (''KeyCredentialConfigurationType'', 18001),
  (''KeyCredentialAuditEventType'', 18011),
  (''KeyCredentialUpdatedAuditEventType'', 18029),
  (''KeyCredentialDeletedAuditEventType'', 18047),
  (''InstrumentDiagnosticAlarmType'', 18347),
  (''SystemDiagnosticAlarmType'', 18496),
  (''StatisticalConditionClassType'', 18665),
  (''AuditHistoryAnnotationUpdateEventType'', 19095),
  (''TrustListOutOfDateAlarmType'', 19297),
  (''PubSubDiagnosticsType'', 19677),
  (''PubSubDiagnosticsRootType'', 19732),
  (''PubSubDiagnosticsConnectionType'', 19786),
  (''PubSubDiagnosticsWriterGroupType'', 19834),
  (''PubSubDiagnosticsReaderGroupType'', 19903),
  (''PubSubDiagnosticsDataSetWriterType'', 19968),
  (''PubSubDiagnosticsDataSetReaderType'', 20027),
  (''ReaderGroupTransportType'', 21090),
  (''ReaderGroupMessageType'', 21091),
  (''DataSetWriterMessageType'', 21096),
  (''DataSetReaderMessageType'', 21104),
  (''UadpWriterGroupMessageType'', 21105),
  (''UadpDataSetWriterMessageType'', 21111),
  (''UadpDataSetReaderMessageType'', 21116),
  (''JsonWriterGroupMessageType'', 21126),
  (''JsonDataSetWriterMessageType'', 21128),
  (''JsonDataSetReaderMessageType'', 21130),
  (''DatagramWriterGroupTransportType'', 21133),
  (''BrokerWriterGroupTransportType'', 21136),
  (''BrokerDataSetWriterTransportType'', 21138),
  (''BrokerDataSetReaderTransportType'', 21142),
  (''NetworkAddressType'', 21145),
  (''NetworkAddressUrlType'', 21147),
  (''AliasNameType'', 23455),
  (''AliasNameCategoryType'', 23456),
  (''IOrderedObjectType'', 23513),
  (''OrderedListType'', 23518),
  (''EccApplicationCertificateType'', 23537),
  (''EccNistP256ApplicationCertificateType'', 23538),
  (''EccNistP384ApplicationCertificateType'', 23539),
  (''EccBrainpoolP256r1ApplicationCertificateType'', 23540),
  (''EccBrainpoolP384r1ApplicationCertificateType'', 23541),
  (''EccCurve25519ApplicationCertificateType'', 23542),
  (''EccCurve448ApplicationCertificateType'', 23543),
  (''AuthorizationServicesConfigurationFolderType'', 23556),
  (''IIetfBaseNetworkInterfaceType'', 24148),
  (''IIeeeBaseEthernetPortType'', 24158),
  (''IBaseEthernetCapabilitiesType'', 24167),
  (''ISrClassType'', 24169),
  (''IIeeeBaseTsnStreamType'', 24173),
  (''IIeeeBaseTsnTrafficSpecificationType'', 24179),
  (''IIeeeBaseTsnStatusStreamType'', 24183),
  (''IIeeeTsnInterfaceConfigurationType'', 24188),
  (''IIeeeTsnInterfaceConfigurationTalkerType'', 24191),
  (''IIeeeTsnInterfaceConfigurationListenerType'', 24195),
  (''IIeeeTsnMacAddressType'', 24199),
  (''IIeeeTsnVlanTagType'', 24202),
  (''IPriorityMappingEntryType'', 24205),
  (''IIeeeAutoNegotiationStatusType'', 24233)]"

definition ObjectTypeId :: "(string \<times> int) list" where
  "ObjectTypeId = ObjectTypeId_1 @ ObjectTypeId_2"

definition VariableTypeId :: "(string \<times> int) list" where
  "VariableTypeId = [
  (''BaseVariableType'', 62),
  (''BaseDataVariableType'', 63),
  (''PropertyType'', 68),
  (''DataTypeDescriptionType'', 69),
  (''DataTypeDictionaryType'', 72),
  (''ServerVendorCapabilityType'', 2137),
  (''ServerStatusType'', 2138),
  (''ServerDiagnosticsSummaryType'', 2150),
  (''SamplingIntervalDiagnosticsArrayType'', 2164),
  (''SamplingIntervalDiagnosticsType'', 2165),
  (''SubscriptionDiagnosticsArrayType'', 2171),
  (''SubscriptionDiagnosticsType'', 2172),
  (''SessionDiagnosticsArrayType'', 2196),
  (''SessionDiagnosticsVariableType'', 2197),
  (''SessionSecurityDiagnosticsArrayType'', 2243),
  (''SessionSecurityDiagnosticsType'', 2244),
  (''DataItemType'', 2365),
  (''AnalogItemType'', 2368),
  (''DiscreteItemType'', 2372),
  (''TwoStateDiscreteType'', 2373),
  (''MultiStateDiscreteType'', 2376),
  (''ProgramDiagnosticType'', 2380),
  (''StateVariableType'', 2755),
  (''FiniteStateVariableType'', 2760),
  (''TransitionVariableType'', 2762),
  (''FiniteTransitionVariableType'', 2767),
  (''BuildInfoType'', 3051),
  (''TwoStateVariableType'', 8995),
  (''ConditionVariableType'', 9002),
  (''MultiStateValueDiscreteType'', 11238),
  (''OptionSetType'', 11487),
  (''ArrayItemType'', 12021),
  (''YArrayItemType'', 12029),
  (''XYArrayItemType'', 12038),
  (''ImageItemType'', 12047),
  (''CubeItemType'', 12057),
  (''NDimensionArrayItemType'', 12068),
  (''GuardVariableType'', 15113),
  (''ExpressionGuardVariableType'', 15128),
  (''ElseGuardVariableType'', 15317),
  (''BaseAnalogType'', 15318),
  (''ProgramDiagnostic2Type'', 15383),
  (''SelectionListType'', 16309),
  (''AlarmRateVariableType'', 17277),
  (''AnalogUnitType'', 17497),
  (''AnalogUnitRangeType'', 17570),
  (''RationalNumberType'', 17709),
  (''VectorType'', 17714),
  (''ThreeDVectorType'', 17716),
  (''AudioVariableType'', 17986),
  (''CartesianCoordinatesType'', 18772),
  (''ThreeDCartesianCoordinatesType'', 18774),
  (''OrientationType'', 18779),
  (''ThreeDOrientationType'', 18781),
  (''FrameType'', 18786),
  (''ThreeDFrameType'', 18791),
  (''MultiStateDictionaryEntryDiscreteBaseType'', 19077),
  (''MultiStateDictionaryEntryDiscreteType'', 19084),
  (''PubSubDiagnosticsCounterType'', 19725)]"


text \<open>\<open>namespaceOf\<close> of the four enumerations, and the constructor of \<open>NodeId\<close> from an enumerator.\<close>

definition namespaceOf_DataTypeId :: "u16 \<times> string" where
  "namespaceOf_DataTypeId = (0, ''http://opcfoundation.org/UA/'')"

definition namespaceOf_ReferenceTypeId :: "u16 \<times> string" where
  "namespaceOf_ReferenceTypeId = (0, ''http://opcfoundation.org/UA/'')"

definition namespaceOf_ObjectTypeId :: "u16 \<times> string" where
  "namespaceOf_ObjectTypeId = (0, ''http://opcfoundation.org/UA/'')"

definition namespaceOf_VariableTypeId :: "u16 \<times> string" where
  "namespaceOf_VariableTypeId = (0, ''http://opcfoundation.org/UA/'')"

definition NodeId_of_enum :: "u16 \<times> string \<Rightarrow> int \<Rightarrow> NodeId" where
  "NodeId_of_enum ns v = NodeId_numeric (fst ns) (of_int v)"

section \<open>Lookup\<close>

text \<open>\<open>defined\<close> tells which macros the C library defines, \<open>index_of\<close> their values; \<open>UA_TYPES\<close> is its table of data types. A
  guarded entry counts when its macro is defined.\<close>

definition registered :: "(string \<Rightarrow> bool) \<Rightarrow> (string \<times> string) list" where
  "registered is_defined = map snd (filter (\<lambda>e. is_defined (fst e)) registry)"

definition registry_index :: "(string \<Rightarrow> bool) \<Rightarrow> string \<Rightarrow> string option" where
  "registry_index is_defined t = (case map_of basic_registry t of
      Some i \<Rightarrow> Some i
    | None \<Rightarrow> map_of (registered is_defined) t)"

definition isRegistered :: "(string \<Rightarrow> bool) \<Rightarrow> string \<Rightarrow> bool" where
  "isRegistered is_defined t = (registry_index is_defined t \<noteq> None)"

definition getDataType :: "(string \<Rightarrow> bool) \<Rightarrow> (string \<Rightarrow> nat) \<Rightarrow> (nat \<Rightarrow> 'd) \<Rightarrow> string \<Rightarrow> 'd option" where
  "getDataType is_defined index_of UA_TYPES t = map_option (\<lambda>i. UA_TYPES (index_of i)) (registry_index is_defined t)"

section \<open>The tables are consistent\<close>

text \<open>ASCII letters in upper case: a lower-case letter has bits 5 and 6.\<close>

fun ascii_upper :: "char \<Rightarrow> char" where
  "ascii_upper (Char b0 b1 b2 b3 b4 b5 b6 b7) = Char b0 b1 b2 b3 b4 (b5 \<and> \<not> b6) b6 b7"

definition own_index :: "string \<Rightarrow> string" where
  "own_index t = ''UA_TYPES_'' @ map ascii_upper (drop 3 t)"

definition entry_ok :: "registry_entry \<Rightarrow> bool" where
  "entry_ok e = (case e of (g, t, i) \<Rightarrow> g = i \<and> i = own_index t)"

lemma registry_parts_ok:
  "list_all entry_ok registry_1" "list_all entry_ok registry_2" "list_all entry_ok registry_3"
  "list_all entry_ok registry_4" "list_all entry_ok registry_5" "list_all entry_ok registry_6"
  by code_simp+

lemma registry_ok: "e \<in> set registry \<Longrightarrow> entry_ok e"
  using registry_parts_ok by (auto simp: registry_def list_all_iff)

lemma basic_ok: "(t, i) \<in> set basic_registry \<Longrightarrow> i = own_index t"
proof -
  have "list_all (\<lambda>(t, i). i = own_index t) basic_registry" by code_simp
  then show "(t, i) \<in> set basic_registry \<Longrightarrow> i = own_index t" by (auto simp: list_all_iff)
qed

text \<open>The types of the guarded entries increase, and the builtin types, sorted, are merged with them without a match.\<close>

fun apart :: "'a::linorder list \<Rightarrow> 'a list \<Rightarrow> bool" where
  "apart [] ys = True"
| "apart (x # xs) [] = True"
| "apart (x # xs) (y # ys) = (if x < y then apart xs (y # ys) else if y < x then apart (x # xs) ys else False)"

lemma apart_disjoint:
  "sorted_wrt (<) xs \<Longrightarrow> sorted_wrt (<) ys \<Longrightarrow> apart xs ys \<Longrightarrow> set xs \<inter> set ys = {}"
  by (induction xs ys rule: apart.induct) (auto split: if_splits)

definition guarded_types :: "string list" where
  "guarded_types = map (\<lambda>e. fst (snd e)) registry"

lemma guarded_types_sorted: "sorted_wrt (<) guarded_types"
proof -
  have "successively (<) guarded_types" by code_simp
  then show ?thesis by (simp add: successively_conv_sorted_wrt)
qed

lemma basic_types_distinct: "distinct (map fst basic_registry)"
  by code_simp

lemma basic_types_apart: "set (map fst basic_registry) \<inter> set guarded_types = {}"
proof -
  let ?b = "sort (map fst basic_registry)"
  have "apart (foldr insort (map fst basic_registry) []) guarded_types" by code_simp
  then have "apart ?b guarded_types" by (simp add: sort_key_def id_def)
  moreover have "sorted_wrt (<) ?b" using basic_types_distinct by (simp add: strict_sorted_iff)
  ultimately have "set ?b \<inter> set guarded_types = {}" using guarded_types_sorted by (intro apart_disjoint)
  then show ?thesis by simp
qed

lemma registered_types_distinct: "distinct (map fst (basic_registry @ registered is_defined))"
proof -
  have t: "map fst (registered is_defined) = map (\<lambda>e. fst (snd e)) (filter (\<lambda>e. is_defined (fst e)) registry)"
    by (simp add: registered_def)
  have "distinct guarded_types" using guarded_types_sorted by (simp add: strict_sorted_iff)
  then have "distinct (map fst (registered is_defined))" unfolding t guarded_types_def by (rule distinct_map_filter)
  moreover have "set (map fst (registered is_defined)) \<subseteq> set guarded_types" unfolding t guarded_types_def by auto
  ultimately show ?thesis using basic_types_distinct basic_types_apart by auto
qed

lemma registry_index_registered:
  assumes "(t, i) \<in> set (basic_registry @ registered is_defined)"
  shows "registry_index is_defined t = Some i"
proof -
  have "map_of (basic_registry @ registered is_defined) t = Some i"
    using assms registered_types_distinct by (intro map_of_is_SomeI)
  then show ?thesis by (auto simp: registry_index_def map_add_def split: option.splits)
qed

text \<open>Whatever the configuration of the C library defines, no native type is registered twice, a guarded registration uses only a macro
  that is defined, and every registered type gets the entry of \<open>UA_TYPES\<close> that carries its own name; types without a registration get none.\<close>

theorem type_registry_consistent:
  shows "distinct (map fst (basic_registry @ registered is_defined))
    \<and> (\<forall>t i. (t, i) \<in> set (registered is_defined) \<longrightarrow> is_defined i)
    \<and> (\<forall>t. isRegistered is_defined t \<longleftrightarrow> t \<in> set (map fst (basic_registry @ registered is_defined)))
    \<and> (\<forall>t. isRegistered is_defined t \<longrightarrow> getDataType is_defined index_of UA_TYPES t = Some (UA_TYPES (index_of (own_index t))))
    \<and> (\<forall>t. \<not> isRegistered is_defined t \<longrightarrow> getDataType is_defined index_of UA_TYPES t = None)"
proof (intro conjI allI impI)
  have ok: "i = own_index t" if "(t, i) \<in> set (basic_registry @ registered is_defined)" for t i
    using that basic_ok registry_ok by (fastforce simp: registered_def entry_ok_def)
  show "distinct (map fst (basic_registry @ registered is_defined))" by (rule registered_types_distinct)
  show "is_defined i" if "(t, i) \<in> set (registered is_defined)" for t i
    using that registry_ok by (fastforce simp: registered_def entry_ok_def)
  have reg: "\<exists>i. (t, i) \<in> set (basic_registry @ registered is_defined)" if "isRegistered is_defined t" for t
    using that by (auto simp: isRegistered_def registry_index_def split: option.splits dest: map_of_SomeD)
  show "isRegistered is_defined t \<longleftrightarrow> t \<in> set (map fst (basic_registry @ registered is_defined))" for t
    using reg[of t] registry_index_registered[of t] by (force simp: isRegistered_def)
  show "getDataType is_defined index_of UA_TYPES t = Some (UA_TYPES (index_of (own_index t)))" if "isRegistered is_defined t" for t
  proof -
    obtain i where "(t, i) \<in> set (basic_registry @ registered is_defined)" using reg[OF \<open>isRegistered is_defined t\<close>] by blast
    with registry_index_registered ok show ?thesis by (auto simp: getDataType_def)
  qed
  show "getDataType is_defined index_of UA_TYPES t = None" if "\<not> isRegistered is_defined t" for t
    using that by (simp add: getDataType_def isRegistered_def)
qed

theorem type_registry_consistent_witness:
  "getDataType (\<lambda>_. False) length (\<lambda>n. n) ''UA_Guid'' = Some 13"
proof -
  have "''UA_Guid'' \<in> set (map fst (basic_registry @ registered (\<lambda>_. False)))" by (simp add: basic_registry_def)
  then have "isRegistered (\<lambda>_. False) ''UA_Guid''"
    and "isRegistered (\<lambda>_. False) ''UA_Guid'' \<longrightarrow>
      getDataType (\<lambda>_. False) length (\<lambda>n. n) ''UA_Guid'' = Some (length (own_index ''UA_Guid''))"
    using type_registry_consistent[of "\<lambda>_. False" length "\<lambda>n::nat. n"] by blast+
  then show ?thesis by (simp add: own_index_def)
qed

section \<open>Node ids of enumerators\<close>

text \<open>The values increase and fit the underlying type \<open>int32_t\<close> as positive numbers.\<close>

definition enum_table :: "(string \<times> int) list \<Rightarrow> bool" where
  "enum_table es = (successively (<) (map snd es) \<and> list_all (\<lambda>e. 0 < snd e \<and> snd e < 2 ^ 31) es)"

lemma enum_tables:
  "enum_table DataTypeId" "enum_table ReferenceTypeId" "enum_table ObjectTypeId" "enum_table VariableTypeId"
  by code_simp+

lemma enum_table_node_ids:
  assumes "enum_table es" "(n, v) \<in> set es" "(n', v') \<in> set es" "NodeId_of_enum ns v = NodeId_of_enum ns v'"
  shows "n = n' \<and> v = v'"
proof -
  have b: "0 < v" "v < 2 ^ 31" "0 < v'" "v' < 2 ^ 31" using assms(1-3) by (auto simp: enum_table_def list_all_iff)
  have "(of_int v :: u32) = of_int v'" using assms(4) by (simp add: NodeId_of_enum_def NodeId_numeric_def)
  then have "uint (of_int v :: u32) = uint (of_int v' :: u32)" by simp
  then have v: "v = v'" using b by (simp add: uint_word_of_int_eq take_bit_int_eq_self)
  have "sorted_wrt (<) (map snd es)" using assms(1) by (simp add: enum_table_def successively_conv_sorted_wrt)
  then have "distinct (map snd es)" by (simp add: strict_sorted_iff)
  then have "inj_on snd (set es)" by (simp add: distinct_map)
  from inj_onD[OF this, of "(n, v)" "(n', v')"] have "n = n'" using v assms(2,3) by simp
  then show ?thesis using v by blast
qed

end
